(* ===== verification/Prelude.thy ===== *)
theory Prelude
  imports Complex_Main "HOL-Library.AList" "HOL-Library.Multiset"
begin

text \<open>
  What the components of the operator share: Go's built-in maps and the order in
  which \<^verbatim>\<open>range\<close> visits them, the outcome of a call that may return an error or
  panic, and the collections of rules the component proofs use.

  A Go map is an association list with distinct keys; \<^verbatim>\<open>m[k] = v\<close> is \<open>AList.update\<close>
  and \<^verbatim>\<open>v, ok := m[k]\<close> is \<open>map_of\<close>. Ranging over a map visits every entry once, in an
  order the runtime chooses anew for each loop. That choice is an argument of every
  definition with such a loop: \<open>ord t n\<close> is the order (a permutation of the positions
  below \<open>n\<close>) in which loop number \<open>t\<close> visits a map with \<open>n\<close> entries. A theorem that
  assumes \<open>valid_order ord\<close> and nothing more holds for every choice of the runtime.
\<close>

named_theorems gomap_simps \<open>lookups in Go maps\<close>
named_theorems change_simps \<open>what a diff adds to a change set\<close>
named_theorems compile_defs \<open>definitions of the compiler's passes\<close>

section \<open>Outcomes\<close>

datatype 'a outcome = Ok 'a | Err string | Panic string

definition returns :: "'a outcome \<Rightarrow> bool" where
  "returns r \<longleftrightarrow> (case r of Ok _ \<Rightarrow> True | Err _ \<Rightarrow> True | Panic _ \<Rightarrow> False)"

lemma returns_simps [simp]:
  "returns (Ok x)" "returns (Err e)" "\<not> returns (Panic p)"
  by (simp_all add: returns_def)

text \<open>
  A call that reads or changes the state \<open>'s\<close> of a remote service (or of the cluster) and
  may fail. \<open>andThen\<close> is the code's \<^verbatim>\<open>if err != nil { return err }\<close>, \<open>wrap_err\<close> its
  \<^verbatim>\<open>fmt.Errorf("...: %w", err)\<close>; a panic unwinds through both.
\<close>

type_synonym ('s, 'a) action = "'s \<Rightarrow> 'a outcome \<times> 's"

definition give :: "'a \<Rightarrow> ('s, 'a) action" where
  "give x s = (Ok x, s)"

definition fail :: "string \<Rightarrow> ('s, 'a) action" where
  "fail e s = (Err e, s)"

definition andThen :: "('s, 'a) action \<Rightarrow> ('a \<Rightarrow> ('s, 'b) action) \<Rightarrow> ('s, 'b) action" where
  "andThen m f s = (case m s of
      (Ok x, s') \<Rightarrow> f x s'
    | (Err e, s') \<Rightarrow> (Err e, s')
    | (Panic p, s') \<Rightarrow> (Panic p, s'))"

definition wrap_err :: "string \<Rightarrow> ('s, 'a) action \<Rightarrow> ('s, 'a) action" where
  "wrap_err msg m s = (case m s of (Err e, s') \<Rightarrow> (Err (msg @ '': '' @ e), s') | r \<Rightarrow> r)"

definition or_else :: "('s, 'a) action \<Rightarrow> (string \<Rightarrow> ('s, 'a) action) \<Rightarrow> ('s, 'a) action" where
  "or_else m h s = (case m s of (Err e, s') \<Rightarrow> h e s' | r \<Rightarrow> r)"

lemma andThen_Ok [simp]: "m s = (Ok x, s') \<Longrightarrow> andThen m f s = f x s'"
  by (simp add: andThen_def)

lemma andThen_Err [simp]: "m s = (Err e, s') \<Longrightarrow> andThen m f s = (Err e, s')"
  by (simp add: andThen_def)

lemma wrap_err_Ok [simp]: "m s = (Ok x, s') \<Longrightarrow> wrap_err e m s = (Ok x, s')"
  by (simp add: wrap_err_def)

lemma wrap_err_Err [simp]: "m s = (Err e, s') \<Longrightarrow> wrap_err msg m s = (Err (msg @ '': '' @ e), s')"
  by (simp add: wrap_err_def)

text \<open>An action that never panics, in any state.\<close>

definition no_panic :: "('s, 'a) action \<Rightarrow> bool" where
  "no_panic m \<longleftrightarrow> (\<forall>s. returns (fst (m s)))"

lemma no_panicD: "no_panic m \<Longrightarrow> m s = (q, s') \<Longrightarrow> returns q"
  by (metis fst_conv no_panic_def)

lemma no_panic_give [intro, simp]: "no_panic (give x)"
  by (simp add: no_panic_def give_def)

lemma no_panic_fail [intro, simp]: "no_panic (fail e)"
  by (simp add: no_panic_def fail_def)

lemma no_panic_andThen [intro]:
  assumes "no_panic m" and "\<And>x. no_panic (f x)"
  shows "no_panic (andThen m f)"
  unfolding no_panic_def
proof
  fix s
  obtain q s' where q: "m s = (q, s')" by fastforce
  then have "returns q" by (rule no_panicD [OF assms(1)])
  then show "returns (fst (andThen m f s))"
    using q assms(2) by (cases q) (auto simp: andThen_def no_panic_def)
qed

lemma no_panic_wrap_err [intro]:
  assumes "no_panic m"
  shows "no_panic (wrap_err e m)"
  unfolding no_panic_def
proof
  fix s
  obtain q s' where q: "m s = (q, s')" by fastforce
  then have "returns q" by (rule no_panicD [OF assms])
  then show "returns (fst (wrap_err e m s))"
    using q by (cases q) (auto simp: wrap_err_def)
qed

lemma no_panic_or_else [intro]:
  assumes "no_panic m" and "\<And>e. no_panic (h e)"
  shows "no_panic (or_else m h)"
  unfolding no_panic_def
proof
  fix s
  obtain q s' where q: "m s = (q, s')" by fastforce
  then have "returns q" by (rule no_panicD [OF assms(1)])
  then show "returns (fst (or_else m h s))"
    using q assms(2) by (cases q) (auto simp: or_else_def no_panic_def)
qed

section \<open>Go maps\<close>

type_synonym ('k, 'v) gomap = "('k \<times> 'v) list"

definition gm_ok :: "('k, 'v) gomap \<Rightarrow> bool" where
  "gm_ok m \<longleftrightarrow> distinct (map fst m)"

definition gm_set :: "'k \<Rightarrow> 'v \<Rightarrow> ('k, 'v) gomap \<Rightarrow> ('k, 'v) gomap" where
  "gm_set k v m = AList.update k v m"

text \<open>\<^verbatim>\<open>m := make(map[K]V); for _, x := range xs { m[key(x)] = x }\<close>\<close>

definition index_by :: "('a \<Rightarrow> 'k) \<Rightarrow> 'a list \<Rightarrow> ('k, 'a) gomap" where
  "index_by key xs = fold (\<lambda>x m. gm_set (key x) x m) xs []"

text \<open>\<^verbatim>\<open>s := make(map[K]bool); for _, x := range xs { s[x] = true }\<close>\<close>

definition set_of_slice :: "'k list \<Rightarrow> ('k, bool) gomap" where
  "set_of_slice xs = fold (\<lambda>x m. gm_set x True m) xs []"

text \<open>\<^verbatim>\<open>m[k]\<close> in a boolean position: a missing key reads as the zero value.\<close>

definition gm_flag :: "('k, bool) gomap \<Rightarrow> 'k \<Rightarrow> bool" where
  "gm_flag m k = (case map_of m k of None \<Rightarrow> False | Some b \<Rightarrow> b)"

lemma gm_ok_Nil [simp]: "gm_ok []"
  by (simp add: gm_ok_def)

lemma gm_ok_set [simp]: "gm_ok m \<Longrightarrow> gm_ok (gm_set k v m)"
  by (simp add: gm_ok_def gm_set_def distinct_update)

lemma map_of_gm_set [simp, gomap_simps]: "map_of (gm_set k v m) = (map_of m)(k \<mapsto> v)"
  by (simp add: gm_set_def update_conv')

lemma gm_ok_fold_set: "gm_ok m \<Longrightarrow> gm_ok (fold (\<lambda>x m. gm_set (f x) (g x) m) xs m)"
  by (induction xs arbitrary: m) auto

lemma gm_ok_index_by [simp]: "gm_ok (index_by key xs)"
  by (simp add: index_by_def gm_ok_fold_set)

text \<open>The last element with a key: what indexing a slice by that key leaves in the map.\<close>

definition latest :: "('a \<Rightarrow> 'k) \<Rightarrow> 'a list \<Rightarrow> 'k \<Rightarrow> 'a option" where
  "latest key xs k = find (\<lambda>x. key x = k) (rev xs)"

lemma find_append: "find P (xs @ ys) = (case find P xs of None \<Rightarrow> find P ys | Some x \<Rightarrow> Some x)"
  by (induction xs) auto

lemma latest_Nil [simp]: "latest key [] k = None"
  by (simp add: latest_def)

lemma latest_snoc: "latest key (xs @ [x]) k = (if key x = k then Some x else latest key xs k)"
  by (simp add: latest_def)

lemma map_of_index_by [gomap_simps]: "map_of (index_by key xs) k = latest key xs k"
proof (induction xs rule: rev_induct)
  case Nil
  then show ?case by (simp add: index_by_def)
next
  case (snoc x xs)
  then show ?case by (simp add: index_by_def latest_snoc)
qed

lemma latest_SomeD: "latest key xs k = Some x \<Longrightarrow> x \<in> set xs \<and> key x = k"
  by (auto simp: latest_def find_Some_iff) (metis nth_mem length_rev set_rev)

lemma latest_None_iff: "latest key xs k = None \<longleftrightarrow> k \<notin> key ` set xs"
  by (auto simp: latest_def find_None_iff)

lemma latest_distinct:
  "distinct (map key xs) \<Longrightarrow> x \<in> set xs \<Longrightarrow> latest key xs (key x) = Some x"
proof (induction xs rule: rev_induct)
  case (snoc y xs)
  then show ?case by (auto simp: latest_snoc)
qed simp

lemma map_of_set_of_slice [gomap_simps]:
  "map_of (set_of_slice xs) k = (if k \<in> set xs then Some True else None)"
proof -
  have "map_of (fold (\<lambda>x m. gm_set x True m) xs m) k
      = (if k \<in> set xs then Some True else map_of m k)" for m
    by (induction xs arbitrary: m) auto
  then show ?thesis by (simp add: set_of_slice_def)
qed

lemma gm_flag_set_of_slice [simp, gomap_simps]: "gm_flag (set_of_slice xs) k \<longleftrightarrow> k \<in> set xs"
  by (simp add: gm_flag_def map_of_set_of_slice)

section \<open>Ranging over a map\<close>

type_synonym range_order = "nat \<Rightarrow> nat \<Rightarrow> nat list"

definition valid_order :: "range_order \<Rightarrow> bool" where
  "valid_order ord \<longleftrightarrow> (\<forall>t n. mset (ord t n) = mset [0..<n])"

definition gm_range :: "range_order \<Rightarrow> nat \<Rightarrow> ('k, 'v) gomap \<Rightarrow> ('k \<times> 'v) list" where
  "gm_range ord t m = map (\<lambda>i. m ! i) (ord t (length m))"

text \<open>Two runtimes: one visits a map in insertion order, one backwards.\<close>

definition forward_order :: range_order where
  "forward_order t n = [0..<n]"

definition backward_order :: range_order where
  "backward_order t n = rev [0..<n]"

lemma valid_forward_order: "valid_order forward_order"
  by (simp add: valid_order_def forward_order_def)

lemma valid_backward_order: "valid_order backward_order"
  by (simp add: valid_order_def backward_order_def)

lemma mset_gm_range:
  assumes "valid_order ord"
  shows "mset (gm_range ord t m) = mset m"
proof -
  have "mset (gm_range ord t m) = image_mset (\<lambda>i. m ! i) (mset (ord t (length m)))"
    by (simp add: gm_range_def)
  also have "\<dots> = mset (map (\<lambda>i. m ! i) [0..<length m])"
    using assms by (simp add: valid_order_def)
  also have "\<dots> = mset m"
    by (simp only: map_nth)
  finally show ?thesis .
qed

lemma set_gm_range [simp]: "valid_order ord \<Longrightarrow> set (gm_range ord t m) = set m"
  using mset_gm_range by (metis set_mset_mset)

lemma length_gm_range [simp]: "valid_order ord \<Longrightarrow> length (gm_range ord t m) = length m"
  using mset_gm_range by (metis size_mset)

lemma set_gm_map_of: "gm_ok m \<Longrightarrow> (k, v) \<in> set m \<longleftrightarrow> map_of m k = Some v"
  by (simp add: gm_ok_def)

lemma set_index_by: "(k, x) \<in> set (index_by key xs) \<longleftrightarrow> latest key xs k = Some x"
  by (simp add: set_gm_map_of map_of_index_by)

lemma mset_concat_map: "mset (concat (map f xs)) = (\<Sum>x\<in>#mset xs. mset (f x))"
  by (induction xs) auto

lemma mset_concat_range:
  assumes "valid_order ord" and "valid_order ord'"
  shows "mset (concat (map f (gm_range ord t m))) = mset (concat (map f (gm_range ord' t' m)))"
  using assms by (simp add: mset_concat_map mset_gm_range)

lemma distinct_gm_range:
  assumes "valid_order ord" and "gm_ok m"
  shows "distinct (map fst (gm_range ord t m))"
proof -
  have "mset (map fst (gm_range ord t m)) = mset (map fst m)"
    using mset_gm_range [OF assms(1), of t m] by simp
  then show ?thesis using assms(2) unfolding gm_ok_def by (metis mset_eq_imp_distinct_iff)
qed

lemma map_of_gm_range:
  assumes "valid_order ord" and "gm_ok m"
  shows "map_of (gm_range ord t m) = map_of m"
proof
  fix k
  have "map_of (gm_range ord t m) k = Some v \<longleftrightarrow> map_of m k = Some v" for v
    using distinct_gm_range [OF assms, of t] assms by (simp add: gm_ok_def map_of_eq_Some_iff)
  then show "map_of (gm_range ord t m) k = map_of m k"
    by (cases "map_of m k"; cases "map_of (gm_range ord t m) k") auto
qed

text \<open>The orders of the loops of the \<open>k\<close>-th of several diffs, which has two loops.\<close>

definition diff_order :: "nat \<Rightarrow> range_order \<Rightarrow> range_order" where
  "diff_order k ord = (\<lambda>t. ord (2 * k + t))"

lemma valid_diff_order [simp]: "valid_order ord \<Longrightarrow> valid_order (diff_order k ord)"
  by (simp add: valid_order_def diff_order_def)

end
