(* ===== verification/Go_Std.thy ===== *)
theory Go_Std
  imports Prelude
begin

text \<open>
  The parts of Go's standard library the operator's pure code calls: \<^verbatim>\<open>strings\<close>,
  \<^verbatim>\<open>strconv\<close> and the fragment of \<^verbatim>\<open>net/url\<close> behind \<^verbatim>\<open>url.Parse\<close>, \<^verbatim>\<open>Hostname\<close> and
  \<^verbatim>\<open>Port\<close> (Go 1.24.6, the version of \<^verbatim>\<open>src/go.mod\<close>). A Go string is a sequence of
  bytes, here a list of \<^typ>\<open>char\<close>. \<^verbatim>\<open>strings.ToLower\<close> is written out for ASCII
  letters; other bytes are left alone.
\<close>

section \<open>Bytes and strings\<close>

abbreviation code :: "char \<Rightarrow> nat" where
  "code c \<equiv> of_char c"

definition is_digit :: "char \<Rightarrow> bool" where
  "is_digit c \<longleftrightarrow> 48 \<le> code c \<and> code c \<le> 57"

definition is_upper :: "char \<Rightarrow> bool" where
  "is_upper c \<longleftrightarrow> 65 \<le> code c \<and> code c \<le> 90"

definition is_lower :: "char \<Rightarrow> bool" where
  "is_lower c \<longleftrightarrow> 97 \<le> code c \<and> code c \<le> 122"

definition is_alpha :: "char \<Rightarrow> bool" where
  "is_alpha c \<longleftrightarrow> is_upper c \<or> is_lower c"

definition to_lower_char :: "char \<Rightarrow> char" where
  "to_lower_char c = (if is_upper c then char_of (code c + 32) else c)"

definition ToLower :: "string \<Rightarrow> string" where
  "ToLower s = map to_lower_char s"

fun HasPrefix :: "string \<Rightarrow> string \<Rightarrow> bool" where
  "HasPrefix s [] = True"
| "HasPrefix [] (p # ps) = False"
| "HasPrefix (c # cs) (p # ps) = (c = p \<and> HasPrefix cs ps)"

definition TrimPrefix :: "string \<Rightarrow> string \<Rightarrow> string" where
  "TrimPrefix s p = (if HasPrefix s p then drop (length p) s else s)"

fun Contains :: "string \<Rightarrow> string \<Rightarrow> bool" where
  "Contains [] sub = (sub = [])"
| "Contains (c # cs) sub = (HasPrefix (c # cs) sub \<or> Contains cs sub)"

lemma HasPrefix_append [simp]: "HasPrefix (p @ s) p"
  by (induction p) auto

lemma HasPrefix_iff: "HasPrefix s p \<longleftrightarrow> (\<exists>r. s = p @ r)"
  by (induction s p rule: HasPrefix.induct) auto

lemma TrimPrefix_append [simp]: "TrimPrefix (p @ s) p = s"
  by (simp add: TrimPrefix_def)

lemma TrimPrefix_inject:
  "HasPrefix s p \<Longrightarrow> HasPrefix t p \<Longrightarrow> TrimPrefix s p = TrimPrefix t p \<Longrightarrow> s = t"
  by (auto simp: HasPrefix_iff)

section \<open>Integers in decimal\<close>

definition digit_char :: "nat \<Rightarrow> char" where
  "digit_char d = char_of (48 + d)"

definition digit_val :: "char \<Rightarrow> nat" where
  "digit_val c = code c - 48"

fun itoa_nat :: "nat \<Rightarrow> string" where
  "itoa_nat n = (if n < 10 then [digit_char n] else itoa_nat (n div 10) @ [digit_char (n mod 10)])"

declare itoa_nat.simps [simp del]

definition Itoa :: "int \<Rightarrow> string" where
  "Itoa i = (if i < 0 then CHR ''-'' # itoa_nat (nat (- i)) else itoa_nat (nat i))"

definition digits_val :: "string \<Rightarrow> nat" where
  "digits_val s = foldl (\<lambda>a c. a * 10 + digit_val c) 0 s"

definition max_int :: int where
  "max_int = 2 ^ 63 - 1"

definition min_int :: int where
  "min_int = - (2 ^ 63)"

text \<open>
  \<^verbatim>\<open>strconv.Atoi\<close>: the value and whether the error is nil. A syntax error gives 0, an
  out-of-range number the nearest \<^verbatim>\<open>int\<close> (64 bits), both with an error.
\<close>

definition Atoi :: "string \<Rightarrow> int \<times> bool" where
  "Atoi s =
     (let (neg, ds) =
        (case s of [] \<Rightarrow> (False, [])
         | c # cs \<Rightarrow> if c = CHR ''-'' then (True, cs)
                     else if c = CHR ''+'' then (False, cs) else (False, s))
      in if ds = [] \<or> \<not> list_all is_digit ds then (0, False)
         else let v = (if neg then - int (digits_val ds) else int (digits_val ds))
              in if v > max_int then (max_int, False)
                 else if v < min_int then (min_int, False)
                 else (v, True))"

lemma code_digit_char [simp]: "d < 10 \<Longrightarrow> code (digit_char d) = 48 + d"
  by (simp add: digit_char_def)

lemma is_digit_digit_char [simp]: "d < 10 \<Longrightarrow> is_digit (digit_char d)"
  by (simp add: is_digit_def)

lemma digit_val_digit_char [simp]: "d < 10 \<Longrightarrow> digit_val (digit_char d) = d"
  by (simp add: digit_val_def)

lemma itoa_nat_digits: "list_all is_digit (itoa_nat n) \<and> itoa_nat n \<noteq> []"
proof (induction n rule: itoa_nat.induct)
  case (1 n)
  then show ?case by (subst itoa_nat.simps, subst (2) itoa_nat.simps) auto
qed

lemma digits_val_snoc: "digits_val (s @ [c]) = digits_val s * 10 + digit_val c"
  by (simp add: digits_val_def)

lemma digits_val_itoa_nat [simp]: "digits_val (itoa_nat n) = n"
proof (induction n rule: itoa_nat.induct)
  case (1 n)
  show ?case
  proof (cases "n < 10")
    case True
    then show ?thesis by (subst itoa_nat.simps) (simp add: digits_val_def)
  next
    case False
    with 1 have "digits_val (itoa_nat (n div 10)) = n div 10" by simp
    with False show ?thesis by (subst itoa_nat.simps) (simp add: digits_val_snoc)
  qed
qed

lemma itoa_nat_head: "itoa_nat n = c # cs \<Longrightarrow> c \<noteq> CHR ''-'' \<and> c \<noteq> CHR ''+''"
  using itoa_nat_digits [of n] by (auto simp: is_digit_def)

lemma Atoi_digits:
  assumes "ds \<noteq> []" and "list_all is_digit ds"
  shows "Atoi ds = (if int (digits_val ds) > max_int then (max_int, False)
                    else (int (digits_val ds), True))"
proof -
  obtain c cs where ds: "ds = c # cs" using assms(1) by (cases ds) auto
  then have "is_digit c" using assms(2) by simp
  then have "c \<noteq> CHR ''-''" "c \<noteq> CHR ''+''" by (auto simp: is_digit_def)
  then show ?thesis using assms ds by (auto simp: Atoi_def min_int_def)
qed

lemma Atoi_Itoa:
  assumes "min_int \<le> i" and "i \<le> max_int"
  shows "Atoi (Itoa i) = (i, True)"
proof (cases "i < 0")
  case True
  then show ?thesis
    using assms itoa_nat_digits [of "nat (- i)"]
    by (simp add: Atoi_def Itoa_def max_int_def)
next
  case False
  then show ?thesis
    using assms itoa_nat_digits [of "nat i"] by (simp add: Itoa_def Atoi_digits)
qed

section \<open>Conversion to \<^verbatim>\<open>float64\<close>\<close>

text \<open>
  \<^verbatim>\<open>float64(i)\<close>: exact below \<open>2\<^sup>5\<^sup>3\<close>, otherwise rounded to 53 significant bits, ties to even.
\<close>

fun bit_len :: "nat \<Rightarrow> nat" where
  "bit_len n = (if n = 0 then 0 else Suc (bit_len (n div 2)))"

declare bit_len.simps [simp del]

definition float64_of_int :: "int \<Rightarrow> rat" where
  "float64_of_int i =
     (let n = nat \<bar>i\<bar> in
      if n < 2 ^ 53 then of_int i
      else let e = bit_len n - 53; q = n div 2 ^ e; r = n mod 2 ^ e; half = 2 ^ (e - 1);
               q' = (if r > half \<or> (r = half \<and> odd q) then q + 1 else q)
           in of_int (sgn i) * of_nat (q' * 2 ^ e))"

end
