(* ===== verification/IR_Types.thy ===== *)
theory IR_Types
  imports Go_Std
begin

text \<open>
  The intermediate representation, \<^verbatim>\<open>src/internal/ir/v1\<close>: what the compiler produces
  and the adapters consume. One record per struct, with the struct's fields in order;
  a field \<^verbatim>\<open>F\<close> of a struct is the selector \<open>p_F\<close> with the prefix \<open>p\<close> of its record.
  A pointer is an \<open>option\<close>, a slice a list (a nil and an empty slice are both \<open>[]\<close>,
  except where the code tests for nil), a map an association list, a \<^verbatim>\<open>float64\<close> its
  exact rational value, a time a number of seconds. Integers are unbounded: the code
  does no arithmetic on them that could leave 64 bits.
\<close>

section \<open>Dynamic values\<close>

text \<open>The values the code stores in an \<^verbatim>\<open>interface{}\<close> field.\<close>

datatype GoValue =
    VNil
  | VString string
  | VBool bool
  | VInt int
  | VFloat rat
  | VInts "int list"
  | VList "GoValue list"

section \<open>Health\<close>

type_synonym HealthIssueType = string

definition HealthIssueTypeError :: HealthIssueType where
  "HealthIssueTypeError = ''error''"

definition HealthIssueTypeWarning :: HealthIssueType where
  "HealthIssueTypeWarning = ''warning''"

definition HealthIssueTypeNotice :: HealthIssueType where
  "HealthIssueTypeNotice = ''notice''"

section \<open>Connection and host configuration\<close>

record AuthenticationIR =
  auth_Method :: string
  auth_Username :: string
  auth_Password :: string
  auth_AuthenticationRequired :: string

record ConnectionIR =
  conn_URL :: string
  conn_APIKey :: string
  conn_InsecureSkipVerify :: bool

section \<open>Resources keyed by name or order\<close>

record DelayProfileIR =
  dp_ID :: int
  dp_Name :: string
  dp_Order :: int
  dp_PreferredProtocol :: string
  dp_UsenetDelay :: int
  dp_TorrentDelay :: int
  dp_EnableUsenet :: bool
  dp_EnableTorrent :: bool
  dp_BypassIfHighestQuality :: bool
  dp_BypassIfAboveCustomFormatScore :: bool
  dp_MinimumCustomFormatScore :: int
  dp_Tags :: "int list"
  dp_TagNames :: "string list"

record DownloadClientIR =
  dc_ID :: int
  dc_Name :: string
  dc_Protocol :: string
  dc_Implementation :: string
  dc_Enable :: bool
  dc_Priority :: int
  dc_RemoveCompletedDownloads :: bool
  dc_RemoveFailedDownloads :: bool
  dc_Host :: string
  dc_Port :: int
  dc_UseTLS :: bool
  dc_Username :: string
  dc_Password :: string
  dc_Category :: string
  dc_Directory :: string

record HealthIssue =
  hi_Source :: string
  hi_Type :: HealthIssueType
  hi_Message :: string
  hi_WikiURL :: string

record HealthStatus =
  hs_Healthy :: bool
  hs_Issues :: "HealthIssue list"

record ImportListIR =
  il_Name :: string
  il_Type :: string
  il_Enabled :: bool
  il_EnableAuto :: bool
  il_SearchOnAdd :: bool
  il_QualityProfileID :: int
  il_QualityProfileName :: string
  il_RootFolderPath :: string
  il_Monitor :: string
  il_MinimumAvailability :: string
  il_SeriesType :: string
  il_SeasonFolder :: bool
  il_ShouldMonitor :: string
  il_Settings :: "(string \<times> string) list"

record ProwlarrRefIR =
  pref_ConfigName :: string
  pref_AutoRegister :: bool
  pref_Include :: "string list"
  pref_Exclude :: "string list"

record IndexerIR =
  idx_ID :: int
  idx_Name :: string
  idx_Protocol :: string
  idx_Implementation :: string
  idx_Enable :: bool
  idx_Priority :: int
  idx_URL :: string
  idx_APIKey :: string
  idx_Categories :: "int list"
  idx_MinimumSeeders :: int
  idx_SeedRatio :: rat
  idx_SeedTimeMinutes :: int
  idx_EnableRss :: bool
  idx_EnableAutomaticSearch :: bool
  idx_EnableInteractiveSearch :: bool

record IndexersIR =
  idxs_ProwlarrRef :: "ProwlarrRefIR option"
  idxs_Direct :: "IndexerIR list"

record MediaManagementIR =
  mm_RecycleBin :: string
  mm_RecycleBinCleanupDays :: int
  mm_SetPermissions :: bool
  mm_ChmodFolder :: string
  mm_ChownGroup :: string
  mm_DeleteEmptyFolders :: bool
  mm_CreateEmptyFolders :: bool
  mm_UseHardlinks :: bool
  mm_WatchLibraryForChanges :: "bool option"
  mm_AllowFingerprinting :: string

section \<open>Naming\<close>

record RadarrNamingIR =
  rn_RenameMovies :: bool
  rn_ReplaceIllegalCharacters :: bool
  rn_ColonReplacementFormat :: int
  rn_StandardMovieFormat :: string
  rn_MovieFolderFormat :: string

record SonarrNamingIR =
  sn_RenameEpisodes :: bool
  sn_ReplaceIllegalCharacters :: bool
  sn_ColonReplacementFormat :: int
  sn_StandardEpisodeFormat :: string
  sn_DailyEpisodeFormat :: string
  sn_AnimeEpisodeFormat :: string
  sn_SeriesFolderFormat :: string
  sn_SeasonFolderFormat :: string
  sn_SpecialsFolderFormat :: string
  sn_MultiEpisodeStyle :: int

record LidarrNamingIR =
  ln_RenameTracks :: bool
  ln_ReplaceIllegalCharacters :: bool
  ln_ColonReplacementFormat :: int
  ln_StandardTrackFormat :: string
  ln_MultiDiscTrackFormat :: string
  ln_ArtistFolderFormat :: string
  ln_AlbumFolderFormat :: string

record NamingIR =
  nm_Radarr :: "RadarrNamingIR option"
  nm_Sonarr :: "SonarrNamingIR option"
  nm_Lidarr :: "LidarrNamingIR option"

section \<open>Notifications\<close>

record NotificationIR =
  nt_ID :: int
  nt_Name :: string
  nt_Implementation :: string
  nt_ConfigContract :: string
  nt_Enabled :: bool
  nt_OnGrab :: bool
  nt_OnDownload :: bool
  nt_OnUpgrade :: bool
  nt_OnRename :: bool
  nt_OnHealthIssue :: bool
  nt_OnHealthRestored :: bool
  nt_OnApplicationUpdate :: bool
  nt_OnManualInteractionRequired :: bool
  nt_IncludeHealthWarnings :: bool
  nt_OnMovieAdded :: bool
  nt_OnMovieDelete :: bool
  nt_OnMovieFileDelete :: bool
  nt_OnMovieFileDeleteForUpgrade :: bool
  nt_OnSeriesAdd :: bool
  nt_OnSeriesDelete :: bool
  nt_OnEpisodeFileDelete :: bool
  nt_OnEpisodeFileDeleteForUpgrade :: bool
  nt_OnReleaseImport :: bool
  nt_OnArtistAdd :: bool
  nt_OnArtistDelete :: bool
  nt_OnAlbumDelete :: bool
  nt_OnTrackRetag :: bool
  nt_OnDownloadFailure :: bool
  nt_OnImportFailure :: bool
  nt_Fields :: "(string \<times> GoValue) list"
  nt_Tags :: "int list"

section \<open>Quality\<close>

record VideoQualityTierIR =
  vt_Resolution :: string
  vt_Sources :: "string list"
  vt_Allowed :: bool

record FormatSpecIR =
  fs_Type :: string
  fs_Name :: string
  fs_Negate :: bool
  fs_Required :: bool
  fs_Value :: string

record CustomFormatIR =
  cf_ID :: int
  cf_Name :: string
  cf_IncludeWhenRenaming :: bool
  cf_Specifications :: "FormatSpecIR list"

record VideoQualityIR =
  vq_ProfileName :: string
  vq_UpgradeAllowed :: bool
  vq_Cutoff :: VideoQualityTierIR
  vq_Tiers :: "VideoQualityTierIR list"
  vq_CustomFormats :: "CustomFormatIR list"
  vq_FormatScores :: "(string \<times> int) list"
  vq_MinimumCustomFormatScore :: int
  vq_UpgradeUntilCustomFormatScore :: int

record AudioQualityTierIR =
  at_Tier :: string
  at_Allowed :: bool

record PreferredTermIR =
  pt_Term :: string
  pt_Score :: int

record ReleaseProfileIR =
  rp_ID :: "int option"
  rp_Name :: string
  rp_Enabled :: bool
  rp_Required :: "string list"
  rp_Ignored :: "string list"
  rp_Preferred :: "PreferredTermIR list"
  rp_IncludePreferredWhenRenaming :: bool
  rp_IndexerID :: int
  rp_Tags :: "int list"

record AudioQualityIR =
  aq_ProfileName :: string
  aq_UpgradeAllowed :: bool
  aq_Cutoff :: string
  aq_Tiers :: "AudioQualityTierIR list"
  aq_ReleaseProfile :: "ReleaseProfileIR option"
  aq_FormatScores :: "(string \<times> int) list"
  aq_MinimumCustomFormatScore :: int
  aq_UpgradeUntilCustomFormatScore :: int

record BookQualityTierIR =
  bt_Name :: string
  bt_Formats :: "string list"
  bt_Allowed :: bool

record BookQualityIR =
  bq_ProfileName :: string
  bq_UpgradeAllowed :: bool
  bq_Cutoff :: BookQualityTierIR
  bq_Tiers :: "BookQualityTierIR list"

record MetadataProfileIR =
  mp_ID :: "int option"
  mp_Name :: string
  mp_MinPopularity :: rat
  mp_SkipMissingDate :: bool
  mp_SkipMissingIsbn :: bool
  mp_SkipPartsAndSets :: bool
  mp_SkipSeriesSecondary :: bool
  mp_AllowedLanguages :: string

record QualityIR =
  q_Video :: "VideoQualityIR option"
  q_Audio :: "AudioQualityIR option"
  q_Book :: "BookQualityIR option"

section \<open>Paths\<close>

record RemotePathMappingIR =
  rpm_ID :: int
  rpm_Host :: string
  rpm_RemotePath :: string
  rpm_LocalPath :: string

record RootFolderIR =
  rf_Path :: string
  rf_Name :: string
  rf_DefaultMonitor :: string

section \<open>Prowlarr\<close>

record ProwlarrIndexerIR =
  pidx_Name :: string
  pidx_Definition :: string
  pidx_Enable :: bool
  pidx_Priority :: int
  pidx_BaseURL :: string
  pidx_APIKey :: string
  pidx_Settings :: "(string \<times> string) list"
  pidx_Tags :: "string list"

record IndexerProxyIR =
  px_Name :: string
  px_Type :: string
  px_Host :: string
  px_Port :: int
  px_Username :: string
  px_Password :: string
  px_RequestTimeout :: int
  px_Tags :: "string list"

record ProwlarrApplicationIR =
  app_Name :: string
  app_Type :: string
  app_ProwlarrURL :: string
  app_URL :: string
  app_APIKey :: string
  app_SyncCategories :: "int list"
  app_SyncLevel :: string
  app_Tags :: "string list"

record UnrealizedFeature =
  uf_Feature :: string
  uf_Reason :: string

record ProwlarrIR =
  pr_Connection :: "ConnectionIR option"
  pr_Indexers :: "ProwlarrIndexerIR list"
  pr_Proxies :: "IndexerProxyIR list"
  pr_Applications :: "ProwlarrApplicationIR list"
  pr_DownloadClients :: "DownloadClientIR list"
  pr_Unrealized :: "UnrealizedFeature list"

section \<open>The intermediate representation of one application\<close>

record IR =
  ir_Version :: string
  ir_GeneratedAt :: int
  ir_SourceHash :: string
  ir_App :: string
  ir_Connection :: "ConnectionIR option"
  ir_Quality :: "QualityIR option"
  ir_DownloadClients :: "DownloadClientIR list"
  ir_RemotePathMappings :: "RemotePathMappingIR list"
  ir_Indexers :: "IndexersIR option"
  ir_Naming :: "NamingIR option"
  ir_RootFolders :: "RootFolderIR list"
  ir_ImportLists :: "ImportListIR list"
  ir_Notifications :: "NotificationIR list"
  ir_CustomFormats :: "CustomFormatIR list"
  ir_DelayProfiles :: "DelayProfileIR list"
  ir_ReleaseProfiles :: "ReleaseProfileIR list"
  ir_MetadataProfiles :: "MetadataProfileIR option list"
  ir_MediaManagement :: "MediaManagementIR option"
  ir_Authentication :: "AuthenticationIR option"
  ir_Prowlarr :: "ProwlarrIR option"
  ir_Unrealized :: "UnrealizedFeature list"

section \<open>Constants\<close>

abbreviation IRVersion :: string where
  "IRVersion \<equiv> ''v1''"

abbreviation ProtocolTorrent :: string where
  "ProtocolTorrent \<equiv> ''torrent''"

abbreviation ProtocolUsenet :: string where
  "ProtocolUsenet \<equiv> ''usenet''"

abbreviation ProxyTypeFlareSolverr :: string where
  "ProxyTypeFlareSolverr \<equiv> ''flaresolverr''"

abbreviation ProxyTypeHTTP :: string where
  "ProxyTypeHTTP \<equiv> ''http''"

abbreviation ProxyTypeSocks4 :: string where
  "ProxyTypeSocks4 \<equiv> ''socks4''"

abbreviation ProxyTypeSocks5 :: string where
  "ProxyTypeSocks5 \<equiv> ''socks5''"

abbreviation AppTypeRadarr :: string where
  "AppTypeRadarr \<equiv> ''radarr''"

abbreviation AppTypeSonarr :: string where
  "AppTypeSonarr \<equiv> ''sonarr''"

abbreviation AppTypeLidarr :: string where
  "AppTypeLidarr \<equiv> ''lidarr''"

abbreviation AppTypeReadarr :: string where
  "AppTypeReadarr \<equiv> ''readarr''"

abbreviation SyncLevelFullSync :: string where
  "SyncLevelFullSync \<equiv> ''fullSync''"

text \<open>Newznab categories synchronised to an application when its spec names none.\<close>

definition DefaultSyncCategories :: "(string \<times> int list) list" where
  "DefaultSyncCategories =
    [(''radarr'', [2000, 2010, 2020, 2030, 2040, 2045, 2050, 2060]),
     (''sonarr'', [5000, 5010, 5020, 5030, 5040, 5045, 5050]),
     (''lidarr'', [3000, 3010, 3020, 3030, 3040]),
     (''readarr'', [7000, 7010, 7020, 7030, 8000, 8010])]"

section \<open>Zero values\<close>

text \<open>What Go stores in the fields a composite literal leaves out.\<close>

definition zero_VideoQualityTierIR :: VideoQualityTierIR where
  "zero_VideoQualityTierIR = \<lparr>vt_Resolution = '''', vt_Sources = [], vt_Allowed = False\<rparr>"

definition zero_BookQualityTierIR :: BookQualityTierIR where
  "zero_BookQualityTierIR = \<lparr>bt_Name = '''', bt_Formats = [], bt_Allowed = False\<rparr>"

definition zero_IR :: IR where
  "zero_IR =
    \<lparr>ir_Version = '''', ir_GeneratedAt = 0, ir_SourceHash = '''', ir_App = '''',
     ir_Connection = None, ir_Quality = None, ir_DownloadClients = [],
     ir_RemotePathMappings = [], ir_Indexers = None, ir_Naming = None, ir_RootFolders = [],
     ir_ImportLists = [], ir_Notifications = [], ir_CustomFormats = [], ir_DelayProfiles = [],
     ir_ReleaseProfiles = [], ir_MetadataProfiles = [], ir_MediaManagement = None,
     ir_Authentication = None, ir_Prowlarr = None, ir_Unrealized = []\<rparr>"

section \<open>Health predicates\<close>

text \<open>The loops of \<^verbatim>\<open>HasErrors\<close> and \<^verbatim>\<open>HasWarnings\<close> return at the first hit.\<close>

fun has_issue_of_type :: "HealthIssueType \<Rightarrow> HealthIssue list \<Rightarrow> bool" where
  "has_issue_of_type t [] = False"
| "has_issue_of_type t (issue # issues) = (if hi_Type issue = t then True else has_issue_of_type t issues)"

definition HasErrors :: "HealthStatus \<Rightarrow> bool" where
  "HasErrors h = has_issue_of_type HealthIssueTypeError (hs_Issues h)"

definition HasWarnings :: "HealthStatus \<Rightarrow> bool" where
  "HasWarnings h = has_issue_of_type HealthIssueTypeWarning (hs_Issues h)"

definition IssueKey :: "HealthIssue \<Rightarrow> string" where
  "IssueKey h = hi_Source h @ '':'' @ hi_Message h"

lemma has_issue_of_type_iff: "has_issue_of_type t xs \<longleftrightarrow> (\<exists>x\<in>set xs. hi_Type x = t)"
  by (induction xs) auto

end
