(* ===== verification/Adapter.thy ===== *)
theory Adapter
  imports IR_Types
begin

text \<open>
  \<^verbatim>\<open>src/internal/adapters/adapter.go\<close> and \<^verbatim>\<open>registry.go\<close>: what a service adapter
  exchanges with the reconciler (capabilities, change sets, apply results) and the
  registry of adapters by application. The payload of a change is an \<^verbatim>\<open>interface{}\<close>;
  its dynamic type matters because \<^verbatim>\<open>applyCreate\<close> and \<^verbatim>\<open>applyUpdate\<close> assert it, so
  \<open>Payload\<close> has one constructor per dynamic type the code stores there, and a value
  and a pointer to it are different constructors.
\<close>

section \<open>Data\<close>

record ServiceInfo =
  si_Version :: string
  si_StartTime :: int

record CustomFormatSpec =
  cfs_Name :: string
  cfs_Implementation :: string

record Capabilities =
  cap_DiscoveredAt :: int
  cap_Resolutions :: "string list"
  cap_Sources :: "string list"
  cap_CustomFormatSpecs :: "CustomFormatSpec list"
  cap_AudioTiers :: "string list"
  cap_DownloadClientTypes :: "string list"
  cap_IndexerTypes :: "string list"

datatype Payload =
    NoPayload
  | VideoQualityPtr VideoQualityIR
  | AudioQualityPtr AudioQualityIR
  | BookQualityPtr BookQualityIR
  | DownloadClientVal DownloadClientIR
  | DownloadClientPtr DownloadClientIR
  | IndexerVal IndexerIR
  | IndexerPtr IndexerIR
  | CustomFormatPtr CustomFormatIR
  | RootFolderVal RootFolderIR
  | RootFolderPtr RootFolderIR
  | RemotePathMappingPtr RemotePathMappingIR
  | DelayProfilePtr DelayProfileIR
  | NotificationPtr NotificationIR
  | NamingPtr NamingIR
  | RadarrNamingPtr RadarrNamingIR
  | SonarrNamingPtr SonarrNamingIR
  | LidarrNamingPtr LidarrNamingIR
  | MetadataProfilePtr MetadataProfileIR
  | ProwlarrIndexerVal ProwlarrIndexerIR
  | IndexerProxyVal IndexerProxyIR
  | ProwlarrApplicationVal ProwlarrApplicationIR

record Change =
  ch_ResourceType :: string
  ch_Name :: string
  ch_ID :: "int option"
  ch_Payload :: Payload

record ChangeSet =
  cs_Creates :: "Change list"
  cs_Updates :: "Change list"
  cs_Deletes :: "Change list"

record ApplyError =
  ae_Change :: Change
  ae_Error :: string

record ApplyResult =
  ar_Applied :: int
  ar_Failed :: int
  ar_Skipped :: int
  ar_Errors :: "ApplyError list"

definition no_changes :: ChangeSet where
  "no_changes = \<lparr>cs_Creates = [], cs_Updates = [], cs_Deletes = []\<rparr>"

definition zero_result :: ApplyResult where
  "zero_result = \<lparr>ar_Applied = 0, ar_Failed = 0, ar_Skipped = 0, ar_Errors = []\<rparr>"

definition change_of_type :: "string \<Rightarrow> Change" where
  "change_of_type t = \<lparr>ch_ResourceType = t, ch_Name = '''', ch_ID = None, ch_Payload = NoPayload\<rparr>"

definition IsEmpty :: "ChangeSet \<Rightarrow> bool" where
  "IsEmpty cs \<longleftrightarrow> length (cs_Creates cs) = 0 \<and> length (cs_Updates cs) = 0 \<and> length (cs_Deletes cs) = 0"

definition TotalChanges :: "ChangeSet \<Rightarrow> nat" where
  "TotalChanges cs = length (cs_Creates cs) + length (cs_Updates cs) + length (cs_Deletes cs)"

definition Success :: "ApplyResult \<Rightarrow> bool" where
  "Success ar \<longleftrightarrow> ar_Failed ar = 0 \<and> length (ar_Errors ar) = 0"

lemma Success_zero [simp]: "Success zero_result"
  by (simp add: Success_def zero_result_def)

section \<open>Constants\<close>

abbreviation AppRadarr :: string where "AppRadarr \<equiv> ''radarr''"
abbreviation AppSonarr :: string where "AppSonarr \<equiv> ''sonarr''"
abbreviation AppLidarr :: string where "AppLidarr \<equiv> ''lidarr''"
abbreviation AppReadarr :: string where "AppReadarr \<equiv> ''readarr''"
abbreviation AppProwlarr :: string where "AppProwlarr \<equiv> ''prowlarr''"

abbreviation ResourceQualityProfile :: string where "ResourceQualityProfile \<equiv> ''QualityProfile''"
abbreviation ResourceCustomFormat :: string where "ResourceCustomFormat \<equiv> ''CustomFormat''"
abbreviation ResourceDownloadClient :: string where "ResourceDownloadClient \<equiv> ''DownloadClient''"
abbreviation ResourceIndexer :: string where "ResourceIndexer \<equiv> ''Indexer''"
abbreviation ResourceRootFolder :: string where "ResourceRootFolder \<equiv> ''RootFolder''"
abbreviation ResourceNamingConfig :: string where "ResourceNamingConfig \<equiv> ''NamingConfig''"
abbreviation ResourceMetadataProfile :: string where "ResourceMetadataProfile \<equiv> ''MetadataProfile''"
abbreviation ResourceApplication :: string where "ResourceApplication \<equiv> ''Application''"
abbreviation ResourceImportList :: string where "ResourceImportList \<equiv> ''ImportList''"
abbreviation ResourceMediaManagement :: string where "ResourceMediaManagement \<equiv> ''MediaManagement''"
abbreviation ResourceAuthentication :: string where "ResourceAuthentication \<equiv> ''Authentication''"
abbreviation ResourceRemotePathMapping :: string where "ResourceRemotePathMapping \<equiv> ''RemotePathMapping''"
abbreviation ResourceNotification :: string where "ResourceNotification \<equiv> ''Notification''"
abbreviation ResourceDelayProfile :: string where "ResourceDelayProfile \<equiv> ''DelayProfile''"

section \<open>Growing a change set\<close>

text \<open>\<^verbatim>\<open>changes.Creates = append(changes.Creates, c)\<close> and its two siblings.\<close>

definition add_create :: "Change \<Rightarrow> ChangeSet \<Rightarrow> ChangeSet" where
  "add_create c cs = cs\<lparr>cs_Creates := cs_Creates cs @ [c]\<rparr>"

definition add_update :: "Change \<Rightarrow> ChangeSet \<Rightarrow> ChangeSet" where
  "add_update c cs = cs\<lparr>cs_Updates := cs_Updates cs @ [c]\<rparr>"

definition add_delete :: "Change \<Rightarrow> ChangeSet \<Rightarrow> ChangeSet" where
  "add_delete c cs = cs\<lparr>cs_Deletes := cs_Deletes cs @ [c]\<rparr>"

text \<open>Appending all three parts at once: what a run of a diff contributes.\<close>

definition cs_append :: "ChangeSet \<Rightarrow> ChangeSet \<Rightarrow> ChangeSet" where
  "cs_append a b = \<lparr>cs_Creates = cs_Creates a @ cs_Creates b,
                    cs_Updates = cs_Updates a @ cs_Updates b,
                    cs_Deletes = cs_Deletes a @ cs_Deletes b\<rparr>"

text \<open>Two change sets that ask for the same work, in whatever order.\<close>

definition same_work :: "ChangeSet \<Rightarrow> ChangeSet \<Rightarrow> bool" where
  "same_work a b \<longleftrightarrow> mset (cs_Creates a) = mset (cs_Creates b) \<and>
     mset (cs_Updates a) = mset (cs_Updates b) \<and> mset (cs_Deletes a) = mset (cs_Deletes b)"

lemma add_change_simps [change_simps]:
  "add_create c cs = cs_append cs \<lparr>cs_Creates = [c], cs_Updates = [], cs_Deletes = []\<rparr>"
  "add_update c cs = cs_append cs \<lparr>cs_Creates = [], cs_Updates = [c], cs_Deletes = []\<rparr>"
  "add_delete c cs = cs_append cs \<lparr>cs_Creates = [], cs_Updates = [], cs_Deletes = [c]\<rparr>"
  by (simp_all add: add_create_def add_update_def add_delete_def cs_append_def)

lemma cs_append_no_changes [simp]: "cs_append cs no_changes = cs" "cs_append no_changes cs = cs"
  by (simp_all add: cs_append_def no_changes_def)

lemma cs_append_assoc: "cs_append (cs_append a b) c = cs_append a (cs_append b c)"
  by (simp add: cs_append_def)

lemma IsEmpty_iff: "IsEmpty cs \<longleftrightarrow> cs = no_changes"
  by (auto simp: IsEmpty_def no_changes_def)

lemma TotalChanges_0_iff: "TotalChanges cs = 0 \<longleftrightarrow> IsEmpty cs"
  by (simp add: TotalChanges_def IsEmpty_def)

lemma same_work_refl [simp]: "same_work a a"
  by (simp add: same_work_def)

lemma same_work_sym: "same_work a b \<Longrightarrow> same_work b a"
  by (simp add: same_work_def)

lemma same_work_trans: "same_work a b \<Longrightarrow> same_work b c \<Longrightarrow> same_work a c"
  by (simp add: same_work_def)

lemma same_work_append: "same_work a a' \<Longrightarrow> same_work b b' \<Longrightarrow> same_work (cs_append a b) (cs_append a' b')"
  by (simp add: same_work_def cs_append_def)

lemma same_work_TotalChanges: "same_work a b \<Longrightarrow> TotalChanges a = TotalChanges b"
  by (simp add: same_work_def TotalChanges_def flip: size_mset)

lemma same_work_setD:
  assumes "same_work a b"
  shows "set (cs_Creates a) = set (cs_Creates b)" "set (cs_Updates a) = set (cs_Updates b)"
    "set (cs_Deletes a) = set (cs_Deletes b)"
  using assms by (auto simp: same_work_def dest: mset_eq_setD)

section \<open>The registry\<close>

text \<open>
  The package variable \<^verbatim>\<open>registry\<close>, passed explicitly. Every operation holds the mutex
  from its first to its last statement, so the operations run one after another and each
  is one step on the map. An adapter is any value with a \<^verbatim>\<open>SupportedApp\<close>.
\<close>

type_synonym 'a registry = "(string, 'a) gomap"

definition Register :: "('a \<Rightarrow> string) \<Rightarrow> 'a \<Rightarrow> 'a registry \<Rightarrow> 'a registry outcome" where
  "Register SupportedApp a registry =
     (let app = SupportedApp a in
      case map_of registry app of
        Some _ \<Rightarrow> Panic (''adapter for app '' @ app @ '' already registered'')
      | None \<Rightarrow> Ok (gm_set app a registry))"

definition Get :: "'a registry \<Rightarrow> string \<Rightarrow> 'a option" where
  "Get registry app = map_of registry app"

definition MustGet :: "'a registry \<Rightarrow> string \<Rightarrow> 'a outcome" where
  "MustGet registry app =
     (case Get registry app of
        None \<Rightarrow> Panic (''no adapter registered for app '' @ app)
      | Some a \<Rightarrow> Ok a)"

definition List_apps :: "range_order \<Rightarrow> 'a registry \<Rightarrow> string list" where
  "List_apps ord registry = map fst (gm_range ord 0 registry)"

definition Count :: "'a registry \<Rightarrow> nat" where
  "Count registry = length registry"

definition Clear :: "'a registry" where
  "Clear = []"

definition RegisterOrReplace :: "('a \<Rightarrow> string) \<Rightarrow> 'a \<Rightarrow> 'a registry \<Rightarrow> 'a registry" where
  "RegisterOrReplace SupportedApp a registry = gm_set (SupportedApp a) a registry"

definition Unregister :: "string \<Rightarrow> 'a registry \<Rightarrow> bool \<times> 'a registry" where
  "Unregister app registry =
     (case map_of registry app of
        Some _ \<Rightarrow> (True, AList.delete app registry)
      | None \<Rightarrow> (False, registry))"

text \<open>
  The states the registry passes through, as a step relation: each call of the package
  that returns is a step; a \<^verbatim>\<open>Register\<close> that panics changes nothing.
\<close>

inductive registry_step :: "('a \<Rightarrow> string) \<Rightarrow> 'a registry \<Rightarrow> 'a registry \<Rightarrow> bool" for app_of where
  register: "Register app_of a r = Ok r' \<Longrightarrow> registry_step app_of r r'"
| replace: "registry_step app_of r (RegisterOrReplace app_of a r)"
| unregister: "registry_step app_of r (snd (Unregister app r))"
| clear: "registry_step app_of r Clear"

inductive registry_reachable :: "('a \<Rightarrow> string) \<Rightarrow> 'a registry \<Rightarrow> bool" for app_of where
  init: "registry_reachable app_of []"
| step: "registry_reachable app_of r \<Longrightarrow> registry_step app_of r r' \<Longrightarrow> registry_reachable app_of r'"

inductive_cases registry_stepE: "registry_step app_of r r'"

text \<open>The invariant: keys are distinct and every adapter is filed under its own app.\<close>

definition registry_inv :: "('a \<Rightarrow> string) \<Rightarrow> 'a registry \<Rightarrow> bool" where
  "registry_inv app_of r \<longleftrightarrow> gm_ok r \<and> (\<forall>app a. map_of r app = Some a \<longrightarrow> app_of a = app)"

lemma gm_ok_delete: "gm_ok m \<Longrightarrow> gm_ok (AList.delete k m)"
  by (simp add: gm_ok_def distinct_delete)

lemma registry_inv_set: "registry_inv app_of r \<Longrightarrow> registry_inv app_of (gm_set (app_of a) a r)"
  by (auto simp: registry_inv_def)

lemma registry_inv_delete: "registry_inv app_of r \<Longrightarrow> registry_inv app_of (AList.delete app r)"
  by (auto simp: registry_inv_def gm_ok_delete delete_conv' split: if_splits)

lemma registry_inv_step:
  assumes "registry_step app_of r r'" and "registry_inv app_of r"
  shows "registry_inv app_of r'"
  using assms
proof (cases rule: registry_step.cases)
  case (register a)
  then show ?thesis
    using assms(2) by (auto simp: Register_def Let_def registry_inv_set split: option.splits)
next
  case (replace a)
  then show ?thesis using assms(2) by (simp add: RegisterOrReplace_def registry_inv_set)
next
  case (unregister app)
  then show ?thesis
    using assms(2) by (auto simp: Unregister_def registry_inv_delete split: option.splits)
next
  case clear
  then show ?thesis by (simp add: Clear_def registry_inv_def)
qed

lemma registry_reachable_inv: "registry_reachable app_of r \<Longrightarrow> registry_inv app_of r"
  by (induction rule: registry_reachable.induct)
    (auto simp: registry_inv_def [of _ "[]"] intro: registry_inv_step)

text \<open>
  In every registry state the package can reach, \<^verbatim>\<open>Get\<close> returns only an adapter
  that supports the requested app, \<^verbatim>\<open>List\<close> names each registered app exactly once
  whatever order the map is ranged in, and \<^verbatim>\<open>Count\<close> is the length of that list.
\<close>

theorem registry_lookup_sound:
  assumes "registry_reachable app_of r" and "valid_order ord"
  shows "(\<forall>app a. Get r app = Some a \<longrightarrow> app_of a = app)
    \<and> distinct (List_apps ord r)
    \<and> set (List_apps ord r) = {app. Get r app \<noteq> None}
    \<and> Count r = length (List_apps ord r)"
proof -
  have inv: "registry_inv app_of r" by (rule registry_reachable_inv) (rule assms(1))
  then have d: "distinct (map fst r)" by (simp add: registry_inv_def gm_ok_def)
  have "mset (List_apps ord r) = mset (map fst r)"
    using mset_gm_range [OF assms(2), of 0 r] by (simp add: List_apps_def)
  then have "distinct (List_apps ord r)" and "set (List_apps ord r) = fst ` set r"
    using d by (metis mset_eq_imp_distinct_iff, metis list.set_map set_mset_mset)
  then show ?thesis
    using inv assms(2) by (auto simp: registry_inv_def Get_def Count_def List_apps_def map_of_eq_None_iff)
qed

theorem registry_lookup_sound_witness:
  "distinct (List_apps backward_order [(''sonarr'', ''sonarr''), (''radarr'', ''radarr'')])
   \<and> Count [(''sonarr'', ''sonarr''), (''radarr'', ''radarr'')] = (2 :: nat)"
proof -
  have "registry_reachable id [(''sonarr'', ''sonarr'')]"
    by (rule registry_reachable.step [OF registry_reachable.init],
        rule registry_step.register [of _ "''sonarr''"]) (simp add: Register_def gm_set_def)
  then have "registry_reachable id [(''sonarr'', ''sonarr''), (''radarr'', ''radarr'')]"
    by (rule registry_reachable.step,
        intro registry_step.register [of _ "''radarr''"]) (simp add: Register_def gm_set_def Let_def)
  from registry_lookup_sound [OF this valid_backward_order] show ?thesis
    by (simp add: Count_def)
qed

text \<open>
  \<^verbatim>\<open>Register\<close> succeeds exactly when the app is free, then \<^verbatim>\<open>MustGet\<close> returns the
  adapter just registered and every other lookup is unchanged; a duplicate panics.
\<close>

theorem Register_then_MustGet:
  "(case Register app_of a r of
      Ok r' \<Rightarrow> Get r (app_of a) = None \<and> MustGet r' (app_of a) = Ok a \<and>
               (\<forall>app. app \<noteq> app_of a \<longrightarrow> Get r' app = Get r app)
    | Err _ \<Rightarrow> False
    | Panic _ \<Rightarrow> Get r (app_of a) \<noteq> None)"
  by (auto simp: Register_def MustGet_def Get_def Let_def split: option.split)

theorem Register_then_MustGet_witness:
  "\<exists>r'. Register id ''radarr'' [(''sonarr'', ''sonarr'')] = Ok r' \<and> MustGet r' ''radarr'' = Ok ''radarr'' \<and>
     Get r' ''sonarr'' = Some ''sonarr''"
proof -
  obtain r' where r': "Register id ''radarr'' [(''sonarr'', ''sonarr'')] = Ok r'"
    by (simp add: Register_def Let_def)
  with Register_then_MustGet [where app_of = id and a = "''radarr''" and r = "[(''sonarr'', ''sonarr'')]"] show ?thesis
    by (simp add: Get_def)
qed

end
