(* ===== verification/Diff.thy ===== *)
theory Diff
  imports Adapter
begin

text \<open>
  \<^verbatim>\<open>src/internal/adapters/diff.go\<close>: the shared diff routines. Each indexes the current
  and the desired resources by key in two Go maps, ranges over the desired map for creates
  and updates and over the current map for deletes. The loops are translated as they are,
  as folds over the ranges; the argument \<open>ord\<close> is the order the runtime picks.

  The locale \<open>diff_contract\<close> states what a keyed diff promises (which creates, updates and
  deletes it adds, as multisets, for every order) and holds the lemmas its clients use;
  \<open>keyed_diff\<close> states the loop shape and is a sublocale of it. Every routine of this shape
  in the program is an interpretation of \<open>keyed_diff\<close>.
\<close>

section \<open>Quality profiles\<close>

definition quality_profile_change :: "string \<Rightarrow> int option \<Rightarrow> Payload \<Rightarrow> Change" where
  "quality_profile_change name i p =
     \<lparr>ch_ResourceType = ResourceQualityProfile, ch_Name = name, ch_ID = i, ch_Payload = p\<rparr>"

definition DiffVideoQualityProfiles ::
    "VideoQualityIR option \<Rightarrow> VideoQualityIR option \<Rightarrow> int option \<Rightarrow> ChangeSet \<Rightarrow> ChangeSet" where
  "DiffVideoQualityProfiles currentProfile desiredProfile profileID changes =
     (case desiredProfile of
        None \<Rightarrow> (case (currentProfile, profileID) of
                   (Some c, Some i) \<Rightarrow> add_delete (quality_profile_change (vq_ProfileName c) (Some i) NoPayload) changes
                 | _ \<Rightarrow> changes)
      | Some d \<Rightarrow> (case currentProfile of
                     None \<Rightarrow> add_create (quality_profile_change (vq_ProfileName d) None (VideoQualityPtr d)) changes
                   | Some _ \<Rightarrow> changes))"

definition DiffQualityProfiles ::
    "VideoQualityIR option \<Rightarrow> VideoQualityIR option \<Rightarrow> int option \<Rightarrow> ChangeSet \<Rightarrow> ChangeSet" where
  "DiffQualityProfiles = DiffVideoQualityProfiles"

definition DiffAudioQualityProfiles ::
    "AudioQualityIR option \<Rightarrow> AudioQualityIR option \<Rightarrow> int option \<Rightarrow> ChangeSet \<Rightarrow> ChangeSet" where
  "DiffAudioQualityProfiles currentProfile desiredProfile profileID changes =
     (case desiredProfile of
        None \<Rightarrow> (case (currentProfile, profileID) of
                   (Some c, Some i) \<Rightarrow> add_delete (quality_profile_change (aq_ProfileName c) (Some i) NoPayload) changes
                 | _ \<Rightarrow> changes)
      | Some d \<Rightarrow> (case currentProfile of
                     None \<Rightarrow> add_create (quality_profile_change (aq_ProfileName d) None (AudioQualityPtr d)) changes
                   | Some _ \<Rightarrow> changes))"

definition DiffBookQualityProfiles ::
    "BookQualityIR option \<Rightarrow> BookQualityIR option \<Rightarrow> ChangeSet \<Rightarrow> ChangeSet" where
  "DiffBookQualityProfiles currentProfile desiredProfile changes =
     (case desiredProfile of
        None \<Rightarrow> changes
      | Some d \<Rightarrow> (case currentProfile of
                     None \<Rightarrow> add_create (quality_profile_change (bq_ProfileName d) None (BookQualityPtr d)) changes
                   | Some _ \<Rightarrow> changes))"

section \<open>Download clients\<close>

definition DownloadClientsEqual :: "DownloadClientIR \<Rightarrow> DownloadClientIR \<Rightarrow> bool" where
  "DownloadClientsEqual current desired \<longleftrightarrow>
     dc_Name current = dc_Name desired \<and>
     dc_Implementation current = dc_Implementation desired \<and>
     dc_Host current = dc_Host desired \<and>
     dc_Port current = dc_Port desired \<and>
     dc_UseTLS current = dc_UseTLS desired \<and>
     dc_Category current = dc_Category desired \<and>
     dc_Enable current = dc_Enable desired \<and>
     dc_Priority current = dc_Priority desired"

text \<open>\<^verbatim>\<open>ids[name]\<close> on a \<^verbatim>\<open>map[string]int\<close>: 0 when the name is missing.\<close>

definition id_or_zero :: "(string \<times> int) list \<Rightarrow> string \<Rightarrow> int" where
  "id_or_zero ids name = (case map_of ids name of None \<Rightarrow> 0 | Some i \<Rightarrow> i)"

definition DiffDownloadClients ::
    "range_order \<Rightarrow> DownloadClientIR list \<Rightarrow> DownloadClientIR list \<Rightarrow> (string \<times> int) list
     \<Rightarrow> ChangeSet \<Rightarrow> ChangeSet" where
  "DiffDownloadClients ord current desired clientIDs changes =
     (let currentMap = index_by dc_Name current;
          desiredMap = index_by dc_Name desired;
          changes1 = fold (\<lambda>(name, desiredDC) cs.
            case map_of currentMap name of
              None \<Rightarrow> add_create \<lparr>ch_ResourceType = ResourceDownloadClient, ch_Name = name,
                        ch_ID = None, ch_Payload = DownloadClientVal desiredDC\<rparr> cs
            | Some currentDC \<Rightarrow>
                if \<not> DownloadClientsEqual currentDC desiredDC
                then add_update \<lparr>ch_ResourceType = ResourceDownloadClient, ch_Name = name,
                        ch_ID = Some (id_or_zero clientIDs name), ch_Payload = DownloadClientVal desiredDC\<rparr> cs
                else cs) (gm_range ord 0 desiredMap) changes
      in fold (\<lambda>(name, _) cs.
            case map_of desiredMap name of
              None \<Rightarrow> add_delete \<lparr>ch_ResourceType = ResourceDownloadClient, ch_Name = name,
                        ch_ID = Some (id_or_zero clientIDs name), ch_Payload = NoPayload\<rparr> cs
            | Some _ \<Rightarrow> cs) (gm_range ord 1 currentMap) changes1)"

definition DiffDownloadClientsWithIR ::
    "range_order \<Rightarrow> DownloadClientIR list \<Rightarrow> DownloadClientIR list \<Rightarrow> ChangeSet \<Rightarrow> ChangeSet" where
  "DiffDownloadClientsWithIR ord current desired changes =
     (let currentMap = index_by dc_Name current;
          desiredMap = index_by dc_Name desired;
          changes1 = fold (\<lambda>(name, desiredDC) cs.
            case map_of currentMap name of
              None \<Rightarrow> add_create \<lparr>ch_ResourceType = ResourceDownloadClient, ch_Name = name,
                        ch_ID = None, ch_Payload = DownloadClientVal desiredDC\<rparr> cs
            | Some currentDC \<Rightarrow>
                if \<not> DownloadClientsEqual currentDC desiredDC
                then add_update \<lparr>ch_ResourceType = ResourceDownloadClient, ch_Name = name,
                        ch_ID = Some (dc_ID currentDC), ch_Payload = DownloadClientVal desiredDC\<rparr> cs
                else cs) (gm_range ord 0 desiredMap) changes
      in fold (\<lambda>(name, currentDC) cs.
            case map_of desiredMap name of
              None \<Rightarrow> add_delete \<lparr>ch_ResourceType = ResourceDownloadClient, ch_Name = name,
                        ch_ID = Some (dc_ID currentDC), ch_Payload = NoPayload\<rparr> cs
            | Some _ \<Rightarrow> cs) (gm_range ord 1 currentMap) changes1)"

section \<open>Custom formats\<close>

definition FormatSpecsEqual :: "FormatSpecIR \<Rightarrow> FormatSpecIR \<Rightarrow> bool" where
  "FormatSpecsEqual current desired \<longleftrightarrow>
     fs_Type current = fs_Type desired \<and>
     fs_Name current = fs_Name desired \<and>
     fs_Negate current = fs_Negate desired \<and>
     fs_Required current = fs_Required desired \<and>
     fs_Value current = fs_Value desired"

text \<open>The loop over the desired specifications returns false at the first mismatch.\<close>

fun all_specs_match :: "(string \<times> FormatSpecIR) list \<Rightarrow> FormatSpecIR list \<Rightarrow> bool" where
  "all_specs_match currentSpecs [] = True"
| "all_specs_match currentSpecs (desiredSpec # rest) =
     (case map_of currentSpecs (fs_Name desiredSpec) of
        None \<Rightarrow> False
      | Some currentSpec \<Rightarrow>
          if \<not> FormatSpecsEqual currentSpec desiredSpec then False
          else all_specs_match currentSpecs rest)"

text \<open>On two pointers that are not nil, as both callers have them.\<close>

definition CustomFormatsEqual :: "CustomFormatIR \<Rightarrow> CustomFormatIR \<Rightarrow> bool" where
  "CustomFormatsEqual current desired =
     (if cf_Name current \<noteq> cf_Name desired then False
      else if cf_IncludeWhenRenaming current \<noteq> cf_IncludeWhenRenaming desired then False
      else if length (cf_Specifications current) \<noteq> length (cf_Specifications desired) then False
      else all_specs_match (index_by fs_Name (cf_Specifications current)) (cf_Specifications desired))"

definition DiffCustomFormats ::
    "range_order \<Rightarrow> CustomFormatIR list \<Rightarrow> CustomFormatIR list \<Rightarrow> ChangeSet \<Rightarrow> ChangeSet" where
  "DiffCustomFormats ord current desired changes =
     (let currentMap = index_by cf_Name current;
          desiredMap = index_by cf_Name desired;
          changes1 = fold (\<lambda>(name, desiredCF) cs.
            case map_of currentMap name of
              None \<Rightarrow> add_create \<lparr>ch_ResourceType = ResourceCustomFormat, ch_Name = name,
                        ch_ID = None, ch_Payload = CustomFormatPtr desiredCF\<rparr> cs
            | Some currentCF \<Rightarrow>
                if \<not> CustomFormatsEqual currentCF desiredCF
                then add_update \<lparr>ch_ResourceType = ResourceCustomFormat, ch_Name = name,
                        ch_ID = None, ch_Payload = CustomFormatPtr desiredCF\<rparr> cs
                else cs) (gm_range ord 0 desiredMap) changes
      in fold (\<lambda>(name, _) cs.
            case map_of desiredMap name of
              None \<Rightarrow> add_delete \<lparr>ch_ResourceType = ResourceCustomFormat, ch_Name = name,
                        ch_ID = None, ch_Payload = NoPayload\<rparr> cs
            | Some _ \<Rightarrow> cs) (gm_range ord 1 currentMap) changes1)"

section \<open>Indexers\<close>

definition IndexersEqual :: "IndexerIR \<Rightarrow> IndexerIR \<Rightarrow> bool" where
  "IndexersEqual current desired \<longleftrightarrow>
     idx_Name current = idx_Name desired \<and>
     idx_Implementation current = idx_Implementation desired \<and>
     idx_URL current = idx_URL desired \<and>
     idx_Enable current = idx_Enable desired \<and>
     idx_Priority current = idx_Priority desired \<and>
     idx_EnableRss current = idx_EnableRss desired \<and>
     idx_EnableAutomaticSearch current = idx_EnableAutomaticSearch desired \<and>
     idx_EnableInteractiveSearch current = idx_EnableInteractiveSearch desired"

definition DiffIndexers ::
    "range_order \<Rightarrow> IndexerIR list \<Rightarrow> IndexerIR list \<Rightarrow> (string \<times> int) list \<Rightarrow> ChangeSet \<Rightarrow> ChangeSet" where
  "DiffIndexers ord current desired indexerIDs changes =
     (let currentMap = index_by idx_Name current;
          desiredMap = index_by idx_Name desired;
          changes1 = fold (\<lambda>(name, desiredIdx) cs.
            case map_of currentMap name of
              None \<Rightarrow> add_create \<lparr>ch_ResourceType = ResourceIndexer, ch_Name = name,
                        ch_ID = None, ch_Payload = IndexerVal desiredIdx\<rparr> cs
            | Some currentIdx \<Rightarrow>
                if \<not> IndexersEqual currentIdx desiredIdx
                then add_update \<lparr>ch_ResourceType = ResourceIndexer, ch_Name = name,
                        ch_ID = Some (id_or_zero indexerIDs name), ch_Payload = IndexerVal desiredIdx\<rparr> cs
                else cs) (gm_range ord 0 desiredMap) changes
      in fold (\<lambda>(name, _) cs.
            case map_of desiredMap name of
              None \<Rightarrow> add_delete \<lparr>ch_ResourceType = ResourceIndexer, ch_Name = name,
                        ch_ID = Some (id_or_zero indexerIDs name), ch_Payload = NoPayload\<rparr> cs
            | Some _ \<Rightarrow> cs) (gm_range ord 1 currentMap) changes1)"

definition DiffIndexersWithIR ::
    "range_order \<Rightarrow> IndexerIR list \<Rightarrow> IndexerIR list \<Rightarrow> ChangeSet \<Rightarrow> ChangeSet" where
  "DiffIndexersWithIR ord current desired changes =
     (let currentMap = index_by idx_Name current;
          desiredMap = index_by idx_Name desired;
          changes1 = fold (\<lambda>(name, desiredIdx) cs.
            case map_of currentMap name of
              None \<Rightarrow> add_create \<lparr>ch_ResourceType = ResourceIndexer, ch_Name = name,
                        ch_ID = None, ch_Payload = IndexerVal desiredIdx\<rparr> cs
            | Some currentIdx \<Rightarrow>
                if \<not> IndexersEqual currentIdx desiredIdx
                then add_update \<lparr>ch_ResourceType = ResourceIndexer, ch_Name = name,
                        ch_ID = Some (idx_ID currentIdx), ch_Payload = IndexerVal desiredIdx\<rparr> cs
                else cs) (gm_range ord 0 desiredMap) changes
      in fold (\<lambda>(name, currentIdx) cs.
            case map_of desiredMap name of
              None \<Rightarrow> add_delete \<lparr>ch_ResourceType = ResourceIndexer, ch_Name = name,
                        ch_ID = Some (idx_ID currentIdx), ch_Payload = NoPayload\<rparr> cs
            | Some _ \<Rightarrow> cs) (gm_range ord 1 currentMap) changes1)"

section \<open>Root folders\<close>

definition DiffRootFolders ::
    "RootFolderIR list \<Rightarrow> RootFolderIR list \<Rightarrow> ChangeSet \<Rightarrow> ChangeSet" where
  "DiffRootFolders current desired changes =
     (let currentPaths = set_of_slice (map rf_Path current)
      in fold (\<lambda>folder cs.
           if \<not> gm_flag currentPaths (rf_Path folder)
           then add_create \<lparr>ch_ResourceType = ResourceRootFolder, ch_Name = rf_Path folder, ch_ID = None,
                  ch_Payload = RootFolderVal \<lparr>rf_Path = rf_Path folder, rf_Name = '''', rf_DefaultMonitor = ''''\<rparr>\<rparr> cs
           else cs) desired changes)"

section \<open>The contract of a keyed diff\<close>

text \<open>
  The specification: the creates, updates and deletes that lead from the current to the
  desired resources, one pass over each index, in the index's own order.
\<close>

definition plan_create :: "('a \<Rightarrow> 'k) \<Rightarrow> ('k \<Rightarrow> 'a \<Rightarrow> Change) \<Rightarrow> 'a list \<Rightarrow> 'k \<times> 'a \<Rightarrow> Change list" where
  "plan_create key mkC cur = (\<lambda>(k, d). case latest key cur k of None \<Rightarrow> [mkC k d] | Some _ \<Rightarrow> [])"

definition plan_update ::
    "('a \<Rightarrow> 'k) \<Rightarrow> ('a \<Rightarrow> 'a \<Rightarrow> bool) \<Rightarrow> ('k \<Rightarrow> 'a \<Rightarrow> 'a \<Rightarrow> Change) \<Rightarrow> 'a list \<Rightarrow> 'k \<times> 'a \<Rightarrow> Change list" where
  "plan_update key same mkU cur =
     (\<lambda>(k, d). case latest key cur k of None \<Rightarrow> [] | Some c \<Rightarrow> if same c d then [] else [mkU k c d])"

definition plan_delete :: "('a \<Rightarrow> 'k) \<Rightarrow> ('k \<Rightarrow> 'a \<Rightarrow> Change) \<Rightarrow> 'a list \<Rightarrow> 'k \<times> 'a \<Rightarrow> Change list" where
  "plan_delete key mkD des = (\<lambda>(k, c). case latest key des k of None \<Rightarrow> [mkD k c] | Some _ \<Rightarrow> [])"

definition plan_creates :: "('a \<Rightarrow> 'k) \<Rightarrow> ('k \<Rightarrow> 'a \<Rightarrow> Change) \<Rightarrow> 'a list \<Rightarrow> 'a list \<Rightarrow> Change list" where
  "plan_creates key mkC cur des = concat (map (plan_create key mkC cur) (index_by key des))"

definition plan_updates ::
    "('a \<Rightarrow> 'k) \<Rightarrow> ('a \<Rightarrow> 'a \<Rightarrow> bool) \<Rightarrow> ('k \<Rightarrow> 'a \<Rightarrow> 'a \<Rightarrow> Change) \<Rightarrow> 'a list \<Rightarrow> 'a list \<Rightarrow> Change list" where
  "plan_updates key same mkU cur des = concat (map (plan_update key same mkU cur) (index_by key des))"

definition plan_deletes :: "('a \<Rightarrow> 'k) \<Rightarrow> ('k \<Rightarrow> 'a \<Rightarrow> Change) \<Rightarrow> 'a list \<Rightarrow> 'a list \<Rightarrow> Change list" where
  "plan_deletes key mkD cur des = concat (map (plan_delete key mkD des) (index_by key cur))"

definition keyed_plan ::
    "('a \<Rightarrow> 'k) \<Rightarrow> ('a \<Rightarrow> 'a \<Rightarrow> bool) \<Rightarrow> ('k \<Rightarrow> 'a \<Rightarrow> Change) \<Rightarrow> ('k \<Rightarrow> 'a \<Rightarrow> 'a \<Rightarrow> Change)
     \<Rightarrow> ('k \<Rightarrow> 'a \<Rightarrow> Change) \<Rightarrow> 'a list \<Rightarrow> 'a list \<Rightarrow> ChangeSet" where
  "keyed_plan key same mkC mkU mkD cur des =
     \<lparr>cs_Creates = plan_creates key mkC cur des,
      cs_Updates = plan_updates key same mkU cur des,
      cs_Deletes = plan_deletes key mkD cur des\<rparr>"

lemma in_concat_map: "c \<in> set (concat (map f m)) \<longleftrightarrow> (\<exists>k v. (k, v) \<in> set m \<and> c \<in> set (f (k, v)))"
  by auto

lemma in_plan_item:
  "c \<in> set (plan_create key mkC cur (k, d)) \<longleftrightarrow> latest key cur k = None \<and> c = mkC k d"
  "c \<in> set (plan_update key same mkU cur (k, d)) \<longleftrightarrow>
     (\<exists>x. latest key cur k = Some x \<and> \<not> same x d \<and> c = mkU k x d)"
  "c \<in> set (plan_delete key mkD cur (k, d)) \<longleftrightarrow> latest key cur k = None \<and> c = mkD k d"
  by (cases "latest key cur k"; auto simp: plan_create_def plan_update_def plan_delete_def)+

lemma set_plan:
  "set (plan_creates key mkC cur des) = {mkC k d |k d. latest key des k = Some d \<and> latest key cur k = None}"
  "set (plan_updates key same mkU cur des) =
     {mkU k c d |k c d. latest key des k = Some d \<and> latest key cur k = Some c \<and> \<not> same c d}"
  "set (plan_deletes key mkD cur des) = {mkD k c |k c. latest key cur k = Some c \<and> latest key des k = None}"
  unfolding plan_creates_def plan_updates_def plan_deletes_def set_eq_iff in_concat_map in_plan_item set_index_by
  by blast+

lemma rel_option_cases:
  "rel_option R a b \<longleftrightarrow>
     \<not> (\<exists>y. b = Some y \<and> a = None) \<and> \<not> (\<exists>x. a = Some x \<and> b = None) \<and>
     \<not> (\<exists>x y. b = Some y \<and> a = Some x \<and> \<not> R x y)"
  by (cases a; cases b) auto

lemma latest_Some_iff:
  "distinct (map key xs) \<Longrightarrow> latest key xs k = Some x \<longleftrightarrow> x \<in> set xs \<and> key x = k"
  using latest_distinct [of key xs x] latest_SomeD [of key xs k x] by auto

lemma in_sync_distinct:
  assumes "distinct (map key xs)" and "distinct (map key ys)"
  shows "(\<forall>k. rel_option R (latest key xs k) (latest key ys k)) \<longleftrightarrow>
    (\<forall>x \<in> set xs. \<exists>y \<in> set ys. key x = key y \<and> R x y) \<and>
    (\<forall>y \<in> set ys. \<exists>x \<in> set xs. key x = key y \<and> R x y)" (is "?l \<longleftrightarrow> ?r")
proof
  assume l: ?l
  have "\<exists>y \<in> set ys. key x = key y \<and> R x y" if x: "x \<in> set xs" for x
  proof -
    from l [rule_format, of "key x"] obtain y where xy: "latest key ys (key x) = Some y" "R x y"
      by (auto simp: latest_distinct [OF assms(1) x] option_rel_Some1)
    show ?thesis using latest_SomeD [OF xy(1)] xy(2) by (metis)
  qed
  moreover have "\<exists>x \<in> set xs. key x = key y \<and> R x y" if y: "y \<in> set ys" for y
  proof -
    from l [rule_format, of "key y"] obtain x where xy: "latest key xs (key y) = Some x" "R x y"
      by (auto simp: latest_distinct [OF assms(2) y] option_rel_Some2)
    show ?thesis using latest_SomeD [OF xy(1)] xy(2) by (metis)
  qed
  ultimately show ?r by blast
next
  assume r: ?r
  show ?l
  proof
    fix k
    show "rel_option R (latest key xs k) (latest key ys k)"
    proof (cases "latest key xs k")
      case None
      then have "k \<notin> key ` set xs" by (simp add: latest_None_iff)
      moreover have "key ` set ys \<subseteq> key ` set xs"
      proof
        fix k' assume "k' \<in> key ` set ys"
        then obtain y where "y \<in> set ys" "k' = key y" by blast
        with r obtain x where "x \<in> set xs" "k' = key x" by metis
        then show "k' \<in> key ` set xs" by blast
      qed
      ultimately have "k \<notin> key ` set ys" by blast
      then have "latest key ys k = None" by (simp add: latest_None_iff)
      with None show ?thesis by simp
    next
      case (Some x)
      then obtain y where "y \<in> set ys" "key y = k" "R x y"
        using r latest_SomeD [OF Some] by metis
      then show ?thesis using Some latest_distinct [OF assms(2)] by fastforce
    qed
  qed
qed

text \<open>Every create, update and delete of a change set satisfies its predicate.\<close>

definition all_changes :: "(Change \<Rightarrow> bool) \<Rightarrow> (Change \<Rightarrow> bool) \<Rightarrow> (Change \<Rightarrow> bool) \<Rightarrow> ChangeSet \<Rightarrow> bool" where
  "all_changes P Q R cs \<longleftrightarrow>
     (\<forall>c \<in> set (cs_Creates cs). P c) \<and> (\<forall>c \<in> set (cs_Updates cs). Q c) \<and> (\<forall>c \<in> set (cs_Deletes cs). R c)"

lemma all_changes_add [simp]:
  "all_changes P Q R (add_create c cs) \<longleftrightarrow> P c \<and> all_changes P Q R cs"
  "all_changes P Q R (add_update c cs) \<longleftrightarrow> Q c \<and> all_changes P Q R cs"
  "all_changes P Q R (add_delete c cs) \<longleftrightarrow> R c \<and> all_changes P Q R cs"
  "all_changes P Q R no_changes"
  by (auto simp: all_changes_def add_create_def add_update_def add_delete_def no_changes_def)

locale diff_contract =
  fixes key :: "'a \<Rightarrow> 'k"
    and same :: "'a \<Rightarrow> 'a \<Rightarrow> bool"
    and mkC :: "'k \<Rightarrow> 'a \<Rightarrow> Change"
    and mkU :: "'k \<Rightarrow> 'a \<Rightarrow> 'a \<Rightarrow> Change"
    and mkD :: "'k \<Rightarrow> 'a \<Rightarrow> Change"
    and diff :: "range_order \<Rightarrow> 'a list \<Rightarrow> 'a list \<Rightarrow> ChangeSet \<Rightarrow> ChangeSet"
  assumes refines: "valid_order ord \<Longrightarrow>
    same_work (diff ord cur des cs) (cs_append cs (keyed_plan key same mkC mkU mkD cur des))"
begin

lemma order_independent:
  "valid_order ord \<Longrightarrow> valid_order ord' \<Longrightarrow> same_work (diff ord cur des cs) (diff ord' cur des cs)"
  by (meson refines same_work_sym same_work_trans)

lemma diff_sets:
  assumes "valid_order ord"
  shows "set (cs_Creates (diff ord cur des cs)) =
      set (cs_Creates cs) \<union> {mkC k d |k d. latest key des k = Some d \<and> latest key cur k = None}"
    and "set (cs_Updates (diff ord cur des cs)) =
      set (cs_Updates cs) \<union>
      {mkU k c d |k c d. latest key des k = Some d \<and> latest key cur k = Some c \<and> \<not> same c d}"
    and "set (cs_Deletes (diff ord cur des cs)) =
      set (cs_Deletes cs) \<union> {mkD k c |k c. latest key cur k = Some c \<and> latest key des k = None}"
  using same_work_setD [OF refines [OF assms, of cur des cs]]
  by (simp_all add: cs_append_def keyed_plan_def set_plan)

lemma diff_all_changes:
  assumes "valid_order ord" and "all_changes P Q R cs"
    and "\<And>k d. P (mkC k d)" and "\<And>k c d. Q (mkU k c d)" and "\<And>k c. R (mkD k c)"
  shows "all_changes P Q R (diff ord cur des cs)"
  using assms(2-) by (auto simp: all_changes_def diff_sets [OF assms(1)])

lemma empty_iff_in_sync:
  assumes "valid_order ord"
  shows "IsEmpty (diff ord cur des no_changes) \<longleftrightarrow>
    (\<forall>k. rel_option same (latest key cur k) (latest key des k))"
proof -
  have "IsEmpty (diff ord cur des no_changes) \<longleftrightarrow>
      set (cs_Creates (diff ord cur des no_changes)) = {} \<and>
      set (cs_Updates (diff ord cur des no_changes)) = {} \<and>
      set (cs_Deletes (diff ord cur des no_changes)) = {}"
    by (simp add: IsEmpty_def)
  also have "\<dots> \<longleftrightarrow> (\<forall>k. rel_option same (latest key cur k) (latest key des k))"
    unfolding diff_sets [OF assms] rel_option_cases
    by (simp only: no_changes_def ChangeSet.select_convs list.set(1) Un_empty_left) blast
  finally show ?thesis .
qed

lemma diff_refl_empty:
  assumes "valid_order ord" and "\<forall>x \<in> set xs. same x x"
  shows "IsEmpty (diff ord xs xs no_changes)"
  using assms(2) by (auto simp: empty_iff_in_sync [OF assms(1)] intro!: option.rel_refl_strong dest: latest_SomeD)

end

text \<open>The loop shape all the keyed routines share.\<close>

definition upsert_loop ::
    "('a \<Rightarrow> 'a \<Rightarrow> bool) \<Rightarrow> ('k \<Rightarrow> 'a \<Rightarrow> Change) \<Rightarrow> ('k \<Rightarrow> 'a \<Rightarrow> 'a \<Rightarrow> Change) \<Rightarrow> ('k \<times> 'a) list
     \<Rightarrow> ('k \<times> 'a) list \<Rightarrow> ChangeSet \<Rightarrow> ChangeSet" where
  "upsert_loop same mkC mkU currentMap =
     fold (\<lambda>(k, d) cs. case map_of currentMap k of
             None \<Rightarrow> add_create (mkC k d) cs
           | Some c \<Rightarrow> if \<not> same c d then add_update (mkU k c d) cs else cs)"

definition delete_loop ::
    "('k \<Rightarrow> 'a \<Rightarrow> Change) \<Rightarrow> ('k \<times> 'a) list \<Rightarrow> ('k \<times> 'a) list \<Rightarrow> ChangeSet \<Rightarrow> ChangeSet" where
  "delete_loop mkD desiredMap =
     fold (\<lambda>(k, c) cs. case map_of desiredMap k of None \<Rightarrow> add_delete (mkD k c) cs | Some _ \<Rightarrow> cs)"

lemma upsert_loop_eq:
  "upsert_loop same mkC mkU (index_by key cur) es cs =
     cs_append cs \<lparr>cs_Creates = concat (map (plan_create key mkC cur) es),
                   cs_Updates = concat (map (plan_update key same mkU cur) es), cs_Deletes = []\<rparr>"
proof (induction es arbitrary: cs)
  case Nil
  then show ?case by (simp add: upsert_loop_def cs_append_def)
next
  case (Cons e es)
  obtain k d where "e = (k, d)" by fastforce
  then show ?case
    using Cons
    by (auto simp: upsert_loop_def plan_create_def plan_update_def map_of_index_by change_simps
        cs_append_def split: option.splits)
qed

lemma delete_loop_eq:
  "delete_loop mkD (index_by key des) es cs =
     cs_append cs \<lparr>cs_Creates = [], cs_Updates = [], cs_Deletes = concat (map (plan_delete key mkD des) es)\<rparr>"
proof (induction es arbitrary: cs)
  case Nil
  then show ?case by (simp add: delete_loop_def cs_append_def)
next
  case (Cons e es)
  obtain k d where "e = (k, d)" by fastforce
  then show ?case
    using Cons
    by (auto simp: delete_loop_def plan_delete_def map_of_index_by change_simps cs_append_def
        split: option.splits)
qed

locale keyed_diff =
  fixes key :: "'a \<Rightarrow> 'k"
    and same :: "'a \<Rightarrow> 'a \<Rightarrow> bool"
    and mkC :: "'k \<Rightarrow> 'a \<Rightarrow> Change"
    and mkU :: "'k \<Rightarrow> 'a \<Rightarrow> 'a \<Rightarrow> Change"
    and mkD :: "'k \<Rightarrow> 'a \<Rightarrow> Change"
    and diff :: "range_order \<Rightarrow> 'a list \<Rightarrow> 'a list \<Rightarrow> ChangeSet \<Rightarrow> ChangeSet"
  assumes loops: "diff ord cur des cs =
    delete_loop mkD (index_by key des) (gm_range ord 1 (index_by key cur))
      (upsert_loop same mkC mkU (index_by key cur) (gm_range ord 0 (index_by key des)) cs)"

sublocale keyed_diff \<subseteq> diff_contract
proof
  fix ord cur des cs
  assume v: "valid_order ord"
  show "same_work (diff ord cur des cs) (cs_append cs (keyed_plan key same mkC mkU mkD cur des))"
    by (simp add: loops upsert_loop_eq delete_loop_eq same_work_def cs_append_def keyed_plan_def
        plan_creates_def plan_updates_def plan_deletes_def
        mset_concat_map mset_gm_range [OF v])
qed

section \<open>The routines meet the contract\<close>

text \<open>The changes the routines build, by resource.\<close>

definition dc_create :: "string \<Rightarrow> DownloadClientIR \<Rightarrow> Change" where
  "dc_create name d = \<lparr>ch_ResourceType = ResourceDownloadClient, ch_Name = name, ch_ID = None,
                       ch_Payload = DownloadClientVal d\<rparr>"

definition dc_update :: "string \<Rightarrow> DownloadClientIR \<Rightarrow> DownloadClientIR \<Rightarrow> Change" where
  "dc_update name c d = \<lparr>ch_ResourceType = ResourceDownloadClient, ch_Name = name, ch_ID = Some (dc_ID c),
                         ch_Payload = DownloadClientVal d\<rparr>"

definition dc_delete :: "string \<Rightarrow> DownloadClientIR \<Rightarrow> Change" where
  "dc_delete name c = \<lparr>ch_ResourceType = ResourceDownloadClient, ch_Name = name, ch_ID = Some (dc_ID c),
                       ch_Payload = NoPayload\<rparr>"

definition idx_create :: "string \<Rightarrow> IndexerIR \<Rightarrow> Change" where
  "idx_create name d = \<lparr>ch_ResourceType = ResourceIndexer, ch_Name = name, ch_ID = None,
                        ch_Payload = IndexerVal d\<rparr>"

definition idx_update :: "string \<Rightarrow> IndexerIR \<Rightarrow> IndexerIR \<Rightarrow> Change" where
  "idx_update name c d = \<lparr>ch_ResourceType = ResourceIndexer, ch_Name = name, ch_ID = Some (idx_ID c),
                          ch_Payload = IndexerVal d\<rparr>"

definition idx_delete :: "string \<Rightarrow> IndexerIR \<Rightarrow> Change" where
  "idx_delete name c = \<lparr>ch_ResourceType = ResourceIndexer, ch_Name = name, ch_ID = Some (idx_ID c),
                        ch_Payload = NoPayload\<rparr>"

definition cf_change :: "string \<Rightarrow> Payload \<Rightarrow> Change" where
  "cf_change name p = \<lparr>ch_ResourceType = ResourceCustomFormat, ch_Name = name, ch_ID = None, ch_Payload = p\<rparr>"

interpretation dcs: keyed_diff dc_Name DownloadClientsEqual dc_create dc_update dc_delete DiffDownloadClientsWithIR
  by (unfold_locales, unfold DiffDownloadClientsWithIR_def upsert_loop_def delete_loop_def
      dc_create_def dc_update_def dc_delete_def Let_def, rule refl)

interpretation idxs: keyed_diff idx_Name IndexersEqual idx_create idx_update idx_delete DiffIndexersWithIR
  by (unfold_locales, unfold DiffIndexersWithIR_def upsert_loop_def delete_loop_def
      idx_create_def idx_update_def idx_delete_def Let_def, rule refl)

interpretation cfs: keyed_diff cf_Name CustomFormatsEqual "\<lambda>name d. cf_change name (CustomFormatPtr d)"
    "\<lambda>name c d. cf_change name (CustomFormatPtr d)" "\<lambda>name c. cf_change name NoPayload" DiffCustomFormats
  by (unfold_locales, unfold DiffCustomFormats_def upsert_loop_def delete_loop_def cf_change_def Let_def, rule refl)

section \<open>Properties\<close>

text \<open>
  C14. The download client diff refines its specification for every order in which the
  runtime ranges over its maps: it appends to the change set exactly the creates for
  desired names the service lacks, the updates (with the current resource's ID) for names
  whose resource differs, and the deletes (again with the ID) for names no longer desired.
\<close>

theorem DiffDownloadClientsWithIR_refines:
  assumes "valid_order ord"
  shows "same_work (DiffDownloadClientsWithIR ord current desired changes)
    (cs_append changes (keyed_plan dc_Name DownloadClientsEqual dc_create dc_update dc_delete current desired))"
  by (rule dcs.refines [OF assms])

definition sample_dc :: "string \<Rightarrow> int \<Rightarrow> int \<Rightarrow> DownloadClientIR" where
  "sample_dc name i port =
     \<lparr>dc_ID = i, dc_Name = name, dc_Protocol = ''torrent'', dc_Implementation = ''qbittorrent'',
      dc_Enable = True, dc_Priority = 1, dc_RemoveCompletedDownloads = False,
      dc_RemoveFailedDownloads = False, dc_Host = ''h'', dc_Port = port, dc_UseTLS = False,
      dc_Username = '''', dc_Password = '''', dc_Category = '''', dc_Directory = ''''\<rparr>"

theorem DiffDownloadClientsWithIR_refines_witness:
  "same_work
     (DiffDownloadClientsWithIR backward_order [sample_dc ''a'' 4 80, sample_dc ''b'' 5 80]
        [sample_dc ''b'' 0 81, sample_dc ''c'' 0 80] no_changes)
     \<lparr>cs_Creates = [dc_create ''c'' (sample_dc ''c'' 0 80)],
      cs_Updates = [dc_update ''b'' (sample_dc ''b'' 5 80) (sample_dc ''b'' 0 81)],
      cs_Deletes = [dc_delete ''a'' (sample_dc ''a'' 4 80)]\<rparr>"
  using DiffDownloadClientsWithIR_refines [OF valid_backward_order,
      of "[sample_dc ''a'' 4 80, sample_dc ''b'' 5 80]" "[sample_dc ''b'' 0 81, sample_dc ''c'' 0 80]" no_changes]
  by (simp add: keyed_plan_def plan_creates_def plan_updates_def plan_deletes_def index_by_def gm_set_def
      plan_create_def plan_update_def plan_delete_def latest_def sample_dc_def DownloadClientsEqual_def)

text \<open>
  The download client diff is empty exactly when the service is in sync: current and
  desired have the same names, and under each name the resources agree on every field
  \<^verbatim>\<open>DownloadClientsEqual\<close> compares.
\<close>

theorem DiffDownloadClientsWithIR_empty_iff:
  assumes "valid_order ord"
  shows "IsEmpty (DiffDownloadClientsWithIR ord current desired no_changes) \<longleftrightarrow>
    (\<forall>name. rel_option DownloadClientsEqual (latest dc_Name current name) (latest dc_Name desired name))"
  by (rule dcs.empty_iff_in_sync [OF assms])

theorem DiffDownloadClientsWithIR_empty_iff_witness:
  "IsEmpty (DiffDownloadClientsWithIR backward_order [sample_dc ''a'' 4 80] [sample_dc ''a'' 0 80] no_changes)"
  by (simp only: DiffDownloadClientsWithIR_empty_iff [OF valid_backward_order])
    (simp add: latest_def sample_dc_def DownloadClientsEqual_def)

text \<open>
  The indexer diff adds, for every order of the runtime, exactly these changes: a create
  for each desired name the service lacks, an update with the current ID for each name whose
  indexer differs, a delete with the current ID for each name no longer desired. When a
  name occurs twice in a slice its last entry counts.
\<close>

theorem DiffIndexersWithIR_exact:
  assumes "valid_order ord"
  shows "set (cs_Creates (DiffIndexersWithIR ord current desired no_changes)) =
      {idx_create n d |n d. latest idx_Name desired n = Some d \<and> latest idx_Name current n = None}
    \<and> set (cs_Updates (DiffIndexersWithIR ord current desired no_changes)) =
      {idx_update n c d |n c d. latest idx_Name desired n = Some d \<and> latest idx_Name current n = Some c
         \<and> \<not> IndexersEqual c d}
    \<and> set (cs_Deletes (DiffIndexersWithIR ord current desired no_changes)) =
      {idx_delete n c |n c. latest idx_Name current n = Some c \<and> latest idx_Name desired n = None}"
  by (simp add: idxs.diff_sets [OF assms] no_changes_def)

theorem DiffIndexersWithIR_exact_witness:
  "cs_Deletes (DiffIndexersWithIR forward_order [] [] no_changes) = []"
  using DiffIndexersWithIR_exact [OF valid_forward_order, of "[]" "[]"] by simp

text \<open>
  The deprecated diff with an ID map and its replacement agree, change by change,
  whenever the map holds the ID of every current client under its name.
\<close>

theorem DiffDownloadClients_ids_agree:
  assumes ord: "valid_order ord"
    and ids: "\<forall>name c. latest dc_Name current name = Some c \<longrightarrow> map_of clientIDs name = Some (dc_ID c)"
  shows "DiffDownloadClients ord current desired clientIDs changes
       = DiffDownloadClientsWithIR ord current desired changes"
proof -
  have upd: "id_or_zero clientIDs n = dc_ID c" if "map_of (index_by dc_Name current) n = Some c" for n c
    using ids that by (simp add: id_or_zero_def map_of_index_by)
  have del: "id_or_zero clientIDs n = dc_ID c" if "(n, c) \<in> set (gm_range ord 1 (index_by dc_Name current))" for n c
    using ids that by (simp add: id_or_zero_def set_gm_range [OF ord] set_index_by)
  show ?thesis
    unfolding DiffDownloadClients_def DiffDownloadClientsWithIR_def Let_def
    by (intro fold_cong refl) (auto simp: upd del fun_eq_iff split: option.split)
qed

theorem DiffDownloadClients_ids_agree_witness:
  "DiffDownloadClients forward_order [sample_dc ''a'' 4 80] [] [(''a'', 4)] no_changes
   = DiffDownloadClientsWithIR forward_order [sample_dc ''a'' 4 80] [] no_changes"
  by (rule DiffDownloadClients_ids_agree [OF valid_forward_order])
    (auto simp: latest_def sample_dc_def split: if_splits)

lemma all_specs_match_iff:
  "all_specs_match m ds \<longleftrightarrow> (\<forall>d \<in> set ds. map_of m (fs_Name d) = Some d)"
proof -
  have "FormatSpecsEqual c d \<longleftrightarrow> c = d" for c d
    by (auto simp: FormatSpecsEqual_def)
  then show ?thesis by (induction ds) (auto split: option.split)
qed

text \<open>
  For custom formats whose specifications have distinct names, \<^verbatim>\<open>CustomFormatsEqual\<close>
  decides equality of name, renaming flag and specifications up to their order.
\<close>

theorem CustomFormatsEqual_iff:
  assumes cur: "distinct (map fs_Name (cf_Specifications current))"
    and des: "distinct (map fs_Name (cf_Specifications desired))"
  shows "CustomFormatsEqual current desired \<longleftrightarrow>
    cf_Name current = cf_Name desired \<and>
    cf_IncludeWhenRenaming current = cf_IncludeWhenRenaming desired \<and>
    mset (cf_Specifications current) = mset (cf_Specifications desired)"
proof -
  let ?c = "cf_Specifications current" and ?d = "cf_Specifications desired"
  have dist: "distinct ?c" "distinct ?d"
    using cur des by (auto simp: distinct_map)
  have match: "all_specs_match (index_by fs_Name ?c) ?d \<longleftrightarrow> set ?d \<subseteq> set ?c"
    using cur by (auto simp: all_specs_match_iff map_of_index_by latest_distinct dest: latest_SomeD)
  have "length ?c = length ?d \<and> set ?d \<subseteq> set ?c \<longleftrightarrow> set ?c = set ?d"
    using dist by (metis card_subset_eq distinct_card finite_set subset_refl)
  moreover have "set ?c = set ?d \<longleftrightarrow> mset ?c = mset ?d"
    using dist by (simp add: set_eq_iff_mset_eq_distinct)
  ultimately show ?thesis
    by (auto simp: CustomFormatsEqual_def match)
qed

definition sample_spec :: "string \<Rightarrow> string \<Rightarrow> FormatSpecIR" where
  "sample_spec name v = \<lparr>fs_Type = ''ReleaseTitleSpecification'', fs_Name = name, fs_Negate = False,
                         fs_Required = True, fs_Value = v\<rparr>"

definition sample_cf :: "FormatSpecIR list \<Rightarrow> CustomFormatIR" where
  "sample_cf specs = \<lparr>cf_ID = 0, cf_Name = ''f'', cf_IncludeWhenRenaming = False, cf_Specifications = specs\<rparr>"

theorem CustomFormatsEqual_iff_witness:
  "CustomFormatsEqual (sample_cf [sample_spec ''x'' ''1'', sample_spec ''y'' ''2''])
     (sample_cf [sample_spec ''y'' ''2'', sample_spec ''x'' ''1''])"
  using CustomFormatsEqual_iff [of "sample_cf [sample_spec ''x'' ''1'', sample_spec ''y'' ''2'']"
      "sample_cf [sample_spec ''y'' ''2'', sample_spec ''x'' ''1'']"]
  by (simp add: sample_cf_def sample_spec_def)

text \<open>
  Root folders are only ever created, never updated or deleted: the diff appends one
  create per desired folder whose path the service lacks, in the order of the spec.
\<close>

theorem DiffRootFolders_creates_only:
  "DiffRootFolders current desired changes =
     changes\<lparr>cs_Creates := cs_Creates changes @
       map (\<lambda>f. \<lparr>ch_ResourceType = ResourceRootFolder, ch_Name = rf_Path f, ch_ID = None,
                 ch_Payload = RootFolderVal \<lparr>rf_Path = rf_Path f, rf_Name = '''', rf_DefaultMonitor = ''''\<rparr>\<rparr>)
           (filter (\<lambda>f. rf_Path f \<notin> rf_Path ` set current) desired)\<rparr>"
  unfolding DiffRootFolders_def Let_def
  by (induction desired arbitrary: changes) (auto simp: add_create_def)

text \<open>
  The order of the changes does depend on the runtime: the same two desired clients
  give two different change sets under two orders of map iteration.
\<close>

theorem DiffDownloadClientsWithIR_order_varies:
  "DiffDownloadClientsWithIR forward_order [] [sample_dc ''a'' 0 80, sample_dc ''b'' 0 80] no_changes \<noteq>
   DiffDownloadClientsWithIR backward_order [] [sample_dc ''a'' 0 80, sample_dc ''b'' 0 80] no_changes"
  by (simp add: DiffDownloadClientsWithIR_def index_by_def gm_set_def gm_range_def forward_order_def
      backward_order_def sample_dc_def add_create_def no_changes_def upt_rec)

end
