(* ===== verification/Shared_Apply.thy ===== *)
theory Shared_Apply
  imports Diff
begin

text \<open>
  \<^verbatim>\<open>src/internal/adapters/shared/apply.go\<close> and \<^verbatim>\<open>applydirect.go\<close>: executing a change
  set through callbacks, and the direct appliers for import lists, media management and
  authentication. A callback is an action on the service's state \<open>'s\<close>; an error it returns
  is recorded and the loop goes on, a panic unwinds the whole call.
\<close>

section \<open>Applying a change set\<close>

definition record_failure :: "Change \<Rightarrow> string \<Rightarrow> ApplyResult \<Rightarrow> ApplyResult" where
  "record_failure change err result =
     result\<lparr>ar_Failed := ar_Failed result + 1,
            ar_Errors := ar_Errors result @ [\<lparr>ae_Change = change, ae_Error = err\<rparr>]\<rparr>"

definition record_applied :: "ApplyResult \<Rightarrow> ApplyResult" where
  "record_applied result = result\<lparr>ar_Applied := ar_Applied result + 1\<rparr>"

fun apply_loop :: "(Change \<Rightarrow> ('s, unit) action) \<Rightarrow> Change list \<Rightarrow> ApplyResult \<Rightarrow> ('s, ApplyResult) action" where
  "apply_loop fn [] result s = (Ok result, s)"
| "apply_loop fn (change # rest) result s =
     (case fn change s of
        (Err err, s') \<Rightarrow> apply_loop fn rest (record_failure change err result) s'
      | (Ok _, s') \<Rightarrow> apply_loop fn rest (record_applied result) s'
      | (Panic p, s') \<Rightarrow> (Panic p, s'))"

definition ApplyChanges ::
    "ChangeSet \<Rightarrow> (Change \<Rightarrow> ('s, unit) action) \<Rightarrow> (Change \<Rightarrow> ('s, unit) action)
     \<Rightarrow> (Change \<Rightarrow> ('s, unit) action) \<Rightarrow> ('s, ApplyResult) action" where
  "ApplyChanges changes createFn updateFn deleteFn =
     andThen (apply_loop createFn (cs_Creates changes) zero_result) (\<lambda>result.
     andThen (apply_loop updateFn (cs_Updates changes) result) (\<lambda>result.
     apply_loop deleteFn (cs_Deletes changes) result))"

section \<open>Applying directly from the IR\<close>

record ImportListStats =
  ils_Created :: int
  ils_Updated :: int
  ils_Deleted :: int
  ils_Skipped :: int
  ils_Errors :: "string list"

record 's DirectApplyCallbacks =
  cb_ApplyImportLists :: "('s, ImportListStats option) action option"
  cb_ApplyMediaManagement :: "('s, unit) action option"
  cb_ApplyAuthentication :: "('s, unit) action option"

definition direct_import_lists ::
    "IR \<Rightarrow> ('s, ImportListStats option) action option \<Rightarrow> ApplyResult \<Rightarrow> ('s, ApplyResult) action" where
  "direct_import_lists ir cb result s =
     (case cb of
        None \<Rightarrow> (Ok result, s)
      | Some f \<Rightarrow>
          if length (ir_ImportLists ir) > 0
          then (case f s of
                  (Err err, s') \<Rightarrow>
                    (Ok (record_failure (change_of_type ResourceImportList)
                           (''failed to apply import lists: '' @ err) result), s')
                | (Ok None, s') \<Rightarrow> (Ok result, s')
                | (Ok (Some stats), s') \<Rightarrow>
                    (Ok (fold (record_failure (change_of_type ResourceImportList)) (ils_Errors stats)
                           (result\<lparr>ar_Applied := ar_Applied result + (ils_Created stats + ils_Updated stats + ils_Deleted stats),
                                   ar_Skipped := ar_Skipped result + ils_Skipped stats\<rparr>)), s')
                | (Panic p, s') \<Rightarrow> (Panic p, s'))
          else (Ok result, s))"

definition direct_config ::
    "string \<Rightarrow> bool \<Rightarrow> ('s, unit) action option \<Rightarrow> ApplyResult \<Rightarrow> ('s, ApplyResult) action" where
  "direct_config resource present cb result s =
     (case cb of
        None \<Rightarrow> (Ok result, s)
      | Some f \<Rightarrow>
          if present
          then (case f s of
                  (Err err, s') \<Rightarrow> (Ok (record_failure (change_of_type resource) err result), s')
                | (Ok _, s') \<Rightarrow> (Ok (record_applied result), s')
                | (Panic p, s') \<Rightarrow> (Panic p, s'))
          else (Ok result, s))"

definition ApplyDirect :: "IR \<Rightarrow> 's DirectApplyCallbacks \<Rightarrow> ('s, ApplyResult) action" where
  "ApplyDirect ir callbacks =
     andThen (direct_import_lists ir (cb_ApplyImportLists callbacks) zero_result) (\<lambda>result.
     andThen (direct_config ResourceMediaManagement (ir_MediaManagement ir \<noteq> None)
                (cb_ApplyMediaManagement callbacks) result) (\<lambda>result.
     direct_config ResourceAuthentication (ir_Authentication ir \<noteq> None)
       (cb_ApplyAuthentication callbacks) result))"

section \<open>The apply loop\<close>

text \<open>
  What a loop leaves behind when no callback panics: each change was tried once, in order;
  the counters split the changes into applied and failed.
\<close>

definition run_all :: "(Change \<Rightarrow> ('s, unit) action) \<Rightarrow> Change list \<Rightarrow> 's \<Rightarrow> 's" where
  "run_all fn cs s = fold (\<lambda>c s. snd (fn c s)) cs s"

definition result_ok :: "nat \<Rightarrow> ApplyResult \<Rightarrow> bool" where
  "result_ok n r \<longleftrightarrow> ar_Applied r + ar_Failed r = int n \<and> ar_Failed r = int (length (ar_Errors r)) \<and>
     0 \<le> ar_Applied r \<and> ar_Skipped r = 0"

lemma apply_loop_ok:
  assumes "\<forall>c \<in> set cs. no_panic (fn c)" and "result_ok n r"
  shows "\<exists>r'. apply_loop fn cs r s = (Ok r', run_all fn cs s) \<and> result_ok (n + length cs) r' \<and>
    (\<forall>e \<in> set (ar_Errors r'). e \<in> set (ar_Errors r) \<or> ae_Change e \<in> set cs)"
  using assms
proof (induction cs arbitrary: s r n)
  case Nil
  then show ?case by (simp add: run_all_def)
next
  case (Cons c cs)
  obtain q s' where q: "fn c s = (q, s')" by fastforce
  have "returns q" using Cons.prems(1) q by (auto intro: no_panicD)
  then consider x where "q = Ok x" | e where "q = Err e" by (cases q) auto
  then show ?case
  proof cases
    case 1
    have "result_ok (Suc n) (record_applied r)"
      using Cons.prems(2) by (simp add: result_ok_def record_applied_def)
    from Cons.IH [OF _ this, of s'] Cons.prems(1) show ?thesis
      using q 1 by (auto simp: run_all_def record_applied_def)
  next
    case 2
    have "result_ok (Suc n) (record_failure c e r)"
      using Cons.prems(2) by (simp add: result_ok_def record_failure_def)
    from Cons.IH [OF _ this, of s'] Cons.prems(1) show ?thesis
      using q 2 by (force simp: run_all_def record_failure_def)
  qed
qed

lemma result_ok_zero [simp]: "result_ok 0 zero_result"
  by (simp add: result_ok_def zero_result_def)

lemma ApplyChanges_result:
  assumes "all_changes (\<lambda>c. no_panic (createFn c)) (\<lambda>c. no_panic (updateFn c)) (\<lambda>c. no_panic (deleteFn c)) changes"
  shows "\<exists>r. ApplyChanges changes createFn updateFn deleteFn s =
      (Ok r, run_all deleteFn (cs_Deletes changes)
               (run_all updateFn (cs_Updates changes) (run_all createFn (cs_Creates changes) s)))
    \<and> result_ok (TotalChanges changes) r"
proof -
  let ?s1 = "run_all createFn (cs_Creates changes) s"
  let ?s2 = "run_all updateFn (cs_Updates changes) ?s1"
  have fns: "\<forall>c \<in> set (cs_Creates changes). no_panic (createFn c)" "\<forall>c \<in> set (cs_Updates changes). no_panic (updateFn c)"
    "\<forall>c \<in> set (cs_Deletes changes). no_panic (deleteFn c)"
    using assms by (simp_all add: all_changes_def)
  obtain r1 where 1: "apply_loop createFn (cs_Creates changes) zero_result s = (Ok r1, ?s1)"
      and ok1: "result_ok (0 + length (cs_Creates changes)) r1"
    using apply_loop_ok [OF fns(1) result_ok_zero, of s] by blast
  obtain r2 where 2: "apply_loop updateFn (cs_Updates changes) r1 ?s1 = (Ok r2, ?s2)"
      and ok2: "result_ok (0 + length (cs_Creates changes) + length (cs_Updates changes)) r2"
    using apply_loop_ok [OF fns(2) ok1, of ?s1] by blast
  obtain r3 where 3: "apply_loop deleteFn (cs_Deletes changes) r2 ?s2 =
        (Ok r3, run_all deleteFn (cs_Deletes changes) ?s2)"
      and ok3: "result_ok (0 + length (cs_Creates changes) + length (cs_Updates changes)
        + length (cs_Deletes changes)) r3"
    using apply_loop_ok [OF fns(3) ok2, of ?s2] by blast
  have "ApplyChanges changes createFn updateFn deleteFn s = (Ok r3, run_all deleteFn (cs_Deletes changes) ?s2)"
    by (simp add: ApplyChanges_def 1 2 3)
  then show ?thesis using ok3 by (auto simp: TotalChanges_def)
qed

text \<open>
  What the callbacks answered: each change of a list with the answer to it, in the order the
  changes are tried, each on the state the one before it left. From it follow the counters and
  the recorded errors.
\<close>

fun attempts :: "(Change \<Rightarrow> ('s, unit) action) \<Rightarrow> Change list \<Rightarrow> 's \<Rightarrow> (Change \<times> unit outcome) list" where
  "attempts fn [] s = []"
| "attempts fn (c # cs) s = (c, fst (fn c s)) # attempts fn cs (snd (fn c s))"

fun attempt_errors :: "Change \<times> unit outcome \<Rightarrow> ApplyError list" where
  "attempt_errors (c, Err e) = [\<lparr>ae_Change = c, ae_Error = e\<rparr>]"
| "attempt_errors (c, q) = []"

definition add_attempts :: "(Change \<times> unit outcome) list \<Rightarrow> ApplyResult \<Rightarrow> ApplyResult" where
  "add_attempts tried r =
     r\<lparr>ar_Applied := ar_Applied r + int (length (filter (\<lambda>(c, q). q = Ok ()) tried)),
       ar_Failed := ar_Failed r + int (length (concat (map attempt_errors tried))),
       ar_Errors := ar_Errors r @ concat (map attempt_errors tried)\<rparr>"

lemma attempts_changes [simp]: "map fst (attempts fn cs s) = cs"
  by (induction cs arbitrary: s) auto

lemma add_attempts_append: "add_attempts ys (add_attempts xs r) = add_attempts (xs @ ys) r"
  by (simp add: add_attempts_def)

lemma apply_loop_exact:
  "\<forall>c \<in> set cs. no_panic (fn c) \<Longrightarrow>
     apply_loop fn cs r s = (Ok (add_attempts (attempts fn cs s) r), run_all fn cs s)"
proof (induction cs arbitrary: s r)
  case Nil
  then show ?case by (simp add: run_all_def add_attempts_def)
next
  case (Cons c cs)
  obtain q s' where q: "fn c s = (q, s')" by fastforce
  have "returns q" using Cons.prems q by (auto intro: no_panicD)
  then show ?case
    using Cons q by (cases q) (auto simp: run_all_def add_attempts_def record_applied_def record_failure_def)
qed

definition changes_tried ::
    "ChangeSet \<Rightarrow> (Change \<Rightarrow> ('s, unit) action) \<Rightarrow> (Change \<Rightarrow> ('s, unit) action) \<Rightarrow> (Change \<Rightarrow> ('s, unit) action)
     \<Rightarrow> 's \<Rightarrow> (Change \<times> unit outcome) list" where
  "changes_tried changes createFn updateFn deleteFn s =
     (let s1 = run_all createFn (cs_Creates changes) s; s2 = run_all updateFn (cs_Updates changes) s1
      in attempts createFn (cs_Creates changes) s @ attempts updateFn (cs_Updates changes) s1 @
         attempts deleteFn (cs_Deletes changes) s2)"

lemma ApplyChanges_exact:
  assumes "all_changes (\<lambda>c. no_panic (createFn c)) (\<lambda>c. no_panic (updateFn c)) (\<lambda>c. no_panic (deleteFn c)) changes"
  shows "ApplyChanges changes createFn updateFn deleteFn s =
    (Ok (add_attempts (changes_tried changes createFn updateFn deleteFn s) zero_result),
     run_all deleteFn (cs_Deletes changes) (run_all updateFn (cs_Updates changes) (run_all createFn (cs_Creates changes) s)))"
proof -
  have "\<forall>c \<in> set (cs_Creates changes). no_panic (createFn c)" "\<forall>c \<in> set (cs_Updates changes). no_panic (updateFn c)"
    "\<forall>c \<in> set (cs_Deletes changes). no_panic (deleteFn c)"
    using assms by (simp_all add: all_changes_def)
  then show ?thesis
    by (simp add: ApplyChanges_def apply_loop_exact add_attempts_append changes_tried_def Let_def)
qed

lemma attempt_errors_none: "returns q \<Longrightarrow> attempt_errors (c, q) = [] \<longleftrightarrow> q = Ok ()"
  by (cases q) simp_all

lemma no_errors_iff:
  "\<forall>(c, q) \<in> set tried. returns q \<Longrightarrow> concat (map attempt_errors tried) = [] \<longleftrightarrow> (\<forall>(c, q) \<in> set tried. q = Ok ())"
  by (induction tried) (auto simp: attempt_errors_none)

lemma attempts_return: "\<forall>c \<in> set cs. no_panic (fn c) \<Longrightarrow> \<forall>(c, q) \<in> set (attempts fn cs s). returns q"
  by (induction cs arbitrary: s) (auto simp: no_panic_def)

text \<open>
  C13. Applying a change set is fail-soft and accounts for every change: when no callback
  panics on a change of the set, it returns, it has tried all creates, then all updates,
  then all deletes, each exactly once and in order, each on the state the one before left,
  whatever errors occurred on the way. The applied counter is the number of changes whose
  callback answered without an error; every change whose callback answered with an error,
  and no other, has an entry in the errors, in order, with that change and that error; the
  failed counter is their number; and success is reported exactly when every callback
  answered without an error.
\<close>

theorem ApplyChanges_accounts:
  assumes "all_changes (\<lambda>c. no_panic (createFn c)) (\<lambda>c. no_panic (updateFn c)) (\<lambda>c. no_panic (deleteFn c)) changes"
  shows "let s1 = run_all createFn (cs_Creates changes) s; s2 = run_all updateFn (cs_Updates changes) s1;
      tried = attempts createFn (cs_Creates changes) s @ attempts updateFn (cs_Updates changes) s1 @
        attempts deleteFn (cs_Deletes changes) s2
    in map fst tried = cs_Creates changes @ cs_Updates changes @ cs_Deletes changes \<and>
      (\<exists>r. ApplyChanges changes createFn updateFn deleteFn s = (Ok r, run_all deleteFn (cs_Deletes changes) s2)
        \<and> ar_Applied r = int (length (filter (\<lambda>(c, q). q = Ok ()) tried))
        \<and> ar_Errors r = concat (map (\<lambda>(c, q). case q of Err e \<Rightarrow> [\<lparr>ae_Change = c, ae_Error = e\<rparr>] | _ \<Rightarrow> []) tried)
        \<and> ar_Failed r = int (length (ar_Errors r)) \<and> ar_Skipped r = 0
        \<and> ar_Applied r + ar_Failed r = int (TotalChanges changes)
        \<and> (Success r \<longleftrightarrow> (\<forall>(c, q) \<in> set tried. q = Ok ())))"
proof -
  let ?tried = "changes_tried changes createFn updateFn deleteFn s"
  have errors: "attempt_errors = (\<lambda>(c, q). case q of Err e \<Rightarrow> [\<lparr>ae_Change = c, ae_Error = e\<rparr>] | _ \<Rightarrow> [])"
    by (auto intro!: ext split: outcome.split)
  have "\<forall>(c, q) \<in> set ?tried. returns q"
    using assms attempts_return by (fastforce simp: changes_tried_def Let_def all_changes_def)
  then have "Success (add_attempts ?tried zero_result) \<longleftrightarrow> (\<forall>(c, q) \<in> set ?tried. q = Ok ())"
    using no_errors_iff [of ?tried] by (auto simp: Success_def add_attempts_def zero_result_def)
  moreover have "ar_Applied (add_attempts ?tried zero_result) + ar_Failed (add_attempts ?tried zero_result) = int (TotalChanges changes)"
    using ApplyChanges_result [OF assms, of s] ApplyChanges_exact [OF assms, of s] by (auto simp: result_ok_def)
  ultimately show ?thesis
    using ApplyChanges_exact [OF assms, of s]
    by (simp add: Let_def changes_tried_def add_attempts_def zero_result_def flip: errors)
qed

theorem ApplyChanges_accounts_witness:
  "\<exists>r. ApplyChanges \<lparr>cs_Creates = [dc_create ''a'' (sample_dc ''a'' 0 80)], cs_Updates = [],
         cs_Deletes = [dc_delete ''b'' (sample_dc ''b'' 7 80)]\<rparr>
       (\<lambda>c s. (Err ''refused'', s)) (\<lambda>c s. (Ok (), s)) (\<lambda>c s. (Ok (), ch_Name c # s)) [] = (Ok r, [''b''])
     \<and> ar_Applied r = 1 \<and> ar_Errors r = [\<lparr>ae_Change = dc_create ''a'' (sample_dc ''a'' 0 80), ae_Error = ''refused''\<rparr>]
     \<and> \<not> Success r"
proof -
  let ?cs = "\<lparr>cs_Creates = [dc_create ''a'' (sample_dc ''a'' 0 80)], cs_Updates = [],
              cs_Deletes = [dc_delete ''b'' (sample_dc ''b'' 7 80)]\<rparr>"
  have "all_changes (\<lambda>c. no_panic (\<lambda>s :: string list. (Err ''refused'' :: unit outcome, s)))
      (\<lambda>c. no_panic (\<lambda>s :: string list. (Ok (), s))) (\<lambda>c. no_panic (\<lambda>s. (Ok (), ch_Name c # s))) ?cs"
    by (simp add: all_changes_def no_panic_def)
  from ApplyChanges_accounts [OF this, of "[]"] show ?thesis
    by (auto simp: run_all_def dc_delete_def Let_def)
qed

section \<open>Convergence\<close>

text \<open>
  What the operator relies on when it applies a keyed diff to a collection of a service,
  named per callback. \<open>view\<close> is the collection the service would list, by key, \<open>safe\<close> what
  holds of the service throughout and \<open>want\<close> the desired resources by key. A create adds a
  resource for a wanted key the service lacks, an update or delete addresses a resource the
  service has, none fails, each leaves the other keys alone, and what the service then
  lists for a wanted resource is one the comparison \<open>same\<close> accepts (it may carry an ID).
\<close>

definition creates_resource ::
    "('s \<Rightarrow> bool) \<Rightarrow> ('s \<Rightarrow> 'k \<rightharpoonup> 'a) \<Rightarrow> ('a \<Rightarrow> 'a \<Rightarrow> bool) \<Rightarrow> ('k \<rightharpoonup> 'a) \<Rightarrow> ('k \<Rightarrow> 'a \<Rightarrow> Change)
     \<Rightarrow> (Change \<Rightarrow> ('s, unit) action) \<Rightarrow> bool" where
  "creates_resource safe view same want mkC createFn \<longleftrightarrow>
     (\<forall>k d s. safe s \<and> want k = Some d \<and> view s k = None \<longrightarrow>
        (\<exists>x s'. createFn (mkC k d) s = (Ok (), s') \<and> safe s' \<and> same x d \<and> view s' = (view s)(k \<mapsto> x)))"

definition updates_resource ::
    "('s \<Rightarrow> bool) \<Rightarrow> ('s \<Rightarrow> 'k \<rightharpoonup> 'a) \<Rightarrow> ('a \<Rightarrow> 'a \<Rightarrow> bool) \<Rightarrow> ('k \<rightharpoonup> 'a) \<Rightarrow> ('k \<Rightarrow> 'a \<Rightarrow> 'a \<Rightarrow> Change)
     \<Rightarrow> (Change \<Rightarrow> ('s, unit) action) \<Rightarrow> bool" where
  "updates_resource safe view same want mkU updateFn \<longleftrightarrow>
     (\<forall>k c d s. safe s \<and> want k = Some d \<and> view s k = Some c \<longrightarrow>
        (\<exists>x s'. updateFn (mkU k c d) s = (Ok (), s') \<and> safe s' \<and> same x d \<and> view s' = (view s)(k \<mapsto> x)))"

definition deletes_resource ::
    "('s \<Rightarrow> bool) \<Rightarrow> ('s \<Rightarrow> 'k \<rightharpoonup> 'a) \<Rightarrow> ('k \<Rightarrow> 'a \<Rightarrow> Change) \<Rightarrow> (Change \<Rightarrow> ('s, unit) action) \<Rightarrow> bool" where
  "deletes_resource safe view mkD deleteFn \<longleftrightarrow>
     (\<forall>k c s. safe s \<and> view s k = Some c \<longrightarrow>
        (\<exists>s'. deleteFn (mkD k c) s = (Ok (), s') \<and> safe s' \<and> view s' = (view s)(k := None)))"

fun all_ok :: "(Change \<Rightarrow> ('s, unit) action) \<Rightarrow> Change list \<Rightarrow> 's \<Rightarrow> bool" where
  "all_ok fn [] s = True"
| "all_ok fn (c # cs) s = (fst (fn c s) = Ok () \<and> all_ok fn cs (snd (fn c s)))"

lemma run_all_append: "run_all fn (xs @ ys) s = run_all fn ys (run_all fn xs s)"
  by (simp add: run_all_def)

lemma run_all_simps [simp]: "run_all fn [] s = s" "run_all fn (c # cs) s = run_all fn cs (snd (fn c s))"
  by (simp_all add: run_all_def)

lemma apply_loop_all_ok:
  "all_ok fn cs s \<Longrightarrow>
     apply_loop fn cs r s = (Ok (r\<lparr>ar_Applied := ar_Applied r + int (length cs)\<rparr>), run_all fn cs s)"
proof (induction cs arbitrary: s r)
  case (Cons c cs)
  obtain s' where "fn c s = (Ok (), s')"
    using Cons.prems by (cases "fn c s") auto
  then show ?case
    using Cons by (simp add: record_applied_def algebra_simps)
qed simp

lemma all_ok_append: "all_ok fn (xs @ ys) s \<longleftrightarrow> all_ok fn xs s \<and> all_ok fn ys (run_all fn xs s)"
  by (induction xs arbitrary: s) auto

text \<open>
  Running the changes of a list of entries with distinct keys, when the changes of each
  entry only touch its own key: \<open>before\<close> is what the service holds under a key when its
  turn comes, \<open>after\<close> what may be there afterwards.
\<close>

lemma run_entries:
  assumes step: "\<And>k v s. (k, v) \<in> set es \<Longrightarrow> safe s \<Longrightarrow> view s k = before k \<Longrightarrow>
      \<exists>y. all_ok fn (g (k, v)) s \<and> safe (run_all fn (g (k, v)) s) \<and> after k v y \<and>
        view (run_all fn (g (k, v)) s) = (view s)(k := y)"
    and "distinct (map fst es)" and "\<forall>k \<in> fst ` set es. view s k = before k" and "safe s"
  shows "all_ok fn (concat (map g es)) s \<and> safe (run_all fn (concat (map g es)) s) \<and>
    (\<forall>k. case map_of es k of None \<Rightarrow> view (run_all fn (concat (map g es)) s) k = view s k
       | Some v \<Rightarrow> after k v (view (run_all fn (concat (map g es)) s) k))"
  using assms
proof (induction es arbitrary: s)
  case Nil
  then show ?case by simp
next
  case (Cons e es)
  obtain k v where e: "e = (k, v)" by fastforce
  let ?s = "run_all fn (g (k, v)) s"
  let ?t = "run_all fn (concat (map g es)) ?s"
  obtain y where now: "all_ok fn (g (k, v)) s" "safe ?s" "after k v y" "view ?s = (view s)(k := y)"
    using Cons.prems(1) [of k v s, OF _ Cons.prems(4)] Cons.prems(3) e by (metis fst_conv image_eqI list.set_intros(1))
  have k: "k \<notin> fst ` set es" using Cons.prems(2) e by auto
  then have "\<forall>k' \<in> fst ` set es. view ?s k' = before k'"
    using Cons.prems(3) e now(4) by auto
  then have IH: "all_ok fn (concat (map g es)) ?s \<and> safe ?t \<and>
      (\<forall>k. case map_of es k of None \<Rightarrow> view ?t k = view ?s k | Some v \<Rightarrow> after k v (view ?t k))"
    using Cons.prems(1,2) now(2) by (intro Cons.IH) auto
  have "map_of es k = None" using k by (simp add: map_of_eq_None_iff)
  then have "view ?t k = y" using IH now(4) by (metis fun_upd_same option.simps(4))
  then have "case map_of (e # es) k' of None \<Rightarrow> view ?t k' = view s k' | Some v \<Rightarrow> after k' v (view ?t k')" for k'
    using IH [THEN conjunct2, THEN conjunct2, rule_format, of k'] now(3,4) e
    by (cases "k' = k") (auto split: option.splits)
  moreover have "run_all fn (concat (map g (e # es))) s = ?t" "all_ok fn (concat (map g (e # es))) s"
    using IH now(1) e by (simp_all add: all_ok_append run_all_append)
  ultimately show ?case using IH by metis
qed

text \<open>
  What the service should hold in the end: a resource that was in order is still the same
  one, and every wanted key has a resource the comparison accepts.
\<close>

definition settled :: "('a \<Rightarrow> 'a \<Rightarrow> bool) \<Rightarrow> 'a option \<Rightarrow> 'a option \<Rightarrow> 'a option \<Rightarrow> bool" where
  "settled same c d y =
     (case d of None \<Rightarrow> y = None
      | Some d \<Rightarrow> (case y of None \<Rightarrow> False
          | Some x \<Rightarrow> same x d \<and> (case c of None \<Rightarrow> True | Some c \<Rightarrow> same c d \<longrightarrow> x = c)))"

lemma settled_in_sync: "settled same c d y \<Longrightarrow> rel_option same y d"
  by (auto simp: settled_def split: option.splits)

text \<open>The entries of an index, once each, in any order.\<close>

definition entries :: "('a \<Rightarrow> 'k) \<Rightarrow> 'a list \<Rightarrow> ('k \<times> 'a) list \<Rightarrow> bool" where
  "entries key xs es \<longleftrightarrow> distinct (map fst es) \<and> (\<forall>k. map_of es k = latest key xs k)"

lemma entriesD:
  assumes "entries key xs es"
  shows "distinct (map fst es)" and "map_of es k = latest key xs k" and "(k, x) \<in> set es \<longleftrightarrow> latest key xs k = Some x"
  using assms by (simp_all add: entries_def map_of_eq_Some_iff [symmetric])

lemma entries_range: "valid_order ord \<Longrightarrow> entries key xs (gm_range ord t (index_by key xs))"
  by (simp add: entries_def distinct_gm_range map_of_gm_range map_of_index_by)

lemma run_creates:
  fixes key :: "'a \<Rightarrow> 'k" and mkC cur es
  defines "C \<equiv> concat (map (plan_create key mkC cur) es)"
  assumes ents: "entries key des es" and law: "creates_resource safe view same (latest key des) mkC createFn"
    and current: "view s = latest key cur" and "safe s"
  shows "all_ok createFn C s \<and> safe (run_all createFn C s) \<and>
    (\<forall>k. if latest key cur k = None \<and> latest key des k \<noteq> None
         then rel_option same (view (run_all createFn C s) k) (latest key des k)
         else view (run_all createFn C s) k = latest key cur k)"
proof -
  define after where "after = (\<lambda>k d y. if latest key cur k = None then rel_option same y (Some d)
                                      else y = latest key cur k)"
  have "\<exists>y. all_ok createFn (plan_create key mkC cur (k, d)) s \<and>
      safe (run_all createFn (plan_create key mkC cur (k, d)) s) \<and> after k d y \<and>
      view (run_all createFn (plan_create key mkC cur (k, d)) s) = (view s)(k := y)"
    if d: "(k, d) \<in> set es" and "safe s" "view s k = latest key cur k" for k d s
  proof (cases "latest key cur k")
    case None
    then obtain x s' where "createFn (mkC k d) s = (Ok (), s')" "safe s'" "same x d" "view s' = (view s)(k \<mapsto> x)"
      using law d \<open>safe s\<close> \<open>view s k = latest key cur k\<close>
      unfolding creates_resource_def entriesD(3) [OF ents] by metis
    then show ?thesis using None by (intro exI [of _ "Some x"]) (simp add: plan_create_def after_def)
  qed (use that in \<open>auto simp: plan_create_def after_def fun_upd_idem_iff\<close>)
  from run_entries [where es = es and safe = safe and view = view
      and before = "latest key cur" and fn = createFn and after = after and s = s,
      OF this entriesD(1) [OF ents] _ \<open>safe s\<close>]
  have run: "all_ok createFn C s" "safe (run_all createFn C s)"
    and view: "\<And>k. case latest key des k of None \<Rightarrow> view (run_all createFn C s) k = view s k
       | Some d \<Rightarrow> after k d (view (run_all createFn C s) k)"
    unfolding entriesD(2) [OF ents] C_def current by blast+
  have "if latest key cur k = None \<and> latest key des k \<noteq> None
        then rel_option same (view (run_all createFn C s) k) (latest key des k)
        else view (run_all createFn C s) k = latest key cur k" for k
    using view [of k] current by (cases "latest key des k") (simp_all add: after_def)
  with run show ?thesis by blast
qed

lemma run_updates:
  fixes key :: "'a \<Rightarrow> 'k" and same mkU cur es
  defines "U \<equiv> concat (map (plan_update key same mkU cur) es)"
  assumes ents: "entries key des es" and law: "updates_resource safe view same (latest key des) mkU updateFn"
    and current: "\<forall>k. if latest key cur k = None \<and> latest key des k \<noteq> None
         then rel_option same (view s k) (latest key des k) else view s k = latest key cur k"
    and "safe s"
  shows "all_ok updateFn U s \<and> safe (run_all updateFn U s) \<and>
    (\<forall>k. case latest key des k of None \<Rightarrow> view (run_all updateFn U s) k = latest key cur k
       | Some d \<Rightarrow> settled same (latest key cur k) (Some d) (view (run_all updateFn U s) k))"
proof -
  define after where "after = (\<lambda>k d. settled same (latest key cur k) (Some d))"
  define before where "before = view s"
  have "\<exists>y. all_ok updateFn (plan_update key same mkU cur (k, d)) s \<and>
      safe (run_all updateFn (plan_update key same mkU cur (k, d)) s) \<and> after k d y \<and>
      view (run_all updateFn (plan_update key same mkU cur (k, d)) s) = (view s)(k := y)"
    if d: "(k, d) \<in> set es" and "safe s" and b: "view s k = before k" for k d s
  proof (cases "\<exists>c. latest key cur k = Some c \<and> \<not> same c d")
    case True
    then obtain c where c: "latest key cur k = Some c" "\<not> same c d" by blast
    then have "view s k = Some c" using current b unfolding before_def by (metis option.distinct(1))
    then obtain x s' where "updateFn (mkU k c d) s = (Ok (), s')" "safe s'" "same x d" "view s' = (view s)(k \<mapsto> x)"
      using law d \<open>safe s\<close> unfolding updates_resource_def entriesD(3) [OF ents] by metis
    then show ?thesis using c by (intro exI [of _ "Some x"]) (simp add: plan_update_def after_def settled_def)
  next
    case False
    have "latest key des k = Some d" using d by (simp add: entriesD(3) [OF ents])
    then have "after k d (view s k)"
      using False current [rule_format, of k] b unfolding before_def
      by (cases "latest key cur k") (auto simp: after_def settled_def option_rel_Some2)
    then show ?thesis using False \<open>safe s\<close>
      by (intro exI [of _ "view s k"]) (auto simp: plan_update_def split: option.splits)
  qed
  from run_entries [where es = es and safe = safe and view = view
      and before = before and fn = updateFn and after = after and s = s, OF this entriesD(1) [OF ents]]
  have run: "all_ok updateFn U s" "safe (run_all updateFn U s)"
    and view: "\<And>k. case latest key des k of None \<Rightarrow> view (run_all updateFn U s) k = view s k
       | Some d \<Rightarrow> after k d (view (run_all updateFn U s) k)"
    unfolding entriesD(2) [OF ents] U_def using \<open>safe s\<close> by (simp_all add: before_def)
  have "case latest key des k of None \<Rightarrow> view (run_all updateFn U s) k = latest key cur k
       | Some d \<Rightarrow> settled same (latest key cur k) (Some d) (view (run_all updateFn U s) k)" for k
    using view [of k] current [rule_format, of k] by (cases "latest key des k") (simp_all add: after_def)
  with run show ?thesis by blast
qed

lemma run_deletes:
  fixes key :: "'a \<Rightarrow> 'k" and mkD des fs
  defines "D \<equiv> concat (map (plan_delete key mkD des) fs)"
  assumes ents: "entries key cur fs" and law: "deletes_resource safe view mkD deleteFn"
    and current: "\<forall>k. case latest key des k of None \<Rightarrow> view s k = latest key cur k
       | Some d \<Rightarrow> settled same (latest key cur k) (Some d) (view s k)"
    and "safe s"
  shows "all_ok deleteFn D s \<and> safe (run_all deleteFn D s) \<and>
    (\<forall>k. settled same (latest key cur k) (latest key des k) (view (run_all deleteFn D s) k))"
proof -
  define before where "before = view s"
  define after where "after = (\<lambda>k (c :: 'a) y. y = (if latest key des k = None then None else before k))"
  have "\<exists>y. all_ok deleteFn (plan_delete key mkD des (k, c)) s \<and>
      safe (run_all deleteFn (plan_delete key mkD des (k, c)) s) \<and> after k c y \<and>
      view (run_all deleteFn (plan_delete key mkD des (k, c)) s) = (view s)(k := y)"
    if c: "(k, c) \<in> set fs" and "safe s" and b: "view s k = before k" for k c s
  proof (cases "latest key des k")
    case None
    have "latest key cur k = Some c" using c by (simp add: entriesD(3) [OF ents])
    then have "view s k = Some c" using current [rule_format, of k] None b by (simp add: before_def)
    then obtain s' where "deleteFn (mkD k c) s = (Ok (), s')" "safe s'" "view s' = (view s)(k := None)"
      using law \<open>safe s\<close> unfolding deletes_resource_def by blast
    then show ?thesis using None by (intro exI [of _ None]) (simp add: plan_delete_def after_def)
  qed (use that in \<open>auto simp: plan_delete_def after_def fun_upd_idem_iff\<close>)
  from run_entries [where es = fs and safe = safe and view = view
      and before = before and fn = deleteFn and after = after and s = s, OF this entriesD(1) [OF ents]]
  have run: "all_ok deleteFn D s" "safe (run_all deleteFn D s)"
    and view: "\<And>k. case latest key cur k of None \<Rightarrow> view (run_all deleteFn D s) k = view s k
       | Some c \<Rightarrow> after k c (view (run_all deleteFn D s) k)"
    unfolding entriesD(2) [OF ents] D_def using \<open>safe s\<close> by (simp_all add: before_def)
  have "settled same (latest key cur k) (latest key des k) (view (run_all deleteFn D s) k)" for k
    using view [of k] current [rule_format, of k]
    by (cases "latest key des k"; cases "latest key cur k") (simp_all add: after_def before_def settled_def)
  with run show ?thesis by blast
qed

text \<open>
  Applying creates, updates and deletes planned from the entries of the desired and the current
  resources settles every key.
\<close>

lemma apply_plan:
  assumes ents: "entries key des es" "entries key cur fs"
    and laws: "creates_resource safe view same (latest key des) mkC createFn"
      "updates_resource safe view same (latest key des) mkU updateFn" "deletes_resource safe view mkD deleteFn"
    and current: "view s = latest key cur" and "safe s"
  shows "\<exists>r s'. ApplyChanges \<lparr>cs_Creates = concat (map (plan_create key mkC cur) es),
        cs_Updates = concat (map (plan_update key same mkU cur) es),
        cs_Deletes = concat (map (plan_delete key mkD des) fs)\<rparr> createFn updateFn deleteFn s = (Ok r, s') \<and>
    Success r \<and> safe s' \<and> (\<forall>k. settled same (latest key cur k) (latest key des k) (view s' k))"
proof -
  note 1 = run_creates [OF ents(1) laws(1) current \<open>safe s\<close>]
  note 2 = run_updates [OF ents(1) laws(2) 1 [THEN conjunct2, THEN conjunct2] 1 [THEN conjunct2, THEN conjunct1]]
  note 3 = run_deletes [OF ents(2) laws(3) 2 [THEN conjunct2, THEN conjunct2] 2 [THEN conjunct2, THEN conjunct1]]
  show ?thesis
    using 1 [THEN conjunct1] 2 [THEN conjunct1] 3
    by (simp add: ApplyChanges_def apply_loop_all_ok zero_result_def Success_def)
qed

lemma plan_empty:
  assumes "entries key des es" and "entries key cur fs" and "\<forall>k. rel_option same (latest key cur k) (latest key des k)"
  shows "IsEmpty \<lparr>cs_Creates = concat (map (plan_create key mkC cur) es),
    cs_Updates = concat (map (plan_update key same mkU cur) es), cs_Deletes = concat (map (plan_delete key mkD des) fs)\<rparr>"
proof -
  have "plan_create key mkC cur (k, d) = []" "plan_update key same mkU cur (k, d) = []" if "(k, d) \<in> set es" for k d
    using that assms(3) [rule_format, of k] by (auto simp: entriesD(3) [OF assms(1)] plan_create_def plan_update_def option_rel_Some2)
  moreover have "plan_delete key mkD des (k, c) = []" if "(k, c) \<in> set fs" for k c
    using that assms(3) [rule_format, of k] by (auto simp: entriesD(3) [OF assms(2)] plan_delete_def option_rel_Some1)
  ultimately show ?thesis by (force simp: IsEmpty_def)
qed

context keyed_diff
begin

lemma diff_appends:
  "diff ord cur des cs = cs_append cs
     \<lparr>cs_Creates = concat (map (plan_create key mkC cur) (gm_range ord 0 (index_by key des))),
      cs_Updates = concat (map (plan_update key same mkU cur) (gm_range ord 0 (index_by key des))),
      cs_Deletes = concat (map (plan_delete key mkD des) (gm_range ord 1 (index_by key cur)))\<rparr>"
  by (simp add: loops upsert_loop_eq delete_loop_eq cs_append_def)

lemma diff_eq:
  "diff ord cur des no_changes =
     \<lparr>cs_Creates = concat (map (plan_create key mkC cur) (gm_range ord 0 (index_by key des))),
      cs_Updates = concat (map (plan_update key same mkU cur) (gm_range ord 0 (index_by key des))),
      cs_Deletes = concat (map (plan_delete key mkD des) (gm_range ord 1 (index_by key cur)))\<rparr>"
  by (simp add: diff_appends cs_append_def no_changes_def)

lemma apply_diff:
  assumes ord: "valid_order ord"
    and laws: "creates_resource safe view same (latest key des) mkC createFn"
      "updates_resource safe view same (latest key des) mkU updateFn" "deletes_resource safe view mkD deleteFn"
    and current: "view s = latest key cur" and "safe s"
  shows "\<exists>r s'. ApplyChanges (diff ord cur des no_changes) createFn updateFn deleteFn s = (Ok r, s') \<and>
    Success r \<and> safe s' \<and> (\<forall>k. settled same (latest key cur k) (latest key des k) (view s' k))"
  unfolding diff_eq by (rule apply_plan [OF entries_range [OF ord] entries_range [OF ord] laws current \<open>safe s\<close>])

lemma second_diff_empty:
  assumes "valid_order ord"
    and "\<forall>k. settled same (latest key cur k) (latest key des k) (latest key cur' k)"
  shows "IsEmpty (diff ord cur' des no_changes)"
  unfolding empty_iff_in_sync [OF assms(1)]
  using assms(2) settled_in_sync by metis

end

text \<open>
  Reconciliation converges: against a service whose create, update and delete of
  download clients work and which lists, for a desired client, one the comparison accepts,
  one pass of diff and apply reports success, leaves the clients that were in order as they
  were, and whatever list of clients the service then returns, the next diff is empty. Both
  diffs may range over their maps in any order.
\<close>

theorem DownloadClients_converge:
  assumes "valid_order ord" and "valid_order ord'"
    and "creates_resource safe view DownloadClientsEqual (latest dc_Name desired) dc_create createFn"
    and "updates_resource safe view DownloadClientsEqual (latest dc_Name desired) dc_update updateFn"
    and "deletes_resource safe view dc_delete deleteFn"
    and "view s = latest dc_Name current" and "safe s"
  shows "\<exists>r s'. ApplyChanges (DiffDownloadClientsWithIR ord current desired no_changes)
      createFn updateFn deleteFn s = (Ok r, s') \<and> Success r \<and> safe s' \<and>
    (\<forall>k. settled DownloadClientsEqual (latest dc_Name current k) (latest dc_Name desired k) (view s' k)) \<and>
    (\<forall>current'. view s' = latest dc_Name current' \<longrightarrow>
       IsEmpty (DiffDownloadClientsWithIR ord' current' desired no_changes))"
proof -
  obtain r s' where "ApplyChanges (DiffDownloadClientsWithIR ord current desired no_changes)
        createFn updateFn deleteFn s = (Ok r, s')" "Success r" "safe s'"
      and "\<forall>k. settled DownloadClientsEqual (latest dc_Name current k) (latest dc_Name desired k) (view s' k)"
    using dcs.apply_diff [OF assms(1,3,4,5,6,7)] by blast
  moreover from this(4) have "IsEmpty (DiffDownloadClientsWithIR ord' current' desired no_changes)"
    if "view s' = latest dc_Name current'" for current'
    using dcs.second_diff_empty [OF assms(2), of current desired current'] that by simp
  ultimately show ?thesis by blast
qed

text \<open>A service for the witness: it keeps the clients as a map and gives each a fixed ID.\<close>

definition dc_payload :: "Change \<Rightarrow> DownloadClientIR option" where
  "dc_payload c = (case ch_Payload c of DownloadClientVal d \<Rightarrow> Some (d\<lparr>dc_ID := 7\<rparr>) | _ \<Rightarrow> None)"

definition map_service_put :: "Change \<Rightarrow> (string \<rightharpoonup> DownloadClientIR, unit) action" where
  "map_service_put c m = (Ok (), m(ch_Name c := dc_payload c))"

theorem DownloadClients_converge_witness:
  "\<exists>r s'. ApplyChanges (DiffDownloadClientsWithIR forward_order [sample_dc ''a'' 4 80] [sample_dc ''b'' 0 81] no_changes)
      map_service_put map_service_put map_service_put (latest dc_Name [sample_dc ''a'' 4 80]) = (Ok r, s') \<and> Success r
    \<and> s' ''a'' = None \<and> s' ''b'' \<noteq> None"
proof -
  let ?safe = "\<lambda>s :: string \<rightharpoonup> DownloadClientIR. True" and ?want = "latest dc_Name [sample_dc ''b'' 0 81]"
  have laws: "creates_resource ?safe id DownloadClientsEqual ?want dc_create map_service_put"
    "updates_resource ?safe id DownloadClientsEqual ?want dc_update map_service_put"
    "deletes_resource ?safe id dc_delete map_service_put"
    by (auto simp: creates_resource_def updates_resource_def deletes_resource_def map_service_put_def
        dc_payload_def dc_create_def dc_update_def dc_delete_def DownloadClientsEqual_def
        intro!: exI [of _ "_\<lparr>dc_ID := 7\<rparr>"])
  from DownloadClients_converge [OF valid_forward_order valid_backward_order laws,
      of "latest dc_Name [sample_dc ''a'' 4 80]" "[sample_dc ''a'' 4 80]"]
  obtain r s' where "ApplyChanges (DiffDownloadClientsWithIR forward_order [sample_dc ''a'' 4 80]
        [sample_dc ''b'' 0 81] no_changes) map_service_put map_service_put map_service_put
        (latest dc_Name [sample_dc ''a'' 4 80]) = (Ok r, s')" "Success r"
      and s': "\<And>k. settled DownloadClientsEqual (latest dc_Name [sample_dc ''a'' 4 80] k) (?want k) (s' k)"
    by auto
  moreover have "s' ''a'' = None" "s' ''b'' \<noteq> None"
    using s' [of "''a''"] s' [of "''b''"] by (auto simp: latest_def settled_def sample_dc_def split: option.splits)
  ultimately show ?thesis by blast
qed

section \<open>The direct appliers\<close>

text \<open>
  What a callback answered: it is only called when it is there and its section of the IR is
  present, on the state the call before it left.
\<close>

definition callback_answer :: "bool \<Rightarrow> ('s, 'a) action option \<Rightarrow> 's \<Rightarrow> 'a outcome option \<times> 's" where
  "callback_answer present cb s =
     (case cb of Some f \<Rightarrow> if present then (Some (fst (f s)), snd (f s)) else (None, s) | None \<Rightarrow> (None, s))"

fun lists_errors :: "ImportListStats option outcome option \<Rightarrow> string list" where
  "lists_errors (Some (Err e)) = [''failed to apply import lists: '' @ e]"
| "lists_errors (Some (Ok (Some stats))) = ils_Errors stats"
| "lists_errors _ = []"

fun lists_stats :: "ImportListStats option outcome option \<Rightarrow> int \<times> int" where
  "lists_stats (Some (Ok (Some stats))) = (ils_Created stats + ils_Updated stats + ils_Deleted stats, ils_Skipped stats)"
| "lists_stats _ = (0, 0)"

fun config_errors :: "unit outcome option \<Rightarrow> string list" where
  "config_errors (Some (Err e)) = [e]"
| "config_errors _ = []"

definition add_direct :: "string \<Rightarrow> string list \<Rightarrow> int \<Rightarrow> int \<Rightarrow> ApplyResult \<Rightarrow> ApplyResult" where
  "add_direct resource errs applied skipped r =
     r\<lparr>ar_Applied := ar_Applied r + applied, ar_Skipped := ar_Skipped r + skipped,
       ar_Failed := ar_Failed r + int (length errs),
       ar_Errors := ar_Errors r @ map (\<lambda>e. \<lparr>ae_Change = change_of_type resource, ae_Error = e\<rparr>) errs\<rparr>"

lemma fold_record_failure:
  "fold (record_failure (change_of_type resource)) errs r = add_direct resource errs 0 0 r"
  by (induction errs arbitrary: r) (simp_all add: add_direct_def record_failure_def)

lemma direct_import_lists_exact:
  assumes "pred_option no_panic cb" and "callback_answer (ir_ImportLists ir \<noteq> []) cb s = (a, s')"
  shows "direct_import_lists ir cb r s =
    (Ok (add_direct ResourceImportList (lists_errors a) (fst (lists_stats a)) (snd (lists_stats a)) r), s')"
proof (cases "cb \<noteq> None \<and> ir_ImportLists ir \<noteq> []")
  case True
  then obtain f where f: "cb = Some f" by blast
  obtain q s1 where q: "f s = (q, s1)" by fastforce
  have "returns q" using assms(1) f q by (auto intro: no_panicD)
  then show ?thesis
    using True f q assms(2)
    by (cases q) (auto simp: direct_import_lists_def callback_answer_def fold_record_failure add_direct_def record_failure_def split: option.split)
qed (use assms(2) in \<open>auto simp: direct_import_lists_def callback_answer_def add_direct_def split: option.splits\<close>)

lemma direct_config_exact:
  assumes "pred_option no_panic cb" and "callback_answer present cb s = (a, s')"
  shows "direct_config resource present cb r s =
    (Ok (add_direct resource (config_errors a) (if a = Some (Ok ()) then 1 else 0) 0 r), s')"
proof (cases "cb \<noteq> None \<and> present")
  case True
  then obtain f where f: "cb = Some f" by blast
  obtain q s1 where q: "f s = (q, s1)" by fastforce
  have "returns q" using assms(1) f q by (auto intro: no_panicD)
  then show ?thesis
    using True f q assms(2)
    by (cases q) (auto simp: direct_config_def callback_answer_def add_direct_def record_failure_def record_applied_def)
qed (use assms(2) in \<open>auto simp: direct_config_def callback_answer_def add_direct_def split: option.splits\<close>)

text \<open>
  C30. Direct apply is fail-soft and exact: when no callback panics it returns in every state,
  and each callback that is given and whose section is in the IR has been called once, in the
  order import lists, media management, authentication, on the state the one before it left,
  whichever of the others failed. Applied and skipped are what the import lists' statistics say
  plus one for each of the other two that answered without an error; the errors are exactly the
  failure of the import lists or the errors their statistics list, then the failure of media
  management, then that of authentication, each under its resource type; failed is their number
  and success is reported exactly if there are none. For an IR without the three sections
  nothing is called and the service is left as it was.
\<close>

theorem ApplyDirect_fail_soft:
  assumes "pred_option no_panic (cb_ApplyImportLists callbacks)"
    and "pred_option no_panic (cb_ApplyMediaManagement callbacks)"
    and "pred_option no_panic (cb_ApplyAuthentication callbacks)"
    and "callback_answer (ir_ImportLists ir \<noteq> []) (cb_ApplyImportLists callbacks) s = (il, s1)"
    and "callback_answer (ir_MediaManagement ir \<noteq> None) (cb_ApplyMediaManagement callbacks) s1 = (mm, s2)"
    and "callback_answer (ir_Authentication ir \<noteq> None) (cb_ApplyAuthentication callbacks) s2 = (au, s3)"
  shows "(\<exists>r. ApplyDirect ir callbacks s = (Ok r, s3)
      \<and> ar_Applied r = fst (lists_stats il) + (if mm = Some (Ok ()) then 1 else 0)
          + (if au = Some (Ok ()) then 1 else 0)
      \<and> ar_Skipped r = snd (lists_stats il)
      \<and> ar_Errors r =
          map (\<lambda>e. \<lparr>ae_Change = change_of_type ResourceImportList, ae_Error = e\<rparr>) (lists_errors il) @
          map (\<lambda>e. \<lparr>ae_Change = change_of_type ResourceMediaManagement, ae_Error = e\<rparr>) (config_errors mm) @
          map (\<lambda>e. \<lparr>ae_Change = change_of_type ResourceAuthentication, ae_Error = e\<rparr>) (config_errors au)
      \<and> ar_Failed r = int (length (ar_Errors r))
      \<and> (Success r \<longleftrightarrow> lists_errors il = [] \<and> config_errors mm = [] \<and> config_errors au = []))
    \<and> (ir_ImportLists ir = [] \<and> ir_MediaManagement ir = None \<and> ir_Authentication ir = None
       \<longrightarrow> ApplyDirect ir callbacks s = (Ok zero_result, s))"
proof
  note steps = direct_import_lists_exact [OF assms(1,4)] direct_config_exact [OF assms(2,5)] direct_config_exact [OF assms(3,6)]
  show "\<exists>r. ApplyDirect ir callbacks s = (Ok r, s3)
      \<and> ar_Applied r = fst (lists_stats il) + (if mm = Some (Ok ()) then 1 else 0)
          + (if au = Some (Ok ()) then 1 else 0)
      \<and> ar_Skipped r = snd (lists_stats il)
      \<and> ar_Errors r =
          map (\<lambda>e. \<lparr>ae_Change = change_of_type ResourceImportList, ae_Error = e\<rparr>) (lists_errors il) @
          map (\<lambda>e. \<lparr>ae_Change = change_of_type ResourceMediaManagement, ae_Error = e\<rparr>) (config_errors mm) @
          map (\<lambda>e. \<lparr>ae_Change = change_of_type ResourceAuthentication, ae_Error = e\<rparr>) (config_errors au)
      \<and> ar_Failed r = int (length (ar_Errors r))
      \<and> (Success r \<longleftrightarrow> lists_errors il = [] \<and> config_errors mm = [] \<and> config_errors au = [])"
    by (simp add: ApplyDirect_def steps add_direct_def zero_result_def Success_def del: not_None_eq) auto
qed (simp add: ApplyDirect_def andThen_def direct_import_lists_def direct_config_def split: option.split)

theorem ApplyDirect_fail_soft_witness:
  "\<exists>r. ApplyDirect (zero_IR\<lparr>ir_Authentication :=
        Some \<lparr>auth_Method = ''forms'', auth_Username = ''u'', auth_Password = ''p'', auth_AuthenticationRequired = ''enabled''\<rparr>\<rparr>)
      \<lparr>cb_ApplyImportLists = None, cb_ApplyMediaManagement = None, cb_ApplyAuthentication = Some (fail ''401'')\<rparr> (0 :: nat)
      = (Ok r, 0) \<and> ar_Applied r = 0 \<and> ar_Failed r = 1 \<and> map ae_Error (ar_Errors r) = [''401''] \<and> \<not> Success r"
  using ApplyDirect_fail_soft [of "\<lparr>cb_ApplyImportLists = None, cb_ApplyMediaManagement = None,
      cb_ApplyAuthentication = Some (fail ''401'')\<rparr>"
      "zero_IR\<lparr>ir_Authentication := Some \<lparr>auth_Method = ''forms'', auth_Username = ''u'',
        auth_Password = ''p'', auth_AuthenticationRequired = ''enabled''\<rparr>\<rparr>" "0 :: nat" None 0 None 0 "Some (Err ''401'')" 0]
  by (auto simp: callback_answer_def fail_def zero_IR_def)

end
