(* ===== verification/Shared_Diff.thy ===== *)
theory Shared_Diff
  imports Shared_Apply
begin

text \<open>
  \<^verbatim>\<open>src/internal/adapters/shared/remotepathmappings.go\<close> and \<^verbatim>\<open>delayprofiles.go\<close>. The
  first is another keyed diff (an interpretation of \<open>keyed_diff\<close>, with a composite key);
  the second ranges over the slices themselves and protects the default profile.
\<close>

section \<open>Remote path mappings\<close>

definition rpm_key :: "RemotePathMappingIR \<Rightarrow> string" where
  "rpm_key m = rpm_Host m @ ''|'' @ rpm_RemotePath m"

definition rpm_label :: "RemotePathMappingIR \<Rightarrow> string" where
  "rpm_label m = rpm_RemotePath m @ '' -> '' @ rpm_LocalPath m"

definition DiffRemotePathMappings ::
    "range_order \<Rightarrow> RemotePathMappingIR list \<Rightarrow> RemotePathMappingIR list \<Rightarrow> ChangeSet \<Rightarrow> ChangeSet" where
  "DiffRemotePathMappings ord current desired changes =
     (let currentByKey = index_by rpm_key current;
          desiredByKey = index_by rpm_key desired;
          changes1 = fold (\<lambda>(key, d) cs.
            case map_of currentByKey key of
              Some c \<Rightarrow>
                if rpm_LocalPath c \<noteq> rpm_LocalPath d
                then add_update \<lparr>ch_ResourceType = ResourceRemotePathMapping, ch_Name = rpm_label d,
                       ch_ID = Some (rpm_ID c), ch_Payload = RemotePathMappingPtr (d\<lparr>rpm_ID := rpm_ID c\<rparr>)\<rparr> cs
                else cs
            | None \<Rightarrow> add_create \<lparr>ch_ResourceType = ResourceRemotePathMapping, ch_Name = rpm_label d,
                       ch_ID = None, ch_Payload = RemotePathMappingPtr d\<rparr> cs)
            (gm_range ord 0 desiredByKey) changes
      in fold (\<lambda>(key, c) cs.
            case map_of desiredByKey key of
              None \<Rightarrow> add_delete \<lparr>ch_ResourceType = ResourceRemotePathMapping, ch_Name = rpm_label c,
                       ch_ID = Some (rpm_ID c), ch_Payload = RemotePathMappingPtr c\<rparr> cs
            | Some _ \<Rightarrow> cs) (gm_range ord 1 currentByKey) changes1)"

definition rpm_create :: "string \<Rightarrow> RemotePathMappingIR \<Rightarrow> Change" where
  "rpm_create k d = \<lparr>ch_ResourceType = ResourceRemotePathMapping, ch_Name = rpm_label d, ch_ID = None,
                     ch_Payload = RemotePathMappingPtr d\<rparr>"

definition rpm_update :: "string \<Rightarrow> RemotePathMappingIR \<Rightarrow> RemotePathMappingIR \<Rightarrow> Change" where
  "rpm_update k c d = \<lparr>ch_ResourceType = ResourceRemotePathMapping, ch_Name = rpm_label d,
                       ch_ID = Some (rpm_ID c), ch_Payload = RemotePathMappingPtr (d\<lparr>rpm_ID := rpm_ID c\<rparr>)\<rparr>"

definition rpm_delete :: "string \<Rightarrow> RemotePathMappingIR \<Rightarrow> Change" where
  "rpm_delete k c = \<lparr>ch_ResourceType = ResourceRemotePathMapping, ch_Name = rpm_label c,
                     ch_ID = Some (rpm_ID c), ch_Payload = RemotePathMappingPtr c\<rparr>"

lemma DiffRemotePathMappings_loops:
  "DiffRemotePathMappings ord cur des cs =
    delete_loop rpm_delete (index_by rpm_key des) (gm_range ord 1 (index_by rpm_key cur))
      (upsert_loop (\<lambda>c d. rpm_LocalPath c = rpm_LocalPath d) rpm_create rpm_update (index_by rpm_key cur)
        (gm_range ord 0 (index_by rpm_key des)) cs)"
  unfolding DiffRemotePathMappings_def Let_def upsert_loop_def delete_loop_def
    rpm_create_def rpm_update_def rpm_delete_def by (rule refl)

interpretation rpms: keyed_diff rpm_key "\<lambda>c d. rpm_LocalPath c = rpm_LocalPath d"
    rpm_create rpm_update rpm_delete DiffRemotePathMappings
  by unfold_locales (rule DiffRemotePathMappings_loops)

text \<open>
  The composite key separates mappings as long as no host contains the separator.
\<close>

lemma rpm_key_eq:
  assumes "CHR ''|'' \<notin> set (rpm_Host a)" and "CHR ''|'' \<notin> set (rpm_Host b)"
  shows "rpm_key a = rpm_key b \<longleftrightarrow> rpm_Host a = rpm_Host b \<and> rpm_RemotePath a = rpm_RemotePath b"
proof
  assume eq: "rpm_key a = rpm_key b"
  have "takeWhile (\<lambda>c. c \<noteq> CHR ''|'') (rpm_key x) = rpm_Host x" if "CHR ''|'' \<notin> set (rpm_Host x)" for x
    using that by (auto simp: rpm_key_def takeWhile_append2 takeWhile_tail)
  with assms eq have "rpm_Host a = rpm_Host b" by metis
  with eq show "rpm_Host a = rpm_Host b \<and> rpm_RemotePath a = rpm_RemotePath b"
    by (simp add: rpm_key_def)
qed (simp add: rpm_key_def)

text \<open>
  When no host contains a \<^verbatim>\<open>|\<close>, the mappings are in sync (the diff is empty) exactly
  when every current mapping has a desired one with the same host, remote and local path,
  and conversely, given that neither side lists a host and remote path twice.
\<close>

theorem DiffRemotePathMappings_empty_iff:
  assumes "valid_order ord"
    and hosts: "\<forall>m \<in> set current \<union> set desired. CHR ''|'' \<notin> set (rpm_Host m)"
    and "distinct (map (\<lambda>m. (rpm_Host m, rpm_RemotePath m)) current)"
    and "distinct (map (\<lambda>m. (rpm_Host m, rpm_RemotePath m)) desired)"
  shows "IsEmpty (DiffRemotePathMappings ord current desired no_changes) \<longleftrightarrow>
    (\<lambda>m. (rpm_Host m, rpm_RemotePath m, rpm_LocalPath m)) ` set current =
    (\<lambda>m. (rpm_Host m, rpm_RemotePath m, rpm_LocalPath m)) ` set desired"
proof -
  let ?p = "\<lambda>m. (rpm_Host m, rpm_RemotePath m, rpm_LocalPath m)"
  have key: "rpm_key a = rpm_key b \<longleftrightarrow> rpm_Host a = rpm_Host b \<and> rpm_RemotePath a = rpm_RemotePath b"
    if "a \<in> set current \<union> set desired" "b \<in> set current \<union> set desired" for a b
    using that hosts rpm_key_eq by blast
  have dist: "distinct (map rpm_key current)" "distinct (map rpm_key desired)"
    using assms(3,4) key by (auto simp: distinct_map inj_on_def)
  have "IsEmpty (DiffRemotePathMappings ord current desired no_changes) \<longleftrightarrow>
      (\<forall>k. rel_option (\<lambda>c d. rpm_LocalPath c = rpm_LocalPath d) (latest rpm_key current k) (latest rpm_key desired k))"
    by (rule rpms.empty_iff_in_sync [OF assms(1)])
  also have "\<dots> \<longleftrightarrow> (\<forall>c \<in> set current. \<exists>d \<in> set desired. rpm_key c = rpm_key d \<and> rpm_LocalPath c = rpm_LocalPath d)
      \<and> (\<forall>d \<in> set desired. \<exists>c \<in> set current. rpm_key c = rpm_key d \<and> rpm_LocalPath c = rpm_LocalPath d)"
    by (rule in_sync_distinct [OF dist])
  also have "\<dots> \<longleftrightarrow> ?p ` set current = ?p ` set desired"
    using key by (auto simp: set_eq_iff image_iff) metis+
  finally show ?thesis .
qed

definition sample_rpm :: "int \<Rightarrow> string \<Rightarrow> RemotePathMappingIR" where
  "sample_rpm i l = \<lparr>rpm_ID = i, rpm_Host = ''nas'', rpm_RemotePath = ''/d'', rpm_LocalPath = l\<rparr>"

theorem DiffRemotePathMappings_empty_iff_witness:
  "\<not> IsEmpty (DiffRemotePathMappings backward_order [sample_rpm 3 ''/x''] [sample_rpm 0 ''/y''] no_changes)"
  using DiffRemotePathMappings_empty_iff [OF valid_backward_order, of "[sample_rpm 3 ''/x'']" "[sample_rpm 0 ''/y'']"]
  by (simp add: sample_rpm_def)

text \<open>
  The key is not injective on hosts that contain the separator: two different
  mappings collide, and one of two desired mappings is silently dropped.
\<close>

theorem rpm_key_collision:
  "(let a = \<lparr>rpm_ID = 0, rpm_Host = ''h|/a'', rpm_RemotePath = ''/b'', rpm_LocalPath = ''/x''\<rparr>;
        b = \<lparr>rpm_ID = 0, rpm_Host = ''h'', rpm_RemotePath = ''/a|/b'', rpm_LocalPath = ''/y''\<rparr>
    in a \<noteq> b \<and> length (cs_Creates (DiffRemotePathMappings forward_order [] [a, b] no_changes)) = 1)"
  by (simp add: DiffRemotePathMappings_def rpm_key_def index_by_def gm_set_def gm_range_def
      forward_order_def add_create_def no_changes_def upt_rec)

section \<open>Delay profiles\<close>

text \<open>The last loop of \<^verbatim>\<open>DelayProfilesEqual\<close> returns false at the first missing tag.\<close>

fun all_tags_in :: "(int \<times> bool) list \<Rightarrow> int list \<Rightarrow> bool" where
  "all_tags_in tagSet [] = True"
| "all_tags_in tagSet (t # ts) = (if \<not> gm_flag tagSet t then False else all_tags_in tagSet ts)"

definition DelayProfilesEqual :: "DelayProfileIR \<Rightarrow> DelayProfileIR \<Rightarrow> bool" where
  "DelayProfilesEqual a b =
     (if dp_Order a \<noteq> dp_Order b then False
      else if dp_PreferredProtocol a \<noteq> dp_PreferredProtocol b then False
      else if dp_UsenetDelay a \<noteq> dp_UsenetDelay b then False
      else if dp_TorrentDelay a \<noteq> dp_TorrentDelay b then False
      else if dp_EnableUsenet a \<noteq> dp_EnableUsenet b then False
      else if dp_EnableTorrent a \<noteq> dp_EnableTorrent b then False
      else if dp_BypassIfHighestQuality a \<noteq> dp_BypassIfHighestQuality b then False
      else if dp_BypassIfAboveCustomFormatScore a \<noteq> dp_BypassIfAboveCustomFormatScore b then False
      else if dp_MinimumCustomFormatScore a \<noteq> dp_MinimumCustomFormatScore b then False
      else if length (dp_Tags a) \<noteq> length (dp_Tags b) then False
      else all_tags_in (set_of_slice (dp_Tags a)) (dp_Tags b))"

definition DiffDelayProfiles ::
    "DelayProfileIR list \<Rightarrow> DelayProfileIR list \<Rightarrow> ChangeSet \<Rightarrow> ChangeSet" where
  "DiffDelayProfiles current desired changes =
     (let currentByOrder = index_by dp_Order current;
          desiredByOrder = index_by dp_Order desired;
          changes1 = fold (\<lambda>dp cs.
            case map_of currentByOrder (dp_Order dp) of
              None \<Rightarrow> add_create \<lparr>ch_ResourceType = ResourceDelayProfile, ch_Name = dp_Name dp,
                        ch_ID = None, ch_Payload = DelayProfilePtr dp\<rparr> cs
            | Some currentDP \<Rightarrow>
                if \<not> DelayProfilesEqual currentDP dp
                then add_update \<lparr>ch_ResourceType = ResourceDelayProfile, ch_Name = dp_Name dp,
                        ch_ID = Some (dp_ID currentDP),
                        ch_Payload = DelayProfilePtr (dp\<lparr>dp_ID := dp_ID currentDP\<rparr>)\<rparr> cs
                else cs) desired changes
      in fold (\<lambda>cp cs.
            if dp_Order cp = 1 then cs
            else case map_of desiredByOrder (dp_Order cp) of
                   None \<Rightarrow> add_delete \<lparr>ch_ResourceType = ResourceDelayProfile, ch_Name = dp_Name cp,
                             ch_ID = Some (dp_ID cp), ch_Payload = NoPayload\<rparr> cs
                 | Some _ \<Rightarrow> cs) current changes1)"

definition dp_delete :: "DelayProfileIR \<Rightarrow> Change" where
  "dp_delete cp = \<lparr>ch_ResourceType = ResourceDelayProfile, ch_Name = dp_Name cp,
                   ch_ID = Some (dp_ID cp), ch_Payload = NoPayload\<rparr>"

definition dp_update :: "DelayProfileIR \<Rightarrow> DelayProfileIR \<Rightarrow> Change" where
  "dp_update c dp = \<lparr>ch_ResourceType = ResourceDelayProfile, ch_Name = dp_Name dp, ch_ID = Some (dp_ID c),
                     ch_Payload = DelayProfilePtr (dp\<lparr>dp_ID := dp_ID c\<rparr>)\<rparr>"

definition dp_create :: "DelayProfileIR \<Rightarrow> Change" where
  "dp_create dp = \<lparr>ch_ResourceType = ResourceDelayProfile, ch_Name = dp_Name dp, ch_ID = None,
                   ch_Payload = DelayProfilePtr dp\<rparr>"

lemma all_tags_in_iff: "all_tags_in (set_of_slice as) bs \<longleftrightarrow> set bs \<subseteq> set as"
  by (induction bs) auto

lemma delay_upserts:
  "fold (\<lambda>dp cs. case map_of (index_by dp_Order current) (dp_Order dp) of
       None \<Rightarrow> add_create (dp_create dp) cs
     | Some c \<Rightarrow> if \<not> DelayProfilesEqual c dp then add_update (dp_update c dp) cs else cs) desired changes =
   changes\<lparr>cs_Creates := cs_Creates changes @
             map dp_create (filter (\<lambda>dp. latest dp_Order current (dp_Order dp) = None) desired),
           cs_Updates := cs_Updates changes @
             List.map_filter (\<lambda>dp. case latest dp_Order current (dp_Order dp) of
                None \<Rightarrow> None | Some c \<Rightarrow> if DelayProfilesEqual c dp then None else Some (dp_update c dp)) desired\<rparr>"
  by (induction desired arbitrary: changes)
    (auto simp: map_of_index_by add_create_def add_update_def map_filter_def split: option.split)

lemma delay_deletes:
  "fold (\<lambda>cp cs. if dp_Order cp = 1 then cs
       else case map_of (index_by dp_Order desired) (dp_Order cp) of
         None \<Rightarrow> add_delete (dp_delete cp) cs | Some _ \<Rightarrow> cs) current changes =
   changes\<lparr>cs_Deletes := cs_Deletes changes @ map dp_delete
     (filter (\<lambda>cp. dp_Order cp \<noteq> 1 \<and> dp_Order cp \<notin> dp_Order ` set desired) current)\<rparr>"
  by (induction current arbitrary: changes)
    (auto simp: map_of_index_by add_delete_def latest_None_iff split: option.split dest: latest_SomeD)

text \<open>
  The delay profile diff, exactly and in order: a create per desired profile whose
  order the service lacks, an update under the current ID per one that differs, a delete
  per current profile whose order is no longer desired, except order 1: the default
  profile is never deleted. No map order is involved.
\<close>

theorem DiffDelayProfiles_exact:
  "DiffDelayProfiles current desired changes =
     \<lparr>cs_Creates = cs_Creates changes @
        map dp_create (filter (\<lambda>dp. latest dp_Order current (dp_Order dp) = None) desired),
      cs_Updates = cs_Updates changes @
        List.map_filter (\<lambda>dp. case latest dp_Order current (dp_Order dp) of
           None \<Rightarrow> None | Some c \<Rightarrow> if DelayProfilesEqual c dp then None else Some (dp_update c dp)) desired,
      cs_Deletes = cs_Deletes changes @
        map dp_delete (filter (\<lambda>cp. dp_Order cp \<noteq> 1 \<and> dp_Order cp \<notin> dp_Order ` set desired) current)\<rparr>"
  using delay_upserts [of current desired changes]
  unfolding DiffDelayProfiles_def Let_def dp_create_def [symmetric] dp_update_def [symmetric] dp_delete_def [symmetric]
  by (simp add: delay_deletes)

definition delay_settings :: "DelayProfileIR \<Rightarrow> int \<times> string \<times> int \<times> int \<times> bool \<times> bool \<times> bool \<times> bool \<times> int" where
  "delay_settings p = (dp_Order p, dp_PreferredProtocol p, dp_UsenetDelay p, dp_TorrentDelay p, dp_EnableUsenet p,
     dp_EnableTorrent p, dp_BypassIfHighestQuality p, dp_BypassIfAboveCustomFormatScore p,
     dp_MinimumCustomFormatScore p)"

text \<open>
  For profiles with distinct tags, \<^verbatim>\<open>DelayProfilesEqual\<close> holds exactly when all
  compared settings agree and the tags are the same set; it is then symmetric.
\<close>

theorem DelayProfilesEqual_iff:
  assumes "distinct (dp_Tags a)" and "distinct (dp_Tags b)"
  shows "DelayProfilesEqual a b \<longleftrightarrow>
    delay_settings a = delay_settings b \<and> set (dp_Tags a) = set (dp_Tags b)"
proof -
  have "length (dp_Tags a) = length (dp_Tags b) \<and> set (dp_Tags b) \<subseteq> set (dp_Tags a) \<longleftrightarrow>
      set (dp_Tags a) = set (dp_Tags b)"
    using assms by (metis card_subset_eq distinct_card finite_set subset_refl)
  moreover have "DelayProfilesEqual a b \<longleftrightarrow> delay_settings a = delay_settings b \<and>
      length (dp_Tags a) = length (dp_Tags b) \<and> set (dp_Tags b) \<subseteq> set (dp_Tags a)"
    by (simp add: DelayProfilesEqual_def delay_settings_def all_tags_in_iff)
  ultimately show ?thesis by blast
qed

definition sample_dp :: "int list \<Rightarrow> DelayProfileIR" where
  "sample_dp tags =
     \<lparr>dp_ID = 0, dp_Name = ''p'', dp_Order = 2, dp_PreferredProtocol = ''usenet'', dp_UsenetDelay = 0,
      dp_TorrentDelay = 60, dp_EnableUsenet = True, dp_EnableTorrent = True, dp_BypassIfHighestQuality = False,
      dp_BypassIfAboveCustomFormatScore = False, dp_MinimumCustomFormatScore = 0, dp_Tags = tags, dp_TagNames = []\<rparr>"

theorem DelayProfilesEqual_iff_witness: "DelayProfilesEqual (sample_dp [1, 2]) (sample_dp [2, 1])"
  using DelayProfilesEqual_iff [of "sample_dp [1, 2]" "sample_dp [2, 1]"]
  by (auto simp: sample_dp_def delay_settings_def)

end
