(* ===== verification/Shared_Service.thy ===== *)
theory Shared_Service
  imports Shared_Diff
begin

text \<open>
  The parts of \<^verbatim>\<open>src/internal/adapters/shared\<close> that talk to a service: wire types
  (\<^verbatim>\<open>types.go\<close>, \<^verbatim>\<open>resources.go\<close>), the ownership tag (\<^verbatim>\<open>tags.go\<close>), health
  (\<^verbatim>\<open>health.go\<close>), host authentication (\<^verbatim>\<open>authentication.go\<close>), the generic config
  calls (\<^verbatim>\<open>mediamanagement.go\<close>) and the extraction of typed values from a resource's
  dynamic fields (\<^verbatim>\<open>clients.go\<close>). The service behind the HTTP client is a parameter:
  \<open>get\<close>, \<open>post\<close> and \<open>put\<close> are actions on a service state \<open>'s\<close> that may fail.
\<close>

section \<open>Wire types\<close>

record SystemResource =
  sys_Version :: string
  sys_StartTime :: "int option"

record TagResource =
  tag_ID :: int
  tag_Label :: string

record HealthResource =
  hr_Source :: string
  hr_Type :: string
  hr_Message :: string
  hr_WikiURL :: string

record Field =
  f_Name :: string
  f_Value :: GoValue

record RemotePathMappingResource =
  rpr_ID :: int
  rpr_Host :: string
  rpr_RemotePath :: string
  rpr_LocalPath :: string

record BaseDownloadClientResource =
  bdc_ID :: int
  bdc_Name :: string
  bdc_Implementation :: string
  bdc_ConfigContract :: string
  bdc_Protocol :: string
  bdc_Enable :: bool
  bdc_Priority :: int
  bdc_Tags :: "int list"
  bdc_Fields :: "Field list"

record BaseIndexerResource =
  bix_ID :: int
  bix_Name :: string
  bix_Implementation :: string
  bix_ConfigContract :: string
  bix_Protocol :: string
  bix_Enable :: bool
  bix_Priority :: int
  bix_Tags :: "int list"
  bix_Fields :: "Field list"
  bix_EnableRss :: bool
  bix_EnableAutomaticSearch :: bool
  bix_EnableInteractiveSearch :: bool

record BaseDelayProfileResource =
  bdp_ID :: int
  bdp_Order :: int
  bdp_PreferredProtocol :: string
  bdp_UsenetDelay :: int
  bdp_TorrentDelay :: int
  bdp_EnableUsenet :: bool
  bdp_EnableTorrent :: bool
  bdp_BypassIfHighestQuality :: bool
  bdp_BypassIfAboveCustomFormatScore :: bool
  bdp_MinimumCustomFormatScore :: int
  bdp_Tags :: "int list"

record CustomFormatSpecification =
  csp_Name :: string
  csp_Implementation :: string
  csp_Negate :: bool
  csp_Required :: bool
  csp_Fields :: "Field list"

record BaseCustomFormatResource =
  bcf_ID :: int
  bcf_Name :: string
  bcf_IncludeCustomFormatWhenRenaming :: bool
  bcf_Specifications :: "CustomFormatSpecification list"

record HostConfigResource =
  hc_ID :: int
  hc_BindAddress :: string
  hc_Port :: int
  hc_SslPort :: int
  hc_EnableSsl :: bool
  hc_LaunchBrowser :: bool
  hc_AuthenticationMethod :: string
  hc_AuthenticationRequired :: string
  hc_Username :: string
  hc_Password :: string
  hc_PasswordConfirmation :: string
  hc_LogLevel :: string
  hc_ConsoleLogLevel :: string
  hc_Branch :: string
  hc_ApiKey :: string
  hc_SslCertPath :: string
  hc_SslCertPassword :: string
  hc_UrlBase :: string
  hc_InstanceName :: string
  hc_UpdateAutomatically :: bool
  hc_UpdateMechanism :: string
  hc_UpdateScriptPath :: string
  hc_ProxyEnabled :: bool
  hc_ProxyType :: string
  hc_ProxyHostname :: string
  hc_ProxyPort :: int
  hc_ProxyUsername :: string
  hc_ProxyPassword :: string
  hc_ProxyBypassFilter :: string
  hc_ProxyBypassLocalAddresses :: bool
  hc_CertificateValidation :: string
  hc_BackupFolder :: string
  hc_BackupInterval :: int
  hc_BackupRetention :: int

section \<open>Generic configuration calls\<close>

definition FetchConfig :: "(string \<Rightarrow> ('s, 't) action) \<Rightarrow> string \<Rightarrow> ('s, 't) action" where
  "FetchConfig get apiPath = wrap_err (''failed to get config from '' @ apiPath) (get apiPath)"

definition UpdateConfig :: "(string \<Rightarrow> 't \<Rightarrow> ('s, 't) action) \<Rightarrow> string \<Rightarrow> int \<Rightarrow> 't \<Rightarrow> ('s, unit) action" where
  "UpdateConfig put apiPath i config =
     andThen (put (apiPath @ ''/'' @ Itoa i) config) (\<lambda>_. give ())"

section \<open>The ownership tag\<close>

definition OwnershipTagName :: string where
  "OwnershipTagName = ''nebularr-managed''"

definition tag_endpoint :: "string \<Rightarrow> string" where
  "tag_endpoint apiVersion = ''/api/'' @ apiVersion @ ''/tag''"

fun find_owner_tag :: "TagResource list \<Rightarrow> int option" where
  "find_owner_tag [] = None"
| "find_owner_tag (tag # tags) = (if tag_Label tag = OwnershipTagName then Some (tag_ID tag) else find_owner_tag tags)"

definition GetOwnershipTagID ::
    "(string \<Rightarrow> ('s, TagResource list) action) \<Rightarrow> string \<Rightarrow> ('s, int) action" where
  "GetOwnershipTagID get apiVersion =
     andThen (wrap_err ''failed to get tags'' (get (tag_endpoint apiVersion))) (\<lambda>tags.
       case find_owner_tag tags of
         Some i \<Rightarrow> give i
       | None \<Rightarrow> fail (''ownership tag '' @ CHR 0x22 # OwnershipTagName @ CHR 0x22 # '' not found''))"

definition EnsureOwnershipTag ::
    "(string \<Rightarrow> ('s, TagResource list) action) \<Rightarrow> (string \<Rightarrow> TagResource \<Rightarrow> ('s, TagResource) action)
     \<Rightarrow> string \<Rightarrow> ('s, int) action" where
  "EnsureOwnershipTag get post apiVersion =
     or_else (GetOwnershipTagID get apiVersion) (\<lambda>_.
       andThen (wrap_err ''failed to create ownership tag''
                 (post (tag_endpoint apiVersion) \<lparr>tag_ID = 0, tag_Label = OwnershipTagName\<rparr>)) (\<lambda>created.
         give (tag_ID created)))"

fun HasTag :: "int list \<Rightarrow> int \<Rightarrow> bool" where
  "HasTag [] tagID = False"
| "HasTag (t # tags) tagID = (if t = tagID then True else HasTag tags tagID)"

lemma HasTag_iff: "HasTag tags i \<longleftrightarrow> i \<in> set tags"
  by (induction tags) auto

section \<open>Health\<close>

definition health_step :: "HealthResource \<Rightarrow> HealthStatus \<Rightarrow> HealthStatus" where
  "health_step check status =
     (let (issueType, healthy) =
        (if hr_Type check = ''error'' then (HealthIssueTypeError, False)
         else if hr_Type check = ''warning'' then (HealthIssueTypeWarning, hs_Healthy status)
         else (HealthIssueTypeNotice, hs_Healthy status))
      in status\<lparr>hs_Healthy := healthy,
                hs_Issues := hs_Issues status @ [\<lparr>hi_Source = hr_Source check, hi_Type = issueType,
                  hi_Message = hr_Message check, hi_WikiURL = hr_WikiURL check\<rparr>]\<rparr>)"

definition GetHealth ::
    "(string \<Rightarrow> ('s, HealthResource list) action) \<Rightarrow> string \<Rightarrow> ('s, HealthStatus) action" where
  "GetHealth get apiVersion =
     andThen (wrap_err ''failed to get health'' (get (''/api/'' @ apiVersion @ ''/health''))) (\<lambda>healthChecks.
       give (fold health_step healthChecks \<lparr>hs_Healthy = True, hs_Issues = []\<rparr>))"

section \<open>Host authentication\<close>

definition MapAuthMethod :: "string \<Rightarrow> string" where
  "MapAuthMethod method =
     (if method = ''none'' then ''None''
      else if method = ''forms'' then ''Forms''
      else if method = ''basic'' then ''Basic''
      else if method = ''external'' then ''External''
      else ''None'')"

definition MapAuthRequired :: "string \<Rightarrow> string" where
  "MapAuthRequired required =
     (if required = ''enabled'' then ''Enabled''
      else if required = ''disabledForLocalAddresses'' then ''DisabledForLocalAddresses''
      else ''Enabled'')"

definition HostConfigToAuthIR :: "HostConfigResource \<Rightarrow> AuthenticationIR" where
  "HostConfigToAuthIR config =
     \<lparr>auth_Method =
        (let m = hc_AuthenticationMethod config in
         if m = ''None'' then ''none''
         else if m = ''Forms'' then ''forms''
         else if m = ''Basic'' then ''basic''
         else if m = ''External'' then ''external''
         else m),
      auth_Username = hc_Username config,
      auth_Password = '''',
      auth_AuthenticationRequired =
        (let r = hc_AuthenticationRequired config in
         if r = ''Enabled'' then ''enabled''
         else if r = ''DisabledForLocalAddresses'' then ''disabledForLocalAddresses''
         else r)\<rparr>"

definition GetAuthenticationIR ::
    "(string \<Rightarrow> ('s, HostConfigResource) action) \<Rightarrow> string \<Rightarrow> ('s, AuthenticationIR) action" where
  "GetAuthenticationIR get apiPath =
     andThen (FetchConfig get apiPath) (\<lambda>config. give (HostConfigToAuthIR config))"

text \<open>The fields \<^verbatim>\<open>ApplyAuthentication\<close> overwrites in the fetched configuration.\<close>

definition set_auth_fields :: "AuthenticationIR \<Rightarrow> HostConfigResource \<Rightarrow> HostConfigResource" where
  "set_auth_fields ir current =
     (let c1 = current\<lparr>hc_AuthenticationMethod := MapAuthMethod (auth_Method ir),
                       hc_AuthenticationRequired := MapAuthRequired (auth_AuthenticationRequired ir)\<rparr>;
          c2 = (if auth_Method ir = ''forms'' \<and> auth_Username ir \<noteq> ''''
                then c1\<lparr>hc_Username := auth_Username ir\<rparr> else c1)
      in if auth_Password ir \<noteq> ''''
         then c2\<lparr>hc_Password := auth_Password ir, hc_PasswordConfirmation := auth_Password ir\<rparr>
         else c2)"

definition ApplyAuthentication ::
    "(string \<Rightarrow> ('s, HostConfigResource) action) \<Rightarrow> (string \<Rightarrow> HostConfigResource \<Rightarrow> ('s, HostConfigResource) action)
     \<Rightarrow> string \<Rightarrow> AuthenticationIR option \<Rightarrow> ('s, unit) action" where
  "ApplyAuthentication get put apiPath ir =
     (case ir of
        None \<Rightarrow> give ()
      | Some ir \<Rightarrow>
          andThen (wrap_err ''failed to get current host config'' (FetchConfig get apiPath)) (\<lambda>current.
            UpdateConfig put apiPath (hc_ID current) (set_auth_fields ir current)))"

section \<open>Typed values from dynamic fields\<close>

text \<open>\<^verbatim>\<open>int(v)\<close> of a \<^verbatim>\<open>float64\<close>: towards zero.\<close>

definition int_of_float :: "rat \<Rightarrow> int" where
  "int_of_float v = (if v < 0 then \<lceil>v\<rceil> else \<lfloor>v\<rfloor>)"

text \<open>The type assertions \<^verbatim>\<open>f.Value.(T)\<close> with the comma-ok form.\<close>

definition as_string :: "GoValue \<Rightarrow> string option" where
  "as_string v = (case v of VString s \<Rightarrow> Some s | _ \<Rightarrow> None)"

definition as_float :: "GoValue \<Rightarrow> rat option" where
  "as_float v = (case v of VFloat r \<Rightarrow> Some r | _ \<Rightarrow> None)"

definition as_bool :: "GoValue \<Rightarrow> bool option" where
  "as_bool v = (case v of VBool b \<Rightarrow> Some b | _ \<Rightarrow> None)"

definition as_list :: "GoValue \<Rightarrow> GoValue list option" where
  "as_list v = (case v of VList vs \<Rightarrow> Some vs | _ \<Rightarrow> None)"

section \<open>What a service answers\<close>

text \<open>
  A field's value travels as JSON (\<^verbatim>\<open>encoding/json\<close>): an \<^verbatim>\<open>int\<close> comes back as a
  \<^verbatim>\<open>float64\<close>, an \<^verbatim>\<open>[]int\<close> as a slice of them. A service may answer anything (\<open>hide\<close>) in
  place of a secret.
\<close>

fun wire :: "GoValue \<Rightarrow> GoValue" where
  "wire (VInt i) = VFloat (float64_of_int i)"
| "wire (VInts is) = VList (map (\<lambda>i. VFloat (float64_of_int i)) is)"
| "wire (VList vs) = VList (map wire vs)"
| "wire v = v"

definition hidden :: "(GoValue \<Rightarrow> GoValue) \<Rightarrow> string \<Rightarrow> string" where
  "hidden hide s = (case as_string (hide (VString s)) of Some v \<Rightarrow> v | None \<Rightarrow> '''')"

text \<open>Integers a \<^verbatim>\<open>float64\<close> holds exactly.\<close>

definition exact_int :: "int \<Rightarrow> bool" where
  "exact_int i \<longleftrightarrow> \<bar>i\<bar> < 2 ^ 53"

lemma int_of_float64 [simp]: "exact_int i \<Longrightarrow> int_of_float (float64_of_int i) = i"
  by (auto simp: exact_int_def float64_of_int_def int_of_float_def nat_less_iff)

definition extract_dc_field :: "string list \<Rightarrow> Field \<Rightarrow> DownloadClientIR \<Rightarrow> DownloadClientIR" where
  "extract_dc_field categoryFieldNames f ir =
     (if f_Name f = ''host'' then (case as_string (f_Value f) of Some v \<Rightarrow> ir\<lparr>dc_Host := v\<rparr> | None \<Rightarrow> ir)
      else if f_Name f = ''port'' then (case as_float (f_Value f) of Some v \<Rightarrow> ir\<lparr>dc_Port := int_of_float v\<rparr> | None \<Rightarrow> ir)
      else if f_Name f = ''useSsl'' then (case as_bool (f_Value f) of Some v \<Rightarrow> ir\<lparr>dc_UseTLS := v\<rparr> | None \<Rightarrow> ir)
      else if f_Name f = ''username'' then (case as_string (f_Value f) of Some v \<Rightarrow> ir\<lparr>dc_Username := v\<rparr> | None \<Rightarrow> ir)
      else if f_Name f = ''password'' then (case as_string (f_Value f) of Some v \<Rightarrow> ir\<lparr>dc_Password := v\<rparr> | None \<Rightarrow> ir)
      else if f_Name f = ''directory'' then (case as_string (f_Value f) of Some v \<Rightarrow> ir\<lparr>dc_Directory := v\<rparr> | None \<Rightarrow> ir)
      else if f_Name f \<in> set categoryFieldNames
           then (case as_string (f_Value f) of Some v \<Rightarrow> ir\<lparr>dc_Category := v\<rparr> | None \<Rightarrow> ir)
      else ir)"

definition ExtractDownloadClientFields :: "string list \<Rightarrow> Field list \<Rightarrow> DownloadClientIR \<Rightarrow> DownloadClientIR" where
  "ExtractDownloadClientFields categoryFieldNames fls ir = fold (extract_dc_field categoryFieldNames) fls ir"

definition append_category :: "GoValue \<Rightarrow> IndexerIR \<Rightarrow> IndexerIR" where
  "append_category cat ir =
     (case as_float cat of Some c \<Rightarrow> ir\<lparr>idx_Categories := idx_Categories ir @ [int_of_float c]\<rparr> | None \<Rightarrow> ir)"

definition extract_idx_field :: "Field \<Rightarrow> IndexerIR \<Rightarrow> IndexerIR" where
  "extract_idx_field f ir =
     (if f_Name f = ''baseUrl'' then (case as_string (f_Value f) of Some v \<Rightarrow> ir\<lparr>idx_URL := v\<rparr> | None \<Rightarrow> ir)
      else if f_Name f = ''apiKey'' then (case as_string (f_Value f) of Some v \<Rightarrow> ir\<lparr>idx_APIKey := v\<rparr> | None \<Rightarrow> ir)
      else if f_Name f = ''categories'' then (case as_list (f_Value f) of Some v \<Rightarrow> fold append_category v ir | None \<Rightarrow> ir)
      else if f_Name f = ''minimumSeeders'' then
        (case as_float (f_Value f) of Some v \<Rightarrow> ir\<lparr>idx_MinimumSeeders := int_of_float v\<rparr> | None \<Rightarrow> ir)
      else if f_Name f = ''seedCriteria.seedRatio'' then
        (case as_float (f_Value f) of Some v \<Rightarrow> ir\<lparr>idx_SeedRatio := v\<rparr> | None \<Rightarrow> ir)
      else if f_Name f = ''seedCriteria.seedTime'' then
        (case as_float (f_Value f) of Some v \<Rightarrow> ir\<lparr>idx_SeedTimeMinutes := int_of_float v\<rparr> | None \<Rightarrow> ir)
      else ir)"

definition ExtractIndexerFields :: "Field list \<Rightarrow> IndexerIR \<Rightarrow> IndexerIR" where
  "ExtractIndexerFields fls ir = fold extract_idx_field fls ir"

section \<open>Properties\<close>

lemma fold_health:
  "hs_Healthy (fold health_step cs st) \<longleftrightarrow> hs_Healthy st \<and> (\<forall>c \<in> set cs. hr_Type c \<noteq> ''error'')"
  "map hi_Message (hs_Issues (fold health_step cs st)) = map hi_Message (hs_Issues st) @ map hr_Message cs"
  "(\<exists>i \<in> set (hs_Issues (fold health_step cs st)). hi_Type i = HealthIssueTypeError) \<longleftrightarrow>
     (\<exists>i \<in> set (hs_Issues st). hi_Type i = HealthIssueTypeError) \<or> (\<exists>c \<in> set cs. hr_Type c = ''error'')"
  by (induction cs arbitrary: st)
    (auto simp: health_step_def HealthIssueTypeError_def HealthIssueTypeWarning_def HealthIssueTypeNotice_def Let_def)

text \<open>
  A service is reported healthy exactly when it reports no issue of type error: the
  status \<^verbatim>\<open>GetHealth\<close> returns has one issue per check, in order, and \<^verbatim>\<open>Healthy\<close> is the
  negation of \<^verbatim>\<open>HasErrors\<close>; a failing request is passed on as an error.
\<close>

theorem GetHealth_sound:
  "(case GetHealth get v s of
      (Ok status, s') \<Rightarrow> (\<exists>checks. get (''/api/'' @ v @ ''/health'') s = (Ok checks, s') \<and>
         map hi_Message (hs_Issues status) = map hr_Message checks \<and>
         (hs_Healthy status \<longleftrightarrow> \<not> HasErrors status))
    | (Err e, s') \<Rightarrow> (\<exists>e'. get (''/api/'' @ v @ ''/health'') s = (Err e', s'))
    | (Panic p, s') \<Rightarrow> get (''/api/'' @ v @ ''/health'') s = (Panic p, s'))"
  by (cases "get (''/api/'' @ v @ ''/health'') s"; cases "fst (get (''/api/'' @ v @ ''/health'') s)")
    (auto simp: GetHealth_def andThen_def wrap_err_def give_def fold_health HasErrors_def has_issue_of_type_iff)

text \<open>
  What the operator relies on from the tag endpoint: listing tags changes nothing, and a
  tag that was posted is listed afterwards with the ID the post returned.
\<close>

definition tag_service ::
    "(string \<Rightarrow> ('s, TagResource list) action) \<Rightarrow> (string \<Rightarrow> TagResource \<Rightarrow> ('s, TagResource) action) \<Rightarrow> string
     \<Rightarrow> ('s \<Rightarrow> TagResource list) \<Rightarrow> bool" where
  "tag_service get post v listed \<longleftrightarrow>
     (\<forall>s. get (tag_endpoint v) s = (Ok (listed s), s)) \<and>
     (\<forall>t s. \<exists>i s'. post (tag_endpoint v) t s = (Ok (t\<lparr>tag_ID := i\<rparr>), s') \<and>
        listed s' = listed s @ [t\<lparr>tag_ID := i\<rparr>])"

lemma find_owner_tag_append:
  "find_owner_tag (xs @ ys) = (case find_owner_tag xs of None \<Rightarrow> find_owner_tag ys | Some i \<Rightarrow> Some i)"
  by (induction xs) auto

text \<open>
  Ensuring the ownership tag is idempotent: it returns the ID of a tag the service
  lists under the ownership name, at most one tag is added, and running it again returns
  the same ID without changing the service.
\<close>

theorem EnsureOwnershipTag_idempotent:
  assumes "tag_service get post v listed"
  shows "\<exists>i s'. EnsureOwnershipTag get post v s = (Ok i, s') \<and> find_owner_tag (listed s') = Some i \<and>
    (listed s' = listed s \<or> listed s' = listed s @ [\<lparr>tag_ID = i, tag_Label = OwnershipTagName\<rparr>]) \<and>
    EnsureOwnershipTag get post v s' = (Ok i, s')"
proof -
  have get: "get (tag_endpoint v) s = (Ok (listed s), s)" for s
    using assms by (simp add: tag_service_def)
  have found: "EnsureOwnershipTag get post v s = (Ok i, s)" if "find_owner_tag (listed s) = Some i" for s i
    using that by (simp add: EnsureOwnershipTag_def or_else_def GetOwnershipTagID_def andThen_def wrap_err_def get give_def)
  show ?thesis
  proof (cases "find_owner_tag (listed s)")
    case (Some i)
    with found show ?thesis by blast
  next
    case None
    let ?t = "\<lparr>tag_ID = 0, tag_Label = OwnershipTagName\<rparr>"
    obtain i s' where post: "post (tag_endpoint v) ?t s = (Ok (?t\<lparr>tag_ID := i\<rparr>), s')"
        and l: "listed s' = listed s @ [?t\<lparr>tag_ID := i\<rparr>]"
      using assms unfolding tag_service_def by blast
    have "find_owner_tag (listed s') = Some i"
      using l None by (simp add: find_owner_tag_append)
    moreover have "EnsureOwnershipTag get post v s = (Ok i, s')"
      using None post
      by (simp add: EnsureOwnershipTag_def or_else_def GetOwnershipTagID_def andThen_def wrap_err_def get give_def fail_def)
    ultimately show ?thesis using found l by auto
  qed
qed

theorem EnsureOwnershipTag_idempotent_witness:
  "\<exists>i s'. EnsureOwnershipTag (\<lambda>p s. (Ok s, s))
      (\<lambda>p t s. (Ok (t\<lparr>tag_ID := int (length s) + 1\<rparr>), s @ [t\<lparr>tag_ID := int (length s) + 1\<rparr>])) ''v3''
      [\<lparr>tag_ID = 1, tag_Label = ''mine''\<rparr>] = (Ok i, s') \<and> find_owner_tag s' = Some i"
proof -
  have "tag_service (\<lambda>p s. (Ok s, s))
      (\<lambda>p t s. (Ok (t\<lparr>tag_ID := int (length s) + 1\<rparr>), s @ [t\<lparr>tag_ID := int (length s) + 1\<rparr>])) ''v3'' (\<lambda>s. s)"
    by (auto simp: tag_service_def)
  from EnsureOwnershipTag_idempotent [OF this, of "[\<lparr>tag_ID = 1, tag_Label = ''mine''\<rparr>]"]
  show ?thesis by auto
qed

text \<open>
  C28. What the configuration \<^verbatim>\<open>ApplyAuthentication\<close> writes reads back as, for each value of
  method and requirement the spec's validation admits: the method and the requirement of the
  spec; the user name of the spec for forms authentication with a user name, otherwise the one
  the host had; and never a password, which is written if the spec gives one, under both its
  fields, but not read back. Every setting of the host that authentication does not own is
  written back as it was fetched.
\<close>

theorem auth_round_trip:
  assumes "auth_Method ir \<in> {''none'', ''forms'', ''basic'', ''external''}"
    and "auth_AuthenticationRequired ir \<in> {''enabled'', ''disabledForLocalAddresses''}"
  shows "HostConfigToAuthIR (set_auth_fields ir c) =
      \<lparr>auth_Method = auth_Method ir,
       auth_Username = (if auth_Method ir = ''forms'' \<and> auth_Username ir \<noteq> '''' then auth_Username ir else hc_Username c),
       auth_Password = '''', auth_AuthenticationRequired = auth_AuthenticationRequired ir\<rparr>
    \<and> hc_Password (set_auth_fields ir c) = (if auth_Password ir \<noteq> '''' then auth_Password ir else hc_Password c)
    \<and> hc_PasswordConfirmation (set_auth_fields ir c) =
        (if auth_Password ir \<noteq> '''' then auth_Password ir else hc_PasswordConfirmation c)
    \<and> (set_auth_fields ir c)\<lparr>hc_AuthenticationMethod := hc_AuthenticationMethod c,
         hc_AuthenticationRequired := hc_AuthenticationRequired c, hc_Username := hc_Username c,
         hc_Password := hc_Password c, hc_PasswordConfirmation := hc_PasswordConfirmation c\<rparr> = c"
  using assms
  by (auto simp: HostConfigToAuthIR_def set_auth_fields_def MapAuthMethod_def MapAuthRequired_def Let_def)

definition sample_auth :: AuthenticationIR where
  "sample_auth = \<lparr>auth_Method = ''forms'', auth_Username = ''admin'', auth_Password = ''pw'',
                  auth_AuthenticationRequired = ''disabledForLocalAddresses''\<rparr>"

theorem auth_round_trip_witness:
  "\<forall>c. HostConfigToAuthIR (set_auth_fields sample_auth c) = sample_auth\<lparr>auth_Password := ''''\<rparr> \<and>
    hc_Password (set_auth_fields sample_auth c) = ''pw''"
  using auth_round_trip [of sample_auth] by (auto simp: sample_auth_def)

section \<open>What the field extraction keeps\<close>

lemma extract_dc_keeps:
  "dc_Name (ExtractDownloadClientFields cats fs ir) = dc_Name ir"
  "dc_ID (ExtractDownloadClientFields cats fs ir) = dc_ID ir"
  unfolding ExtractDownloadClientFields_def
  by (induction fs arbitrary: ir) (simp_all add: extract_dc_field_def split: option.split)

lemma append_category_keeps:
  "idx_Name (fold append_category vs ir) = idx_Name ir" "idx_ID (fold append_category vs ir) = idx_ID ir"
  by (induction vs arbitrary: ir) (simp_all add: append_category_def split: option.split)

lemma extract_idx_keeps:
  "idx_Name (ExtractIndexerFields fs ir) = idx_Name ir"
  "idx_ID (ExtractIndexerFields fs ir) = idx_ID ir"
  unfolding ExtractIndexerFields_def
  by (induction fs arbitrary: ir) (simp_all add: extract_idx_field_def append_category_keeps split: option.split)

lemma append_categories:
  assumes "\<forall>i \<in> set is. exact_int i"
  shows "fold append_category (map (\<lambda>i. VFloat (float64_of_int i)) is) ir = ir\<lparr>idx_Categories := idx_Categories ir @ is\<rparr>"
  using assms by (induction "is" arbitrary: ir) (auto simp: append_category_def as_float_def)

section \<open>Fields an adapter sends and a service answers\<close>

definition mk_field :: "string \<Rightarrow> GoValue \<Rightarrow> Field" where
  "mk_field name v = \<lparr>f_Name = name, f_Value = v\<rparr>"

text \<open>A service may answer anything (\<open>hide\<close>) in place of a secret.\<close>

definition answer_field :: "(GoValue \<Rightarrow> GoValue) \<Rightarrow> Field \<Rightarrow> Field" where
  "answer_field hide f =
     f\<lparr>f_Value := (if f_Name f = ''password'' \<or> f_Name f = ''apiKey'' then hide (f_Value f) else wire (f_Value f))\<rparr>"

lemma answer_field_simps [simp]:
  "f_Name (answer_field hide f) = f_Name f"
  "answer_field hide (mk_field n v) =
     mk_field n (if n = ''password'' \<or> n = ''apiKey'' then hide v else wire v)"
  by (simp_all add: answer_field_def mk_field_def)

lemma extract_dc_field_mk:
  "extract_dc_field cats (mk_field ''host'' (VString v)) ir = ir\<lparr>dc_Host := v\<rparr>"
  "extract_dc_field cats (mk_field ''port'' (VFloat r)) ir = ir\<lparr>dc_Port := int_of_float r\<rparr>"
  "extract_dc_field cats (mk_field ''useSsl'' (VBool b)) ir = ir\<lparr>dc_UseTLS := b\<rparr>"
  "extract_dc_field cats (mk_field ''username'' (VString v)) ir = ir\<lparr>dc_Username := v\<rparr>"
  "extract_dc_field cats (mk_field ''password'' w) ir =
     (case as_string w of Some v \<Rightarrow> ir\<lparr>dc_Password := v\<rparr> | None \<Rightarrow> ir)"
  "c \<in> set cats \<Longrightarrow> c \<notin> set [''host'', ''port'', ''useSsl'', ''username'', ''password'', ''directory''] \<Longrightarrow>
     extract_dc_field cats (mk_field c (VString v)) ir = ir\<lparr>dc_Category := v\<rparr>"
  by (simp_all add: extract_dc_field_def mk_field_def as_string_def as_float_def as_bool_def)

lemma extract_idx_field_mk:
  "extract_idx_field (mk_field ''baseUrl'' (VString v)) ir = ir\<lparr>idx_URL := v\<rparr>"
  "extract_idx_field (mk_field ''apiKey'' w) ir =
     (case as_string w of Some v \<Rightarrow> ir\<lparr>idx_APIKey := v\<rparr> | None \<Rightarrow> ir)"
  "extract_idx_field (mk_field ''categories'' (VList vs)) ir = fold append_category vs ir"
  "extract_idx_field (mk_field ''minimumSeeders'' (VFloat r)) ir = ir\<lparr>idx_MinimumSeeders := int_of_float r\<rparr>"
  by (simp_all add: extract_idx_field_def mk_field_def as_string_def as_float_def as_list_def)

end
