(* ===== verification/Presets.thy ===== *)
theory Presets
  imports IR_Types
begin

text \<open>
  The built-in quality and naming presets and their expansion to the intermediate
  representation, \<^verbatim>\<open>src/internal/presets\<close>: the preset tables (\<^verbatim>\<open>video.go\<close>,
  \<^verbatim>\<open>audio.go\<close>, \<^verbatim>\<open>naming.go\<close>), the user's overrides (\<^verbatim>\<open>override.go\<close>) and the
  expander (\<^verbatim>\<open>expander.go\<close>). The lemmas show that every table entry is found under its
  own name, that a preset name outside the table falls back to the default, what an
  override removes and adds, and that the score of every custom format of an expanded
  video preset is the one its role asks for.
\<close>

section \<open>Video presets\<close>

record QualityTier =
  qt_Resolution :: string
  qt_Sources :: "string list"

record VideoQualityPreset =
  vp_Name :: string
  vp_Description :: string
  vp_Tiers :: "QualityTier list"
  vp_UpgradeUntil :: "QualityTier option"
  vp_PreferredFormats :: "string list"
  vp_RejectFormats :: "string list"

definition VideoPresets :: "(string \<times> VideoQualityPreset) list" where
  "VideoPresets =
    [(''4k-hdr'',
       \<lparr>vp_Name = ''4k-hdr'', vp_Description = ''4K with HDR, falls back to 1080p'',
        vp_Tiers =
         [\<lparr>qt_Resolution = ''2160p'', qt_Sources = [''remux'', ''bluray'', ''webdl'', ''webrip'']\<rparr>,
          \<lparr>qt_Resolution = ''1080p'', qt_Sources = [''remux'', ''bluray'', ''webdl'', ''webrip'']\<rparr>],
        vp_UpgradeUntil = Some \<lparr>qt_Resolution = ''2160p'', qt_Sources = [''remux'']\<rparr>,
        vp_PreferredFormats = [''hdr10'', ''hdr10plus'', ''dolby-vision'', ''atmos'', ''truehd'', ''dts-x''],
        vp_RejectFormats = [''cam'', ''telesync'', ''telecine'', ''workprint'', ''3d'']\<rparr>),
     (''4k-sdr'',
       \<lparr>vp_Name = ''4k-sdr'', vp_Description = ''4K without HDR requirement'',
        vp_Tiers =
         [\<lparr>qt_Resolution = ''2160p'', qt_Sources = [''remux'', ''bluray'', ''webdl'', ''webrip'']\<rparr>,
          \<lparr>qt_Resolution = ''1080p'', qt_Sources = [''remux'', ''bluray'', ''webdl'', ''webrip'']\<rparr>],
        vp_UpgradeUntil = Some \<lparr>qt_Resolution = ''2160p'', qt_Sources = [''remux'']\<rparr>,
        vp_PreferredFormats = [''atmos'', ''truehd'', ''dts-x'', ''dts-hd''],
        vp_RejectFormats = [''cam'', ''telesync'', ''telecine'', ''workprint'', ''3d'']\<rparr>),
     (''1080p-quality'',
       \<lparr>vp_Name = ''1080p-quality'', vp_Description = ''1080p bluray/remux preferred'',
        vp_Tiers =
         [\<lparr>qt_Resolution = ''1080p'', qt_Sources = [''remux'', ''bluray'']\<rparr>,
          \<lparr>qt_Resolution = ''1080p'', qt_Sources = [''webdl'', ''webrip'']\<rparr>,
          \<lparr>qt_Resolution = ''720p'', qt_Sources = [''bluray'', ''webdl'']\<rparr>],
        vp_UpgradeUntil = Some \<lparr>qt_Resolution = ''1080p'', qt_Sources = [''remux'']\<rparr>,
        vp_PreferredFormats = [''truehd'', ''dts-hd'', ''atmos''],
        vp_RejectFormats = [''cam'', ''telesync'', ''telecine'', ''workprint'']\<rparr>),
     (''1080p-streaming'',
       \<lparr>vp_Name = ''1080p-streaming'', vp_Description = ''1080p web sources for smaller files'',
        vp_Tiers =
         [\<lparr>qt_Resolution = ''1080p'', qt_Sources = [''webdl'', ''webrip'']\<rparr>,
          \<lparr>qt_Resolution = ''1080p'', qt_Sources = [''hdtv'']\<rparr>,
          \<lparr>qt_Resolution = ''720p'', qt_Sources = [''webdl'', ''webrip'']\<rparr>],
        vp_UpgradeUntil = Some \<lparr>qt_Resolution = ''1080p'', qt_Sources = [''webdl'']\<rparr>,
        vp_PreferredFormats = [''hevc'', ''aac''],
        vp_RejectFormats = [''cam'', ''telesync'', ''telecine'', ''workprint'']\<rparr>),
     (''720p'',
       \<lparr>vp_Name = ''720p'', vp_Description = ''720p any source for limited storage/bandwidth'',
        vp_Tiers =
         [\<lparr>qt_Resolution = ''720p'', qt_Sources = [''bluray'', ''webdl'', ''webrip'', ''hdtv'']\<rparr>,
          \<lparr>qt_Resolution = ''480p'', qt_Sources = [''webdl'', ''dvd'']\<rparr>],
        vp_UpgradeUntil = Some \<lparr>qt_Resolution = ''720p'', qt_Sources = [''bluray'']\<rparr>,
        vp_PreferredFormats = [],
        vp_RejectFormats = [''cam'', ''telesync'', ''telecine'', ''workprint'']\<rparr>),
     (''balanced'',
       \<lparr>vp_Name = ''balanced'', vp_Description = ''1080p preferred, accepts 720p-4K (default)'',
        vp_Tiers =
         [\<lparr>qt_Resolution = ''2160p'', qt_Sources = [''bluray'', ''webdl'']\<rparr>,
          \<lparr>qt_Resolution = ''1080p'', qt_Sources = [''remux'', ''bluray'', ''webdl'', ''webrip'']\<rparr>,
          \<lparr>qt_Resolution = ''720p'', qt_Sources = [''bluray'', ''webdl'']\<rparr>],
        vp_UpgradeUntil = Some \<lparr>qt_Resolution = ''1080p'', qt_Sources = [''bluray'']\<rparr>,
        vp_PreferredFormats = [''hdr10'', ''dolby-vision''],
        vp_RejectFormats = [''cam'', ''telesync'', ''telecine'', ''workprint'']\<rparr>),
     (''any'',
       \<lparr>vp_Name = ''any'', vp_Description = ''Accept anything, upgrade when better'',
        vp_Tiers =
         [\<lparr>qt_Resolution = ''2160p'', qt_Sources = [''remux'', ''bluray'', ''webdl'', ''webrip'', ''hdtv'']\<rparr>,
          \<lparr>qt_Resolution = ''1080p'', qt_Sources = [''remux'', ''bluray'', ''webdl'', ''webrip'', ''hdtv'']\<rparr>,
          \<lparr>qt_Resolution = ''720p'', qt_Sources = [''bluray'', ''webdl'', ''webrip'', ''hdtv'']\<rparr>,
          \<lparr>qt_Resolution = ''480p'', qt_Sources = [''webdl'', ''webrip'', ''dvd'', ''sdtv'']\<rparr>],
        vp_UpgradeUntil = Some \<lparr>qt_Resolution = ''2160p'', qt_Sources = [''remux'']\<rparr>,
        vp_PreferredFormats = [],
        vp_RejectFormats = [''cam'', ''workprint'']\<rparr>),
     (''storage-optimized'',
       \<lparr>vp_Name = ''storage-optimized'', vp_Description = ''Balance quality vs file size'',
        vp_Tiers =
         [\<lparr>qt_Resolution = ''1080p'', qt_Sources = [''webdl'', ''webrip'']\<rparr>,
          \<lparr>qt_Resolution = ''720p'', qt_Sources = [''webdl'', ''webrip'']\<rparr>],
        vp_UpgradeUntil = Some \<lparr>qt_Resolution = ''1080p'', qt_Sources = [''webdl'']\<rparr>,
        vp_PreferredFormats = [''hevc'', ''av1'', ''aac''],
        vp_RejectFormats = [''remux'', ''truehd'', ''dts-hd'', ''cam'', ''telesync'']\<rparr>)]"

abbreviation DefaultVideoPreset :: string where
  "DefaultVideoPreset \<equiv> ''balanced''"

definition GetVideoPreset :: "string \<Rightarrow> VideoQualityPreset option" where
  "GetVideoPreset name = map_of VideoPresets name"

definition ListVideoPresets :: "range_order \<Rightarrow> string list" where
  "ListVideoPresets ord = map fst (gm_range ord 0 VideoPresets)"

section \<open>Audio presets\<close>

record AudioQualityPreset =
  ap_Name :: string
  ap_Description :: string
  ap_Tiers :: "string list"
  ap_UpgradeUntil :: string
  ap_PreferredFormats :: "string list"
  ap_RejectTiers :: "string list"

definition AudioPresets :: "(string \<times> AudioQualityPreset) list" where
  "AudioPresets =
    [(''lossless-hires'',
       \<lparr>ap_Name = ''lossless-hires'', ap_Description = ''24-bit lossless preferred for audiophiles'',
        ap_Tiers = [''lossless-hires'', ''lossless''], ap_UpgradeUntil = ''lossless-hires'',
        ap_PreferredFormats = [''flac'', ''alac''],
        ap_RejectTiers = [''lossy-poor'', ''lossy-trash'']\<rparr>),
     (''lossless'',
       \<lparr>ap_Name = ''lossless'', ap_Description = ''16-bit lossless (FLAC, ALAC)'',
        ap_Tiers = [''lossless'', ''lossless-hires'', ''lossy-high''], ap_UpgradeUntil = ''lossless'',
        ap_PreferredFormats = [''flac''],
        ap_RejectTiers = [''lossy-poor'', ''lossy-trash'']\<rparr>),
     (''high-quality'',
       \<lparr>ap_Name = ''high-quality'', ap_Description = ''320kbps lossy or lossless'',
        ap_Tiers = [''lossless'', ''lossy-high''], ap_UpgradeUntil = ''lossless'',
        ap_PreferredFormats = [''flac'', ''mp3-320''],
        ap_RejectTiers = [''lossy-low'', ''lossy-poor'', ''lossy-trash'']\<rparr>),
     (''balanced'',
       \<lparr>ap_Name = ''balanced'', ap_Description = ''256kbps+ lossy or lossless (default)'',
        ap_Tiers = [''lossless'', ''lossy-high'', ''lossy-mid''], ap_UpgradeUntil = ''lossy-high'',
        ap_PreferredFormats = [],
        ap_RejectTiers = [''lossy-poor'', ''lossy-trash'']\<rparr>),
     (''portable'',
       \<lparr>ap_Name = ''portable'', ap_Description = ''192-256kbps for mobile devices'',
        ap_Tiers = [''lossy-high'', ''lossy-mid'', ''lossy-low''], ap_UpgradeUntil = ''lossy-high'',
        ap_PreferredFormats = [''aac'', ''mp3-320''],
        ap_RejectTiers = [''lossy-trash'', ''lossless-raw'']\<rparr>),
     (''any'',
       \<lparr>ap_Name = ''any'', ap_Description = ''Accept anything, upgrade when better'',
        ap_Tiers = [''lossless-hires'', ''lossless'', ''lossy-high'', ''lossy-mid'', ''lossy-low'', ''lossy-poor''], ap_UpgradeUntil = ''lossless'',
        ap_PreferredFormats = [],
        ap_RejectTiers = []\<rparr>)]"

abbreviation DefaultAudioPreset :: string where
  "DefaultAudioPreset \<equiv> ''balanced''"

definition GetAudioPreset :: "string \<Rightarrow> AudioQualityPreset option" where
  "GetAudioPreset name = map_of AudioPresets name"

definition ListAudioPresets :: "range_order \<Rightarrow> string list" where
  "ListAudioPresets ord = map fst (gm_range ord 0 AudioPresets)"

text \<open>The Lidarr quality identifiers behind each tier name.\<close>

definition AudioTierDefinitions :: "(string \<times> int list) list" where
  "AudioTierDefinitions =
    [(''lossless-hires'', [1001, 1002]),
     (''lossless'', [1003, 1004, 1005, 1006]),
     (''lossy-high'', [2001, 2002, 2003]),
     (''lossy-mid'', [2004, 2005, 2006]),
     (''lossy-low'', [2007, 2008]),
     (''lossy-poor'', [2009, 2010]),
     (''lossy-trash'', [2011, 2012]),
     (''lossless-raw'', [1007])]"

section \<open>Naming presets\<close>

record NamingPreset =
  np_Name :: string
  np_Description :: string

record RadarrNamingExpansion =
  rne_RenameMovies :: bool
  rne_ReplaceIllegalCharacters :: bool
  rne_ColonReplacement :: int
  rne_StandardMovieFormat :: string
  rne_MovieFolderFormat :: string

record SonarrNamingExpansion =
  sne_RenameEpisodes :: bool
  sne_ReplaceIllegalCharacters :: bool
  sne_ColonReplacement :: int
  sne_StandardEpisodeFormat :: string
  sne_DailyEpisodeFormat :: string
  sne_AnimeEpisodeFormat :: string
  sne_SeriesFolderFormat :: string
  sne_SeasonFolderFormat :: string
  sne_SpecialsFolderFormat :: string
  sne_MultiEpisodeStyle :: int

record LidarrNamingExpansion =
  lne_RenameTracks :: bool
  lne_ReplaceIllegalCharacters :: bool
  lne_ColonReplacement :: int
  lne_StandardTrackFormat :: string
  lne_MultiDiscTrackFormat :: string
  lne_ArtistFolderFormat :: string
  lne_AlbumFolderFormat :: string

definition NamingPresets :: "(string \<times> NamingPreset) list" where
  "NamingPresets =
    [(''plex-friendly'', \<lparr>np_Name = ''plex-friendly'', np_Description = ''Optimized for Plex metadata matching''\<rparr>),
     (''jellyfin-friendly'', \<lparr>np_Name = ''jellyfin-friendly'', np_Description = ''Optimized for Jellyfin''\<rparr>),
     (''kodi-friendly'', \<lparr>np_Name = ''kodi-friendly'', np_Description = ''Optimized for Kodi''\<rparr>),
     (''detailed'', \<lparr>np_Name = ''detailed'', np_Description = ''Maximum info in filename''\<rparr>),
     (''minimal'', \<lparr>np_Name = ''minimal'', np_Description = ''Clean, simple names''\<rparr>),
     (''scene'', \<lparr>np_Name = ''scene'', np_Description = ''Scene-style naming''\<rparr>)]"

abbreviation DefaultNamingPreset :: string where
  "DefaultNamingPreset \<equiv> ''plex-friendly''"

abbreviation ColonDelete :: int where
  "ColonDelete \<equiv> 0"

abbreviation ColonSmart :: int where
  "ColonSmart \<equiv> 4"

definition GetNamingPreset :: "string \<Rightarrow> NamingPreset option" where
  "GetNamingPreset name = map_of NamingPresets name"

definition ListNamingPresets :: "range_order \<Rightarrow> string list" where
  "ListNamingPresets ord = map fst (gm_range ord 0 NamingPresets)"

definition radarr_naming_plex :: RadarrNamingExpansion where
  "radarr_naming_plex =
      \<lparr>rne_RenameMovies = True,
        rne_ReplaceIllegalCharacters = True,
        rne_ColonReplacement = ColonSmart,
        rne_StandardMovieFormat = ''{Movie CleanTitle} ({Release Year}) - {Quality Full}'',
        rne_MovieFolderFormat = ''{Movie CleanTitle} ({Release Year})''\<rparr>"

definition GetRadarrNaming :: "string \<Rightarrow> RadarrNamingExpansion" where
  "GetRadarrNaming presetName =
    (if presetName = ''plex-friendly'' \<or> presetName = ''jellyfin-friendly'' \<or> presetName = ''kodi-friendly''
     then radarr_naming_plex
     else if presetName = ''detailed'' then
       \<lparr>rne_RenameMovies = True,
        rne_ReplaceIllegalCharacters = True,
        rne_ColonReplacement = ColonSmart,
        rne_StandardMovieFormat = ''{Movie CleanTitle} ({Release Year}) [{Quality Full}]{[MediaInfo AudioCodec]}{[MediaInfo AudioChannels]}{[MediaInfo VideoCodec]}{[MediaInfo VideoDynamicRange]}{-Release Group}'',
        rne_MovieFolderFormat = ''{Movie CleanTitle} ({Release Year})''\<rparr>
     else if presetName = ''minimal'' then
       \<lparr>rne_RenameMovies = True,
        rne_ReplaceIllegalCharacters = True,
        rne_ColonReplacement = ColonDelete,
        rne_StandardMovieFormat = ''{Movie CleanTitle} ({Release Year})'',
        rne_MovieFolderFormat = ''{Movie CleanTitle} ({Release Year})''\<rparr>
     else if presetName = ''scene'' then
       \<lparr>rne_RenameMovies = True,
        rne_ReplaceIllegalCharacters = True,
        rne_ColonReplacement = ColonDelete,
        rne_StandardMovieFormat = ''{Movie.CleanTitle}.{Release Year}.{Quality.Full}-{Release Group}'',
        rne_MovieFolderFormat = ''{Movie CleanTitle} ({Release Year})''\<rparr>
     else radarr_naming_plex)"

definition sonarr_naming_plex :: SonarrNamingExpansion where
  "sonarr_naming_plex =
      \<lparr>sne_RenameEpisodes = True,
        sne_ReplaceIllegalCharacters = True,
        sne_ColonReplacement = ColonSmart,
        sne_StandardEpisodeFormat = ''{Series Title} - S{season:00}E{episode:00} - {Episode Title} {Quality Full}'',
        sne_DailyEpisodeFormat = ''{Series Title} - {Air-Date} - {Episode Title} {Quality Full}'',
        sne_AnimeEpisodeFormat = ''{Series Title} - S{season:00}E{episode:00} - {Episode Title} {Quality Full}'',
        sne_SeriesFolderFormat = ''{Series Title}'',
        sne_SeasonFolderFormat = ''Season {season:00}'',
        sne_SpecialsFolderFormat = ''Specials'',
        sne_MultiEpisodeStyle = 5\<rparr>"

definition GetSonarrNaming :: "string \<Rightarrow> SonarrNamingExpansion" where
  "GetSonarrNaming presetName =
    (if presetName = ''plex-friendly'' \<or> presetName = ''jellyfin-friendly'' \<or> presetName = ''kodi-friendly''
     then sonarr_naming_plex
     else if presetName = ''detailed'' then
       \<lparr>sne_RenameEpisodes = True,
        sne_ReplaceIllegalCharacters = True,
        sne_ColonReplacement = ColonSmart,
        sne_StandardEpisodeFormat = ''{Series Title} - S{season:00}E{episode:00} - {Episode Title} [{Quality Full}]{[MediaInfo AudioCodec]}{[MediaInfo VideoCodec]}{-Release Group}'',
        sne_DailyEpisodeFormat = ''{Series Title} - {Air-Date} - {Episode Title} [{Quality Full}]{-Release Group}'',
        sne_AnimeEpisodeFormat = ''{Series Title} - S{season:00}E{episode:00} - {absolute:000} - {Episode Title} [{Quality Full}]{-Release Group}'',
        sne_SeriesFolderFormat = ''{Series Title}'',
        sne_SeasonFolderFormat = ''Season {season:00}'',
        sne_SpecialsFolderFormat = ''Specials'',
        sne_MultiEpisodeStyle = 5\<rparr>
     else if presetName = ''minimal'' then
       \<lparr>sne_RenameEpisodes = True,
        sne_ReplaceIllegalCharacters = True,
        sne_ColonReplacement = ColonDelete,
        sne_StandardEpisodeFormat = ''{Series Title} - S{season:00}E{episode:00} - {Episode Title}'',
        sne_DailyEpisodeFormat = ''{Series Title} - {Air-Date} - {Episode Title}'',
        sne_AnimeEpisodeFormat = ''{Series Title} - S{season:00}E{episode:00} - {Episode Title}'',
        sne_SeriesFolderFormat = ''{Series Title}'',
        sne_SeasonFolderFormat = ''Season {season:00}'',
        sne_SpecialsFolderFormat = ''Specials'',
        sne_MultiEpisodeStyle = 0\<rparr>
     else if presetName = ''scene'' then
       \<lparr>sne_RenameEpisodes = True,
        sne_ReplaceIllegalCharacters = True,
        sne_ColonReplacement = ColonDelete,
        sne_StandardEpisodeFormat = ''{Series.Title}.S{season:00}E{episode:00}.{Episode.Title}.{Quality.Full}-{Release Group}'',
        sne_DailyEpisodeFormat = ''{Series.Title}.{Air.Date}.{Episode.Title}.{Quality.Full}-{Release Group}'',
        sne_AnimeEpisodeFormat = ''{Series.Title}.S{season:00}E{episode:00}.{Episode.Title}.{Quality.Full}-{Release Group}'',
        sne_SeriesFolderFormat = ''{Series Title}'',
        sne_SeasonFolderFormat = ''Season {season:00}'',
        sne_SpecialsFolderFormat = ''Specials'',
        sne_MultiEpisodeStyle = 3\<rparr>
     else sonarr_naming_plex)"

definition lidarr_naming_plex :: LidarrNamingExpansion where
  "lidarr_naming_plex =
      \<lparr>lne_RenameTracks = True,
        lne_ReplaceIllegalCharacters = True,
        lne_ColonReplacement = ColonSmart,
        lne_StandardTrackFormat = ''{Album Artist} - {Album Title} - {track:00} - {Track Title}'',
        lne_MultiDiscTrackFormat = ''{Album Artist} - {Album Title} - {medium:0}{track:00} - {Track Title}'',
        lne_ArtistFolderFormat = ''{Artist Name}'',
        lne_AlbumFolderFormat = ''{Album Title} ({Release Year})''\<rparr>"

definition GetLidarrNaming :: "string \<Rightarrow> LidarrNamingExpansion" where
  "GetLidarrNaming presetName =
    (if presetName = ''plex-friendly'' \<or> presetName = ''jellyfin-friendly'' \<or> presetName = ''kodi-friendly''
     then lidarr_naming_plex
     else if presetName = ''detailed'' then
       \<lparr>lne_RenameTracks = True,
        lne_ReplaceIllegalCharacters = True,
        lne_ColonReplacement = ColonSmart,
        lne_StandardTrackFormat = ''{Album Artist} - {Album Title} - {track:00} - {Track Title} [{Quality Full}]'',
        lne_MultiDiscTrackFormat = ''{Album Artist} - {Album Title} - {medium:0}{track:00} - {Track Title} [{Quality Full}]'',
        lne_ArtistFolderFormat = ''{Artist Name}'',
        lne_AlbumFolderFormat = ''{Album Title} ({Release Year}) [{Quality Full}]''\<rparr>
     else if presetName = ''minimal'' then
       \<lparr>lne_RenameTracks = True,
        lne_ReplaceIllegalCharacters = True,
        lne_ColonReplacement = ColonDelete,
        lne_StandardTrackFormat = ''{track:00} - {Track Title}'',
        lne_MultiDiscTrackFormat = ''{medium:0}{track:00} - {Track Title}'',
        lne_ArtistFolderFormat = ''{Artist Name}'',
        lne_AlbumFolderFormat = ''{Album Title}''\<rparr>
     else lidarr_naming_plex)"

section \<open>Overrides\<close>

record QualityOverrides =
  qo_Exclude :: "string list"
  qo_PreferAdditional :: "string list"
  qo_RejectAdditional :: "string list"

definition removeItems :: "string list \<Rightarrow> string list \<Rightarrow> string list" where
  "removeItems slice toRemove =
    (if toRemove = [] then slice
     else let removeSet = set_of_slice toRemove
          in fold (\<lambda>item result. if \<not> gm_flag removeSet item then result @ [item] else result) slice [])"

definition ApplyVideoOverrides :: "VideoQualityPreset \<Rightarrow> QualityOverrides \<Rightarrow> VideoQualityPreset" where
  "ApplyVideoOverrides preset overrides =
    \<lparr>vp_Name = vp_Name preset, vp_Description = vp_Description preset,
     vp_Tiers = vp_Tiers preset,
     vp_UpgradeUntil = vp_UpgradeUntil preset,
     vp_PreferredFormats =
       removeItems (vp_PreferredFormats preset) (qo_Exclude overrides) @ qo_PreferAdditional overrides,
     vp_RejectFormats =
       removeItems (vp_RejectFormats preset) (qo_Exclude overrides) @ qo_RejectAdditional overrides\<rparr>"

definition ApplyAudioOverrides :: "AudioQualityPreset \<Rightarrow> QualityOverrides \<Rightarrow> AudioQualityPreset" where
  "ApplyAudioOverrides preset overrides =
    \<lparr>ap_Name = ap_Name preset, ap_Description = ap_Description preset,
     ap_Tiers = ap_Tiers preset,
     ap_UpgradeUntil = ap_UpgradeUntil preset,
     ap_PreferredFormats =
       removeItems (ap_PreferredFormats preset) (qo_Exclude overrides) @ qo_PreferAdditional overrides,
     ap_RejectTiers =
       removeItems (ap_RejectTiers preset) (qo_Exclude overrides) @ qo_RejectAdditional overrides\<rparr>"

section \<open>Expansion\<close>

text \<open>
  The regular expressions of the built-in formats. A string literal here cannot hold a
  backslash, so \<open>rx\<close> puts one wherever the literal has a tilde (none of the patterns
  has a tilde of its own).
\<close>

definition rx :: "string \<Rightarrow> string" where
  "rx s = map (\<lambda>c. if c = CHR ''~'' then CHR 0x5C else c) s"

definition formatPatterns :: "(string \<times> string) list" where
  "formatPatterns =
    [(''hdr10'', rx ''~bHDR10~b''),
     (''hdr10plus'', rx ''~bHDR10~+|HDR10Plus~b''),
     (''dolby-vision'', rx ''~b(DV|DoVi|Dolby[~.~s]?Vision)~b''),
     (''hlg'', rx ''~bHLG~b''),
     (''atmos'', rx ''~b(Atmos|ATMOS)~b''),
     (''truehd'', rx ''~b(TrueHD|True[~.~s]?HD)~b''),
     (''dts-x'', rx ''~b(DTS[~.~-~s]?X)~b''),
     (''dts-hd'', rx ''~b(DTS[~.~-~s]?(HD[~.~-~s]?)?(MA)?)~b''),
     (''hevc'', rx ''~b(HEVC|[xh][~.~s]?265)~b''),
     (''av1'', rx ''~bAV1~b''),
     (''aac'', rx ''~bAAC~b''),
     (''cam'', rx ''~b(CAM|CAMRIP|CAM[~.~-~s]?RIP)~b''),
     (''telesync'', rx ''~b(TS|TELESYNC|TELE[~.~-~s]?SYNC)~b''),
     (''telecine'', rx ''~b(TC|TELECINE|TELE[~.~-~s]?CINE)~b''),
     (''workprint'', rx ''~b(WP|WORKPRINT|WORK[~.~-~s]?PRINT)~b''),
     (''3d'', rx ''~b3D~b''),
     (''dubbed'', rx ''~b(DUBBED|DUB)~b''),
     (''remux'', rx ''~b(REMUX|Remux)~b''),
     (''imax'', rx ''~bIMAX~b''),
     (''extended'', rx ''~b(EXTENDED|Extended)~b'')]"

definition getFormatSpecs :: "string \<Rightarrow> FormatSpecIR list" where
  "getFormatSpecs format =
    (case map_of formatPatterns format of
       None \<Rightarrow> []
     | Some pattern \<Rightarrow>
         [\<lparr>fs_Type = ''ReleaseTitleSpecification'', fs_Name = format, fs_Negate = False,
           fs_Required = True, fs_Value = pattern\<rparr>])"

definition formatToCustomFormat :: "string \<Rightarrow> bool \<Rightarrow> CustomFormatIR option" where
  "formatToCustomFormat format isReject =
    (let specs = getFormatSpecs format in
     if specs = [] then None
     else let name = (if isReject then ''Reject: '' @ format else ''Prefer: '' @ format)
          in Some \<lparr>cf_ID = 0, cf_Name = name, cf_IncludeWhenRenaming = False,
                   cf_Specifications = specs\<rparr>)"

definition addFormat :: "bool \<Rightarrow> int \<Rightarrow> string \<Rightarrow> VideoQualityIR \<Rightarrow> VideoQualityIR" where
  "addFormat isReject score format ir =
    (case formatToCustomFormat format isReject of
       None \<Rightarrow> ir
     | Some cf \<Rightarrow> ir\<lparr>vq_CustomFormats := vq_CustomFormats ir @ [cf],
                     vq_FormatScores := gm_set (cf_Name cf) score (vq_FormatScores ir)\<rparr>)"

definition ExpandVideoPreset :: "string \<Rightarrow> QualityOverrides option \<Rightarrow> string \<Rightarrow> VideoQualityIR" where
  "ExpandVideoPreset presetName overrides profileName =
    (let preset0 = (case GetVideoPreset presetName of
                      None \<Rightarrow> the (map_of VideoPresets DefaultVideoPreset)
                    | Some p \<Rightarrow> p);
         preset = (case overrides of None \<Rightarrow> preset0 | Some ov \<Rightarrow> ApplyVideoOverrides preset0 ov);
         ir0 = \<lparr>vq_ProfileName = profileName, vq_UpgradeAllowed = True,
                vq_Cutoff = (case vp_UpgradeUntil preset of
                    None \<Rightarrow> zero_VideoQualityTierIR
                  | Some u \<Rightarrow> \<lparr>vt_Resolution = qt_Resolution u, vt_Sources = qt_Sources u, vt_Allowed = True\<rparr>),
                vq_Tiers = map (\<lambda>tier. \<lparr>vt_Resolution = qt_Resolution tier,
                                        vt_Sources = qt_Sources tier, vt_Allowed = True\<rparr>) (vp_Tiers preset),
                vq_CustomFormats = [], vq_FormatScores = [],
                vq_MinimumCustomFormatScore = 0, vq_UpgradeUntilCustomFormatScore = 0\<rparr>;
         ir1 = fold (addFormat False 100) (vp_PreferredFormats preset) ir0
     in fold (addFormat True (- 10000)) (vp_RejectFormats preset) ir1)"

definition ExpandAudioPreset :: "string \<Rightarrow> QualityOverrides option \<Rightarrow> string \<Rightarrow> AudioQualityIR" where
  "ExpandAudioPreset presetName overrides profileName =
    (let preset0 = (case GetAudioPreset presetName of
                      None \<Rightarrow> the (map_of AudioPresets DefaultAudioPreset)
                    | Some p \<Rightarrow> p);
         preset = (case overrides of None \<Rightarrow> preset0 | Some ov \<Rightarrow> ApplyAudioOverrides preset0 ov);
         rejectSet = set_of_slice (ap_RejectTiers preset)
     in \<lparr>aq_ProfileName = profileName, aq_UpgradeAllowed = True,
         aq_Cutoff = ap_UpgradeUntil preset,
         aq_Tiers = map (\<lambda>tier. \<lparr>at_Tier = tier, at_Allowed = (\<not> gm_flag rejectSet tier)\<rparr>) (ap_Tiers preset),
         aq_ReleaseProfile = None, aq_FormatScores = [],
         aq_MinimumCustomFormatScore = 0, aq_UpgradeUntilCustomFormatScore = 0\<rparr>)"

definition ExpandRadarrNaming :: "string \<Rightarrow> RadarrNamingIR" where
  "ExpandRadarrNaming presetName =
    (let expansion = GetRadarrNaming presetName in
     \<lparr>rn_RenameMovies = rne_RenameMovies expansion,
      rn_ReplaceIllegalCharacters = rne_ReplaceIllegalCharacters expansion,
      rn_ColonReplacementFormat = rne_ColonReplacement expansion,
      rn_StandardMovieFormat = rne_StandardMovieFormat expansion,
      rn_MovieFolderFormat = rne_MovieFolderFormat expansion\<rparr>)"

definition ExpandSonarrNaming :: "string \<Rightarrow> SonarrNamingIR" where
  "ExpandSonarrNaming presetName =
    (let expansion = GetSonarrNaming presetName in
     \<lparr>sn_RenameEpisodes = sne_RenameEpisodes expansion,
      sn_ReplaceIllegalCharacters = sne_ReplaceIllegalCharacters expansion,
      sn_ColonReplacementFormat = sne_ColonReplacement expansion,
      sn_StandardEpisodeFormat = sne_StandardEpisodeFormat expansion,
      sn_DailyEpisodeFormat = sne_DailyEpisodeFormat expansion,
      sn_AnimeEpisodeFormat = sne_AnimeEpisodeFormat expansion,
      sn_SeriesFolderFormat = sne_SeriesFolderFormat expansion,
      sn_SeasonFolderFormat = sne_SeasonFolderFormat expansion,
      sn_SpecialsFolderFormat = sne_SpecialsFolderFormat expansion,
      sn_MultiEpisodeStyle = sne_MultiEpisodeStyle expansion\<rparr>)"

definition ExpandLidarrNaming :: "string \<Rightarrow> LidarrNamingIR" where
  "ExpandLidarrNaming presetName =
    (let expansion = GetLidarrNaming presetName in
     \<lparr>ln_RenameTracks = lne_RenameTracks expansion,
      ln_ReplaceIllegalCharacters = lne_ReplaceIllegalCharacters expansion,
      ln_ColonReplacementFormat = lne_ColonReplacement expansion,
      ln_StandardTrackFormat = lne_StandardTrackFormat expansion,
      ln_MultiDiscTrackFormat = lne_MultiDiscTrackFormat expansion,
      ln_ArtistFolderFormat = lne_ArtistFolderFormat expansion,
      ln_AlbumFolderFormat = lne_AlbumFolderFormat expansion\<rparr>)"

section \<open>Overrides: what they remove and add\<close>

lemma fold_keep: "fold (\<lambda>x r. if P x then r @ [x] else r) xs acc = acc @ filter P xs"
  by (induction xs arbitrary: acc) auto

lemma removeItems_filter: "removeItems xs rs = filter (\<lambda>x. x \<notin> set rs) xs"
proof (cases "rs = []")
  case False
  then show ?thesis
    by (simp add: removeItems_def fold_keep)
qed (simp add: removeItems_def)

section \<open>The tables are well formed\<close>

definition tier_covers :: "VideoQualityTierIR list \<Rightarrow> VideoQualityTierIR \<Rightarrow> bool" where
  "tier_covers tiers cutoff \<longleftrightarrow>
     list_ex (\<lambda>t. vt_Allowed t \<and> vt_Resolution t = vt_Resolution cutoff \<and>
                  list_all (\<lambda>s. s \<in> set (vt_Sources t)) (vt_Sources cutoff)) tiers"

definition preset_cutoff_ok :: "VideoQualityPreset \<Rightarrow> bool" where
  "preset_cutoff_ok p \<longleftrightarrow>
     (case vp_UpgradeUntil p of
        None \<Rightarrow> False
      | Some u \<Rightarrow> qt_Sources u \<noteq> [] \<and>
          list_ex (\<lambda>t. qt_Resolution t = qt_Resolution u \<and>
                       list_all (\<lambda>s. s \<in> set (qt_Sources t)) (qt_Sources u)) (vp_Tiers p))"

definition known_format :: "string \<Rightarrow> bool" where
  "known_format f \<longleftrightarrow> map_of formatPatterns f \<noteq> None"

lemma VideoPresets_ok:
  "list_all (\<lambda>(n, p). vp_Name p = n \<and> preset_cutoff_ok p \<and>
      list_all known_format (vp_PreferredFormats p @ vp_RejectFormats p) \<and>
      list_all (\<lambda>f. f \<notin> set (vp_RejectFormats p)) (vp_PreferredFormats p)) VideoPresets"
  by (simp add: VideoPresets_def preset_cutoff_ok_def known_format_def formatPatterns_def)

lemma AudioPresets_ok:
  "list_all (\<lambda>(n, p). ap_Name p = n \<and> ap_UpgradeUntil p \<in> set (ap_Tiers p) \<and>
      list_all (\<lambda>t. t \<notin> set (ap_RejectTiers p)) (ap_Tiers p) \<and>
      list_all (\<lambda>t. t \<in> set (map fst AudioTierDefinitions)) (ap_Tiers p @ ap_RejectTiers p)) AudioPresets"
  by (simp add: AudioPresets_def AudioTierDefinitions_def)

text \<open>The preset an expansion starts from, before and after the user's overrides.\<close>

definition base_video_preset :: "string \<Rightarrow> VideoQualityPreset" where
  "base_video_preset name =
     (case GetVideoPreset name of None \<Rightarrow> the (map_of VideoPresets DefaultVideoPreset) | Some p \<Rightarrow> p)"

definition overridden_video_preset :: "string \<Rightarrow> QualityOverrides option \<Rightarrow> VideoQualityPreset" where
  "overridden_video_preset name ov =
     (case ov of None \<Rightarrow> base_video_preset name
      | Some o' \<Rightarrow> ApplyVideoOverrides (base_video_preset name) o')"

definition base_audio_preset :: "string \<Rightarrow> AudioQualityPreset" where
  "base_audio_preset name =
     (case GetAudioPreset name of None \<Rightarrow> the (map_of AudioPresets DefaultAudioPreset) | Some p \<Rightarrow> p)"

lemma base_video_preset_in: "\<exists>n. (n, base_video_preset name) \<in> set VideoPresets"
proof -
  obtain d where "map_of VideoPresets DefaultVideoPreset = Some d"
    by (simp add: VideoPresets_def)
  then show ?thesis
    by (cases "map_of VideoPresets name")
      (auto simp: base_video_preset_def GetVideoPreset_def intro: map_of_SomeD)
qed

lemma base_audio_preset_in: "\<exists>n. (n, base_audio_preset name) \<in> set AudioPresets"
proof -
  obtain d where "map_of AudioPresets DefaultAudioPreset = Some d"
    by (simp add: AudioPresets_def)
  then show ?thesis
    by (cases "map_of AudioPresets name")
      (auto simp: base_audio_preset_def GetAudioPreset_def intro: map_of_SomeD)
qed

lemma base_video_preset_ok: "preset_cutoff_ok (base_video_preset name)"
  using VideoPresets_ok base_video_preset_in [of name] by (auto simp: list_all_iff)

section \<open>The scores of an expanded preset\<close>

lemma formatToCustomFormat_eq:
  "formatToCustomFormat f r =
     (case map_of formatPatterns f of
        None \<Rightarrow> None
      | Some p \<Rightarrow> Some \<lparr>cf_ID = 0, cf_Name = (if r then ''Reject: '' else ''Prefer: '') @ f,
                        cf_IncludeWhenRenaming = False,
                        cf_Specifications = [\<lparr>fs_Type = ''ReleaseTitleSpecification'', fs_Name = f,
                          fs_Negate = False, fs_Required = True, fs_Value = p\<rparr>]\<rparr>)"
  by (simp add: formatToCustomFormat_def getFormatSpecs_def split: option.split)

lemma addFormat_frame:
  "vq_ProfileName (fold (addFormat r s) fs ir) = vq_ProfileName ir"
  "vq_UpgradeAllowed (fold (addFormat r s) fs ir) = vq_UpgradeAllowed ir"
  "vq_Cutoff (fold (addFormat r s) fs ir) = vq_Cutoff ir"
  "vq_Tiers (fold (addFormat r s) fs ir) = vq_Tiers ir"
  by (induction fs arbitrary: ir) (auto simp: addFormat_def split: option.split)

lemma addFormat_formats:
  "vq_CustomFormats (fold (addFormat r s) fs ir) =
     vq_CustomFormats ir @ List.map_filter (\<lambda>f. formatToCustomFormat f r) fs"
  by (induction fs arbitrary: ir) (auto simp: addFormat_def map_filter_def split: option.split)

lemma addFormat_scores:
  "map_of (vq_FormatScores (fold (addFormat r s) fs ir)) n =
     (if n \<in> (\<lambda>f. (if r then ''Reject: '' else ''Prefer: '') @ f) ` {f \<in> set fs. known_format f}
      then Some s else map_of (vq_FormatScores ir) n)"
proof (induction fs arbitrary: ir)
  case (Cons f fs)
  show ?case
  proof (cases "map_of formatPatterns f")
    case None
    then show ?thesis
      using Cons by (auto simp: addFormat_def formatToCustomFormat_eq known_format_def)
  next
    case (Some p)
    then show ?thesis
      using Cons by (auto simp: addFormat_def formatToCustomFormat_eq known_format_def)
  qed
qed simp

lemma ExpandVideoPreset_eq:
  "ExpandVideoPreset name ov profile =
     (let p = overridden_video_preset name ov in
      fold (addFormat True (- 10000)) (vp_RejectFormats p)
        (fold (addFormat False 100) (vp_PreferredFormats p)
          \<lparr>vq_ProfileName = profile, vq_UpgradeAllowed = True,
           vq_Cutoff = (case vp_UpgradeUntil p of
               None \<Rightarrow> zero_VideoQualityTierIR
             | Some u \<Rightarrow> \<lparr>vt_Resolution = qt_Resolution u, vt_Sources = qt_Sources u, vt_Allowed = True\<rparr>),
           vq_Tiers = map (\<lambda>t. \<lparr>vt_Resolution = qt_Resolution t, vt_Sources = qt_Sources t, vt_Allowed = True\<rparr>)
             (vp_Tiers p),
           vq_CustomFormats = [], vq_FormatScores = [],
           vq_MinimumCustomFormatScore = 0, vq_UpgradeUntilCustomFormatScore = 0\<rparr>))"
  by (simp add: ExpandVideoPreset_def overridden_video_preset_def base_video_preset_def Let_def
      split: option.split)

lemmas expand_frames = ExpandVideoPreset_eq addFormat_frame addFormat_formats addFormat_scores

text \<open>
  The custom formats of an expanded video preset are exactly the built-in formats the
  preset prefers and then those it rejects, after the user's overrides, in that order; an
  unknown format name adds nothing. The score table gives every rejected format -10000,
  every preferred one 100, and nothing else a score.
\<close>

theorem ExpandVideoPreset_formats:
  "vq_CustomFormats (ExpandVideoPreset name ov profile) =
     List.map_filter (\<lambda>f. formatToCustomFormat f False) (vp_PreferredFormats (overridden_video_preset name ov)) @
     List.map_filter (\<lambda>f. formatToCustomFormat f True) (vp_RejectFormats (overridden_video_preset name ov))
   \<and> map_of (vq_FormatScores (ExpandVideoPreset name ov profile)) n =
     (if n \<in> (\<lambda>f. ''Reject: '' @ f) ` {f \<in> set (vp_RejectFormats (overridden_video_preset name ov)). known_format f}
      then Some (- 10000)
      else if n \<in> (\<lambda>f. ''Prefer: '' @ f) ` {f \<in> set (vp_PreferredFormats (overridden_video_preset name ov)). known_format f}
      then Some 100 else None)"
  by (simp add: expand_frames Let_def)

lemma video_cutoff_covered:
  "tier_covers (vq_Tiers (ExpandVideoPreset name ov profile)) (vq_Cutoff (ExpandVideoPreset name ov profile))"
  "vt_Sources (vq_Cutoff (ExpandVideoPreset name ov profile)) \<noteq> []"
proof -
  have "preset_cutoff_ok (overridden_video_preset name ov)"
    using base_video_preset_ok [of name]
    by (cases ov; cases "vp_UpgradeUntil (base_video_preset name)")
      (simp_all add: overridden_video_preset_def ApplyVideoOverrides_def preset_cutoff_ok_def)
  then show "tier_covers (vq_Tiers (ExpandVideoPreset name ov profile)) (vq_Cutoff (ExpandVideoPreset name ov profile))"
    "vt_Sources (vq_Cutoff (ExpandVideoPreset name ov profile)) \<noteq> []"
    by (auto simp: expand_frames Let_def preset_cutoff_ok_def tier_covers_def list_ex_iff split: option.splits)
qed

text \<open>
  Whatever preset name and overrides the user writes, the cutoff of the expanded video
  profile is a quality the profile allows: one of its tiers has the cutoff's resolution
  and all its sources.
\<close>

theorem ExpandVideoPreset_cutoff_allowed:
  "tier_covers (vq_Tiers (ExpandVideoPreset name ov profile)) (vq_Cutoff (ExpandVideoPreset name ov profile))
   \<and> vt_Sources (vq_Cutoff (ExpandVideoPreset name ov profile)) \<noteq> []"
  by (simp add: video_cutoff_covered)

text \<open>
  An audio profile expanded without extra rejections allows every tier it lists, lists
  its own cutoff, and uses only tiers Lidarr's quality table defines.
\<close>

theorem ExpandAudioPreset_tiers_allowed:
  "list_all at_Allowed (aq_Tiers (ExpandAudioPreset name None profile))
   \<and> aq_Cutoff (ExpandAudioPreset name None profile) \<in> at_Tier ` set (aq_Tiers (ExpandAudioPreset name None profile))
   \<and> at_Tier ` set (aq_Tiers (ExpandAudioPreset name None profile)) \<subseteq> fst ` set AudioTierDefinitions"
proof -
  obtain n where "(n, base_audio_preset name) \<in> set AudioPresets"
    using base_audio_preset_in by blast
  then have ok: "ap_UpgradeUntil (base_audio_preset name) \<in> set (ap_Tiers (base_audio_preset name))"
      "\<forall>t \<in> set (ap_Tiers (base_audio_preset name)).
         t \<notin> set (ap_RejectTiers (base_audio_preset name)) \<and> t \<in> fst ` set AudioTierDefinitions"
    using AudioPresets_ok by (auto simp: list_all_iff)
  have "ExpandAudioPreset name None profile =
      \<lparr>aq_ProfileName = profile, aq_UpgradeAllowed = True, aq_Cutoff = ap_UpgradeUntil (base_audio_preset name),
       aq_Tiers = map (\<lambda>t. \<lparr>at_Tier = t, at_Allowed = t \<notin> set (ap_RejectTiers (base_audio_preset name))\<rparr>)
         (ap_Tiers (base_audio_preset name)),
       aq_ReleaseProfile = None, aq_FormatScores = [],
       aq_MinimumCustomFormatScore = 0, aq_UpgradeUntilCustomFormatScore = 0\<rparr>"
    by (simp add: ExpandAudioPreset_def base_audio_preset_def Let_def)
  then show ?thesis using ok by (auto simp: list_all_iff image_iff)
qed

text \<open>
  An override removes its excluded names from the preset's preferred and rejected
  formats, keeping the order of the rest, then appends the additional ones; name, tiers
  and cutoff stay the preset's.
\<close>

theorem ApplyVideoOverrides_spec:
  "vp_PreferredFormats (ApplyVideoOverrides p ov) =
     filter (\<lambda>f. f \<notin> set (qo_Exclude ov)) (vp_PreferredFormats p) @ qo_PreferAdditional ov
   \<and> vp_RejectFormats (ApplyVideoOverrides p ov) =
     filter (\<lambda>f. f \<notin> set (qo_Exclude ov)) (vp_RejectFormats p) @ qo_RejectAdditional ov
   \<and> vp_Tiers (ApplyVideoOverrides p ov) = vp_Tiers p
   \<and> vp_UpgradeUntil (ApplyVideoOverrides p ov) = vp_UpgradeUntil p"
  by (simp add: ApplyVideoOverrides_def removeItems_filter)

end
