(* ===== verification/CRD.thy ===== *)
theory CRD
  imports Adapter
begin

text \<open>
  The custom resources of \<^verbatim>\<open>src/api/v1alpha1\<close> a user writes for Radarr, Sonarr, Lidarr,
  Readarr and Prowlarr, one record per struct. Durations and times are seconds. The slice
  \<^verbatim>\<open>AllowedFormats\<close> is an \<open>option\<close> because the compiler tests it for nil. Of the Kubernetes
  metadata the records keep what the operator reads. The status structs are the state the
  reconciler writes back.
\<close>

record ObjectMeta =
  om_Name :: string
  om_Namespace :: string
  om_Generation :: int
  om_Finalizers :: "string list"
  om_DeletionTimestamp :: "int option"

record Condition =
  cd_Type :: string
  cd_Status :: string
  cd_ObservedGeneration :: int
  cd_LastTransitionTime :: int
  cd_Reason :: string
  cd_Message :: string

record SecretKeySelector =
  sk_Name :: string
  sk_Key :: string

record CredentialsSecretRef =
  cr_Name :: string
  cr_UsernameKey :: string
  cr_PasswordKey :: string

record LocalObjectReference =
  lor_Name :: string

record ConnectionSpec =
  cns_URL :: string
  cns_APIKeySecretRef :: "SecretKeySelector option"
  cns_ConfigPath :: string
  cns_InsecureSkipVerify :: bool
  cns_Timeout :: "int option"

record VideoQualityTier =
  vtc_Resolution :: string
  vtc_Sources :: "string list"

record VideoQualitySpec =
  vqs_Preset :: string
  vqs_TemplateRef :: "LocalObjectReference option"
  vqs_Exclude :: "string list"
  vqs_PreferAdditional :: "string list"
  vqs_RejectAdditional :: "string list"
  vqs_Tiers :: "VideoQualityTier list"
  vqs_UpgradeUntil :: "VideoQualityTier option"
  vqs_PreferredFormats :: "string list"
  vqs_RejectedFormats :: "string list"

record AudioQualitySpec =
  aqs_Preset :: string
  aqs_TemplateRef :: "LocalObjectReference option"
  aqs_Exclude :: "string list"
  aqs_PreferAdditional :: "string list"
  aqs_Tiers :: "string list"
  aqs_UpgradeUntil :: string
  aqs_PreferredFormats :: "string list"

record DownloadClientSpec =
  dcs_Name :: string
  dcs_URL :: string
  dcs_Type :: string
  dcs_CredentialsSecretRef :: "CredentialsSecretRef option"
  dcs_Category :: string
  dcs_Priority :: int
  dcs_Enabled :: "bool option"
  dcs_RemoveCompletedDownloads :: "bool option"
  dcs_RemoveFailedDownloads :: "bool option"

record RemotePathMappingSpec =
  rps_Host :: string
  rps_RemotePath :: string
  rps_LocalPath :: string

record ProwlarrRef =
  prf_Name :: string
  prf_AutoRegister :: "bool option"
  prf_Include :: "string list"
  prf_Exclude :: "string list"

record DirectIndexer =
  di_Name :: string
  di_URL :: string
  di_Type :: string
  di_APIKeySecretRef :: "SecretKeySelector option"
  di_Categories :: "string list"
  di_Priority :: int
  di_Enabled :: "bool option"

record IndexersSpec =
  ixs_ProwlarrRef :: "ProwlarrRef option"
  ixs_Direct :: "DirectIndexer list"

record NamingSpec =
  nms_Preset :: string
  nms_RenameMedia :: "bool option"
  nms_StandardFormat :: string
  nms_FolderFormat :: string

record ReconciliationSpec =
  rcs_Interval :: "int option"
  rcs_Suspend :: bool

record ProwlarrRegistration =
  prg_Registered :: bool
  prg_ProwlarrName :: string
  prg_ApplicationID :: "int option"
  prg_LastSync :: "int option"
  prg_SyncedIndexers :: "string list"
  prg_Message :: string

record ManagedResources =
  mr_QualityProfileID :: "int option"
  mr_CustomFormatIDs :: "int list"
  mr_DownloadClientIDs :: "int list"
  mr_IndexerIDs :: "int list"
  mr_RootFolderIDs :: "int list"
  mr_RemotePathMappingIDs :: "int list"
  mr_NotificationIDs :: "int list"

record PolicyStatus =
  ps_Conditions :: "Condition list"
  ps_Realized :: bool
  ps_Message :: string

record HealthIssueStatus =
  his_Source :: string
  his_Type :: string
  his_Message :: string
  his_WikiURL :: string

record HealthStatusCRD =
  hsc_Healthy :: bool
  hsc_IssueCount :: int
  hsc_ErrorCount :: int
  hsc_WarningCount :: int
  hsc_LastCheck :: "int option"
  hsc_Issues :: "HealthIssueStatus list"

record ImportListSpec =
  isp_Name :: string
  isp_Type :: string
  isp_Enabled :: "bool option"
  isp_EnableAuto :: "bool option"
  isp_SearchOnAdd :: "bool option"
  isp_QualityProfile :: string
  isp_RootFolder :: string
  isp_Monitor :: string
  isp_MinimumAvailability :: string
  isp_SeriesType :: string
  isp_SeasonFolder :: "bool option"
  isp_ShouldMonitor :: string
  isp_Settings :: "(string \<times> string) list"
  isp_SettingsSecretRef :: "SecretKeySelector option"

record MediaManagementSpec =
  mms_RecycleBin :: string
  mms_RecycleBinCleanupDays :: "int option"
  mms_SetPermissions :: "bool option"
  mms_ChmodFolder :: string
  mms_ChownGroup :: string
  mms_DeleteEmptyFolders :: "bool option"
  mms_CreateEmptyFolders :: "bool option"
  mms_UseHardlinks :: "bool option"
  mms_WatchLibraryForChanges :: "bool option"
  mms_AllowFingerprinting :: string

record AuthenticationSpec =
  aus_Method :: string
  aus_Username :: string
  aus_PasswordSecretRef :: "SecretKeySelector option"
  aus_AuthenticationRequired :: string

record CustomFormatSpecificationSpec =
  cfss_Name :: string
  cfss_Type :: string
  cfss_Negate :: "bool option"
  cfss_Required :: "bool option"
  cfss_Value :: string

record CustomFormatSpecCRD =
  cfsp_Name :: string
  cfsp_IncludeWhenRenaming :: "bool option"
  cfsp_Score :: int
  cfsp_Specifications :: "CustomFormatSpecificationSpec list"

record DelayProfileSpec =
  dps_Name :: string
  dps_PreferredProtocol :: string
  dps_UsenetDelay :: int
  dps_TorrentDelay :: int
  dps_EnableUsenet :: "bool option"
  dps_EnableTorrent :: "bool option"
  dps_BypassIfHighestQuality :: "bool option"
  dps_BypassIfAboveCustomFormatScore :: "bool option"
  dps_MinimumCustomFormatScore :: int
  dps_Tags :: "string list"
  dps_Order :: "int option"

record PreferredTermSpec =
  pts_Term :: string
  pts_Score :: int

record ReleaseProfileSpec =
  rls_Name :: string
  rls_Enabled :: "bool option"
  rls_Required :: "string list"
  rls_Ignored :: "string list"
  rls_Preferred :: "PreferredTermSpec list"
  rls_IncludePreferredWhenRenaming :: "bool option"
  rls_IndexerID :: int
  rls_Tags :: "string list"

record NotificationSpec =
  nts_Name :: string
  nts_Type :: string
  nts_Enabled :: "bool option"
  nts_OnGrab :: "bool option"
  nts_OnDownload :: "bool option"
  nts_OnUpgrade :: "bool option"
  nts_OnRename :: "bool option"
  nts_OnHealthIssue :: "bool option"
  nts_OnHealthRestored :: "bool option"
  nts_OnApplicationUpdate :: "bool option"
  nts_OnManualInteractionRequired :: "bool option"
  nts_IncludeHealthWarnings :: "bool option"
  nts_OnMovieAdded :: "bool option"
  nts_OnMovieDelete :: "bool option"
  nts_OnMovieFileDelete :: "bool option"
  nts_OnMovieFileDeleteForUpgrade :: "bool option"
  nts_OnSeriesAdd :: "bool option"
  nts_OnSeriesDelete :: "bool option"
  nts_OnEpisodeFileDelete :: "bool option"
  nts_OnEpisodeFileDeleteForUpgrade :: "bool option"
  nts_OnReleaseImport :: "bool option"
  nts_OnArtistAdd :: "bool option"
  nts_OnArtistDelete :: "bool option"
  nts_OnAlbumDelete :: "bool option"
  nts_OnTrackRetag :: "bool option"
  nts_OnDownloadFailure :: "bool option"
  nts_OnImportFailure :: "bool option"
  nts_Settings :: "(string \<times> string) list"
  nts_SettingsSecretRef :: "SecretKeySelector option"
  nts_Tags :: "string list"

record RadarrConfigSpec =
  rad_Connection :: ConnectionSpec
  rad_Quality :: "VideoQualitySpec option"
  rad_DownloadClients :: "DownloadClientSpec list"
  rad_RemotePathMappings :: "RemotePathMappingSpec list"
  rad_Indexers :: "IndexersSpec option"
  rad_Naming :: "NamingSpec option"
  rad_RootFolders :: "string list"
  rad_ImportLists :: "ImportListSpec list"
  rad_MediaManagement :: "MediaManagementSpec option"
  rad_Authentication :: "AuthenticationSpec option"
  rad_Notifications :: "NotificationSpec list"
  rad_CustomFormats :: "CustomFormatSpecCRD list"
  rad_DelayProfiles :: "DelayProfileSpec list"
  rad_Reconciliation :: "ReconciliationSpec option"

record RadarrConfigStatus =
  radst_Conditions :: "Condition list"
  radst_Connected :: bool
  radst_ServiceVersion :: string
  radst_LastReconcile :: "int option"
  radst_ManagedResources :: ManagedResources
  radst_LastAppliedHash :: string
  radst_ProwlarrRegistration :: "ProwlarrRegistration option"
  radst_Health :: "HealthStatusCRD option"

record RadarrConfig =
  radc_ObjectMeta :: ObjectMeta
  radc_Spec :: RadarrConfigSpec
  radc_Status :: RadarrConfigStatus

record SonarrNamingSpec =
  snsp_NamingSpec :: NamingSpec
  snsp_SeasonFolderFormat :: string
  snsp_DailyEpisodeFormat :: string
  snsp_AnimeEpisodeFormat :: string

record SonarrConfigSpec =
  son_Connection :: ConnectionSpec
  son_Quality :: "VideoQualitySpec option"
  son_DownloadClients :: "DownloadClientSpec list"
  son_RemotePathMappings :: "RemotePathMappingSpec list"
  son_Indexers :: "IndexersSpec option"
  son_Naming :: "SonarrNamingSpec option"
  son_RootFolders :: "string list"
  son_ImportLists :: "ImportListSpec list"
  son_MediaManagement :: "MediaManagementSpec option"
  son_Authentication :: "AuthenticationSpec option"
  son_Notifications :: "NotificationSpec list"
  son_CustomFormats :: "CustomFormatSpecCRD list"
  son_DelayProfiles :: "DelayProfileSpec list"
  son_ReleaseProfiles :: "ReleaseProfileSpec list"
  son_Reconciliation :: "ReconciliationSpec option"

record SonarrConfigStatus =
  sonst_Conditions :: "Condition list"
  sonst_Connected :: bool
  sonst_ServiceVersion :: string
  sonst_LastReconcile :: "int option"
  sonst_ManagedResources :: ManagedResources
  sonst_LastAppliedHash :: string
  sonst_ProwlarrRegistration :: "ProwlarrRegistration option"
  sonst_Health :: "HealthStatusCRD option"

record SonarrConfig =
  sonc_ObjectMeta :: ObjectMeta
  sonc_Spec :: SonarrConfigSpec
  sonc_Status :: SonarrConfigStatus

record MetadataProfileSpec =
  mps_PrimaryTypes :: "string list"
  mps_SecondaryTypes :: "string list"
  mps_ReleaseStatuses :: "string list"

record LidarrRootFolder =
  lrf_Path :: string
  lrf_Name :: string
  lrf_DefaultMonitor :: string

record LidarrNamingSpec =
  lnsp_NamingSpec :: NamingSpec
  lnsp_ArtistFolderFormat :: string
  lnsp_AlbumFolderFormat :: string

record LidarrConfigSpec =
  lid_Connection :: ConnectionSpec
  lid_Quality :: "AudioQualitySpec option"
  lid_Metadata :: "MetadataProfileSpec option"
  lid_DownloadClients :: "DownloadClientSpec list"
  lid_RemotePathMappings :: "RemotePathMappingSpec list"
  lid_Indexers :: "IndexersSpec option"
  lid_Naming :: "LidarrNamingSpec option"
  lid_RootFolders :: "LidarrRootFolder list"
  lid_ImportLists :: "ImportListSpec list"
  lid_MediaManagement :: "MediaManagementSpec option"
  lid_Authentication :: "AuthenticationSpec option"
  lid_Notifications :: "NotificationSpec list"
  lid_CustomFormats :: "CustomFormatSpecCRD list"
  lid_DelayProfiles :: "DelayProfileSpec list"
  lid_Reconciliation :: "ReconciliationSpec option"

record LidarrConfigStatus =
  lidst_Conditions :: "Condition list"
  lidst_Connected :: bool
  lidst_ServiceVersion :: string
  lidst_LastReconcile :: "int option"
  lidst_ManagedResources :: ManagedResources
  lidst_LastAppliedHash :: string
  lidst_ProwlarrRegistration :: "ProwlarrRegistration option"
  lidst_Health :: "HealthStatusCRD option"

record LidarrConfig =
  lidc_ObjectMeta :: ObjectMeta
  lidc_Spec :: LidarrConfigSpec
  lidc_Status :: LidarrConfigStatus

record ReadarrMetadataProfileSpec =
  rmp_Name :: string
  rmp_MinPopularity :: int
  rmp_SkipMissingDate :: "bool option"
  rmp_SkipMissingIsbn :: "bool option"
  rmp_SkipPartsAndSets :: "bool option"
  rmp_SkipSeriesSecondary :: "bool option"
  rmp_AllowedLanguages :: "string list"

record ReadarrFormatSpec =
  rfs_Format :: string
  rfs_Allowed :: bool

record ReadarrQualitySpec =
  rqs_Preset :: string
  rqs_AllowedFormats :: "ReadarrFormatSpec list option"
  rqs_UpgradeAllowed :: "bool option"
  rqs_Cutoff :: string

record ReadarrNamingSpec =
  rnsp_NamingSpec :: NamingSpec
  rnsp_AuthorFolderFormat :: string
  rnsp_StandardBookFormat :: string
  rnsp_ColonReplacementFormat :: string

record ReadarrConfigSpec =
  rea_Connection :: ConnectionSpec
  rea_Quality :: "ReadarrQualitySpec option"
  rea_MetadataProfile :: "ReadarrMetadataProfileSpec option"
  rea_DownloadClients :: "DownloadClientSpec list"
  rea_RemotePathMappings :: "RemotePathMappingSpec list"
  rea_Indexers :: "IndexersSpec option"
  rea_Naming :: "ReadarrNamingSpec option"
  rea_RootFolders :: "string list"
  rea_ImportLists :: "ImportListSpec list"
  rea_MediaManagement :: "MediaManagementSpec option"
  rea_Authentication :: "AuthenticationSpec option"
  rea_Notifications :: "NotificationSpec list"
  rea_Reconciliation :: "ReconciliationSpec option"

record ReadarrConfigStatus =
  reast_Conditions :: "Condition list"
  reast_Connected :: bool
  reast_ServiceVersion :: string
  reast_LastReconcile :: "int option"
  reast_ManagedResources :: ManagedResources
  reast_LastAppliedHash :: string
  reast_ProwlarrRegistration :: "ProwlarrRegistration option"
  reast_Health :: "HealthStatusCRD option"

record ReadarrConfig =
  reac_ObjectMeta :: ObjectMeta
  reac_Spec :: ReadarrConfigSpec
  reac_Status :: ReadarrConfigStatus

record ProwlarrIndexer =
  pix_Name :: string
  pix_Definition :: string
  pix_BaseURL :: string
  pix_Settings :: "(string \<times> string) list"
  pix_APIKeySecretRef :: "SecretKeySelector option"
  pix_Tags :: "string list"
  pix_Priority :: int
  pix_Enabled :: "bool option"

record IndexerProxy =
  ipx_Name :: string
  ipx_Type :: string
  ipx_Host :: string
  ipx_Port :: int
  ipx_CredentialsSecretRef :: "CredentialsSecretRef option"
  ipx_RequestTimeout :: int
  ipx_Tags :: "string list"

record ProwlarrApplication =
  pap_Name :: string
  pap_Type :: string
  pap_URL :: string
  pap_APIKeySecretRef :: "SecretKeySelector option"
  pap_ConfigPath :: string
  pap_SyncCategories :: "string list"
  pap_SyncLevel :: string

record ProwlarrConfigSpec =
  pro_Connection :: ConnectionSpec
  pro_Indexers :: "ProwlarrIndexer list"
  pro_Proxies :: "IndexerProxy list"
  pro_Applications :: "ProwlarrApplication list"
  pro_DownloadClients :: "DownloadClientSpec list"
  pro_Authentication :: "AuthenticationSpec option"
  pro_Reconciliation :: "ReconciliationSpec option"

record ProwlarrConfigStatus =
  prost_Conditions :: "Condition list"
  prost_Connected :: bool
  prost_ServiceVersion :: string
  prost_LastReconcile :: "int option"
  prost_ManagedIndexers :: "int list"
  prost_ManagedProxies :: "int list"
  prost_ManagedApplications :: "int list"
  prost_LastAppliedHash :: string
  prost_Health :: "HealthStatusCRD option"

record ProwlarrConfig =
  proc_ObjectMeta :: ObjectMeta
  proc_Spec :: ProwlarrConfigSpec
  proc_Status :: ProwlarrConfigStatus

end
