(* ===== verification/Compiler.thy ===== *)
theory Compiler
  imports Presets CRD
begin

text \<open>
  \<^verbatim>\<open>src/internal/compiler\<close>: \<^verbatim>\<open>types.go\<close> (the inputs), \<^verbatim>\<open>features.go\<close>,
  \<^verbatim>\<open>resources.go\<close>, \<^verbatim>\<open>prune.go\<close> and \<^verbatim>\<open>compiler.go\<close>. \<^verbatim>\<open>Compile\<close> turns an input into
  the intermediate representation: it expands presets, names every resource with the
  operator's prefix, drops what the service does not support and stamps the result with a
  hash. The clock is the argument \<open>now\<close>; JSON encoding and SHA-256 together are the argument
  \<open>digest\<close>, a function of the struct the code hashes.
\<close>

section \<open>Inputs\<close>

record DownloadClientInput =
  dci_Name :: string
  dci_Implementation :: string
  dci_Host :: string
  dci_Port :: int
  dci_UseTLS :: bool
  dci_Username :: string
  dci_Password :: string
  dci_Category :: string
  dci_Priority :: int
  dci_RemoveCompletedDownloads :: bool
  dci_RemoveFailedDownloads :: bool

record RemotePathMappingInput =
  rpi_Host :: string
  rpi_RemotePath :: string
  rpi_LocalPath :: string

record ProwlarrRefInput =
  pri_ConfigName :: string
  pri_AutoRegister :: bool
  pri_Include :: "string list"
  pri_Exclude :: "string list"

record IndexerInput =
  ixi_Name :: string
  ixi_Protocol :: string
  ixi_Implementation :: string
  ixi_URL :: string
  ixi_APIKey :: string
  ixi_Categories :: "int list"
  ixi_Priority :: int
  ixi_MinimumSeeders :: int
  ixi_SeedRatio :: rat
  ixi_SeedTimeMinutes :: int
  ixi_EnableRss :: bool
  ixi_EnableAutomaticSearch :: bool
  ixi_EnableInteractiveSearch :: bool

record IndexersInput =
  ixsi_ProwlarrRef :: "ProwlarrRefInput option"
  ixsi_Direct :: "IndexerInput list"

record ImportListInput =
  ili_Name :: string
  ili_Type :: string
  ili_Enabled :: bool
  ili_EnableAuto :: bool
  ili_SearchOnAdd :: bool
  ili_QualityProfileName :: string
  ili_RootFolderPath :: string
  ili_Monitor :: string
  ili_MinimumAvailability :: string
  ili_SeriesType :: string
  ili_SeasonFolder :: bool
  ili_ShouldMonitor :: string
  ili_Settings :: "(string \<times> string) list"

record MediaManagementInput =
  mmi_RecycleBin :: string
  mmi_RecycleBinCleanupDays :: int
  mmi_SetPermissions :: bool
  mmi_ChmodFolder :: string
  mmi_ChownGroup :: string
  mmi_DeleteEmptyFolders :: bool
  mmi_CreateEmptyFolders :: bool
  mmi_UseHardlinks :: bool
  mmi_WatchLibraryForChanges :: "bool option"
  mmi_AllowFingerprinting :: string

record AuthenticationInput =
  aui_Method :: string
  aui_Username :: string
  aui_Password :: string
  aui_AuthenticationRequired :: string

record NotificationInput =
  nti_Name :: string
  nti_Implementation :: string
  nti_OnGrab :: bool
  nti_OnDownload :: bool
  nti_OnUpgrade :: bool
  nti_OnRename :: bool
  nti_OnHealthIssue :: bool
  nti_OnHealthRestored :: bool
  nti_OnApplicationUpdate :: bool
  nti_OnManualInteractionRequired :: bool
  nti_IncludeHealthWarnings :: bool
  nti_OnMovieAdded :: bool
  nti_OnMovieDelete :: bool
  nti_OnMovieFileDelete :: bool
  nti_OnMovieFileDeleteForUpgrade :: bool
  nti_OnSeriesAdd :: bool
  nti_OnSeriesDelete :: bool
  nti_OnEpisodeFileDelete :: bool
  nti_OnEpisodeFileDeleteForUpgrade :: bool
  nti_OnReleaseImport :: bool
  nti_OnArtistAdd :: bool
  nti_OnArtistDelete :: bool
  nti_OnAlbumDelete :: bool
  nti_OnTrackRetag :: bool
  nti_OnDownloadFailure :: bool
  nti_OnImportFailure :: bool
  nti_Fields :: "(string \<times> GoValue) list"
  nti_Tags :: "string list"

record CustomFormatSpecInput =
  cfsi_Name :: string
  cfsi_Type :: string
  cfsi_Negate :: bool
  cfsi_Required :: bool
  cfsi_Value :: string

record CustomFormatInput =
  cfi_Name :: string
  cfi_IncludeWhenRenaming :: bool
  cfi_Score :: int
  cfi_Specifications :: "CustomFormatSpecInput list"

record DelayProfileInput =
  dpi_Name :: string
  dpi_PreferredProtocol :: string
  dpi_UsenetDelay :: int
  dpi_TorrentDelay :: int
  dpi_EnableUsenet :: bool
  dpi_EnableTorrent :: bool
  dpi_BypassIfHighestQuality :: bool
  dpi_BypassIfAboveCustomFormatScore :: bool
  dpi_MinimumCustomFormatScore :: int
  dpi_Tags :: "string list"
  dpi_Order :: int

record MetadataProfileInput =
  mpi_Name :: string
  mpi_MinPopularity :: int
  mpi_SkipMissingDate :: bool
  mpi_SkipMissingIsbn :: bool
  mpi_SkipPartsAndSets :: bool
  mpi_SkipSeriesSecondary :: bool
  mpi_AllowedLanguages :: "string list"

record BookQualityInput =
  bqi_ProfileName :: string
  bqi_UpgradeAllowed :: bool
  bqi_CutoffFormat :: string
  bqi_AllowedFormats :: "string list"

record CompileInput =
  ci_App :: string
  ci_ConfigName :: string
  ci_Namespace :: string
  ci_URL :: string
  ci_APIKey :: string
  ci_QualityPreset :: string
  ci_QualityOverrides :: "QualityOverrides option"
  ci_NamingPreset :: string
  ci_DownloadClients :: "DownloadClientInput list"
  ci_RemotePathMappings :: "RemotePathMappingInput list"
  ci_Indexers :: "IndexersInput option"
  ci_RootFolders :: "string list"
  ci_ImportLists :: "ImportListInput list"
  ci_MediaManagement :: "MediaManagementInput option"
  ci_Authentication :: "AuthenticationInput option"
  ci_Notifications :: "NotificationInput list"
  ci_CustomFormats :: "CustomFormatInput list"
  ci_DelayProfiles :: "DelayProfileInput list"
  ci_MetadataProfile :: "MetadataProfileInput option"
  ci_BookQuality :: "BookQualityInput option"
  ci_Capabilities :: "Capabilities option"
  ci_ResolvedSecrets :: "(string \<times> string) list"

section \<open>Resources (resources.go)\<close>

text \<open>\<^verbatim>\<open>fmt.Sprintf("nebularr-%s-%s", configName, name)\<close>\<close>

definition managed_name :: "string \<Rightarrow> string \<Rightarrow> string" where
  "managed_name configName name = ''nebularr-'' @ configName @ ''-'' @ name"

definition inferProtocol :: "string \<Rightarrow> string" where
  "inferProtocol impl =
     (if impl \<in> set [''qbittorrent'', ''QBittorrent'', ''transmission'', ''Transmission'', ''deluge'', ''Deluge'',
                     ''rtorrent'', ''RTorrent'', ''Torznab''] then ProtocolTorrent
      else if impl \<in> set [''sabnzbd'', ''Sabnzbd'', ''nzbget'', ''NzbGet'', ''Newznab''] then ProtocolUsenet
      else '''')"

definition compileDownloadClients :: "DownloadClientInput list \<Rightarrow> string \<Rightarrow> DownloadClientIR list" where
  "compileDownloadClients clients configName =
     map (\<lambda>dc. \<lparr>dc_ID = 0, dc_Name = managed_name configName (dci_Name dc),
                dc_Protocol = inferProtocol (dci_Implementation dc),
                dc_Implementation = dci_Implementation dc,
                dc_Enable = True, dc_Priority = dci_Priority dc,
                dc_RemoveCompletedDownloads = dci_RemoveCompletedDownloads dc,
                dc_RemoveFailedDownloads = dci_RemoveFailedDownloads dc,
                dc_Host = dci_Host dc, dc_Port = dci_Port dc, dc_UseTLS = dci_UseTLS dc,
                dc_Username = dci_Username dc, dc_Password = dci_Password dc,
                dc_Category = dci_Category dc, dc_Directory = ''''\<rparr>) clients"

definition compileRemotePathMappings :: "RemotePathMappingInput list \<Rightarrow> RemotePathMappingIR list" where
  "compileRemotePathMappings mappings =
     map (\<lambda>m. \<lparr>rpm_ID = 0, rpm_Host = rpi_Host m, rpm_RemotePath = rpi_RemotePath m,
               rpm_LocalPath = rpi_LocalPath m\<rparr>) mappings"

definition compile_indexer :: "string \<Rightarrow> IndexerInput \<Rightarrow> IndexerIR" where
  "compile_indexer configName idx =
     \<lparr>idx_ID = 0, idx_Name = managed_name configName (ixi_Name idx), idx_Protocol = ixi_Protocol idx,
      idx_Implementation = ixi_Implementation idx, idx_Enable = True, idx_Priority = ixi_Priority idx,
      idx_URL = ixi_URL idx, idx_APIKey = ixi_APIKey idx, idx_Categories = ixi_Categories idx,
      idx_MinimumSeeders = ixi_MinimumSeeders idx, idx_SeedRatio = ixi_SeedRatio idx,
      idx_SeedTimeMinutes = ixi_SeedTimeMinutes idx, idx_EnableRss = ixi_EnableRss idx,
      idx_EnableAutomaticSearch = ixi_EnableAutomaticSearch idx,
      idx_EnableInteractiveSearch = ixi_EnableInteractiveSearch idx\<rparr>"

definition compileIndexers :: "IndexersInput option \<Rightarrow> string \<Rightarrow> IndexersIR option" where
  "compileIndexers input configName =
     (case input of
        None \<Rightarrow> None
      | Some input \<Rightarrow> Some
          \<lparr>idxs_ProwlarrRef = map_option (\<lambda>r. \<lparr>pref_ConfigName = pri_ConfigName r, pref_AutoRegister = pri_AutoRegister r,
                                              pref_Include = pri_Include r, pref_Exclude = pri_Exclude r\<rparr>)
                                (ixsi_ProwlarrRef input),
           idxs_Direct = map (compile_indexer configName) (ixsi_Direct input)\<rparr>)"

text \<open>The loop over the allowed formats of \<^verbatim>\<open>compileBookQuality\<close>.\<close>

definition add_book_tier :: "string \<Rightarrow> string \<Rightarrow> BookQualityIR \<Rightarrow> BookQualityIR" where
  "add_book_tier cutoffFormat format ir =
     (let tier = \<lparr>bt_Name = format, bt_Formats = [format], bt_Allowed = True\<rparr>;
          ir1 = ir\<lparr>bq_Tiers := bq_Tiers ir @ [tier]\<rparr>
      in if format = cutoffFormat then ir1\<lparr>bq_Cutoff := tier\<rparr> else ir1)"

definition compileBookQuality :: "BookQualityInput \<Rightarrow> string \<Rightarrow> BookQualityIR" where
  "compileBookQuality input profileName =
     fold (add_book_tier (bqi_CutoffFormat input)) (bqi_AllowedFormats input)
       \<lparr>bq_ProfileName = profileName, bq_UpgradeAllowed = bqi_UpgradeAllowed input,
        bq_Cutoff = zero_BookQualityTierIR, bq_Tiers = []\<rparr>"

text \<open>The loop that joins the languages with commas.\<close>

fun join_languages :: "string \<Rightarrow> string list \<Rightarrow> string" where
  "join_languages acc [] = acc"
| "join_languages acc (lang # rest) = join_languages (acc @ '','' @ lang) rest"

definition compileMetadataProfile :: "MetadataProfileInput \<Rightarrow> string \<Rightarrow> MetadataProfileIR" where
  "compileMetadataProfile input profileName =
     \<lparr>mp_ID = None,
      mp_Name = (if mpi_Name input \<noteq> '''' then ''nebularr-'' @ mpi_Name input else profileName),
      mp_MinPopularity = float64_of_int (mpi_MinPopularity input),
      mp_SkipMissingDate = mpi_SkipMissingDate input, mp_SkipMissingIsbn = mpi_SkipMissingIsbn input,
      mp_SkipPartsAndSets = mpi_SkipPartsAndSets input, mp_SkipSeriesSecondary = mpi_SkipSeriesSecondary input,
      mp_AllowedLanguages = (case mpi_AllowedLanguages input of [] \<Rightarrow> '''' | l # ls \<Rightarrow> join_languages l ls)\<rparr>"

section \<open>Features (features.go)\<close>

definition compileImportListsToIR :: "ImportListInput list \<Rightarrow> ImportListIR list" where
  "compileImportListsToIR inputs =
     map (\<lambda>l. \<lparr>il_Name = ili_Name l, il_Type = ili_Type l, il_Enabled = ili_Enabled l,
               il_EnableAuto = ili_EnableAuto l, il_SearchOnAdd = ili_SearchOnAdd l, il_QualityProfileID = 0,
               il_QualityProfileName = ili_QualityProfileName l, il_RootFolderPath = ili_RootFolderPath l,
               il_Monitor = ili_Monitor l, il_MinimumAvailability = ili_MinimumAvailability l,
               il_SeriesType = ili_SeriesType l, il_SeasonFolder = ili_SeasonFolder l,
               il_ShouldMonitor = ili_ShouldMonitor l, il_Settings = ili_Settings l\<rparr>) inputs"

definition compileMediaManagementToIR :: "MediaManagementInput option \<Rightarrow> MediaManagementIR option" where
  "compileMediaManagementToIR input =
     map_option (\<lambda>i. \<lparr>mm_RecycleBin = mmi_RecycleBin i, mm_RecycleBinCleanupDays = mmi_RecycleBinCleanupDays i,
       mm_SetPermissions = mmi_SetPermissions i, mm_ChmodFolder = mmi_ChmodFolder i, mm_ChownGroup = mmi_ChownGroup i,
       mm_DeleteEmptyFolders = mmi_DeleteEmptyFolders i, mm_CreateEmptyFolders = mmi_CreateEmptyFolders i,
       mm_UseHardlinks = mmi_UseHardlinks i, mm_WatchLibraryForChanges = mmi_WatchLibraryForChanges i,
       mm_AllowFingerprinting = mmi_AllowFingerprinting i\<rparr>) input"

definition compileAuthenticationToIR :: "AuthenticationInput option \<Rightarrow> AuthenticationIR option" where
  "compileAuthenticationToIR input =
     map_option (\<lambda>i. \<lparr>auth_Method = aui_Method i, auth_Username = aui_Username i, auth_Password = aui_Password i,
       auth_AuthenticationRequired = aui_AuthenticationRequired i\<rparr>) input"

definition compile_notification :: "string \<Rightarrow> NotificationInput \<Rightarrow> NotificationIR" where
  "compile_notification configName n =
     \<lparr>nt_ID = 0, nt_Name = managed_name configName (nti_Name n), nt_Implementation = nti_Implementation n,
      nt_ConfigContract = nti_Implementation n @ ''Settings'', nt_Enabled = True,
      nt_OnGrab = nti_OnGrab n, nt_OnDownload = nti_OnDownload n, nt_OnUpgrade = nti_OnUpgrade n,
      nt_OnRename = nti_OnRename n, nt_OnHealthIssue = nti_OnHealthIssue n,
      nt_OnHealthRestored = nti_OnHealthRestored n, nt_OnApplicationUpdate = nti_OnApplicationUpdate n,
      nt_OnManualInteractionRequired = nti_OnManualInteractionRequired n,
      nt_IncludeHealthWarnings = nti_IncludeHealthWarnings n,
      nt_OnMovieAdded = nti_OnMovieAdded n, nt_OnMovieDelete = nti_OnMovieDelete n,
      nt_OnMovieFileDelete = nti_OnMovieFileDelete n,
      nt_OnMovieFileDeleteForUpgrade = nti_OnMovieFileDeleteForUpgrade n,
      nt_OnSeriesAdd = nti_OnSeriesAdd n, nt_OnSeriesDelete = nti_OnSeriesDelete n,
      nt_OnEpisodeFileDelete = nti_OnEpisodeFileDelete n,
      nt_OnEpisodeFileDeleteForUpgrade = nti_OnEpisodeFileDeleteForUpgrade n,
      nt_OnReleaseImport = nti_OnReleaseImport n, nt_OnArtistAdd = nti_OnArtistAdd n,
      nt_OnArtistDelete = nti_OnArtistDelete n, nt_OnAlbumDelete = nti_OnAlbumDelete n,
      nt_OnTrackRetag = nti_OnTrackRetag n, nt_OnDownloadFailure = nti_OnDownloadFailure n,
      nt_OnImportFailure = nti_OnImportFailure n, nt_Fields = nti_Fields n, nt_Tags = []\<rparr>"

definition compileNotificationsToIR :: "NotificationInput list \<Rightarrow> string \<Rightarrow> NotificationIR list" where
  "compileNotificationsToIR notifications configName = map (compile_notification configName) notifications"

definition compileCustomFormatsToIR :: "CustomFormatInput list \<Rightarrow> string \<Rightarrow> CustomFormatIR list" where
  "compileCustomFormatsToIR formats configName =
     map (\<lambda>cf. \<lparr>cf_ID = 0, cf_Name = managed_name configName (cfi_Name cf),
                cf_IncludeWhenRenaming = cfi_IncludeWhenRenaming cf,
                cf_Specifications = map (\<lambda>spec. \<lparr>fs_Type = cfsi_Type spec, fs_Name = cfsi_Name spec,
                   fs_Negate = cfsi_Negate spec, fs_Required = cfsi_Required spec, fs_Value = cfsi_Value spec\<rparr>)
                   (cfi_Specifications cf)\<rparr>) formats"

definition compileFormatScores :: "CustomFormatInput list \<Rightarrow> string \<Rightarrow> (string \<times> int) list" where
  "compileFormatScores formats configName =
     fold (\<lambda>cf scores. if cfi_Score cf \<noteq> 0
                        then gm_set (managed_name configName (cfi_Name cf)) (cfi_Score cf) scores
                        else scores) formats []"

definition compile_delay_profile :: "nat \<Rightarrow> DelayProfileInput \<Rightarrow> DelayProfileIR" where
  "compile_delay_profile i p =
     \<lparr>dp_ID = 0, dp_Name = dpi_Name p,
      dp_Order = (if dpi_Order p = 0 then int i + 1 else dpi_Order p),
      dp_PreferredProtocol = (if dpi_PreferredProtocol p = '''' then ProtocolUsenet else dpi_PreferredProtocol p),
      dp_UsenetDelay = dpi_UsenetDelay p, dp_TorrentDelay = dpi_TorrentDelay p,
      dp_EnableUsenet = dpi_EnableUsenet p, dp_EnableTorrent = dpi_EnableTorrent p,
      dp_BypassIfHighestQuality = dpi_BypassIfHighestQuality p,
      dp_BypassIfAboveCustomFormatScore = dpi_BypassIfAboveCustomFormatScore p,
      dp_MinimumCustomFormatScore = dpi_MinimumCustomFormatScore p, dp_Tags = [], dp_TagNames = dpi_Tags p\<rparr>"

definition compileDelayProfilesToIR :: "DelayProfileInput list \<Rightarrow> DelayProfileIR list" where
  "compileDelayProfilesToIR profiles =
     map (\<lambda>(i, p). compile_delay_profile i p) (List.enumerate 0 profiles)"

section \<open>Pruning (prune.go)\<close>

definition normalizeImplementation :: "string \<Rightarrow> string" where
  "normalizeImplementation impl =
     (if impl = ''qbittorrent'' then ''QBittorrent''
      else if impl = ''transmission'' then ''Transmission''
      else if impl = ''deluge'' then ''Deluge''
      else if impl = ''rtorrent'' then ''RTorrent''
      else if impl = ''sabnzbd'' then ''Sabnzbd''
      else if impl = ''nzbget'' then ''NzbGet''
      else impl)"

definition unsupported :: "string \<Rightarrow> UnrealizedFeature" where
  "unsupported feature = \<lparr>uf_Feature = feature, uf_Reason = ''not supported by service''\<rparr>"

text \<open>
  The loop the three checks share: keep what is supported, report the rest. The result is
  the kept slice and the extended list of unrealized features.
\<close>

fun prune_loop ::
    "('a \<Rightarrow> bool) \<Rightarrow> ('a \<Rightarrow> string) \<Rightarrow> 'a list \<Rightarrow> UnrealizedFeature list \<Rightarrow> 'a list \<times> UnrealizedFeature list" where
  "prune_loop ok feature [] unrealized = ([], unrealized)"
| "prune_loop ok feature (x # xs) unrealized =
     (if ok x
      then (let (kept, u) = prune_loop ok feature xs unrealized in (x # kept, u))
      else prune_loop ok feature xs (unrealized @ [unsupported (feature x)]))"

definition prune_tiers :: "Capabilities \<Rightarrow> IR \<Rightarrow> UnrealizedFeature list \<Rightarrow> IR \<times> UnrealizedFeature list" where
  "prune_tiers caps ir unrealized =
     (case ir_Quality ir of
        None \<Rightarrow> (ir, unrealized)
      | Some q \<Rightarrow> (case q_Video q of
            None \<Rightarrow> (ir, unrealized)
          | Some v \<Rightarrow>
              (let supportedRes = set_of_slice (cap_Resolutions caps);
                   (kept, u) = prune_loop (\<lambda>t. gm_flag supportedRes (vt_Resolution t))
                     (\<lambda>t. ''resolution:'' @ vt_Resolution t) (vq_Tiers v) unrealized
               in (ir\<lparr>ir_Quality := Some (q\<lparr>q_Video := Some (v\<lparr>vq_Tiers := kept\<rparr>)\<rparr>)\<rparr>, u))))"

definition prune_clients :: "Capabilities \<Rightarrow> IR \<Rightarrow> UnrealizedFeature list \<Rightarrow> IR \<times> UnrealizedFeature list" where
  "prune_clients caps ir unrealized =
     (if length (cap_DownloadClientTypes caps) > 0
      then (let supportedTypes = set_of_slice (cap_DownloadClientTypes caps);
                (kept, u) = prune_loop (\<lambda>dc. gm_flag supportedTypes (normalizeImplementation (dc_Implementation dc)))
                  (\<lambda>dc. ''downloadclient:'' @ dc_Implementation dc) (ir_DownloadClients ir) unrealized
            in (ir\<lparr>ir_DownloadClients := kept\<rparr>, u))
      else (ir, unrealized))"

definition prune_indexers :: "Capabilities \<Rightarrow> IR \<Rightarrow> UnrealizedFeature list \<Rightarrow> IR \<times> UnrealizedFeature list" where
  "prune_indexers caps ir unrealized =
     (case ir_Indexers ir of
        None \<Rightarrow> (ir, unrealized)
      | Some ix \<Rightarrow>
          if length (cap_IndexerTypes caps) > 0
          then (let supportedTypes = set_of_slice (cap_IndexerTypes caps);
                    (kept, u) = prune_loop (\<lambda>idx. gm_flag supportedTypes (idx_Implementation idx))
                      (\<lambda>idx. ''indexer:'' @ idx_Implementation idx) (idxs_Direct ix) unrealized
                in (ir\<lparr>ir_Indexers := Some (ix\<lparr>idxs_Direct := kept\<rparr>)\<rparr>, u))
          else (ir, unrealized))"

definition pruneUnsupported :: "IR \<Rightarrow> Capabilities \<Rightarrow> IR \<times> UnrealizedFeature list" where
  "pruneUnsupported ir caps =
     (let (ir1, u1) = prune_tiers caps ir [];
          (ir2, u2) = prune_clients caps ir1 u1
      in prune_indexers caps ir2 u2)"

section \<open>Compile (compiler.go)\<close>

record HashInput =
  hin_App :: string
  hin_ConfigName :: string
  hin_QualityPreset :: string
  hin_QualityOverrides :: "QualityOverrides option"
  hin_NamingPreset :: string
  hin_DownloadClients :: "DownloadClientInput list"
  hin_RemotePathMappings :: "RemotePathMappingInput list"
  hin_Indexers :: "IndexersInput option"
  hin_RootFolders :: "string list"
  hin_Notifications :: "NotificationInput list"
  hin_CustomFormats :: "CustomFormatInput list"
  hin_DelayProfiles :: "DelayProfileInput list"

definition hashable :: "CompileInput \<Rightarrow> HashInput" where
  "hashable input =
     \<lparr>hin_App = ci_App input, hin_ConfigName = ci_ConfigName input, hin_QualityPreset = ci_QualityPreset input,
      hin_QualityOverrides = ci_QualityOverrides input, hin_NamingPreset = ci_NamingPreset input,
      hin_DownloadClients = ci_DownloadClients input, hin_RemotePathMappings = ci_RemotePathMappings input,
      hin_Indexers = ci_Indexers input, hin_RootFolders = ci_RootFolders input,
      hin_Notifications = ci_Notifications input, hin_CustomFormats = ci_CustomFormats input,
      hin_DelayProfiles = ci_DelayProfiles input\<rparr>"

definition hashInput :: "(HashInput \<Rightarrow> string) \<Rightarrow> CompileInput \<Rightarrow> string" where
  "hashInput digest input = digest (hashable input)"

text \<open>Step 2: quality and metadata profiles by application.\<close>

definition compile_quality :: "CompileInput \<Rightarrow> string \<Rightarrow> IR \<Rightarrow> IR" where
  "compile_quality input profileName ir =
     (if ci_App input = AppRadarr \<or> ci_App input = AppSonarr
      then (let presetName = (if ci_QualityPreset input = '''' then DefaultVideoPreset else ci_QualityPreset input)
            in ir\<lparr>ir_Quality := Some \<lparr>q_Video = Some (ExpandVideoPreset presetName (ci_QualityOverrides input) profileName),
                                    q_Audio = None, q_Book = None\<rparr>\<rparr>)
      else if ci_App input = AppLidarr
      then (let presetName = (if ci_QualityPreset input = '''' then DefaultAudioPreset else ci_QualityPreset input)
            in ir\<lparr>ir_Quality := Some \<lparr>q_Video = None,
                                    q_Audio = Some (ExpandAudioPreset presetName (ci_QualityOverrides input) profileName),
                                    q_Book = None\<rparr>\<rparr>)
      else if ci_App input = AppReadarr
      then (let ir1 = (case ci_BookQuality input of
                         None \<Rightarrow> ir
                       | Some b \<Rightarrow> ir\<lparr>ir_Quality := Some \<lparr>q_Video = None, q_Audio = None,
                                                         q_Book = Some (compileBookQuality b profileName)\<rparr>\<rparr>)
            in (case ci_MetadataProfile input of
                  None \<Rightarrow> ir1
                | Some m \<Rightarrow> ir1\<lparr>ir_MetadataProfiles := [Some (compileMetadataProfile m profileName)]\<rparr>))
      else ir)"

text \<open>Step 3: naming.\<close>

definition compile_naming :: "CompileInput \<Rightarrow> IR \<Rightarrow> IR" where
  "compile_naming input ir =
     (let namingPreset = (if ci_NamingPreset input = '''' then DefaultNamingPreset else ci_NamingPreset input) in
      if ci_App input = AppRadarr
      then ir\<lparr>ir_Naming := Some \<lparr>nm_Radarr = Some (ExpandRadarrNaming namingPreset), nm_Sonarr = None, nm_Lidarr = None\<rparr>\<rparr>
      else if ci_App input = AppSonarr
      then ir\<lparr>ir_Naming := Some \<lparr>nm_Radarr = None, nm_Sonarr = Some (ExpandSonarrNaming namingPreset), nm_Lidarr = None\<rparr>\<rparr>
      else if ci_App input = AppLidarr
      then ir\<lparr>ir_Naming := Some \<lparr>nm_Radarr = None, nm_Sonarr = None, nm_Lidarr = Some (ExpandLidarrNaming namingPreset)\<rparr>\<rparr>
      else ir)"

text \<open>Steps 4 to 11.\<close>

definition compile_resources :: "CompileInput \<Rightarrow> IR \<Rightarrow> IR" where
  "compile_resources input ir =
     ir\<lparr>ir_DownloadClients := compileDownloadClients (ci_DownloadClients input) (ci_ConfigName input),
        ir_RemotePathMappings := compileRemotePathMappings (ci_RemotePathMappings input),
        ir_Indexers := compileIndexers (ci_Indexers input) (ci_ConfigName input),
        ir_RootFolders := map (\<lambda>path. \<lparr>rf_Path = path, rf_Name = '''', rf_DefaultMonitor = ''''\<rparr>) (ci_RootFolders input),
        ir_ImportLists := compileImportListsToIR (ci_ImportLists input),
        ir_MediaManagement := compileMediaManagementToIR (ci_MediaManagement input),
        ir_Authentication := compileAuthenticationToIR (ci_Authentication input),
        ir_Notifications := compileNotificationsToIR (ci_Notifications input) (ci_ConfigName input)\<rparr>"

definition is_media_app :: "string \<Rightarrow> bool" where
  "is_media_app app \<longleftrightarrow> app = AppRadarr \<or> app = AppSonarr \<or> app = AppLidarr"

text \<open>Step 12: custom formats, and their scores in the quality profile.\<close>

definition set_format_scores :: "(string \<times> int) list \<Rightarrow> QualityIR \<Rightarrow> QualityIR" where
  "set_format_scores scores q =
     q\<lparr>q_Video := map_option (\<lambda>v. v\<lparr>vq_FormatScores := scores\<rparr>) (q_Video q),
       q_Audio := map_option (\<lambda>a. a\<lparr>aq_FormatScores := scores\<rparr>) (q_Audio q)\<rparr>"

definition compile_formats :: "CompileInput \<Rightarrow> IR \<Rightarrow> IR" where
  "compile_formats input ir =
     (if is_media_app (ci_App input)
      then (let ir1 = ir\<lparr>ir_CustomFormats := compileCustomFormatsToIR (ci_CustomFormats input) (ci_ConfigName input)\<rparr>
            in if ir_Quality ir1 \<noteq> None \<and> length (ci_CustomFormats input) > 0
               then ir1\<lparr>ir_Quality := map_option (set_format_scores
                          (compileFormatScores (ci_CustomFormats input) (ci_ConfigName input))) (ir_Quality ir1)\<rparr>
               else ir1)
      else ir)"

text \<open>Step 13: delay profiles. Step 14: pruning.\<close>

definition compile_delays :: "CompileInput \<Rightarrow> IR \<Rightarrow> IR" where
  "compile_delays input ir =
     (if is_media_app (ci_App input)
      then ir\<lparr>ir_DelayProfiles := compileDelayProfilesToIR (ci_DelayProfiles input)\<rparr>
      else ir)"

definition compile_prune :: "CompileInput \<Rightarrow> IR \<Rightarrow> IR" where
  "compile_prune input ir =
     (case ci_Capabilities input of
        None \<Rightarrow> ir
      | Some caps \<Rightarrow> (let (ir1, u) = pruneUnsupported ir caps in ir1\<lparr>ir_Unrealized := u\<rparr>))"

definition compile_start :: "int \<Rightarrow> CompileInput \<Rightarrow> IR" where
  "compile_start now input =
     zero_IR\<lparr>ir_Version := IRVersion, ir_GeneratedAt := now, ir_App := ci_App input,
             ir_Connection := Some \<lparr>conn_URL = ci_URL input, conn_APIKey = ci_APIKey input,
                                    conn_InsecureSkipVerify = False\<rparr>\<rparr>"

definition Compile :: "(HashInput \<Rightarrow> string) \<Rightarrow> int \<Rightarrow> CompileInput \<Rightarrow> IR outcome" where
  "Compile digest now input =
     (let profileName = ''nebularr-'' @ ci_ConfigName input;
          ir = compile_start now input;
          ir = compile_quality input profileName ir;
          ir = compile_naming input ir;
          ir = compile_resources input ir;
          ir = compile_formats input ir;
          ir = compile_delays input ir;
          ir = compile_prune input ir
      in Ok (ir\<lparr>ir_SourceHash := hashInput digest input\<rparr>))"

section \<open>What pruning does\<close>

lemma prune_loop_eq:
  "prune_loop ok feature xs u =
     (filter ok xs, u @ map (\<lambda>x. unsupported (feature x)) (filter (\<lambda>x. \<not> ok x) xs))"
  by (induction xs arbitrary: u) auto

text \<open>The three things pruning looks at, and what the capabilities say about each.\<close>

definition video_tiers :: "IR \<Rightarrow> VideoQualityTierIR list" where
  "video_tiers ir = (case ir_Quality ir of None \<Rightarrow> [] | Some q \<Rightarrow> (case q_Video q of None \<Rightarrow> [] | Some v \<Rightarrow> vq_Tiers v))"

definition direct_indexers :: "IR \<Rightarrow> IndexerIR list" where
  "direct_indexers ir = (case ir_Indexers ir of None \<Rightarrow> [] | Some ix \<Rightarrow> idxs_Direct ix)"

definition tier_supported :: "Capabilities \<Rightarrow> VideoQualityTierIR \<Rightarrow> bool" where
  "tier_supported caps t \<longleftrightarrow> vt_Resolution t \<in> set (cap_Resolutions caps)"

definition client_supported :: "Capabilities \<Rightarrow> DownloadClientIR \<Rightarrow> bool" where
  "client_supported caps dc \<longleftrightarrow> cap_DownloadClientTypes caps = [] \<or>
     normalizeImplementation (dc_Implementation dc) \<in> set (cap_DownloadClientTypes caps)"

definition indexer_supported :: "Capabilities \<Rightarrow> IndexerIR \<Rightarrow> bool" where
  "indexer_supported caps i \<longleftrightarrow> cap_IndexerTypes caps = [] \<or> idx_Implementation i \<in> set (cap_IndexerTypes caps)"

lemmas supported_defs = tier_supported_def client_supported_def indexer_supported_def

lemma prune_tiers_eq:
  "video_tiers (fst (prune_tiers caps ir u)) = filter (tier_supported caps) (video_tiers ir)"
  "snd (prune_tiers caps ir u) =
     u @ map (\<lambda>t. unsupported (''resolution:'' @ vt_Resolution t)) (filter (\<lambda>t. \<not> tier_supported caps t) (video_tiers ir))"
  "ir_DownloadClients (fst (prune_tiers caps ir u)) = ir_DownloadClients ir"
  "ir_Indexers (fst (prune_tiers caps ir u)) = ir_Indexers ir"
  by (auto simp: prune_tiers_def video_tiers_def prune_loop_eq tier_supported_def [abs_def] split: option.split)

lemma prune_clients_eq:
  "ir_DownloadClients (fst (prune_clients caps ir u)) = filter (client_supported caps) (ir_DownloadClients ir)"
  "snd (prune_clients caps ir u) =
     u @ map (\<lambda>d. unsupported (''downloadclient:'' @ dc_Implementation d))
           (filter (\<lambda>d. \<not> client_supported caps d) (ir_DownloadClients ir))"
  "ir_Quality (fst (prune_clients caps ir u)) = ir_Quality ir"
  "ir_Indexers (fst (prune_clients caps ir u)) = ir_Indexers ir"
  by (auto simp: prune_clients_def prune_loop_eq client_supported_def [abs_def])

lemma prune_indexers_eq:
  "direct_indexers (fst (prune_indexers caps ir u)) = filter (indexer_supported caps) (direct_indexers ir)"
  "snd (prune_indexers caps ir u) =
     u @ map (\<lambda>i. unsupported (''indexer:'' @ idx_Implementation i))
           (filter (\<lambda>i. \<not> indexer_supported caps i) (direct_indexers ir))"
  "ir_Quality (fst (prune_indexers caps ir u)) = ir_Quality ir"
  "ir_DownloadClients (fst (prune_indexers caps ir u)) = ir_DownloadClients ir"
  by (auto simp: prune_indexers_def prune_loop_eq indexer_supported_def [abs_def] direct_indexers_def split: option.split)

lemma prune_frames:
  "video_tiers (fst (prune_clients caps ir u)) = video_tiers ir"
  "video_tiers (fst (prune_indexers caps ir u)) = video_tiers ir"
  "direct_indexers (fst (prune_clients caps ir u)) = direct_indexers ir"
  "direct_indexers (fst (prune_tiers caps ir u)) = direct_indexers ir"
  by (simp_all add: video_tiers_def direct_indexers_def prune_tiers_eq prune_clients_eq prune_indexers_eq)

lemmas prune_eqs = prune_tiers_eq prune_clients_eq prune_indexers_eq prune_frames

lemma pruneUnsupported_unfold:
  "pruneUnsupported ir caps =
     (let r1 = prune_tiers caps ir []; r2 = prune_clients caps (fst r1) (snd r1)
      in prune_indexers caps (fst r2) (snd r2))"
  by (simp add: pruneUnsupported_def Let_def split: prod.split)

text \<open>
  C15. Pruning keeps exactly the tiers, download clients and indexers the service supports,
  in their order, and reports each one it drops, in order: nothing disappears silently.
\<close>

theorem pruneUnsupported_exact:
  "video_tiers (fst (pruneUnsupported ir caps)) = filter (tier_supported caps) (video_tiers ir)
   \<and> ir_DownloadClients (fst (pruneUnsupported ir caps)) = filter (client_supported caps) (ir_DownloadClients ir)
   \<and> direct_indexers (fst (pruneUnsupported ir caps)) = filter (indexer_supported caps) (direct_indexers ir)
   \<and> snd (pruneUnsupported ir caps) =
       map (\<lambda>t. unsupported (''resolution:'' @ vt_Resolution t)) (filter (\<lambda>t. \<not> tier_supported caps t) (video_tiers ir))
       @ map (\<lambda>d. unsupported (''downloadclient:'' @ dc_Implementation d))
           (filter (\<lambda>d. \<not> client_supported caps d) (ir_DownloadClients ir))
       @ map (\<lambda>i. unsupported (''indexer:'' @ idx_Implementation i))
           (filter (\<lambda>i. \<not> indexer_supported caps i) (direct_indexers ir))"
  unfolding pruneUnsupported_unfold Let_def by (simp add: prune_eqs)

section \<open>What a compiled configuration looks like\<close>

lemma video_tiers_SourceHash [simp]: "video_tiers (ir\<lparr>ir_SourceHash := h\<rparr>) = video_tiers ir"
  and video_tiers_Unrealized [simp]: "video_tiers (ir\<lparr>ir_Unrealized := u\<rparr>) = video_tiers ir"
  and direct_indexers_SourceHash [simp]: "direct_indexers (ir\<lparr>ir_SourceHash := h\<rparr>) = direct_indexers ir"
  and direct_indexers_Unrealized [simp]: "direct_indexers (ir\<lparr>ir_Unrealized := u\<rparr>) = direct_indexers ir"
  by (simp_all add: video_tiers_def direct_indexers_def)

text \<open>The representation just before pruning.\<close>

definition unpruned :: "int \<Rightarrow> CompileInput \<Rightarrow> IR" where
  "unpruned now input =
     compile_delays input (compile_formats input (compile_resources input (compile_naming input
       (compile_quality input (''nebularr-'' @ ci_ConfigName input) (compile_start now input)))))"

lemma Compile_eq:
  "Compile digest now input =
     Ok ((compile_prune input (unpruned now input))\<lparr>ir_SourceHash := hashInput digest input\<rparr>)"
  by (simp add: Compile_def unpruned_def Let_def)

lemma unpruned_quality:
  "ci_App input = AppRadarr \<or> ci_App input = AppSonarr \<Longrightarrow>
   \<exists>v scores. ir_Quality (unpruned now input) = Some \<lparr>q_Video = Some (v\<lparr>vq_FormatScores := scores\<rparr>), q_Audio = None, q_Book = None\<rparr>
     \<and> v = ExpandVideoPreset (if ci_QualityPreset input = '''' then DefaultVideoPreset else ci_QualityPreset input)
             (ci_QualityOverrides input) (''nebularr-'' @ ci_ConfigName input)
     \<and> scores = (if ci_CustomFormats input = [] then vq_FormatScores v
                 else compileFormatScores (ci_CustomFormats input) (ci_ConfigName input))"
  by (auto simp: unpruned_def compile_delays_def compile_formats_def compile_resources_def compile_naming_def
      compile_quality_def compile_start_def is_media_app_def set_format_scores_def Let_def)

text \<open>
  C16. Whatever a Radarr or Sonarr configuration says, every tier of the compiled quality
  profile is a resolution the service reported, and the profile's cutoff is one of these
  tiers as soon as the service supports the cutoff's resolution.
\<close>

theorem Compile_cutoff_survives:
  assumes "ci_App input = AppRadarr \<or> ci_App input = AppSonarr"
    and "ci_Capabilities input = Some caps"
  shows "\<exists>ir q v. Compile digest now input = Ok ir \<and> ir_Quality ir = Some q \<and> q_Video q = Some v \<and>
    (\<forall>t \<in> set (vq_Tiers v). vt_Resolution t \<in> set (cap_Resolutions caps)) \<and>
    (vt_Resolution (vq_Cutoff v) \<in> set (cap_Resolutions caps) \<longrightarrow> tier_covers (vq_Tiers v) (vq_Cutoff v))"
proof -
  obtain v scores where q: "ir_Quality (unpruned now input) =
      Some \<lparr>q_Video = Some (v\<lparr>vq_FormatScores := scores\<rparr>), q_Audio = None, q_Book = None\<rparr>"
    and v: "v = ExpandVideoPreset (if ci_QualityPreset input = '''' then DefaultVideoPreset else ci_QualityPreset input)
             (ci_QualityOverrides input) (''nebularr-'' @ ci_ConfigName input)"
    using unpruned_quality [OF assms(1)] by blast
  let ?ir = "(compile_prune input (unpruned now input))\<lparr>ir_SourceHash := hashInput digest input\<rparr>"
  let ?v = "v\<lparr>vq_FormatScores := scores, vq_Tiers := filter (tier_supported caps) (vq_Tiers v)\<rparr>"
  have "ir_Quality (fst (prune_tiers caps (unpruned now input) [])) =
      Some \<lparr>q_Video = Some ?v, q_Audio = None, q_Book = None\<rparr>"
    by (simp add: prune_tiers_def q prune_loop_eq tier_supported_def [abs_def])
  then have "ir_Quality ?ir = Some \<lparr>q_Video = Some ?v, q_Audio = None, q_Book = None\<rparr>"
    using assms(2) by (simp add: compile_prune_def pruneUnsupported_unfold Let_def split_beta prune_eqs)
  moreover have "tier_covers (vq_Tiers v) (vq_Cutoff v)"
    unfolding v by (rule video_cutoff_covered)
  then have "vt_Resolution (vq_Cutoff v) \<in> set (cap_Resolutions caps) \<longrightarrow> tier_covers (vq_Tiers ?v) (vq_Cutoff ?v)"
    by (auto simp: tier_covers_def list_ex_iff tier_supported_def)
  moreover have "\<forall>t \<in> set (vq_Tiers ?v). vt_Resolution t \<in> set (cap_Resolutions caps)"
    by (simp add: tier_supported_def)
  ultimately show ?thesis
    by (auto simp: Compile_eq)
qed

definition sample_input :: CompileInput where
  "sample_input =
     \<lparr>ci_App = AppSonarr, ci_ConfigName = ''tv'', ci_Namespace = ''media'', ci_URL = ''http://sonarr:8989'',
      ci_APIKey = ''k'', ci_QualityPreset = '''', ci_QualityOverrides = None, ci_NamingPreset = '''',
      ci_DownloadClients = [], ci_RemotePathMappings = [], ci_Indexers = None, ci_RootFolders = [],
      ci_ImportLists = [], ci_MediaManagement = None, ci_Authentication = None, ci_Notifications = [],
      ci_CustomFormats = [], ci_DelayProfiles = [], ci_MetadataProfile = None, ci_BookQuality = None,
      ci_Capabilities = Some \<lparr>cap_DiscoveredAt = 0, cap_Resolutions = [''1080p'', ''720p''], cap_Sources = [],
        cap_CustomFormatSpecs = [], cap_AudioTiers = [], cap_DownloadClientTypes = [], cap_IndexerTypes = []\<rparr>,
      ci_ResolvedSecrets = []\<rparr>"

theorem Compile_cutoff_survives_witness:
  "\<exists>ir q v. Compile (\<lambda>_. ''h'') 0 sample_input = Ok ir \<and> ir_Quality ir = Some q \<and> q_Video q = Some v \<and>
    (\<forall>t \<in> set (vq_Tiers v). vt_Resolution t \<in> set [''1080p'', ''720p''])"
  using Compile_cutoff_survives [of sample_input _ "\<lambda>_. ''h''" 0]
  by (fastforce simp: sample_input_def)

lemma prune_keeps:
  "ir_CustomFormats (fst (prune_tiers caps ir u)) = ir_CustomFormats ir"
  "ir_Notifications (fst (prune_tiers caps ir u)) = ir_Notifications ir"
  "ir_CustomFormats (fst (prune_clients caps ir u)) = ir_CustomFormats ir"
  "ir_Notifications (fst (prune_clients caps ir u)) = ir_Notifications ir"
  "ir_CustomFormats (fst (prune_indexers caps ir u)) = ir_CustomFormats ir"
  "ir_Notifications (fst (prune_indexers caps ir u)) = ir_Notifications ir"
  by (auto simp: prune_tiers_def prune_clients_def prune_indexers_def prune_loop_eq split: option.split)

lemma pruned_fields:
  "ir_CustomFormats (compile_prune input ir) = ir_CustomFormats ir"
  "ir_Notifications (compile_prune input ir) = ir_Notifications ir"
  "set (ir_DownloadClients (compile_prune input ir)) \<subseteq> set (ir_DownloadClients ir)"
  "set (direct_indexers (compile_prune input ir)) \<subseteq> set (direct_indexers ir)"
  by (auto simp: compile_prune_def pruneUnsupported_unfold Let_def split_beta prune_eqs prune_keeps split: option.split)

lemma unpruned_fields:
  "ir_DownloadClients (unpruned now input) = compileDownloadClients (ci_DownloadClients input) (ci_ConfigName input)"
  "ir_Notifications (unpruned now input) = compileNotificationsToIR (ci_Notifications input) (ci_ConfigName input)"
  "ir_Indexers (unpruned now input) = compileIndexers (ci_Indexers input) (ci_ConfigName input)"
  "ir_CustomFormats (unpruned now input) = (if is_media_app (ci_App input)
     then compileCustomFormatsToIR (ci_CustomFormats input) (ci_ConfigName input) else [])"
  "ir_DelayProfiles (unpruned now input) = (if is_media_app (ci_App input)
     then compileDelayProfilesToIR (ci_DelayProfiles input) else [])"
  by (auto simp: unpruned_def compile_delays_def compile_formats_def compile_resources_def compile_naming_def
      compile_quality_def compile_start_def zero_IR_def Let_def split: option.split)

lemma managed_name_inject [simp]: "managed_name c n = managed_name c n' \<longleftrightarrow> n = n'"
  by (simp add: managed_name_def)

lemma managed_name_prefix [simp]: "HasPrefix (managed_name c n) (''nebularr-'' @ c @ ''-'')"
  unfolding managed_name_def by (metis HasPrefix_append append.assoc)

text \<open>The custom formats a quality preset brings along.\<close>

definition preset_formats :: "IR \<Rightarrow> CustomFormatIR list" where
  "preset_formats ir =
     (case ir_Quality ir of None \<Rightarrow> []
      | Some q \<Rightarrow> (case q_Video q of None \<Rightarrow> [] | Some v \<Rightarrow> vq_CustomFormats v))"

definition named_by_preset :: "string \<Rightarrow> bool" where
  "named_by_preset n \<longleftrightarrow> HasPrefix n ''Prefer: '' \<or> HasPrefix n ''Reject: ''"

lemma expanded_formats_named:
  "cf \<in> set (vq_CustomFormats (ExpandVideoPreset name overrides profile)) \<Longrightarrow> named_by_preset (cf_Name cf)"
  by (auto simp: ExpandVideoPreset_def Let_def addFormat_formats formatToCustomFormat_eq map_filter_def named_by_preset_def
      split: option.splits if_splits)

lemma preset_formats_pruned: "preset_formats (compile_prune input ir) = preset_formats ir"
proof -
  have "preset_formats (fst (prune_tiers caps ir u)) = preset_formats ir" for caps u
    by (auto simp: prune_tiers_def preset_formats_def split_beta split: option.split)
  moreover have "preset_formats (fst (prune_clients caps ir u)) = preset_formats ir"
      "preset_formats (fst (prune_indexers caps ir u)) = preset_formats ir" for caps u ir
    by (auto simp: prune_clients_def prune_indexers_def preset_formats_def split_beta split: option.split)
  moreover have "preset_formats (ir\<lparr>ir_Unrealized := u\<rparr>) = preset_formats ir" for ir u by (simp add: preset_formats_def)
  ultimately show ?thesis
    by (auto simp: compile_prune_def pruneUnsupported_unfold Let_def split_beta split: option.split)
qed

lemma preset_formats_unpruned:
  "cf \<in> set (preset_formats (unpruned now input)) \<Longrightarrow> named_by_preset (cf_Name cf)"
  by (auto simp: unpruned_def compile_delays_def compile_formats_def compile_resources_def compile_naming_def
      compile_quality_def compile_start_def zero_IR_def Let_def preset_formats_def set_format_scores_def
      split: option.splits if_splits dest: expanded_formats_named)

text \<open>
  C17. Ownership by name: every download client, indexer, notification and custom format the
  specification lists carries the prefix \<^verbatim>\<open>nebularr-<config>-\<close> in the compiled representation,
  for every application and whatever was pruned. The formats a quality preset brings along, in
  the profile, do not: each is named after the preset's preference, \<^verbatim>\<open>Prefer: ...\<close> or
  \<^verbatim>\<open>Reject: ...\<close>, whatever the configuration is called.
\<close>

theorem Compile_names_owned:
  "\<exists>ir. Compile digest now input = Ok ir \<and>
    list_all (\<lambda>n. HasPrefix n (''nebularr-'' @ ci_ConfigName input @ ''-''))
      (map dc_Name (ir_DownloadClients ir) @ map idx_Name (direct_indexers ir) @
       map nt_Name (ir_Notifications ir) @ map cf_Name (ir_CustomFormats ir)) \<and>
    list_all (\<lambda>n. (HasPrefix n ''Prefer: '' \<or> HasPrefix n ''Reject: '') \<and> \<not> HasPrefix n ''nebularr-'')
      (map cf_Name (preset_formats ir))"
proof -
  let ?p = "compile_prune input (unpruned now input)" and ?c = "ci_ConfigName input"
  have "\<forall>d \<in> set (ir_DownloadClients ?p). HasPrefix (dc_Name d) (''nebularr-'' @ ?c @ ''-'')"
    using pruned_fields(3) [of input "unpruned now input"]
    by (auto simp: unpruned_fields compileDownloadClients_def simp del: append.simps)
  moreover have "\<forall>i \<in> set (direct_indexers ?p). HasPrefix (idx_Name i) (''nebularr-'' @ ?c @ ''-'')"
    using pruned_fields(4) [of input "unpruned now input"]
    by (auto simp: unpruned_fields compileIndexers_def direct_indexers_def [of "unpruned now input"] compile_indexer_def
        simp del: append.simps split: option.splits)
  moreover have "\<forall>n \<in> set (ir_Notifications ?p). HasPrefix (nt_Name n) (''nebularr-'' @ ?c @ ''-'')"
    by (auto simp: pruned_fields unpruned_fields compileNotificationsToIR_def compile_notification_def
        simp del: append.simps)
  moreover have "\<forall>f \<in> set (ir_CustomFormats ?p). HasPrefix (cf_Name f) (''nebularr-'' @ ?c @ ''-'')"
    by (auto simp: pruned_fields unpruned_fields compileCustomFormatsToIR_def simp del: append.simps)
  moreover have "(HasPrefix (cf_Name f) ''Prefer: '' \<or> HasPrefix (cf_Name f) ''Reject: '') \<and> \<not> HasPrefix (cf_Name f) ''nebularr-''"
    if "f \<in> set (preset_formats (?p\<lparr>ir_SourceHash := h\<rparr>))" for f h
  proof -
    have "f \<in> set (preset_formats ?p)" using that by (simp add: preset_formats_def)
    then have "named_by_preset (cf_Name f)" using preset_formats_unpruned by (simp add: preset_formats_pruned)
    then show ?thesis by (auto simp: named_by_preset_def HasPrefix_iff)
  qed
  ultimately show ?thesis
    by (auto simp: Compile_eq list_all_iff simp del: append.simps HasPrefix.simps)
qed

text \<open>
  The drift hash does not see import lists, media management, authentication, the URL,
  the metadata profile or the book quality: changing any of them leaves it as it was, for
  every digest.
\<close>

theorem SourceHash_blind_spots:
  "hashInput digest (input\<lparr>ci_ImportLists := lists', ci_MediaManagement := mm, ci_Authentication := auth,
     ci_URL := url, ci_MetadataProfile := meta, ci_BookQuality := book\<rparr>) = hashInput digest input"
  by (simp add: hashInput_def hashable_def)

lemma compileFormatScores_lookup:
  assumes "\<not> HasPrefix n (''nebularr-'' @ c @ ''-'')"
  shows "map_of (compileFormatScores fs c) n = None"
proof -
  have "map_of (fold (\<lambda>cf scores. if cfi_Score cf \<noteq> 0
            then gm_set (managed_name c (cfi_Name cf)) (cfi_Score cf) scores else scores) fs m) n \<noteq> None \<Longrightarrow>
      HasPrefix n (''nebularr-'' @ c @ ''-'') \<or> map_of m n \<noteq> None" for m
    by (induction fs arbitrary: m) (fastforce simp del: append.simps HasPrefix.simps split: if_splits)+
  from this [of "[]"] show ?thesis
    using assms unfolding compileFormatScores_def by (metis map_of.simps(1))
qed

text \<open>
  User-defined custom formats replace the score table of the preset: as soon as a
  Radarr or Sonarr configuration defines one, the compiled profile scores exactly the
  configured formats with a non-zero score, and none of the preset's preferred or rejected
  formats keeps its score.
\<close>

theorem Compile_scores_replaced:
  assumes "ci_App input = AppRadarr \<or> ci_App input = AppSonarr"
    and "ci_CustomFormats input \<noteq> []" and "ci_Capabilities input = None"
  shows "\<exists>ir q v. Compile digest now input = Ok ir \<and> ir_Quality ir = Some q \<and> q_Video q = Some v \<and>
    vq_FormatScores v = compileFormatScores (ci_CustomFormats input) (ci_ConfigName input) \<and>
    (\<forall>f. map_of (vq_FormatScores v) (''Reject: '' @ f) = None \<and> map_of (vq_FormatScores v) (''Prefer: '' @ f) = None)"
proof -
  obtain v scores where q: "ir_Quality (unpruned now input) =
      Some \<lparr>q_Video = Some (v\<lparr>vq_FormatScores := scores\<rparr>), q_Audio = None, q_Book = None\<rparr>"
    and sc: "scores = compileFormatScores (ci_CustomFormats input) (ci_ConfigName input)"
    using unpruned_quality [OF assms(1)] assms(2) by auto
  have "map_of scores (''Reject: '' @ f) = None \<and> map_of scores (''Prefer: '' @ f) = None" for f
    unfolding sc by (simp add: compileFormatScores_lookup)
  then show ?thesis
    using q sc assms(3) by (simp add: Compile_eq compile_prune_def)
qed

theorem Compile_scores_replaced_witness:
  "\<exists>ir q v. Compile (\<lambda>_. ''h'') 0 (sample_input\<lparr>ci_Capabilities := None, ci_QualityPreset := ''4k-hdr'',
        ci_CustomFormats := [\<lparr>cfi_Name = ''x265'', cfi_IncludeWhenRenaming = False, cfi_Score = 50, cfi_Specifications = []\<rparr>]\<rparr>) = Ok ir \<and>
      ir_Quality ir = Some q \<and> q_Video q = Some v \<and>
      vq_FormatScores v = [(''nebularr-tv-x265'', 50)] \<and> map_of (vq_FormatScores v) ''Reject: cam'' = None"
  using Compile_scores_replaced [of "sample_input\<lparr>ci_Capabilities := None, ci_QualityPreset := ''4k-hdr'',
      ci_CustomFormats := [\<lparr>cfi_Name = ''x265'', cfi_IncludeWhenRenaming = False, cfi_Score = 50, cfi_Specifications = []\<rparr>]\<rparr>"
      "\<lambda>_. ''h''" 0]
  by (auto simp: sample_input_def compileFormatScores_def managed_name_def gm_set_def)

end
