(* ===== verification/Go_Url.thy ===== *)
theory Go_Url
  imports Go_Std
begin

text \<open>
  The fragment of Go's \<^verbatim>\<open>net/url\<close> behind \<^verbatim>\<open>url.Parse\<close>, \<^verbatim>\<open>Hostname\<close> and \<^verbatim>\<open>Port\<close>
  (Go 1.24). A parsed URL keeps its scheme, host and path; user information, query and
  fragment are only checked for the errors that make \<^verbatim>\<open>Parse\<close> fail.
\<close>

section \<open>Cutting strings\<close>

text \<open>\<^verbatim>\<open>strings.Cut(s, sep)\<close> for a one-byte separator: before, after, found.\<close>

fun Cut :: "char \<Rightarrow> string \<Rightarrow> string \<times> string \<times> bool" where
  "Cut sep [] = ([], [], False)"
| "Cut sep (c # cs) =
     (if c = sep then ([], cs, True) else (let (b, a, f) = Cut sep cs in (c # b, a, f)))"

text \<open>Splitting at the last occurrence of a byte: the parts around it, when it occurs.\<close>

fun cut_last :: "char \<Rightarrow> string \<Rightarrow> (string \<times> string) option" where
  "cut_last sep [] = None"
| "cut_last sep (c # cs) =
     (case cut_last sep cs of
        Some (b, a) \<Rightarrow> Some (c # b, a)
      | None \<Rightarrow> if c = sep then Some ([], cs) else None)"

lemma cut_last_None_iff: "cut_last sep s = None \<longleftrightarrow> sep \<notin> set s"
  by (induction s) (auto split: option.splits)

lemma cut_last_append:
  "sep \<notin> set a \<Longrightarrow> cut_last sep (b @ sep # a) = Some (b, a)"
proof (induction b)
  case Nil
  then show ?case by (simp add: cut_last_None_iff [THEN iffD2])
qed auto

lemma Cut_not_found: "sep \<notin> set s \<Longrightarrow> Cut sep s = (s, [], False)"
  by (induction s) auto

section \<open>Percent encoding\<close>

definition is_hex :: "char \<Rightarrow> bool" where
  "is_hex c \<longleftrightarrow> is_digit c \<or> (97 \<le> code c \<and> code c \<le> 102) \<or> (65 \<le> code c \<and> code c \<le> 70)"

definition unhex :: "char \<Rightarrow> nat" where
  "unhex c = (if is_digit c then code c - 48
              else if 97 \<le> code c \<and> code c \<le> 102 then code c - 87
              else if 65 \<le> code c \<and> code c \<le> 70 then code c - 55 else 0)"

datatype encoding = encodePath | encodeHost | encodeZone | encodeUserPassword | encodeFragment

text \<open>\<^verbatim>\<open>shouldEscape\<close> in the host and zone modes.\<close>

definition host_should_escape :: "char \<Rightarrow> bool" where
  "host_should_escape c \<longleftrightarrow>
     \<not> (is_alpha c \<or> is_digit c \<or> c \<in> set ''!$&()*+,;=:[]<>-_.~'' \<or> code c = 39 \<or> code c = 34)"

text \<open>\<^verbatim>\<open>unescape\<close>: \<open>None\<close> is an error. Both passes of the code in one.\<close>

fun unescape :: "encoding \<Rightarrow> string \<Rightarrow> string option" where
  "unescape mode [] = Some []"
| "unescape mode (c # cs) =
     (if c = CHR ''%''
      then (case cs of
              h # l # rest \<Rightarrow>
                if is_hex h \<and> is_hex l \<and>
                   \<not> (mode = encodeHost \<and> unhex h < 8 \<and> \<not> (h = CHR ''2'' \<and> l = CHR ''5'')) \<and>
                   \<not> (mode = encodeZone \<and> \<not> (h = CHR ''2'' \<and> l = CHR ''5'') \<and> unhex h * 16 + unhex l \<noteq> 32 \<and>
                      host_should_escape (char_of (unhex h * 16 + unhex l)))
                then map_option (\<lambda>r. char_of (unhex h * 16 + unhex l) # r) (unescape mode rest)
                else None
            | _ \<Rightarrow> None)
      else if (mode = encodeHost \<or> mode = encodeZone) \<and> code c < 128 \<and> host_should_escape c then None
      else map_option (\<lambda>r. c # r) (unescape mode cs))"

section \<open>Authority\<close>

definition validOptionalPort :: "string \<Rightarrow> bool" where
  "validOptionalPort port =
     (case port of [] \<Rightarrow> True | c # cs \<Rightarrow> c = CHR '':'' \<and> list_all is_digit cs)"

text \<open>The position of the first \<^verbatim>\<open>%25\<close>: the string split there.\<close>

fun cut_zone :: "string \<Rightarrow> (string \<times> string) option" where
  "cut_zone [] = None"
| "cut_zone (c # cs) =
     (if HasPrefix (c # cs) ''%25'' then Some ([], c # cs)
      else map_option (\<lambda>(b, a). (c # b, a)) (cut_zone cs))"

definition parseHost :: "string \<Rightarrow> string option" where
  "parseHost host =
     (if HasPrefix host ''[''
      then (case cut_last (CHR '']'') host of
              None \<Rightarrow> None
            | Some (inside, colonPort) \<Rightarrow>
                if \<not> validOptionalPort colonPort then None
                else (case cut_zone inside of
                        Some (before, zone) \<Rightarrow>
                          (case (unescape encodeHost before, unescape encodeZone zone,
                                 unescape encodeHost (CHR '']'' # colonPort)) of
                             (Some h1, Some h2, Some h3) \<Rightarrow> Some (h1 @ h2 @ h3)
                           | _ \<Rightarrow> None)
                      | None \<Rightarrow> unescape encodeHost host))
      else (case cut_last (CHR '':'') host of
              Some (_, port) \<Rightarrow> if \<not> validOptionalPort (CHR '':'' # port) then None else unescape encodeHost host
            | None \<Rightarrow> unescape encodeHost host))"

definition validUserinfo :: "string \<Rightarrow> bool" where
  "validUserinfo s = list_all (\<lambda>c. is_alpha c \<or> is_digit c \<or> c \<in> set ''-._:~!$&()*+,;=%@'' \<or> code c = 39) s"

definition userinfo_ok :: "string \<Rightarrow> bool" where
  "userinfo_ok userinfo \<longleftrightarrow> validUserinfo userinfo \<and>
     (let (username, password, _) = Cut (CHR '':'') userinfo
      in unescape encodeUserPassword username \<noteq> None \<and> unescape encodeUserPassword password \<noteq> None)"

definition parseAuthority :: "string \<Rightarrow> string option" where
  "parseAuthority authority =
     (case cut_last (CHR ''@'') authority of
        None \<Rightarrow> parseHost authority
      | Some (userinfo, hostport) \<Rightarrow>
          (case parseHost hostport of
             None \<Rightarrow> None
           | Some host \<Rightarrow> if userinfo_ok userinfo then Some host else None))"

section \<open>Parse\<close>

record URL =
  url_Scheme :: string
  url_Host :: string
  url_Path :: string

definition scheme_char :: "char \<Rightarrow> bool" where
  "scheme_char c \<longleftrightarrow> is_digit c \<or> c \<in> set ''+-.''"

text \<open>
  \<^verbatim>\<open>getScheme\<close>: \<open>acc\<close> is what the loop has passed, reversed. \<open>None\<close> is the error.
\<close>

fun get_scheme_from :: "string \<Rightarrow> string \<Rightarrow> string \<Rightarrow> (string \<times> string) option" where
  "get_scheme_from raw acc [] = Some ([], raw)"
| "get_scheme_from raw acc (c # cs) =
     (if is_alpha c then get_scheme_from raw (c # acc) cs
      else if scheme_char c then (if acc = [] then Some ([], raw) else get_scheme_from raw (c # acc) cs)
      else if c = CHR '':'' then (if acc = [] then None else Some (rev acc, cs))
      else Some ([], raw))"

definition getScheme :: "string \<Rightarrow> (string \<times> string) option" where
  "getScheme raw = get_scheme_from raw [] raw"

definition contains_ctl :: "string \<Rightarrow> bool" where
  "contains_ctl s = list_ex (\<lambda>c. code c < 32 \<or> code c = 127) s"

definition strip_query :: "string \<Rightarrow> string" where
  "strip_query rest = fst (Cut (CHR ''?'') rest)"

definition parse_rest :: "string \<Rightarrow> string \<Rightarrow> URL option" where
  "parse_rest scheme rest =
     (if \<not> HasPrefix rest ''/'' \<and> scheme \<noteq> '''' then Some \<lparr>url_Scheme = scheme, url_Host = '''', url_Path = ''''\<rparr>
      else if \<not> HasPrefix rest ''/'' \<and> CHR '':'' \<in> set (fst (Cut (CHR ''/'') rest)) then None
      else if (scheme \<noteq> '''' \<or> \<not> HasPrefix rest ''///'') \<and> HasPrefix rest ''//''
      then (let authority = takeWhile (\<lambda>c. c \<noteq> CHR ''/'') (drop 2 rest);
                path = dropWhile (\<lambda>c. c \<noteq> CHR ''/'') (drop 2 rest)
            in case parseAuthority authority of
                 None \<Rightarrow> None
               | Some host \<Rightarrow> map_option (URL.make scheme host) (unescape encodePath path))
      else map_option (URL.make scheme '''') (unescape encodePath rest))"

definition parse_url :: "string \<Rightarrow> URL option" where
  "parse_url raw =
     (if contains_ctl raw then None
      else if raw = ''*'' then Some \<lparr>url_Scheme = '''', url_Host = '''', url_Path = ''*''\<rparr>
      else case getScheme raw of
             None \<Rightarrow> None
           | Some (scheme, rest) \<Rightarrow> parse_rest (ToLower scheme) (strip_query rest))"

definition Parse :: "string \<Rightarrow> URL option" where
  "Parse raw =
     (let (u, frag, _) = Cut (CHR ''#'') raw in
      case parse_url u of
        None \<Rightarrow> None
      | Some url \<Rightarrow> if frag \<noteq> [] \<and> unescape encodeFragment frag = None then None else Some url)"

section \<open>Hostname and Port\<close>

definition splitHostPort :: "string \<Rightarrow> string \<times> string" where
  "splitHostPort hostPort =
     (let (host, port) =
        (case cut_last (CHR '':'') hostPort of
           Some (h, p) \<Rightarrow> if list_all is_digit p then (h, p) else (hostPort, '''')
         | None \<Rightarrow> (hostPort, ''''))
      in if HasPrefix host ''['' \<and> host \<noteq> '''' \<and> last host = CHR '']''
         then (butlast (tl host), port) else (host, port))"

definition Hostname :: "URL \<Rightarrow> string" where
  "Hostname u = fst (splitHostPort (url_Host u))"

definition Port :: "URL \<Rightarrow> string" where
  "Port u = snd (splitHostPort (url_Host u))"

section \<open>Plain addresses\<close>

text \<open>A DNS name or IPv4 address: letters, digits, dots, hyphens.\<close>

definition plain_host :: "string \<Rightarrow> bool" where
  "plain_host h \<longleftrightarrow> h \<noteq> [] \<and> list_all (\<lambda>c. is_alpha c \<or> is_digit c \<or> c = CHR ''.'' \<or> c = CHR ''-'') h"

definition plain_scheme :: "string \<Rightarrow> bool" where
  "plain_scheme s \<longleftrightarrow> s \<noteq> [] \<and> list_all is_lower s"

lemma unescape_host_plain:
  "list_all (\<lambda>c. is_alpha c \<or> is_digit c \<or> c = CHR ''.'' \<or> c = CHR ''-'' \<or> c = CHR '':'') s \<Longrightarrow>
   unescape encodeHost s = Some s"
proof (induction s)
  case (Cons c s)
  then have "c \<noteq> CHR ''%''"
    by (auto simp: is_alpha_def is_digit_def is_upper_def is_lower_def)
  with Cons show ?case by (auto simp: host_should_escape_def)
qed simp

lemma get_scheme_from_plain:
  "list_all is_lower s \<Longrightarrow> get_scheme_from raw acc (s @ CHR '':'' # rest) =
     (if acc = [] \<and> s = [] then None else Some (rev acc @ s, rest))"
  by (induction s arbitrary: acc) (auto simp: is_alpha_def is_lower_def is_upper_def scheme_char_def is_digit_def)

lemma ToLower_plain: "list_all is_lower s \<Longrightarrow> ToLower s = s"
  by (induction s) (auto simp: ToLower_def to_lower_char_def is_lower_def is_upper_def)

lemma plain_hostD:
  assumes "plain_host h"
  shows "CHR '':'' \<notin> set h" "CHR ''@'' \<notin> set h" "CHR ''/'' \<notin> set h" "CHR ''?'' \<notin> set h" "CHR ''#'' \<notin> set h"
    "\<not> HasPrefix h ''[''" "\<not> contains_ctl h" "h \<noteq> []"
  using assms
  by (auto simp: plain_host_def list_all_iff is_alpha_def is_digit_def is_upper_def is_lower_def
      HasPrefix_iff contains_ctl_def list_ex_iff)

text \<open>The rest of an address: nothing, or a path of plain characters.\<close>

definition plain_path :: "string \<Rightarrow> bool" where
  "plain_path p \<longleftrightarrow> (p = [] \<or> hd p = CHR ''/'') \<and>
     list_all (\<lambda>c. is_alpha c \<or> is_digit c \<or> c = CHR ''.'' \<or> c = CHR ''-'' \<or> c = CHR ''/'') p"

lemma plain_pathD:
  assumes "plain_path p"
  shows "CHR ''?'' \<notin> set p" "CHR ''#'' \<notin> set p" "\<not> contains_ctl p" "CHR ''%'' \<notin> set p"
  using assms
  by (auto simp: plain_path_def list_all_iff is_alpha_def is_digit_def is_upper_def is_lower_def
      contains_ctl_def list_ex_iff)

lemma unescape_no_percent:
  "CHR ''%'' \<notin> set s \<Longrightarrow> mode \<noteq> encodeHost \<Longrightarrow> mode \<noteq> encodeZone \<Longrightarrow> unescape mode s = Some s"
  by (induction s) auto

text \<open>An authority of the two shapes the operator's users write: host and optional port.\<close>

definition host_port :: "string \<Rightarrow> string option \<Rightarrow> string" where
  "host_port h port = (case port of None \<Rightarrow> h | Some ds \<Rightarrow> h @ CHR '':'' # ds)"

definition plain_port :: "string option \<Rightarrow> bool" where
  "plain_port port = (case port of None \<Rightarrow> True | Some ds \<Rightarrow> list_all is_digit ds)"

lemma digits_not_special:
  assumes "list_all is_digit ds"
  shows "CHR '':'' \<notin> set ds" "CHR ''@'' \<notin> set ds" "CHR ''/'' \<notin> set ds" "CHR ''?'' \<notin> set ds"
    "CHR ''#'' \<notin> set ds" "\<not> contains_ctl ds"
  using assms by (auto simp: list_all_iff is_digit_def contains_ctl_def list_ex_iff)

lemma HasPrefix_Cons_append: "h \<noteq> [] \<Longrightarrow> HasPrefix (h @ t) [c] \<longleftrightarrow> HasPrefix h [c]"
  by (cases h) auto

lemma parseAuthority_plain:
  assumes h: "plain_host h" and p: "plain_port port"
  shows "parseAuthority (host_port h port) = Some (host_port h port)"
proof -
  note hD = plain_hostD [OF h]
  have host: "list_all (\<lambda>c. is_alpha c \<or> is_digit c \<or> c = CHR ''.'' \<or> c = CHR ''-'' \<or> c = CHR '':'') (host_port h port)"
    using h p by (auto simp: plain_host_def plain_port_def host_port_def list_all_iff split: option.splits)
  have "CHR ''@'' \<notin> set (host_port h port)"
    using hD p by (auto simp: host_port_def plain_port_def dest: digits_not_special split: option.splits)
  then have "parseAuthority (host_port h port) = parseHost (host_port h port)"
    by (simp add: parseAuthority_def cut_last_None_iff [THEN iffD2])
  also have "\<dots> = Some (host_port h port)"
  proof (cases port)
    case None
    then show ?thesis
      using hD unescape_host_plain [OF host]
      by (simp add: parseHost_def host_port_def cut_last_None_iff [THEN iffD2])
  next
    case (Some ds)
    then have ds: "list_all is_digit ds" using p by (simp add: plain_port_def)
    then have "cut_last (CHR '':'') (host_port h port) = Some (h, ds)"
      using Some by (simp add: host_port_def cut_last_append digits_not_special)
    then show ?thesis
      using hD unescape_host_plain [OF host] ds Some
      by (simp add: parseHost_def validOptionalPort_def host_port_def HasPrefix_Cons_append)
  qed
  finally show ?thesis .
qed

lemma takeWhile_slash:
  assumes "CHR ''/'' \<notin> set a" and "p = [] \<or> hd p = CHR ''/''"
  shows "takeWhile (\<lambda>c. c \<noteq> CHR ''/'') (a @ p) = a" "dropWhile (\<lambda>c. c \<noteq> CHR ''/'') (a @ p) = p"
proof -
  have "\<forall>c \<in> set a. c \<noteq> CHR ''/''" using assms(1) by auto
  then show "takeWhile (\<lambda>c. c \<noteq> CHR ''/'') (a @ p) = a" "dropWhile (\<lambda>c. c \<noteq> CHR ''/'') (a @ p) = p"
    using assms(2) by (cases p; simp add: takeWhile_append2 dropWhile_append2)+
qed

lemma Parse_plain:
  assumes s: "plain_scheme s" and h: "plain_host h" and port: "plain_port port" and p: "plain_path p"
  shows "Parse (s @ ''://'' @ host_port h port @ p) = Some \<lparr>url_Scheme = s, url_Host = host_port h port, url_Path = p\<rparr>"
proof -
  let ?a = "host_port h port" and ?rest = "''//'' @ host_port h port @ p"
  note hD = plain_hostD [OF h] and pD = plain_pathD [OF p]
  have a: "CHR ''/'' \<notin> set ?a" "CHR ''?'' \<notin> set ?a" "CHR ''#'' \<notin> set ?a" "\<not> contains_ctl ?a"
    using hD port
    by (auto simp: host_port_def plain_port_def contains_ctl_def list_ex_iff dest: digits_not_special split: option.splits)
  have sch: "s \<noteq> []" "list_all is_lower s" using s by (auto simp: plain_scheme_def)
  then have sc: "CHR ''#'' \<notin> set s" "\<not> contains_ctl s" "hd s \<noteq> CHR ''*''"
    by (auto simp: list_all_iff is_lower_def contains_ctl_def list_ex_iff dest!: hd_in_set)
  have "Cut (CHR ''#'') (s @ '':'' @ ?rest) = (s @ '':'' @ ?rest, [], False)"
    using a sc pD by (intro Cut_not_found) auto
  moreover have "getScheme (s @ '':'' @ ?rest) = Some (s, ?rest)"
    using get_scheme_from_plain [OF sch(2), of "s @ '':'' @ ?rest" "[]" ?rest] sch(1) by (simp add: getScheme_def)
  moreover have "\<not> contains_ctl (s @ '':'' @ ?rest)"
    using a sc pD by (auto simp: contains_ctl_def)
  moreover have "s @ '':'' @ ?rest \<noteq> ''*''"
    using sc(3) sch(1) by (cases s) auto
  moreover have "strip_query ?rest = ?rest"
    using a pD by (simp add: strip_query_def Cut_not_found)
  moreover have "parse_rest s ?rest = Some \<lparr>url_Scheme = s, url_Host = ?a, url_Path = p\<rparr>"
    using takeWhile_slash [OF a(1), of p] p sch(1) parseAuthority_plain [OF h port] unescape_no_percent [OF pD(4), of encodePath]
    by (simp add: parse_rest_def plain_path_def URL.make_def)
  ultimately have "Parse (s @ '':'' @ ?rest) = Some \<lparr>url_Scheme = s, url_Host = ?a, url_Path = p\<rparr>"
    using ToLower_plain [OF sch(2)] by (simp add: Parse_def parse_url_def)
  then show ?thesis by simp
qed

lemma splitHostPort_plain:
  assumes "plain_host h" and "plain_port port"
  shows "splitHostPort (host_port h port) = (h, case port of None \<Rightarrow> [] | Some ds \<Rightarrow> ds)"
  using plain_hostD [OF assms(1)] assms(2)
  by (cases port) (auto simp: splitHostPort_def host_port_def plain_port_def cut_last_append cut_last_None_iff [THEN iffD2]
      digits_not_special)

end
