(* ===== verification/Convert.thy ===== *)
theory Convert
  imports Compiler Go_Url
begin

text \<open>
  \<^verbatim>\<open>src/internal/compiler/radarr.go\<close>: from the custom resources of Radarr, Sonarr,
  Lidarr and Readarr to the compiler's input. \<open>resolvedSecrets\<close> is the Go map from
  \<^verbatim>\<open>secretName/key\<close> to value; where the code ranges over it, the argument \<open>ord\<close> is the
  runtime's order.
\<close>

section \<open>Defaults\<close>

definition ptrBoolOrDefault :: "bool option \<Rightarrow> bool \<Rightarrow> bool" where
  "ptrBoolOrDefault ptr def = (case ptr of Some b \<Rightarrow> b | None \<Rightarrow> def)"

definition ptrIntOrDefault :: "int option \<Rightarrow> int \<Rightarrow> int" where
  "ptrIntOrDefault ptr def = (case ptr of Some i \<Rightarrow> i | None \<Rightarrow> def)"

definition defaultString :: "string \<Rightarrow> string \<Rightarrow> string" where
  "defaultString s def = (if s = '''' then def else s)"

text \<open>\<^verbatim>\<open>if v, ok := resolvedSecrets[k]; ok { x = v }\<close> on an \<open>x\<close> that is empty.\<close>

definition secret_or_empty :: "(string \<times> string) list \<Rightarrow> string \<Rightarrow> string" where
  "secret_or_empty resolvedSecrets k = (case map_of resolvedSecrets k of Some v \<Rightarrow> v | None \<Rightarrow> '''')"

section \<open>Download clients\<close>

definition parseClientURL :: "string \<Rightarrow> string \<times> int \<times> bool" where
  "parseClientURL rawURL =
     (case Parse rawURL of
        None \<Rightarrow> (rawURL, 0, False)
      | Some parsed \<Rightarrow>
          (let host = Hostname parsed;
               useTLS = (url_Scheme parsed = ''https'');
               portStr = Port parsed;
               port = (if portStr \<noteq> '''' then fst (Atoi portStr)
                       else if useTLS then 443 else 80)
           in (host, port, useTLS)))"

definition inferImplementationFromName :: "string \<Rightarrow> string" where
  "inferImplementationFromName name =
     (let nameLower = ToLower name in
      if Contains nameLower ''qbit'' \<or> Contains nameLower ''qbittorrent'' then ''qbittorrent''
      else if Contains nameLower ''transmission'' then ''transmission''
      else if Contains nameLower ''deluge'' then ''deluge''
      else if Contains nameLower ''rtorrent'' \<or> Contains nameLower ''rutorrent'' then ''rtorrent''
      else if Contains nameLower ''sabnzbd'' \<or> Contains nameLower ''sab'' then ''sabnzbd''
      else if Contains nameLower ''nzbget'' then ''nzbget''
      else ''qbittorrent'')"

definition normalizeImplementationName :: "string \<Rightarrow> string" where
  "normalizeImplementationName impl =
     (let i = ToLower impl in
      if i = ''qbittorrent'' then ''QBittorrent''
      else if i = ''transmission'' then ''Transmission''
      else if i = ''deluge'' then ''Deluge''
      else if i = ''rtorrent'' then ''RTorrent''
      else if i = ''sabnzbd'' then ''Sabnzbd''
      else if i = ''nzbget'' then ''NzbGet''
      else impl)"

definition convert_download_client :: "(string \<times> string) list \<Rightarrow> DownloadClientSpec \<Rightarrow> DownloadClientInput" where
  "convert_download_client resolvedSecrets dc =
     (let (host, port, useTLS) = parseClientURL (dcs_URL dc);
          impl = (if dcs_Type dc = '''' then inferImplementationFromName (dcs_Name dc) else dcs_Type dc);
          (username, password) =
            (case dcs_CredentialsSecretRef dc of
               None \<Rightarrow> ('''', '''')
             | Some ref \<Rightarrow>
                 (let usernameKey = defaultString (cr_UsernameKey ref) ''username'';
                      passwordKey = defaultString (cr_PasswordKey ref) ''password'';
                      secretPrefix = cr_Name ref @ ''/''
                  in (secret_or_empty resolvedSecrets (secretPrefix @ usernameKey),
                      secret_or_empty resolvedSecrets (secretPrefix @ passwordKey))))
      in \<lparr>dci_Name = dcs_Name dc, dci_Implementation = normalizeImplementationName impl,
          dci_Host = host, dci_Port = port, dci_UseTLS = useTLS,
          dci_Username = username, dci_Password = password,
          dci_Category = dcs_Category dc, dci_Priority = dcs_Priority dc,
          dci_RemoveCompletedDownloads = ptrBoolOrDefault (dcs_RemoveCompletedDownloads dc) True,
          dci_RemoveFailedDownloads = ptrBoolOrDefault (dcs_RemoveFailedDownloads dc) True\<rparr>)"

definition convertDownloadClients ::
    "DownloadClientSpec list \<Rightarrow> (string \<times> string) list \<Rightarrow> DownloadClientInput list" where
  "convertDownloadClients clients resolvedSecrets = map (convert_download_client resolvedSecrets) clients"

definition convertRemotePathMappings :: "RemotePathMappingSpec list \<Rightarrow> RemotePathMappingInput list" where
  "convertRemotePathMappings mappings =
     map (\<lambda>m. \<lparr>rpi_Host = rps_Host m, rpi_RemotePath = rps_RemotePath m, rpi_LocalPath = rps_LocalPath m\<rparr>) mappings"

section \<open>Indexers\<close>

definition inferIndexerImplementation :: "string \<Rightarrow> string \<Rightarrow> string" where
  "inferIndexerImplementation url indexerType = (if indexerType = ''usenet'' then ''Newznab'' else ''Torznab'')"

definition category_names :: "(string \<times> int) list" where
  "category_names =
    [(''movies'', 2000), (''movies-sd'', 2030), (''movies-hd'', 2040), (''movies-uhd'', 2045),
     (''movies-4k'', 2045), (''movies-bluray'', 2050), (''movies-3d'', 2060),
     (''tv'', 5000), (''tv-sd'', 5030), (''tv-hd'', 5040), (''tv-uhd'', 5045), (''tv-4k'', 5045),
     (''audio'', 3000), (''music'', 3000), (''audio-mp3'', 3010), (''audio-flac'', 3040),
     (''audio-lossless'', 3040), (''xxx'', 6000), (''other'', 7000)]"

definition mapCategoryName :: "string \<Rightarrow> int" where
  "mapCategoryName name = (case map_of category_names (ToLower name) of Some i \<Rightarrow> i | None \<Rightarrow> 0)"

fun convertCategories :: "string list \<Rightarrow> int list" where
  "convertCategories [] = []"
| "convertCategories (cat # rest) =
     (case Atoi cat of
        (i, True) \<Rightarrow> i # convertCategories rest
      | (_, False) \<Rightarrow>
          (let i = mapCategoryName cat
           in if i > 0 then i # convertCategories rest else convertCategories rest))"

definition convert_indexer :: "(string \<times> string) list \<Rightarrow> DirectIndexer \<Rightarrow> IndexerInput" where
  "convert_indexer resolvedSecrets idx =
     \<lparr>ixi_Name = di_Name idx,
      ixi_Protocol = (if di_Type idx = ''usenet'' then ProtocolUsenet else ProtocolTorrent),
      ixi_Implementation = inferIndexerImplementation (di_URL idx) (di_Type idx),
      ixi_URL = di_URL idx,
      ixi_APIKey = (case di_APIKeySecretRef idx of
         None \<Rightarrow> ''''
       | Some ref \<Rightarrow> secret_or_empty resolvedSecrets (sk_Name ref @ ''/'' @ defaultString (sk_Key ref) ''apiKey'')),
      ixi_Categories = convertCategories (di_Categories idx),
      ixi_Priority = di_Priority idx, ixi_MinimumSeeders = 0, ixi_SeedRatio = 0, ixi_SeedTimeMinutes = 0,
      ixi_EnableRss = True, ixi_EnableAutomaticSearch = True, ixi_EnableInteractiveSearch = True\<rparr>"

definition convertIndexers :: "IndexersSpec option \<Rightarrow> (string \<times> string) list \<Rightarrow> IndexersInput option" where
  "convertIndexers spec resolvedSecrets =
     (case spec of
        None \<Rightarrow> None
      | Some spec \<Rightarrow>
          (case ixs_ProwlarrRef spec of
             Some r \<Rightarrow> Some \<lparr>ixsi_ProwlarrRef = Some \<lparr>pri_ConfigName = prf_Name r,
                                pri_AutoRegister = ptrBoolOrDefault (prf_AutoRegister r) True,
                                pri_Include = prf_Include r, pri_Exclude = prf_Exclude r\<rparr>,
                              ixsi_Direct = []\<rparr>
           | None \<Rightarrow> Some \<lparr>ixsi_ProwlarrRef = None,
                            ixsi_Direct = map (convert_indexer resolvedSecrets) (ixs_Direct spec)\<rparr>))"

section \<open>Settings from specs and secrets\<close>

text \<open>
  \<^verbatim>\<open>Settings\<close> of an import list and \<^verbatim>\<open>Fields\<close> of a notification are built alike: copy the
  spec's map, then, when a secret is referenced, every resolved secret with its prefix.
  \<open>wrap\<close> is what stores a string (itself, or wrapped in an \<^verbatim>\<open>interface{}\<close>).
\<close>

definition copy_settings :: "(string \<Rightarrow> 'v) \<Rightarrow> (string \<times> string) list \<Rightarrow> (string \<times> 'v) list \<Rightarrow> (string \<times> 'v) list" where
  "copy_settings wrap entries m = fold (\<lambda>(k, v) m. gm_set k (wrap v) m) entries m"

definition copy_secrets ::
    "(string \<Rightarrow> 'v) \<Rightarrow> string \<Rightarrow> (string \<times> string) list \<Rightarrow> (string \<times> 'v) list \<Rightarrow> (string \<times> 'v) list" where
  "copy_secrets wrap secretPrefix entries m =
     fold (\<lambda>(key, value) m. if HasPrefix key secretPrefix
                             then gm_set (TrimPrefix key secretPrefix) (wrap value) m else m) entries m"

definition settings_of ::
    "range_order \<Rightarrow> (string \<Rightarrow> 'v) \<Rightarrow> (string \<times> string) list \<Rightarrow> SecretKeySelector option \<Rightarrow> (string \<times> string) list
     \<Rightarrow> (string \<times> 'v) list" where
  "settings_of ord wrap spec_settings ref resolvedSecrets =
     (let m = copy_settings wrap (gm_range ord 0 spec_settings) []
      in case ref of
           None \<Rightarrow> m
         | Some r \<Rightarrow> copy_secrets wrap (sk_Name r @ ''/'') (gm_range ord 1 resolvedSecrets) m)"

section \<open>Import lists\<close>

definition convert_import_list ::
    "range_order \<Rightarrow> (string \<times> string) list \<Rightarrow> ImportListSpec \<Rightarrow> ImportListInput" where
  "convert_import_list ord resolvedSecrets l =
     \<lparr>ili_Name = isp_Name l, ili_Type = isp_Type l,
      ili_Enabled = ptrBoolOrDefault (isp_Enabled l) True,
      ili_EnableAuto = ptrBoolOrDefault (isp_EnableAuto l) True,
      ili_SearchOnAdd = ptrBoolOrDefault (isp_SearchOnAdd l) True,
      ili_QualityProfileName = isp_QualityProfile l, ili_RootFolderPath = isp_RootFolder l,
      ili_Monitor = defaultString (isp_Monitor l) ''movieOnly'',
      ili_MinimumAvailability = defaultString (isp_MinimumAvailability l) ''announced'',
      ili_SeriesType = defaultString (isp_SeriesType l) ''standard'',
      ili_SeasonFolder = ptrBoolOrDefault (isp_SeasonFolder l) True,
      ili_ShouldMonitor = defaultString (isp_ShouldMonitor l) ''all'',
      ili_Settings = settings_of ord id (isp_Settings l) (isp_SettingsSecretRef l) resolvedSecrets\<rparr>"

text \<open>Each list ranges over its maps anew: list number \<open>i\<close> uses the orders from \<open>2 * i\<close> on.\<close>

definition shift_order :: "nat \<Rightarrow> range_order \<Rightarrow> range_order" where
  "shift_order k ord = (\<lambda>t. ord (k + t))"

definition convertImportLists ::
    "range_order \<Rightarrow> ImportListSpec list \<Rightarrow> (string \<times> string) list \<Rightarrow> ImportListInput list" where
  "convertImportLists ord specs resolvedSecrets =
     map (\<lambda>(i, l). convert_import_list (shift_order (2 * i) ord) resolvedSecrets l) (List.enumerate 0 specs)"

section \<open>Media management and authentication\<close>

definition convertMediaManagement :: "MediaManagementSpec option \<Rightarrow> MediaManagementInput option" where
  "convertMediaManagement spec =
     map_option (\<lambda>s. \<lparr>mmi_RecycleBin = mms_RecycleBin s,
       mmi_RecycleBinCleanupDays = ptrIntOrDefault (mms_RecycleBinCleanupDays s) 7,
       mmi_SetPermissions = ptrBoolOrDefault (mms_SetPermissions s) False,
       mmi_ChmodFolder = defaultString (mms_ChmodFolder s) ''755'',
       mmi_ChownGroup = mms_ChownGroup s,
       mmi_DeleteEmptyFolders = ptrBoolOrDefault (mms_DeleteEmptyFolders s) False,
       mmi_CreateEmptyFolders = ptrBoolOrDefault (mms_CreateEmptyFolders s) False,
       mmi_UseHardlinks = ptrBoolOrDefault (mms_UseHardlinks s) True,
       mmi_WatchLibraryForChanges = mms_WatchLibraryForChanges s,
       mmi_AllowFingerprinting = mms_AllowFingerprinting s\<rparr>) spec"

definition convertAuthentication ::
    "AuthenticationSpec option \<Rightarrow> (string \<times> string) list \<Rightarrow> AuthenticationInput option" where
  "convertAuthentication spec resolvedSecrets =
     map_option (\<lambda>s. \<lparr>aui_Method = defaultString (aus_Method s) ''none'', aui_Username = aus_Username s,
       aui_Password = (case aus_PasswordSecretRef s of
          None \<Rightarrow> ''''
        | Some ref \<Rightarrow> secret_or_empty resolvedSecrets (sk_Name ref @ ''/'' @ defaultString (sk_Key ref) ''password'')),
       aui_AuthenticationRequired = defaultString (aus_AuthenticationRequired s) ''enabled''\<rparr>) spec"

section \<open>Notifications\<close>

definition convert_notification ::
    "range_order \<Rightarrow> (string \<times> string) list \<Rightarrow> NotificationSpec \<Rightarrow> NotificationInput" where
  "convert_notification ord resolvedSecrets n =
     (let flag = (\<lambda>b. ptrBoolOrDefault b False) in
     \<lparr>nti_Name = nts_Name n, nti_Implementation = nts_Type n,
      nti_OnGrab = flag (nts_OnGrab n), nti_OnDownload = flag (nts_OnDownload n),
      nti_OnUpgrade = flag (nts_OnUpgrade n), nti_OnRename = flag (nts_OnRename n),
      nti_OnHealthIssue = flag (nts_OnHealthIssue n), nti_OnHealthRestored = flag (nts_OnHealthRestored n),
      nti_OnApplicationUpdate = flag (nts_OnApplicationUpdate n),
      nti_OnManualInteractionRequired = flag (nts_OnManualInteractionRequired n),
      nti_IncludeHealthWarnings = flag (nts_IncludeHealthWarnings n),
      nti_OnMovieAdded = flag (nts_OnMovieAdded n), nti_OnMovieDelete = flag (nts_OnMovieDelete n),
      nti_OnMovieFileDelete = flag (nts_OnMovieFileDelete n),
      nti_OnMovieFileDeleteForUpgrade = flag (nts_OnMovieFileDeleteForUpgrade n),
      nti_OnSeriesAdd = flag (nts_OnSeriesAdd n), nti_OnSeriesDelete = flag (nts_OnSeriesDelete n),
      nti_OnEpisodeFileDelete = flag (nts_OnEpisodeFileDelete n),
      nti_OnEpisodeFileDeleteForUpgrade = flag (nts_OnEpisodeFileDeleteForUpgrade n),
      nti_OnReleaseImport = flag (nts_OnReleaseImport n), nti_OnArtistAdd = flag (nts_OnArtistAdd n),
      nti_OnArtistDelete = flag (nts_OnArtistDelete n), nti_OnAlbumDelete = flag (nts_OnAlbumDelete n),
      nti_OnTrackRetag = flag (nts_OnTrackRetag n), nti_OnDownloadFailure = flag (nts_OnDownloadFailure n),
      nti_OnImportFailure = flag (nts_OnImportFailure n),
      nti_Fields = settings_of ord VString (nts_Settings n) (nts_SettingsSecretRef n) resolvedSecrets,
      nti_Tags = nts_Tags n\<rparr>)"

definition convertNotifications ::
    "range_order \<Rightarrow> NotificationSpec list \<Rightarrow> (string \<times> string) list \<Rightarrow> NotificationInput list" where
  "convertNotifications ord notifications resolvedSecrets =
     map (\<lambda>(i, n). convert_notification (shift_order (2 * i) ord) resolvedSecrets n) (List.enumerate 0 notifications)"

section \<open>Custom formats and delay profiles\<close>

definition convertCustomFormats :: "CustomFormatSpecCRD list \<Rightarrow> CustomFormatInput list" where
  "convertCustomFormats customFormats =
     map (\<lambda>cf. \<lparr>cfi_Name = cfsp_Name cf, cfi_IncludeWhenRenaming = ptrBoolOrDefault (cfsp_IncludeWhenRenaming cf) False,
                cfi_Score = cfsp_Score cf,
                cfi_Specifications = map (\<lambda>spec. \<lparr>cfsi_Name = cfss_Name spec, cfsi_Type = cfss_Type spec,
                  cfsi_Negate = ptrBoolOrDefault (cfss_Negate spec) False,
                  cfsi_Required = ptrBoolOrDefault (cfss_Required spec) False,
                  cfsi_Value = cfss_Value spec\<rparr>) (cfsp_Specifications cf)\<rparr>) customFormats"

definition convert_delay_profile :: "nat \<Rightarrow> DelayProfileSpec \<Rightarrow> DelayProfileInput" where
  "convert_delay_profile i p =
     \<lparr>dpi_Name = dps_Name p, dpi_PreferredProtocol = dps_PreferredProtocol p,
      dpi_UsenetDelay = dps_UsenetDelay p, dpi_TorrentDelay = dps_TorrentDelay p,
      dpi_EnableUsenet = ptrBoolOrDefault (dps_EnableUsenet p) True,
      dpi_EnableTorrent = ptrBoolOrDefault (dps_EnableTorrent p) True,
      dpi_BypassIfHighestQuality = ptrBoolOrDefault (dps_BypassIfHighestQuality p) False,
      dpi_BypassIfAboveCustomFormatScore = ptrBoolOrDefault (dps_BypassIfAboveCustomFormatScore p) False,
      dpi_MinimumCustomFormatScore = dps_MinimumCustomFormatScore p, dpi_Tags = dps_Tags p,
      dpi_Order = (case dps_Order p of Some o' \<Rightarrow> o' | None \<Rightarrow> int i + 1)\<rparr>"

definition convertDelayProfiles :: "DelayProfileSpec list \<Rightarrow> DelayProfileInput list" where
  "convertDelayProfiles profiles =
     map (\<lambda>(i, p). convert_delay_profile i p) (List.enumerate 0 profiles)"

section \<open>The four configurations\<close>

definition quality_overrides :: "string list \<Rightarrow> string list \<Rightarrow> string list \<Rightarrow> QualityOverrides option" where
  "quality_overrides exclude prefer reject =
     (if exclude \<noteq> [] \<or> prefer \<noteq> [] \<or> reject \<noteq> []
      then Some \<lparr>qo_Exclude = exclude, qo_PreferAdditional = prefer, qo_RejectAdditional = reject\<rparr>
      else None)"

definition empty_input :: "string \<Rightarrow> ObjectMeta \<Rightarrow> ConnectionSpec \<Rightarrow> (string \<times> string) list \<Rightarrow> Capabilities option \<Rightarrow> CompileInput" where
  "empty_input app meta connection resolvedSecrets caps =
     \<lparr>ci_App = app, ci_ConfigName = om_Name meta, ci_Namespace = om_Namespace meta,
      ci_URL = cns_URL connection, ci_APIKey = secret_or_empty resolvedSecrets ''apiKey'',
      ci_QualityPreset = '''', ci_QualityOverrides = None, ci_NamingPreset = '''',
      ci_DownloadClients = [], ci_RemotePathMappings = [], ci_Indexers = None, ci_RootFolders = [],
      ci_ImportLists = [], ci_MediaManagement = None, ci_Authentication = None, ci_Notifications = [],
      ci_CustomFormats = [], ci_DelayProfiles = [], ci_MetadataProfile = None, ci_BookQuality = None,
      ci_Capabilities = caps, ci_ResolvedSecrets = resolvedSecrets\<rparr>"

definition video_quality :: "VideoQualitySpec option \<Rightarrow> CompileInput \<Rightarrow> CompileInput" where
  "video_quality quality input =
     (case quality of
        None \<Rightarrow> input
      | Some q \<Rightarrow> input\<lparr>ci_QualityPreset := vqs_Preset q,
                        ci_QualityOverrides := quality_overrides (vqs_Exclude q) (vqs_PreferAdditional q) (vqs_RejectAdditional q)\<rparr>)"

definition CompileRadarrConfig ::
    "range_order \<Rightarrow> (HashInput \<Rightarrow> string) \<Rightarrow> int \<Rightarrow> RadarrConfig \<Rightarrow> (string \<times> string) list \<Rightarrow> Capabilities option \<Rightarrow> IR outcome" where
  "CompileRadarrConfig ord digest now config resolvedSecrets caps =
     (let spec = radc_Spec config;
          input = video_quality (rad_Quality spec)
            (empty_input AppRadarr (radc_ObjectMeta config) (rad_Connection spec) resolvedSecrets caps)
      in Compile digest now (input\<lparr>
           ci_NamingPreset := (case rad_Naming spec of None \<Rightarrow> '''' | Some n \<Rightarrow> nms_Preset n),
           ci_DownloadClients := convertDownloadClients (rad_DownloadClients spec) resolvedSecrets,
           ci_RemotePathMappings := convertRemotePathMappings (rad_RemotePathMappings spec),
           ci_Indexers := convertIndexers (rad_Indexers spec) resolvedSecrets,
           ci_RootFolders := rad_RootFolders spec,
           ci_ImportLists := convertImportLists ord (rad_ImportLists spec) resolvedSecrets,
           ci_MediaManagement := convertMediaManagement (rad_MediaManagement spec),
           ci_Authentication := convertAuthentication (rad_Authentication spec) resolvedSecrets,
           ci_Notifications := convertNotifications (shift_order (2 * length (rad_ImportLists spec)) ord) (rad_Notifications spec) resolvedSecrets,
           ci_CustomFormats := convertCustomFormats (rad_CustomFormats spec),
           ci_DelayProfiles := convertDelayProfiles (rad_DelayProfiles spec)\<rparr>))"

definition CompileSonarrConfig ::
    "range_order \<Rightarrow> (HashInput \<Rightarrow> string) \<Rightarrow> int \<Rightarrow> SonarrConfig \<Rightarrow> (string \<times> string) list \<Rightarrow> Capabilities option \<Rightarrow> IR outcome" where
  "CompileSonarrConfig ord digest now config resolvedSecrets caps =
     (let spec = sonc_Spec config;
          input = video_quality (son_Quality spec)
            (empty_input AppSonarr (sonc_ObjectMeta config) (son_Connection spec) resolvedSecrets caps)
      in Compile digest now (input\<lparr>
           ci_NamingPreset := (case son_Naming spec of None \<Rightarrow> '''' | Some n \<Rightarrow> nms_Preset (snsp_NamingSpec n)),
           ci_DownloadClients := convertDownloadClients (son_DownloadClients spec) resolvedSecrets,
           ci_RemotePathMappings := convertRemotePathMappings (son_RemotePathMappings spec),
           ci_Indexers := convertIndexers (son_Indexers spec) resolvedSecrets,
           ci_RootFolders := son_RootFolders spec,
           ci_ImportLists := convertImportLists ord (son_ImportLists spec) resolvedSecrets,
           ci_MediaManagement := convertMediaManagement (son_MediaManagement spec),
           ci_Authentication := convertAuthentication (son_Authentication spec) resolvedSecrets,
           ci_Notifications := convertNotifications (shift_order (2 * length (son_ImportLists spec)) ord) (son_Notifications spec) resolvedSecrets,
           ci_CustomFormats := convertCustomFormats (son_CustomFormats spec),
           ci_DelayProfiles := convertDelayProfiles (son_DelayProfiles spec)\<rparr>))"

definition audio_quality :: "AudioQualitySpec option \<Rightarrow> CompileInput \<Rightarrow> CompileInput" where
  "audio_quality quality input =
     (case quality of
        None \<Rightarrow> input
      | Some q \<Rightarrow> input\<lparr>ci_QualityPreset := aqs_Preset q,
                        ci_QualityOverrides := quality_overrides (aqs_Exclude q) (aqs_PreferAdditional q) []\<rparr>)"

definition CompileLidarrConfig ::
    "range_order \<Rightarrow> (HashInput \<Rightarrow> string) \<Rightarrow> int \<Rightarrow> LidarrConfig \<Rightarrow> (string \<times> string) list \<Rightarrow> Capabilities option \<Rightarrow> IR outcome" where
  "CompileLidarrConfig ord digest now config resolvedSecrets caps =
     (let spec = lidc_Spec config;
          input = audio_quality (lid_Quality spec)
            (empty_input AppLidarr (lidc_ObjectMeta config) (lid_Connection spec) resolvedSecrets caps)
      in Compile digest now (input\<lparr>
           ci_NamingPreset := (case lid_Naming spec of None \<Rightarrow> '''' | Some n \<Rightarrow> nms_Preset (lnsp_NamingSpec n)),
           ci_DownloadClients := convertDownloadClients (lid_DownloadClients spec) resolvedSecrets,
           ci_RemotePathMappings := convertRemotePathMappings (lid_RemotePathMappings spec),
           ci_Indexers := convertIndexers (lid_Indexers spec) resolvedSecrets,
           ci_RootFolders := map lrf_Path (lid_RootFolders spec),
           ci_ImportLists := convertImportLists ord (lid_ImportLists spec) resolvedSecrets,
           ci_MediaManagement := convertMediaManagement (lid_MediaManagement spec),
           ci_Authentication := convertAuthentication (lid_Authentication spec) resolvedSecrets,
           ci_Notifications := convertNotifications (shift_order (2 * length (lid_ImportLists spec)) ord) (lid_Notifications spec) resolvedSecrets\<rparr>))"

definition book_quality :: "ReadarrQualitySpec option \<Rightarrow> CompileInput \<Rightarrow> CompileInput" where
  "book_quality quality input =
     (case quality of
        None \<Rightarrow> input
      | Some q \<Rightarrow>
          (let input1 = input\<lparr>ci_QualityPreset := rqs_Preset q\<rparr> in
           if rqs_AllowedFormats q \<noteq> None \<or> rqs_Cutoff q \<noteq> ''''
           then input1\<lparr>ci_BookQuality := Some \<lparr>bqi_ProfileName = '''',
                  bqi_UpgradeAllowed = ptrBoolOrDefault (rqs_UpgradeAllowed q) True,
                  bqi_CutoffFormat = rqs_Cutoff q,
                  bqi_AllowedFormats = map rfs_Format (filter rfs_Allowed
                     (case rqs_AllowedFormats q of None \<Rightarrow> [] | Some fs \<Rightarrow> fs))\<rparr>\<rparr>
           else input1))"

definition metadata_profile :: "ReadarrMetadataProfileSpec option \<Rightarrow> MetadataProfileInput option" where
  "metadata_profile spec =
     map_option (\<lambda>m. \<lparr>mpi_Name = rmp_Name m, mpi_MinPopularity = rmp_MinPopularity m,
       mpi_SkipMissingDate = ptrBoolOrDefault (rmp_SkipMissingDate m) True,
       mpi_SkipMissingIsbn = ptrBoolOrDefault (rmp_SkipMissingIsbn m) False,
       mpi_SkipPartsAndSets = ptrBoolOrDefault (rmp_SkipPartsAndSets m) False,
       mpi_SkipSeriesSecondary = ptrBoolOrDefault (rmp_SkipSeriesSecondary m) False,
       mpi_AllowedLanguages = rmp_AllowedLanguages m\<rparr>) spec"

definition CompileReadarrConfig ::
    "range_order \<Rightarrow> (HashInput \<Rightarrow> string) \<Rightarrow> int \<Rightarrow> ReadarrConfig \<Rightarrow> (string \<times> string) list \<Rightarrow> Capabilities option \<Rightarrow> IR outcome" where
  "CompileReadarrConfig ord digest now config resolvedSecrets caps =
     (let spec = reac_Spec config;
          input = book_quality (rea_Quality spec)
            (empty_input AppReadarr (reac_ObjectMeta config) (rea_Connection spec) resolvedSecrets caps)
      in Compile digest now (input\<lparr>
           ci_MetadataProfile := metadata_profile (rea_MetadataProfile spec),
           ci_NamingPreset := (case rea_Naming spec of None \<Rightarrow> '''' | Some n \<Rightarrow> nms_Preset (rnsp_NamingSpec n)),
           ci_DownloadClients := convertDownloadClients (rea_DownloadClients spec) resolvedSecrets,
           ci_RemotePathMappings := convertRemotePathMappings (rea_RemotePathMappings spec),
           ci_Indexers := convertIndexers (rea_Indexers spec) resolvedSecrets,
           ci_RootFolders := rea_RootFolders spec,
           ci_ImportLists := convertImportLists ord (rea_ImportLists spec) resolvedSecrets,
           ci_MediaManagement := convertMediaManagement (rea_MediaManagement spec),
           ci_Authentication := convertAuthentication (rea_Authentication spec) resolvedSecrets,
           ci_Notifications := convertNotifications (shift_order (2 * length (rea_ImportLists spec)) ord) (rea_Notifications spec) resolvedSecrets\<rparr>))"

section \<open>Properties\<close>

text \<open>
  C27. Download client addresses round trip: for a lower-case scheme, a DNS name or IPv4
  address, an optional port in the range of a Go \<^verbatim>\<open>int\<close> and a plain path, parsing the URL
  recovers the host and the port (443 or 80 by scheme when none is given), and TLS is on
  exactly for https.
\<close>

theorem parseClientURL_round_trip:
  assumes "plain_scheme s" and "plain_host h" and "plain_path p"
    and "\<forall>n. port = Some n \<longrightarrow> int n \<le> max_int"
  shows "parseClientURL (s @ ''://'' @ host_port h (map_option itoa_nat port) @ p) =
    (h, (case port of Some n \<Rightarrow> int n | None \<Rightarrow> if s = ''https'' then 443 else 80), s = ''https'')"
proof -
  have port: "plain_port (map_option itoa_nat port)"
    using itoa_nat_digits by (auto simp: plain_port_def split: option.split)
  have "Atoi (itoa_nat n) = (int n, True)" if "port = Some n" for n
    using assms(4) that itoa_nat_digits [of n] by (simp add: Atoi_digits)
  then show ?thesis
    using Parse_plain [OF assms(1,2) port assms(3)] splitHostPort_plain [OF assms(2) port] itoa_nat_digits
    by (cases port) (simp_all add: parseClientURL_def Hostname_def Port_def Let_def)
qed

theorem parseClientURL_round_trip_witness:
  "parseClientURL ''https://qbit.media:8080/api'' = (''qbit.media'', 8080, True)"
proof -
  have "itoa_nat 8080 = ''8080''"
    by (simp add: itoa_nat.simps digit_char_def char_of_eq_iff)
  then show ?thesis
    using parseClientURL_round_trip [of "''https''" "''qbit.media''" "''/api''" "Some 8080"]
    by (simp add: plain_scheme_def plain_host_def plain_path_def is_lower_def is_alpha_def is_digit_def is_upper_def
        max_int_def host_port_def)
qed

lemma shift_order_valid [simp]: "valid_order ord \<Longrightarrow> valid_order (shift_order k ord)"
  by (simp add: valid_order_def shift_order_def)

lemma map_of_copy_settings:
  "distinct (map fst es) \<Longrightarrow>
   map_of (copy_settings wrap es m) k = (case map_of es k of Some v \<Rightarrow> Some (wrap v) | None \<Rightarrow> map_of m k)"
proof (induction es arbitrary: m)
  case (Cons e es)
  then show ?case by (cases e) (auto simp: copy_settings_def map_of_eq_None_iff [THEN iffD2] split: option.split)
qed (simp add: copy_settings_def)

lemma map_of_copy_secrets:
  "distinct (map fst es) \<Longrightarrow>
   map_of (copy_secrets wrap p es m) k = (case map_of es (p @ k) of Some v \<Rightarrow> Some (wrap v) | None \<Rightarrow> map_of m k)"
proof (induction es arbitrary: m)
  case (Cons e es)
  obtain key v where e: "e = (key, v)" by fastforce
  have none: "map_of es key = None" using Cons.prems e by (simp add: map_of_eq_None_iff)
  show ?case
  proof (cases "HasPrefix key p")
    case True
    then obtain k' where key: "key = p @ k'" by (auto simp: HasPrefix_iff)
    have "copy_secrets wrap p (e # es) m = copy_secrets wrap p es (gm_set k' (wrap v) m)"
      using e key by (simp add: copy_secrets_def)
    then show ?thesis using Cons e key none by (auto split: option.split)
  next
    case False
    then have "key \<noteq> p @ k" by auto
    moreover have "copy_secrets wrap p (e # es) m = copy_secrets wrap p es m"
      using e False by (simp add: copy_secrets_def)
    ultimately show ?thesis using Cons e by simp
  qed
qed (simp add: copy_secrets_def)

text \<open>
  Settings of import lists and notifications: whatever order the runtime ranges over
  the spec's settings and the resolved secrets, a setting's value is the one of the
  referenced secret if it holds that key, else the one of the spec. In particular a secret
  always overrides the spec, and no key is lost.
\<close>

theorem settings_of_lookup:
  assumes "valid_order ord" and "gm_ok spec_settings" and "gm_ok secrets"
  shows "map_of (settings_of ord wrap spec_settings ref secrets) k =
    (case ref of
       None \<Rightarrow> map_option wrap (map_of spec_settings k)
     | Some r \<Rightarrow> (case map_of secrets (sk_Name r @ ''/'' @ k) of
                    Some v \<Rightarrow> Some (wrap v)
                  | None \<Rightarrow> map_option wrap (map_of spec_settings k)))"
proof -
  have "map_of (copy_settings wrap (gm_range ord 0 spec_settings) []) k = map_option wrap (map_of spec_settings k)" for k
    by (cases "map_of spec_settings k")
      (simp_all add: map_of_copy_settings distinct_gm_range map_of_gm_range assms)
  then show ?thesis
    by (simp add: settings_of_def map_of_copy_secrets distinct_gm_range map_of_gm_range assms split: option.split)
qed

theorem settings_of_lookup_witness:
  "map_of (settings_of backward_order id [(''listId'', ''7''), (''token'', ''x'')]
      (Some \<lparr>sk_Name = ''trakt'', sk_Key = ''''\<rparr>) [(''other/token'', ''y''), (''trakt/token'', ''z'')]) ''token'' = Some ''z''"
  using settings_of_lookup [OF valid_backward_order, of "[(''listId'', ''7''), (''token'', ''x'')]"
      "[(''other/token'', ''y''), (''trakt/token'', ''z'')]" id "Some \<lparr>sk_Name = ''trakt'', sk_Key = ''''\<rparr>" "''token''"]
  by (simp add: gm_ok_def)

lemma inferred_names:
  "inferImplementationFromName n \<in> {''qbittorrent'', ''transmission'', ''deluge'', ''rtorrent'', ''sabnzbd'', ''nzbget''}"
  by (simp add: inferImplementationFromName_def Let_def)

lemma protocol_of_known:
  "impl \<in> {''qbittorrent'', ''transmission'', ''deluge'', ''rtorrent'', ''sabnzbd'', ''nzbget''} \<Longrightarrow>
   inferProtocol (normalizeImplementationName impl) =
     (if impl = ''sabnzbd'' \<or> impl = ''nzbget'' then ProtocolUsenet else ProtocolTorrent)"
  by (auto simp: normalizeImplementationName_def ToLower_def to_lower_char_def is_upper_def inferProtocol_def Let_def)

text \<open>
  Every download client the CRD's validation admits (a known type, or none and the
  type inferred from the name) compiles to a client with a protocol: usenet exactly for
  the two usenet clients.
\<close>

theorem download_client_protocol:
  assumes "dcs_Type dc \<in> {'''', ''qbittorrent'', ''transmission'', ''deluge'', ''rtorrent'', ''sabnzbd'', ''nzbget''}"
  shows "\<exists>impl ir. compileDownloadClients (convertDownloadClients [dc] secrets) config = [ir] \<and>
    impl = (if dcs_Type dc = '''' then inferImplementationFromName (dcs_Name dc) else dcs_Type dc) \<and>
    dc_Protocol ir = (if impl = ''sabnzbd'' \<or> impl = ''nzbget'' then ProtocolUsenet else ProtocolTorrent) \<and>
    dc_Name ir = ''nebularr-'' @ config @ ''-'' @ dcs_Name dc"
proof -
  let ?impl = "if dcs_Type dc = '''' then inferImplementationFromName (dcs_Name dc) else dcs_Type dc"
  have "?impl \<in> {''qbittorrent'', ''transmission'', ''deluge'', ''rtorrent'', ''sabnzbd'', ''nzbget''}"
    using assms inferred_names [of "dcs_Name dc"] by (cases "dcs_Type dc = ''''") auto
  note protocol_of_known [OF this]
  then show ?thesis
    by (simp add: compileDownloadClients_def convertDownloadClients_def convert_download_client_def managed_name_def
        Let_def split_beta)
qed

definition sample_dc_spec :: DownloadClientSpec where
  "sample_dc_spec = \<lparr>dcs_Name = ''SABnzbd main'', dcs_URL = ''http://sab:8080'', dcs_Type = '''',
     dcs_CredentialsSecretRef = None, dcs_Category = ''tv'', dcs_Priority = 1, dcs_Enabled = None,
     dcs_RemoveCompletedDownloads = None, dcs_RemoveFailedDownloads = None\<rparr>"

theorem download_client_protocol_witness:
  "\<exists>ir. compileDownloadClients (convertDownloadClients [sample_dc_spec] []) ''tv'' = [ir] \<and> dc_Protocol ir = ProtocolUsenet"
proof -
  have "inferImplementationFromName (dcs_Name sample_dc_spec) = ''sabnzbd''" by code_simp
  then show ?thesis
    using download_client_protocol [of sample_dc_spec "[]" "''tv''"] by (auto simp: sample_dc_spec_def)
qed

text \<open>
  Numeric indexer categories round trip through their decimal spelling, in order and
  with duplicates kept, for every list of 64-bit integers.
\<close>

theorem convertCategories_numeric:
  assumes "\<forall>i \<in> set cats. min_int \<le> i \<and> i \<le> max_int"
  shows "convertCategories (map Itoa cats) = cats"
  using assms by (induction cats) (simp_all add: Atoi_Itoa)

theorem convertCategories_numeric_witness: "convertCategories (map Itoa [5030, 5040, 5030]) = [5030, 5040, 5030]"
  by (rule convertCategories_numeric) (simp add: min_int_def max_int_def)

text \<open>
  Delay profiles without an explicit order get the orders 1, 2, ... by position, so
  no two share one and the first replaces the service's default profile.
\<close>

theorem delay_profile_orders:
  assumes "\<forall>p \<in> set ps. dps_Order p = None"
  shows "map dp_Order (compileDelayProfilesToIR (convertDelayProfiles ps)) = map int [1..<length ps + 1]"
proof -
  have "map dp_Order (compileDelayProfilesToIR (convertDelayProfiles ps)) ! i = int i + 1" if "i < length ps" for i
    using assms that
    by (simp add: compileDelayProfilesToIR_def convertDelayProfiles_def compile_delay_profile_def
        convert_delay_profile_def nth_enumerate_eq)
  then show ?thesis
    by (intro nth_equalityI)
      (simp_all add: compileDelayProfilesToIR_def convertDelayProfiles_def nth_enumerate_eq nth_upt del: upt_Suc)
qed

definition sample_delay_spec :: "string \<Rightarrow> DelayProfileSpec" where
  "sample_delay_spec name = \<lparr>dps_Name = name, dps_PreferredProtocol = '''', dps_UsenetDelay = 0, dps_TorrentDelay = 30,
     dps_EnableUsenet = None, dps_EnableTorrent = None, dps_BypassIfHighestQuality = None,
     dps_BypassIfAboveCustomFormatScore = None, dps_MinimumCustomFormatScore = 0, dps_Tags = [], dps_Order = None\<rparr>"

theorem delay_profile_orders_witness:
  "map dp_Order (compileDelayProfilesToIR (convertDelayProfiles [sample_delay_spec ''a'', sample_delay_spec ''b''])) = [1, 2]"
  using delay_profile_orders [of "[sample_delay_spec ''a'', sample_delay_spec ''b'']"]
  by (simp add: sample_delay_spec_def upt_rec)

text \<open>
  Fields of a LidarrConfig the compiler never reads: whatever custom formats, delay
  profiles and metadata profile the user writes, the compiled representation is the same.
\<close>

theorem CompileLidarrConfig_ignores:
  "CompileLidarrConfig ord digest now (config\<lparr>lidc_Spec := (lidc_Spec config)\<lparr>lid_CustomFormats := cfs,
      lid_DelayProfiles := dps, lid_Metadata := meta\<rparr>\<rparr>) secrets caps
   = CompileLidarrConfig ord digest now config secrets caps"
  by (simp add: CompileLidarrConfig_def Let_def)

end
