(* ===== verification/Sonarr_Convert.thy ===== *)
theory Sonarr_Convert
  imports Shared_Service Compiler
begin

text \<open>
  The wire types and conversions of the Sonarr adapter (\<^verbatim>\<open>src/internal/adapters/sonarr\<close>:
  \<^verbatim>\<open>types.go\<close>, and the pure functions of \<^verbatim>\<open>clients.go\<close>, \<^verbatim>\<open>indexers.go\<close>,
  \<^verbatim>\<open>customformats.go\<close>, \<^verbatim>\<open>quality.go\<close>, \<^verbatim>\<open>naming.go\<close>, \<^verbatim>\<open>notifications.go\<close>,
  \<^verbatim>\<open>delayprofiles.go\<close>, \<^verbatim>\<open>remotepathmappings.go\<close>, \<^verbatim>\<open>rootfolders.go\<close>,
  \<^verbatim>\<open>mediamanagement.go\<close>, \<^verbatim>\<open>importlists.go\<close> and \<^verbatim>\<open>apply.go\<close>). An embedded struct is a
  field named after it. \<^verbatim>\<open>fmt.Sprintf("%v", v)\<close> of a dynamic value is the parameter
  \<open>sprint\<close>; on a string it is that string.
\<close>

section \<open>Types (types.go, importlists.go, mediamanagement.go)\<close>

record Quality =
  ql_ID :: int
  ql_Name :: string
  ql_Source :: string
  ql_Resolution :: int

datatype QualityProfileItem =
  QualityProfileItem (qpi_ID: int) (qpi_Name: string) (qpi_Quality: "Quality option")
    (qpi_Items: "QualityProfileItem list") (qpi_Allowed: bool)

record ProfileFormatItem =
  pfi_Format :: int
  pfi_Score :: int

record QualityProfileResource =
  qpr_ID :: int
  qpr_Name :: string
  qpr_UpgradeAllowed :: bool
  qpr_Cutoff :: int
  qpr_Items :: "QualityProfileItem list"
  qpr_FormatItems :: "ProfileFormatItem list"
  qpr_MinFormatScore :: int
  qpr_MinUpgradeFormatScore :: int
  qpr_CutoffFormatScore :: int

record DownloadClientResource =
  dcr_Base :: BaseDownloadClientResource
  dcr_RemoveCompletedDownloads :: bool
  dcr_RemoveFailedDownloads :: bool

record IndexerResource =
  ixr_Base :: BaseIndexerResource
  ixr_SeasonSearchMaximumSingleEpisodeAge :: int

record RootFolderResource =
  rfr_ID :: int
  rfr_Path :: string

record NamingConfigResource =
  ncr_ID :: int
  ncr_RenameEpisodes :: bool
  ncr_ReplaceIllegalCharacters :: bool
  ncr_StandardEpisodeFormat :: string
  ncr_DailyEpisodeFormat :: string
  ncr_AnimeEpisodeFormat :: string
  ncr_SeriesFolderFormat :: string
  ncr_SeasonFolderFormat :: string
  ncr_SpecialsFolderFormat :: string
  ncr_MultiEpisodeStyle :: int

record CustomFormatResource =
  cfr_Base :: BaseCustomFormatResource

record NotificationResource =
  ntr_ID :: int
  ntr_Name :: string
  ntr_Implementation :: string
  ntr_ConfigContract :: string
  ntr_Tags :: "int list"
  ntr_Fields :: "Field list"
  ntr_OnGrab :: bool
  ntr_OnDownload :: bool
  ntr_OnUpgrade :: bool
  ntr_OnRename :: bool
  ntr_OnSeriesAdd :: bool
  ntr_OnSeriesDelete :: bool
  ntr_OnEpisodeFileDelete :: bool
  ntr_OnEpisodeFileDeleteForUpgrade :: bool
  ntr_OnHealthIssue :: bool
  ntr_OnHealthRestored :: bool
  ntr_OnApplicationUpdate :: bool
  ntr_OnManualInteractionRequired :: bool
  ntr_IncludeHealthWarnings :: bool

type_synonym DelayProfileResource = BaseDelayProfileResource

record ImportListResource =
  ilr_ID :: int
  ilr_Name :: string
  ilr_Implementation :: string
  ilr_ConfigContract :: string
  ilr_EnableAutomaticAdd :: bool
  ilr_SearchForMissingEpisodes :: bool
  ilr_QualityProfileID :: int
  ilr_RootFolderPath :: string
  ilr_ShouldMonitor :: string
  ilr_SeriesType :: string
  ilr_SeasonFolder :: bool
  ilr_ListType :: string
  ilr_ListOrder :: int
  ilr_Tags :: "int list"
  ilr_Fields :: "Field list"

record MediaManagementConfigResource =
  mcr_ID :: int
  mcr_RecycleBin :: string
  mcr_RecycleBinCleanupDays :: int
  mcr_SetPermissionsLinux :: bool
  mcr_ChmodFolder :: string
  mcr_ChownGroup :: string
  mcr_DeleteEmptyFolders :: bool
  mcr_CreateEmptySeriesFolders :: bool
  mcr_CopyUsingHardlinks :: bool
  mcr_ImportExtraFiles :: bool
  mcr_ExtraFileExtensions :: string
  mcr_DownloadPropersAndRepacks :: string
  mcr_EnableMediaInfo :: bool
  mcr_MinimumFreeSpaceWhenImporting :: int
  mcr_RescanAfterRefresh :: string
  mcr_FileDate :: string
  mcr_SkipFreeSpaceCheckWhenImporting :: bool

section \<open>Download clients\<close>

definition clientToIR :: "DownloadClientResource \<Rightarrow> DownloadClientIR" where
  "clientToIR dc =
     (let b = dcr_Base dc in
      ExtractDownloadClientFields [''category'', ''tvCategory''] (bdc_Fields b)
        \<lparr>dc_ID = bdc_ID b, dc_Name = bdc_Name b, dc_Protocol = bdc_Protocol b,
         dc_Implementation = bdc_Implementation b, dc_Enable = bdc_Enable b, dc_Priority = bdc_Priority b,
         dc_RemoveCompletedDownloads = dcr_RemoveCompletedDownloads dc,
         dc_RemoveFailedDownloads = dcr_RemoveFailedDownloads dc,
         dc_Host = '''', dc_Port = 0, dc_UseTLS = False, dc_Username = '''', dc_Password = '''',
         dc_Category = '''', dc_Directory = ''''\<rparr>)"

definition downloadClientFromIR :: "DownloadClientIR \<Rightarrow> int \<Rightarrow> DownloadClientResource" where
  "downloadClientFromIR dc tagID =
     \<lparr>dcr_Base =
        \<lparr>bdc_ID = 0, bdc_Name = dc_Name dc, bdc_Implementation = dc_Implementation dc,
         bdc_ConfigContract = dc_Implementation dc @ ''Settings'', bdc_Protocol = dc_Protocol dc,
         bdc_Enable = dc_Enable dc, bdc_Priority = dc_Priority dc, bdc_Tags = [tagID],
         bdc_Fields = [mk_field ''host'' (VString (dc_Host dc)), mk_field ''port'' (VInt (dc_Port dc)),
           mk_field ''useSsl'' (VBool (dc_UseTLS dc)), mk_field ''username'' (VString (dc_Username dc)),
           mk_field ''password'' (VString (dc_Password dc)), mk_field ''tvCategory'' (VString (dc_Category dc))]\<rparr>,
      dcr_RemoveCompletedDownloads = dc_RemoveCompletedDownloads dc,
      dcr_RemoveFailedDownloads = dc_RemoveFailedDownloads dc\<rparr>"

section \<open>Indexers\<close>

definition indexerToIR :: "IndexerResource \<Rightarrow> IndexerIR" where
  "indexerToIR idx =
     (let b = ixr_Base idx in
      ExtractIndexerFields (bix_Fields b)
        \<lparr>idx_ID = bix_ID b, idx_Name = bix_Name b, idx_Protocol = bix_Protocol b,
         idx_Implementation = bix_Implementation b, idx_Enable = bix_Enable b, idx_Priority = bix_Priority b,
         idx_URL = '''', idx_APIKey = '''', idx_Categories = [], idx_MinimumSeeders = 0, idx_SeedRatio = 0,
         idx_SeedTimeMinutes = 0, idx_EnableRss = bix_EnableRss b,
         idx_EnableAutomaticSearch = bix_EnableAutomaticSearch b,
         idx_EnableInteractiveSearch = bix_EnableInteractiveSearch b\<rparr>)"

definition indexerFromIR :: "IndexerIR \<Rightarrow> int \<Rightarrow> IndexerResource" where
  "indexerFromIR idx tagID =
     \<lparr>ixr_Base =
        \<lparr>bix_ID = 0, bix_Name = idx_Name idx, bix_Implementation = idx_Implementation idx,
         bix_ConfigContract = idx_Implementation idx @ ''Settings'', bix_Protocol = idx_Protocol idx,
         bix_Enable = idx_Enable idx, bix_Priority = idx_Priority idx, bix_Tags = [tagID],
         bix_Fields = [mk_field ''baseUrl'' (VString (idx_URL idx)), mk_field ''apiKey'' (VString (idx_APIKey idx)),
           mk_field ''categories'' (VInts (idx_Categories idx)), mk_field ''minimumSeeders'' (VInt (idx_MinimumSeeders idx))],
         bix_EnableRss = idx_EnableRss idx, bix_EnableAutomaticSearch = idx_EnableAutomaticSearch idx,
         bix_EnableInteractiveSearch = idx_EnableInteractiveSearch idx\<rparr>,
      ixr_SeasonSearchMaximumSingleEpisodeAge = 0\<rparr>"

section \<open>Custom formats\<close>

text \<open>The first field named \<^verbatim>\<open>value\<close>, as a string.\<close>

fun spec_value :: "(GoValue \<Rightarrow> string) \<Rightarrow> Field list \<Rightarrow> string" where
  "spec_value sprint [] = ''''"
| "spec_value sprint (field # rest) =
     (if f_Name field = ''value''
      then (case as_string (f_Value field) of Some v \<Rightarrow> v | None \<Rightarrow> sprint (f_Value field))
      else spec_value sprint rest)"

definition customFormatToIR :: "(GoValue \<Rightarrow> string) \<Rightarrow> CustomFormatResource \<Rightarrow> CustomFormatIR" where
  "customFormatToIR sprint cf =
     (let b = cfr_Base cf in
      \<lparr>cf_ID = bcf_ID b, cf_Name = bcf_Name b, cf_IncludeWhenRenaming = bcf_IncludeCustomFormatWhenRenaming b,
       cf_Specifications = map (\<lambda>spec. \<lparr>fs_Type = csp_Implementation spec, fs_Name = csp_Name spec,
          fs_Negate = csp_Negate spec, fs_Required = csp_Required spec,
          fs_Value = spec_value sprint (csp_Fields spec)\<rparr>) (bcf_Specifications b)\<rparr>)"

definition sourceToInt :: "string \<Rightarrow> int" where
  "sourceToInt source =
     (case map_of [(''television'', 1), (''televisionRaw'', 2), (''webdl'', 3), (''web'', 3), (''webrip'', 4),
                   (''webRip'', 4), (''dvd'', 5), (''bluray'', 6), (''blurayRaw'', 7)] source of
        Some v \<Rightarrow> v | None \<Rightarrow> 0)"

definition resolutionToInt :: "string \<Rightarrow> int" where
  "resolutionToInt res =
     (case map_of [(''r360p'', 360), (''r480p'', 480), (''r540p'', 540), (''r576p'', 576), (''r720p'', 720),
                   (''r1080p'', 1080), (''r2160p'', 2160)] res of
        Some v \<Rightarrow> v | None \<Rightarrow> 0)"

definition buildSpecFields :: "FormatSpecIR \<Rightarrow> Field list" where
  "buildSpecFields spec =
     (if fs_Type spec \<in> set [''ReleaseTitleSpecification'', ''ReleaseGroupSpecification'', ''EditionSpecification'']
      then [mk_field ''value'' (VString (fs_Value spec))]
      else if fs_Type spec = ''SourceSpecification'' then [mk_field ''value'' (VInt (sourceToInt (fs_Value spec)))]
      else if fs_Type spec = ''ResolutionSpecification'' then [mk_field ''value'' (VInt (resolutionToInt (fs_Value spec)))]
      else [mk_field ''value'' (VString (fs_Value spec))])"

definition irToCustomFormat :: "CustomFormatIR \<Rightarrow> CustomFormatResource" where
  "irToCustomFormat ir =
     \<lparr>cfr_Base = \<lparr>bcf_ID = cf_ID ir, bcf_Name = cf_Name ir,
        bcf_IncludeCustomFormatWhenRenaming = cf_IncludeWhenRenaming ir,
        bcf_Specifications = map (\<lambda>spec. \<lparr>csp_Name = fs_Name spec, csp_Implementation = fs_Type spec,
          csp_Negate = fs_Negate spec, csp_Required = fs_Required spec, csp_Fields = buildSpecFields spec\<rparr>)
          (cf_Specifications ir)\<rparr>\<rparr>"

section \<open>Quality profiles (quality.go, apply.go)\<close>

definition resolveResolution :: "int \<Rightarrow> string" where
  "resolveResolution res =
     (if res = 2160 then ''2160p'' else if res = 1080 then ''1080p'' else if res = 720 then ''720p''
      else if res = 480 then ''480p'' else ''unknown'')"

definition profileToIR :: "QualityProfileResource \<Rightarrow> VideoQualityIR" where
  "profileToIR p =
     \<lparr>vq_ProfileName = qpr_Name p, vq_UpgradeAllowed = qpr_UpgradeAllowed p, vq_Cutoff = zero_VideoQualityTierIR,
      vq_Tiers = List.map_filter (\<lambda>item. case qpi_Quality item of
         Some q \<Rightarrow> if qpi_Allowed item
                    then Some \<lparr>vt_Resolution = resolveResolution (ql_Resolution q), vt_Sources = [ql_Source q],
                               vt_Allowed = True\<rparr>
                    else None
       | None \<Rightarrow> None) (qpr_Items p),
      vq_CustomFormats = [], vq_FormatScores = [], vq_MinimumCustomFormatScore = 0,
      vq_UpgradeUntilCustomFormatScore = 0\<rparr>"

definition resolutionToString :: "int \<Rightarrow> string" where
  "resolutionToString res =
     (if res = 2160 then ''2160p'' else if res = 1080 then ''1080p'' else if res = 720 then ''720p''
      else if res = 480 then ''480p'' else '''')"

definition mapSonarrSource :: "string \<Rightarrow> string" where
  "mapSonarrSource source =
     (if source = ''television'' \<or> source = ''televisionRaw'' then ''hdtv''
      else if source = ''web'' \<or> source = ''webdl'' then ''webdl''
      else if source = ''webRip'' then ''webrip''
      else if source = ''bluray'' \<or> source = ''blurayRaw'' then ''bluray''
      else if source = ''dvd'' then ''dvd''
      else source)"

text \<open>A map of maps: resolution to the set of its sources.\<close>

type_synonym allowed_map = "(string \<times> (string \<times> bool) list) list"

definition add_tier :: "VideoQualityTierIR \<Rightarrow> allowed_map \<Rightarrow> allowed_map" where
  "add_tier tier allowed =
     (if \<not> vt_Allowed tier then allowed
      else let res = vt_Resolution tier;
               inner = (case map_of allowed res of None \<Rightarrow> [] | Some m \<Rightarrow> m)
           in gm_set res (fold (\<lambda>source m. gm_set source True m) (vt_Sources tier) inner) allowed)"

definition buildAllowedQualitiesMap :: "VideoQualityTierIR list \<Rightarrow> allowed_map" where
  "buildAllowedQualitiesMap tiers = fold add_tier tiers []"

definition isQualityAllowed :: "Quality \<Rightarrow> allowed_map \<Rightarrow> bool" where
  "isQualityAllowed quality allowedQualities =
     (case map_of allowedQualities (resolutionToString (ql_Resolution quality)) of
        None \<Rightarrow> False
      | Some sources \<Rightarrow> gm_flag sources (mapSonarrSource (ql_Source quality)))"

definition isQualityCutoff :: "Quality \<Rightarrow> VideoQualityTierIR \<Rightarrow> bool" where
  "isQualityCutoff quality cutoffTier =
     (if resolutionToString (ql_Resolution quality) \<noteq> vt_Resolution cutoffTier then False
      else list_ex (\<lambda>s. s = mapSonarrSource (ql_Source quality)) (vt_Sources cutoffTier))"

text \<open>The inner loop over the items of a group: the items, whether one is allowed, the cutoff.\<close>

fun process_group ::
    "allowed_map \<Rightarrow> VideoQualityTierIR \<Rightarrow> int \<Rightarrow> QualityProfileItem list \<Rightarrow> bool \<Rightarrow> int
     \<Rightarrow> QualityProfileItem list \<times> bool \<times> int" where
  "process_group allowedQualities cutoffTier groupID [] groupAllowed cutoffID = ([], groupAllowed, cutoffID)"
| "process_group allowedQualities cutoffTier groupID (subItem # rest) groupAllowed cutoffID =
     (case qpi_Quality subItem of
        None \<Rightarrow>
          (let (is, ga, c) = process_group allowedQualities cutoffTier groupID rest groupAllowed cutoffID
           in (subItem # is, ga, c))
      | Some q \<Rightarrow>
          (let isAllowed = isQualityAllowed q allowedQualities;
               sub = QualityProfileItem (qpi_ID subItem) (qpi_Name subItem) (qpi_Quality subItem)
                       (qpi_Items subItem) isAllowed;
               cutoffID' = (if isQualityCutoff q cutoffTier \<and> groupID > 0 then groupID else cutoffID);
               (is, ga, c) = process_group allowedQualities cutoffTier groupID rest (groupAllowed \<or> isAllowed) cutoffID'
           in (sub # is, ga, c)))"

definition process_item ::
    "allowed_map \<Rightarrow> VideoQualityTierIR \<Rightarrow> QualityProfileItem \<Rightarrow> int \<Rightarrow> QualityProfileItem \<times> int" where
  "process_item allowedQualities cutoffTier item cutoffID =
     (if length (qpi_Items item) > 0
      then (let (groupItems, groupAllowed, c) =
                  process_group allowedQualities cutoffTier (qpi_ID item) (qpi_Items item) False cutoffID
            in (QualityProfileItem (qpi_ID item) (qpi_Name item) (qpi_Quality item) groupItems groupAllowed, c))
      else (case qpi_Quality item of
              None \<Rightarrow> (item, cutoffID)
            | Some q \<Rightarrow>
                (QualityProfileItem (qpi_ID item) (qpi_Name item) (qpi_Quality item) (qpi_Items item)
                   (isQualityAllowed q allowedQualities),
                 if isQualityCutoff q cutoffTier \<and> ql_ID q > 0 then ql_ID q else cutoffID)))"

fun process_items ::
    "allowed_map \<Rightarrow> VideoQualityTierIR \<Rightarrow> QualityProfileItem list \<Rightarrow> int \<Rightarrow> QualityProfileItem list \<times> int" where
  "process_items allowedQualities cutoffTier [] cutoffID = ([], cutoffID)"
| "process_items allowedQualities cutoffTier (item # rest) cutoffID =
     (let (item', c) = process_item allowedQualities cutoffTier item cutoffID;
          (is, c') = process_items allowedQualities cutoffTier rest c
      in (item' # is, c'))"

definition processSchemaItems ::
    "QualityProfileItem list \<Rightarrow> allowed_map \<Rightarrow> VideoQualityTierIR \<Rightarrow> QualityProfileItem list \<times> int" where
  "processSchemaItems schemaItems allowedQualities cutoffTier =
     process_items allowedQualities cutoffTier schemaItems 1"

text \<open>The part of \<^verbatim>\<open>buildFormatItems\<close> after the custom formats are fetched.\<close>

definition merge_format_items ::
    "range_order \<Rightarrow> (string \<times> int) list \<Rightarrow> ProfileFormatItem list \<Rightarrow> CustomFormatResource list \<Rightarrow> ProfileFormatItem list" where
  "merge_format_items ord formatScores schemaItems formats =
     (let formatIDByName = fold (\<lambda>f m. gm_set (bcf_Name (cfr_Base f)) (bcf_ID (cfr_Base f)) m) formats [];
          formatNameByID = fold (\<lambda>f m. gm_set (bcf_ID (cfr_Base f)) (bcf_Name (cfr_Base f)) m) formats [];
          result = map (\<lambda>item. case map_of formatNameByID (pfi_Format item) of
                     None \<Rightarrow> item
                   | Some name \<Rightarrow> (case map_of formatScores name of
                                    None \<Rightarrow> item
                                  | Some score \<Rightarrow> item\<lparr>pfi_Score := score\<rparr>)) schemaItems;
          schemaFormatIDs = set_of_slice (map pfi_Format schemaItems)
      in result @ List.map_filter (\<lambda>(name, score). case map_of formatIDByName name of
                     None \<Rightarrow> None
                   | Some formatID \<Rightarrow> if \<not> gm_flag schemaFormatIDs formatID
                                       then Some \<lparr>pfi_Format = formatID, pfi_Score = score\<rparr> else None)
                   (gm_range ord 0 formatScores))"

section \<open>Naming\<close>

definition namingToIR :: "NamingConfigResource \<Rightarrow> SonarrNamingIR" where
  "namingToIR n =
     \<lparr>sn_RenameEpisodes = ncr_RenameEpisodes n, sn_ReplaceIllegalCharacters = ncr_ReplaceIllegalCharacters n,
      sn_ColonReplacementFormat = 0, sn_StandardEpisodeFormat = ncr_StandardEpisodeFormat n,
      sn_DailyEpisodeFormat = ncr_DailyEpisodeFormat n, sn_AnimeEpisodeFormat = ncr_AnimeEpisodeFormat n,
      sn_SeriesFolderFormat = ncr_SeriesFolderFormat n, sn_SeasonFolderFormat = ncr_SeasonFolderFormat n,
      sn_SpecialsFolderFormat = ncr_SpecialsFolderFormat n, sn_MultiEpisodeStyle = ncr_MultiEpisodeStyle n\<rparr>"

definition namingFromIR :: "int \<Rightarrow> SonarrNamingIR \<Rightarrow> NamingConfigResource" where
  "namingFromIR namingConfigID naming =
     \<lparr>ncr_ID = namingConfigID, ncr_RenameEpisodes = sn_RenameEpisodes naming,
      ncr_ReplaceIllegalCharacters = sn_ReplaceIllegalCharacters naming,
      ncr_StandardEpisodeFormat = sn_StandardEpisodeFormat naming,
      ncr_DailyEpisodeFormat = sn_DailyEpisodeFormat naming, ncr_AnimeEpisodeFormat = sn_AnimeEpisodeFormat naming,
      ncr_SeriesFolderFormat = sn_SeriesFolderFormat naming, ncr_SeasonFolderFormat = sn_SeasonFolderFormat naming,
      ncr_SpecialsFolderFormat = sn_SpecialsFolderFormat naming, ncr_MultiEpisodeStyle = sn_MultiEpisodeStyle naming\<rparr>"

section \<open>Notifications\<close>

definition notificationToIR :: "NotificationResource \<Rightarrow> NotificationIR" where
  "notificationToIR n =
     \<lparr>nt_ID = ntr_ID n, nt_Name = ntr_Name n, nt_Implementation = ntr_Implementation n,
      nt_ConfigContract = ntr_ConfigContract n, nt_Enabled = True,
      nt_OnGrab = ntr_OnGrab n, nt_OnDownload = ntr_OnDownload n, nt_OnUpgrade = ntr_OnUpgrade n,
      nt_OnRename = ntr_OnRename n, nt_OnHealthIssue = ntr_OnHealthIssue n,
      nt_OnHealthRestored = ntr_OnHealthRestored n, nt_OnApplicationUpdate = ntr_OnApplicationUpdate n,
      nt_OnManualInteractionRequired = ntr_OnManualInteractionRequired n,
      nt_IncludeHealthWarnings = ntr_IncludeHealthWarnings n,
      nt_OnMovieAdded = False, nt_OnMovieDelete = False, nt_OnMovieFileDelete = False,
      nt_OnMovieFileDeleteForUpgrade = False,
      nt_OnSeriesAdd = ntr_OnSeriesAdd n, nt_OnSeriesDelete = ntr_OnSeriesDelete n,
      nt_OnEpisodeFileDelete = ntr_OnEpisodeFileDelete n,
      nt_OnEpisodeFileDeleteForUpgrade = ntr_OnEpisodeFileDeleteForUpgrade n,
      nt_OnReleaseImport = False, nt_OnArtistAdd = False, nt_OnArtistDelete = False, nt_OnAlbumDelete = False,
      nt_OnTrackRetag = False, nt_OnDownloadFailure = False, nt_OnImportFailure = False,
      nt_Fields = fold (\<lambda>f m. if f_Name f \<noteq> '''' \<and> f_Value f \<noteq> VNil then gm_set (f_Name f) (f_Value f) m else m)
        (ntr_Fields n) [],
      nt_Tags = ntr_Tags n\<rparr>"

definition irToNotification :: "range_order \<Rightarrow> NotificationIR \<Rightarrow> int \<Rightarrow> NotificationResource" where
  "irToNotification ord ir tagID =
     \<lparr>ntr_ID = nt_ID ir, ntr_Name = nt_Name ir, ntr_Implementation = nt_Implementation ir,
      ntr_ConfigContract = nt_ConfigContract ir, ntr_Tags = [tagID],
      ntr_Fields = map (\<lambda>(name, value). mk_field name value) (gm_range ord 0 (nt_Fields ir)),
      ntr_OnGrab = nt_OnGrab ir, ntr_OnDownload = nt_OnDownload ir, ntr_OnUpgrade = nt_OnUpgrade ir,
      ntr_OnRename = nt_OnRename ir, ntr_OnSeriesAdd = nt_OnSeriesAdd ir, ntr_OnSeriesDelete = nt_OnSeriesDelete ir,
      ntr_OnEpisodeFileDelete = nt_OnEpisodeFileDelete ir,
      ntr_OnEpisodeFileDeleteForUpgrade = nt_OnEpisodeFileDeleteForUpgrade ir,
      ntr_OnHealthIssue = nt_OnHealthIssue ir, ntr_OnHealthRestored = nt_OnHealthRestored ir,
      ntr_OnApplicationUpdate = nt_OnApplicationUpdate ir,
      ntr_OnManualInteractionRequired = nt_OnManualInteractionRequired ir,
      ntr_IncludeHealthWarnings = nt_IncludeHealthWarnings ir\<rparr>"

section \<open>Delay profiles, mappings, folders, media management\<close>

definition delayProfileToIR :: "DelayProfileResource \<Rightarrow> DelayProfileIR" where
  "delayProfileToIR p =
     \<lparr>dp_ID = bdp_ID p, dp_Name = '''', dp_Order = bdp_Order p,
      dp_PreferredProtocol = (if bdp_PreferredProtocol p = ''usenet'' then ProtocolUsenet
                              else if bdp_PreferredProtocol p = ''torrent'' then ProtocolTorrent else ''''),
      dp_UsenetDelay = bdp_UsenetDelay p, dp_TorrentDelay = bdp_TorrentDelay p,
      dp_EnableUsenet = bdp_EnableUsenet p, dp_EnableTorrent = bdp_EnableTorrent p,
      dp_BypassIfHighestQuality = bdp_BypassIfHighestQuality p,
      dp_BypassIfAboveCustomFormatScore = bdp_BypassIfAboveCustomFormatScore p,
      dp_MinimumCustomFormatScore = bdp_MinimumCustomFormatScore p, dp_Tags = bdp_Tags p, dp_TagNames = []\<rparr>"

definition irToDelayProfile :: "DelayProfileIR \<Rightarrow> int list \<Rightarrow> DelayProfileResource" where
  "irToDelayProfile ir tagIDs =
     \<lparr>bdp_ID = 0, bdp_Order = dp_Order ir,
      bdp_PreferredProtocol = (if dp_PreferredProtocol ir = ProtocolUsenet then ''usenet''
                               else if dp_PreferredProtocol ir = ProtocolTorrent then ''torrent'' else ''usenet''),
      bdp_UsenetDelay = dp_UsenetDelay ir, bdp_TorrentDelay = dp_TorrentDelay ir,
      bdp_EnableUsenet = dp_EnableUsenet ir, bdp_EnableTorrent = dp_EnableTorrent ir,
      bdp_BypassIfHighestQuality = dp_BypassIfHighestQuality ir,
      bdp_BypassIfAboveCustomFormatScore = dp_BypassIfAboveCustomFormatScore ir,
      bdp_MinimumCustomFormatScore = dp_MinimumCustomFormatScore ir, bdp_Tags = tagIDs\<rparr>"

text \<open>The tags \<^verbatim>\<open>createDelayProfile\<close> and \<^verbatim>\<open>updateDelayProfile\<close> write.\<close>

definition delay_tag_ids :: "DelayProfileIR \<Rightarrow> int \<Rightarrow> int list" where
  "delay_tag_ids ir tagID = (if tagID > 0 \<and> length (dp_TagNames ir) = 0 then [tagID] else []) @ dp_Tags ir"

definition mappingToIR :: "RemotePathMappingResource \<Rightarrow> RemotePathMappingIR" where
  "mappingToIR m = \<lparr>rpm_ID = rpr_ID m, rpm_Host = rpr_Host m, rpm_RemotePath = rpr_RemotePath m,
                    rpm_LocalPath = rpr_LocalPath m\<rparr>"

definition mappingFromIR :: "int \<Rightarrow> RemotePathMappingIR \<Rightarrow> RemotePathMappingResource" where
  "mappingFromIR i m = \<lparr>rpr_ID = i, rpr_Host = rpm_Host m, rpr_RemotePath = rpm_RemotePath m,
                        rpr_LocalPath = rpm_LocalPath m\<rparr>"

definition folderToIR :: "RootFolderResource \<Rightarrow> RootFolderIR" where
  "folderToIR f = \<lparr>rf_Path = rfr_Path f, rf_Name = '''', rf_DefaultMonitor = ''''\<rparr>"

definition set_media_fields :: "MediaManagementIR \<Rightarrow> MediaManagementConfigResource \<Rightarrow> MediaManagementConfigResource" where
  "set_media_fields ir current =
     current\<lparr>mcr_RecycleBin := mm_RecycleBin ir, mcr_RecycleBinCleanupDays := mm_RecycleBinCleanupDays ir,
             mcr_SetPermissionsLinux := mm_SetPermissions ir, mcr_ChmodFolder := mm_ChmodFolder ir,
             mcr_ChownGroup := mm_ChownGroup ir, mcr_DeleteEmptyFolders := mm_DeleteEmptyFolders ir,
             mcr_CreateEmptySeriesFolders := mm_CreateEmptyFolders ir, mcr_CopyUsingHardlinks := mm_UseHardlinks ir\<rparr>"

definition mediaToIR :: "MediaManagementConfigResource \<Rightarrow> MediaManagementIR" where
  "mediaToIR config =
     \<lparr>mm_RecycleBin = mcr_RecycleBin config, mm_RecycleBinCleanupDays = mcr_RecycleBinCleanupDays config,
      mm_SetPermissions = mcr_SetPermissionsLinux config, mm_ChmodFolder = mcr_ChmodFolder config,
      mm_ChownGroup = mcr_ChownGroup config, mm_DeleteEmptyFolders = mcr_DeleteEmptyFolders config,
      mm_CreateEmptyFolders = mcr_CreateEmptySeriesFolders config, mm_UseHardlinks = mcr_CopyUsingHardlinks config,
      mm_WatchLibraryForChanges = None, mm_AllowFingerprinting = ''''\<rparr>"

section \<open>Import lists\<close>

fun findSchemaByType :: "ImportListResource list \<Rightarrow> string \<Rightarrow> ImportListResource option" where
  "findSchemaByType [] listType = None"
| "findSchemaByType (s # schemas) listType =
     (if ilr_Implementation s = listType then Some s else findSchemaByType schemas listType)"

definition buildImportListFields :: "range_order \<Rightarrow> (string \<times> string) list \<Rightarrow> ImportListResource \<Rightarrow> Field list" where
  "buildImportListFields ord settings schema =
     (let schemaFields = set_of_slice (map f_Name (ilr_Fields schema))
      in map (\<lambda>(name, value). mk_field name (VString value))
           (filter (\<lambda>(name, value). gm_flag schemaFields name) (gm_range ord 0 settings)))"

definition irToImportList :: "ImportListIR \<Rightarrow> ImportListResource \<Rightarrow> Field list \<Rightarrow> int \<Rightarrow> ImportListResource" where
  "irToImportList ir schema fls tagID =
     \<lparr>ilr_ID = 0, ilr_Name = il_Name ir, ilr_Implementation = il_Type ir,
      ilr_ConfigContract = ilr_ConfigContract schema, ilr_EnableAutomaticAdd = il_EnableAuto ir,
      ilr_SearchForMissingEpisodes = il_SearchOnAdd ir, ilr_QualityProfileID = il_QualityProfileID ir,
      ilr_RootFolderPath = il_RootFolderPath ir,
      ilr_ShouldMonitor = (if il_ShouldMonitor ir = '''' then ''all'' else il_ShouldMonitor ir),
      ilr_SeriesType = (if il_SeriesType ir = '''' then ''standard'' else il_SeriesType ir),
      ilr_SeasonFolder = il_SeasonFolder ir, ilr_ListType = ''program'', ilr_ListOrder = 0,
      ilr_Tags = [tagID], ilr_Fields = fls\<rparr>"

definition importListToIR :: "(GoValue \<Rightarrow> string) \<Rightarrow> ImportListResource \<Rightarrow> ImportListIR" where
  "importListToIR sprint l =
     \<lparr>il_Name = ilr_Name l, il_Type = ilr_Implementation l, il_Enabled = True,
      il_EnableAuto = ilr_EnableAutomaticAdd l, il_SearchOnAdd = ilr_SearchForMissingEpisodes l,
      il_QualityProfileID = ilr_QualityProfileID l, il_QualityProfileName = '''',
      il_RootFolderPath = ilr_RootFolderPath l, il_Monitor = '''', il_MinimumAvailability = '''',
      il_SeriesType = ilr_SeriesType l, il_SeasonFolder = ilr_SeasonFolder l,
      il_ShouldMonitor = ilr_ShouldMonitor l,
      il_Settings = fold (\<lambda>f m. if f_Value f \<noteq> VNil
          then gm_set (f_Name f) (case as_string (f_Value f) of Some v \<Rightarrow> v | None \<Rightarrow> sprint (f_Value f)) m else m)
        (ilr_Fields l) []\<rparr>"

section \<open>What a service answers\<close>

text \<open>
  A service may answer anything (\<open>hide\<close>) in place of a secret. \<open>answer_client\<close> and \<open>answer_indexer\<close> are what it lists, under the ID
  it chose, for a resource it was sent.
\<close>

definition answer_client :: "(GoValue \<Rightarrow> GoValue) \<Rightarrow> int \<Rightarrow> DownloadClientResource \<Rightarrow> DownloadClientResource" where
  "answer_client hide i r =
     r\<lparr>dcr_Base := (dcr_Base r)\<lparr>bdc_ID := i, bdc_Fields := map (answer_field hide) (bdc_Fields (dcr_Base r))\<rparr>\<rparr>"

definition answer_indexer :: "(GoValue \<Rightarrow> GoValue) \<Rightarrow> int \<Rightarrow> IndexerResource \<Rightarrow> IndexerResource" where
  "answer_indexer hide i r =
     r\<lparr>ixr_Base := (ixr_Base r)\<lparr>bix_ID := i, bix_Fields := map (answer_field hide) (bix_Fields (ixr_Base r))\<rparr>\<rparr>"

section \<open>Properties\<close>

lemma client_read_back:
  assumes "exact_int (dc_Port dc)"
  shows "clientToIR (answer_client hide i (downloadClientFromIR dc tagID)) =
    dc\<lparr>dc_ID := i, dc_Password := hidden hide (dc_Password dc), dc_Directory := ''''\<rparr>"
  using assms
  by (simp add: clientToIR_def answer_client_def downloadClientFromIR_def ExtractDownloadClientFields_def
      extract_dc_field_mk hidden_def Let_def split: option.split)

text \<open>
  Download client round trip: what the adapter reads back for a client it has sent is
  the desired client, field by field, with the ID the service chose, the (possibly masked)
  password the service answers and no directory, as long as the port is exact in a
  \<^verbatim>\<open>float64\<close>; and it carries the ownership tag, so it is read back as managed. Hence the
  comparison finds it equal to the desired one.
\<close>

theorem downloadClient_round_trip:
  assumes "exact_int (dc_Port dc)"
  shows "clientToIR (answer_client hide i (downloadClientFromIR dc tagID)) =
      dc\<lparr>dc_ID := i, dc_Password := hidden hide (dc_Password dc), dc_Directory := ''''\<rparr>
    \<and> HasTag (bdc_Tags (dcr_Base (answer_client hide i (downloadClientFromIR dc tagID)))) tagID
    \<and> DownloadClientsEqual (clientToIR (answer_client hide i (downloadClientFromIR dc tagID))) dc"
  using client_read_back [OF assms, of hide i tagID]
  by (simp add: answer_client_def downloadClientFromIR_def DownloadClientsEqual_def)

theorem downloadClient_round_trip_witness:
  "DownloadClientsEqual (clientToIR (answer_client (\<lambda>_. VString ''****'') 12
     (downloadClientFromIR (sample_dc ''sab'' 0 8080) 3))) (sample_dc ''sab'' 0 8080)"
proof -
  have "exact_int (dc_Port (sample_dc ''sab'' 0 8080))"
    by (simp add: sample_dc_def exact_int_def)
  from downloadClient_round_trip [OF this] show ?thesis by blast
qed

lemma indexer_read_back:
  assumes "\<forall>c \<in> set (idx_Categories idx). exact_int c" and "exact_int (idx_MinimumSeeders idx)"
  shows "indexerToIR (answer_indexer hide i (indexerFromIR idx tagID)) =
    idx\<lparr>idx_ID := i, idx_APIKey := hidden hide (idx_APIKey idx), idx_SeedRatio := 0, idx_SeedTimeMinutes := 0\<rparr>"
  using assms
  by (simp add: indexerToIR_def answer_indexer_def indexerFromIR_def ExtractIndexerFields_def
      extract_idx_field_mk append_categories hidden_def Let_def split: option.split)

text \<open>
  Indexer round trip: what the adapter reads back for an indexer it has sent is the
  desired one with the ID the service chose and the (possibly masked) API key, except that
  the seed ratio and seed time of the spec are never sent; the comparison accepts it.
\<close>

theorem indexer_round_trip:
  assumes "\<forall>c \<in> set (idx_Categories idx). exact_int c" and "exact_int (idx_MinimumSeeders idx)"
  shows "indexerToIR (answer_indexer hide i (indexerFromIR idx tagID)) =
      idx\<lparr>idx_ID := i, idx_APIKey := hidden hide (idx_APIKey idx), idx_SeedRatio := 0, idx_SeedTimeMinutes := 0\<rparr>
    \<and> HasTag (bix_Tags (ixr_Base (answer_indexer hide i (indexerFromIR idx tagID)))) tagID
    \<and> IndexersEqual (indexerToIR (answer_indexer hide i (indexerFromIR idx tagID))) idx"
  using indexer_read_back [OF assms, of hide i tagID]
  by (simp add: answer_indexer_def indexerFromIR_def IndexersEqual_def)

definition sample_indexer :: IndexerIR where
  "sample_indexer = \<lparr>idx_ID = 0, idx_Name = ''nzb'', idx_Protocol = ProtocolUsenet, idx_Implementation = ''Newznab'',
     idx_Enable = True, idx_Priority = 25, idx_URL = ''http://nzb'', idx_APIKey = ''k'', idx_Categories = [5030, 5040],
     idx_MinimumSeeders = 1, idx_SeedRatio = 2, idx_SeedTimeMinutes = 60, idx_EnableRss = True,
     idx_EnableAutomaticSearch = True, idx_EnableInteractiveSearch = False\<rparr>"

theorem indexer_round_trip_witness:
  "idx_Categories (indexerToIR (answer_indexer (\<lambda>_. VNil) 4 (indexerFromIR sample_indexer 3))) = [5030, 5040]
   \<and> idx_SeedRatio (indexerToIR (answer_indexer (\<lambda>_. VNil) 4 (indexerFromIR sample_indexer 3))) = 0"
proof -
  have "\<forall>c \<in> set (idx_Categories sample_indexer). exact_int c" "exact_int (idx_MinimumSeeders sample_indexer)"
    by (simp_all add: sample_indexer_def exact_int_def)
  from indexer_round_trip [OF this, of "\<lambda>_. VNil" 4 3] show ?thesis
    by (simp add: sample_indexer_def)
qed

section \<open>Quality profiles against a reference\<close>

text \<open>
  What a quality profile should say, item by item: a quality is allowed when some allowed
  tier of the spec has its resolution and source, a group when one of its qualities is, and
  the cutoff is the last item that matches the cutoff tier (1 when there is none).
\<close>

definition tier_allows :: "VideoQualityTierIR list \<Rightarrow> Quality \<Rightarrow> bool" where
  "tier_allows tiers q \<longleftrightarrow>
     (\<exists>t \<in> set tiers. vt_Allowed t \<and> vt_Resolution t = resolutionToString (ql_Resolution q) \<and>
        mapSonarrSource (ql_Source q) \<in> set (vt_Sources t))"

definition with_allowed :: "bool \<Rightarrow> QualityProfileItem \<Rightarrow> QualityProfileItem" where
  "with_allowed b item =
     QualityProfileItem (qpi_ID item) (qpi_Name item) (qpi_Quality item) (qpi_Items item) b"

definition mark_leaf :: "VideoQualityTierIR list \<Rightarrow> QualityProfileItem \<Rightarrow> QualityProfileItem" where
  "mark_leaf tiers item = (case qpi_Quality item of None \<Rightarrow> item | Some q \<Rightarrow> with_allowed (tier_allows tiers q) item)"

definition leaf_allowed :: "VideoQualityTierIR list \<Rightarrow> QualityProfileItem \<Rightarrow> bool" where
  "leaf_allowed tiers item = (case qpi_Quality item of None \<Rightarrow> False | Some q \<Rightarrow> tier_allows tiers q)"

definition mark_item :: "VideoQualityTierIR list \<Rightarrow> QualityProfileItem \<Rightarrow> QualityProfileItem" where
  "mark_item tiers item =
     (if qpi_Items item = [] then mark_leaf tiers item
      else QualityProfileItem (qpi_ID item) (qpi_Name item) (qpi_Quality item)
             (map (mark_leaf tiers) (qpi_Items item)) (list_ex (leaf_allowed tiers) (qpi_Items item)))"

definition leaf_cutoff :: "VideoQualityTierIR \<Rightarrow> QualityProfileItem \<Rightarrow> bool" where
  "leaf_cutoff cutoff item = (case qpi_Quality item of None \<Rightarrow> False | Some q \<Rightarrow> isQualityCutoff q cutoff)"

definition cutoff_ids :: "VideoQualityTierIR \<Rightarrow> QualityProfileItem \<Rightarrow> int list" where
  "cutoff_ids cutoff item =
     (if qpi_Items item = []
      then (case qpi_Quality item of None \<Rightarrow> []
            | Some q \<Rightarrow> if isQualityCutoff q cutoff \<and> ql_ID q > 0 then [ql_ID q] else [])
      else if list_ex (leaf_cutoff cutoff) (qpi_Items item) \<and> qpi_ID item > 0 then [qpi_ID item] else [])"

lemma gm_flag_add_sources:
  "gm_flag (fold (\<lambda>source m. gm_set source True m) ss m) k \<longleftrightarrow> k \<in> set ss \<or> gm_flag m k"
  by (induction ss arbitrary: m) (auto simp: gm_flag_def)

lemma allowed_fold:
  "(\<exists>m. map_of (fold add_tier tiers acc) res = Some m \<and> gm_flag m src) \<longleftrightarrow>
     (\<exists>m. map_of acc res = Some m \<and> gm_flag m src) \<or>
     (\<exists>t \<in> set tiers. vt_Allowed t \<and> vt_Resolution t = res \<and> src \<in> set (vt_Sources t))"
proof (induction tiers arbitrary: acc)
  case (Cons t tiers)
  have "(\<exists>m. map_of (add_tier t acc) res = Some m \<and> gm_flag m src) \<longleftrightarrow>
      (\<exists>m. map_of acc res = Some m \<and> gm_flag m src) \<or> (vt_Allowed t \<and> vt_Resolution t = res \<and> src \<in> set (vt_Sources t))"
    by (auto simp: add_tier_def Let_def gm_flag_add_sources gm_flag_def [of "[]"] split: option.splits)
  then show ?case by (auto simp: Cons.IH)
qed simp

lemma isQualityAllowed_iff [simp]:
  "isQualityAllowed q (buildAllowedQualitiesMap tiers) \<longleftrightarrow> tier_allows tiers q"
  using allowed_fold [of tiers "[]" "resolutionToString (ql_Resolution q)" "mapSonarrSource (ql_Source q)"]
  by (auto simp: isQualityAllowed_def buildAllowedQualitiesMap_def tier_allows_def split: option.splits)

lemma process_group_eq:
  "process_group (buildAllowedQualitiesMap tiers) cutoff gid subs ga c =
     (map (mark_leaf tiers) subs, ga \<or> list_ex (leaf_allowed tiers) subs,
      if list_ex (leaf_cutoff cutoff) subs \<and> gid > 0 then gid else c)"
  by (induction subs arbitrary: ga c)
    (auto simp: mark_leaf_def leaf_allowed_def leaf_cutoff_def with_allowed_def Let_def split: option.splits)

lemma process_item_eq:
  "process_item (buildAllowedQualitiesMap tiers) cutoff item c =
     (mark_item tiers item, last (c # cutoff_ids cutoff item))"
  by (auto simp: process_item_def process_group_eq mark_item_def cutoff_ids_def mark_leaf_def with_allowed_def
      split: option.splits)

lemma last_last_append: "last (last (c # xs) # ys) = last (c # xs @ ys)"
  by (cases ys) auto

text \<open>
  C25. The quality profile the adapter builds from the service's schema is the reference
  one: the items are the schema's in the schema's order, a quality is marked allowed
  exactly when an allowed tier of the spec names its resolution and source, a group exactly
  when one of its qualities is, nothing else of an item changes, and the cutoff is the last
  item that matches the cutoff tier, 1 when none does.
\<close>

theorem processSchemaItems_reference:
  "processSchemaItems items (buildAllowedQualitiesMap tiers) cutoff =
     (map (mark_item tiers) items, last (1 # concat (map (cutoff_ids cutoff) items)))"
proof -
  have "process_items (buildAllowedQualitiesMap tiers) cutoff items c =
      (map (mark_item tiers) items, last (c # concat (map (cutoff_ids cutoff) items)))" for c
    by (induction items arbitrary: c) (simp_all add: process_item_eq last_last_append del: last.simps, simp)
  then show ?thesis by (simp add: processSchemaItems_def)
qed

section \<open>Custom formats through the service\<close>

definition answer_format :: "int \<Rightarrow> CustomFormatResource \<Rightarrow> CustomFormatResource" where
  "answer_format i r =
     r\<lparr>cfr_Base := (cfr_Base r)\<lparr>bcf_ID := i, bcf_Specifications := map (\<lambda>sp. sp\<lparr>csp_Fields :=
         map (\<lambda>f. f\<lparr>f_Value := wire (f_Value f)\<rparr>) (csp_Fields sp)\<rparr>) (bcf_Specifications (cfr_Base r))\<rparr>\<rparr>"

text \<open>The value read back for a specification that was sent.\<close>

definition value_read_back :: "(GoValue \<Rightarrow> string) \<Rightarrow> FormatSpecIR \<Rightarrow> string" where
  "value_read_back sprint sp =
     (if fs_Type sp = ''SourceSpecification'' then sprint (VFloat (float64_of_int (sourceToInt (fs_Value sp))))
      else if fs_Type sp = ''ResolutionSpecification''
      then sprint (VFloat (float64_of_int (resolutionToInt (fs_Value sp))))
      else fs_Value sp)"

lemma spec_read_back:
  "spec_value sprint (map (\<lambda>f. f\<lparr>f_Value := wire (f_Value f)\<rparr>) (buildSpecFields sp)) = value_read_back sprint sp"
  by (simp add: buildSpecFields_def value_read_back_def mk_field_def as_string_def)

lemma customFormat_read_back:
  "customFormatToIR sprint (answer_format i (irToCustomFormat ir)) =
     ir\<lparr>cf_ID := i, cf_Specifications := map (\<lambda>sp. sp\<lparr>fs_Value := value_read_back sprint sp\<rparr>) (cf_Specifications ir)\<rparr>"
  by (simp add: customFormatToIR_def answer_format_def irToCustomFormat_def spec_read_back Let_def)

end
