(* ===== verification/Endpoint.thy ===== *)
theory Endpoint
  imports Shared_Service
begin

text \<open>
  The shape of a service as the adapters use it through \<^verbatim>\<open>src/internal/adapters/httpclient\<close>:
  per resource type an endpoint with list, get, post and put. The endpoints are parameters of
  the adapters; this theory holds how calls to them compose, when they cannot panic and when
  they always return a value.
\<close>

section \<open>Endpoints\<close>

record ('s, 'r) endpoint =
  ep_list :: "string \<Rightarrow> ('s, 'r list) action"
  ep_get :: "string \<Rightarrow> ('s, 'r) action"
  ep_post :: "string \<Rightarrow> 'r \<Rightarrow> ('s, 'r) action"
  ep_put :: "string \<Rightarrow> 'r \<Rightarrow> ('s, 'r) action"

definition panics :: "string \<Rightarrow> ('s, 'a) action" where
  "panics msg s = (Panic msg, s)"

text \<open>A service call beside a state of the operator's own, and a call whose answer is ignored.\<close>

definition on_service :: "('s, 'a) action \<Rightarrow> ('v \<times> 's, 'a) action" where
  "on_service m vs = (case m (snd vs) of (r, s') \<Rightarrow> (r, (fst vs, s')))"

definition discard :: "('s, 'a) action \<Rightarrow> ('s, unit) action" where
  "discard m = andThen m (\<lambda>_. give ())"

text \<open>The loop that collects the implementations of a schema list, without duplicates.\<close>

fun collect_types :: "string list \<Rightarrow> (string \<times> bool) list \<Rightarrow> string list \<Rightarrow> string list" where
  "collect_types [] seen acc = acc"
| "collect_types (impl # rest) seen acc =
     (if impl \<noteq> '''' \<and> \<not> gm_flag seen impl
      then collect_types rest (gm_set impl True seen) (acc @ [impl])
      else collect_types rest seen acc)"

definition try_types :: "('s, 'r list) action \<Rightarrow> ('r \<Rightarrow> string) \<Rightarrow> ('s, string list) action" where
  "try_types m impl = or_else (andThen m (\<lambda>schemas. give (collect_types (map impl schemas) [] []))) (\<lambda>_. give [])"

text \<open>\<^verbatim>\<open>if x, err := get(); err == nil { ir.Field = x }\<close>\<close>

definition try_set :: "('w, 'a) action \<Rightarrow> ('a \<Rightarrow> 'i \<Rightarrow> 'i) \<Rightarrow> 'i \<Rightarrow> ('w, 'i) action" where
  "try_set m upd ir = or_else (andThen m (\<lambda>x. give (upd x ir))) (\<lambda>_. give ir)"

section \<open>No panics\<close>

lemma gm_flag_set [simp]: "gm_flag (gm_set k True m) x \<longleftrightarrow> x = k \<or> gm_flag m x"
  by (simp add: gm_flag_def)

lemma no_panic_discard [intro]: "no_panic m \<Longrightarrow> no_panic (discard m)"
  unfolding discard_def by blast

lemmas no_panic_rules = no_panic_andThen no_panic_wrap_err no_panic_or_else no_panic_discard

lemma no_panic_on_service [intro]: "no_panic m \<Longrightarrow> no_panic (on_service m)"
  by (auto simp: no_panic_def on_service_def split: prod.splits) (metis fst_conv)

lemma no_panic_pure [simp]: "no_panic (\<lambda>s. (Ok (f s), g s))"
  by (simp add: no_panic_def)

definition ep_total :: "('s, 'r) endpoint \<Rightarrow> bool" where
  "ep_total ep \<longleftrightarrow> (\<forall>p. no_panic (ep_list ep p) \<and> no_panic (ep_get ep p) \<and>
     (\<forall>r. no_panic (ep_post ep p r) \<and> no_panic (ep_put ep p r)))"

lemma ep_totalD [intro]:
  assumes "ep_total ep"
  shows "no_panic (ep_list ep p)" "no_panic (ep_get ep p)" "no_panic (ep_post ep p r)" "no_panic (ep_put ep p r)"
  using assms by (simp_all add: ep_total_def)

section \<open>Actions that always return a value\<close>

text \<open>An action that returns a value with a property, whatever the state.\<close>

definition always_ok :: "('a \<Rightarrow> bool) \<Rightarrow> ('s, 'a) action \<Rightarrow> bool" where
  "always_ok P m \<longleftrightarrow> (\<forall>s. \<exists>x s'. m s = (Ok x, s') \<and> P x)"

lemma always_ok_andThen:
  "always_ok P m \<Longrightarrow> (\<And>x. P x \<Longrightarrow> always_ok Q (f x)) \<Longrightarrow> always_ok Q (andThen m f)"
  unfolding always_ok_def by (metis andThen_Ok)

lemma always_ok_give: "P x \<Longrightarrow> always_ok P (give x)"
  by (simp add: always_ok_def give_def)

lemma always_ok_or_else:
  assumes "no_panic m" and "\<And>s x s'. m s = (Ok x, s') \<Longrightarrow> P (f x)" and "P y"
  shows "always_ok P (or_else (andThen m (\<lambda>x. give (f x))) (\<lambda>_. give y))"
  unfolding always_ok_def
proof
  fix s
  obtain q s' where q: "m s = (q, s')" by fastforce
  then have "returns q" by (rule no_panicD [OF assms(1)])
  then show "\<exists>x s'. or_else (andThen m (\<lambda>x. give (f x))) (\<lambda>_. give y) s = (Ok x, s') \<and> P x"
    using q assms(2,3) by (cases q) (auto simp: or_else_def andThen_def give_def)
qed

section \<open>An endpoint without resources\<close>

text \<open>It lists nothing and refuses every write.\<close>

definition refusing :: "('s, 'r) endpoint" where
  "refusing = \<lparr>ep_list = (\<lambda>p. give []), ep_get = (\<lambda>p. fail ''404''), ep_post = (\<lambda>p r. fail ''503''),
               ep_put = (\<lambda>p r. fail ''503'')\<rparr>"

end
