(* ===== verification/Sonarr.thy ===== *)
theory Sonarr
  imports Sonarr_Convert Endpoint
begin

text \<open>
  The Sonarr adapter (\<^verbatim>\<open>src/internal/adapters/sonarr\<close>): reading the managed state,
  computing the change set and applying it. The service is the parameter \<open>api\<close>: per
  resource an endpoint (\<open>Endpoint\<close>) with list, get, post and put, and one delete, each an action on the
  service's state \<open>'s\<close>. The package variables \<^verbatim>\<open>managedProfileID\<close> and
  \<^verbatim>\<open>namingConfigID\<close>, which the read path writes and the diff reads, are the record
  \<open>SonarrVars\<close>, passed beside the service's state. A failed type assertion on a payload and
  a dereference of a nil ID are panics.
\<close>

section \<open>The service and the package variables\<close>

record 's SonarrAPI =
  api_system :: "('s, SystemResource) endpoint"
  api_tags :: "('s, TagResource) endpoint"
  api_health :: "('s, HealthResource) endpoint"
  api_profiles :: "('s, QualityProfileResource) endpoint"
  api_clients :: "('s, DownloadClientResource) endpoint"
  api_indexers :: "('s, IndexerResource) endpoint"
  api_folders :: "('s, RootFolderResource) endpoint"
  api_mappings :: "('s, RemotePathMappingResource) endpoint"
  api_naming :: "('s, NamingConfigResource) endpoint"
  api_lists :: "('s, ImportListResource) endpoint"
  api_media :: "('s, MediaManagementConfigResource) endpoint"
  api_host :: "('s, HostConfigResource) endpoint"
  api_notifications :: "('s, NotificationResource) endpoint"
  api_formats :: "('s, CustomFormatResource) endpoint"
  api_delays :: "('s, DelayProfileResource) endpoint"
  api_delete :: "string \<Rightarrow> ('s, unit) action"

record SonarrVars =
  managedProfileID :: "int option"
  namingConfigID :: int

definition initial_vars :: SonarrVars where
  "initial_vars = \<lparr>managedProfileID = None, namingConfigID = 1\<rparr>"

section \<open>Connect and discover (adapter.go)\<close>

definition Connect :: "'s SonarrAPI \<Rightarrow> ('s, ServiceInfo) action" where
  "Connect api =
     andThen (wrap_err ''failed to connect to Sonarr'' (ep_get (api_system api) ''/api/v3/system/status'')) (\<lambda>status.
       give \<lparr>si_Version = sys_Version status,
             si_StartTime = (case sys_StartTime status of Some t \<Rightarrow> t | None \<Rightarrow> 0)\<rparr>)"

definition Discover :: "int \<Rightarrow> 's SonarrAPI \<Rightarrow> ('s, Capabilities) action" where
  "Discover now api =
     andThen (try_types (ep_list (api_clients api) ''/api/v3/downloadclient/schema'')
                (\<lambda>r. bdc_Implementation (dcr_Base r))) (\<lambda>dcTypes.
     andThen (try_types (ep_list (api_indexers api) ''/api/v3/indexer/schema'')
                (\<lambda>r. bix_Implementation (ixr_Base r))) (\<lambda>idxTypes.
     give \<lparr>cap_DiscoveredAt = now, cap_Resolutions = [''2160p'', ''1080p'', ''720p'', ''480p''],
           cap_Sources = [''bluray'', ''webdl'', ''webrip'', ''hdtv'', ''dvd''], cap_CustomFormatSpecs = [],
           cap_AudioTiers = [], cap_DownloadClientTypes = dcTypes, cap_IndexerTypes = idxTypes\<rparr>))"

section \<open>Reading the managed state\<close>

definition nebularr_profile :: "QualityProfileResource \<Rightarrow> bool" where
  "nebularr_profile p \<longleftrightarrow> length (qpr_Name p) > 9 \<and> take 9 (qpr_Name p) = ''nebularr-''"

definition getManagedQualityProfiles :: "'s SonarrAPI \<Rightarrow> (SonarrVars \<times> 's, VideoQualityIR list) action" where
  "getManagedQualityProfiles api =
     andThen (on_service (ep_list (api_profiles api) ''/api/v3/qualityprofile'')) (\<lambda>profiles vs.
       let managed = filter nebularr_profile profiles
       in (Ok (map profileToIR managed),
           (if managed = [] then fst vs else (fst vs)\<lparr>managedProfileID := Some (qpr_ID (last managed))\<rparr>, snd vs)))"

definition getManagedDownloadClients :: "'s SonarrAPI \<Rightarrow> int \<Rightarrow> ('s, DownloadClientIR list) action" where
  "getManagedDownloadClients api tagID =
     andThen (ep_list (api_clients api) ''/api/v3/downloadclient'') (\<lambda>clients.
       give (map clientToIR (filter (\<lambda>dc. HasTag (bdc_Tags (dcr_Base dc)) tagID) clients)))"

definition getManagedIndexers :: "'s SonarrAPI \<Rightarrow> int \<Rightarrow> ('s, IndexerIR list) action" where
  "getManagedIndexers api tagID =
     andThen (ep_list (api_indexers api) ''/api/v3/indexer'') (\<lambda>indexers.
       give (map indexerToIR (filter (\<lambda>idx. HasTag (bix_Tags (ixr_Base idx)) tagID) indexers)))"

definition getRootFolders :: "'s SonarrAPI \<Rightarrow> ('s, RootFolderIR list) action" where
  "getRootFolders api =
     andThen (ep_list (api_folders api) ''/api/v3/rootfolder'') (\<lambda>folders. give (map folderToIR folders))"

definition getRemotePathMappings :: "'s SonarrAPI \<Rightarrow> ('s, RemotePathMappingIR list) action" where
  "getRemotePathMappings api =
     andThen (wrap_err ''failed to get remote path mappings'' (ep_list (api_mappings api) ''/api/v3/remotepathmapping''))
       (\<lambda>mappings. give (map mappingToIR mappings))"

definition getNamingConfig :: "'s SonarrAPI \<Rightarrow> (SonarrVars \<times> 's, SonarrNamingIR) action" where
  "getNamingConfig api =
     andThen (on_service (ep_get (api_naming api) ''/api/v3/config/naming'')) (\<lambda>naming vs.
       (Ok (namingToIR naming), ((fst vs)\<lparr>namingConfigID := ncr_ID naming\<rparr>, snd vs)))"

definition getImportLists :: "'s SonarrAPI \<Rightarrow> ('s, ImportListResource list) action" where
  "getImportLists api = wrap_err ''failed to get import lists'' (ep_list (api_lists api) ''/api/v3/importlist'')"

definition getImportListSchemas :: "'s SonarrAPI \<Rightarrow> ('s, ImportListResource list) action" where
  "getImportListSchemas api =
     wrap_err ''failed to get import list schemas'' (ep_list (api_lists api) ''/api/v3/importlist/schema'')"

definition getManagedImportLists :: "(GoValue \<Rightarrow> string) \<Rightarrow> 's SonarrAPI \<Rightarrow> int \<Rightarrow> ('s, ImportListIR list) action" where
  "getManagedImportLists sprint api tagID =
     andThen (getImportLists api) (\<lambda>all.
       give (map (importListToIR sprint) (filter (\<lambda>l. HasTag (ilr_Tags l) tagID) all)))"

definition mediaManagementAPIPath :: string where
  "mediaManagementAPIPath = ''/api/v3/config/mediamanagement''"

definition hostConfigAPIPath :: string where
  "hostConfigAPIPath = ''/api/v3/config/host''"

definition getMediaManagementIR :: "'s SonarrAPI \<Rightarrow> ('s, MediaManagementIR) action" where
  "getMediaManagementIR api =
     andThen (FetchConfig (ep_get (api_media api)) mediaManagementAPIPath) (\<lambda>config. give (mediaToIR config))"

definition getAuthenticationIR :: "'s SonarrAPI \<Rightarrow> ('s, AuthenticationIR) action" where
  "getAuthenticationIR api = GetAuthenticationIR (ep_get (api_host api)) hostConfigAPIPath"

definition getManagedNotifications :: "'s SonarrAPI \<Rightarrow> int \<Rightarrow> ('s, NotificationIR list) action" where
  "getManagedNotifications api tagID =
     andThen (wrap_err ''failed to get notifications'' (ep_list (api_notifications api) ''/api/v3/notification''))
       (\<lambda>ns. give (map notificationToIR (filter (\<lambda>n. HasTag (ntr_Tags n) tagID) ns)))"

definition getAllCustomFormats :: "(GoValue \<Rightarrow> string) \<Rightarrow> 's SonarrAPI \<Rightarrow> ('s, CustomFormatIR list) action" where
  "getAllCustomFormats sprint api =
     andThen (wrap_err ''failed to get custom formats'' (ep_list (api_formats api) ''/api/v3/customformat''))
       (\<lambda>cfs. give (map (customFormatToIR sprint) cfs))"

definition getManagedDelayProfiles :: "'s SonarrAPI \<Rightarrow> ('s, DelayProfileIR list) action" where
  "getManagedDelayProfiles api =
     andThen (wrap_err ''failed to get delay profiles'' (ep_list (api_delays api) ''/api/v3/delayprofile''))
       (\<lambda>ps. give (map delayProfileToIR ps))"

definition read_state :: "(GoValue \<Rightarrow> string) \<Rightarrow> 's SonarrAPI \<Rightarrow> int \<Rightarrow> IR \<Rightarrow> (SonarrVars \<times> 's, IR) action" where
  "read_state sprint api tagID ir =
     andThen (try_set (getManagedQualityProfiles api) (\<lambda>ps ir. case ps of [] \<Rightarrow> ir
       | p # _ \<Rightarrow> ir\<lparr>ir_Quality := Some \<lparr>q_Video = Some p, q_Audio = None, q_Book = None\<rparr>\<rparr>) ir) (\<lambda>ir.
     andThen (try_set (on_service (getManagedDownloadClients api tagID)) (\<lambda>x ir. ir\<lparr>ir_DownloadClients := x\<rparr>) ir) (\<lambda>ir.
     andThen (try_set (on_service (getManagedIndexers api tagID)) (\<lambda>x ir. if length x > 0
       then ir\<lparr>ir_Indexers := Some \<lparr>idxs_ProwlarrRef = None, idxs_Direct = x\<rparr>\<rparr> else ir) ir) (\<lambda>ir.
     andThen (try_set (on_service (getRootFolders api)) (\<lambda>x ir. ir\<lparr>ir_RootFolders := x\<rparr>) ir) (\<lambda>ir.
     andThen (try_set (on_service (getRemotePathMappings api)) (\<lambda>x ir. ir\<lparr>ir_RemotePathMappings := x\<rparr>) ir) (\<lambda>ir.
     andThen (try_set (getNamingConfig api) (\<lambda>x ir.
       ir\<lparr>ir_Naming := Some \<lparr>nm_Radarr = None, nm_Sonarr = Some x, nm_Lidarr = None\<rparr>\<rparr>) ir) (\<lambda>ir.
     andThen (try_set (on_service (getManagedImportLists sprint api tagID)) (\<lambda>x ir. ir\<lparr>ir_ImportLists := x\<rparr>) ir) (\<lambda>ir.
     andThen (try_set (on_service (getMediaManagementIR api)) (\<lambda>x ir. ir\<lparr>ir_MediaManagement := Some x\<rparr>) ir) (\<lambda>ir.
     andThen (try_set (on_service (getAuthenticationIR api)) (\<lambda>x ir. ir\<lparr>ir_Authentication := Some x\<rparr>) ir) (\<lambda>ir.
     andThen (try_set (on_service (getManagedNotifications api tagID)) (\<lambda>x ir. ir\<lparr>ir_Notifications := x\<rparr>) ir) (\<lambda>ir.
     andThen (try_set (on_service (getAllCustomFormats sprint api)) (\<lambda>x ir. ir\<lparr>ir_CustomFormats := x\<rparr>) ir) (\<lambda>ir.
     try_set (on_service (getManagedDelayProfiles api)) (\<lambda>x ir. ir\<lparr>ir_DelayProfiles := x\<rparr>) ir)))))))))))"

definition CurrentState ::
    "(GoValue \<Rightarrow> string) \<Rightarrow> int \<Rightarrow> 's SonarrAPI \<Rightarrow> ConnectionIR \<Rightarrow> (SonarrVars \<times> 's, IR) action" where
  "CurrentState sprint now api conn vs =
     (let ir = zero_IR\<lparr>ir_Version := IRVersion, ir_GeneratedAt := now, ir_App := AppSonarr, ir_Connection := Some conn\<rparr>
      in case on_service (GetOwnershipTagID (ep_list (api_tags api)) ''v3'') vs of
           (Err _, vs') \<Rightarrow> (Ok ir, vs')
         | (Panic p, vs') \<Rightarrow> (Panic p, vs')
         | (Ok tagID, vs') \<Rightarrow> read_state sprint api tagID ir vs')"

section \<open>Diff\<close>

definition diffQualityProfiles :: "SonarrVars \<Rightarrow> IR \<Rightarrow> IR \<Rightarrow> ChangeSet \<Rightarrow> ChangeSet" where
  "diffQualityProfiles vars current desired changes =
     DiffQualityProfiles (Option.bind (ir_Quality current) q_Video) (Option.bind (ir_Quality desired) q_Video)
       (managedProfileID vars) changes"

definition diffIndexers :: "range_order \<Rightarrow> IR \<Rightarrow> IR \<Rightarrow> ChangeSet \<Rightarrow> ChangeSet" where
  "diffIndexers ord current desired changes =
     DiffIndexersWithIR ord
       (case ir_Indexers current of None \<Rightarrow> [] | Some ix \<Rightarrow> idxs_Direct ix)
       (case ir_Indexers desired of None \<Rightarrow> [] | Some ix \<Rightarrow> idxs_Direct ix) changes"

definition namingNeedsUpdate :: "SonarrNamingIR option \<Rightarrow> SonarrNamingIR \<Rightarrow> bool" where
  "namingNeedsUpdate current desired =
     (case current of
        None \<Rightarrow> True
      | Some c \<Rightarrow>
          sn_RenameEpisodes c \<noteq> sn_RenameEpisodes desired \<or>
          sn_StandardEpisodeFormat c \<noteq> sn_StandardEpisodeFormat desired \<or>
          sn_DailyEpisodeFormat c \<noteq> sn_DailyEpisodeFormat desired \<or>
          sn_AnimeEpisodeFormat c \<noteq> sn_AnimeEpisodeFormat desired \<or>
          sn_SeriesFolderFormat c \<noteq> sn_SeriesFolderFormat desired \<or>
          sn_SeasonFolderFormat c \<noteq> sn_SeasonFolderFormat desired)"

definition diffNaming :: "SonarrVars \<Rightarrow> IR \<Rightarrow> IR \<Rightarrow> ChangeSet \<Rightarrow> ChangeSet" where
  "diffNaming vars current desired changes =
     (case Option.bind (ir_Naming desired) nm_Sonarr of
        None \<Rightarrow> changes
      | Some desiredNaming \<Rightarrow>
          if namingNeedsUpdate (Option.bind (ir_Naming current) nm_Sonarr) desiredNaming
          then add_update \<lparr>ch_ResourceType = ResourceNamingConfig, ch_Name = ''naming'',
                 ch_ID = Some (namingConfigID vars), ch_Payload = SonarrNamingPtr desiredNaming\<rparr> changes
          else changes)"

text \<open>
  \<^verbatim>\<open>notificationsEqual\<close>. The loop over the fields returns false at the first mismatch,
  whatever the order.
\<close>

definition notificationsEqual :: "(GoValue \<Rightarrow> string) \<Rightarrow> NotificationIR \<Rightarrow> NotificationIR \<Rightarrow> bool" where
  "notificationsEqual sprint a b =
     (if nt_Implementation a \<noteq> nt_Implementation b then False
      else if nt_OnGrab a \<noteq> nt_OnGrab b \<or> nt_OnDownload a \<noteq> nt_OnDownload b \<or> nt_OnUpgrade a \<noteq> nt_OnUpgrade b then False
      else if nt_OnRename a \<noteq> nt_OnRename b \<or> nt_OnHealthIssue a \<noteq> nt_OnHealthIssue b
              \<or> nt_OnHealthRestored a \<noteq> nt_OnHealthRestored b then False
      else if nt_OnApplicationUpdate a \<noteq> nt_OnApplicationUpdate b
              \<or> nt_OnManualInteractionRequired a \<noteq> nt_OnManualInteractionRequired b then False
      else if nt_IncludeHealthWarnings a \<noteq> nt_IncludeHealthWarnings b then False
      else if nt_OnSeriesAdd a \<noteq> nt_OnSeriesAdd b \<or> nt_OnSeriesDelete a \<noteq> nt_OnSeriesDelete b then False
      else if nt_OnEpisodeFileDelete a \<noteq> nt_OnEpisodeFileDelete b
              \<or> nt_OnEpisodeFileDeleteForUpgrade a \<noteq> nt_OnEpisodeFileDeleteForUpgrade b then False
      else if length (nt_Fields a) \<noteq> length (nt_Fields b) then False
      else list_all (\<lambda>(k, v). case map_of (nt_Fields b) k of
             None \<Rightarrow> False | Some bv \<Rightarrow> sprint v = sprint bv) (nt_Fields a))"

definition diffNotifications ::
    "(GoValue \<Rightarrow> string) \<Rightarrow> range_order \<Rightarrow> NotificationIR list \<Rightarrow> NotificationIR list \<Rightarrow> ChangeSet \<Rightarrow> ChangeSet" where
  "diffNotifications sprint ord current desired changes =
     (let currentMap = index_by nt_Name current;
          desiredMap = index_by nt_Name desired;
          changes1 = fold (\<lambda>(name, desiredN) cs.
            case map_of currentMap name of
              None \<Rightarrow> add_create \<lparr>ch_ResourceType = ResourceNotification, ch_Name = name,
                        ch_ID = None, ch_Payload = NotificationPtr desiredN\<rparr> cs
            | Some currentN \<Rightarrow>
                if \<not> notificationsEqual sprint currentN desiredN
                then add_update \<lparr>ch_ResourceType = ResourceNotification, ch_Name = name,
                       ch_ID = Some (nt_ID currentN),
                       ch_Payload = NotificationPtr (desiredN\<lparr>nt_ID := nt_ID currentN\<rparr>)\<rparr> cs
                else cs) (gm_range ord 0 desiredMap) changes
      in fold (\<lambda>(name, currentN) cs.
            case map_of desiredMap name of
              None \<Rightarrow> add_delete \<lparr>ch_ResourceType = ResourceNotification, ch_Name = name,
                        ch_ID = Some (nt_ID currentN), ch_Payload = NoPayload\<rparr> cs
            | Some _ \<Rightarrow> cs) (gm_range ord 1 currentMap) changes1)"

text \<open>The loop of \<^verbatim>\<open>customFormatsEqual\<close> compares position by position.\<close>

fun specs_equal :: "FormatSpecIR list \<Rightarrow> FormatSpecIR list \<Rightarrow> bool" where
  "specs_equal (a # as) (b # bs) =
     (if fs_Type a \<noteq> fs_Type b \<or> fs_Name a \<noteq> fs_Name b then False
      else if fs_Negate a \<noteq> fs_Negate b \<or> fs_Required a \<noteq> fs_Required b then False
      else if fs_Value a \<noteq> fs_Value b then False
      else specs_equal as bs)"
| "specs_equal as bs = True"

definition customFormatsEqual :: "CustomFormatIR \<Rightarrow> CustomFormatIR \<Rightarrow> bool" where
  "customFormatsEqual a b =
     (if cf_IncludeWhenRenaming a \<noteq> cf_IncludeWhenRenaming b then False
      else if length (cf_Specifications a) \<noteq> length (cf_Specifications b) then False
      else specs_equal (cf_Specifications a) (cf_Specifications b))"

definition diffCustomFormats ::
    "range_order \<Rightarrow> CustomFormatIR list \<Rightarrow> CustomFormatIR list \<Rightarrow> ChangeSet \<Rightarrow> ChangeSet" where
  "diffCustomFormats ord current desired changes =
     (let currentMap = index_by cf_Name current;
          desiredMap = index_by cf_Name desired;
          changes1 = fold (\<lambda>(name, desiredCF) cs.
            case map_of currentMap name of
              None \<Rightarrow> add_create \<lparr>ch_ResourceType = ResourceCustomFormat, ch_Name = name,
                        ch_ID = None, ch_Payload = CustomFormatPtr desiredCF\<rparr> cs
            | Some currentCF \<Rightarrow>
                if \<not> customFormatsEqual currentCF desiredCF
                then add_update \<lparr>ch_ResourceType = ResourceCustomFormat, ch_Name = name,
                       ch_ID = Some (cf_ID currentCF),
                       ch_Payload = CustomFormatPtr (desiredCF\<lparr>cf_ID := cf_ID currentCF\<rparr>)\<rparr> cs
                else cs) (gm_range ord 0 desiredMap) changes
      in fold (\<lambda>(name, currentCF) cs.
            case map_of desiredMap name of
              None \<Rightarrow> add_delete \<lparr>ch_ResourceType = ResourceCustomFormat, ch_Name = name,
                        ch_ID = Some (cf_ID currentCF), ch_Payload = NoPayload\<rparr> cs
            | Some _ \<Rightarrow> cs) (gm_range ord 1 currentMap) changes1)"

definition Diff :: "(GoValue \<Rightarrow> string) \<Rightarrow> range_order \<Rightarrow> SonarrVars \<Rightarrow> IR \<Rightarrow> IR \<Rightarrow> ChangeSet" where
  "Diff sprint ord vars current desired =
     (let c = no_changes;
          c = diffQualityProfiles vars current desired c;
          c = DiffDownloadClientsWithIR (diff_order 0 ord) (ir_DownloadClients current) (ir_DownloadClients desired) c;
          c = diffIndexers (diff_order 1 ord) current desired c;
          c = DiffRootFolders (ir_RootFolders current) (ir_RootFolders desired) c;
          c = DiffRemotePathMappings (diff_order 2 ord) (ir_RemotePathMappings current) (ir_RemotePathMappings desired) c;
          c = diffNaming vars current desired c;
          c = diffNotifications sprint (diff_order 3 ord) (ir_Notifications current) (ir_Notifications desired) c;
          c = diffCustomFormats (diff_order 4 ord) (ir_CustomFormats current) (ir_CustomFormats desired) c
      in DiffDelayProfiles (ir_DelayProfiles current) (ir_DelayProfiles desired) c)"

section \<open>Apply (apply.go)\<close>

definition buildFormatItems ::
    "range_order \<Rightarrow> 's SonarrAPI \<Rightarrow> (string \<times> int) list \<Rightarrow> ProfileFormatItem list \<Rightarrow> ('s, ProfileFormatItem list) action" where
  "buildFormatItems ord api formatScores schemaItems =
     (if length formatScores = 0 then give schemaItems
      else andThen (wrap_err ''failed to get custom formats'' (ep_list (api_formats api) ''/api/v3/customformat''))
             (\<lambda>formats. give (merge_format_items ord formatScores schemaItems formats)))"

text \<open>What \<^verbatim>\<open>createQualityProfile\<close> and \<^verbatim>\<open>updateQualityProfile\<close> share: the resource to send.\<close>

definition profile_resource ::
    "range_order \<Rightarrow> 's SonarrAPI \<Rightarrow> int \<Rightarrow> VideoQualityIR \<Rightarrow> ('s, QualityProfileResource) action" where
  "profile_resource ord api i profile =
     andThen (wrap_err ''failed to get quality profile schema''
                (ep_get (api_profiles api) ''/api/v3/qualityprofile/schema'')) (\<lambda>schema.
       let (items, cutoffID) = processSchemaItems (qpr_Items schema)
             (buildAllowedQualitiesMap (vq_Tiers profile)) (vq_Cutoff profile)
       in andThen (wrap_err ''failed to build format items''
                     (buildFormatItems ord api (vq_FormatScores profile) (qpr_FormatItems schema))) (\<lambda>formatItems.
            give \<lparr>qpr_ID = i, qpr_Name = vq_ProfileName profile, qpr_UpgradeAllowed = vq_UpgradeAllowed profile,
                  qpr_Cutoff = cutoffID, qpr_Items = items, qpr_FormatItems = formatItems,
                  qpr_MinFormatScore = vq_MinimumCustomFormatScore profile,
                  qpr_MinUpgradeFormatScore = qpr_MinUpgradeFormatScore schema,
                  qpr_CutoffFormatScore = vq_UpgradeUntilCustomFormatScore profile\<rparr>))"

definition createQualityProfile :: "range_order \<Rightarrow> 's SonarrAPI \<Rightarrow> VideoQualityIR \<Rightarrow> ('s, unit) action" where
  "createQualityProfile ord api profile =
     andThen (profile_resource ord api 0 profile) (\<lambda>resource.
       discard (ep_post (api_profiles api) ''/api/v3/qualityprofile'' resource))"

definition updateQualityProfile :: "range_order \<Rightarrow> 's SonarrAPI \<Rightarrow> int \<Rightarrow> VideoQualityIR \<Rightarrow> ('s, unit) action" where
  "updateQualityProfile ord api i profile =
     andThen (profile_resource ord api i profile) (\<lambda>resource.
       discard (ep_put (api_profiles api) (''/api/v3/qualityprofile/'' @ Itoa i) resource))"

definition createCustomFormat :: "'s SonarrAPI \<Rightarrow> CustomFormatIR \<Rightarrow> ('s, unit) action" where
  "createCustomFormat api ir =
     wrap_err ''failed to create custom format''
       (discard (ep_post (api_formats api) ''/api/v3/customformat'' (irToCustomFormat ir)))"

definition updateCustomFormat :: "'s SonarrAPI \<Rightarrow> CustomFormatIR \<Rightarrow> ('s, unit) action" where
  "updateCustomFormat api ir =
     wrap_err ''failed to update custom format''
       (discard (ep_put (api_formats api) (''/api/v3/customformat/'' @ Itoa (cf_ID ir)) (irToCustomFormat ir)))"

definition deleteCustomFormat :: "'s SonarrAPI \<Rightarrow> int \<Rightarrow> ('s, unit) action" where
  "deleteCustomFormat api i =
     wrap_err ''failed to delete custom format'' (api_delete api (''/api/v3/customformat/'' @ Itoa i))"

definition createDownloadClient :: "'s SonarrAPI \<Rightarrow> DownloadClientIR \<Rightarrow> int \<Rightarrow> ('s, unit) action" where
  "createDownloadClient api dc tagID =
     discard (ep_post (api_clients api) ''/api/v3/downloadclient'' (downloadClientFromIR dc tagID))"

definition set_client_id :: "int \<Rightarrow> DownloadClientResource \<Rightarrow> DownloadClientResource" where
  "set_client_id i r = r\<lparr>dcr_Base := (dcr_Base r)\<lparr>bdc_ID := i\<rparr>\<rparr>"

definition updateDownloadClient :: "'s SonarrAPI \<Rightarrow> int \<Rightarrow> DownloadClientIR \<Rightarrow> int \<Rightarrow> ('s, unit) action" where
  "updateDownloadClient api i dc tagID =
     discard (ep_put (api_clients api) (''/api/v3/downloadclient/'' @ Itoa i)
       (set_client_id i (downloadClientFromIR dc tagID)))"

definition createIndexer :: "'s SonarrAPI \<Rightarrow> IndexerIR \<Rightarrow> int \<Rightarrow> ('s, unit) action" where
  "createIndexer api idx tagID =
     discard (ep_post (api_indexers api) ''/api/v3/indexer'' (indexerFromIR idx tagID))"

definition set_indexer_id :: "int \<Rightarrow> IndexerResource \<Rightarrow> IndexerResource" where
  "set_indexer_id i r = r\<lparr>ixr_Base := (ixr_Base r)\<lparr>bix_ID := i\<rparr>\<rparr>"

definition updateIndexer :: "'s SonarrAPI \<Rightarrow> int \<Rightarrow> IndexerIR \<Rightarrow> int \<Rightarrow> ('s, unit) action" where
  "updateIndexer api i idx tagID =
     discard (ep_put (api_indexers api) (''/api/v3/indexer/'' @ Itoa i) (set_indexer_id i (indexerFromIR idx tagID)))"

definition createRootFolder :: "'s SonarrAPI \<Rightarrow> RootFolderIR \<Rightarrow> ('s, unit) action" where
  "createRootFolder api rf =
     discard (ep_post (api_folders api) ''/api/v3/rootfolder'' \<lparr>rfr_ID = 0, rfr_Path = rf_Path rf\<rparr>)"

definition updateNaming :: "'s SonarrAPI \<Rightarrow> int \<Rightarrow> SonarrNamingIR \<Rightarrow> ('s, unit) action" where
  "updateNaming api configID naming =
     discard (ep_put (api_naming api) ''/api/v3/config/naming'' (namingFromIR configID naming))"

definition createRemotePathMapping :: "'s SonarrAPI \<Rightarrow> RemotePathMappingIR \<Rightarrow> ('s, unit) action" where
  "createRemotePathMapping api ir =
     wrap_err ''failed to create remote path mapping''
       (discard (ep_post (api_mappings api) ''/api/v3/remotepathmapping'' (mappingFromIR 0 ir)))"

definition updateRemotePathMapping :: "'s SonarrAPI \<Rightarrow> RemotePathMappingIR \<Rightarrow> ('s, unit) action" where
  "updateRemotePathMapping api ir =
     wrap_err ''failed to update remote path mapping''
       (discard (ep_put (api_mappings api) (''/api/v3/remotepathmapping/'' @ Itoa (rpm_ID ir)) (mappingFromIR (rpm_ID ir) ir)))"

definition deleteRemotePathMapping :: "'s SonarrAPI \<Rightarrow> int \<Rightarrow> ('s, unit) action" where
  "deleteRemotePathMapping api i =
     wrap_err ''failed to delete remote path mapping'' (api_delete api (''/api/v3/remotepathmapping/'' @ Itoa i))"

definition createNotification :: "range_order \<Rightarrow> 's SonarrAPI \<Rightarrow> NotificationIR \<Rightarrow> int \<Rightarrow> ('s, unit) action" where
  "createNotification ord api ir tagID =
     wrap_err ''failed to create notification''
       (discard (ep_post (api_notifications api) ''/api/v3/notification'' (irToNotification ord ir tagID)))"

definition updateNotification :: "range_order \<Rightarrow> 's SonarrAPI \<Rightarrow> NotificationIR \<Rightarrow> int \<Rightarrow> ('s, unit) action" where
  "updateNotification ord api ir tagID =
     wrap_err ''failed to update notification''
       (discard (ep_put (api_notifications api) (''/api/v3/notification/'' @ Itoa (nt_ID ir)) (irToNotification ord ir tagID)))"

definition deleteNotification :: "'s SonarrAPI \<Rightarrow> int \<Rightarrow> ('s, unit) action" where
  "deleteNotification api i =
     wrap_err ''failed to delete notification'' (api_delete api (''/api/v3/notification/'' @ Itoa i))"

definition createDelayProfile :: "'s SonarrAPI \<Rightarrow> DelayProfileIR \<Rightarrow> int \<Rightarrow> ('s, unit) action" where
  "createDelayProfile api ir tagID =
     discard (ep_post (api_delays api) ''/api/v3/delayprofile'' (irToDelayProfile ir (delay_tag_ids ir tagID)))"

definition updateDelayProfile :: "'s SonarrAPI \<Rightarrow> DelayProfileIR \<Rightarrow> int \<Rightarrow> ('s, unit) action" where
  "updateDelayProfile api ir tagID =
     discard (ep_put (api_delays api) (''/api/v3/delayprofile/'' @ Itoa (dp_ID ir))
       ((irToDelayProfile ir (delay_tag_ids ir tagID))\<lparr>bdp_ID := dp_ID ir\<rparr>))"

definition deleteDelayProfile :: "'s SonarrAPI \<Rightarrow> int \<Rightarrow> ('s, unit) action" where
  "deleteDelayProfile api i = api_delete api (''/api/v3/delayprofile/'' @ Itoa i)"

definition applyCreate :: "range_order \<Rightarrow> 's SonarrAPI \<Rightarrow> int \<Rightarrow> Change \<Rightarrow> ('s, unit) action" where
  "applyCreate ord api tagID change =
     (if ch_ResourceType change = ResourceQualityProfile
      then (case ch_Payload change of VideoQualityPtr p \<Rightarrow> createQualityProfile ord api p | _ \<Rightarrow> panics ''interface conversion'')
      else if ch_ResourceType change = ResourceCustomFormat
      then (case ch_Payload change of CustomFormatPtr p \<Rightarrow> createCustomFormat api p | _ \<Rightarrow> panics ''interface conversion'')
      else if ch_ResourceType change = ResourceDownloadClient
      then (case ch_Payload change of DownloadClientVal p \<Rightarrow> createDownloadClient api p tagID | _ \<Rightarrow> panics ''interface conversion'')
      else if ch_ResourceType change = ResourceIndexer
      then (case ch_Payload change of IndexerVal p \<Rightarrow> createIndexer api p tagID | _ \<Rightarrow> panics ''interface conversion'')
      else if ch_ResourceType change = ResourceRootFolder
      then (case ch_Payload change of RootFolderVal p \<Rightarrow> createRootFolder api p | _ \<Rightarrow> panics ''interface conversion'')
      else if ch_ResourceType change = ResourceRemotePathMapping
      then (case ch_Payload change of RemotePathMappingPtr p \<Rightarrow> createRemotePathMapping api p | _ \<Rightarrow> panics ''interface conversion'')
      else if ch_ResourceType change = ResourceNotification
      then (case ch_Payload change of NotificationPtr p \<Rightarrow> createNotification ord api p tagID | _ \<Rightarrow> panics ''interface conversion'')
      else if ch_ResourceType change = ResourceDelayProfile
      then (case ch_Payload change of DelayProfilePtr p \<Rightarrow> createDelayProfile api p tagID | _ \<Rightarrow> panics ''interface conversion'')
      else fail (''unsupported resource type for create: '' @ ch_ResourceType change))"

definition with_id :: "Change \<Rightarrow> (int \<Rightarrow> ('s, unit) action) \<Rightarrow> ('s, unit) action" where
  "with_id change f = (case ch_ID change of Some i \<Rightarrow> f i | None \<Rightarrow> panics ''nil pointer dereference'')"

definition applyUpdate :: "range_order \<Rightarrow> 's SonarrAPI \<Rightarrow> SonarrVars \<Rightarrow> int \<Rightarrow> Change \<Rightarrow> ('s, unit) action" where
  "applyUpdate ord api vars tagID change =
     (if ch_ResourceType change = ResourceQualityProfile
      then with_id change (\<lambda>i. case ch_Payload change of VideoQualityPtr p \<Rightarrow> updateQualityProfile ord api i p | _ \<Rightarrow> panics ''interface conversion'')
      else if ch_ResourceType change = ResourceCustomFormat
      then (case ch_Payload change of CustomFormatPtr p \<Rightarrow> updateCustomFormat api p | _ \<Rightarrow> panics ''interface conversion'')
      else if ch_ResourceType change = ResourceDownloadClient
      then with_id change (\<lambda>i. case ch_Payload change of DownloadClientVal p \<Rightarrow> updateDownloadClient api i p tagID | _ \<Rightarrow> panics ''interface conversion'')
      else if ch_ResourceType change = ResourceIndexer
      then with_id change (\<lambda>i. case ch_Payload change of IndexerVal p \<Rightarrow> updateIndexer api i p tagID | _ \<Rightarrow> panics ''interface conversion'')
      else if ch_ResourceType change = ResourceNamingConfig
      then (case ch_Payload change of SonarrNamingPtr p \<Rightarrow> updateNaming api (namingConfigID vars) p | _ \<Rightarrow> panics ''interface conversion'')
      else if ch_ResourceType change = ResourceRemotePathMapping
      then (case ch_Payload change of RemotePathMappingPtr p \<Rightarrow> updateRemotePathMapping api p | _ \<Rightarrow> panics ''interface conversion'')
      else if ch_ResourceType change = ResourceNotification
      then (case ch_Payload change of NotificationPtr p \<Rightarrow> updateNotification ord api p tagID | _ \<Rightarrow> panics ''interface conversion'')
      else if ch_ResourceType change = ResourceDelayProfile
      then (case ch_Payload change of DelayProfilePtr p \<Rightarrow> updateDelayProfile api p tagID | _ \<Rightarrow> panics ''interface conversion'')
      else fail (''unsupported resource type for update: '' @ ch_ResourceType change))"

definition applyDelete :: "'s SonarrAPI \<Rightarrow> Change \<Rightarrow> ('s, unit) action" where
  "applyDelete api change =
     (case ch_ID change of
        None \<Rightarrow> fail ''cannot delete resource without ID''
      | Some i \<Rightarrow>
          if ch_ResourceType change = ResourceQualityProfile then api_delete api (''/api/v3/qualityprofile/'' @ Itoa i)
          else if ch_ResourceType change = ResourceCustomFormat then deleteCustomFormat api i
          else if ch_ResourceType change = ResourceDownloadClient then api_delete api (''/api/v3/downloadclient/'' @ Itoa i)
          else if ch_ResourceType change = ResourceIndexer then api_delete api (''/api/v3/indexer/'' @ Itoa i)
          else if ch_ResourceType change = ResourceRootFolder then api_delete api (''/api/v3/rootfolder/'' @ Itoa i)
          else if ch_ResourceType change = ResourceRemotePathMapping then deleteRemotePathMapping api i
          else if ch_ResourceType change = ResourceNotification then deleteNotification api i
          else if ch_ResourceType change = ResourceDelayProfile then deleteDelayProfile api i
          else fail (''unsupported resource type for delete: '' @ ch_ResourceType change))"

definition ensureOwnershipTag :: "'s SonarrAPI \<Rightarrow> ('s, int) action" where
  "ensureOwnershipTag api = EnsureOwnershipTag (ep_list (api_tags api)) (ep_post (api_tags api)) ''v3''"

text \<open>Each change has its own choice of orders: \<open>ords c\<close> is the one of the maps its payload holds.\<close>

definition Apply ::
    "(Change \<Rightarrow> range_order) \<Rightarrow> 's SonarrAPI \<Rightarrow> SonarrVars \<Rightarrow> ChangeSet \<Rightarrow> ('s, ApplyResult) action" where
  "Apply ords api vars changes =
     andThen (wrap_err ''failed to ensure ownership tag'' (ensureOwnershipTag api)) (\<lambda>tagID.
       ApplyChanges changes (\<lambda>change. applyCreate (ords change) api tagID change)
         (\<lambda>change. applyUpdate (ords change) api vars tagID change) (\<lambda>change. applyDelete api change))"

section \<open>Direct apply (importlists.go, mediamanagement.go, authentication.go)\<close>

definition hasTag :: "int list \<Rightarrow> int \<Rightarrow> bool" where
  "hasTag tags tagID = HasTag tags tagID"

record ImportListApplyStats =
  ias_Created :: int
  ias_Updated :: int
  ias_Deleted :: int
  ias_Skipped :: int
  ias_Errors :: "string list"

definition zero_stats :: ImportListApplyStats where
  "zero_stats = \<lparr>ias_Created = 0, ias_Updated = 0, ias_Deleted = 0, ias_Skipped = 0, ias_Errors = []\<rparr>"

definition add_stat_error :: "string \<Rightarrow> ImportListApplyStats \<Rightarrow> ImportListApplyStats" where
  "add_stat_error e stats = stats\<lparr>ias_Errors := ias_Errors stats @ [e]\<rparr>"

definition createImportList :: "'s SonarrAPI \<Rightarrow> ImportListResource \<Rightarrow> ('s, unit) action" where
  "createImportList api payload = discard (ep_post (api_lists api) ''/api/v3/importlist'' payload)"

definition updateImportList :: "'s SonarrAPI \<Rightarrow> ImportListResource \<Rightarrow> ('s, unit) action" where
  "updateImportList api payload =
     discard (ep_put (api_lists api) (''/api/v3/importlist/'' @ Itoa (ilr_ID payload)) payload)"

definition deleteImportList :: "'s SonarrAPI \<Rightarrow> int \<Rightarrow> ('s, unit) action" where
  "deleteImportList api i = api_delete api (''/api/v3/importlist/'' @ Itoa i)"

text \<open>\<^verbatim>\<open>if err := m(); err != nil { stats.Errors = append(...) } else { stats.X++ }\<close>\<close>

definition count_call ::
    "('s, unit) action \<Rightarrow> string \<Rightarrow> (ImportListApplyStats \<Rightarrow> ImportListApplyStats) \<Rightarrow> ImportListApplyStats
     \<Rightarrow> ('s, ImportListApplyStats) action" where
  "count_call m msg bump stats =
     or_else (andThen m (\<lambda>_. give (bump stats))) (\<lambda>e. give (add_stat_error (msg @ '': '' @ e) stats))"

definition upsert_import_list ::
    "range_order \<Rightarrow> 's SonarrAPI \<Rightarrow> (string, ImportListResource) gomap \<Rightarrow> ImportListResource list \<Rightarrow> int
     \<Rightarrow> ImportListIR \<Rightarrow> ImportListApplyStats \<Rightarrow> ('s, ImportListApplyStats) action" where
  "upsert_import_list ord api existingByName schemas tagID l stats =
     (case findSchemaByType schemas (il_Type l) of
        None \<Rightarrow> give (add_stat_error (''unknown import list type '' @ il_Type l @ '' for '' @ il_Name l)
                  (stats\<lparr>ias_Skipped := ias_Skipped stats + 1\<rparr>))
      | Some schema \<Rightarrow>
          let payload = irToImportList l schema (buildImportListFields ord (il_Settings l) schema) tagID
          in case map_of existingByName (il_Name l) of
               None \<Rightarrow> count_call (createImportList api payload) (''failed to create import list '' @ il_Name l)
                 (\<lambda>st. st\<lparr>ias_Created := ias_Created st + 1\<rparr>) stats
             | Some existingList \<Rightarrow>
                 count_call (updateImportList api (payload\<lparr>ilr_ID := ilr_ID existingList\<rparr>))
                   (''failed to update import list '' @ il_Name l)
                   (\<lambda>st. st\<lparr>ias_Updated := ias_Updated st + 1\<rparr>) stats)"

text \<open>The loop over the desired lists; its \<open>k\<close>-th settings map is ranged over as loop \<open>k\<close>.\<close>

fun upsert_import_lists ::
    "range_order \<Rightarrow> nat \<Rightarrow> 's SonarrAPI \<Rightarrow> (string, ImportListResource) gomap \<Rightarrow> ImportListResource list \<Rightarrow> int
     \<Rightarrow> ImportListIR list \<Rightarrow> ImportListApplyStats \<Rightarrow> ('s, ImportListApplyStats) action" where
  "upsert_import_lists ord k api existingByName schemas tagID [] stats = give stats"
| "upsert_import_lists ord k api existingByName schemas tagID (l # rest) stats =
     andThen (upsert_import_list (\<lambda>_. ord k) api existingByName schemas tagID l stats) (\<lambda>stats.
       upsert_import_lists ord (k + 1) api existingByName schemas tagID rest stats)"

fun delete_orphans ::
    "'s SonarrAPI \<Rightarrow> (string, bool) gomap \<Rightarrow> int \<Rightarrow> (string \<times> ImportListResource) list \<Rightarrow> ImportListApplyStats
     \<Rightarrow> ('s, ImportListApplyStats) action" where
  "delete_orphans api desiredNames tagID [] stats = give stats"
| "delete_orphans api desiredNames tagID ((name, existingList) # rest) stats =
     (if \<not> gm_flag desiredNames name \<and> hasTag (ilr_Tags existingList) tagID
      then andThen (count_call (deleteImportList api (ilr_ID existingList)) (''failed to delete import list '' @ name)
             (\<lambda>st. st\<lparr>ias_Deleted := ias_Deleted st + 1\<rparr>) stats) (\<lambda>stats.
             delete_orphans api desiredNames tagID rest stats)
      else delete_orphans api desiredNames tagID rest stats)"

definition applyImportLists :: "range_order \<Rightarrow> 's SonarrAPI \<Rightarrow> IR \<Rightarrow> int \<Rightarrow> ('s, ImportListApplyStats) action" where
  "applyImportLists ord api ir tagID =
     (if length (ir_ImportLists ir) = 0 then give zero_stats
      else andThen (wrap_err ''failed to get existing import lists'' (getImportLists api)) (\<lambda>existing.
           andThen (wrap_err ''failed to get import list schemas'' (getImportListSchemas api)) (\<lambda>schemas.
           let existingByName = index_by ilr_Name existing;
               desiredNames = set_of_slice (map il_Name (ir_ImportLists ir))
           in andThen (upsert_import_lists ord 1 api existingByName schemas tagID (ir_ImportLists ir) zero_stats) (\<lambda>stats.
                delete_orphans api desiredNames tagID (gm_range ord 0 existingByName) stats))))"

definition applyMediaManagement :: "'s SonarrAPI \<Rightarrow> MediaManagementIR option \<Rightarrow> ('s, unit) action" where
  "applyMediaManagement api ir =
     (case ir of
        None \<Rightarrow> give ()
      | Some ir \<Rightarrow>
          andThen (wrap_err ''failed to get current media management config''
                     (FetchConfig (ep_get (api_media api)) mediaManagementAPIPath)) (\<lambda>current.
            UpdateConfig (ep_put (api_media api)) mediaManagementAPIPath (mcr_ID current) (set_media_fields ir current)))"

definition applyAuthentication :: "'s SonarrAPI \<Rightarrow> AuthenticationIR option \<Rightarrow> ('s, unit) action" where
  "applyAuthentication api ir =
     ApplyAuthentication (ep_get (api_host api)) (ep_put (api_host api)) hostConfigAPIPath ir"

definition direct_stats :: "ImportListApplyStats \<Rightarrow> ImportListStats" where
  "direct_stats stats =
     \<lparr>ils_Created = ias_Created stats, ils_Updated = ias_Updated stats, ils_Deleted = ias_Deleted stats,
      ils_Skipped = ias_Skipped stats, ils_Errors = ias_Errors stats\<rparr>"

definition ApplyDirect :: "range_order \<Rightarrow> 's SonarrAPI \<Rightarrow> IR \<Rightarrow> ('s, ApplyResult) action" where
  "ApplyDirect ord api ir =
     andThen (wrap_err ''failed to ensure ownership tag'' (ensureOwnershipTag api)) (\<lambda>tagID.
       Shared_Apply.ApplyDirect ir
         \<lparr>cb_ApplyImportLists = Some (andThen (applyImportLists ord api ir tagID) (\<lambda>stats. give (Some (direct_stats stats)))),
          cb_ApplyMediaManagement = Some (applyMediaManagement api (ir_MediaManagement ir)),
          cb_ApplyAuthentication = Some (applyAuthentication api (ir_Authentication ir))\<rparr>)"

definition GetHealth :: "'s SonarrAPI \<Rightarrow> ('s, HealthStatus) action" where
  "GetHealth api = Shared_Service.GetHealth (ep_list (api_health api)) ''v3''"

section \<open>The routines meet the contract\<close>

definition nt_create :: "string \<Rightarrow> NotificationIR \<Rightarrow> Change" where
  "nt_create name d = \<lparr>ch_ResourceType = ResourceNotification, ch_Name = name, ch_ID = None,
                       ch_Payload = NotificationPtr d\<rparr>"

definition nt_update :: "string \<Rightarrow> NotificationIR \<Rightarrow> NotificationIR \<Rightarrow> Change" where
  "nt_update name c d = \<lparr>ch_ResourceType = ResourceNotification, ch_Name = name, ch_ID = Some (nt_ID c),
                         ch_Payload = NotificationPtr (d\<lparr>nt_ID := nt_ID c\<rparr>)\<rparr>"

definition nt_delete :: "string \<Rightarrow> NotificationIR \<Rightarrow> Change" where
  "nt_delete name c = \<lparr>ch_ResourceType = ResourceNotification, ch_Name = name, ch_ID = Some (nt_ID c),
                       ch_Payload = NoPayload\<rparr>"

definition cf_create :: "string \<Rightarrow> CustomFormatIR \<Rightarrow> Change" where
  "cf_create name d = \<lparr>ch_ResourceType = ResourceCustomFormat, ch_Name = name, ch_ID = None,
                       ch_Payload = CustomFormatPtr d\<rparr>"

definition cf_update :: "string \<Rightarrow> CustomFormatIR \<Rightarrow> CustomFormatIR \<Rightarrow> Change" where
  "cf_update name c d = \<lparr>ch_ResourceType = ResourceCustomFormat, ch_Name = name, ch_ID = Some (cf_ID c),
                         ch_Payload = CustomFormatPtr (d\<lparr>cf_ID := cf_ID c\<rparr>)\<rparr>"

definition cf_delete :: "string \<Rightarrow> CustomFormatIR \<Rightarrow> Change" where
  "cf_delete name c = \<lparr>ch_ResourceType = ResourceCustomFormat, ch_Name = name, ch_ID = Some (cf_ID c),
                       ch_Payload = NoPayload\<rparr>"

interpretation nts: keyed_diff nt_Name "notificationsEqual sprint" nt_create nt_update nt_delete "diffNotifications sprint"
  for sprint
  by (unfold_locales, unfold diffNotifications_def upsert_loop_def delete_loop_def
      nt_create_def nt_update_def nt_delete_def Let_def, rule refl)

interpretation formats: keyed_diff cf_Name customFormatsEqual cf_create cf_update cf_delete diffCustomFormats
  by (unfold_locales, unfold diffCustomFormats_def upsert_loop_def delete_loop_def
      cf_create_def cf_update_def cf_delete_def Let_def, rule refl)

end
