(* ===== verification/Collection.thy ===== *)
theory Collection
  imports Endpoint
begin

text \<open>
  Between the convergence of a keyed diff and an adapter: a REST collection of a service.
  \<open>rest_collection\<close> names what the operator relies on from the service, \<open>resource_codec\<close> is
  the interface an adapter's conversions provide (what is read back for a resource that was
  sent is accepted by the comparison, and carries the ownership tag), and the lemmas inside
  it show that the adapter's create, update and delete then meet the laws under which
  \<open>keyed_diff.apply_diff\<close> converges, with the resources of other owners left as they are.
\<close>

section \<open>The service\<close>

text \<open>
  Listing changes nothing; a post of a resource whose name is free adds it under a fresh
  ID; a put replaces the resource with that ID, as long as no other one has its name; a
  delete removes it. What the service lists for a resource it received is \<open>store i r\<close>.
\<close>

definition rest_collection ::
    "('s, 'r list) action \<Rightarrow> ('r \<Rightarrow> ('s, 'r) action) \<Rightarrow> (int \<Rightarrow> 'r \<Rightarrow> ('s, 'r) action) \<Rightarrow> (int \<Rightarrow> ('s, unit) action)
     \<Rightarrow> ('s \<Rightarrow> 'r list) \<Rightarrow> ('r \<Rightarrow> int) \<Rightarrow> ('r \<Rightarrow> string) \<Rightarrow> (int \<Rightarrow> 'r \<Rightarrow> 'r) \<Rightarrow> bool" where
  "rest_collection lst post put del listed rid rname store \<longleftrightarrow>
     (\<forall>s. lst s = (Ok (listed s), s)) \<and>
     (\<forall>r s. rname r \<notin> rname ` set (listed s) \<longrightarrow>
        (\<exists>i r' s'. post r s = (Ok r', s') \<and> i \<notin> rid ` set (listed s) \<and> listed s' = listed s @ [store i r])) \<and>
     (\<forall>i r s. i \<in> rid ` set (listed s) \<and> (\<forall>x \<in> set (listed s). rname x = rname r \<longrightarrow> rid x = i) \<longrightarrow>
        (\<exists>r' s'. put i r s = (Ok r', s') \<and>
           listed s' = map (\<lambda>x. if rid x = i then store i r else x) (listed s))) \<and>
     (\<forall>i s. i \<in> rid ` set (listed s) \<longrightarrow>
        (\<exists>s'. del i s = (Ok (), s') \<and> listed s' = filter (\<lambda>x. rid x \<noteq> i) (listed s)))"

lemma rest_collectionD:
  assumes "rest_collection lst post put del listed rid rname store"
  shows "lst s = (Ok (listed s), s)"
    and "rname r \<notin> rname ` set (listed s) \<Longrightarrow>
      \<exists>i r' s'. post r s = (Ok r', s') \<and> i \<notin> rid ` set (listed s) \<and> listed s' = listed s @ [store i r]"
    and "i \<in> rid ` set (listed s) \<Longrightarrow> \<forall>x \<in> set (listed s). rname x = rname r \<longrightarrow> rid x = i \<Longrightarrow>
      \<exists>r' s'. put i r s = (Ok r', s') \<and> listed s' = map (\<lambda>x. if rid x = i then store i r else x) (listed s)"
    and "i \<in> rid ` set (listed s) \<Longrightarrow>
      \<exists>s'. del i s = (Ok (), s') \<and> listed s' = filter (\<lambda>x. rid x \<noteq> i) (listed s)"
  by (rule assms [unfolded rest_collection_def, THEN conjunct1, THEN spec],
      erule assms [unfolded rest_collection_def, THEN conjunct2, THEN conjunct1, THEN spec, THEN spec, THEN mp],
      rule assms [unfolded rest_collection_def, THEN conjunct2, THEN conjunct2, THEN conjunct1,
        THEN spec, THEN spec, THEN spec, THEN mp], erule conjI, assumption,
      erule assms [unfolded rest_collection_def, THEN conjunct2, THEN conjunct2, THEN conjunct2, THEN spec, THEN spec, THEN mp])

text \<open>
  What holds of the collection throughout: IDs and names are unique and the resources of
  other owners are the ones of the beginning.
\<close>

definition collection_kept ::
    "('r \<Rightarrow> int) \<Rightarrow> ('r \<Rightarrow> string) \<Rightarrow> ('r \<Rightarrow> bool) \<Rightarrow> 'r list \<Rightarrow> 'r list \<Rightarrow> bool" where
  "collection_kept rid rname mine others rs \<longleftrightarrow>
     distinct (map rid rs) \<and> distinct (map rname rs) \<and> filter (\<lambda>r. \<not> mine r) rs = others"

lemma latest_iff:
  "distinct (map key xs) \<Longrightarrow> latest key xs k = Some x \<longleftrightarrow> x \<in> set xs \<and> key x = k"
  using latest_distinct latest_SomeD by metis

lemma filter_replace: "\<not> P x \<Longrightarrow> \<not> P y \<Longrightarrow> filter P (map (\<lambda>z. if z = x then y else z) zs) = filter P zs"
  by (induction zs) auto

lemma find_by_name:
  assumes "distinct (map key xs)" and "x \<in> set xs" and "key x = k"
  shows "find (\<lambda>x. key x = k) xs = Some x"
  using assms by (induction xs) auto

section \<open>The interface of an adapter's conversions\<close>

locale wire_codec =
  fixes key :: "'a \<Rightarrow> string"
    and same :: "'a \<Rightarrow> 'a \<Rightarrow> bool"
    and sendable :: "'a \<Rightarrow> bool"
    and rid :: "'r \<Rightarrow> int"
    and rname :: "'r \<Rightarrow> string"
    and mine :: "'r \<Rightarrow> bool"
    and toIR :: "'r \<Rightarrow> 'a"
    and send :: "'a \<Rightarrow> 'r"
    and resend :: "int \<Rightarrow> 'a \<Rightarrow> 'r"
    and store :: "int \<Rightarrow> 'r \<Rightarrow> 'r"
  assumes key_toIR: "key (toIR r) = rname r"
    and store_rid: "rid (store i r) = i"
    and store_rname: "rname (store i r) = rname r"
    and send_rname: "rname (send d) = key d"
    and store_resend: "store i (resend i d) = store i (send d)"
    and store_mine: "sendable d \<Longrightarrow> mine (store i (send d))"
    and round_trip: "sendable d \<Longrightarrow> same (toIR (store i (send d))) d"
begin

definition managed :: "'r list \<Rightarrow> 'a list" where
  "managed rs = map toIR (filter mine rs)"

lemma resend_rname: "rname (resend i d) = key d"
  by (metis send_rname store_resend store_rname)

lemma view_iff:
  assumes "distinct (map rname rs)"
  shows "latest key (managed rs) k = Some c \<longleftrightarrow> (\<exists>r \<in> set rs. mine r \<and> rname r = k \<and> c = toIR r)"
proof -
  have "map key (managed rs) = map rname (filter mine rs)"
    by (simp add: managed_def key_toIR)
  then have "distinct (map key (managed rs))"
    using assms by (simp only: distinct_map_filter)
  then show ?thesis
    by (auto simp only: latest_iff) (auto simp: managed_def key_toIR)
qed

lemma view_None_iff: "latest key (managed rs) k = None \<longleftrightarrow> (\<forall>r \<in> set rs. mine r \<longrightarrow> rname r \<noteq> k)"
  by (auto simp: latest_None_iff managed_def key_toIR image_image)

lemma view_eqI:
  assumes "distinct (map rname rs)" and "\<And>k. m k = None \<longleftrightarrow> (\<forall>r \<in> set rs. mine r \<longrightarrow> rname r \<noteq> k)"
    and "\<And>r. r \<in> set rs \<Longrightarrow> mine r \<Longrightarrow> m (rname r) = Some (toIR r)"
  shows "latest key (managed rs) = m"
proof
  fix k
  show "latest key (managed rs) k = m k"
  proof (cases "latest key (managed rs) k")
    case None
    then show ?thesis using assms(2) [of k] by (simp add: view_None_iff)
  next
    case (Some c)
    then show ?thesis using assms(3) by (auto simp: view_iff [OF assms(1)])
  qed
qed

text \<open>What a post, a put and a delete of the service do to the managed resources.\<close>

lemma post_effect:
  assumes svc: "rest_collection lst post put del listed rid rname store"
    and kept: "collection_kept rid rname mine others (listed s)"
    and d: "key d \<notin> rname ` set others" "sendable d" "latest key (managed (listed s)) (key d) = None"
  shows "\<exists>i r' s'. post (send d) s = (Ok r', s') \<and> i \<notin> rid ` set (listed s) \<and> listed s' = listed s @ [store i (send d)] \<and>
    collection_kept rid rname mine others (listed s') \<and> same (toIR (store i (send d))) d \<and>
    latest key (managed (listed s')) = (latest key (managed (listed s)))(key d \<mapsto> toIR (store i (send d)))"
proof -
  have free: "\<forall>r \<in> set (listed s). rname r \<noteq> key d"
    using kept d unfolding collection_kept_def view_None_iff by force
  then have "rname (send d) \<notin> rname ` set (listed s)" by (auto simp: send_rname)
  then obtain i r' s' where s': "post (send d) s = (Ok r', s')" "i \<notin> rid ` set (listed s)"
      "listed s' = listed s @ [store i (send d)]"
    using rest_collectionD(2) [OF svc] by blast
  have kept': "collection_kept rid rname mine others (listed s')"
    using kept s' free d(2) by (auto simp: collection_kept_def store_rid store_rname send_rname store_mine)
  have dist: "distinct (map rname (listed s))" using kept by (simp add: collection_kept_def)
  have "latest key (managed (listed s')) = (latest key (managed (listed s)))(key d \<mapsto> toIR (store i (send d)))"
    using kept' free d(2)
    by (intro view_eqI) (auto simp: collection_kept_def s' view_None_iff view_iff [OF dist] store_mine store_rname send_rname)
  then show ?thesis using s' kept' round_trip [OF d(2)] by blast
qed

lemma put_effect:
  assumes svc: "rest_collection lst post put del listed rid rname store"
    and kept: "collection_kept rid rname mine others (listed s)"
    and r: "r \<in> set (listed s)" "mine r" "rname r = key d" and d: "sendable d"
  shows "\<exists>r' s'. put (rid r) (resend (rid r) d) s = (Ok r', s') \<and>
    listed s' = map (\<lambda>x. if rid x = rid r then store (rid r) (send d) else x) (listed s) \<and>
    collection_kept rid rname mine others (listed s') \<and> same (toIR (store (rid r) (send d))) d \<and>
    latest key (managed (listed s')) = (latest key (managed (listed s)))(key d \<mapsto> toIR (store (rid r) (send d)))"
proof -
  define y where "y = store (rid r) (send d)"
  define rs where "rs = map (\<lambda>x. if rid x = rid r then y else x) (listed s)"
  have dist: "distinct (map rid (listed s))" "distinct (map rname (listed s))"
      and others: "filter (\<lambda>r. \<not> mine r) (listed s) = others"
    using kept by (auto simp: collection_kept_def)
  have only: "rid x = rid r \<longleftrightarrow> x = r" "rname x = key d \<longleftrightarrow> x = r" if "x \<in> set (listed s)" for x
    using dist that r by (auto simp: distinct_map inj_on_def)
  have y: "rid y = rid r" "rname y = key d" "mine y" "same (toIR y) d"
    using d by (simp_all add: y_def store_rid store_rname send_rname store_mine round_trip)
  have "\<exists>r' s'. put (rid r) (resend (rid r) d) s = (Ok r', s') \<and> listed s' = rs"
  proof -
    have "rid r \<in> rid ` set (listed s)" using r(1) by simp
    moreover have "\<forall>x \<in> set (listed s). rname x = rname (resend (rid r) d) \<longrightarrow> rid x = rid r"
      using only by (auto simp: resend_rname)
    ultimately show ?thesis
      using rest_collectionD(3) [OF svc, of "rid r" s "resend (rid r) d"]
      by (simp only: rs_def y_def store_resend)
  qed
  then obtain r' s' where s': "put (rid r) (resend (rid r) d) s = (Ok r', s')" "listed s' = rs" by blast
  have "map rid rs = map rid (listed s)" "map rname rs = map rname (listed s)"
    using y only r(3) by (auto simp: rs_def)
  moreover have "filter (\<lambda>r. \<not> mine r) rs = filter (\<lambda>r. \<not> mine r) (map (\<lambda>x. if x = r then y else x) (listed s))"
    using only by (simp add: rs_def cong: map_cong)
  moreover have "\<dots> = filter (\<lambda>r. \<not> mine r) (listed s)"
    using r(2) y(3) by (intro filter_replace) simp_all
  ultimately have kept': "collection_kept rid rname mine others rs"
    using dist others by (simp add: collection_kept_def)
  have "latest key (managed rs) = (latest key (managed (listed s)))(key d \<mapsto> toIR y)"
    using kept' only y r by (intro view_eqI)
      (auto simp: collection_kept_def rs_def view_None_iff view_iff [OF dist(2)])
  then show ?thesis using s' kept' y(4) by (auto simp: rs_def y_def)
qed

lemma delete_effect:
  assumes svc: "rest_collection lst post put del listed rid rname store"
    and kept: "collection_kept rid rname mine others (listed s)" and r: "r \<in> set (listed s)" "mine r"
  shows "\<exists>s'. del (rid r) s = (Ok (), s') \<and> listed s' = filter (\<lambda>x. rid x \<noteq> rid r) (listed s) \<and>
    collection_kept rid rname mine others (listed s') \<and>
    latest key (managed (listed s')) = (latest key (managed (listed s)))(rname r := None)"
proof -
  have dist: "distinct (map rid (listed s))" "distinct (map rname (listed s))"
      and others: "filter (\<lambda>r. \<not> mine r) (listed s) = others"
    using kept by (auto simp: collection_kept_def)
  have only: "rid x = rid r \<longleftrightarrow> x = r" "rname x = rname r \<longleftrightarrow> x = r" if "x \<in> set (listed s)" for x
    using dist that r by (auto simp: distinct_map inj_on_def)
  obtain s' where s': "del (rid r) s = (Ok (), s')" "listed s' = filter (\<lambda>x. rid x \<noteq> rid r) (listed s)"
    using rest_collectionD(4) [OF svc, of "rid r" s] r by auto
  have "filter (\<lambda>x. \<not> mine x \<and> rid x \<noteq> rid r) (listed s) = filter (\<lambda>x. \<not> mine x) (listed s)"
    using only r(2) by (intro filter_cong) auto
  then have kept': "collection_kept rid rname mine others (listed s')"
    using dist others s'(2) by (simp add: collection_kept_def distinct_map_filter conj_commute)
  have "latest key (managed (listed s')) = (latest key (managed (listed s)))(rname r := None)"
    using kept' only r s'(2) by (intro view_eqI)
      (auto simp: collection_kept_def view_None_iff view_iff [OF dist(2)])
  then show ?thesis using s' kept' by blast
qed

lemma managed_resource:
  assumes "collection_kept rid rname mine others rs" and "latest key (managed rs) k = Some c"
  obtains r where "r \<in> set rs" "mine r" "rname r = k" "c = toIR r"
  using assms by (auto simp: collection_kept_def view_iff)


text \<open>The laws of an adapter's callbacks: a create posts, an update puts, a delete looks the resource up by its name.\<close>

lemma create_law:
  assumes svc: "rest_collection lst post put del listed rid rname store"
    and want: "\<And>k d. want k = Some d \<Longrightarrow> key d = k \<and> sendable d \<and> k \<notin> rname ` set others"
    and fn: "\<And>k d. createFn (mkC k d) = andThen (post (send d)) (\<lambda>_. give ())"
  shows "creates_resource (\<lambda>s. collection_kept rid rname mine others (listed s)) (\<lambda>s. latest key (managed (listed s)))
    same want mkC createFn"
  unfolding creates_resource_def
proof (intro allI impI, elim conjE)
  fix k d s
  assume kept: "collection_kept rid rname mine others (listed s)" and d: "want k = Some d"
    and "latest key (managed (listed s)) k = None"
  with want [OF d] obtain i r' s' where "post (send d) s = (Ok r', s')"
      "collection_kept rid rname mine others (listed s')" "same (toIR (store i (send d))) d"
      "latest key (managed (listed s')) = (latest key (managed (listed s)))(k \<mapsto> toIR (store i (send d)))"
    using post_effect [OF svc kept, of d] by auto
  then show "\<exists>x s'. createFn (mkC k d) s = (Ok (), s') \<and> collection_kept rid rname mine others (listed s') \<and>
      same x d \<and> latest key (managed (listed s')) = (latest key (managed (listed s)))(k \<mapsto> x)"
    by (auto simp: fn give_def)
qed

lemma update_law:
  assumes svc: "rest_collection lst post put del listed rid rname store"
    and want: "\<And>k d. want k = Some d \<Longrightarrow> key d = k \<and> sendable d"
    and fn: "\<And>k r d. updateFn (mkU k (toIR r) d) = andThen (put (rid r) (resend (rid r) d)) (\<lambda>_. give ())"
  shows "updates_resource (\<lambda>s. collection_kept rid rname mine others (listed s)) (\<lambda>s. latest key (managed (listed s)))
    same want mkU updateFn"
  unfolding updates_resource_def
proof (intro allI impI, elim conjE)
  fix k c d s
  assume kept: "collection_kept rid rname mine others (listed s)" and d: "want k = Some d"
    and "latest key (managed (listed s)) k = Some c"
  then obtain r where r: "r \<in> set (listed s)" "mine r" "rname r = k" "c = toIR r"
    using managed_resource [OF kept] by blast
  then obtain r' s' where "put (rid r) (resend (rid r) d) s = (Ok r', s')"
      "collection_kept rid rname mine others (listed s')" "same (toIR (store (rid r) (send d))) d"
      "latest key (managed (listed s')) = (latest key (managed (listed s)))(k \<mapsto> toIR (store (rid r) (send d)))"
    using put_effect [OF svc kept r(1,2), of d] want [OF d] by auto
  then show "\<exists>x s'. updateFn (mkU k c d) s = (Ok (), s') \<and> collection_kept rid rname mine others (listed s') \<and>
      same x d \<and> latest key (managed (listed s')) = (latest key (managed (listed s)))(k \<mapsto> x)"
    using r(4) by (auto simp: fn give_def)
qed

text \<open>An update that does nothing is right where everything counts as the same.\<close>

lemma no_update_law:
  assumes "\<And>c d. same c d" and "\<And>k c d. updateFn (mkU k c d) = give ()"
  shows "updates_resource P (\<lambda>s. latest key (managed (listed s))) same want mkU updateFn"
  unfolding updates_resource_def
proof (intro allI impI, elim conjE)
  fix k c d s
  assume "P s" and c: "latest key (managed (listed s)) k = Some c"
  moreover from c have "latest key (managed (listed s)) = (latest key (managed (listed s)))(k \<mapsto> c)"
    by (rule map_upd_triv [symmetric])
  ultimately show "\<exists>x s'. updateFn (mkU k c d) s = (Ok (), s') \<and> P s' \<and> same x d \<and>
      latest key (managed (listed s')) = (latest key (managed (listed s)))(k \<mapsto> x)"
    using assms by (intro exI [of _ c] exI [of _ s]) (simp add: give_def)
qed

lemma delete_by_name_law:
  assumes svc: "rest_collection lst post put del listed rid rname store"
    and fn: "\<And>k c. deleteFn (mkD k c) =
      andThen lst (\<lambda>rs. case find (\<lambda>r. rname r = k) rs of None \<Rightarrow> give () | Some r \<Rightarrow> del (rid r))"
  shows "deletes_resource (\<lambda>s. collection_kept rid rname mine others (listed s)) (\<lambda>s. latest key (managed (listed s)))
    mkD deleteFn"
  unfolding deletes_resource_def
proof (intro allI impI, elim conjE)
  fix k c s
  assume kept: "collection_kept rid rname mine others (listed s)"
    and "latest key (managed (listed s)) k = Some c"
  then obtain r where r: "r \<in> set (listed s)" "mine r" "rname r = k" "c = toIR r" by (rule managed_resource)
  moreover have "find (\<lambda>r. rname r = k) (listed s) = Some r"
    using kept r(1,3) by (intro find_by_name) (auto simp: collection_kept_def)
  ultimately have "deleteFn (mkD k c) s = del (rid r) s"
    by (simp add: fn rest_collectionD(1) [OF svc])
  with delete_effect [OF svc kept r(1,2)]
  show "\<exists>s'. deleteFn (mkD k c) s = (Ok (), s') \<and> collection_kept rid rname mine others (listed s') \<and>
      latest key (managed (listed s')) = (latest key (managed (listed s)))(k := None)"
    using r(3) by auto
qed

end

text \<open>Conversions whose results carry the ID of the resource: the changes of a diff name it.\<close>

locale resource_codec = wire_codec key same sendable rid rname mine toIR send resend store
  for key :: "'a \<Rightarrow> string" and same sendable and rid :: "'r \<Rightarrow> int" and rname mine toIR send resend store +
  fixes ident :: "'a \<Rightarrow> int"
  assumes ident_toIR: "ident (toIR r) = rid r"
begin

lemma delete_law:
  assumes svc: "rest_collection lst post put del listed rid rname store"
    and fn: "\<And>k c. deleteFn (mkD k c) = del (ident c)"
  shows "deletes_resource (\<lambda>s. collection_kept rid rname mine others (listed s)) (\<lambda>s. latest key (managed (listed s)))
    mkD deleteFn"
  unfolding deletes_resource_def
proof (intro allI impI, elim conjE)
  fix k c s
  assume kept: "collection_kept rid rname mine others (listed s)"
    and "latest key (managed (listed s)) k = Some c"
  then obtain r where r: "r \<in> set (listed s)" "mine r" "rname r = k" "c = toIR r" by (rule managed_resource)
  from delete_effect [OF svc kept r(1,2)]
  show "\<exists>s'. deleteFn (mkD k c) s = (Ok (), s') \<and> collection_kept rid rname mine others (listed s') \<and>
      latest key (managed (listed s')) = (latest key (managed (listed s)))(k := None)"
    using r(3,4) by (auto simp: fn ident_toIR)
qed

end

section \<open>One pass over a collection\<close>

locale codec_collection =
  keyed_diff key same mkC mkU mkD diff + wire_codec key same sendable rid rname mine toIR send resend store
  for key :: "'a \<Rightarrow> string" and same mkC mkU mkD diff sendable
    and rid :: "'r \<Rightarrow> int" and rname mine toIR send resend store
begin

lemma wanted_free:
  assumes "\<forall>d \<in> set desired. sendable d" and "\<forall>d \<in> set desired. \<forall>r \<in> set rs. rname r = key d \<longrightarrow> mine r"
    and "latest key desired k = Some d"
  shows "key d = k \<and> sendable d \<and> k \<notin> rname ` set (filter (\<lambda>r. \<not> mine r) rs)"
  using latest_SomeD [OF assms(3)] assms(1,2) by auto

lemma settles:
  fixes listed :: "'s \<Rightarrow> 'r list" and s :: 's
  defines "kept \<equiv> \<lambda>s'. collection_kept rid rname mine (filter (\<lambda>r. \<not> mine r) (listed s)) (listed s')"
  assumes laws: "creates_resource kept (\<lambda>s. latest key (managed (listed s))) same (latest key desired) mkC createFn"
      "updates_resource kept (\<lambda>s. latest key (managed (listed s))) same (latest key desired) mkU updateFn"
      "deletes_resource kept (\<lambda>s. latest key (managed (listed s))) mkD deleteFn"
    and ords: "valid_order ord" "valid_order ord'"
    and dist: "distinct (map rid (listed s))" "distinct (map rname (listed s))"
  shows "\<exists>r s'. ApplyChanges (diff ord (managed (listed s)) desired no_changes) createFn updateFn deleteFn s = (Ok r, s') \<and>
    Success r \<and> filter (\<lambda>r. \<not> mine r) (listed s') = filter (\<lambda>r. \<not> mine r) (listed s) \<and>
    IsEmpty (diff ord' (managed (listed s')) desired no_changes)"
proof -
  have "kept s" using dist by (simp add: kept_def collection_kept_def)
  then obtain r s' where "ApplyChanges (diff ord (managed (listed s)) desired no_changes) createFn updateFn deleteFn s = (Ok r, s')"
      "Success r" "kept s'"
      and settled: "\<forall>k. settled same (latest key (managed (listed s)) k) (latest key desired k) (latest key (managed (listed s')) k)"
    using apply_diff [OF ords(1) laws refl] by blast
  then show ?thesis
    using second_diff_empty [OF ords(2) settled] by (auto simp: kept_def collection_kept_def)
qed

lemma converges_by_name:
  assumes svc: "rest_collection lst post put del listed rid rname store"
    and fns: "\<And>k d. createFn (mkC k d) = andThen (post (send d)) (\<lambda>_. give ())"
      "updates_resource (\<lambda>s'. collection_kept rid rname mine (filter (\<lambda>r. \<not> mine r) (listed s)) (listed s'))
        (\<lambda>s. latest key (managed (listed s))) same (latest key desired) mkU updateFn"
      "\<And>k c. deleteFn (mkD k c) =
        andThen lst (\<lambda>rs. case find (\<lambda>r. rname r = k) rs of None \<Rightarrow> give () | Some r \<Rightarrow> del (rid r))"
    and ords: "valid_order ord" "valid_order ord'"
    and dist: "distinct (map rid (listed s))" "distinct (map rname (listed s))"
    and des: "\<forall>d \<in> set desired. sendable d"
      "\<forall>d \<in> set desired. \<forall>r \<in> set (listed s). rname r = key d \<longrightarrow> mine r"
  shows "\<exists>r s'. ApplyChanges (diff ord (managed (listed s)) desired no_changes) createFn updateFn deleteFn s = (Ok r, s') \<and>
    Success r \<and> filter (\<lambda>r. \<not> mine r) (listed s') = filter (\<lambda>r. \<not> mine r) (listed s) \<and>
    IsEmpty (diff ord' (managed (listed s')) desired no_changes)"
  by (rule settles [OF create_law [OF svc wanted_free [OF des] fns(1)] fns(2) delete_by_name_law [OF svc fns(3)] ords dist])

end

text \<open>The same where the change names the resource's ID.\<close>

locale adapter_collection =
  codec_collection key same mkC mkU mkD diff sendable rid rname mine toIR send resend store +
  resource_codec key same sendable rid rname mine toIR send resend store ident
  for key :: "'a \<Rightarrow> string" and same mkC mkU mkD diff ident sendable
    and rid :: "'r \<Rightarrow> int" and rname mine toIR send resend store
begin

lemma converges:
  assumes svc: "rest_collection lst post put del listed rid rname store"
    and fns: "\<And>k d. createFn (mkC k d) = andThen (post (send d)) (\<lambda>_. give ())"
      "\<And>k c d. updateFn (mkU k c d) = andThen (put (ident c) (resend (ident c) d)) (\<lambda>_. give ())"
      "\<And>k c. deleteFn (mkD k c) = del (ident c)"
    and ords: "valid_order ord" "valid_order ord'"
    and dist: "distinct (map rid (listed s))" "distinct (map rname (listed s))"
    and des: "\<forall>d \<in> set desired. sendable d"
      "\<forall>d \<in> set desired. \<forall>r \<in> set (listed s). rname r = key d \<longrightarrow> mine r"
  shows "\<exists>r s'. ApplyChanges (diff ord (managed (listed s)) desired no_changes) createFn updateFn deleteFn s = (Ok r, s') \<and>
    Success r \<and> filter (\<lambda>r. \<not> mine r) (listed s') = filter (\<lambda>r. \<not> mine r) (listed s) \<and>
    IsEmpty (diff ord' (managed (listed s')) desired no_changes)"
proof -
  have want: "key d = k \<and> sendable d" if "latest key desired k = Some d" for k d
    using wanted_free [OF des that] by blast
  have upd: "updateFn (mkU k (toIR r) d) = andThen (put (rid r) (resend (rid r) d)) (\<lambda>_. give ())" for k r d
    by (simp add: fns(2) ident_toIR)
  show ?thesis
    by (rule settles [OF create_law [OF svc wanted_free [OF des] fns(1)] update_law [OF svc want upd]
          delete_law [OF svc fns(3)] ords dist])
qed

end

section \<open>A service that meets the hypotheses\<close>

lemma Itoa_inject: "Itoa i = Itoa j \<longleftrightarrow> i = j"
proof
  assume eq: "Itoa i = Itoa j"
  have dash: "CHR ''-'' # xs \<noteq> itoa_nat n" for xs n
    using itoa_nat_head [of n "CHR ''-''" xs] by auto
  have "nat a = nat b" if "itoa_nat (nat a) = itoa_nat (nat b)" for a b
    using that digits_val_itoa_nat by metis
  from this [of i j] this [of "- i" "- j"] show "i = j"
    using eq dash [of _ "nat i"] dash [of _ "nat j"]
    by (auto simp: Itoa_def split: if_splits)
qed simp

definition fresh_id :: "('r \<Rightarrow> int) \<Rightarrow> 'r list \<Rightarrow> int" where
  "fresh_id rid rs = 1 + fold max (map rid rs) 0"

lemma fresh_id: "fresh_id rid rs \<notin> rid ` set rs"
proof -
  have "a \<le> fold max xs a \<and> (\<forall>x \<in> set xs. x \<le> fold max xs a)" for xs :: "int list" and a
    by (induction xs arbitrary: a) (auto intro: order_trans [OF max.cobounded1] order_trans [OF max.cobounded2])
  from this [of 0 "map rid rs"] show ?thesis by (force simp: fresh_id_def)
qed

definition list_endpoint :: "string \<Rightarrow> ('r \<Rightarrow> int) \<Rightarrow> (int \<Rightarrow> 'r \<Rightarrow> 'r) \<Rightarrow> ('r list, 'r) endpoint" where
  "list_endpoint prefix rid store =
     \<lparr>ep_list = (\<lambda>p rs. (Ok rs, rs)), ep_get = (\<lambda>p. fail ''404''),
      ep_post = (\<lambda>p r rs. (Ok (store (fresh_id rid rs) r), rs @ [store (fresh_id rid rs) r])),
      ep_put = (\<lambda>p r rs. (Ok r, map (\<lambda>x. if p = prefix @ Itoa (rid x) then store (rid x) r else x) rs))\<rparr>"

definition list_delete :: "string \<Rightarrow> ('r \<Rightarrow> int) \<Rightarrow> string \<Rightarrow> ('r list, unit) action" where
  "list_delete prefix rid p rs = (Ok (), filter (\<lambda>x. p \<noteq> prefix @ Itoa (rid x)) rs)"

lemma list_endpoint_collection:
  "rest_collection (ep_list (list_endpoint prefix rid store) p) (ep_post (list_endpoint prefix rid store) p)
     (\<lambda>i. ep_put (list_endpoint prefix rid store) (prefix @ Itoa i)) (\<lambda>i. list_delete prefix rid (prefix @ Itoa i))
     (\<lambda>rs. rs) rid rname store"
  using fresh_id [of rid]
  by (auto simp: rest_collection_def list_endpoint_def list_delete_def Itoa_inject intro: filter_cong map_cong)

text \<open>An endpoint that is not there.\<close>

definition no_endpoint :: "('s, 'r) endpoint" where
  "no_endpoint = \<lparr>ep_list = (\<lambda>p. fail ''404''), ep_get = (\<lambda>p. fail ''404''), ep_post = (\<lambda>p r. fail ''404''),
                  ep_put = (\<lambda>p r. fail ''404'')\<rparr>"

end
