(* ===== verification/Sonarr_Converge.thy ===== *)
theory Sonarr_Converge
  imports Sonarr Collection
begin

text \<open>
  One reconciliation pass of the Sonarr adapter over a collection of the service: read the
  managed resources, diff, apply through \<^verbatim>\<open>applyCreate\<close>, \<^verbatim>\<open>applyUpdate\<close> and
  \<^verbatim>\<open>applyDelete\<close>, read again. The adapter's diffs and conversions are
  interpretations of \<open>adapter_collection\<close>, whose lemma \<open>converges\<close> carries the theorems.
\<close>

section \<open>The conversions as codecs\<close>

abbreviation client_id :: "DownloadClientResource \<Rightarrow> int" where
  "client_id r \<equiv> bdc_ID (dcr_Base r)"

abbreviation client_name :: "DownloadClientResource \<Rightarrow> string" where
  "client_name r \<equiv> bdc_Name (dcr_Base r)"

abbreviation client_owned :: "int \<Rightarrow> DownloadClientResource \<Rightarrow> bool" where
  "client_owned tagID r \<equiv> HasTag (bdc_Tags (dcr_Base r)) tagID"

abbreviation indexer_id :: "IndexerResource \<Rightarrow> int" where
  "indexer_id r \<equiv> bix_ID (ixr_Base r)"

abbreviation indexer_name :: "IndexerResource \<Rightarrow> string" where
  "indexer_name r \<equiv> bix_Name (ixr_Base r)"

abbreviation indexer_owned :: "int \<Rightarrow> IndexerResource \<Rightarrow> bool" where
  "indexer_owned tagID r \<equiv> HasTag (bix_Tags (ixr_Base r)) tagID"

lemma client_codec_simps:
  "dc_Name (clientToIR r) = client_name r" "dc_ID (clientToIR r) = client_id r"
  "client_id (answer_client hide i r) = i" "client_name (answer_client hide i r) = client_name r"
  "client_owned tagID (answer_client hide i r) = client_owned tagID r"
  "client_name (downloadClientFromIR d tagID) = dc_Name d" "client_owned tagID (downloadClientFromIR d tagID)"
  "answer_client hide i (set_client_id i r) = answer_client hide i r"
  by (simp_all add: clientToIR_def Let_def extract_dc_keeps answer_client_def downloadClientFromIR_def set_client_id_def)

lemma client_accepted:
  "exact_int (dc_Port d) \<Longrightarrow> DownloadClientsEqual (clientToIR (answer_client hide i (downloadClientFromIR d tagID))) d"
  by (simp add: client_read_back DownloadClientsEqual_def)

interpretation clients: adapter_collection dc_Name DownloadClientsEqual dc_create dc_update dc_delete
    DiffDownloadClientsWithIR dc_ID "\<lambda>d. exact_int (dc_Port d)"
    client_id client_name "client_owned tagID" clientToIR "\<lambda>d. downloadClientFromIR d tagID"
    "\<lambda>i d. set_client_id i (downloadClientFromIR d tagID)" "answer_client hide"
  for tagID hide
  by unfold_locales (simp_all add: client_codec_simps client_accepted)

definition indexer_sendable :: "IndexerIR \<Rightarrow> bool" where
  "indexer_sendable idx \<longleftrightarrow> (\<forall>c \<in> set (idx_Categories idx). exact_int c) \<and> exact_int (idx_MinimumSeeders idx)"

lemma indexer_codec_simps:
  "idx_Name (indexerToIR r) = indexer_name r" "idx_ID (indexerToIR r) = indexer_id r"
  "indexer_id (answer_indexer hide i r) = i" "indexer_name (answer_indexer hide i r) = indexer_name r"
  "indexer_owned tagID (answer_indexer hide i r) = indexer_owned tagID r"
  "indexer_name (indexerFromIR d tagID) = idx_Name d" "indexer_owned tagID (indexerFromIR d tagID)"
  "answer_indexer hide i (set_indexer_id i r) = answer_indexer hide i r"
  by (simp_all add: indexerToIR_def Let_def extract_idx_keeps answer_indexer_def indexerFromIR_def set_indexer_id_def)

lemma indexer_accepted:
  "indexer_sendable d \<Longrightarrow> IndexersEqual (indexerToIR (answer_indexer hide i (indexerFromIR d tagID))) d"
  by (simp add: indexer_read_back indexer_sendable_def IndexersEqual_def)

interpretation indexers: adapter_collection idx_Name IndexersEqual idx_create idx_update idx_delete
    DiffIndexersWithIR idx_ID indexer_sendable
    indexer_id indexer_name "indexer_owned tagID" indexerToIR "\<lambda>d. indexerFromIR d tagID"
    "\<lambda>i d. set_indexer_id i (indexerFromIR d tagID)" "answer_indexer hide"
  for tagID hide
  by unfold_locales (simp_all add: indexer_codec_simps indexer_accepted)

section \<open>Convergence\<close>

text \<open>What the operator relies on from Sonarr's download client and indexer endpoints.\<close>

definition client_service :: "(GoValue \<Rightarrow> GoValue) \<Rightarrow> 's SonarrAPI \<Rightarrow> ('s \<Rightarrow> DownloadClientResource list) \<Rightarrow> bool" where
  "client_service hide api listed \<longleftrightarrow>
     rest_collection (ep_list (api_clients api) ''/api/v3/downloadclient'')
       (ep_post (api_clients api) ''/api/v3/downloadclient'')
       (\<lambda>i. ep_put (api_clients api) (''/api/v3/downloadclient/'' @ Itoa i))
       (\<lambda>i. api_delete api (''/api/v3/downloadclient/'' @ Itoa i))
       listed client_id client_name (answer_client hide)"

definition indexer_service :: "(GoValue \<Rightarrow> GoValue) \<Rightarrow> 's SonarrAPI \<Rightarrow> ('s \<Rightarrow> IndexerResource list) \<Rightarrow> bool" where
  "indexer_service hide api listed \<longleftrightarrow>
     rest_collection (ep_list (api_indexers api) ''/api/v3/indexer'')
       (ep_post (api_indexers api) ''/api/v3/indexer'')
       (\<lambda>i. ep_put (api_indexers api) (''/api/v3/indexer/'' @ Itoa i))
       (\<lambda>i. api_delete api (''/api/v3/indexer/'' @ Itoa i))
       listed indexer_id indexer_name (answer_indexer hide)"

lemma apply_client:
  "applyCreate ord api tagID (dc_create k d) =
     andThen (ep_post (api_clients api) ''/api/v3/downloadclient'' (downloadClientFromIR d tagID)) (\<lambda>_. give ())"
  "applyUpdate ord api vars tagID (dc_update k c d) =
     andThen (ep_put (api_clients api) (''/api/v3/downloadclient/'' @ Itoa (dc_ID c))
       (set_client_id (dc_ID c) (downloadClientFromIR d tagID))) (\<lambda>_. give ())"
  "applyDelete api (dc_delete k c) = api_delete api (''/api/v3/downloadclient/'' @ Itoa (dc_ID c))"
  by (simp_all add: applyCreate_def applyUpdate_def applyDelete_def with_id_def dc_create_def dc_update_def dc_delete_def
      createDownloadClient_def updateDownloadClient_def discard_def)

lemma apply_indexer:
  "applyCreate ord api tagID (idx_create k d) =
     andThen (ep_post (api_indexers api) ''/api/v3/indexer'' (indexerFromIR d tagID)) (\<lambda>_. give ())"
  "applyUpdate ord api vars tagID (idx_update k c d) =
     andThen (ep_put (api_indexers api) (''/api/v3/indexer/'' @ Itoa (idx_ID c))
       (set_indexer_id (idx_ID c) (indexerFromIR d tagID))) (\<lambda>_. give ())"
  "applyDelete api (idx_delete k c) = api_delete api (''/api/v3/indexer/'' @ Itoa (idx_ID c))"
  by (simp_all add: applyCreate_def applyUpdate_def applyDelete_def with_id_def idx_create_def idx_update_def idx_delete_def
      createIndexer_def updateIndexer_def discard_def)

text \<open>
  C1. The Sonarr adapter converges on download clients, end to end: against a service that
  stores what it is sent, answers numbers as JSON does and may mask secrets, reading the
  managed clients, diffing and applying succeeds; the clients of other owners are exactly
  as before; and reading again gives a state whose diff is empty. The desired ports must be
  exact in a \<^verbatim>\<open>float64\<close> and no desired name may be taken by a client of another owner.
\<close>

theorem Sonarr_clients_converge:
  assumes "client_service hide api listed" and "valid_order ord" and "valid_order ord'"
    and "distinct (map client_id (listed s))" and "distinct (map client_name (listed s))"
    and "\<forall>d \<in> set desired. exact_int (dc_Port d)"
    and "\<forall>d \<in> set desired. \<forall>r \<in> set (listed s). client_name r = dc_Name d \<longrightarrow> client_owned tagID r"
    and "getManagedDownloadClients api tagID s = (Ok current, s0)"
  shows "\<exists>r s' current'.
    ApplyChanges (DiffDownloadClientsWithIR ord current desired no_changes)
      (\<lambda>c. applyCreate (ords c) api tagID c) (\<lambda>c. applyUpdate (ords c) api vars tagID c) (\<lambda>c. applyDelete api c) s0
      = (Ok r, s') \<and> Success r \<and>
    filter (\<lambda>r. \<not> client_owned tagID r) (listed s') = filter (\<lambda>r. \<not> client_owned tagID r) (listed s) \<and>
    getManagedDownloadClients api tagID s' = (Ok current', s') \<and>
    IsEmpty (DiffDownloadClientsWithIR ord' current' desired no_changes)"
proof -
  note svc = assms(1) [unfolded client_service_def]
  have read: "getManagedDownloadClients api tagID t = (Ok (clients.managed tagID (listed t)), t)" for t
    by (simp add: getManagedDownloadClients_def rest_collectionD(1) [OF svc] give_def clients.managed_def)
  then have "current = clients.managed tagID (listed s)" "s0 = s" using assms(8) by auto
  then show ?thesis
    using clients.converges [where createFn = "\<lambda>c. applyCreate (ords c) api tagID c"
        and updateFn = "\<lambda>c. applyUpdate (ords c) api vars tagID c" and deleteFn = "\<lambda>c. applyDelete api c",
        OF svc apply_client(1) apply_client(2) apply_client(3) assms(2-7)]
    by (auto simp: read)
qed

text \<open>A Sonarr that only knows download clients, or only indexers.\<close>

definition empty_api :: "'s SonarrAPI" where
  "empty_api = \<lparr>api_system = no_endpoint, api_tags = no_endpoint, api_health = no_endpoint, api_profiles = no_endpoint,
     api_clients = no_endpoint, api_indexers = no_endpoint, api_folders = no_endpoint, api_mappings = no_endpoint,
     api_naming = no_endpoint, api_lists = no_endpoint, api_media = no_endpoint, api_host = no_endpoint,
     api_notifications = no_endpoint, api_formats = no_endpoint, api_delays = no_endpoint,
     api_delete = (\<lambda>p. fail ''404'')\<rparr>"

definition client_api :: "DownloadClientResource list SonarrAPI" where
  "client_api = empty_api
     \<lparr>api_clients := list_endpoint ''/api/v3/downloadclient/'' client_id (answer_client (\<lambda>_. VString ''****'')),
      api_delete := list_delete ''/api/v3/downloadclient/'' client_id\<rparr>"

definition indexer_api :: "IndexerResource list SonarrAPI" where
  "indexer_api = empty_api
     \<lparr>api_indexers := list_endpoint ''/api/v3/indexer/'' indexer_id (answer_indexer (\<lambda>_. VString ''****'')),
      api_delete := list_delete ''/api/v3/indexer/'' indexer_id\<rparr>"

lemma client_api_service: "client_service (\<lambda>_. VString ''****'') client_api (\<lambda>rs. rs)"
proof -
  have "api_clients client_api = list_endpoint ''/api/v3/downloadclient/'' client_id (answer_client (\<lambda>_. VString ''****''))"
    "api_delete client_api = list_delete ''/api/v3/downloadclient/'' client_id"
    by (simp_all add: client_api_def)
  then show ?thesis unfolding client_service_def by (simp only: list_endpoint_collection)
qed

lemma indexer_api_service: "indexer_service (\<lambda>_. VString ''****'') indexer_api (\<lambda>rs. rs)"
proof -
  have "api_indexers indexer_api = list_endpoint ''/api/v3/indexer/'' indexer_id (answer_indexer (\<lambda>_. VString ''****''))"
    "api_delete indexer_api = list_delete ''/api/v3/indexer/'' indexer_id"
    by (simp_all add: indexer_api_def)
  then show ?thesis unfolding indexer_service_def by (simp only: list_endpoint_collection)
qed

text \<open>
  The same for indexers, whose categories and minimum seeders must be exact in a
  \<^verbatim>\<open>float64\<close>.
\<close>

theorem Sonarr_indexers_converge:
  assumes "indexer_service hide api listed" and "valid_order ord" and "valid_order ord'"
    and "distinct (map indexer_id (listed s))" and "distinct (map indexer_name (listed s))"
    and "\<forall>d \<in> set desired. indexer_sendable d"
    and "\<forall>d \<in> set desired. \<forall>r \<in> set (listed s). indexer_name r = idx_Name d \<longrightarrow> indexer_owned tagID r"
    and "getManagedIndexers api tagID s = (Ok current, s0)"
  shows "\<exists>r s' current'.
    ApplyChanges (DiffIndexersWithIR ord current desired no_changes)
      (\<lambda>c. applyCreate (ords c) api tagID c) (\<lambda>c. applyUpdate (ords c) api vars tagID c) (\<lambda>c. applyDelete api c) s0
      = (Ok r, s') \<and> Success r \<and>
    filter (\<lambda>r. \<not> indexer_owned tagID r) (listed s') = filter (\<lambda>r. \<not> indexer_owned tagID r) (listed s) \<and>
    getManagedIndexers api tagID s' = (Ok current', s') \<and>
    IsEmpty (DiffIndexersWithIR ord' current' desired no_changes)"
proof -
  note svc = assms(1) [unfolded indexer_service_def]
  have read: "getManagedIndexers api tagID t = (Ok (indexers.managed tagID (listed t)), t)" for t
    by (simp add: getManagedIndexers_def rest_collectionD(1) [OF svc] give_def indexers.managed_def)
  then have "current = indexers.managed tagID (listed s)" "s0 = s" using assms(8) by auto
  then show ?thesis
    using indexers.converges [where createFn = "\<lambda>c. applyCreate (ords c) api tagID c"
        and updateFn = "\<lambda>c. applyUpdate (ords c) api vars tagID c" and deleteFn = "\<lambda>c. applyDelete api c",
        OF svc apply_indexer(1) apply_indexer(2) apply_indexer(3) assms(2-7)]
    by (auto simp: read)
qed

text \<open>
  Two instances: a service with a client of another owner and a managed one that is no
  longer wanted, and a service with no indexer.
\<close>

definition served_clients :: "DownloadClientResource list" where
  "served_clients =
     [answer_client (\<lambda>_. VString ''****'') 1 (downloadClientFromIR (sample_dc ''mine'' 0 80) 9),
      answer_client (\<lambda>_. VString ''****'') 2 (downloadClientFromIR (sample_dc ''old'' 0 80) 3)]"

theorem Sonarr_clients_converge_witness:
  "\<exists>r s'. ApplyChanges (DiffDownloadClientsWithIR forward_order
        (map clientToIR (filter (client_owned 3) served_clients)) [sample_dc ''new'' 0 81] no_changes)
      (\<lambda>c. applyCreate forward_order client_api 3 c) (\<lambda>c. applyUpdate forward_order client_api initial_vars 3 c)
      (\<lambda>c. applyDelete client_api c) served_clients = (Ok r, s') \<and> Success r \<and>
    map client_name (filter (\<lambda>r. \<not> client_owned 3 r) s') = [''mine'']"
proof -
  have names: "map client_name served_clients = [''mine'', ''old'']" "map client_id served_clients = [1, 2]"
    and others: "map client_name (filter (\<lambda>r. \<not> client_owned 3 r) served_clients) = [''mine'']"
    by (simp_all add: served_clients_def client_codec_simps answer_client_def downloadClientFromIR_def sample_dc_def)
  have read: "getManagedDownloadClients client_api 3 served_clients =
      (Ok (map clientToIR (filter (client_owned 3) served_clients)), served_clients)"
    by (simp add: getManagedDownloadClients_def client_api_def empty_api_def list_endpoint_def andThen_def give_def)
  have "distinct (map client_id served_clients)" "distinct (map client_name served_clients)"
    by (simp_all add: names)
  moreover have "\<forall>d \<in> set [sample_dc ''new'' 0 81]. exact_int (dc_Port d)"
    by (simp add: sample_dc_def exact_int_def)
  moreover have "\<forall>d \<in> set [sample_dc ''new'' 0 81]. \<forall>r \<in> set served_clients. client_name r = dc_Name d \<longrightarrow> client_owned 3 r"
    by (simp add: served_clients_def client_codec_simps sample_dc_def)
  ultimately obtain r s' where "ApplyChanges (DiffDownloadClientsWithIR forward_order
        (map clientToIR (filter (client_owned 3) served_clients)) [sample_dc ''new'' 0 81] no_changes)
      (\<lambda>c. applyCreate forward_order client_api 3 c) (\<lambda>c. applyUpdate forward_order client_api initial_vars 3 c)
      (\<lambda>c. applyDelete client_api c) served_clients = (Ok r, s')" "Success r"
      "filter (\<lambda>r. \<not> client_owned 3 r) s' = filter (\<lambda>r. \<not> client_owned 3 r) served_clients"
    using Sonarr_clients_converge [OF client_api_service valid_forward_order valid_backward_order _ _ _ _ read,
        of "[sample_dc ''new'' 0 81]" "\<lambda>_. forward_order" initial_vars] by blast
  with others show ?thesis by (intro exI conjI) (assumption, assumption, simp)
qed

theorem Sonarr_indexers_converge_witness:
  "\<exists>r s'. ApplyChanges (DiffIndexersWithIR backward_order [] [sample_indexer] no_changes)
      (\<lambda>c. applyCreate forward_order indexer_api 3 c) (\<lambda>c. applyUpdate forward_order indexer_api initial_vars 3 c)
      (\<lambda>c. applyDelete indexer_api c) [] = (Ok r, s') \<and> Success r"
proof -
  have read: "getManagedIndexers indexer_api 3 [] = (Ok [], [])"
    by (simp add: getManagedIndexers_def indexer_api_def empty_api_def list_endpoint_def andThen_def give_def)
  have "\<forall>d \<in> set [sample_indexer]. indexer_sendable d"
    by (simp add: sample_indexer_def indexer_sendable_def exact_int_def)
  then show ?thesis
    using Sonarr_indexers_converge [OF indexer_api_service valid_backward_order valid_forward_order _ _ _ _ read,
        of "[sample_indexer]" "\<lambda>_. forward_order" initial_vars]
    unfolding list.map list.set distinct.simps by blast
qed

section \<open>Where the pass does not settle\<close>






definition source_spec :: "string \<Rightarrow> CustomFormatIR" where
  "source_spec v = \<lparr>cf_ID = 0, cf_Name = ''f'', cf_IncludeWhenRenaming = False,
     cf_Specifications = [\<lparr>fs_Type = ''SourceSpecification'', fs_Name = ''s'', fs_Negate = False, fs_Required = True,
                           fs_Value = v\<rparr>]\<rparr>"



text \<open>
  A delay profile that was sent is found in order on the next pass exactly when the
  adapter added no ownership tag to it: it adds one whenever it has a tag and the profile
  names no tags, and the comparison then sees one tag too many.
\<close>

theorem delayProfile_settles_iff:
  assumes "dp_PreferredProtocol ir = ProtocolUsenet \<or> dp_PreferredProtocol ir = ProtocolTorrent"
  shows "DelayProfilesEqual (delayProfileToIR ((irToDelayProfile ir (delay_tag_ids ir tagID))\<lparr>bdp_ID := i\<rparr>)) ir \<longleftrightarrow>
    tagID \<le> 0 \<or> dp_TagNames ir \<noteq> []"
  using assms
  by (auto simp: DelayProfilesEqual_def delayProfileToIR_def irToDelayProfile_def delay_tag_ids_def all_tags_in_iff)

theorem delayProfile_settles_iff_witness:
  "\<not> DelayProfilesEqual (delayProfileToIR ((irToDelayProfile (sample_dp []) (delay_tag_ids (sample_dp []) 7))\<lparr>bdp_ID := 2\<rparr>))
       (sample_dp [])"
  using delayProfile_settles_iff [where ir = "sample_dp []" and tagID = 7 and i = 2] by (simp add: sample_dp_def)

text \<open>
  Custom formats have no owner: every custom format the service lists under a name the
  spec does not have is deleted, whoever created it.
\<close>

theorem diffCustomFormats_deletes_unlisted:
  assumes "valid_order ord" and "cf \<in> set formats" and "distinct (map (\<lambda>f. bcf_Name (cfr_Base f)) formats)"
    and "bcf_Name (cfr_Base cf) \<notin> cf_Name ` set desired"
  shows "cf_delete (bcf_Name (cfr_Base cf)) (customFormatToIR sprint cf)
    \<in> set (cs_Deletes (diffCustomFormats ord (map (customFormatToIR sprint) formats) desired changes))"
proof -
  have name: "cf_Name (customFormatToIR sprint f) = bcf_Name (cfr_Base f)" for f
    by (simp add: customFormatToIR_def Let_def)
  then have "distinct (map cf_Name (map (customFormatToIR sprint) formats))"
    using assms(3) by (simp add: o_def)
  from latest_distinct [OF this, of "customFormatToIR sprint cf"]
  have "latest cf_Name (map (customFormatToIR sprint) formats) (bcf_Name (cfr_Base cf)) = Some (customFormatToIR sprint cf)"
    using assms(2) by (simp add: name)
  moreover have "latest cf_Name desired (bcf_Name (cfr_Base cf)) = None"
    using assms(4) by (simp add: latest_None_iff)
  ultimately show ?thesis
    unfolding formats.diff_sets(3) [OF assms(1)] by blast
qed

theorem diffCustomFormats_deletes_unlisted_witness:
  "cf_delete ''f'' (customFormatToIR (\<lambda>_. '''') (irToCustomFormat (source_spec ''webdl'')))
    \<in> set (cs_Deletes (diffCustomFormats forward_order
        (map (customFormatToIR (\<lambda>_. '''')) [irToCustomFormat (source_spec ''webdl'')]) [] no_changes))"
  using diffCustomFormats_deletes_unlisted [OF valid_forward_order,
      of "irToCustomFormat (source_spec ''webdl'')" "[irToCustomFormat (source_spec ''webdl'')]" "[]" "\<lambda>_. ''''"]
  by (simp add: irToCustomFormat_def source_spec_def)

end
