(* ===== verification/Config_Objects.thy ===== *)
theory Config_Objects
  imports CRD
begin

text \<open>
  The interfaces between the reconcilers and the custom resources:
  \<^verbatim>\<open>ConfigStatus\<close> (\<^verbatim>\<open>src/internal/controller/reconciler.go\<close>) and \<^verbatim>\<open>ArrConfigObject\<close>
  (\<^verbatim>\<open>generic_arr_reconciler.go\<close>) as records of methods over the type \<open>'c\<close> of the resource,
  their implementations (\<^verbatim>\<open>status_wrappers.go\<close>, \<^verbatim>\<open>config_interfaces.go\<close>), and the laws
  the reconcilers rely on as the locale \<open>config_object\<close>, interpreted for the five resources.
  A method that mutates its receiver returns the new value.
\<close>

section \<open>Status wrappers\<close>

record 'c ConfigStatus =
  GetConditions :: "'c \<Rightarrow> Condition list"
  SetConditions :: "Condition list \<Rightarrow> 'c \<Rightarrow> 'c"
  SetConnected :: "bool \<Rightarrow> 'c \<Rightarrow> 'c"
  SetServiceVersion :: "string \<Rightarrow> 'c \<Rightarrow> 'c"
  SetLastReconcile :: "int option \<Rightarrow> 'c \<Rightarrow> 'c"
  SetLastAppliedHash :: "string \<Rightarrow> 'c \<Rightarrow> 'c"

definition RadarrStatusWrapper :: "RadarrConfigStatus ConfigStatus" where
  "RadarrStatusWrapper = \<lparr>GetConditions = radst_Conditions,
     SetConditions = (\<lambda>conditions w. w\<lparr>radst_Conditions := conditions\<rparr>),
     SetConnected = (\<lambda>connected w. w\<lparr>radst_Connected := connected\<rparr>),
     SetServiceVersion = (\<lambda>version w. w\<lparr>radst_ServiceVersion := version\<rparr>),
     SetLastReconcile = (\<lambda>t w. w\<lparr>radst_LastReconcile := t\<rparr>),
     SetLastAppliedHash = (\<lambda>hash w. w\<lparr>radst_LastAppliedHash := hash\<rparr>)\<rparr>"

definition SonarrStatusWrapper :: "SonarrConfigStatus ConfigStatus" where
  "SonarrStatusWrapper = \<lparr>GetConditions = sonst_Conditions,
     SetConditions = (\<lambda>conditions w. w\<lparr>sonst_Conditions := conditions\<rparr>),
     SetConnected = (\<lambda>connected w. w\<lparr>sonst_Connected := connected\<rparr>),
     SetServiceVersion = (\<lambda>version w. w\<lparr>sonst_ServiceVersion := version\<rparr>),
     SetLastReconcile = (\<lambda>t w. w\<lparr>sonst_LastReconcile := t\<rparr>),
     SetLastAppliedHash = (\<lambda>hash w. w\<lparr>sonst_LastAppliedHash := hash\<rparr>)\<rparr>"

definition LidarrStatusWrapper :: "LidarrConfigStatus ConfigStatus" where
  "LidarrStatusWrapper = \<lparr>GetConditions = lidst_Conditions,
     SetConditions = (\<lambda>conditions w. w\<lparr>lidst_Conditions := conditions\<rparr>),
     SetConnected = (\<lambda>connected w. w\<lparr>lidst_Connected := connected\<rparr>),
     SetServiceVersion = (\<lambda>version w. w\<lparr>lidst_ServiceVersion := version\<rparr>),
     SetLastReconcile = (\<lambda>t w. w\<lparr>lidst_LastReconcile := t\<rparr>),
     SetLastAppliedHash = (\<lambda>hash w. w\<lparr>lidst_LastAppliedHash := hash\<rparr>)\<rparr>"

definition ProwlarrStatusWrapper :: "ProwlarrConfigStatus ConfigStatus" where
  "ProwlarrStatusWrapper = \<lparr>GetConditions = prost_Conditions,
     SetConditions = (\<lambda>conditions w. w\<lparr>prost_Conditions := conditions\<rparr>),
     SetConnected = (\<lambda>connected w. w\<lparr>prost_Connected := connected\<rparr>),
     SetServiceVersion = (\<lambda>version w. w\<lparr>prost_ServiceVersion := version\<rparr>),
     SetLastReconcile = (\<lambda>t w. w\<lparr>prost_LastReconcile := t\<rparr>),
     SetLastAppliedHash = (\<lambda>hash w. w\<lparr>prost_LastAppliedHash := hash\<rparr>)\<rparr>"

definition ReadarrStatusWrapper :: "ReadarrConfigStatus ConfigStatus" where
  "ReadarrStatusWrapper = \<lparr>GetConditions = reast_Conditions,
     SetConditions = (\<lambda>conditions w. w\<lparr>reast_Conditions := conditions\<rparr>),
     SetConnected = (\<lambda>connected w. w\<lparr>reast_Connected := connected\<rparr>),
     SetServiceVersion = (\<lambda>version w. w\<lparr>reast_ServiceVersion := version\<rparr>),
     SetLastReconcile = (\<lambda>t w. w\<lparr>reast_LastReconcile := t\<rparr>),
     SetLastAppliedHash = (\<lambda>hash w. w\<lparr>reast_LastAppliedHash := hash\<rparr>)\<rparr>"

text \<open>\<^verbatim>\<open>&RadarrStatusWrapper{Status: &config.Status}\<close>: the wrapper writes through the pointer.\<close>

definition at_status :: "('c \<Rightarrow> 's) \<Rightarrow> (('s \<Rightarrow> 's) \<Rightarrow> 'c \<Rightarrow> 'c) \<Rightarrow> 's ConfigStatus \<Rightarrow> 'c ConfigStatus" where
  "at_status get upd w = \<lparr>GetConditions = (\<lambda>c. GetConditions w (get c)),
     SetConditions = (\<lambda>x. upd (SetConditions w x)), SetConnected = (\<lambda>x. upd (SetConnected w x)),
     SetServiceVersion = (\<lambda>x. upd (SetServiceVersion w x)), SetLastReconcile = (\<lambda>x. upd (SetLastReconcile w x)),
     SetLastAppliedHash = (\<lambda>x. upd (SetLastAppliedHash w x))\<rparr>"

section \<open>Config objects\<close>

text \<open>
  \<^verbatim>\<open>GetHealthStatusPtr\<close> is used only to store through the pointer, and \<^verbatim>\<open>GetObject\<close> only to
  reach the object's metadata and to hand the object to the client.
\<close>

record 'c ArrConfigObject =
  GetConnectionSpec :: "'c \<Rightarrow> ConnectionSpec"
  GetReconciliationSpec :: "'c \<Rightarrow> ReconciliationSpec option"
  GetDownloadClients :: "'c \<Rightarrow> DownloadClientSpec list"
  GetIndexersSpec :: "'c \<Rightarrow> IndexersSpec option"
  GetImportLists :: "'c \<Rightarrow> ImportListSpec list"
  GetAuthenticationSpec :: "'c \<Rightarrow> AuthenticationSpec option"
  GetStatusWrapper :: "'c ConfigStatus"
  SetHealthStatus :: "HealthStatusCRD option \<Rightarrow> 'c \<Rightarrow> 'c"
  GetAppType :: string
  GetFinalizerName :: string
  ShouldRegisterWithProwlarr :: bool
  GetObjectMeta :: "'c \<Rightarrow> ObjectMeta"
  SetObjectMeta :: "(ObjectMeta \<Rightarrow> ObjectMeta) \<Rightarrow> 'c \<Rightarrow> 'c"

abbreviation SonarrFinalizer :: string where "SonarrFinalizer \<equiv> ''sonarrconfig.arr.rinzler.cloud/finalizer''"
abbreviation RadarrFinalizer :: string where "RadarrFinalizer \<equiv> ''radarrconfig.arr.rinzler.cloud/finalizer''"
abbreviation LidarrFinalizer :: string where "LidarrFinalizer \<equiv> ''lidarrconfig.arr.rinzler.cloud/finalizer''"
abbreviation ReadarrFinalizer :: string where "ReadarrFinalizer \<equiv> ''readarrconfig.arr.rinzler.cloud/finalizer''"

definition SonarrConfigAdapter :: "SonarrConfig ArrConfigObject" where
  "SonarrConfigAdapter = \<lparr>GetConnectionSpec = (\<lambda>a. son_Connection (sonc_Spec a)),
     GetReconciliationSpec = (\<lambda>a. son_Reconciliation (sonc_Spec a)),
     GetDownloadClients = (\<lambda>a. son_DownloadClients (sonc_Spec a)),
     GetIndexersSpec = (\<lambda>a. son_Indexers (sonc_Spec a)),
     GetImportLists = (\<lambda>a. son_ImportLists (sonc_Spec a)),
     GetAuthenticationSpec = (\<lambda>a. son_Authentication (sonc_Spec a)),
     GetStatusWrapper = at_status sonc_Status sonc_Status_update SonarrStatusWrapper,
     SetHealthStatus = (\<lambda>h. sonc_Status_update (sonst_Health_update (\<lambda>_. h))),
     GetAppType = AppSonarr, GetFinalizerName = SonarrFinalizer, ShouldRegisterWithProwlarr = True,
     GetObjectMeta = sonc_ObjectMeta, SetObjectMeta = sonc_ObjectMeta_update\<rparr>"

definition RadarrConfigAdapter :: "RadarrConfig ArrConfigObject" where
  "RadarrConfigAdapter = \<lparr>GetConnectionSpec = (\<lambda>a. rad_Connection (radc_Spec a)),
     GetReconciliationSpec = (\<lambda>a. rad_Reconciliation (radc_Spec a)),
     GetDownloadClients = (\<lambda>a. rad_DownloadClients (radc_Spec a)),
     GetIndexersSpec = (\<lambda>a. rad_Indexers (radc_Spec a)),
     GetImportLists = (\<lambda>a. rad_ImportLists (radc_Spec a)),
     GetAuthenticationSpec = (\<lambda>a. rad_Authentication (radc_Spec a)),
     GetStatusWrapper = at_status radc_Status radc_Status_update RadarrStatusWrapper,
     SetHealthStatus = (\<lambda>h. radc_Status_update (radst_Health_update (\<lambda>_. h))),
     GetAppType = AppRadarr, GetFinalizerName = RadarrFinalizer, ShouldRegisterWithProwlarr = True,
     GetObjectMeta = radc_ObjectMeta, SetObjectMeta = radc_ObjectMeta_update\<rparr>"

definition LidarrConfigAdapter :: "LidarrConfig ArrConfigObject" where
  "LidarrConfigAdapter = \<lparr>GetConnectionSpec = (\<lambda>a. lid_Connection (lidc_Spec a)),
     GetReconciliationSpec = (\<lambda>a. lid_Reconciliation (lidc_Spec a)),
     GetDownloadClients = (\<lambda>a. lid_DownloadClients (lidc_Spec a)),
     GetIndexersSpec = (\<lambda>a. lid_Indexers (lidc_Spec a)),
     GetImportLists = (\<lambda>a. lid_ImportLists (lidc_Spec a)),
     GetAuthenticationSpec = (\<lambda>a. lid_Authentication (lidc_Spec a)),
     GetStatusWrapper = at_status lidc_Status lidc_Status_update LidarrStatusWrapper,
     SetHealthStatus = (\<lambda>h. lidc_Status_update (lidst_Health_update (\<lambda>_. h))),
     GetAppType = AppLidarr, GetFinalizerName = LidarrFinalizer, ShouldRegisterWithProwlarr = False,
     GetObjectMeta = lidc_ObjectMeta, SetObjectMeta = lidc_ObjectMeta_update\<rparr>"

definition ReadarrConfigAdapter :: "ReadarrConfig ArrConfigObject" where
  "ReadarrConfigAdapter = \<lparr>GetConnectionSpec = (\<lambda>a. rea_Connection (reac_Spec a)),
     GetReconciliationSpec = (\<lambda>a. rea_Reconciliation (reac_Spec a)),
     GetDownloadClients = (\<lambda>a. rea_DownloadClients (reac_Spec a)),
     GetIndexersSpec = (\<lambda>a. rea_Indexers (reac_Spec a)),
     GetImportLists = (\<lambda>a. rea_ImportLists (reac_Spec a)),
     GetAuthenticationSpec = (\<lambda>a. rea_Authentication (reac_Spec a)),
     GetStatusWrapper = at_status reac_Status reac_Status_update ReadarrStatusWrapper,
     SetHealthStatus = (\<lambda>h. reac_Status_update (reast_Health_update (\<lambda>_. h))),
     GetAppType = AppReadarr, GetFinalizerName = ReadarrFinalizer, ShouldRegisterWithProwlarr = True,
     GetObjectMeta = reac_ObjectMeta, SetObjectMeta = reac_ObjectMeta_update\<rparr>"

section \<open>The interface laws\<close>

text \<open>
  What a status wrapper promises: there is a view of the resource in which each setter
  changes its own component and nothing else, and no setter touches the rest.
\<close>

record StatusView =
  sv_Conditions :: "Condition list"
  sv_Connected :: bool
  sv_ServiceVersion :: string
  sv_LastReconcile :: "int option"
  sv_LastAppliedHash :: string

locale config_status =
  fixes st :: "'c ConfigStatus"
    and view :: "'c \<Rightarrow> StatusView"
    and rest :: "'c \<Rightarrow> 'r"
  assumes GetConditions_view: "GetConditions st c = sv_Conditions (view c)"
    and view_set:
      "view (SetConditions st cs c) = (view c)\<lparr>sv_Conditions := cs\<rparr>"
      "view (SetConnected st b c) = (view c)\<lparr>sv_Connected := b\<rparr>"
      "view (SetServiceVersion st v c) = (view c)\<lparr>sv_ServiceVersion := v\<rparr>"
      "view (SetLastReconcile st t c) = (view c)\<lparr>sv_LastReconcile := t\<rparr>"
      "view (SetLastAppliedHash st h c) = (view c)\<lparr>sv_LastAppliedHash := h\<rparr>"
    and rest_set:
      "rest (SetConditions st cs c) = rest c" "rest (SetConnected st b c) = rest c"
      "rest (SetServiceVersion st v c) = rest c" "rest (SetLastReconcile st t c) = rest c"
      "rest (SetLastAppliedHash st h c) = rest c"
begin

lemmas wrapper_simps = GetConditions_view view_set rest_set

end

definition radarr_view :: "RadarrConfig \<Rightarrow> StatusView" where
  "radarr_view c = \<lparr>sv_Conditions = radst_Conditions (radc_Status c), sv_Connected = radst_Connected (radc_Status c),
     sv_ServiceVersion = radst_ServiceVersion (radc_Status c), sv_LastReconcile = radst_LastReconcile (radc_Status c),
     sv_LastAppliedHash = radst_LastAppliedHash (radc_Status c)\<rparr>"

interpretation radarr_status: config_status "at_status radc_Status radc_Status_update RadarrStatusWrapper" radarr_view
  "\<lambda>c. (radc_ObjectMeta c, radc_Spec c, let s = radc_Status c in (radst_ManagedResources s, radst_ProwlarrRegistration s, radst_Health s))"
  by unfold_locales (simp_all add: at_status_def RadarrStatusWrapper_def radarr_view_def Let_def)

definition sonarr_view :: "SonarrConfig \<Rightarrow> StatusView" where
  "sonarr_view c = \<lparr>sv_Conditions = sonst_Conditions (sonc_Status c), sv_Connected = sonst_Connected (sonc_Status c),
     sv_ServiceVersion = sonst_ServiceVersion (sonc_Status c), sv_LastReconcile = sonst_LastReconcile (sonc_Status c),
     sv_LastAppliedHash = sonst_LastAppliedHash (sonc_Status c)\<rparr>"

interpretation sonarr_status: config_status "at_status sonc_Status sonc_Status_update SonarrStatusWrapper" sonarr_view
  "\<lambda>c. (sonc_ObjectMeta c, sonc_Spec c, let s = sonc_Status c in (sonst_ManagedResources s, sonst_ProwlarrRegistration s, sonst_Health s))"
  by unfold_locales (simp_all add: at_status_def SonarrStatusWrapper_def sonarr_view_def Let_def)

definition lidarr_view :: "LidarrConfig \<Rightarrow> StatusView" where
  "lidarr_view c = \<lparr>sv_Conditions = lidst_Conditions (lidc_Status c), sv_Connected = lidst_Connected (lidc_Status c),
     sv_ServiceVersion = lidst_ServiceVersion (lidc_Status c), sv_LastReconcile = lidst_LastReconcile (lidc_Status c),
     sv_LastAppliedHash = lidst_LastAppliedHash (lidc_Status c)\<rparr>"

interpretation lidarr_status: config_status "at_status lidc_Status lidc_Status_update LidarrStatusWrapper" lidarr_view
  "\<lambda>c. (lidc_ObjectMeta c, lidc_Spec c, let s = lidc_Status c in (lidst_ManagedResources s, lidst_ProwlarrRegistration s, lidst_Health s))"
  by unfold_locales (simp_all add: at_status_def LidarrStatusWrapper_def lidarr_view_def Let_def)

definition prowlarr_view :: "ProwlarrConfig \<Rightarrow> StatusView" where
  "prowlarr_view c = \<lparr>sv_Conditions = prost_Conditions (proc_Status c), sv_Connected = prost_Connected (proc_Status c),
     sv_ServiceVersion = prost_ServiceVersion (proc_Status c), sv_LastReconcile = prost_LastReconcile (proc_Status c),
     sv_LastAppliedHash = prost_LastAppliedHash (proc_Status c)\<rparr>"

interpretation prowlarr_status: config_status "at_status proc_Status proc_Status_update ProwlarrStatusWrapper" prowlarr_view
  "\<lambda>c. (proc_ObjectMeta c, proc_Spec c, let s = proc_Status c in (prost_ManagedIndexers s, prost_ManagedProxies s, prost_ManagedApplications s, prost_Health s))"
  by unfold_locales (simp_all add: at_status_def ProwlarrStatusWrapper_def prowlarr_view_def Let_def)

definition readarr_view :: "ReadarrConfig \<Rightarrow> StatusView" where
  "readarr_view c = \<lparr>sv_Conditions = reast_Conditions (reac_Status c), sv_Connected = reast_Connected (reac_Status c),
     sv_ServiceVersion = reast_ServiceVersion (reac_Status c), sv_LastReconcile = reast_LastReconcile (reac_Status c),
     sv_LastAppliedHash = reast_LastAppliedHash (reac_Status c)\<rparr>"

interpretation readarr_status: config_status "at_status reac_Status reac_Status_update ReadarrStatusWrapper" readarr_view
  "\<lambda>c. (reac_ObjectMeta c, reac_Spec c, let s = reac_Status c in (reast_ManagedResources s, reast_ProwlarrRegistration s, reast_Health s))"
  by unfold_locales (simp_all add: at_status_def ReadarrStatusWrapper_def readarr_view_def Let_def)

end
