(* ===== verification/Metrics.thy ===== *)
theory Metrics
  imports Adapter
begin

text \<open>
  \<^verbatim>\<open>src/internal/metrics/metrics.go\<close>: which Prometheus series each recording function
  touches. The client library is the parameter \<open>prom\<close> with the three calls the package makes on
  a vector's series: the vector's name, the label values and, for a gauge or a histogram, the
  value.
\<close>

record 'w Prometheus =
  prom_Inc :: "string \<Rightarrow> string list \<Rightarrow> 'w \<Rightarrow> 'w"
  prom_Set :: "string \<Rightarrow> string list \<Rightarrow> rat \<Rightarrow> 'w \<Rightarrow> 'w"
  prom_Observe :: "string \<Rightarrow> string list \<Rightarrow> rat \<Rightarrow> 'w \<Rightarrow> 'w"

abbreviation ReconcileTotal :: string where "ReconcileTotal \<equiv> ''nebularr_reconcile_total''"
abbreviation ReconcileDuration :: string where "ReconcileDuration \<equiv> ''nebularr_reconcile_duration_seconds''"
abbreviation ResourcesManaged :: string where "ResourcesManaged \<equiv> ''nebularr_resources_managed''"
abbreviation SyncSuccess :: string where "SyncSuccess \<equiv> ''nebularr_sync_success_total''"
abbreviation SyncFailure :: string where "SyncFailure \<equiv> ''nebularr_sync_failure_total''"
abbreviation SyncDuration :: string where "SyncDuration \<equiv> ''nebularr_sync_duration_seconds''"
abbreviation ConfigDrift :: string where "ConfigDrift \<equiv> ''nebularr_config_drift_total''"
abbreviation ConnectionStatus :: string where "ConnectionStatus \<equiv> ''nebularr_connection_status''"
abbreviation ApplyChangesTotal :: string where "ApplyChangesTotal \<equiv> ''nebularr_apply_changes_total''"
abbreviation ServiceVersion :: string where "ServiceVersion \<equiv> ''nebularr_service_info''"

definition RecordReconcileSuccess :: "'w Prometheus \<Rightarrow> string \<Rightarrow> rat \<Rightarrow> 'w \<Rightarrow> 'w" where
  "RecordReconcileSuccess prom controller duration w =
     prom_Observe prom ReconcileDuration [controller] duration (prom_Inc prom ReconcileTotal [controller, ''success''] w)"

definition RecordReconcileFailure :: "'w Prometheus \<Rightarrow> string \<Rightarrow> rat \<Rightarrow> 'w \<Rightarrow> 'w" where
  "RecordReconcileFailure prom controller duration w =
     prom_Observe prom ReconcileDuration [controller] duration (prom_Inc prom ReconcileTotal [controller, ''failure''] w)"

definition RecordSyncSuccess :: "'w Prometheus \<Rightarrow> string \<Rightarrow> rat \<Rightarrow> 'w \<Rightarrow> 'w" where
  "RecordSyncSuccess prom app duration w =
     prom_Observe prom SyncDuration [app] duration (prom_Inc prom SyncSuccess [app] w)"

definition RecordSyncFailure :: "'w Prometheus \<Rightarrow> string \<Rightarrow> string \<Rightarrow> rat \<Rightarrow> 'w \<Rightarrow> 'w" where
  "RecordSyncFailure prom app errorType duration w =
     prom_Observe prom SyncDuration [app] duration (prom_Inc prom SyncFailure [app, errorType] w)"

definition RecordConfigDrift :: "'w Prometheus \<Rightarrow> string \<Rightarrow> string \<Rightarrow> 'w \<Rightarrow> 'w" where
  "RecordConfigDrift prom app resourceType = prom_Inc prom ConfigDrift [app, resourceType]"

definition RecordConnectionStatus :: "'w Prometheus \<Rightarrow> string \<Rightarrow> string \<Rightarrow> bool \<Rightarrow> 'w \<Rightarrow> 'w" where
  "RecordConnectionStatus prom app inst isConnected =
     prom_Set prom ConnectionStatus [app, inst] (if isConnected then 1 else 0)"

definition RecordApplyChange :: "'w Prometheus \<Rightarrow> string \<Rightarrow> string \<Rightarrow> string \<Rightarrow> 'w \<Rightarrow> 'w" where
  "RecordApplyChange prom app act resourceType = prom_Inc prom ApplyChangesTotal [app, act, resourceType]"

definition RecordServiceVersion :: "'w Prometheus \<Rightarrow> string \<Rightarrow> string \<Rightarrow> string \<Rightarrow> 'w \<Rightarrow> 'w" where
  "RecordServiceVersion prom app inst version = prom_Set prom ServiceVersion [app, inst, version] 1"

definition SetResourcesManaged :: "'w Prometheus \<Rightarrow> string \<Rightarrow> string \<Rightarrow> int \<Rightarrow> 'w \<Rightarrow> 'w" where
  "SetResourcesManaged prom controller resourceType n = prom_Set prom ResourcesManaged [controller, resourceType] (of_int n)"

end
