(* ===== verification/Registration.thy ===== *)
theory Registration
  imports Collection
begin

text \<open>
  \<^verbatim>\<open>src/internal/prowlarr/registration.go\<close>: registering an application with Prowlarr. The
  HTTP helpers at the end of that file are the parameters \<open>app_endpoint\<close> and \<open>app_delete\<close>,
  one endpoint per Prowlarr instance.
\<close>

section \<open>Types\<close>

record AppRegistration =
  arg_Name :: string
  arg_Type :: string
  arg_URL :: string
  arg_APIKey :: string
  arg_ProwlarrURL :: string
  arg_SyncLevel :: string
  arg_SyncCategories :: "int list"
  arg_Tags :: "string list"

record ProwlarrConnection =
  pcn_URL :: string
  pcn_APIKey :: string

type_synonym ApplicationField = Field

record ApplicationResource =
  apr_ID :: int
  apr_Name :: string
  apr_Implementation :: string
  apr_ConfigContract :: string
  apr_SyncLevel :: string
  apr_Tags :: "int list"
  apr_Fields :: "ApplicationField list"

section \<open>Operations\<close>

definition getImplementationForType :: "string \<Rightarrow> string \<times> string" where
  "getImplementationForType appType =
     (if appType = ''radarr'' then (''Radarr'', ''RadarrSettings'')
      else if appType = ''sonarr'' then (''Sonarr'', ''SonarrSettings'')
      else if appType = ''lidarr'' then (''Lidarr'', ''LidarrSettings'')
      else if appType = ''readarr'' then (''Readarr'', ''ReadarrSettings'')
      else (appType, ''''))"

definition buildApplicationResource :: "AppRegistration \<Rightarrow> string \<Rightarrow> ApplicationResource" where
  "buildApplicationResource app prowlarrURL =
     (let (impl, contract) = getImplementationForType (arg_Type app);
          syncLevel = (if arg_SyncLevel app = '''' then SyncLevelFullSync else arg_SyncLevel app);
          prowlarrSelfURL = (if arg_ProwlarrURL app = '''' then prowlarrURL else arg_ProwlarrURL app);
          categories = (if arg_SyncCategories app = []
                        then (case map_of DefaultSyncCategories (arg_Type app) of Some defaults \<Rightarrow> defaults
                              | None \<Rightarrow> arg_SyncCategories app)
                        else arg_SyncCategories app)
      in \<lparr>apr_ID = 0, apr_Name = arg_Name app, apr_Implementation = impl, apr_ConfigContract = contract,
          apr_SyncLevel = syncLevel, apr_Tags = [],
          apr_Fields = [\<lparr>f_Name = ''baseUrl'', f_Value = VString (arg_URL app)\<rparr>,
              \<lparr>f_Name = ''apiKey'', f_Value = VString (arg_APIKey app)\<rparr>,
              \<lparr>f_Name = ''prowlarrUrl'', f_Value = VString prowlarrSelfURL\<rparr>]
            @ (if categories \<noteq> [] then [\<lparr>f_Name = ''syncCategories'', f_Value = VInts categories\<rparr>] else [])\<rparr>)"

fun find_application :: "ApplicationResource list \<Rightarrow> string \<Rightarrow> int" where
  "find_application [] name = 0"
| "find_application (app # apps) name = (if apr_Name app = name then apr_ID app else find_application apps name)"

definition findApplicationByName :: "('w, ApplicationResource) endpoint \<Rightarrow> string \<Rightarrow> ('w, int) action" where
  "findApplicationByName ep name =
     andThen (ep_list ep ''/api/v1/applications'') (\<lambda>apps. give (find_application apps name))"

definition createApplication :: "('w, ApplicationResource) endpoint \<Rightarrow> ApplicationResource \<Rightarrow> ('w, unit) action" where
  "createApplication ep app = discard (ep_post ep ''/api/v1/applications'' app)"

definition updateApplication :: "('w, ApplicationResource) endpoint \<Rightarrow> ApplicationResource \<Rightarrow> ('w, unit) action" where
  "updateApplication ep app = discard (ep_put ep (''/api/v1/applications/'' @ Itoa (apr_ID app)) app)"

definition deleteApplication :: "(string \<Rightarrow> ('w, unit) action) \<Rightarrow> int \<Rightarrow> ('w, unit) action" where
  "deleteApplication del i = del (''/api/v1/applications/'' @ Itoa i)"

definition RegisterApp ::
    "('w, ApplicationResource) endpoint \<Rightarrow> ProwlarrConnection \<Rightarrow> AppRegistration \<Rightarrow> ('w, unit) action" where
  "RegisterApp ep prowlarr app =
     andThen (wrap_err ''failed to check for existing application'' (findApplicationByName ep (arg_Name app))) (\<lambda>existingID.
       let resource = buildApplicationResource app (pcn_URL prowlarr)
       in if existingID > 0 then updateApplication ep (resource\<lparr>apr_ID := existingID\<rparr>)
          else createApplication ep resource)"

definition UnregisterApp ::
    "('w, ApplicationResource) endpoint \<Rightarrow> (string \<Rightarrow> ('w, unit) action) \<Rightarrow> string \<Rightarrow> ('w, unit) action" where
  "UnregisterApp ep del appName =
     andThen (wrap_err ''failed to find application'' (findApplicationByName ep appName)) (\<lambda>i.
       if i = 0 then give () else deleteApplication del i)"

section \<open>Properties\<close>

text \<open>What the operator relies on from Prowlarr: the collection laws, and IDs that are positive.\<close>

definition answer_app :: "int \<Rightarrow> ApplicationResource \<Rightarrow> ApplicationResource" where
  "answer_app i r = r\<lparr>apr_ID := i\<rparr>"

definition positive_ids :: "ApplicationResource list \<Rightarrow> bool" where
  "positive_ids apps \<longleftrightarrow> (\<forall>x \<in> set apps. apr_ID x > 0)"

definition app_service ::
    "('w, ApplicationResource) endpoint \<Rightarrow> (string \<Rightarrow> ('w, unit) action) \<Rightarrow> ('w \<Rightarrow> ApplicationResource list) \<Rightarrow> bool" where
  "app_service ep del listed \<longleftrightarrow>
     rest_collection (ep_list ep ''/api/v1/applications'') (ep_post ep ''/api/v1/applications'')
       (\<lambda>i. ep_put ep (''/api/v1/applications/'' @ Itoa i)) (\<lambda>i. del (''/api/v1/applications/'' @ Itoa i))
       listed apr_ID apr_Name answer_app \<and>
     (\<forall>r w r' w'. ep_post ep ''/api/v1/applications'' r w = (Ok r', w') \<and> positive_ids (listed w) \<longrightarrow> positive_ids (listed w'))"

lemma buildApplicationResource_name [simp]: "apr_Name (buildApplicationResource app url) = arg_Name app"
  by (simp add: buildApplicationResource_def Let_def split: prod.split)

lemma find_application_none: "name \<notin> apr_Name ` set apps \<Longrightarrow> find_application apps name = 0"
  by (induction apps) auto

lemma find_application_some:
  "name \<in> apr_Name ` set apps \<Longrightarrow> \<exists>x \<in> set apps. apr_Name x = name \<and> find_application apps name = apr_ID x"
  by (induction apps) auto

definition app_named :: "string \<Rightarrow> ApplicationResource list \<Rightarrow> ApplicationResource list" where
  "app_named name = filter (\<lambda>x. apr_Name x = name)"

lemma filter_replaced:
  assumes "distinct (map f xs)" and "x \<in> set xs" and "f x = n" and "f y = n"
  shows "filter (\<lambda>z. f z = n) (map (\<lambda>z. if z = x then y else z) xs) = [y]"
  using assms
proof (induction xs)
  case (Cons z zs)
  show ?case
  proof (cases "z = x")
    case True
    then have "filter (\<lambda>z. f z = n) (map (\<lambda>z. if z = x then y else z) zs) = []"
      using Cons.prems by (auto simp: filter_empty_conv image_iff)
    then show ?thesis using True Cons.prems by simp
  next
    case False
    then have "f z \<noteq> n" using Cons.prems by (metis image_eqI list.simps(9) set_ConsD distinct.simps(2) set_map)
    then show ?thesis using False Cons by simp
  qed
qed simp

lemma find_run:
  assumes "app_service ep del listed"
  shows "findApplicationByName ep name w = (Ok (find_application (listed w) name), w)"
  using rest_collectionD(1) [OF assms [unfolded app_service_def, THEN conjunct1]]
  by (simp add: findApplicationByName_def give_def)

text \<open>The operator's view of the applications: unique names, unique positive IDs.\<close>

definition apps_ok :: "ApplicationResource list \<Rightarrow> bool" where
  "apps_ok apps \<longleftrightarrow> distinct (map apr_Name apps) \<and> distinct (map apr_ID apps) \<and> positive_ids apps"

lemma register_new:
  assumes svc: "app_service ep del listed" and ok: "apps_ok (listed w)"
    and new: "arg_Name app \<notin> apr_Name ` set (listed w)"
  shows "\<exists>i w'. RegisterApp ep conn app w = (Ok (), w') \<and>
    listed w' = listed w @ [answer_app i (buildApplicationResource app (pcn_URL conn))] \<and> apps_ok (listed w')"
proof -
  let ?r = "buildApplicationResource app (pcn_URL conn)"
  obtain i r' w' where w': "ep_post ep ''/api/v1/applications'' ?r w = (Ok r', w')"
      "i \<notin> apr_ID ` set (listed w)" "listed w' = listed w @ [answer_app i ?r]"
    using rest_collectionD(2) [OF svc [unfolded app_service_def, THEN conjunct1], of ?r w] new by auto
  have "RegisterApp ep conn app w = (Ok (), w')"
    using w'(1) by (simp add: RegisterApp_def find_run [OF svc] find_application_none [OF new]
      createApplication_def discard_def give_def)
  moreover have "positive_ids (listed w')"
    using svc ok w'(1) unfolding app_service_def apps_ok_def by blast
  ultimately show ?thesis
    using w' ok new by (auto simp: apps_ok_def answer_app_def)
qed

lemma register_existing:
  assumes svc: "app_service ep del listed" and ok: "apps_ok (listed w)"
    and x: "x \<in> set (listed w)" "apr_Name x = arg_Name app"
  shows "\<exists>w'. RegisterApp ep conn app w = (Ok (), w') \<and> apps_ok (listed w') \<and> listed w' =
    map (\<lambda>z. if z = x then answer_app (apr_ID x) (buildApplicationResource app (pcn_URL conn)) else z) (listed w)"
proof -
  let ?r = "buildApplicationResource app (pcn_URL conn)"
  let ?y = "answer_app (apr_ID x) ?r" and ?upd = "?r\<lparr>apr_ID := apr_ID x\<rparr>"
  have only: "apr_Name y = arg_Name app \<longleftrightarrow> y = x" "apr_ID y = apr_ID x \<longleftrightarrow> y = x" if "y \<in> set (listed w)" for y
    using ok that x by (auto simp: apps_ok_def distinct_map inj_on_def)
  have found: "find_application (listed w) (arg_Name app) = apr_ID x"
    using find_application_some [of "arg_Name app" "listed w"] x only(1) by (metis image_eqI)
  have "\<exists>r' w'. ep_put ep (''/api/v1/applications/'' @ Itoa (apr_ID x)) ?upd w = (Ok r', w') \<and>
      listed w' = map (\<lambda>z. if apr_ID z = apr_ID x then answer_app (apr_ID x) ?upd else z) (listed w)"
    using x only(1)
    by (intro rest_collectionD(3) [OF svc [unfolded app_service_def, THEN conjunct1]]) simp_all
  then obtain r' w' where w': "ep_put ep (''/api/v1/applications/'' @ Itoa (apr_ID x)) ?upd w = (Ok r', w')"
      and l: "listed w' = map (\<lambda>z. if apr_ID z = apr_ID x then answer_app (apr_ID x) ?upd else z) (listed w)"
    by blast
  have l': "listed w' = map (\<lambda>z. if z = x then ?y else z) (listed w)"
    unfolding l using only by (intro map_cong) (auto simp: answer_app_def)
  have "apr_ID x > 0" using ok x(1) by (simp add: apps_ok_def positive_ids_def)
  then have "RegisterApp ep conn app w = (Ok (), w')"
    using w' by (simp add: RegisterApp_def find_run [OF svc] found updateApplication_def discard_def give_def)
  moreover have "map apr_Name (listed w') = map apr_Name (listed w)" "map apr_ID (listed w') = map apr_ID (listed w)"
    using x(2) by (auto simp: l' answer_app_def)
  moreover have "positive_ids (listed w')"
    using ok x(1) by (auto simp: apps_ok_def positive_ids_def l' answer_app_def)
  ultimately have "RegisterApp ep conn app w = (Ok (), w')" "apps_ok (listed w')"
    using ok by (simp_all only: apps_ok_def)
  with l' show ?thesis by blast
qed

lemma register_existing_named:
  assumes svc: "app_service ep del listed" and ok: "apps_ok (listed w)"
    and x: "x \<in> set (listed w)" "apr_Name x = arg_Name app"
  shows "\<exists>w'. RegisterApp ep conn app w = (Ok (), w') \<and> apps_ok (listed w') \<and>
    app_named (arg_Name app) (listed w') = [answer_app (apr_ID x) (buildApplicationResource app (pcn_URL conn))] \<and>
    filter (\<lambda>x. apr_Name x \<noteq> arg_Name app) (listed w') = filter (\<lambda>x. apr_Name x \<noteq> arg_Name app) (listed w)"
proof -
  let ?y = "answer_app (apr_ID x) (buildApplicationResource app (pcn_URL conn))"
  have y: "apr_Name ?y = arg_Name app" by (simp add: answer_app_def)
  have "app_named (arg_Name app) (map (\<lambda>z. if z = x then ?y else z) (listed w)) = [?y]"
    unfolding app_named_def using ok x y by (intro filter_replaced) (simp_all add: apps_ok_def)
  moreover have "filter (\<lambda>z. apr_Name z \<noteq> arg_Name app) (map (\<lambda>z. if z = x then ?y else z) (listed w)) =
      filter (\<lambda>z. apr_Name z \<noteq> arg_Name app) (listed w)"
    using x y by (intro filter_replace) simp_all
  ultimately show ?thesis using register_existing [OF svc ok x, of conn] by auto
qed

lemma register_result:
  assumes svc: "app_service ep del listed" and ok: "apps_ok (listed w)"
  shows "\<exists>i w'. RegisterApp ep conn app w = (Ok (), w') \<and> apps_ok (listed w') \<and>
    app_named (arg_Name app) (listed w') = [answer_app i (buildApplicationResource app (pcn_URL conn))] \<and>
    filter (\<lambda>x. apr_Name x \<noteq> arg_Name app) (listed w') = filter (\<lambda>x. apr_Name x \<noteq> arg_Name app) (listed w)"
proof (cases "arg_Name app \<in> apr_Name ` set (listed w)")
  case True
  then obtain x where "x \<in> set (listed w)" "apr_Name x = arg_Name app" by auto
  from register_existing_named [OF svc ok this, of conn] show ?thesis by blast
next
  case False
  then have "app_named (arg_Name app) (listed w) = []"
    by (auto simp: app_named_def filter_empty_conv image_iff)
  moreover obtain i w' where "RegisterApp ep conn app w = (Ok (), w')" "apps_ok (listed w')"
      "listed w' = listed w @ [answer_app i (buildApplicationResource app (pcn_URL conn))]"
    using register_new [OF svc ok False, of conn] by blast
  ultimately show ?thesis
    by (intro exI [of _ i] exI [of _ w']) (simp add: app_named_def answer_app_def)
qed

lemma unregister_result:
  assumes svc: "app_service ep del listed" and ok: "apps_ok (listed w)"
  shows "\<exists>w'. UnregisterApp ep del name w = (Ok (), w') \<and>
    listed w' = filter (\<lambda>x. apr_Name x \<noteq> name) (listed w)"
proof -
  show ?thesis
  proof (cases "name \<in> apr_Name ` set (listed w)")
    case False
    then show ?thesis
      using filter_id_conv [of "\<lambda>x. apr_Name x \<noteq> name" "listed w"]
      by (auto simp: UnregisterApp_def find_run [OF svc] find_application_none give_def image_iff)
  next
    case True
    then obtain x where x: "x \<in> set (listed w)" "apr_Name x = name" "find_application (listed w) name = apr_ID x"
      using find_application_some by blast
    have "apr_ID y \<noteq> apr_ID x \<longleftrightarrow> apr_Name y \<noteq> name" if "y \<in> set (listed w)" for y
      using ok that x by (auto simp: apps_ok_def distinct_map inj_on_def)
    then have "filter (\<lambda>y. apr_ID y \<noteq> apr_ID x) (listed w) = filter (\<lambda>y. apr_Name y \<noteq> name) (listed w)"
      by (rule filter_cong [OF refl])
    then show ?thesis
      using rest_collectionD(4) [OF svc [unfolded app_service_def, THEN conjunct1], of "apr_ID x" w] x ok
      by (auto simp: UnregisterApp_def find_run [OF svc] deleteApplication_def apps_ok_def positive_ids_def)
  qed
qed

text \<open>
  C31. Registration is idempotent. On a Prowlarr that keeps its applications as a collection with
  unique names and positive IDs, registering an application succeeds and leaves exactly one
  application of that name, with the resource built from the latest registration, and every
  other application as it was; registering again, with other details but the same name, updates
  that application in place under its ID; and unregistering removes it and nothing else.
\<close>

theorem Register_idempotent:
  assumes "app_service ep del listed" and "apps_ok (listed w)" and "arg_Name app' = arg_Name app"
  shows "\<exists>i w1 w2 w3. RegisterApp ep conn app w = (Ok (), w1) \<and> RegisterApp ep conn app' w1 = (Ok (), w2) \<and>
    UnregisterApp ep del (arg_Name app) w2 = (Ok (), w3) \<and>
    app_named (arg_Name app) (listed w1) = [answer_app i (buildApplicationResource app (pcn_URL conn))] \<and>
    app_named (arg_Name app) (listed w2) = [answer_app i (buildApplicationResource app' (pcn_URL conn))] \<and>
    filter (\<lambda>x. apr_Name x \<noteq> arg_Name app) (listed w2) = filter (\<lambda>x. apr_Name x \<noteq> arg_Name app) (listed w) \<and>
    listed w3 = filter (\<lambda>x. apr_Name x \<noteq> arg_Name app) (listed w)"
proof -
  obtain i w1 where r1: "RegisterApp ep conn app w = (Ok (), w1)" "apps_ok (listed w1)"
      "app_named (arg_Name app) (listed w1) = [answer_app i (buildApplicationResource app (pcn_URL conn))]"
      "filter (\<lambda>x. apr_Name x \<noteq> arg_Name app) (listed w1) = filter (\<lambda>x. apr_Name x \<noteq> arg_Name app) (listed w)"
    using register_result [OF assms(1,2), of conn app] by blast
  then have x: "answer_app i (buildApplicationResource app (pcn_URL conn)) \<in> set (listed w1)"
    unfolding app_named_def by (metis filter_eq_ConsD in_set_conv_decomp)
  have *: "apr_Name (answer_app i (buildApplicationResource app (pcn_URL conn))) = arg_Name app'"
    using assms(3) by (simp add: answer_app_def)
  obtain w2 where r2: "RegisterApp ep conn app' w1 = (Ok (), w2)" "apps_ok (listed w2)"
      "app_named (arg_Name app) (listed w2) = [answer_app i (buildApplicationResource app' (pcn_URL conn))]"
      "filter (\<lambda>x. apr_Name x \<noteq> arg_Name app) (listed w2) = filter (\<lambda>x. apr_Name x \<noteq> arg_Name app) (listed w1)"
    using register_existing_named [OF assms(1) r1(2) x *, of conn] by (auto simp: assms(3) answer_app_def)
  obtain w3 where "UnregisterApp ep del (arg_Name app) w2 = (Ok (), w3)"
      "listed w3 = filter (\<lambda>x. apr_Name x \<noteq> arg_Name app) (listed w2)"
    using unregister_result [OF assms(1) r2(2)] by blast
  with r1 r2 show ?thesis by (intro exI [of _ i] exI [of _ w1] exI [of _ w2] exI [of _ w3]) simp
qed

lemma list_app_service:
  "app_service (list_endpoint ''/api/v1/applications/'' apr_ID answer_app)
     (list_delete ''/api/v1/applications/'' apr_ID) (\<lambda>apps. apps)"
proof -
  have "0 \<le> fold max xs (a :: int)" if "0 \<le> a" for xs a
    using that by (induction xs arbitrary: a) simp_all
  then have "0 < fresh_id apr_ID apps" for apps by (auto simp: fresh_id_def intro: add_pos_nonneg)
  then show ?thesis
    using list_endpoint_collection [of "''/api/v1/applications/''" apr_ID answer_app "''/api/v1/applications''" apr_Name]
    by (auto simp: app_service_def positive_ids_def list_endpoint_def answer_app_def)
qed

definition sample_registration :: "string \<Rightarrow> AppRegistration" where
  "sample_registration url = \<lparr>arg_Name = ''nebularr-sonarr-tv'', arg_Type = ''sonarr'', arg_URL = url, arg_APIKey = ''s'',
     arg_ProwlarrURL = [], arg_SyncLevel = [], arg_SyncCategories = [], arg_Tags = []\<rparr>"

definition sample_apps :: "ApplicationResource list" where
  "sample_apps = [\<lparr>apr_ID = 7, apr_Name = ''other'', apr_Implementation = ''Radarr'', apr_ConfigContract = ''RadarrSettings'',
     apr_SyncLevel = ''fullSync'', apr_Tags = [], apr_Fields = []\<rparr>]"

theorem Register_idempotent_witness:
  "\<exists>i w1 w2 w3.
     RegisterApp (list_endpoint ''/api/v1/applications/'' apr_ID answer_app) \<lparr>pcn_URL = ''u'', pcn_APIKey = ''k''\<rparr>
       (sample_registration ''http://sonarr'') sample_apps = (Ok (), w1) \<and>
     RegisterApp (list_endpoint ''/api/v1/applications/'' apr_ID answer_app) \<lparr>pcn_URL = ''u'', pcn_APIKey = ''k''\<rparr>
       (sample_registration ''http://moved'') w1 = (Ok (), w2) \<and>
     UnregisterApp (list_endpoint ''/api/v1/applications/'' apr_ID answer_app)
       (list_delete ''/api/v1/applications/'' apr_ID) ''nebularr-sonarr-tv'' w2 = (Ok (), w3) \<and>
     app_named ''nebularr-sonarr-tv'' w2 = [answer_app i (buildApplicationResource (sample_registration ''http://moved'') ''u'')] \<and>
     w3 = sample_apps"
proof -
  have name: "arg_Name (sample_registration url) = ''nebularr-sonarr-tv''" for url
    by (simp add: sample_registration_def)
  have ok: "apps_ok sample_apps" by (simp add: apps_ok_def positive_ids_def sample_apps_def)
  have others: "filter (\<lambda>x. apr_Name x \<noteq> ''nebularr-sonarr-tv'') sample_apps = sample_apps"
    by (simp add: sample_apps_def)
  have "arg_Name (sample_registration ''http://moved'') = arg_Name (sample_registration ''http://sonarr'')"
    by (simp only: name)
  from Register_idempotent [where conn = "\<lparr>pcn_URL = ''u'', pcn_APIKey = ''k''\<rparr>" and w = sample_apps, OF list_app_service ok this,
    unfolded name ProwlarrConnection.simps others]
  show ?thesis by blast
qed

end
