(* ===== verification/Reconcile_Helper.thy ===== *)
theory Reconcile_Helper
  imports Config_Objects Metrics Registration
begin

text \<open>
  \<^verbatim>\<open>src/internal/controller/reconciler.go\<close>: the helper all controllers share. A custom
  resource \<open>'c\<close> that is mutated through a pointer and the world \<open>'w\<close> (cluster, services,
  metrics) are threaded as the pair \<open>'c \<times> 'w\<close>. What the helper takes from outside is the
  record \<open>Env\<close>: the registry of adapters, the cluster client's reads, the clock, the metrics
  client, the event recorder, and the functions of the Kubernetes libraries it calls. Logging
  is left out. A function that returns a pointer and an error, both of which its callers use,
  returns the pair; its action never is an \<open>Err\<close>.
\<close>

section \<open>The adapter interface (adapter.go)\<close>

type_synonym 'a returned = "'a option \<times> string option"

record 'w AdapterOps =
  ad_Name :: string
  ad_SupportedApp :: string
  ad_Connect :: "ConnectionIR \<Rightarrow> ('w, ServiceInfo) action"
  ad_Discover :: "ConnectionIR \<Rightarrow> ('w, Capabilities) action"
  ad_CurrentState :: "ConnectionIR \<Rightarrow> ('w, IR option) action"
  ad_Diff :: "IR option \<Rightarrow> IR \<Rightarrow> Capabilities option \<Rightarrow> ('w, ChangeSet) action"
  ad_Apply :: "ConnectionIR \<Rightarrow> ChangeSet \<Rightarrow> ('w, ApplyResult returned) action"
  ad_ApplyDirect :: "(ConnectionIR \<Rightarrow> IR \<Rightarrow> ('w, ApplyResult returned) action) option"
  ad_GetHealth :: "(ConnectionIR \<Rightarrow> ('w, HealthStatus) action) option"

section \<open>The environment\<close>

record 'w Env =
  env_adapters :: "'w AdapterOps registry"
  env_GetSecret :: "string \<Rightarrow> string \<Rightarrow> ('w, (string, string) gomap) action"
  env_GetProwlarrConfig :: "string \<Rightarrow> string \<Rightarrow> ('w, ProwlarrConfig) action"
  env_Now :: "'w \<Rightarrow> int"
  env_prom :: "'w Prometheus"
  env_Event :: "(ObjectMeta \<Rightarrow> string \<Rightarrow> string \<Rightarrow> string \<Rightarrow> 'w \<Rightarrow> 'w) option"
  env_applications :: "ProwlarrConnection \<Rightarrow> ('w, ApplicationResource) endpoint"
  env_deleteApplication :: "ProwlarrConnection \<Rightarrow> string \<Rightarrow> ('w, unit) action"
  env_SetStatusCondition :: "Condition \<Rightarrow> Condition list \<Rightarrow> Condition list"
  env_ContainsFinalizer :: "string \<Rightarrow> string list \<Rightarrow> bool"
  env_AddFinalizer :: "string \<Rightarrow> string list \<Rightarrow> string list"
  env_RemoveFinalizer :: "string \<Rightarrow> string list \<Rightarrow> string list"
  env_order :: range_order

section \<open>Sequencing\<close>

text \<open>\<^verbatim>\<open>x, err := m(); if err != nil { h }; k\<close>, and a step without an error result.\<close>

definition if_err :: "('s, 'a) action \<Rightarrow> (string \<Rightarrow> ('s, 'b) action) \<Rightarrow> ('a \<Rightarrow> ('s, 'b) action) \<Rightarrow> ('s, 'b) action" where
  "if_err m h k s = (case m s of (Ok x, s') \<Rightarrow> k x s' | (Err e, s') \<Rightarrow> h e s' | (Panic p, s') \<Rightarrow> (Panic p, s'))"

definition on_config :: "('c \<Rightarrow> 'c) \<Rightarrow> ('c \<times> 'w, 'a) action \<Rightarrow> ('c \<times> 'w, 'a) action" where
  "on_config f k cw = k (f (fst cw), snd cw)"

definition on_world :: "('w \<Rightarrow> 'w) \<Rightarrow> ('c \<times> 'w, 'a) action \<Rightarrow> ('c \<times> 'w, 'a) action" where
  "on_world f k cw = k (fst cw, f (snd cw))"

definition read_clock :: "'w Env \<Rightarrow> (int \<Rightarrow> ('c \<times> 'w, 'a) action) \<Rightarrow> ('c \<times> 'w, 'a) action" where
  "read_clock env k cw = k (env_Now env (snd cw)) cw"

section \<open>Conditions\<close>

abbreviation ConditionTypeReady :: string where "ConditionTypeReady \<equiv> ''Ready''"
abbreviation ConditionTypeConnected :: string where "ConditionTypeConnected \<equiv> ''Connected''"
abbreviation ConditionTypeSynced :: string where "ConditionTypeSynced \<equiv> ''Synced''"
abbreviation ConditionTrue :: string where "ConditionTrue \<equiv> ''True''"
abbreviation ConditionFalse :: string where "ConditionFalse \<equiv> ''False''"

definition DefaultRequeueInterval :: int where "DefaultRequeueInterval = 5 * 60"
definition ErrorRequeueInterval :: int where "ErrorRequeueInterval = 30"

definition SetCondition ::
    "'w Env \<Rightarrow> 'c ConfigStatus \<Rightarrow> int \<Rightarrow> string \<Rightarrow> string \<Rightarrow> string \<Rightarrow> string \<Rightarrow> ('c \<times> 'w, 'a) action \<Rightarrow> ('c \<times> 'w, 'a) action" where
  "SetCondition env status generation condType condStatus reason message k =
     read_clock env (\<lambda>now.
       on_config (\<lambda>c. SetConditions status
         (env_SetStatusCondition env
            \<lparr>cd_Type = condType, cd_Status = condStatus, cd_ObservedGeneration = generation,
             cd_LastTransitionTime = now, cd_Reason = reason, cd_Message = message\<rparr>
            (GetConditions status c)) c) k)"

section \<open>Reconciling a configuration\<close>

text \<open>\<^verbatim>\<open>time.Since(startTime).Seconds()\<close>\<close>

definition since :: "'w Env \<Rightarrow> int \<Rightarrow> 'w \<Rightarrow> rat" where
  "since env startTime w = of_int (env_Now env w - startTime)"

definition record_changes :: "(string \<Rightarrow> 'w \<Rightarrow> 'w) \<Rightarrow> Change list \<Rightarrow> 'w \<Rightarrow> 'w" where
  "record_changes rec changes = fold (\<lambda>change. rec (ch_ResourceType change)) changes"

definition apply_failed ::
    "'w Env \<Rightarrow> 'c ConfigStatus \<Rightarrow> int \<Rightarrow> string \<Rightarrow> int \<Rightarrow> ChangeSet \<Rightarrow> ApplyResult option \<Rightarrow> string
     \<Rightarrow> ('c \<times> 'w, ApplyResult returned) action" where
  "apply_failed env status generation appType startTime changes result err =
     SetCondition env status generation ConditionTypeSynced ConditionFalse ''ApplyFailed'' err
     (case result of
        None \<Rightarrow> panics ''nil pointer dereference''
      | Some r \<Rightarrow>
          SetCondition env status generation ConditionTypeReady ConditionFalse ''ApplyFailed''
            (''Applied '' @ Itoa (ar_Applied r) @ ''/'' @ Itoa (int (TotalChanges changes)) @ '' changes'')
          (on_world (\<lambda>w. RecordSyncFailure (env_prom env) appType ''apply_failed'' (since env startTime w) w)
          (give (result, Some err))))"

definition report_applied ::
    "'w Env \<Rightarrow> 'c ConfigStatus \<Rightarrow> int \<Rightarrow> string \<Rightarrow> ChangeSet \<Rightarrow> ApplyResult
     \<Rightarrow> ('c \<times> 'w, 'a) action \<Rightarrow> ('c \<times> 'w, 'a) action" where
  "report_applied env status generation appType changes r k =
     on_world (record_changes (RecordApplyChange (env_prom env) appType ''create'') (cs_Creates changes))
     (on_world (record_changes (RecordApplyChange (env_prom env) appType ''update'') (cs_Updates changes))
     (on_world (record_changes (RecordApplyChange (env_prom env) appType ''delete'') (cs_Deletes changes))
     (if \<not> Success r
      then SetCondition env status generation ConditionTypeSynced ConditionFalse ''PartiallyApplied''
             (''Applied '' @ Itoa (ar_Applied r) @ '' changes, '' @ Itoa (ar_Failed r) @ '' failed'') k
      else SetCondition env status generation ConditionTypeSynced ConditionTrue ''Synced''
             (''Applied '' @ Itoa (ar_Applied r) @ '' changes'') k)))"

definition sync_changes ::
    "'w Env \<Rightarrow> 'w AdapterOps \<Rightarrow> 'c ConfigStatus \<Rightarrow> int \<Rightarrow> string \<Rightarrow> int \<Rightarrow> ConnectionIR \<Rightarrow> ChangeSet
     \<Rightarrow> (ApplyResult \<Rightarrow> ('c \<times> 'w, ApplyResult returned) action) \<Rightarrow> ('c \<times> 'w, ApplyResult returned) action" where
  "sync_changes env adapter status generation appType startTime connIR changes k =
     (if \<not> IsEmpty changes
      then on_world (record_changes (RecordConfigDrift (env_prom env) appType) (cs_Creates changes))
        (on_world (record_changes (RecordConfigDrift (env_prom env) appType) (cs_Updates changes))
        (andThen (on_service (ad_Apply adapter connIR changes)) (\<lambda>(result, err).
           case err of
             Some e \<Rightarrow> apply_failed env status generation appType startTime changes result e
           | None \<Rightarrow> (case result of
                None \<Rightarrow> panics ''nil pointer dereference''
              | Some r \<Rightarrow> report_applied env status generation appType changes r (k r)))))
      else SetCondition env status generation ConditionTypeSynced ConditionTrue ''InSync'' ''Configuration is in sync''
        (k zero_result))"

definition finish_sync ::
    "'w Env \<Rightarrow> 'c ConfigStatus \<Rightarrow> int \<Rightarrow> string \<Rightarrow> int \<Rightarrow> IR \<Rightarrow> ApplyResult \<Rightarrow> ('c \<times> 'w, ApplyResult returned) action" where
  "finish_sync env status generation appType startTime desiredIR result =
     read_clock env (\<lambda>now.
     on_config (SetLastReconcile status (Some now))
     (on_config (SetLastAppliedHash status (ir_SourceHash desiredIR))
     (SetCondition env status generation ConditionTypeReady ConditionTrue ''Ready'' ''Configuration reconciled successfully''
     (on_world (\<lambda>w. RecordSyncSuccess (env_prom env) appType (since env startTime w) w)
     (give (Some result, None))))))"

definition ReconcileConfig ::
    "'w Env \<Rightarrow> string \<Rightarrow> ConnectionIR \<Rightarrow> IR \<Rightarrow> 'c ConfigStatus \<Rightarrow> int \<Rightarrow> ('c \<times> 'w, ApplyResult returned) action" where
  "ReconcileConfig env appType connIR desiredIR status generation =
     read_clock env (\<lambda>startTime.
     case Get (env_adapters env) appType of
       None \<Rightarrow>
         (let err = appType @ '' adapter not registered''
          in SetCondition env status generation ConditionTypeReady ConditionFalse ''AdapterNotFound'' err
             (on_world (\<lambda>w. RecordSyncFailure (env_prom env) appType ''adapter_not_found'' (since env startTime w) w)
             (give (None, Some err))))
     | Some adapter \<Rightarrow>
         if_err (on_service (ad_Connect adapter connIR))
           (\<lambda>err. on_config (SetConnected status False)
             (SetCondition env status generation ConditionTypeConnected ConditionFalse ''ConnectionFailed'' err
             (SetCondition env status generation ConditionTypeReady ConditionFalse ''ConnectionFailed'' (''Cannot connect to '' @ appType)
             (on_world (RecordConnectionStatus (env_prom env) appType (conn_URL connIR) False)
             (on_world (\<lambda>w. RecordSyncFailure (env_prom env) appType ''connection_failed'' (since env startTime w) w)
             (give (None, Some err)))))))
           (\<lambda>serviceInfo. on_config (SetConnected status True)
             (on_config (SetServiceVersion status (si_Version serviceInfo))
             (SetCondition env status generation ConditionTypeConnected ConditionTrue ''Connected''
               (''Connected to '' @ appType @ '' '' @ si_Version serviceInfo)
             (on_world (RecordConnectionStatus (env_prom env) appType (conn_URL connIR) True)
             (on_world (RecordServiceVersion (env_prom env) appType (conn_URL connIR) (si_Version serviceInfo))
             (if_err (on_service (ad_Discover adapter connIR))
               (\<lambda>err. SetCondition env status generation ConditionTypeReady ConditionFalse ''DiscoveryFailed'' err
                  (give (None, Some err)))
               (\<lambda>caps.
                if_err (on_service (ad_CurrentState adapter connIR))
                  (\<lambda>err. SetCondition env status generation ConditionTypeReady ConditionFalse ''StateFetchFailed'' err
                     (give (None, Some err)))
                  (\<lambda>currentIR.
                   if_err (on_service (ad_Diff adapter currentIR desiredIR (Some caps)))
                     (\<lambda>err. SetCondition env status generation ConditionTypeReady ConditionFalse ''DiffFailed'' err
                        (give (None, Some err)))
                     (\<lambda>changes. sync_changes env adapter status generation appType startTime connIR changes
                        (finish_sync env status generation appType startTime desiredIR)))))))))))"

text \<open>Removing what the operator created: the diff against an empty configuration.\<close>

definition CleanupManagedResources :: "'w Env \<Rightarrow> string \<Rightarrow> ConnectionIR \<Rightarrow> ('w, unit) action" where
  "CleanupManagedResources env appType connIR =
     (case Get (env_adapters env) appType of
        None \<Rightarrow> fail (appType @ '' adapter not registered'')
      | Some adapter \<Rightarrow>
          andThen (ad_CurrentState adapter connIR) (\<lambda>currentIR.
          case currentIR of
            None \<Rightarrow> give ()
          | Some _ \<Rightarrow>
              andThen (or_else (andThen (ad_Discover adapter connIR) (\<lambda>caps. give (Some caps))) (\<lambda>_. give None)) (\<lambda>caps.
              andThen (ad_Diff adapter currentIR (zero_IR\<lparr>ir_App := appType\<rparr>) caps) (\<lambda>changes.
              if \<not> IsEmpty changes
              then andThen (ad_Apply adapter connIR changes) (\<lambda>(result, err).
                case err of Some e \<Rightarrow> fail e
                | None \<Rightarrow> (case result of None \<Rightarrow> panics ''nil pointer dereference'' | Some _ \<Rightarrow> give ()))
              else give ()))))"

section \<open>Secrets\<close>

text \<open>\<^verbatim>\<open>%q\<close>, on the characters Kubernetes admits in the key of a secret.\<close>

definition quoted :: "string \<Rightarrow> string" where
  "quoted s = CHR 0x22 # s @ [CHR 0x22]"

definition ResolveSecretValue :: "'w Env \<Rightarrow> string \<Rightarrow> string \<Rightarrow> string \<Rightarrow> ('w, string) action" where
  "ResolveSecretValue env namespace name key =
     andThen (wrap_err (''failed to get secret '' @ namespace @ ''/'' @ name) (env_GetSecret env namespace name)) (\<lambda>data.
       case map_of data key of
         None \<Rightarrow> fail (''key '' @ quoted key @ '' not found in secret '' @ namespace @ ''/'' @ name)
       | Some value \<Rightarrow> give value)"

text \<open>The \<^verbatim>\<open>if key == "" { key = default }\<close> of every reference.\<close>

definition key_or :: "string \<Rightarrow> string \<Rightarrow> string" where
  "key_or dflt key = (if key = '''' then dflt else key)"

definition secret_key :: "string \<Rightarrow> string \<Rightarrow> string" where
  "secret_key name key = name @ ''/'' @ key"

definition ResolveConnectionSecrets ::
    "'w Env \<Rightarrow> string \<Rightarrow> ConnectionSpec \<Rightarrow> ('w, (string, string) gomap) action" where
  "ResolveConnectionSecrets env namespace conn =
     (case cns_APIKeySecretRef conn of
        None \<Rightarrow> give []
      | Some ref \<Rightarrow>
          andThen (wrap_err ''failed to resolve API key secret''
            (ResolveSecretValue env namespace (sk_Name ref) (key_or ''apiKey'' (sk_Key ref)))) (\<lambda>apiKey.
          give (gm_set ''apiKey'' apiKey [])))"

text \<open>One key of a secret into the map of resolved values.\<close>

definition resolve_into ::
    "'w Env \<Rightarrow> string \<Rightarrow> string \<Rightarrow> string \<Rightarrow> string \<Rightarrow> (string, string) gomap \<Rightarrow> ('w, (string, string) gomap) action" where
  "resolve_into env msg namespace name key resolved =
     andThen (wrap_err msg (ResolveSecretValue env namespace name key)) (\<lambda>value.
       give (gm_set (secret_key name key) value resolved))"

fun resolve_each ::
    "('a \<Rightarrow> (string, string) gomap \<Rightarrow> ('w, (string, string) gomap) action) \<Rightarrow> 'a list \<Rightarrow> (string, string) gomap
     \<Rightarrow> ('w, (string, string) gomap) action" where
  "resolve_each f [] resolved = give resolved"
| "resolve_each f (x # xs) resolved = andThen (f x resolved) (\<lambda>resolved. resolve_each f xs resolved)"

definition resolve_credentials ::
    "'w Env \<Rightarrow> string \<Rightarrow> string \<Rightarrow> CredentialsSecretRef option \<Rightarrow> (string, string) gomap \<Rightarrow> ('w, (string, string) gomap) action" where
  "resolve_credentials env msg namespace creds resolved =
     (case creds of
        None \<Rightarrow> give resolved
      | Some ref \<Rightarrow>
          andThen (resolve_into env msg namespace (cr_Name ref) (key_or ''username'' (cr_UsernameKey ref)) resolved)
            (resolve_into env msg namespace (cr_Name ref) (key_or ''password'' (cr_PasswordKey ref))))"

definition resolve_api_key ::
    "'w Env \<Rightarrow> string \<Rightarrow> string \<Rightarrow> SecretKeySelector option \<Rightarrow> (string, string) gomap \<Rightarrow> ('w, (string, string) gomap) action" where
  "resolve_api_key env msg namespace sel resolved =
     (case sel of
        None \<Rightarrow> give resolved
      | Some ref \<Rightarrow> resolve_into env msg namespace (sk_Name ref) (key_or ''apiKey'' (sk_Key ref)) resolved)"

definition ResolveDownloadClientSecrets ::
    "'w Env \<Rightarrow> string \<Rightarrow> DownloadClientSpec list \<Rightarrow> (string, string) gomap \<Rightarrow> ('w, (string, string) gomap) action" where
  "ResolveDownloadClientSecrets env namespace =
     resolve_each (\<lambda>dc. resolve_credentials env ''failed to resolve download client credentials'' namespace
       (dcs_CredentialsSecretRef dc))"

definition ResolveIndexerSecrets ::
    "'w Env \<Rightarrow> string \<Rightarrow> IndexersSpec option \<Rightarrow> (string, string) gomap \<Rightarrow> ('w, (string, string) gomap) action" where
  "ResolveIndexerSecrets env namespace indexers resolved =
     (case indexers of
        None \<Rightarrow> give resolved
      | Some ixs \<Rightarrow> resolve_each (\<lambda>idx. resolve_api_key env ''failed to resolve indexer API key'' namespace
          (di_APIKeySecretRef idx)) (ixs_Direct ixs) resolved)"

definition ResolveProwlarrIndexerSecrets ::
    "'w Env \<Rightarrow> string \<Rightarrow> ProwlarrIndexer list \<Rightarrow> (string, string) gomap \<Rightarrow> ('w, (string, string) gomap) action" where
  "ResolveProwlarrIndexerSecrets env namespace =
     resolve_each (\<lambda>idx. resolve_api_key env ''failed to resolve Prowlarr indexer API key'' namespace
       (pix_APIKeySecretRef idx))"

definition ResolveProxySecrets ::
    "'w Env \<Rightarrow> string \<Rightarrow> IndexerProxy list \<Rightarrow> (string, string) gomap \<Rightarrow> ('w, (string, string) gomap) action" where
  "ResolveProxySecrets env namespace =
     resolve_each (\<lambda>proxy. resolve_credentials env ''failed to resolve proxy credentials'' namespace
       (ipx_CredentialsSecretRef proxy))"

definition ResolveApplicationSecrets ::
    "'w Env \<Rightarrow> string \<Rightarrow> ProwlarrApplication list \<Rightarrow> (string, string) gomap \<Rightarrow> ('w, (string, string) gomap) action" where
  "ResolveApplicationSecrets env namespace =
     resolve_each (\<lambda>app. resolve_api_key env ''failed to resolve application API key'' namespace
       (pap_APIKeySecretRef app))"

definition ResolveImportListSecrets ::
    "'w Env \<Rightarrow> string \<Rightarrow> ImportListSpec list \<Rightarrow> (string, string) gomap \<Rightarrow> ('w, (string, string) gomap) action" where
  "ResolveImportListSecrets env namespace =
     resolve_each (\<lambda>l resolved. case isp_SettingsSecretRef l of
         None \<Rightarrow> give resolved
       | Some ref \<Rightarrow>
           andThen (wrap_err (''failed to get import list secret '' @ sk_Name ref) (env_GetSecret env namespace (sk_Name ref)))
             (\<lambda>data. give (fold (\<lambda>(key, value). gm_set (secret_key (sk_Name ref) key) value)
                         (gm_range (env_order env) 0 data) resolved)))"

definition ResolveAuthenticationSecrets ::
    "'w Env \<Rightarrow> string \<Rightarrow> AuthenticationSpec option \<Rightarrow> (string, string) gomap \<Rightarrow> ('w, (string, string) gomap) action" where
  "ResolveAuthenticationSecrets env namespace auth resolved =
     (case auth of
        None \<Rightarrow> give resolved
      | Some a \<Rightarrow> (case aus_PasswordSecretRef a of
            None \<Rightarrow> give resolved
          | Some ref \<Rightarrow> resolve_into env ''failed to resolve authentication password'' namespace (sk_Name ref)
              (key_or ''password'' (sk_Key ref)) resolved))"

section \<open>Registration with Prowlarr\<close>

record ProwlarrAutoRegistration =
  par_ProwlarrRef :: "ProwlarrRef option"
  par_AppType :: string
  par_AppName :: string
  par_AppURL :: string
  par_AppAPIKey :: string

definition prowlarr_connection :: "ProwlarrConfig \<Rightarrow> (string, string) gomap \<Rightarrow> ProwlarrConnection" where
  "prowlarr_connection prowlarrConfig prowlarrSecrets =
     \<lparr>pcn_URL = cns_URL (pro_Connection (proc_Spec prowlarrConfig)),
      pcn_APIKey = (case map_of prowlarrSecrets ''apiKey'' of Some k \<Rightarrow> k | None \<Rightarrow> [])\<rparr>"

definition HandleProwlarrRegistration :: "'w Env \<Rightarrow> string \<Rightarrow> ProwlarrAutoRegistration \<Rightarrow> ('w, unit) action" where
  "HandleProwlarrRegistration env namespace reg =
     (case par_ProwlarrRef reg of
        None \<Rightarrow> give ()
      | Some ref \<Rightarrow>
          let autoRegister = (case prf_AutoRegister ref of None \<Rightarrow> True | Some b \<Rightarrow> b)
          in if \<not> autoRegister then give ()
             else andThen (wrap_err (''failed to get ProwlarrConfig '' @ prf_Name ref)
                    (env_GetProwlarrConfig env namespace (prf_Name ref))) (\<lambda>prowlarrConfig.
                  andThen (wrap_err ''failed to resolve Prowlarr secrets''
                    (ResolveConnectionSecrets env namespace (pro_Connection (proc_Spec prowlarrConfig)))) (\<lambda>prowlarrSecrets.
                  let prowlarrConn = prowlarr_connection prowlarrConfig prowlarrSecrets
                  in wrap_err ''failed to register with Prowlarr''
                       (RegisterApp (env_applications env prowlarrConn) prowlarrConn
                         \<lparr>arg_Name = par_AppName reg, arg_Type = par_AppType reg, arg_URL = par_AppURL reg,
                          arg_APIKey = par_AppAPIKey reg, arg_ProwlarrURL = [], arg_SyncLevel = SyncLevelFullSync,
                          arg_SyncCategories = [], arg_Tags = []\<rparr>))))"

text \<open>Nothing that goes wrong here blocks the deletion of the resource.\<close>

definition HandleProwlarrUnregistration :: "'w Env \<Rightarrow> string \<Rightarrow> string \<Rightarrow> string \<Rightarrow> ('w, unit) action" where
  "HandleProwlarrUnregistration env namespace prowlarrRefName appName =
     (if prowlarrRefName = [] then give ()
      else if_err (env_GetProwlarrConfig env namespace prowlarrRefName) (\<lambda>_. give ()) (\<lambda>prowlarrConfig.
           if_err (ResolveConnectionSecrets env namespace (pro_Connection (proc_Spec prowlarrConfig))) (\<lambda>_. give ())
             (\<lambda>prowlarrSecrets.
              let prowlarrConn = prowlarr_connection prowlarrConfig prowlarrSecrets
              in or_else (UnregisterApp (env_applications env prowlarrConn) (env_deleteApplication env prowlarrConn) appName)
                   (\<lambda>_. give ()))))"

section \<open>Direct configuration and health\<close>

definition ApplyDirectConfig :: "'w Env \<Rightarrow> string \<Rightarrow> ConnectionIR \<Rightarrow> IR \<Rightarrow> ('w, ApplyResult returned) action" where
  "ApplyDirectConfig env appType connIR desiredIR =
     (case Get (env_adapters env) appType of
        None \<Rightarrow> give (None, Some (appType @ '' adapter not registered''))
      | Some adapter \<Rightarrow> (case ad_ApplyDirect adapter of
            None \<Rightarrow> give (Some zero_result, None)
          | Some applyDirect \<Rightarrow>
              let hasDirectApplyWork = length (ir_ImportLists desiredIR) > 0 \<or> ir_MediaManagement desiredIR \<noteq> None \<or>
                    ir_Authentication desiredIR \<noteq> None
              in if \<not> hasDirectApplyWork then give (Some zero_result, None)
                 else applyDirect connIR desiredIR))"

definition add_issue :: "HealthIssue \<Rightarrow> HealthStatusCRD \<Rightarrow> HealthStatusCRD" where
  "add_issue issue s =
     (let s = s\<lparr>hsc_Issues := hsc_Issues s @ [\<lparr>his_Source = hi_Source issue, his_Type = hi_Type issue,
                  his_Message = hi_Message issue, his_WikiURL = hi_WikiURL issue\<rparr>]\<rparr>
      in if hi_Type issue = HealthIssueTypeError then s\<lparr>hsc_ErrorCount := hsc_ErrorCount s + 1\<rparr>
         else if hi_Type issue = HealthIssueTypeWarning then s\<lparr>hsc_WarningCount := hsc_WarningCount s + 1\<rparr>
         else s)"

definition emit_issue ::
    "(ObjectMeta \<Rightarrow> string \<Rightarrow> string \<Rightarrow> string \<Rightarrow> 'w \<Rightarrow> 'w) \<Rightarrow> ObjectMeta \<Rightarrow> HealthIssue \<Rightarrow> 'w \<Rightarrow> 'w" where
  "emit_issue event obj issue =
     (let message = ''['' @ hi_Source issue @ ''] '' @ hi_Message issue
      in if hi_Type issue = HealthIssueTypeError then event obj ''Warning'' ''HealthError'' message
         else if hi_Type issue = HealthIssueTypeWarning then event obj ''Warning'' ''HealthWarning'' message
         else if hi_Type issue = HealthIssueTypeNotice then (\<lambda>w. w)
         else event obj ''Warning'' ''HealthWarning'' message)"

definition CheckAndReportHealth ::
    "'w Env \<Rightarrow> string \<Rightarrow> ConnectionIR \<Rightarrow> ObjectMeta \<Rightarrow> ('w, HealthStatusCRD option) action" where
  "CheckAndReportHealth env appType connIR obj =
     (case Get (env_adapters env) appType of
        None \<Rightarrow> give None
      | Some adapter \<Rightarrow> (case ad_GetHealth adapter of
            None \<Rightarrow> give None
          | Some getHealth \<Rightarrow>
              if_err (getHealth connIR) (\<lambda>_. give None) (\<lambda>healthIR w.
                let healthStatus = fold add_issue (hs_Issues healthIR)
                      \<lparr>hsc_Healthy = hs_Healthy healthIR, hsc_IssueCount = int (length (hs_Issues healthIR)), hsc_ErrorCount = 0,
                       hsc_WarningCount = 0, hsc_LastCheck = Some (env_Now env w), hsc_Issues = []\<rparr>
                in (Ok (Some healthStatus),
                    (case env_Event env of None \<Rightarrow> w | Some event \<Rightarrow> fold (emit_issue event obj) (hs_Issues healthIR) w)))))"

end
