(* ===== verification/Reconcile_Status.thy ===== *)
theory Reconcile_Status
  imports Reconcile_Helper
begin

text \<open>
  What \<^verbatim>\<open>ReconcileConfig\<close> leaves in the status of a resource, for every outcome of the
  adapter. Proved once for any resource that meets the interface \<open>config_status\<close>, by rules
  that follow the code step by step, and instantiated by its interpretations.
\<close>

section \<open>Rules\<close>

text \<open>\<open>ensures m s Q\<close>: \<open>Q\<close> holds of the outcome and the final state.\<close>

definition ensures :: "('s, 'a) action \<Rightarrow> 's \<Rightarrow> ('a outcome \<Rightarrow> 's \<Rightarrow> bool) \<Rightarrow> bool" where
  "ensures m s Q = (case m s of (q, s') \<Rightarrow> Q q s')"

lemma ensuresD: "ensures m s Q \<Longrightarrow> m s = (q, s') \<Longrightarrow> Q q s'"
  by (simp add: ensures_def)

lemma ensures_simps [simp]:
  "ensures (give x) s Q \<longleftrightarrow> Q (Ok x) s"
  "ensures (fail e) s Q \<longleftrightarrow> Q (Err e) s"
  "ensures (panics p) s Q \<longleftrightarrow> Q (Panic p) s"
  "ensures (on_config f k) (c, w) Q \<longleftrightarrow> ensures k (f c, w) Q"
  "ensures (on_world g k) (c, w) Q \<longleftrightarrow> ensures k (c, g w) Q"
  "ensures (read_clock env kt) (c, w) Q \<longleftrightarrow> ensures (kt (env_Now env w)) (c, w) Q"
  by (simp_all add: ensures_def give_def fail_def panics_def on_config_def on_world_def read_clock_def)

lemma ensures_if_err:
  assumes "\<And>x w'. m w = (Ok x, w') \<Longrightarrow> ensures (k x) (c, w') Q"
    and "\<And>e w'. m w = (Err e, w') \<Longrightarrow> ensures (h e) (c, w') Q"
    and "\<And>p w'. m w = (Panic p, w') \<Longrightarrow> Q (Panic p) (c, w')"
  shows "ensures (if_err (on_service m) h k) (c, w) Q"
proof (cases "m w")
  case (Pair q w')
  then show ?thesis
    using assms by (cases q) (simp_all add: ensures_def if_err_def on_service_def)
qed

lemma ensures_call:
  assumes "\<And>x w'. m w = (Ok x, w') \<Longrightarrow> ensures (k x) (c, w') Q"
    and "\<And>e w'. m w = (Err e, w') \<Longrightarrow> Q (Err e) (c, w')"
    and "\<And>p w'. m w = (Panic p, w') \<Longrightarrow> Q (Panic p) (c, w')"
  shows "ensures (andThen (on_service m) k) (c, w) Q"
proof (cases "m w")
  case (Pair q w')
  then show ?thesis
    using assms by (cases q) (simp_all add: ensures_def andThen_def on_service_def)
qed

section \<open>Conditions\<close>

text \<open>
  The documented behaviour of \<^verbatim>\<open>meta.SetStatusCondition\<close>: the condition of that type carries
  the new status, generation, reason and message, and the conditions of other types stay.
\<close>

definition condition_of :: "string \<Rightarrow> Condition list \<Rightarrow> Condition option" where
  "condition_of ty = find (\<lambda>x. cd_Type x = ty)"

definition sets_status_condition :: "(Condition \<Rightarrow> Condition list \<Rightarrow> Condition list) \<Rightarrow> bool" where
  "sets_status_condition f \<longleftrightarrow>
     (\<forall>new cs. (\<exists>t. condition_of (cd_Type new) (f new cs) = Some (new\<lparr>cd_LastTransitionTime := t\<rparr>)) \<and>
        (\<forall>ty. ty \<noteq> cd_Type new \<longrightarrow> condition_of ty (f new cs) = condition_of ty cs))"

definition has_condition :: "string \<Rightarrow> string \<Rightarrow> int \<Rightarrow> StatusView \<Rightarrow> bool" where
  "has_condition ty status generation v \<longleftrightarrow>
     (\<exists>x. condition_of ty (sv_Conditions v) = Some x \<and> cd_Status x = status \<and> cd_ObservedGeneration x = generation)"

lemma has_condition_frame [simp]:
  "has_condition ty s g (v\<lparr>sv_Connected := b\<rparr>) = has_condition ty s g v"
  "has_condition ty s g (v\<lparr>sv_ServiceVersion := x\<rparr>) = has_condition ty s g v"
  "has_condition ty s g (v\<lparr>sv_LastReconcile := t\<rparr>) = has_condition ty s g v"
  "has_condition ty s g (v\<lparr>sv_LastAppliedHash := h\<rparr>) = has_condition ty s g v"
  by (simp_all add: has_condition_def)

lemma has_condition_unique: "has_condition ty s g v \<Longrightarrow> has_condition ty s' g' v \<Longrightarrow> s = s' \<and> g = g'"
  by (auto simp: has_condition_def)

section \<open>What ReconcileConfig leaves behind\<close>

text \<open>
  The contract: without an error the resource is ready for this generation, connected, and
  carries the hash of the configuration, and it is reported as synced exactly if every change
  was applied; with an error it is not ready and keeps the hash and time of the last success.
\<close>

definition reconciled ::
    "StatusView \<Rightarrow> int \<Rightarrow> string \<Rightarrow> ApplyResult returned outcome \<Rightarrow> StatusView \<Rightarrow> bool" where
  "reconciled v0 generation hash q v \<longleftrightarrow>
     (case q of
        Ok (res, None) \<Rightarrow>
          has_condition ConditionTypeReady ConditionTrue generation v \<and>
          has_condition ConditionTypeConnected ConditionTrue generation v \<and>
          sv_Connected v \<and> sv_LastAppliedHash v = hash \<and> sv_LastReconcile v \<noteq> None \<and>
          (\<exists>r. res = Some r \<and>
             has_condition ConditionTypeSynced (if Success r then ConditionTrue else ConditionFalse) generation v)
      | Ok (res, Some e) \<Rightarrow>
          has_condition ConditionTypeReady ConditionFalse generation v \<and>
          sv_LastAppliedHash v = sv_LastAppliedHash v0 \<and> sv_LastReconcile v = sv_LastReconcile v0
      | Err _ \<Rightarrow> False
      | Panic _ \<Rightarrow> sv_LastAppliedHash v = sv_LastAppliedHash v0 \<and> sv_LastReconcile v = sv_LastReconcile v0)"

lemma reconciled_failed [simp]:
  "reconciled v0 g h (Err e) v = False"
  "reconciled v0 g h (Panic p) v \<longleftrightarrow>
     sv_LastAppliedHash v = sv_LastAppliedHash v0 \<and> sv_LastReconcile v = sv_LastReconcile v0"
  "reconciled v0 g h (Ok (res, Some x)) v \<longleftrightarrow> has_condition ConditionTypeReady ConditionFalse g v \<and>
     sv_LastAppliedHash v = sv_LastAppliedHash v0 \<and> sv_LastReconcile v = sv_LastReconcile v0"
  by (simp_all add: reconciled_def)

text \<open>The shape of an adapter's \<^verbatim>\<open>Apply\<close>: it returns a pair, never a bare error.\<close>

definition returns_pair :: "('s, 'a) action \<Rightarrow> bool" where
  "returns_pair m \<longleftrightarrow> (\<forall>s e s'. m s \<noteq> (Err e, s'))"

context config_status
begin

lemma ensures_SetCondition:
  assumes law: "sets_status_condition (env_SetStatusCondition env)"
    and k: "\<And>cs c'. view c' = (view c)\<lparr>sv_Conditions := cs\<rparr> \<Longrightarrow> rest c' = rest c \<Longrightarrow>
      has_condition ty s g (view c') \<Longrightarrow>
      (\<And>ty' s' g'. ty' \<noteq> ty \<Longrightarrow> has_condition ty' s' g' (view c') = has_condition ty' s' g' (view c)) \<Longrightarrow>
      ensures k (c', w) Q"
  shows "ensures (SetCondition env st g ty s reason msg k) (c, w) Q"
proof -
  let ?new = "\<lparr>cd_Type = ty, cd_Status = s, cd_ObservedGeneration = g, cd_LastTransitionTime = env_Now env w,
     cd_Reason = reason, cd_Message = msg\<rparr>"
  let ?cs = "env_SetStatusCondition env ?new (GetConditions st c)"
  have new: "\<exists>t. condition_of ty ?cs = Some (?new\<lparr>cd_LastTransitionTime := t\<rparr>)"
    and other: "\<And>ty'. ty' \<noteq> ty \<Longrightarrow> condition_of ty' ?cs = condition_of ty' (GetConditions st c)"
    using law unfolding sets_status_condition_def by (metis Condition.select_convs(1))+
  have "ensures k (SetConditions st ?cs c, w) Q"
    using new other by (intro k) (auto simp: wrapper_simps has_condition_def)
  then show ?thesis by (simp add: SetCondition_def)
qed

lemmas status_rules = ensures_SetCondition ensures_if_err ensures_call

lemma finish_sync_reconciled:
  assumes "sets_status_condition (env_SetStatusCondition env)"
    and "has_condition ConditionTypeConnected ConditionTrue g (view c)" and "sv_Connected (view c)"
    and "has_condition ConditionTypeSynced (if Success r then ConditionTrue else ConditionFalse) g (view c)"
    and "rest c = r0"
  shows "ensures (finish_sync env st g app t0 ir r) (c, w)
    (\<lambda>q cw. reconciled v0 g (ir_SourceHash ir) q (view (fst cw)) \<and> rest (fst cw) = r0)"
  unfolding finish_sync_def using assms(2-)
  by (simp add: wrapper_simps) (rule ensures_SetCondition [OF assms(1)], simp add: reconciled_def wrapper_simps)

lemma sync_changes_reconciled:
  assumes law: "sets_status_condition (env_SetStatusCondition env)" and pair: "returns_pair (ad_Apply adapter conn changes)"
    and c: "has_condition ConditionTypeConnected ConditionTrue g (view c)" "sv_Connected (view c)"
      "sv_LastAppliedHash (view c) = sv_LastAppliedHash v0" "sv_LastReconcile (view c) = sv_LastReconcile v0"
      "rest c = r0"
  shows "ensures (sync_changes env adapter st g app t0 conn changes (finish_sync env st g app t0 ir)) (c, w)
    (\<lambda>q cw. reconciled v0 g (ir_SourceHash ir) q (view (fst cw)) \<and> rest (fst cw) = r0)"
  unfolding sync_changes_def using c pair
  by (auto simp: returns_pair_def apply_failed_def report_applied_def
      intro!: ensures_SetCondition [OF law] ensures_call finish_sync_reconciled [OF law] split: option.split)

lemma ReconcileConfig_reconciled:
  assumes law: "sets_status_condition (env_SetStatusCondition env)"
    and pair: "\<And>adapter changes. Get (env_adapters env) app = Some adapter \<Longrightarrow> returns_pair (ad_Apply adapter conn changes)"
  shows "ensures (ReconcileConfig env app conn ir st g) (c, w)
    (\<lambda>q cw. reconciled (view c) g (ir_SourceHash ir) q (view (fst cw)) \<and> rest (fst cw) = rest c)"
  unfolding ReconcileConfig_def
  by (auto simp: Let_def wrapper_simps
      intro!: ensures_SetCondition [OF law] ensures_if_err sync_changes_reconciled [OF law pair] split: option.split)

end

section \<open>When it panics\<close>

text \<open>An adapter whose calls do not panic and whose \<^verbatim>\<open>Apply\<close> never returns a nil result.\<close>

definition adapter_safe :: "'w AdapterOps \<Rightarrow> ConnectionIR \<Rightarrow> bool" where
  "adapter_safe adapter conn \<longleftrightarrow> no_panic (ad_Connect adapter conn) \<and> no_panic (ad_Discover adapter conn) \<and>
     no_panic (ad_CurrentState adapter conn) \<and>
     (\<forall>w w' ir desired caps. ad_CurrentState adapter conn w = (Ok ir, w') \<longrightarrow> no_panic (ad_Diff adapter ir desired caps)) \<and>
     (\<forall>w ir desired caps changes w' w''. ad_Diff adapter ir desired caps w = (Ok changes, w') \<longrightarrow>
        (\<exists>r e w3. ad_Apply adapter conn changes w'' = (Ok (Some r, e), w3)))"

fun is_ok :: "'a outcome \<Rightarrow> bool" where
  "is_ok (Ok x) = True"
| "is_ok (Err e) = False"
| "is_ok (Panic p) = False"

fun is_panic :: "'a outcome \<Rightarrow> bool" where
  "is_panic (Panic p) = True"
| "is_panic (Ok x) = False"
| "is_panic (Err e) = False"

lemma ensures_SetCondition_ok:
  assumes "\<And>c'. ensures k (c', w) Q"
  shows "ensures (SetCondition env st g ty s reason msg k) (c, w) Q"
  using assms by (simp add: SetCondition_def)

lemma ensures_if_err_ok:
  assumes "no_panic m" and "\<And>x w'. m w = (Ok x, w') \<Longrightarrow> ensures (k x) (c, w') Q"
    and "\<And>e w'. ensures (h e) (c, w') Q"
  shows "ensures (if_err (on_service m) h k) (c, w) Q"
proof (rule ensures_if_err)
  fix p w' assume "m w = (Panic p, w')"
  from no_panicD [OF assms(1) this] show "Q (Panic p) (c, w')" by simp
qed (use assms(2,3) in auto)

lemma ensures_always_ok:
  assumes "always_ok P m" and "\<And>x w'. P x \<Longrightarrow> ensures (k x) (c, w') Q"
  shows "ensures (if_err (on_service m) h k) (c, w) Q" and "ensures (andThen (on_service m) k) (c, w) Q"
proof -
  obtain x w' where "m w = (Ok x, w')" "P x" using assms(1) unfolding always_ok_def by blast
  then show "ensures (if_err (on_service m) h k) (c, w) Q" "ensures (andThen (on_service m) k) (c, w) Q"
    using assms(2) by (simp_all add: ensures_def if_err_def on_service_def)
qed

lemma ensures_call_Ok: "m w = (Ok x, w') \<Longrightarrow> ensures (andThen (on_service m) k) (c, w) Q = ensures (k x) (c, w') Q"
  by (simp add: ensures_def on_service_def)

lemma sync_changes_returns:
  assumes "\<And>w. \<exists>r e w'. ad_Apply adapter conn changes w = (Ok (Some r, e), w')"
  shows "ensures (sync_changes env adapter st g app t0 conn changes (finish_sync env st g app t0 ir)) (c, w)
    (\<lambda>q _. is_ok q)"
proof -
  let ?w = "record_changes (RecordConfigDrift (env_prom env) app) (cs_Updates changes)
    (record_changes (RecordConfigDrift (env_prom env) app) (cs_Creates changes) w)"
  obtain r e w' where "ad_Apply adapter conn changes ?w = (Ok (Some r, e), w')" using assms by blast
  then show ?thesis
    unfolding sync_changes_def
    by (auto simp: ensures_call_Ok apply_failed_def report_applied_def finish_sync_def
        intro!: ensures_SetCondition_ok split: option.split)
qed

lemma ReconcileConfig_returns:
  assumes "\<And>adapter. Get (env_adapters env) app = Some adapter \<Longrightarrow> adapter_safe adapter conn"
  shows "ensures (ReconcileConfig env app conn ir st g) (c, w) (\<lambda>q _. is_ok q)"
proof (cases "Get (env_adapters env) app")
  case None
  then show ?thesis by (auto simp: ReconcileConfig_def Let_def intro!: ensures_SetCondition_ok)
next
  case (Some adapter)
  note safe = assms [OF Some, unfolded adapter_safe_def]
  have "ensures (sync_changes env adapter st g app t0 conn changes (finish_sync env st g app t0 ir)) (c', w'')
      (\<lambda>q _. is_ok q)"
    if "ad_Diff adapter cur ir (Some caps) w' = (Ok changes, w'')" for cur caps w' w'' changes t0 c'
    using safe that by (intro sync_changes_returns) blast
  moreover have "no_panic (ad_Diff adapter cur ir caps)" if "ad_CurrentState adapter conn w' = (Ok cur, w'')" for w' cur w'' caps
    using safe that by blast
  ultimately show ?thesis
    using safe by (auto simp: ReconcileConfig_def Some intro!: ensures_SetCondition_ok ensures_if_err_ok)
qed

section \<open>An environment that meets the hypotheses\<close>

fun upsert_condition :: "Condition \<Rightarrow> Condition list \<Rightarrow> Condition list" where
  "upsert_condition new [] = [new]"
| "upsert_condition new (x # xs) = (if cd_Type x = cd_Type new then new # xs else x # upsert_condition new xs)"

lemma upsert_condition_sets: "sets_status_condition upsert_condition"
proof -
  have "condition_of (cd_Type new) (upsert_condition new cs) = Some new" for new cs
    by (induction cs) (auto simp: condition_of_def)
  moreover have "condition_of ty (upsert_condition new cs) = condition_of ty cs" if "ty \<noteq> cd_Type new" for ty new cs
    using that by (induction cs) (auto simp: condition_of_def)
  moreover have "new = new\<lparr>cd_LastTransitionTime := cd_LastTransitionTime new\<rparr>" for new :: Condition by simp
  ultimately show ?thesis unfolding sets_status_condition_def by metis
qed

definition plain_env :: "'w AdapterOps registry \<Rightarrow> 'w Env" where
  "plain_env adapters = \<lparr>env_adapters = adapters, env_GetSecret = (\<lambda>ns n. give [(''apiKey'', ''k'')]),
     env_GetProwlarrConfig = (\<lambda>ns n. fail ''not found''), env_Now = (\<lambda>w. 0),
     env_prom = \<lparr>prom_Inc = (\<lambda>n l w. w), prom_Set = (\<lambda>n l v w. w), prom_Observe = (\<lambda>n l v w. w)\<rparr>,
     env_Event = None, env_applications = (\<lambda>c. refusing), env_deleteApplication = (\<lambda>c p. fail ''503''),
     env_SetStatusCondition = upsert_condition, env_ContainsFinalizer = (\<lambda>f fs. f \<in> set fs),
     env_AddFinalizer = (\<lambda>f fs. if f \<in> set fs then fs else fs @ [f]),
     env_RemoveFinalizer = (\<lambda>f. filter (\<lambda>x. x \<noteq> f)), env_order = forward_order\<rparr>"

lemma plain_env_simps [simp]:
  "env_adapters (plain_env ads) = ads" "env_SetStatusCondition (plain_env ads) = upsert_condition"
  by (simp_all add: plain_env_def)

end
