(* ===== verification/Sonarr_Safety.thy ===== *)
theory Sonarr_Safety
  imports Sonarr
begin

text \<open>
  What holds of the Sonarr adapter whatever the service answers: the change sets \<^verbatim>\<open>Diff\<close>
  computes are ones \<^verbatim>\<open>Apply\<close> can dispatch, no operation panics as long as the HTTP client
  does not, every change is accounted for, and reading the current state never fails.
\<close>

section \<open>Change sets the adapter can apply\<close>

text \<open>
  A change \<^verbatim>\<open>applyCreate\<close>, \<^verbatim>\<open>applyUpdate\<close> or \<^verbatim>\<open>applyDelete\<close> can dispatch: its payload has
  the dynamic type the branch of its resource type asserts, and an ID is there where one is
  dereferenced.
\<close>

definition typed_create :: "Change \<Rightarrow> bool" where
  "typed_create c = (case ch_Payload c of
       VideoQualityPtr _ \<Rightarrow> ch_ResourceType c = ResourceQualityProfile
     | CustomFormatPtr _ \<Rightarrow> ch_ResourceType c = ResourceCustomFormat
     | DownloadClientVal _ \<Rightarrow> ch_ResourceType c = ResourceDownloadClient
     | IndexerVal _ \<Rightarrow> ch_ResourceType c = ResourceIndexer
     | RootFolderVal _ \<Rightarrow> ch_ResourceType c = ResourceRootFolder
     | RemotePathMappingPtr _ \<Rightarrow> ch_ResourceType c = ResourceRemotePathMapping
     | NotificationPtr _ \<Rightarrow> ch_ResourceType c = ResourceNotification
     | DelayProfilePtr _ \<Rightarrow> ch_ResourceType c = ResourceDelayProfile
     | _ \<Rightarrow> False)"

definition typed_update :: "Change \<Rightarrow> bool" where
  "typed_update c = (ch_ID c \<noteq> None \<and> (case ch_Payload c of
       VideoQualityPtr _ \<Rightarrow> ch_ResourceType c = ResourceQualityProfile
     | CustomFormatPtr _ \<Rightarrow> ch_ResourceType c = ResourceCustomFormat
     | DownloadClientVal _ \<Rightarrow> ch_ResourceType c = ResourceDownloadClient
     | IndexerVal _ \<Rightarrow> ch_ResourceType c = ResourceIndexer
     | SonarrNamingPtr _ \<Rightarrow> ch_ResourceType c = ResourceNamingConfig
     | RemotePathMappingPtr _ \<Rightarrow> ch_ResourceType c = ResourceRemotePathMapping
     | NotificationPtr _ \<Rightarrow> ch_ResourceType c = ResourceNotification
     | DelayProfilePtr _ \<Rightarrow> ch_ResourceType c = ResourceDelayProfile
     | _ \<Rightarrow> False))"

definition typed_delete :: "Change \<Rightarrow> bool" where
  "typed_delete c = (ch_ID c \<noteq> None \<and> ch_ResourceType c \<in> set [ResourceQualityProfile, ResourceCustomFormat,
     ResourceDownloadClient, ResourceIndexer, ResourceRemotePathMapping, ResourceNotification, ResourceDelayProfile])"

abbreviation typed_changes :: "ChangeSet \<Rightarrow> bool" where
  "typed_changes \<equiv> all_changes typed_create typed_update typed_delete"

lemmas typed_defs = typed_create_def typed_update_def typed_delete_def

lemma typed_keyed [simp]:
  "typed_create (dc_create k d)" "typed_update (dc_update k c d)" "typed_delete (dc_delete k c)"
  "typed_create (idx_create k i)" "typed_update (idx_update k j i)" "typed_delete (idx_delete k i)"
  "typed_create (rpm_create k m)" "typed_update (rpm_update k n m)" "typed_delete (rpm_delete k m)"
  "typed_create (nt_create k x)" "typed_update (nt_update k y x)" "typed_delete (nt_delete k x)"
  "typed_create (cf_create k f)" "typed_update (cf_update k g f)" "typed_delete (cf_delete k f)"
  "typed_create (dp_create p)" "typed_update (dp_update q p)" "typed_delete (dp_delete p)"
  by (simp_all add: typed_defs dc_create_def dc_update_def dc_delete_def idx_create_def idx_update_def idx_delete_def
      rpm_create_def rpm_update_def rpm_delete_def nt_create_def nt_update_def nt_delete_def
      cf_create_def cf_update_def cf_delete_def dp_create_def dp_update_def dp_delete_def)

lemma typed_quality: "typed_changes cs \<Longrightarrow> typed_changes (diffQualityProfiles vars cur des cs)"
  by (auto simp: diffQualityProfiles_def DiffQualityProfiles_def DiffVideoQualityProfiles_def quality_profile_change_def
      typed_defs split: option.split)

lemma typed_folders: "typed_changes cs \<Longrightarrow> typed_changes (DiffRootFolders cur des cs)"
  unfolding DiffRootFolders_def Let_def
  by (induction des arbitrary: cs) (auto simp: typed_create_def)

lemma typed_naming: "typed_changes cs \<Longrightarrow> typed_changes (diffNaming vars cur des cs)"
  by (auto simp: diffNaming_def typed_update_def split: option.split)

lemma typed_delays: "typed_changes cs \<Longrightarrow> typed_changes (DiffDelayProfiles cur des cs)"
proof -
  have ups: "typed_changes (fold (\<lambda>dp cs. case map_of m (dp_Order dp) of
       None \<Rightarrow> add_create (dp_create dp) cs
     | Some c \<Rightarrow> if \<not> DelayProfilesEqual c dp then add_update (dp_update c dp) cs else cs) ds cs)"
    if "typed_changes cs" for m ds cs
    using that by (induction ds arbitrary: cs) (auto split: option.split)
  have dels: "typed_changes (fold (\<lambda>cp cs. if dp_Order cp = 1 then cs
       else case map_of m (dp_Order cp) of None \<Rightarrow> add_delete (dp_delete cp) cs | Some _ \<Rightarrow> cs) ds cs)"
    if "typed_changes cs" for m ds cs
    using that by (induction ds arbitrary: cs) (auto split: option.split)
  show "typed_changes cs \<Longrightarrow> ?thesis"
    unfolding DiffDelayProfiles_def Let_def dp_create_def [symmetric] dp_update_def [symmetric] dp_delete_def [symmetric]
    by (intro dels ups)
qed

lemma typed_keyed_diffs:
  assumes "valid_order ord" and "typed_changes cs"
  shows "typed_changes (DiffDownloadClientsWithIR ord a b cs)"
    and "typed_changes (diffIndexers ord current desired cs)"
    and "typed_changes (DiffRemotePathMappings ord e f cs)"
    and "typed_changes (diffNotifications sprint ord g h cs)"
    and "typed_changes (diffCustomFormats ord i j cs)"
  using assms
  by (simp_all add: dcs.diff_all_changes diffIndexers_def idxs.diff_all_changes rpms.diff_all_changes
      nts.diff_all_changes formats.diff_all_changes)

lemma Diff_typed:
  assumes "valid_order ord"
  shows "typed_changes (Diff sprint ord vars current desired)"
  unfolding Diff_def Let_def
  by (intro typed_delays typed_keyed_diffs typed_naming typed_folders typed_quality) (simp_all add: assms)

text \<open>
  C26. Every change set Sonarr's \<^verbatim>\<open>Diff\<close> computes is one its \<^verbatim>\<open>Apply\<close> can dispatch: each
  create and update carries a payload of the dynamic type the applying branch asserts for
  its resource type, each update and delete carries an ID, and no resource type is
  unsupported for its operation.
\<close>

theorem Diff_changes_typed:
  assumes "valid_order ord"
  shows "all_changes typed_create typed_update typed_delete (Diff sprint ord vars current desired)"
  using Diff_typed [OF assms] .

theorem Diff_changes_typed_witness:
  "typed_changes (Diff (\<lambda>_. '''') backward_order initial_vars zero_IR
     (zero_IR\<lparr>ir_DownloadClients := [sample_dc ''a'' 0 80], ir_RootFolders := [\<lparr>rf_Path = ''/tv'', rf_Name = '''',
        rf_DefaultMonitor = ''''\<rparr>]\<rparr>))"
  by (rule Diff_changes_typed [OF valid_backward_order])

section \<open>No panics\<close>

text \<open>Requests may fail, but the HTTP client does not panic.\<close>

definition api_total :: "'s SonarrAPI \<Rightarrow> bool" where
  "api_total api \<longleftrightarrow> ep_total (api_system api) \<and> ep_total (api_tags api) \<and> ep_total (api_health api) \<and>
     ep_total (api_profiles api) \<and> ep_total (api_clients api) \<and> ep_total (api_indexers api) \<and>
     ep_total (api_folders api) \<and> ep_total (api_mappings api) \<and> ep_total (api_naming api) \<and>
     ep_total (api_lists api) \<and> ep_total (api_media api) \<and> ep_total (api_host api) \<and>
     ep_total (api_notifications api) \<and> ep_total (api_formats api) \<and> ep_total (api_delays api) \<and>
     (\<forall>p. no_panic (api_delete api p))"

lemma api_totalD [dest]:
  assumes "api_total api"
  shows "ep_total (api_system api)" "ep_total (api_tags api)" "ep_total (api_health api)"
    "ep_total (api_profiles api)" "ep_total (api_clients api)" "ep_total (api_indexers api)"
    "ep_total (api_folders api)" "ep_total (api_mappings api)" "ep_total (api_naming api)"
    "ep_total (api_lists api)" "ep_total (api_media api)" "ep_total (api_host api)"
    "ep_total (api_notifications api)" "ep_total (api_formats api)" "ep_total (api_delays api)"
    "no_panic (api_delete api p)"
  using assms by (simp_all add: api_total_def)

lemma no_panic_profile_resource: "api_total api \<Longrightarrow> no_panic (profile_resource ord api i profile)"
  unfolding profile_resource_def buildFormatItems_def Let_def
  by (intro no_panic_andThen no_panic_wrap_err ep_totalD(2) api_totalD)
    (auto split: prod.split intro!: no_panic_rules)

lemma no_panic_create:
  assumes "api_total api" and "typed_create c"
  shows "no_panic (applyCreate ord api tagID c)"
  using assms(2) api_totalD [OF assms(1)] no_panic_profile_resource [OF assms(1)]
  by (auto simp: typed_create_def applyCreate_def createQualityProfile_def createCustomFormat_def
      createDownloadClient_def createIndexer_def createRootFolder_def createRemotePathMapping_def
      createNotification_def createDelayProfile_def intro!: no_panic_rules split: Payload.splits)

lemma no_panic_update:
  assumes "api_total api" and "typed_update c"
  shows "no_panic (applyUpdate ord api vars tagID c)"
  using assms(2) api_totalD [OF assms(1)] no_panic_profile_resource [OF assms(1)]
  by (auto simp: typed_update_def applyUpdate_def with_id_def updateQualityProfile_def updateCustomFormat_def
      updateDownloadClient_def updateIndexer_def updateNaming_def updateRemotePathMapping_def
      updateNotification_def updateDelayProfile_def intro!: no_panic_rules split: Payload.splits)

lemma no_panic_delete: "api_total api \<Longrightarrow> no_panic (applyDelete api c)"
  by (auto simp: applyDelete_def deleteCustomFormat_def deleteRemotePathMapping_def deleteNotification_def
      deleteDelayProfile_def intro!: no_panic_rules split: option.split)

lemma no_panic_ownership:
  assumes "api_total api"
  shows "no_panic (ensureOwnershipTag api)"
    and "no_panic (GetOwnershipTagID (ep_list (api_tags api)) v)"
proof -
  show tag: "no_panic (GetOwnershipTagID (ep_list (api_tags api)) v)" for v
    unfolding GetOwnershipTagID_def using api_totalD(2) [OF assms]
    by (intro no_panic_andThen no_panic_wrap_err) (auto split: option.split)
  show "no_panic (ensureOwnershipTag api)"
    unfolding ensureOwnershipTag_def EnsureOwnershipTag_def using api_totalD(2) [OF assms]
    by (intro no_panic_or_else no_panic_andThen no_panic_wrap_err tag) auto
qed

lemma Apply_outcome:
  assumes "api_total api" and "typed_changes cs"
  shows "case Apply ords api vars cs s of
      (Ok r, s') \<Rightarrow> result_ok (TotalChanges cs) r
    | (Err e, s') \<Rightarrow> \<exists>e'. ensureOwnershipTag api s = (Err e', s')
    | (Panic p, s') \<Rightarrow> False"
proof -
  obtain q s1 where q: "ensureOwnershipTag api s = (q, s1)" by fastforce
  then have "returns q" by (rule no_panicD [OF no_panic_ownership(1) [OF assms(1)]])
  then consider e where "q = Err e" | tagID where "q = Ok tagID" by (cases q) auto
  then show ?thesis
  proof cases
    case 1
    then show ?thesis using q by (simp add: Apply_def)
  next
    case 2
    have "all_changes (\<lambda>c. no_panic (applyCreate (ords c) api tagID c))
        (\<lambda>c. no_panic (applyUpdate (ords c) api vars tagID c)) (\<lambda>c. no_panic (applyDelete api c)) cs"
      using assms(2) no_panic_create no_panic_update no_panic_delete assms(1)
      unfolding all_changes_def by blast
    from ApplyChanges_result [OF this, of s1] show ?thesis
      using q 2 by (auto simp: Apply_def)
  qed
qed

text \<open>
  C6. One reconciliation step against Sonarr never panics and loses no change: applying the
  change set \<^verbatim>\<open>Diff\<close> computed either fails because the ownership tag could not be ensured,
  before any change is tried, or returns a result in which applied and failed changes add
  up to the whole change set with one recorded error per failure.
\<close>

theorem Sonarr_Apply_accounts:
  assumes "api_total api" and "valid_order ord"
  shows "case Apply ords api vars (Diff sprint ord vars current desired) s of
      (Ok r, s') \<Rightarrow> ar_Applied r + ar_Failed r = int (TotalChanges (Diff sprint ord vars current desired))
        \<and> ar_Failed r = int (length (ar_Errors r)) \<and> ar_Skipped r = 0
    | (Err e, s') \<Rightarrow> \<exists>e'. ensureOwnershipTag api s = (Err e', s')
    | (Panic p, s') \<Rightarrow> False"
  using Apply_outcome [OF assms(1) Diff_typed [OF assms(2)],
      where ords = ords and vars = vars and sprint1 = sprint and vars1 = vars and current1 = current and desired1 = desired and s = s]
  by (auto simp: result_ok_def split: prod.splits outcome.splits)

text \<open>A service with no resources, whose write requests all fail.\<close>

definition refusing_api :: "'s SonarrAPI" where
  "refusing_api = \<lparr>api_system = refusing, api_tags = refusing\<lparr>ep_post := (\<lambda>p t. give (t\<lparr>tag_ID := 1\<rparr>))\<rparr>,
     api_health = refusing, api_profiles = refusing, api_clients = refusing, api_indexers = refusing,
     api_folders = refusing, api_mappings = refusing, api_naming = refusing, api_lists = refusing,
     api_media = refusing, api_host = refusing, api_notifications = refusing, api_formats = refusing,
     api_delays = refusing, api_delete = (\<lambda>p. fail ''503'')\<rparr>"

lemma refusing_total [simp]: "api_total refusing_api"
  by (simp add: api_total_def ep_total_def refusing_api_def refusing_def)

theorem Sonarr_Apply_accounts_witness:
  "case Apply (\<lambda>_. forward_order) refusing_api initial_vars
      (Diff (\<lambda>_. '''') forward_order initial_vars zero_IR (zero_IR\<lparr>ir_DownloadClients := [sample_dc ''a'' 0 80]\<rparr>)) () of
    (Ok r, s') \<Rightarrow> ar_Failed r = int (length (ar_Errors r)) | _ \<Rightarrow> True"
proof -
  have "api_total (refusing_api :: unit SonarrAPI)" by simp
  from Sonarr_Apply_accounts [OF this valid_forward_order, where ords = "\<lambda>_. forward_order" and vars = initial_vars
      and sprint = "\<lambda>_. ''''" and current = zero_IR and s = "()"
      and desired = "zero_IR\<lparr>ir_DownloadClients := [sample_dc ''a'' 0 80]\<rparr>"]
  show ?thesis by (auto split: outcome.splits prod.splits)
qed

section \<open>Reading the current state\<close>

lemma always_ok_try_set: "no_panic m \<Longrightarrow> P ir \<Longrightarrow> (\<And>x. P (upd x ir)) \<Longrightarrow> always_ok P (try_set m upd ir)"
  unfolding try_set_def by (rule always_ok_or_else)

lemma no_panic_reads:
  assumes "api_total api"
  shows "no_panic (getManagedQualityProfiles api)" "no_panic (getManagedDownloadClients api tagID)"
    "no_panic (getManagedIndexers api tagID)" "no_panic (getRootFolders api)" "no_panic (getRemotePathMappings api)"
    "no_panic (getNamingConfig api)" "no_panic (getManagedImportLists sprint api tagID)"
    "no_panic (getMediaManagementIR api)" "no_panic (getAuthenticationIR api)"
    "no_panic (getManagedNotifications api tagID)" "no_panic (getAllCustomFormats sprint api)"
    "no_panic (getManagedDelayProfiles api)"
  using api_totalD [OF assms]
  by (auto simp: getManagedQualityProfiles_def getManagedDownloadClients_def getManagedIndexers_def getRootFolders_def
      getRemotePathMappings_def getNamingConfig_def getManagedImportLists_def getImportLists_def
      getMediaManagementIR_def FetchConfig_def getAuthenticationIR_def GetAuthenticationIR_def
      getManagedNotifications_def getAllCustomFormats_def getManagedDelayProfiles_def Let_def
      intro!: no_panic_rules)

definition sonarr_header :: "ConnectionIR \<Rightarrow> IR \<Rightarrow> bool" where
  "sonarr_header conn ir \<longleftrightarrow> ir_Version ir = IRVersion \<and> ir_App ir = AppSonarr \<and> ir_Connection ir = Some conn"

lemma read_state_ok:
  assumes "api_total api" and "sonarr_header conn ir"
  shows "always_ok (sonarr_header conn) (read_state sprint api tagID ir)"
  unfolding read_state_def
  by (intro always_ok_andThen [where P = "sonarr_header conn"] always_ok_try_set no_panic_on_service
      no_panic_reads assms(1))
    (use assms(2) in \<open>auto simp: sonarr_header_def split: list.split\<close>)

lemma CurrentState_ok:
  assumes "api_total api"
  shows "always_ok (sonarr_header conn) (CurrentState sprint now api conn)"
  unfolding always_ok_def
proof
  fix vs :: "SonarrVars \<times> 'a"
  let ?ir = "zero_IR\<lparr>ir_Version := IRVersion, ir_GeneratedAt := now, ir_App := AppSonarr, ir_Connection := Some conn\<rparr>"
  obtain q vs1 where q: "on_service (GetOwnershipTagID (ep_list (api_tags api)) ''v3'') vs = (q, vs1)" by (meson surj_pair)
  have "returns q"
    by (rule no_panicD [OF no_panic_on_service [OF no_panic_ownership(2) [OF assms]] q])
  moreover have "always_ok (sonarr_header conn) (read_state sprint api tagID ?ir)" for tagID
    by (rule read_state_ok [OF assms]) (simp add: sonarr_header_def)
  then have "\<exists>ir vs'. read_state sprint api tagID ?ir vs1 = (Ok ir, vs') \<and> sonarr_header conn ir" for tagID
    unfolding always_ok_def by blast
  ultimately show "\<exists>ir vs'. CurrentState sprint now api conn vs = (Ok ir, vs') \<and> sonarr_header conn ir"
    by (cases q) (simp_all add: CurrentState_def q sonarr_header_def)
qed

text \<open>
  Reading the current state never fails and never panics: whatever requests fail, the
  result is an IR for the Sonarr instance it was asked for; a request that failed shows as
  an absent part, which is not told apart from an empty one.
\<close>

theorem CurrentState_never_fails:
  assumes "api_total api"
  shows "\<exists>ir vs'. CurrentState sprint now api conn vs = (Ok ir, vs') \<and>
    ir_App ir = AppSonarr \<and> ir_Connection ir = Some conn"
  using CurrentState_ok [OF assms] unfolding always_ok_def sonarr_header_def by blast

theorem CurrentState_never_fails_witness:
  "\<exists>ir vs'. CurrentState (\<lambda>_. '''') 0 refusing_api \<lparr>conn_URL = ''http://s'', conn_APIKey = ''k'', conn_InsecureSkipVerify = False\<rparr>
      (initial_vars, ()) = (Ok ir, vs') \<and> ir_App ir = AppSonarr"
  using CurrentState_never_fails [OF refusing_total, of "\<lambda>_. ''''" 0
      "\<lparr>conn_URL = ''http://s'', conn_APIKey = ''k'', conn_InsecureSkipVerify = False\<rparr>" "(initial_vars, ())"]
  by blast

lemma collect_types_props:
  assumes "distinct acc" and "'''' \<notin> set acc" and "\<And>x. gm_flag seen x \<longleftrightarrow> x \<in> set acc"
  shows "distinct (collect_types xs seen acc) \<and> set (collect_types xs seen acc) = set acc \<union> (set xs - {''''})"
  using assms
proof (induction xs seen acc rule: collect_types.induct)
  case (2 impl rest seen acc)
  show ?case
  proof (cases "impl \<noteq> '''' \<and> \<not> gm_flag seen impl")
    case True
    then show ?thesis using 2(1) [OF True] 2(3-) by auto
  next
    case False
    then show ?thesis using 2(2) [OF False] 2(3-) by auto
  qed
qed auto

text \<open>
  Discovery never fails: a schema request that fails leaves its list empty, and the
  types reported are the distinct non-empty implementations of the schemas, each once.
\<close>

theorem Discover_total:
  assumes "api_total api"
  shows "\<exists>caps s'. Discover now api s = (Ok caps, s') \<and> distinct (cap_DownloadClientTypes caps) \<and>
    distinct (cap_IndexerTypes caps) \<and> '''' \<notin> set (cap_DownloadClientTypes caps) \<union> set (cap_IndexerTypes caps) \<and>
    (\<forall>schemas s1. ep_list (api_clients api) ''/api/v3/downloadclient/schema'' s = (Ok schemas, s1) \<longrightarrow>
       set (cap_DownloadClientTypes caps) = (\<lambda>r. bdc_Implementation (dcr_Base r)) ` set schemas - {''''})"
proof -
  have types: "always_ok (\<lambda>ts. distinct ts \<and> '''' \<notin> set ts) (try_types m impl)" if "no_panic m"
    for m :: "('s, 'r list) action" and impl
    unfolding try_types_def using collect_types_props [of "[]" "[]"]
    by (intro always_ok_or_else that) (simp_all add: gm_flag_def)
  let ?m = "try_types (ep_list (api_clients api) ''/api/v3/downloadclient/schema'') (\<lambda>r. bdc_Implementation (dcr_Base r))"
  let ?n = "try_types (ep_list (api_indexers api) ''/api/v3/indexer/schema'') (\<lambda>r. bix_Implementation (ixr_Base r))"
  have "always_ok (\<lambda>ts. distinct ts \<and> '''' \<notin> set ts) ?m" "always_ok (\<lambda>ts. distinct ts \<and> '''' \<notin> set ts) ?n"
    using api_totalD [OF assms] by (auto intro!: types)
  then obtain ds s1 ix s2 where m: "?m s = (Ok ds, s1)" and n: "?n s1 = (Ok ix, s2)"
    and ok: "distinct ds" "'''' \<notin> set ds" "distinct ix" "'''' \<notin> set ix"
    unfolding always_ok_def by metis
  have "set ds = (\<lambda>r. bdc_Implementation (dcr_Base r)) ` set schemas - {''''}"
    if "ep_list (api_clients api) ''/api/v3/downloadclient/schema'' s = (Ok schemas, s1')" for schemas s1'
    using m that collect_types_props [of "[]" "[]" "map (\<lambda>r. bdc_Implementation (dcr_Base r)) schemas"]
    by (simp add: try_types_def or_else_def give_def gm_flag_def)
  then show ?thesis using m n ok by (simp add: Discover_def give_def) blast
qed

theorem Discover_total_witness:
  "\<exists>caps s'. Discover 0 refusing_api () = (Ok caps, s') \<and> distinct (cap_IndexerTypes caps)"
proof -
  have "api_total (refusing_api :: unit SonarrAPI)" by simp
  from Discover_total [OF this, of 0 "()"] show ?thesis by blast
qed

end
