(* ===== verification/Sonarr_Reconcile.thy ===== *)
theory Sonarr_Reconcile
  imports Reconcile_Status Sonarr_Safety
begin

text \<open>
  The Sonarr adapter as the reconciler sees it: the definitions of \<open>Sonarr\<close> behind the
  interface \<open>AdapterOps\<close>, and what a reconciliation against Sonarr does. The world is the
  pair of the adapter's package variables and the rest; \<open>api conn\<close> is the client
  \<^verbatim>\<open>newClient\<close> makes for a connection.
\<close>

definition nil_on_error :: "('s, 'a) action \<Rightarrow> ('s, 'a returned) action" where
  "nil_on_error m = if_err m (\<lambda>e. give (None, Some e)) (\<lambda>x. give (Some x, None))"

definition sonarr_ops ::
    "(GoValue \<Rightarrow> string) \<Rightarrow> range_order \<Rightarrow> (Change \<Rightarrow> range_order) \<Rightarrow> ('s \<Rightarrow> int) \<Rightarrow> (ConnectionIR \<Rightarrow> 's SonarrAPI)
     \<Rightarrow> (SonarrVars \<times> 's) AdapterOps" where
  "sonarr_ops sprint ord ords now api =
     \<lparr>ad_Name = ''sonarr'', ad_SupportedApp = AppSonarr,
      ad_Connect = (\<lambda>conn. on_service (Connect (api conn))),
      ad_Discover = (\<lambda>conn vs. on_service (Discover (now (snd vs)) (api conn)) vs),
      ad_CurrentState = (\<lambda>conn vs. andThen (CurrentState sprint (now (snd vs)) (api conn) conn) (\<lambda>ir. give (Some ir)) vs),
      ad_Diff = (\<lambda>current desired caps. case current of
          None \<Rightarrow> panics ''nil pointer dereference''
        | Some cur \<Rightarrow> (\<lambda>vs. (Ok (Diff sprint ord (fst vs) cur desired), vs))),
      ad_Apply = (\<lambda>conn changes vs. nil_on_error (on_service (Apply ords (api conn) (fst vs) changes)) vs),
      ad_ApplyDirect = Some (\<lambda>conn ir. nil_on_error (on_service (Sonarr.ApplyDirect ord (api conn) ir))),
      ad_GetHealth = Some (\<lambda>conn. on_service (Sonarr.GetHealth (api conn)))\<rparr>"

section \<open>The adapter meets the interface\<close>

lemma nil_on_error_pair: "returns_pair (nil_on_error m)"
  by (auto simp: returns_pair_def nil_on_error_def if_err_def give_def split: prod.splits outcome.splits)

lemma sonarr_Apply_pair: "returns_pair (ad_Apply (sonarr_ops sprint ord ords now api) conn changes)"
  by (simp add: returns_pair_def sonarr_ops_def nil_on_error_pair [unfolded returns_pair_def])

lemma no_panic_Connect: "api_total api \<Longrightarrow> no_panic (Connect api)"
  unfolding Connect_def by (intro no_panic_rules) (auto dest: api_totalD)

lemma no_panic_ops:
  fixes api :: "ConnectionIR \<Rightarrow> 's SonarrAPI"
  assumes "api_total (api conn)"
  shows "no_panic (ad_Connect (sonarr_ops sprint ord ords now api) conn)"
    "no_panic (ad_Discover (sonarr_ops sprint ord ords now api) conn)"
    "no_panic (ad_CurrentState (sonarr_ops sprint ord ords now api) conn)"
proof -
  show "no_panic (ad_Connect (sonarr_ops sprint ord ords now api) conn)"
    using no_panic_Connect [OF assms] by (auto simp: sonarr_ops_def)
  have "\<exists>caps vs'. on_service (Discover t (api conn)) vs = (Ok caps, vs')" for t and vs :: "SonarrVars \<times> 's"
    using Discover_total [OF assms, of t "snd vs"] by (auto simp: on_service_def)
  then show "no_panic (ad_Discover (sonarr_ops sprint ord ords now api) conn)"
    unfolding no_panic_def by (simp add: sonarr_ops_def) (metis fst_conv returns_simps(1))
  show "no_panic (ad_CurrentState (sonarr_ops sprint ord ords now api) conn)"
    unfolding no_panic_def
  proof
    fix vs :: "SonarrVars \<times> 's"
    obtain ir vs' where "CurrentState sprint (now (snd vs)) (api conn) conn vs = (Ok ir, vs')"
      using CurrentState_ok [OF assms] unfolding always_ok_def by blast
    then show "returns (fst (ad_CurrentState (sonarr_ops sprint ord ords now api) conn vs))"
      by (simp add: sonarr_ops_def give_def)
  qed
qed

lemma sonarr_Diff_typed:
  assumes "valid_order ord" and "ad_Diff (sonarr_ops sprint ord ords now api) cur des caps vs = (Ok changes, vs')"
  shows "typed_changes changes"
  using assms Diff_typed by (auto simp: sonarr_ops_def panics_def split: option.splits)

lemma sonarr_adapter_safe:
  fixes api :: "ConnectionIR \<Rightarrow> 's SonarrAPI"
  assumes "api_total (api conn)" and "valid_order ord"
    and "\<And>s. \<exists>tag s'. ensureOwnershipTag (api conn) s = (Ok tag, s')"
  shows "adapter_safe (sonarr_ops sprint ord ords now api) conn"
  unfolding adapter_safe_def
proof (intro conjI allI impI no_panic_ops [where api = api, OF assms(1)])
  fix w w' ir desired caps
  assume "ad_CurrentState (sonarr_ops sprint ord ords now api) conn w = (Ok ir, w')"
  then have "ir \<noteq> None"
    by (auto simp: sonarr_ops_def andThen_def give_def split: prod.splits outcome.splits)
  then show "no_panic (ad_Diff (sonarr_ops sprint ord ords now api) ir desired caps)"
    by (auto simp: sonarr_ops_def)
next
  fix w ir desired caps changes w' and w'' :: "SonarrVars \<times> 's"
  assume "ad_Diff (sonarr_ops sprint ord ords now api) ir desired caps w = (Ok changes, w')"
  from Apply_outcome [OF assms(1) sonarr_Diff_typed [OF assms(2) this], where ords = ords and vars = "fst w''" and s = "snd w''"] assms(3) [of "snd w''"]
  show "\<exists>r e w3. ad_Apply (sonarr_ops sprint ord ords now api) conn changes w'' = (Ok (Some r, e), w3)"
    by (auto simp: sonarr_ops_def nil_on_error_def if_err_def on_service_def give_def split: prod.splits outcome.splits)
qed

section \<open>What a change set keeps\<close>

text \<open>Each step of \<^verbatim>\<open>Diff\<close> only adds changes.\<close>

definition cs_le :: "ChangeSet \<Rightarrow> ChangeSet \<Rightarrow> bool" where
  "cs_le a b \<longleftrightarrow> set (cs_Creates a) \<subseteq> set (cs_Creates b) \<and> set (cs_Updates a) \<subseteq> set (cs_Updates b) \<and>
     set (cs_Deletes a) \<subseteq> set (cs_Deletes b)"

lemma cs_le_refl [simp]: "cs_le a a"
  by (simp add: cs_le_def)

lemma cs_le_trans [trans]: "cs_le a b \<Longrightarrow> cs_le b c \<Longrightarrow> cs_le a c"
  by (auto simp: cs_le_def)

lemma cs_le_add [simp, intro]:
  "cs_le a b \<Longrightarrow> cs_le a (add_create x b)" "cs_le a b \<Longrightarrow> cs_le a (add_update x b)" "cs_le a b \<Longrightarrow> cs_le a (add_delete x b)"
  by (auto simp: cs_le_def add_create_def add_update_def add_delete_def)

lemma cs_le_fold: "(\<And>x b. cs_le a b \<Longrightarrow> cs_le a (f x b)) \<Longrightarrow> cs_le a b \<Longrightarrow> cs_le a (fold f xs b)"
  by (induction xs arbitrary: b) auto

lemma cs_le_steps:
  "cs_le a b \<Longrightarrow> cs_le a (diffQualityProfiles vars current desired b)"
  "cs_le a b \<Longrightarrow> cs_le a (DiffRootFolders curF desF b)"
  "cs_le a b \<Longrightarrow> cs_le a (diffNaming vars current desired b)"
  "cs_le a b \<Longrightarrow> cs_le a (DiffDelayProfiles curP desP b)"
  by (auto simp: diffQualityProfiles_def DiffQualityProfiles_def DiffVideoQualityProfiles_def DiffRootFolders_def diffNaming_def
      DiffDelayProfiles_def Let_def intro!: cs_le_fold split: option.split)

lemma cs_le_keyed:
  assumes "valid_order ord" and "cs_le a b"
  shows "cs_le a (DiffDownloadClientsWithIR ord c d b)" "cs_le a (DiffRemotePathMappings ord e f b)"
    "cs_le a (diffNotifications sprint ord g h b)" "cs_le a (diffCustomFormats ord i j b)"
    "cs_le a (diffIndexers ord current desired b)"
  using assms by (auto simp: cs_le_def dcs.diff_sets rpms.diff_sets nts.diff_sets formats.diff_sets idxs.diff_sets diffIndexers_def)

lemma Diff_includes_clients:
  assumes "valid_order ord"
  shows "cs_le (DiffDownloadClientsWithIR (diff_order 0 ord) (ir_DownloadClients current) (ir_DownloadClients desired) no_changes)
    (Diff sprint ord vars current desired)"
proof -
  have "cs_le (DiffDownloadClientsWithIR (diff_order 0 ord) (ir_DownloadClients current) (ir_DownloadClients desired) no_changes)
      (DiffDownloadClientsWithIR (diff_order 0 ord) (ir_DownloadClients current) (ir_DownloadClients desired)
        (diffQualityProfiles vars current desired no_changes))"
    using assms by (auto simp: cs_le_def dcs.diff_sets no_changes_def)
  then show ?thesis
    unfolding Diff_def Let_def using assms
    by - (rule cs_le_steps(4), rule cs_le_keyed(4), simp, rule cs_le_keyed(3), simp, rule cs_le_steps(3),
        rule cs_le_keyed(2), simp, rule cs_le_steps(2), rule cs_le_keyed(5), simp)
qed

lemma Diff_new_client:
  assumes "valid_order ord" and "ir_DownloadClients current = []" and "ir_DownloadClients desired \<noteq> []"
  shows "\<not> IsEmpty (Diff sprint ord vars current desired)"
proof -
  obtain d ds where d: "ir_DownloadClients desired = d # ds" using assms(3) by (cases "ir_DownloadClients desired") auto
  then have "latest dc_Name (ir_DownloadClients desired) (dc_Name d) \<noteq> None" by (simp add: latest_None_iff)
  then have "set (cs_Creates (DiffDownloadClientsWithIR (diff_order 0 ord) [] (ir_DownloadClients desired) no_changes)) \<noteq> {}"
    using assms(1) by (auto simp: dcs.diff_sets)
  then have "set (cs_Creates (Diff sprint ord vars current desired)) \<noteq> {}"
    using Diff_includes_clients [OF assms(1), of current desired sprint vars] assms(2) by (auto simp: cs_le_def)
  then show ?thesis by (auto simp: IsEmpty_def)
qed

lemma ensureOwnershipTag_fails:
  assumes "\<forall>p s. \<exists>e s'. ep_list (api_tags api) p s = (Err e, s')"
    and "\<forall>p t s. \<exists>e s'. ep_post (api_tags api) p t s = (Err e, s')"
  shows "\<exists>e s'. ensureOwnershipTag api s = (Err e, s')"
proof -
  obtain e s1 where "ep_list (api_tags api) (tag_endpoint ''v3'') s = (Err e, s1)" using assms(1) by blast
  moreover obtain e' s2 where
      "ep_post (api_tags api) (tag_endpoint ''v3'') \<lparr>tag_ID = 0, tag_Label = OwnershipTagName\<rparr> s1 = (Err e', s2)"
    using assms(2) by blast
  ultimately show ?thesis
    by (simp add: ensureOwnershipTag_def EnsureOwnershipTag_def GetOwnershipTagID_def or_else_def)
qed

section \<open>Properties\<close>

text \<open>
  C2. Whatever the adapter's calls return, \<^verbatim>\<open>ReconcileConfig\<close> leaves the status of a
  \<^verbatim>\<open>SonarrConfig\<close> consistent and touches nothing else of the resource: without an error it
  is Ready and Connected for the current generation, carries the hash of the configuration that
  was compiled and a time of reconciliation, and is Synced exactly if every change was applied;
  with an error it is not Ready and keeps the hash and the time of the last success.
\<close>

theorem ReconcileConfig_status:
  assumes "sets_status_condition (env_SetStatusCondition env)"
    and "\<forall>adapter changes. Get (env_adapters env) app = Some adapter \<longrightarrow> returns_pair (ad_Apply adapter conn changes)"
    and "ReconcileConfig env app conn ir (GetStatusWrapper SonarrConfigAdapter) generation (c, w) = (q, (c', w'))"
  shows "reconciled (sonarr_view c) generation (ir_SourceHash ir) q (sonarr_view c') \<and>
    sonc_Spec c' = sonc_Spec c \<and> sonc_ObjectMeta c' = sonc_ObjectMeta c"
  using ensuresD [OF sonarr_status.ReconcileConfig_reconciled [OF assms(1), of app conn]] assms(2,3)
  by (fastforce simp: SonarrConfigAdapter_def)

definition answering_api :: "'s SonarrAPI" where
  "answering_api = refusing_api\<lparr>api_system := refusing\<lparr>ep_get := (\<lambda>p. give \<lparr>sys_Version = ''4.0'', sys_StartTime = None\<rparr>)\<rparr>\<rparr>"

lemma answering_total [simp]: "api_total answering_api"
  by (simp add: api_total_def ep_total_def answering_api_def refusing_api_def refusing_def)

definition sample_env :: "unit SonarrAPI \<Rightarrow> (SonarrVars \<times> unit) Env" where
  "sample_env api = plain_env [(AppSonarr, sonarr_ops (\<lambda>_. []) forward_order (\<lambda>_. forward_order) (\<lambda>_. 0) (\<lambda>_. api))]"

lemma sample_env_adapter:
  "Get (env_adapters (sample_env api)) AppSonarr =
     Some (sonarr_ops (\<lambda>_. []) forward_order (\<lambda>_. forward_order) (\<lambda>_. 0) (\<lambda>_. api))"
  by (simp add: sample_env_def Get_def)

definition sample_conn :: ConnectionIR where
  "sample_conn = \<lparr>conn_URL = ''http://s'', conn_APIKey = ''k'', conn_InsecureSkipVerify = False\<rparr>"

theorem ReconcileConfig_status_witness:
  "\<forall>c. \<exists>q c' w'. ReconcileConfig (sample_env answering_api) AppSonarr sample_conn (zero_IR\<lparr>ir_SourceHash := ''abc''\<rparr>)
      (GetStatusWrapper SonarrConfigAdapter) 3 (c, (initial_vars, ())) = (q, (c', w')) \<and>
    reconciled (sonarr_view c) 3 ''abc'' q (sonarr_view c')"
proof
  fix c
  obtain q c' w' where q: "ReconcileConfig (sample_env answering_api) AppSonarr sample_conn (zero_IR\<lparr>ir_SourceHash := ''abc''\<rparr>)
      (GetStatusWrapper SonarrConfigAdapter) 3 (c, (initial_vars, ())) = (q, (c', w'))" by (metis surj_pair)
  have law: "sets_status_condition (env_SetStatusCondition (sample_env answering_api))"
    by (simp add: sample_env_def upsert_condition_sets)
  have pair: "\<forall>adapter changes. Get (env_adapters (sample_env answering_api)) AppSonarr = Some adapter \<longrightarrow>
      returns_pair (ad_Apply adapter sample_conn changes)"
    by (simp add: sample_env_adapter sonarr_Apply_pair)
  have "reconciled (sonarr_view c) 3 ''abc'' q (sonarr_view c')" using ReconcileConfig_status [OF law pair q] by simp
  with q show "\<exists>q c' w'. ReconcileConfig (sample_env answering_api) AppSonarr sample_conn (zero_IR\<lparr>ir_SourceHash := ''abc''\<rparr>)
      (GetStatusWrapper SonarrConfigAdapter) 3 (c, (initial_vars, ())) = (q, (c', w')) \<and>
    reconciled (sonarr_view c) 3 ''abc'' q (sonarr_view c')"
    by blast
qed

text \<open>
  C5. A reconciliation against a Sonarr that answers its requests and lets the ownership tag be
  listed or created always returns: it never panics, whatever the service holds, whatever of
  its other requests fail, and whatever the configuration is.
\<close>

theorem Sonarr_reconcile_returns:
  assumes "Get (env_adapters env) AppSonarr = Some (sonarr_ops sprint ord ords now api)"
    and "api_total (api conn)" and "valid_order ord"
    and "\<forall>s. \<exists>tag s'. ensureOwnershipTag (api conn) s = (Ok tag, s')"
  shows "\<exists>res err c' vs'. ReconcileConfig env AppSonarr conn ir st generation (c, vs) = (Ok (res, err), (c', vs'))"
proof -
  have "adapter_safe (sonarr_ops sprint ord ords now api) conn"
    using sonarr_adapter_safe assms(2-4) by blast
  then have "ensures (ReconcileConfig env AppSonarr conn ir st generation) (c, vs) (\<lambda>q _. is_ok q)"
    using assms(1) by (intro ReconcileConfig_returns) simp
  then show ?thesis
    unfolding ensures_def by (auto split: prod.splits elim: is_ok.elims)
qed

theorem Sonarr_reconcile_returns_witness:
  "\<forall>c. \<exists>res err c' vs'. ReconcileConfig (sample_env answering_api) AppSonarr sample_conn
     (zero_IR\<lparr>ir_DownloadClients := [sample_dc ''a'' 0 80]\<rparr>) (GetStatusWrapper SonarrConfigAdapter) 1
     (c, (initial_vars, ())) = (Ok (res, err), (c', vs'))"
proof (rule allI, rule Sonarr_reconcile_returns [OF sample_env_adapter _ valid_forward_order])
  show "\<forall>s. \<exists>tag s'. ensureOwnershipTag (answering_api :: unit SonarrAPI) s = (Ok tag, s')"
    by (simp add: ensureOwnershipTag_def EnsureOwnershipTag_def GetOwnershipTagID_def answering_api_def refusing_api_def
        refusing_def or_else_def andThen_def wrap_err_def give_def fail_def)
qed simp

text \<open>
  C38. The error path of applying a change set panics. Against a Sonarr that connects but whose
  tags can be neither listed nor created, \<^verbatim>\<open>Apply\<close> returns an error with a nil result, which
  \<^verbatim>\<open>ReconcileConfig\<close> dereferences to format the Ready condition: for a configuration with a
  download client the reconciliation panics instead of reporting \<^verbatim>\<open>ApplyFailed\<close>.
\<close>

theorem Sonarr_reconcile_panics:
  fixes api :: "ConnectionIR \<Rightarrow> 's SonarrAPI"
  assumes "Get (env_adapters env) AppSonarr = Some (sonarr_ops sprint ord ords now api)"
    and "api_total (api conn)" and "valid_order ord"
    and "\<forall>p s. \<exists>e s'. ep_list (api_tags (api conn)) p s = (Err e, s')"
    and "\<forall>p t s. \<exists>e s'. ep_post (api_tags (api conn)) p t s = (Err e, s')"
    and "\<forall>s. \<exists>info s'. Connect (api conn) s = (Ok info, s')"
    and "ir_DownloadClients ir \<noteq> []"
  shows "\<exists>p cw. ReconcileConfig env AppSonarr conn ir st generation (c, vs) = (Panic p, cw)"
proof -
  let ?ops = "sonarr_ops sprint ord ords now api"
  have tag: "\<exists>e s'. GetOwnershipTagID (ep_list (api_tags (api conn))) ''v3'' s = (Err e, s')" for s
  proof -
    obtain e s1 where "ep_list (api_tags (api conn)) (tag_endpoint ''v3'') s = (Err e, s1)" using assms(4) by blast
    then show ?thesis by (simp add: GetOwnershipTagID_def)
  qed
  have applying: "always_ok (\<lambda>r. fst r = None \<and> snd r \<noteq> None) (ad_Apply ?ops conn changes)" for changes
    unfolding always_ok_def
  proof
    fix vs :: "SonarrVars \<times> 's"
    obtain e s' where "ensureOwnershipTag (api conn) (snd vs) = (Err e, s')"
      using ensureOwnershipTag_fails [OF assms(4,5)] by blast
    then show "\<exists>x vs'. ad_Apply ?ops conn changes vs = (Ok x, vs') \<and> fst x = None \<and> snd x \<noteq> None"
      by (simp add: sonarr_ops_def nil_on_error_def if_err_def on_service_def Apply_def give_def)
  qed
  have connect: "always_ok (\<lambda>_. True) (ad_Connect ?ops conn)"
    unfolding always_ok_def
  proof
    fix vs :: "SonarrVars \<times> 's"
    obtain info s' where "Connect (api conn) (snd vs) = (Ok info, s')" using assms(6) by blast
    then show "\<exists>x vs'. ad_Connect ?ops conn vs = (Ok x, vs') \<and> True" by (simp add: sonarr_ops_def on_service_def)
  qed
  have discover: "always_ok (\<lambda>_. True) (ad_Discover ?ops conn)"
    unfolding always_ok_def
  proof
    fix vs :: "SonarrVars \<times> 's"
    obtain caps s' where "Discover (now (snd vs)) (api conn) (snd vs) = (Ok caps, s')"
      using Discover_total [OF assms(2), of "now (snd vs)" "snd vs"] by blast
    then show "\<exists>x vs'. ad_Discover ?ops conn vs = (Ok x, vs') \<and> True" by (simp add: sonarr_ops_def on_service_def)
  qed
  have state: "always_ok (\<lambda>cur. \<exists>x. cur = Some x \<and> ir_DownloadClients x = []) (ad_CurrentState ?ops conn)"
    unfolding always_ok_def
  proof
    fix vs :: "SonarrVars \<times> 's"
    obtain e s' where "GetOwnershipTagID (ep_list (api_tags (api conn))) ''v3'' (snd vs) = (Err e, s')" using tag by blast
    then show "\<exists>x vs'. ad_CurrentState ?ops conn vs = (Ok x, vs') \<and> (\<exists>y. x = Some y \<and> ir_DownloadClients y = [])"
      by (simp add: sonarr_ops_def CurrentState_def on_service_def andThen_def give_def Let_def zero_IR_def)
  qed
  have diff: "always_ok (\<lambda>changes. \<not> IsEmpty changes) (ad_Diff ?ops cur ir caps)"
    if "\<exists>x. cur = Some x \<and> ir_DownloadClients x = []" for cur caps
    using Diff_new_client [OF assms(3) _ assms(7)] that by (auto simp: sonarr_ops_def always_ok_def)
  have "ensures (ReconcileConfig env AppSonarr conn ir st generation) (c, vs) (\<lambda>q _. is_panic q)"
    unfolding ReconcileConfig_def sync_changes_def
    using applying by (auto simp: assms(1) apply_failed_def split_beta
      intro!: ensures_SetCondition_ok ensures_always_ok(1) [OF connect] ensures_always_ok(1) [OF discover]
        ensures_always_ok(1) [OF state] ensures_always_ok(1) [OF diff] ensures_always_ok(2) [OF applying])
  then show ?thesis
    unfolding ensures_def by (auto split: prod.splits elim: is_panic.elims)
qed

definition tagless_api :: "'s SonarrAPI" where
  "tagless_api = answering_api\<lparr>api_tags := no_endpoint\<rparr>"

theorem Sonarr_reconcile_panics_witness:
  "\<forall>c. \<exists>p cw. ReconcileConfig (sample_env tagless_api) AppSonarr sample_conn
     (zero_IR\<lparr>ir_DownloadClients := [sample_dc ''a'' 0 80]\<rparr>) (GetStatusWrapper SonarrConfigAdapter) 1
     (c, (initial_vars, ())) = (Panic p, cw)"
  by (rule allI, rule Sonarr_reconcile_panics [OF sample_env_adapter _ valid_forward_order])
    (simp_all add: api_total_def ep_total_def tagless_api_def answering_api_def refusing_api_def refusing_def no_endpoint_def
      fail_def Connect_def give_def andThen_def wrap_err_def)

end
