(* ===== verification/Generic_Reconciler.thy ===== *)
theory Generic_Reconciler
  imports Reconcile_Helper Convert
begin

text \<open>
  \<^verbatim>\<open>src/internal/controller/generic_arr_reconciler.go\<close> and the four controllers built on it:
  the life of a resource from its finalizer to its deletion. The cluster client for the
  resource's type is the parameter \<open>ObjectClient\<close>; its writes return the object the API server
  sent back, which replaces the one in memory.
\<close>

record ctrl_Result =
  res_Requeue :: bool
  res_RequeueAfter :: int

definition no_requeue :: ctrl_Result where
  "no_requeue = \<lparr>res_Requeue = False, res_RequeueAfter = 0\<rparr>"

definition requeue_after :: "int \<Rightarrow> ctrl_Result" where
  "requeue_after t = \<lparr>res_Requeue = False, res_RequeueAfter = t\<rparr>"

type_synonym reconcile_return = "ctrl_Result \<times> string option"

text \<open>A read gives \<open>None\<close> for the error \<^verbatim>\<open>apierrors.IsNotFound\<close> recognises.\<close>

record ('c, 'w) ObjectClient =
  oc_Get :: "string \<Rightarrow> string \<Rightarrow> ('w, 'c option) action"
  oc_Update :: "'c \<Rightarrow> ('w, 'c) action"
  oc_UpdateStatus :: "'c \<Rightarrow> ('w, 'c) action"

record ('c, 'w) GenericArrReconciler =
  gr_Env :: "'w Env"
  gr_Client :: "('c, 'w) ObjectClient"
  gr_Config :: "'c ArrConfigObject"
  gr_CompileConfig :: "int \<Rightarrow> 'c \<Rightarrow> (string, string) gomap \<Rightarrow> Capabilities option \<Rightarrow> IR outcome"

section \<open>Writing the object\<close>

definition store_object :: "('c \<Rightarrow> ('w, 'c) action) \<Rightarrow> ('c \<times> 'w, unit) action" where
  "store_object write cw =
     (case write (fst cw) (snd cw) of
        (Ok c, w) \<Rightarrow> (Ok (), (c, w))
      | (Err e, w) \<Rightarrow> (Err e, (fst cw, w))
      | (Panic p, w) \<Rightarrow> (Panic p, (fst cw, w)))"

definition updateStatus :: "('c, 'w) GenericArrReconciler \<Rightarrow> ('c \<times> 'w, unit) action" where
  "updateStatus r = store_object (oc_UpdateStatus (gr_Client r))"

text \<open>\<^verbatim>\<open>if statusErr := r.updateStatus(...); statusErr != nil { log }; return result, err\<close>\<close>

definition save_and_return ::
    "('c, 'w) GenericArrReconciler \<Rightarrow> ctrl_Result \<Rightarrow> string option \<Rightarrow> ('c \<times> 'w, reconcile_return) action" where
  "save_and_return r res err =
     if_err (updateStatus r) (\<lambda>_. give (res, err)) (\<lambda>_. give (res, err))"

definition not_ready ::
    "('c, 'w) GenericArrReconciler \<Rightarrow> int \<Rightarrow> string \<Rightarrow> string \<Rightarrow> string option \<Rightarrow> ('c \<times> 'w, reconcile_return) action" where
  "not_ready r generation reason message err =
     SetCondition (gr_Env r) (GetStatusWrapper (gr_Config r)) generation ConditionTypeReady ConditionFalse reason message
       (save_and_return r (requeue_after ErrorRequeueInterval) err)"

section \<open>The normal flow\<close>

text \<open>The five resolutions of secrets, whose failures are all handled alike.\<close>

definition resolve_secrets :: "'w Env \<Rightarrow> string \<Rightarrow> 'c ArrConfigObject \<Rightarrow> 'c \<Rightarrow> ('w, (string, string) gomap) action" where
  "resolve_secrets env namespace config c =
     andThen (ResolveConnectionSecrets env namespace (GetConnectionSpec config c)) (\<lambda>resolved.
     andThen (ResolveDownloadClientSecrets env namespace (GetDownloadClients config c) resolved) (\<lambda>resolved.
     andThen (ResolveIndexerSecrets env namespace (GetIndexersSpec config c) resolved) (\<lambda>resolved.
     andThen (ResolveImportListSecrets env namespace (GetImportLists config c) resolved) (\<lambda>resolved.
     ResolveAuthenticationSecrets env namespace (GetAuthenticationSpec config c) resolved))))"

definition connection_ir :: "ConnectionSpec \<Rightarrow> (string, string) gomap \<Rightarrow> ConnectionIR" where
  "connection_ir spec resolved = \<lparr>conn_URL = cns_URL spec, conn_APIKey = secret_or_empty resolved ''apiKey'',
     conn_InsecureSkipVerify = False\<rparr>"

definition app_name :: "string \<Rightarrow> string \<Rightarrow> string" where
  "app_name appType name = ''nebularr-'' @ appType @ ''-'' @ name"

definition auto_register ::
    "('c, 'w) GenericArrReconciler \<Rightarrow> 'c \<Rightarrow> (string, string) gomap \<Rightarrow> ('w, unit) action" where
  "auto_register r c resolved =
     (let config = gr_Config r; meta = GetObjectMeta config c in
      if ShouldRegisterWithProwlarr config
      then (case GetIndexersSpec config c of
              None \<Rightarrow> give ()
            | Some ixs \<Rightarrow> (case ixs_ProwlarrRef ixs of
                  None \<Rightarrow> give ()
                | Some ref \<Rightarrow>
                    or_else (HandleProwlarrRegistration (gr_Env r) (om_Namespace meta)
                      \<lparr>par_ProwlarrRef = Some ref, par_AppType = GetAppType config,
                       par_AppName = app_name (GetAppType config) (om_Name meta),
                       par_AppURL = cns_URL (GetConnectionSpec config c),
                       par_AppAPIKey = secret_or_empty resolved ''apiKey''\<rparr>) (\<lambda>_. give ())))
      else give ())"

definition requeue_interval :: "ReconciliationSpec option \<Rightarrow> int" where
  "requeue_interval spec =
     (case spec of None \<Rightarrow> DefaultRequeueInterval
      | Some s \<Rightarrow> (case rcs_Interval s of None \<Rightarrow> DefaultRequeueInterval | Some t \<Rightarrow> t))"

definition finish_reconcile ::
    "('c, 'w) GenericArrReconciler \<Rightarrow> ConnectionIR \<Rightarrow> IR \<Rightarrow> (string, string) gomap \<Rightarrow> ('c \<times> 'w, reconcile_return) action" where
  "finish_reconcile r connIR desiredIR resolved cw =
     (let env = gr_Env r; config = gr_Config r; appType = GetAppType config; c = fst cw
      in andThen (on_service (ApplyDirectConfig env appType connIR desiredIR)) (\<lambda>_.
         andThen (on_service (auto_register r c resolved)) (\<lambda>_.
         andThen (on_service (CheckAndReportHealth env appType connIR (GetObjectMeta config c))) (\<lambda>healthStatus.
         on_config (case healthStatus of None \<Rightarrow> (\<lambda>c. c) | Some _ \<Rightarrow> SetHealthStatus config healthStatus)
         (if_err (updateStatus r) (\<lambda>err. give (no_requeue, Some err)) (\<lambda>_ cw.
            (Ok (requeue_after (requeue_interval (GetReconciliationSpec config (fst cw))), None), cw)))))) cw)"

definition reconcileNormal :: "('c, 'w) GenericArrReconciler \<Rightarrow> ('c \<times> 'w, reconcile_return) action" where
  "reconcileNormal r cw =
     (let env = gr_Env r; config = gr_Config r; appType = GetAppType config; status = GetStatusWrapper config;
          c = fst cw; meta = GetObjectMeta config c; generation = om_Generation meta;
          connSpec = GetConnectionSpec config c
      in if_err (on_service (resolve_secrets env (om_Namespace meta) config c))
           (\<lambda>err. not_ready r generation ''SecretResolutionFailed'' err (Some err))
           (\<lambda>resolvedSecrets.
             let connIR = connection_ir connSpec resolvedSecrets
             in case Get (env_adapters env) appType of
                  None \<Rightarrow> not_ready r generation ''AdapterNotFound'' (appType @ '' adapter not registered'') None
                | Some adapter \<Rightarrow>
                    if_err (on_service (ad_Discover adapter connIR))
                      (\<lambda>err. not_ready r generation ''DiscoveryFailed'' err (Some err))
                      (\<lambda>caps. read_clock env (\<lambda>now.
                        case gr_CompileConfig r now c resolvedSecrets (Some caps) of
                          Err err \<Rightarrow> not_ready r generation ''CompilationFailed'' err (Some err)
                        | Panic p \<Rightarrow> panics p
                        | Ok desiredIR \<Rightarrow>
                            andThen (ReconcileConfig env appType connIR desiredIR status generation) (\<lambda>(_, err).
                              case err of
                                Some e \<Rightarrow> save_and_return r (requeue_after ErrorRequeueInterval) (Some e)
                              | None \<Rightarrow> finish_reconcile r connIR desiredIR resolvedSecrets))))
           cw)"

section \<open>Deletion\<close>

definition unregister_app :: "('c, 'w) GenericArrReconciler \<Rightarrow> 'c \<Rightarrow> ('w, unit) action" where
  "unregister_app r c =
     (let config = gr_Config r; meta = GetObjectMeta config c in
      case GetIndexersSpec config c of
        None \<Rightarrow> give ()
      | Some ixs \<Rightarrow> (case ixs_ProwlarrRef ixs of
            None \<Rightarrow> give ()
          | Some ref \<Rightarrow> or_else (HandleProwlarrUnregistration (gr_Env r) (om_Namespace meta) (prf_Name ref)
              (app_name (GetAppType config) (om_Name meta))) (\<lambda>_. give ())))"

definition cleanup :: "('c, 'w) GenericArrReconciler \<Rightarrow> 'c \<Rightarrow> ('w, unit) action" where
  "cleanup r c =
     (let config = gr_Config r; meta = GetObjectMeta config c; connSpec = GetConnectionSpec config c in
      if_err (ResolveConnectionSecrets (gr_Env r) (om_Namespace meta) connSpec) (\<lambda>_. give ()) (\<lambda>resolvedSecrets.
        or_else (CleanupManagedResources (gr_Env r) (GetAppType config) (connection_ir connSpec resolvedSecrets)) (\<lambda>_. give ())))"

definition reconcileDelete :: "('c, 'w) GenericArrReconciler \<Rightarrow> string \<Rightarrow> ('c \<times> 'w, reconcile_return) action" where
  "reconcileDelete r finalizerName cw =
     andThen (on_service (unregister_app r (fst cw))) (\<lambda>_.
     andThen (on_service (cleanup r (fst cw))) (\<lambda>_.
     on_config (SetObjectMeta (gr_Config r)
         (om_Finalizers_update (env_RemoveFinalizer (gr_Env r) finalizerName)))
     (if_err (store_object (oc_Update (gr_Client r))) (\<lambda>err. give (no_requeue, Some err))
        (\<lambda>_. give (no_requeue, None))))) cw"

section \<open>Reconcile\<close>

definition Reconcile :: "('c, 'w) GenericArrReconciler \<Rightarrow> ('c \<times> 'w, reconcile_return) action" where
  "Reconcile r cw =
     (let config = gr_Config r; env = gr_Env r; c = fst cw; meta = GetObjectMeta config c;
          finalizerName = GetFinalizerName config
      in if (case GetReconciliationSpec config c of None \<Rightarrow> False | Some spec \<Rightarrow> rcs_Suspend spec)
         then give (no_requeue, None) cw
         else if om_DeletionTimestamp meta \<noteq> None then reconcileDelete r finalizerName cw
         else if \<not> env_ContainsFinalizer env finalizerName (om_Finalizers meta)
         then on_config (SetObjectMeta config (om_Finalizers_update (env_AddFinalizer env finalizerName)))
           (if_err (store_object (oc_Update (gr_Client r))) (\<lambda>err. give (no_requeue, Some err))
             (\<lambda>_. give (\<lparr>res_Requeue = True, res_RequeueAfter = 0\<rparr>, None))) cw
         else reconcileNormal r cw)"

text \<open>The object lives for one call: it is fetched, reconciled and dropped.\<close>

definition FetchAndReconcile :: "('c, 'w) GenericArrReconciler \<Rightarrow> string \<Rightarrow> string \<Rightarrow> ('w, reconcile_return) action" where
  "FetchAndReconcile r namespace name =
     if_err (oc_Get (gr_Client r) namespace name) (\<lambda>err. give (no_requeue, Some err)) (\<lambda>obj.
       case obj of
         None \<Rightarrow> give (no_requeue, None)
       | Some c \<Rightarrow> (\<lambda>w. case Reconcile r (c, w) of (q, (c', w')) \<Rightarrow> (q, w')))"

section \<open>The controllers\<close>

definition SonarrConfigReconciler ::
    "range_order \<Rightarrow> (HashInput \<Rightarrow> string) \<Rightarrow> 'w Env \<Rightarrow> (SonarrConfig, 'w) ObjectClient \<Rightarrow> (SonarrConfig, 'w) GenericArrReconciler" where
  "SonarrConfigReconciler ord digest env client =
     \<lparr>gr_Env = env, gr_Client = client, gr_Config = SonarrConfigAdapter, gr_CompileConfig = CompileSonarrConfig ord digest\<rparr>"

definition RadarrConfigReconciler ::
    "range_order \<Rightarrow> (HashInput \<Rightarrow> string) \<Rightarrow> 'w Env \<Rightarrow> (RadarrConfig, 'w) ObjectClient \<Rightarrow> (RadarrConfig, 'w) GenericArrReconciler" where
  "RadarrConfigReconciler ord digest env client =
     \<lparr>gr_Env = env, gr_Client = client, gr_Config = RadarrConfigAdapter, gr_CompileConfig = CompileRadarrConfig ord digest\<rparr>"

definition LidarrConfigReconciler ::
    "range_order \<Rightarrow> (HashInput \<Rightarrow> string) \<Rightarrow> 'w Env \<Rightarrow> (LidarrConfig, 'w) ObjectClient \<Rightarrow> (LidarrConfig, 'w) GenericArrReconciler" where
  "LidarrConfigReconciler ord digest env client =
     \<lparr>gr_Env = env, gr_Client = client, gr_Config = LidarrConfigAdapter, gr_CompileConfig = CompileLidarrConfig ord digest\<rparr>"

definition ReadarrConfigReconciler ::
    "range_order \<Rightarrow> (HashInput \<Rightarrow> string) \<Rightarrow> 'w Env \<Rightarrow> (ReadarrConfig, 'w) ObjectClient \<Rightarrow> (ReadarrConfig, 'w) GenericArrReconciler" where
  "ReadarrConfigReconciler ord digest env client =
     \<lparr>gr_Env = env, gr_Client = client, gr_Config = ReadarrConfigAdapter, gr_CompileConfig = CompileReadarrConfig ord digest\<rparr>"

end
