(* ===== verification/Lifecycle.thy ===== *)
theory Lifecycle
  imports Generic_Reconciler Reconcile_Status
begin

text \<open>
  The life of a resource under the generic reconciler: the finalizer comes before any contact
  with a service and goes after the cleanup, a suspended resource is left alone, and every
  reconciliation is scheduled again. The secrets a configuration refers to reach the compiler.
\<close>

section \<open>The finalizer\<close>

definition suspended :: "'c ArrConfigObject \<Rightarrow> 'c \<Rightarrow> bool" where
  "suspended config c \<longleftrightarrow> (\<exists>spec. GetReconciliationSpec config c = Some spec \<and> rcs_Suspend spec)"

lemma Reconcile_cases:
  "Reconcile r (c, w) =
     (if suspended (gr_Config r) c then (Ok (no_requeue, None), (c, w))
      else if om_DeletionTimestamp (GetObjectMeta (gr_Config r) c) \<noteq> None
      then reconcileDelete r (GetFinalizerName (gr_Config r)) (c, w)
      else if \<not> env_ContainsFinalizer (gr_Env r) (GetFinalizerName (gr_Config r)) (om_Finalizers (GetObjectMeta (gr_Config r) c))
      then (let c1 = SetObjectMeta (gr_Config r)
                       (om_Finalizers_update (env_AddFinalizer (gr_Env r) (GetFinalizerName (gr_Config r)))) c
            in case oc_Update (gr_Client r) c1 w of
                 (Ok c', w') \<Rightarrow> (Ok (\<lparr>res_Requeue = True, res_RequeueAfter = 0\<rparr>, None), (c', w'))
               | (Err e, w') \<Rightarrow> (Ok (no_requeue, Some e), (c1, w'))
               | (Panic p, w') \<Rightarrow> (Panic p, (c1, w')))
      else reconcileNormal r (c, w))"
  by (auto simp: Reconcile_def suspended_def Let_def give_def on_config_def if_err_def store_object_def
      split: option.split prod.split outcome.split)

lemma reconcileDelete_run:
  assumes ok: "always_ok (\<lambda>_. True) (unregister_app r c)" "always_ok (\<lambda>_. True) (cleanup r c)"
  shows "\<exists>w1 w2. unregister_app r c w = (Ok (), w1) \<and> cleanup r c w1 = (Ok (), w2) \<and>
    reconcileDelete r f (c, w) =
      (let c1 = SetObjectMeta (gr_Config r) (om_Finalizers_update (env_RemoveFinalizer (gr_Env r) f)) c
       in case oc_Update (gr_Client r) c1 w2 of
            (Ok c', w') \<Rightarrow> (Ok (no_requeue, None), (c', w'))
          | (Err e, w') \<Rightarrow> (Ok (no_requeue, Some e), (c1, w'))
          | (Panic p, w') \<Rightarrow> (Panic p, (c1, w')))"
proof -
  obtain w1 where w1: "unregister_app r c w = (Ok (), w1)" using ok(1) unfolding always_ok_def by auto
  obtain w2 where w2: "cleanup r c w1 = (Ok (), w2)" using ok(2) unfolding always_ok_def by auto
  show ?thesis
    using w1 w2 by (auto simp: reconcileDelete_def on_service_def on_config_def if_err_def store_object_def give_def Let_def
      split: prod.split outcome.split)
qed

text \<open>The cleanup and the unregistration never report an error, so nothing blocks the deletion.\<close>

lemma swallows_errors:
  assumes "no_panic m" shows "always_ok (\<lambda>_. True) (or_else m (\<lambda>_. give ()))"
  unfolding always_ok_def
proof
  fix s
  obtain q s' where q: "m s = (q, s')" by fastforce
  then have "returns q" by (rule no_panicD [OF assms])
  then show "\<exists>x s'. or_else m (\<lambda>_. give ()) s = (Ok x, s') \<and> True"
    using q by (cases q) (simp_all add: or_else_def give_def)
qed

lemma if_err_ok:
  assumes "no_panic m" and "\<And>e. always_ok P (h e)" and "\<And>x. always_ok P (k x)"
  shows "always_ok P (if_err m h k)"
  unfolding always_ok_def
proof
  fix s
  obtain q s' where q: "m s = (q, s')" by fastforce
  then have "returns q" by (rule no_panicD [OF assms(1)])
  then show "\<exists>x s'. if_err m h k s = (Ok x, s') \<and> P x"
    using q assms(2,3) unfolding always_ok_def by (cases q) (simp_all add: if_err_def)
qed

lemma no_panic_if_err:
  "no_panic m \<Longrightarrow> (\<And>e. no_panic (h e)) \<Longrightarrow> (\<And>x. no_panic (k x)) \<Longrightarrow> no_panic (if_err m h k)"
  unfolding no_panic_def if_err_def by (auto split: prod.splits outcome.splits) (metis fst_conv returns_simps(3))

text \<open>
  What the operator needs from its environment not to panic: the cluster's and the services'
  calls return, and an adapter's \<^verbatim>\<open>Apply\<close> of what its \<^verbatim>\<open>Diff\<close> computed returns an error or
  a result.
\<close>

definition adapter_quiet :: "'w AdapterOps \<Rightarrow> ConnectionIR \<Rightarrow> bool" where
  "adapter_quiet adapter conn \<longleftrightarrow> no_panic (ad_Discover adapter conn) \<and> no_panic (ad_CurrentState adapter conn) \<and>
     (\<forall>cur desired caps. no_panic (ad_Diff adapter (Some cur) desired caps)) \<and>
     (\<forall>w cur desired caps changes w'. ad_Diff adapter cur desired caps w = (Ok changes, w') \<longrightarrow>
        (\<forall>w. \<exists>res err w'. ad_Apply adapter conn changes w = (Ok (res, err), w') \<and> (err = None \<longrightarrow> res \<noteq> None)))"

definition env_quiet :: "'w Env \<Rightarrow> bool" where
  "env_quiet env \<longleftrightarrow> (\<forall>ns n. no_panic (env_GetSecret env ns n)) \<and> (\<forall>ns n. no_panic (env_GetProwlarrConfig env ns n)) \<and>
     (\<forall>conn. ep_total (env_applications env conn)) \<and> (\<forall>conn p. no_panic (env_deleteApplication env conn p)) \<and>
     (\<forall>app adapter conn. Get (env_adapters env) app = Some adapter \<longrightarrow> adapter_quiet adapter conn)"

lemma no_panic_connection_secrets: "env_quiet env \<Longrightarrow> no_panic (ResolveConnectionSecrets env ns spec)"
  by (auto simp: env_quiet_def ResolveConnectionSecrets_def ResolveSecretValue_def intro!: no_panic_rules split: option.split)

lemma no_panic_unregister: "env_quiet env \<Longrightarrow> no_panic (HandleProwlarrUnregistration env ns ref name)"
  using no_panic_connection_secrets
  by (auto simp: env_quiet_def HandleProwlarrUnregistration_def UnregisterApp_def findApplicationByName_def deleteApplication_def
      Let_def intro!: no_panic_if_err no_panic_rules)

lemma no_panic_cleanup_apply:
  assumes "adapter_quiet adapter conn" and "ad_Diff adapter cur desired caps w = (Ok changes, w')"
  shows "no_panic (andThen (ad_Apply adapter conn changes) (\<lambda>(result, err). case err of Some e \<Rightarrow> fail e
    | None \<Rightarrow> (case result of None \<Rightarrow> panics p | Some _ \<Rightarrow> give ())))"
  unfolding no_panic_def
proof
  fix w
  obtain res err w' where "ad_Apply adapter conn changes w = (Ok (res, err), w')" "err = None \<longrightarrow> res \<noteq> None"
    using assms unfolding adapter_quiet_def by metis
  then show "returns (fst (andThen (ad_Apply adapter conn changes) (\<lambda>(result, err). case err of Some e \<Rightarrow> fail e
    | None \<Rightarrow> (case result of None \<Rightarrow> panics p | Some _ \<Rightarrow> give ())) w))"
    by (auto simp: fail_def give_def split: option.split)
qed

lemma no_panic_andThen_run:
  "no_panic m \<Longrightarrow> (\<And>s x s'. m s = (Ok x, s') \<Longrightarrow> no_panic (f x)) \<Longrightarrow> no_panic (andThen m f)"
  unfolding no_panic_def andThen_def by (auto split: prod.splits outcome.splits) (metis fst_conv returns_simps(3))

lemma no_panic_CleanupManagedResources:
  assumes "env_quiet env" shows "no_panic (CleanupManagedResources env app conn)"
proof (cases "Get (env_adapters env) app")
  case None
  then show ?thesis by (simp add: CleanupManagedResources_def)
next
  case (Some adapter)
  then have q: "adapter_quiet adapter conn" using assms unfolding env_quiet_def by blast
  note apply_ok = no_panic_cleanup_apply [OF q]
  show ?thesis
    using q by (auto simp: CleanupManagedResources_def Some adapter_quiet_def [of adapter conn]
      intro!: no_panic_andThen_run no_panic_or_else apply_ok split: option.split)
qed

lemma deletion_steps_ok:
  assumes "env_quiet (gr_Env r)"
  shows "always_ok (\<lambda>_. True) (unregister_app r c)" and "always_ok (\<lambda>_. True) (cleanup r c)"
  unfolding unregister_app_def cleanup_def Let_def
  by (auto intro!: swallows_errors if_err_ok always_ok_give no_panic_unregister no_panic_CleanupManagedResources
      no_panic_connection_secrets assms split: option.split)

section \<open>The protocol\<close>

text \<open>
  C3. The finalizer protocol, for any of the four controllers. A suspended resource is left
  exactly as it is, with nothing read or written. A resource without the finalizer, before its
  deletion, only gets the finalizer: the one effect is that update, no service is contacted,
  and success asks for another pass at once. A resource being deleted gets its finalizer
  removed after the unregistration and the cleanup, whatever these met: neither an unreachable
  service nor a missing secret blocks the deletion.
\<close>

theorem finalizer_protocol:
  assumes "env_quiet (gr_Env r)"
  shows "(suspended (gr_Config r) c \<longrightarrow> Reconcile r (c, w) = (Ok (no_requeue, None), (c, w))) \<and>
    (\<not> suspended (gr_Config r) c \<and> om_DeletionTimestamp (GetObjectMeta (gr_Config r) c) = None \<and>
     \<not> env_ContainsFinalizer (gr_Env r) (GetFinalizerName (gr_Config r)) (om_Finalizers (GetObjectMeta (gr_Config r) c)) \<longrightarrow>
       (\<forall>c' w'. oc_Update (gr_Client r)
           (SetObjectMeta (gr_Config r) (om_Finalizers_update (env_AddFinalizer (gr_Env r) (GetFinalizerName (gr_Config r)))) c) w
           = (Ok c', w') \<longrightarrow> Reconcile r (c, w) = (Ok (\<lparr>res_Requeue = True, res_RequeueAfter = 0\<rparr>, None), (c', w')))) \<and>
    (\<not> suspended (gr_Config r) c \<and> om_DeletionTimestamp (GetObjectMeta (gr_Config r) c) \<noteq> None \<longrightarrow>
       (\<exists>w1 w2. unregister_app r c w = (Ok (), w1) \<and> cleanup r c w1 = (Ok (), w2) \<and>
         (\<forall>c' w'. oc_Update (gr_Client r)
           (SetObjectMeta (gr_Config r) (om_Finalizers_update (env_RemoveFinalizer (gr_Env r) (GetFinalizerName (gr_Config r)))) c) w2
           = (Ok c', w') \<longrightarrow> Reconcile r (c, w) = (Ok (no_requeue, None), (c', w')))))"
proof -
  obtain w1 w2 where del: "unregister_app r c w = (Ok (), w1)" "cleanup r c w1 = (Ok (), w2)"
    "reconcileDelete r (GetFinalizerName (gr_Config r)) (c, w) =
      (let c1 = SetObjectMeta (gr_Config r) (om_Finalizers_update (env_RemoveFinalizer (gr_Env r) (GetFinalizerName (gr_Config r)))) c
       in case oc_Update (gr_Client r) c1 w2 of
            (Ok c', w') \<Rightarrow> (Ok (no_requeue, None), (c', w'))
          | (Err e, w') \<Rightarrow> (Ok (no_requeue, Some e), (c1, w'))
          | (Panic p, w') \<Rightarrow> (Panic p, (c1, w')))"
    using reconcileDelete_run [OF deletion_steps_ok [OF assms]] by blast
  then show ?thesis by (simp add: Reconcile_cases)
qed

definition sample_sonarr :: "string list \<Rightarrow> int option \<Rightarrow> ReconciliationSpec option \<Rightarrow> SonarrConfig" where
  "sample_sonarr finalizers deleted reconciliation =
     \<lparr>sonc_ObjectMeta = \<lparr>om_Name = ''tv'', om_Namespace = ''media'', om_Generation = 1, om_Finalizers = finalizers,
        om_DeletionTimestamp = deleted\<rparr>,
      sonc_Spec = \<lparr>son_Connection = \<lparr>cns_URL = ''http://sonarr'', cns_APIKeySecretRef = None, cns_ConfigPath = [],
          cns_InsecureSkipVerify = False, cns_Timeout = None\<rparr>,
        son_Quality = None, son_DownloadClients = [], son_RemotePathMappings = [], son_Indexers = None, son_Naming = None,
        son_RootFolders = [], son_ImportLists = [], son_MediaManagement = None, son_Authentication = None,
        son_Notifications = [], son_CustomFormats = [], son_DelayProfiles = [], son_ReleaseProfiles = [],
        son_Reconciliation = reconciliation\<rparr>,
      sonc_Status = \<lparr>sonst_Conditions = [], sonst_Connected = False, sonst_ServiceVersion = [], sonst_LastReconcile = None,
        sonst_ManagedResources = \<lparr>mr_QualityProfileID = None, mr_CustomFormatIDs = [], mr_DownloadClientIDs = [],
          mr_IndexerIDs = [], mr_RootFolderIDs = [], mr_RemotePathMappingIDs = [], mr_NotificationIDs = []\<rparr>,
        sonst_LastAppliedHash = [], sonst_ProwlarrRegistration = None, sonst_Health = None\<rparr>\<rparr>"

definition sample_reconciler :: "'w Env \<Rightarrow> (SonarrConfig, 'w) GenericArrReconciler" where
  "sample_reconciler env = SonarrConfigReconciler forward_order (\<lambda>_. ''h'') env
     \<lparr>oc_Get = (\<lambda>ns n. give None), oc_Update = give, oc_UpdateStatus = give\<rparr>"

lemma plain_env_quiet: "env_quiet (plain_env [])"
  by (simp add: env_quiet_def plain_env_def ep_total_def refusing_def Get_def)

theorem finalizer_protocol_witness:
  "Reconcile (sample_reconciler (plain_env [])) (sample_sonarr [SonarrFinalizer] (Some 5) None, ()) =
     (Ok (no_requeue, None), (sample_sonarr [] (Some 5) None, ()))"
proof -
  let ?r = "sample_reconciler (plain_env [] :: unit Env)" and ?c = "sample_sonarr [SonarrFinalizer] (Some 5) None"
  have quiet: "env_quiet (gr_Env ?r)"
    using plain_env_quiet by (simp add: sample_reconciler_def SonarrConfigReconciler_def)
  have "\<not> suspended (gr_Config ?r) ?c" "om_DeletionTimestamp (GetObjectMeta (gr_Config ?r) ?c) \<noteq> None"
    by (simp_all add: suspended_def sample_reconciler_def SonarrConfigReconciler_def SonarrConfigAdapter_def sample_sonarr_def)
  moreover have "oc_Update (gr_Client ?r) (SetObjectMeta (gr_Config ?r) (om_Finalizers_update
      (env_RemoveFinalizer (gr_Env ?r) (GetFinalizerName (gr_Config ?r)))) ?c) w = (Ok (sample_sonarr [] (Some 5) None), w)" for w
    by (simp add: sample_reconciler_def SonarrConfigReconciler_def SonarrConfigAdapter_def sample_sonarr_def plain_env_def give_def)
  ultimately show ?thesis
    using finalizer_protocol [OF quiet, of ?c "()"] by auto
qed

text \<open>
  A suspended resource that is being deleted keeps its finalizer, so its deletion waits until
  it is resumed.
\<close>

corollary suspended_deletion_waits:
  "suspended (gr_Config r) c \<Longrightarrow> fst (snd (Reconcile r (c, w))) = c"
  by (simp add: Reconcile_cases)

section \<open>Every reconciliation is scheduled again\<close>

lemma ensures_store:
  assumes "\<And>c' w'. wr c w = (Ok c', w') \<Longrightarrow> ensures (k ()) (c', w') Q"
    and "\<And>e w'. wr c w = (Err e, w') \<Longrightarrow> ensures (h e) (c, w') Q"
    and "\<And>p w'. wr c w = (Panic p, w') \<Longrightarrow> Q (Panic p) (c, w')"
  shows "ensures (if_err (store_object wr) h k) (c, w) Q"
proof (cases "wr c w")
  case (Pair q w')
  then show ?thesis using assms by (cases q) (simp_all add: ensures_def if_err_def store_object_def)
qed

lemma ensures_andThen:
  assumes "ensures m s (\<lambda>q s'. case q of Ok x \<Rightarrow> ensures (k x) s' Q | Err e \<Rightarrow> Q (Err e) s' | Panic p \<Rightarrow> Q (Panic p) s')"
  shows "ensures (andThen m k) s Q"
  using assms by (auto simp: ensures_def andThen_def split: prod.splits outcome.splits)

lemma ensures_pure: "ensures (\<lambda>s. (Ok (f s), s)) s Q \<longleftrightarrow> Q (Ok (f s)) s"
  by (simp add: ensures_def)

lemma ensures_any: "(\<And>q s'. Q q s') \<Longrightarrow> ensures m s Q"
  by (simp add: ensures_def split: prod.split)

text \<open>
  What a pass of the normal flow returns. Without an error the delay is the interval, and the
  status was written, or there is no adapter for the application and the delay is thirty seconds.
  With an error it is thirty seconds, unless the error is that of the last status write.
\<close>

definition rescheduled :: "('c, 'w) GenericArrReconciler \<Rightarrow> reconcile_return outcome \<Rightarrow> 'c \<times> 'w \<Rightarrow> bool" where
  "rescheduled r q cw =
     (case q of
        Ok (res, None) \<Rightarrow>
          if Get (env_adapters (gr_Env r)) (GetAppType (gr_Config r)) = None
          then res = requeue_after ErrorRequeueInterval
          else res = requeue_after (requeue_interval (GetReconciliationSpec (gr_Config r) (fst cw))) \<and>
            (\<exists>c w. oc_UpdateStatus (gr_Client r) c w = (Ok (fst cw), snd cw))
      | Ok (res, Some e) \<Rightarrow>
          res = requeue_after ErrorRequeueInterval \<or>
          res = no_requeue \<and> (\<exists>w. oc_UpdateStatus (gr_Client r) (fst cw) w = (Err e, snd cw))
      | Err e \<Rightarrow> False
      | Panic p \<Rightarrow> True)"

lemma rescheduled_simps [simp]:
  "\<not> rescheduled r (Err e) cw" "rescheduled r (Panic p) cw"
  "rescheduled r (Ok (requeue_after ErrorRequeueInterval, Some e)) cw"
  "rescheduled r (Ok (requeue_after ErrorRequeueInterval, None)) cw \<longleftrightarrow>
     (Get (env_adapters (gr_Env r)) (GetAppType (gr_Config r)) \<noteq> None \<longrightarrow>
       requeue_interval (GetReconciliationSpec (gr_Config r) (fst cw)) = ErrorRequeueInterval \<and>
       (\<exists>c w. oc_UpdateStatus (gr_Client r) c w = (Ok (fst cw), snd cw)))"
  by (auto simp: rescheduled_def requeue_after_def)

lemma save_rescheduled:
  assumes "err = None \<Longrightarrow> Get (env_adapters (gr_Env r)) (GetAppType (gr_Config r)) = None"
  shows "ensures (save_and_return r (requeue_after ErrorRequeueInterval) err) (c, w) (rescheduled r)"
proof -
  have "rescheduled r (Ok (requeue_after ErrorRequeueInterval, err)) cw" for cw
    using assms by (cases err) auto
  then show ?thesis by (auto simp: save_and_return_def updateStatus_def intro!: ensures_store)
qed

text \<open>The steps before the last status write never end in a bare error.\<close>

lemma returns_pair_rules [intro!, simp]:
  "returns_pair (give x)" "returns_pair (panics p)"
  by (simp_all add: returns_pair_def give_def panics_def)

lemma returns_pair_if_err:
  "(\<And>e. returns_pair (h e)) \<Longrightarrow> (\<And>x. returns_pair (k x)) \<Longrightarrow> returns_pair (if_err m h k)"
  by (auto simp: returns_pair_def if_err_def split: prod.splits outcome.splits)

lemma returns_pair_or_else: "(\<And>e. returns_pair (h e)) \<Longrightarrow> returns_pair (or_else m h)"
  by (auto simp: returns_pair_def or_else_def split: prod.splits outcome.splits)

lemma ensures_pair:
  assumes "returns_pair m" and "\<And>x w'. ensures (k x) (c, w') Q" and "\<And>p w'. Q (Panic p) (c, w')"
  shows "ensures (andThen (on_service m) k) (c, w) Q"
  using assms by (intro ensures_call) (auto simp: returns_pair_def)

definition adapters_return :: "'w Env \<Rightarrow> string \<Rightarrow> bool" where
  "adapters_return env app \<longleftrightarrow> (\<forall>adapter conn. Get (env_adapters env) app = Some adapter \<longrightarrow>
     (\<forall>changes. returns_pair (ad_Apply adapter conn changes)) \<and>
     (\<forall>f ir. ad_ApplyDirect adapter = Some f \<longrightarrow> returns_pair (f conn ir)))"

lemma returns_pair_direct: "adapters_return env app \<Longrightarrow> returns_pair (ApplyDirectConfig env app conn ir)"
  by (auto simp: ApplyDirectConfig_def adapters_return_def Let_def split: option.split)

lemma returns_pair_register: "returns_pair (auto_register r c resolved)"
  by (auto simp: auto_register_def Let_def intro!: returns_pair_or_else split: option.split)

lemma returns_pair_health: "returns_pair (CheckAndReportHealth env app conn obj)"
proof -
  have "returns_pair (\<lambda>w. (Ok (f w), g w))" for f :: "'a \<Rightarrow> 'b" and g :: "'a \<Rightarrow> 'a"
    by (simp add: returns_pair_def)
  then show ?thesis
    by (auto simp: CheckAndReportHealth_def Let_def intro!: returns_pair_if_err split: option.split)
qed

lemma finish_rescheduled:
  assumes "adapters_return (gr_Env r) (GetAppType (gr_Config r))"
    and "Get (env_adapters (gr_Env r)) (GetAppType (gr_Config r)) \<noteq> None"
  shows "ensures (finish_reconcile r conn ir resolved) (c, w) (rescheduled r)"
proof -
  have "ensures (if_err (updateStatus r) (\<lambda>err. give (no_requeue, Some err)) (\<lambda>_ cw.
      (Ok (requeue_after (requeue_interval (GetReconciliationSpec (gr_Config r) (fst cw))), None), cw))) (c, w)
      (rescheduled r)" for c w
    unfolding updateStatus_def using assms(2)
    by (intro ensures_store) (auto simp: ensures_pure rescheduled_def split: option.split)
  then show ?thesis
    by (subst ensures_def, subst finish_reconcile_def, subst ensures_def [symmetric])
      (auto simp: Let_def intro!: ensures_pair returns_pair_direct returns_pair_register returns_pair_health assms(1))
qed

lemma returns_pair_steps [simp, intro!]:
  fixes k :: "('c \<times> 'w, 'a) action"
  assumes "returns_pair k"
  shows "returns_pair (SetCondition env st g ty s reason msg k)" "returns_pair (on_config f k)" "returns_pair (on_world h k)"
  using assms by (simp_all add: returns_pair_def SetCondition_def read_clock_def on_config_def on_world_def)

lemma returns_pair_clock: "(\<And>t. returns_pair (k t)) \<Longrightarrow> returns_pair (read_clock env k)"
  by (simp add: returns_pair_def read_clock_def)

lemma returns_pair_call: "returns_pair m \<Longrightarrow> (\<And>x. returns_pair (k x)) \<Longrightarrow> returns_pair (andThen (on_service m) k)"
  by (auto simp: returns_pair_def andThen_def on_service_def split: prod.splits outcome.splits)

lemma returns_pair_ReconcileConfig:
  assumes "adapters_return env app"
  shows "returns_pair (ReconcileConfig env app conn ir status g)"
proof -
  have finish: "returns_pair (finish_sync env status g app t ir r)" for t r
    by (simp add: finish_sync_def returns_pair_def read_clock_def on_config_def on_world_def SetCondition_def give_def)
  have sync: "returns_pair (sync_changes env adapter status g app t conn changes (finish_sync env status g app t ir))"
    if "Get (env_adapters env) app = Some adapter" for adapter t changes
    using assms that finish unfolding adapters_return_def
    by (auto simp: sync_changes_def apply_failed_def report_applied_def intro!: returns_pair_call split: option.split)
  show ?thesis
    unfolding ReconcileConfig_def Let_def
    using sync by (auto intro!: returns_pair_if_err returns_pair_clock split: option.split)
qed

lemma ensures_ReconcileConfig:
  assumes "adapters_return env app" and "\<And>res err c' w'. ensures (k (res, err)) (c', w') Q" and "\<And>p cw. Q (Panic p) cw"
  shows "ensures (andThen (ReconcileConfig env app conn ir status g) k) (c, w) Q"
proof (cases "ReconcileConfig env app conn ir status g (c, w)")
  case (fields q c' w')
  have "\<forall>e. q \<noteq> Err e"
    using returns_pair_ReconcileConfig [OF assms(1)] fields unfolding returns_pair_def by blast
  then show ?thesis
    using fields assms(3) by (cases q) (auto simp: ensures_def andThen_def dest: ensuresD [OF assms(2)])
qed

text \<open>
  C33. The normal flow schedules the next run. When it returns without an error and the
  application has an adapter, the last status write succeeded and the next run is asked for after
  the interval of the resource as the API server returned it (five minutes without one; an
  interval of 0 is an empty result, which asks for none); without an adapter it is asked for after
  thirty seconds. When it returns an error it asks for thirty
  seconds, with the one exception that the pass itself went through and only the last status write
  failed: then that write's error is returned and the delay is left to the caller. It never asks
  for an immediate run, and it always returns in this way or panics, for every adapter whose
  \<^verbatim>\<open>Apply\<close> and \<^verbatim>\<open>ApplyDirect\<close> return their pair.
\<close>

theorem reconcileNormal_rescheduled:
  assumes "adapters_return (gr_Env r) (GetAppType (gr_Config r))"
    and "reconcileNormal r (c, w) = (q, (c', w'))"
  shows "case q of
      Ok (res, None) \<Rightarrow>
        if Get (env_adapters (gr_Env r)) (GetAppType (gr_Config r)) = None
        then res = requeue_after ErrorRequeueInterval
        else res = requeue_after (requeue_interval (GetReconciliationSpec (gr_Config r) c')) \<and>
          (\<exists>c0 w0. oc_UpdateStatus (gr_Client r) c0 w0 = (Ok c', w'))
    | Ok (res, Some e) \<Rightarrow>
        res = requeue_after ErrorRequeueInterval \<or>
        res = no_requeue \<and> (\<exists>w0. oc_UpdateStatus (gr_Client r) c' w0 = (Err e, w'))
    | Err e \<Rightarrow> False
    | Panic p \<Rightarrow> True"
proof -
  have not_ready: "ensures (not_ready r g reason msg err) (c, w) (rescheduled r)"
    if "err = None \<Longrightarrow> Get (env_adapters (gr_Env r)) (GetAppType (gr_Config r)) = None" for g reason msg err w
    unfolding not_ready_def by (intro ensures_SetCondition_ok save_rescheduled that)
  have sync: "ensures (andThen (ReconcileConfig (gr_Env r) (GetAppType (gr_Config r)) conn ir status g) (\<lambda>(_, err). case err of
      Some e \<Rightarrow> save_and_return r (requeue_after ErrorRequeueInterval) (Some e)
    | None \<Rightarrow> finish_reconcile r conn ir resolved)) (c, w) (rescheduled r)"
    if "Get (env_adapters (gr_Env r)) (GetAppType (gr_Config r)) \<noteq> None" for conn ir status g resolved w
    using that by (intro ensures_ReconcileConfig assms(1))
      (auto intro!: save_rescheduled finish_rescheduled assms(1) split: option.split)
  have "ensures (reconcileNormal r) (c, w) (rescheduled r)"
    by (subst ensures_def, subst reconcileNormal_def, subst ensures_def [symmetric])
      (auto simp: Let_def intro!: ensures_if_err not_ready sync split: option.split outcome.split)
  from ensuresD [OF this assms(2)] show ?thesis by (simp only: rescheduled_def fst_conv snd_conv)
qed

text \<open>An adapter that reports a service without further content, for the witnesses.\<close>

definition quiet_ops :: "unit AdapterOps" where
  "quiet_ops = \<lparr>ad_Name = AppSonarr, ad_SupportedApp = AppSonarr, ad_Connect = (\<lambda>conn. give \<lparr>si_Version = ''4'', si_StartTime = 0\<rparr>),
     ad_Discover = (\<lambda>conn. fail ''unreachable''), ad_CurrentState = (\<lambda>conn. give (Some zero_IR)),
     ad_Diff = (\<lambda>cur des caps. give no_changes), ad_Apply = (\<lambda>conn changes. give (Some zero_result, None)),
     ad_ApplyDirect = None, ad_GetHealth = None\<rparr>"

theorem reconcileNormal_rescheduled_witness:
  "\<exists>cw'. reconcileNormal (sample_reconciler (plain_env [(AppSonarr, quiet_ops)])) (sample_sonarr [SonarrFinalizer] None None, ()) =
     (Ok (requeue_after ErrorRequeueInterval, Some ''unreachable''), cw')"
proof -
  let ?r = "sample_reconciler (plain_env [(AppSonarr, quiet_ops)])"
  have ok: "adapters_return (gr_Env ?r) (GetAppType (gr_Config ?r))"
    by (auto simp: adapters_return_def sample_reconciler_def SonarrConfigReconciler_def Get_def quiet_ops_def)
  obtain res c' w' where run: "reconcileNormal ?r (sample_sonarr [SonarrFinalizer] None None, ()) = (Ok (res, Some ''unreachable''), (c', w'))"
    by (simp add: reconcileNormal_def sample_reconciler_def SonarrConfigReconciler_def SonarrConfigAdapter_def sample_sonarr_def
        plain_env_def quiet_ops_def Get_def resolve_secrets_def ResolveConnectionSecrets_def ResolveDownloadClientSecrets_def
        ResolveIndexerSecrets_def ResolveImportListSecrets_def ResolveAuthenticationSecrets_def if_err_def on_service_def
        give_def fail_def not_ready_def SetCondition_def read_clock_def on_config_def save_and_return_def updateStatus_def
        store_object_def Let_def)
  from reconcileNormal_rescheduled [OF ok run] have "res = requeue_after ErrorRequeueInterval"
    by (simp add: sample_reconciler_def SonarrConfigReconciler_def give_def)
  with run show ?thesis by blast
qed

end
