(* ===== verification/Secrets.thy ===== *)
theory Secrets
  imports Lifecycle
begin

text \<open>
  The resolution of secrets (\<^verbatim>\<open>reconciler.go\<close>) composed with their use in the compiler
  (\<^verbatim>\<open>compiler/radarr.go\<close>): which references are resolved, when the resolution fails, and
  what the compiler then finds under the keys it looks up. The cluster's secrets are the
  parameter \<open>secret\<close>, read by namespace and name.
\<close>

section \<open>The cluster's secrets\<close>

type_synonym secret_store = "string \<Rightarrow> string \<Rightarrow> (string, string) gomap option"

text \<open>Reading a secret changes nothing and gives its data, or an error if there is none.\<close>

definition reads_secrets :: "'w Env \<Rightarrow> secret_store \<Rightarrow> bool" where
  "reads_secrets env secret \<longleftrightarrow> valid_order (env_order env) \<and> (\<forall>ns n w.
     (case secret ns n of
        None \<Rightarrow> \<exists>e. env_GetSecret env ns n w = (Err e, w)
      | Some data \<Rightarrow> gm_ok data \<and> env_GetSecret env ns n w = (Ok data, w)))"

definition secret_value :: "secret_store \<Rightarrow> string \<Rightarrow> string \<times> string \<Rightarrow> string option" where
  "secret_value secret ns ref = (case secret ns (fst ref) of None \<Rightarrow> None | Some data \<Rightarrow> map_of data (snd ref))"

section \<open>The references of a configuration\<close>

type_synonym secret_ref = "string \<times> string"

definition credential_refs :: "CredentialsSecretRef option \<Rightarrow> secret_ref list" where
  "credential_refs creds = (case creds of None \<Rightarrow> [] | Some ref \<Rightarrow>
     [(cr_Name ref, key_or ''username'' (cr_UsernameKey ref)), (cr_Name ref, key_or ''password'' (cr_PasswordKey ref))])"

definition key_refs :: "string \<Rightarrow> SecretKeySelector option \<Rightarrow> secret_ref list" where
  "key_refs dflt sel = (case sel of None \<Rightarrow> [] | Some ref \<Rightarrow> [(sk_Name ref, key_or dflt (sk_Key ref))])"

definition import_list_refs :: "secret_store \<Rightarrow> string \<Rightarrow> ImportListSpec \<Rightarrow> secret_ref list" where
  "import_list_refs secret ns l = (case isp_SettingsSecretRef l of None \<Rightarrow> []
     | Some ref \<Rightarrow> (case secret ns (sk_Name ref) of None \<Rightarrow> [] | Some data \<Rightarrow> map (\<lambda>(k, v). (sk_Name ref, k)) data))"

definition config_refs :: "secret_store \<Rightarrow> string \<Rightarrow> 'c ArrConfigObject \<Rightarrow> 'c \<Rightarrow> secret_ref list" where
  "config_refs secret ns config c =
     concat (map (\<lambda>dc. credential_refs (dcs_CredentialsSecretRef dc)) (GetDownloadClients config c)) @
     (case GetIndexersSpec config c of None \<Rightarrow> []
      | Some ixs \<Rightarrow> concat (map (\<lambda>idx. key_refs ''apiKey'' (di_APIKeySecretRef idx)) (ixs_Direct ixs))) @
     concat (map (import_list_refs secret ns) (GetImportLists config c)) @
     (case GetAuthenticationSpec config c of None \<Rightarrow> [] | Some a \<Rightarrow> key_refs ''password'' (aus_PasswordSecretRef a))"

text \<open>The connection's key is there, every reference has a value, and every import list's secret exists.\<close>

definition refs_present :: "secret_store \<Rightarrow> string \<Rightarrow> 'c ArrConfigObject \<Rightarrow> 'c \<Rightarrow> bool" where
  "refs_present secret ns config c \<longleftrightarrow>
     (\<forall>ref \<in> set (key_refs ''apiKey'' (cns_APIKeySecretRef (GetConnectionSpec config c))). secret_value secret ns ref \<noteq> None) \<and>
     (\<forall>ref \<in> set (config_refs secret ns config c). secret_value secret ns ref \<noteq> None) \<and>
     (\<forall>l \<in> set (GetImportLists config c). \<forall>ref. isp_SettingsSecretRef l = Some ref \<longrightarrow> secret ns (sk_Name ref) \<noteq> None)"

section \<open>What a resolution does\<close>

definition put_refs :: "secret_store \<Rightarrow> string \<Rightarrow> secret_ref list \<Rightarrow> (string, string) gomap \<Rightarrow> (string, string) gomap" where
  "put_refs secret ns refs m =
     fold (\<lambda>ref. gm_set (secret_key (fst ref) (snd ref)) (the (secret_value secret ns ref))) refs m"

text \<open>
  \<open>provides\<close>: if its condition holds the step stores the values of its references and changes
  nothing else, and a map without duplicate keys stays one, otherwise it fails.
\<close>

definition provides ::
    "secret_store \<Rightarrow> string \<Rightarrow> ((string, string) gomap \<Rightarrow> ('w, (string, string) gomap) action) \<Rightarrow> bool \<Rightarrow> secret_ref list \<Rightarrow> bool" where
  "provides secret ns f P refs \<longleftrightarrow> (\<forall>m w. if P then \<exists>m'. f m w = (Ok m', w) \<and> map_of m' = map_of (put_refs secret ns refs m) \<and>
       (gm_ok m \<longrightarrow> gm_ok m') else \<exists>e. f m w = (Err e, w))"

lemma put_refs_append: "put_refs secret ns (xs @ ys) m = put_refs secret ns ys (put_refs secret ns xs m)"
  by (simp add: put_refs_def)

lemma put_refs_Cons:
  "put_refs secret ns (ref # refs) m = put_refs secret ns refs (gm_set (secret_key (fst ref) (snd ref)) (the (secret_value secret ns ref)) m)"
  by (simp add: put_refs_def)

lemma put_refs_cong: "map_of m = map_of m' \<Longrightarrow> map_of (put_refs secret ns refs m) = map_of (put_refs secret ns refs m')"
  by (induction refs arbitrary: m m') (simp_all add: put_refs_def)

lemma provides_give: "provides secret ns give True []"
  by (simp add: provides_def give_def put_refs_def)

lemma provides_andThen:
  assumes "provides secret ns f P xs" and "provides secret ns g Q ys"
  shows "provides secret ns (\<lambda>m. andThen (f m) g) (P \<and> Q) (xs @ ys)"
  unfolding provides_def
proof (intro allI)
  fix m w
  have f: "if P then \<exists>m'. f m w = (Ok m', w) \<and> map_of m' = map_of (put_refs secret ns xs m) \<and> (gm_ok m \<longrightarrow> gm_ok m')
      else \<exists>e. f m w = (Err e, w)"
    using assms(1) unfolding provides_def by blast
  have g: "if Q then \<exists>m2. g m' w = (Ok m2, w) \<and> map_of m2 = map_of (put_refs secret ns ys m') \<and> (gm_ok m' \<longrightarrow> gm_ok m2)
      else \<exists>e. g m' w = (Err e, w)" for m'
    using assms(2) unfolding provides_def by blast
  show "if P \<and> Q then \<exists>m'. andThen (f m) g w = (Ok m', w) \<and> map_of m' = map_of (put_refs secret ns (xs @ ys) m) \<and> (gm_ok m \<longrightarrow> gm_ok m')
      else \<exists>e. andThen (f m) g w = (Err e, w)"
  proof (cases P)
    case True
    then obtain m' where m': "f m w = (Ok m', w)" "map_of m' = map_of (put_refs secret ns xs m)" "gm_ok m \<longrightarrow> gm_ok m'" using f by auto
    from put_refs_cong [OF m'(2), of secret ns ys] show ?thesis
      using g [of m'] m'(1,3) True by (auto simp: put_refs_append split: if_splits)
  next
    case False
    then show ?thesis using f by auto
  qed
qed

lemma provides_each:
  assumes "\<And>x. provides secret ns (f x) (P x) (r x)"
  shows "provides secret ns (resolve_each f xs) (\<forall>x \<in> set xs. P x) (concat (map r xs))"
proof (induction xs)
  case Nil
  then show ?case using provides_give by (simp add: provides_def)
next
  case (Cons x xs)
  from provides_andThen [OF assms this] show ?case by (simp add: provides_def)
qed

lemma resolve_into_provides:
  assumes "reads_secrets env secret"
  shows "provides secret ns (resolve_into env msg ns n k) (secret_value secret ns (n, k) \<noteq> None) [(n, k)]"
  unfolding provides_def
proof (intro allI)
  fix m w
  have "case secret ns n of None \<Rightarrow> \<exists>e. env_GetSecret env ns n w = (Err e, w)
      | Some data \<Rightarrow> gm_ok data \<and> env_GetSecret env ns n w = (Ok data, w)"
    using assms unfolding reads_secrets_def by blast
  then show "if secret_value secret ns (n, k) \<noteq> None
      then \<exists>m'. resolve_into env msg ns n k m w = (Ok m', w) \<and> map_of m' = map_of (put_refs secret ns [(n, k)] m) \<and> (gm_ok m \<longrightarrow> gm_ok m')
      else \<exists>e. resolve_into env msg ns n k m w = (Err e, w)"
    by (auto simp: resolve_into_def ResolveSecretValue_def secret_value_def put_refs_def give_def fail_def andThen_def wrap_err_def
        split: option.splits)
qed

lemma map_of_fold_set:
  "map_of (fold (\<lambda>x. gm_set (f x) (g x)) xs m) = map_of m ++ map_of (rev (map (\<lambda>x. (f x, g x)) xs))"
  by (induction xs arbitrary: m) (simp_all add: map_add_upd)

lemma map_of_perm:
  assumes "distinct (map fst xs)" and "mset ys = mset xs"
  shows "map_of ys = map_of xs"
proof -
  have "mset (map fst ys) = mset (map fst xs)" using assms(2) by simp
  then have "distinct (map fst ys)" using assms(1) mset_eq_imp_distinct_iff by blast
  then show ?thesis using assms map_of_inject_set mset_eq_setD by blast
qed

lemma secret_key_inj: "inj (secret_key n)"
  by (simp add: inj_def secret_key_def)

lemma fold_secret_perm:
  assumes "distinct (map fst xs)" and "mset ys = mset xs"
  shows "map_of (fold (\<lambda>x. gm_set (secret_key n (fst x)) (snd x)) ys m) =
    map_of (fold (\<lambda>x. gm_set (secret_key n (fst x)) (snd x)) xs m)"
proof -
  let ?h = "map (\<lambda>x. (secret_key n (fst x), snd x))"
  have "map fst (rev (?h xs)) = rev (map (secret_key n) (map fst xs))" by (simp add: rev_map)
  moreover have "distinct (map (secret_key n) (map fst xs))"
    using assms(1) inj_on_subset [OF secret_key_inj] by (subst distinct_map) blast
  ultimately have "distinct (map fst (rev (?h xs)))" by (simp only: distinct_rev)
  moreover have "mset (rev (?h ys)) = mset (rev (?h xs))" using assms(2) by simp
  ultimately have "map_of (rev (?h ys)) = map_of (rev (?h xs))" by (rule map_of_perm)
  then show ?thesis by (simp only: map_of_fold_set)
qed

lemma failed_read: "\<exists>e. m w = (Err e, w) \<Longrightarrow> \<exists>e. andThen (wrap_err msg m) k w = (Err e, w)"
  by auto

lemma import_list_provides:
  assumes "reads_secrets env secret"
  shows "provides secret ns (\<lambda>resolved. case isp_SettingsSecretRef l of
         None \<Rightarrow> give resolved
       | Some ref \<Rightarrow>
           andThen (wrap_err (''failed to get import list secret '' @ sk_Name ref) (env_GetSecret env ns (sk_Name ref)))
             (\<lambda>data. give (fold (\<lambda>(key, value). gm_set (secret_key (sk_Name ref) key) value)
                         (gm_range (env_order env) 0 data) resolved)))
     (\<forall>ref. isp_SettingsSecretRef l = Some ref \<longrightarrow> secret ns (sk_Name ref) \<noteq> None) (import_list_refs secret ns l)"
proof (cases "isp_SettingsSecretRef l")
  case None
  then show ?thesis using provides_give by (simp add: import_list_refs_def provides_def)
next
  case (Some ref)
  have read: "case secret ns (sk_Name ref) of None \<Rightarrow> \<exists>e. env_GetSecret env ns (sk_Name ref) w = (Err e, w)
      | Some data \<Rightarrow> gm_ok data \<and> env_GetSecret env ns (sk_Name ref) w = (Ok data, w)" for w
    using assms unfolding reads_secrets_def by blast
  have stored: "map_of (fold (\<lambda>(k, v). gm_set (secret_key (sk_Name ref) k) v) (gm_range (env_order env) 0 data) m) =
      map_of (put_refs secret ns (map (\<lambda>(k, v). (sk_Name ref, k)) data) m)"
    if data: "secret ns (sk_Name ref) = Some data" "gm_ok data" for data m
  proof -
    have "map_of (fold (\<lambda>x. gm_set (secret_key (sk_Name ref) (fst x)) (snd x)) (gm_range (env_order env) 0 data) m) =
        map_of (fold (\<lambda>x. gm_set (secret_key (sk_Name ref) (fst x)) (snd x)) data m)"
      using data(2) assms by (intro fold_secret_perm) (simp_all add: gm_ok_def reads_secrets_def mset_gm_range)
    moreover have "put_refs secret ns (map (\<lambda>(k, v). (sk_Name ref, k)) data) m =
        fold (\<lambda>x. gm_set (secret_key (sk_Name ref) (fst x)) (snd x)) data m"
      unfolding put_refs_def fold_map
      by (rule fold_cong) (use data in \<open>auto simp: secret_value_def set_gm_map_of split_beta\<close>)
    ultimately show ?thesis by (simp add: split_beta')
  qed
  have kept: "gm_ok m \<Longrightarrow> gm_ok (fold (\<lambda>(k, v). gm_set (secret_key (sk_Name ref) k) v) es m)" for es and m :: "(string, string) gomap"
    by (induction es arbitrary: m) auto
  show ?thesis
  proof (cases "secret ns (sk_Name ref)")
    case None
    then have "\<exists>e. env_GetSecret env ns (sk_Name ref) w = (Err e, w)" for w using read [of w] by simp
    then show ?thesis by (simp add: provides_def Some None import_list_refs_def) (intro allI failed_read)
  next
    case (Some data)
    then have "env_GetSecret env ns (sk_Name ref) w = (Ok data, w)" "gm_ok data" for w using read [of w] by simp_all
    then show ?thesis using stored [OF Some] kept \<open>isp_SettingsSecretRef l = Some ref\<close>
      by (simp add: provides_def Some import_list_refs_def give_def)
  qed
qed

section \<open>The whole resolution\<close>

lemma credentials_provide:
  assumes "reads_secrets env secret"
  shows "provides secret ns (resolve_credentials env msg ns creds)
    (\<forall>ref \<in> set (credential_refs creds). secret_value secret ns ref \<noteq> None) (credential_refs creds)"
proof (cases creds)
  case None
  then show ?thesis using provides_give by (simp add: resolve_credentials_def credential_refs_def provides_def)
next
  case (Some ref)
  from provides_andThen [OF resolve_into_provides [OF assms] resolve_into_provides [OF assms]] show ?thesis
    by (simp add: resolve_credentials_def credential_refs_def Some provides_def)
qed

lemma key_provides:
  assumes "reads_secrets env secret"
  shows "provides secret ns (\<lambda>m. case sel of None \<Rightarrow> give m | Some ref \<Rightarrow> resolve_into env msg ns (sk_Name ref) (key_or d (sk_Key ref)) m)
    (\<forall>ref \<in> set (key_refs d sel). secret_value secret ns ref \<noteq> None) (key_refs d sel)"
  using provides_give resolve_into_provides [OF assms] by (cases sel) (simp_all add: key_refs_def provides_def)

lemma steps_provide:
  assumes "reads_secrets env secret"
  shows "provides secret ns (ResolveDownloadClientSecrets env ns dcs)
      (\<forall>dc \<in> set dcs. \<forall>ref \<in> set (credential_refs (dcs_CredentialsSecretRef dc)). secret_value secret ns ref \<noteq> None)
      (concat (map (\<lambda>dc. credential_refs (dcs_CredentialsSecretRef dc)) dcs))"
    and "provides secret ns (resolve_each (\<lambda>idx. resolve_api_key env msg ns (di_APIKeySecretRef idx)) idxs)
      (\<forall>idx \<in> set idxs. \<forall>ref \<in> set (key_refs ''apiKey'' (di_APIKeySecretRef idx)). secret_value secret ns ref \<noteq> None)
      (concat (map (\<lambda>idx. key_refs ''apiKey'' (di_APIKeySecretRef idx)) idxs))"
    and "provides secret ns (ResolveImportListSecrets env ns ls)
      (\<forall>l \<in> set ls. \<forall>ref. isp_SettingsSecretRef l = Some ref \<longrightarrow> secret ns (sk_Name ref) \<noteq> None)
      (concat (map (import_list_refs secret ns) ls))"
  unfolding ResolveDownloadClientSecrets_def resolve_api_key_def ResolveImportListSecrets_def
  by (intro provides_each credentials_provide key_provides import_list_provides assms)+

definition connection_map :: "secret_store \<Rightarrow> string \<Rightarrow> ConnectionSpec \<Rightarrow> (string, string) gomap" where
  "connection_map secret ns spec = (case key_refs ''apiKey'' (cns_APIKeySecretRef spec) of [] \<Rightarrow> []
     | ref # _ \<Rightarrow> [(''apiKey'', the (secret_value secret ns ref))])"

lemma connection_provides:
  assumes "reads_secrets env secret"
  shows "if \<forall>ref \<in> set (key_refs ''apiKey'' (cns_APIKeySecretRef spec)). secret_value secret ns ref \<noteq> None
    then ResolveConnectionSecrets env ns spec w = (Ok (connection_map secret ns spec), w)
    else \<exists>e. ResolveConnectionSecrets env ns spec w = (Err e, w)"
proof (cases "cns_APIKeySecretRef spec")
  case None
  then show ?thesis by (simp add: ResolveConnectionSecrets_def key_refs_def connection_map_def give_def)
next
  case (Some ref)
  have "case secret ns (sk_Name ref) of None \<Rightarrow> \<exists>e. env_GetSecret env ns (sk_Name ref) w = (Err e, w)
      | Some data \<Rightarrow> gm_ok data \<and> env_GetSecret env ns (sk_Name ref) w = (Ok data, w)"
    using assms unfolding reads_secrets_def by blast
  then show ?thesis
    by (auto simp: Some ResolveConnectionSecrets_def ResolveSecretValue_def key_refs_def connection_map_def secret_value_def
        give_def fail_def gm_set_def andThen_def wrap_err_def split: option.splits)
qed

lemma provides_option:
  assumes "\<And>x. provides secret ns (f x) (P x) (r x)"
  shows "provides secret ns (\<lambda>m. case v of None \<Rightarrow> give m | Some x \<Rightarrow> f x m) (\<forall>x. v = Some x \<longrightarrow> P x)
    (case v of None \<Rightarrow> [] | Some x \<Rightarrow> r x)"
  using assms provides_give [of secret ns] by (cases v) simp_all

lemma resolve_secrets_provides:
  assumes "reads_secrets env secret"
  shows "provides secret ns (\<lambda>m. andThen (ResolveDownloadClientSecrets env ns (GetDownloadClients config c) m) (\<lambda>m.
       andThen (ResolveIndexerSecrets env ns (GetIndexersSpec config c) m) (\<lambda>m.
       andThen (ResolveImportListSecrets env ns (GetImportLists config c) m) (\<lambda>m.
       ResolveAuthenticationSecrets env ns (GetAuthenticationSpec config c) m))))
     ((\<forall>ref \<in> set (config_refs secret ns config c). secret_value secret ns ref \<noteq> None) \<and>
      (\<forall>l \<in> set (GetImportLists config c). \<forall>ref. isp_SettingsSecretRef l = Some ref \<longrightarrow> secret ns (sk_Name ref) \<noteq> None))
     (config_refs secret ns config c)"
proof -
  have lists: "(\<forall>ref \<in> set (import_list_refs secret ns l). secret_value secret ns ref \<noteq> None)" for l
    by (auto simp: import_list_refs_def secret_value_def split: option.splits dest: weak_map_of_SomeI)
  have auth: "ResolveAuthenticationSecrets env ns a = (\<lambda>m. case a of None \<Rightarrow> give m | Some x \<Rightarrow>
      (case aus_PasswordSecretRef x of None \<Rightarrow> give m | Some ref \<Rightarrow> resolve_into env ''failed to resolve authentication password'' ns
         (sk_Name ref) (key_or ''password'' (sk_Key ref)) m))" for a
    by (simp add: ResolveAuthenticationSecrets_def fun_eq_iff)
  have idx: "ResolveIndexerSecrets env ns a = (\<lambda>m. case a of None \<Rightarrow> give m | Some ixs \<Rightarrow>
      resolve_each (\<lambda>idx. resolve_api_key env ''failed to resolve indexer API key'' ns (di_APIKeySecretRef idx)) (ixs_Direct ixs) m)" for a
    by (simp add: ResolveIndexerSecrets_def fun_eq_iff)
  have i: "provides secret ns (\<lambda>m. case GetIndexersSpec config c of None \<Rightarrow> give m | Some ixs \<Rightarrow>
      resolve_each (\<lambda>idx. resolve_api_key env ''failed to resolve indexer API key'' ns (di_APIKeySecretRef idx)) (ixs_Direct ixs) m)
      (\<forall>ixs. GetIndexersSpec config c = Some ixs \<longrightarrow> (\<forall>idx \<in> set (ixs_Direct ixs).
         \<forall>ref \<in> set (key_refs ''apiKey'' (di_APIKeySecretRef idx)). secret_value secret ns ref \<noteq> None))
      (case GetIndexersSpec config c of None \<Rightarrow> []
       | Some ixs \<Rightarrow> concat (map (\<lambda>idx. key_refs ''apiKey'' (di_APIKeySecretRef idx)) (ixs_Direct ixs)))"
    by (rule provides_option, rule steps_provide(2) [OF assms])
  have a: "provides secret ns (\<lambda>m. case GetAuthenticationSpec config c of None \<Rightarrow> give m | Some x \<Rightarrow>
      (case aus_PasswordSecretRef x of None \<Rightarrow> give m | Some ref \<Rightarrow> resolve_into env ''failed to resolve authentication password'' ns
         (sk_Name ref) (key_or ''password'' (sk_Key ref)) m))
      (\<forall>x. GetAuthenticationSpec config c = Some x \<longrightarrow>
         (\<forall>ref \<in> set (key_refs ''password'' (aus_PasswordSecretRef x)). secret_value secret ns ref \<noteq> None))
      (case GetAuthenticationSpec config c of None \<Rightarrow> [] | Some x \<Rightarrow> key_refs ''password'' (aus_PasswordSecretRef x))"
    by (rule provides_option, rule key_provides [OF assms])
  note all_steps = provides_andThen [OF steps_provide(1) [OF assms] provides_andThen [OF i
    provides_andThen [OF steps_provide(3) [OF assms] a]]]
  show ?thesis
    unfolding auth idx config_refs_def
    by (rule back_subst [where P = "\<lambda>P. provides secret ns _ P _", OF all_steps])
      (use lists in \<open>cases "GetIndexersSpec config c"; cases "GetAuthenticationSpec config c"; auto\<close>)
qed

lemma resolve_secrets_run:
  assumes "reads_secrets env secret"
  shows "if refs_present secret ns config c
    then \<exists>resolved. resolve_secrets env ns config c w = (Ok resolved, w) \<and>
      map_of resolved = map_of (put_refs secret ns (config_refs secret ns config c) (connection_map secret ns (GetConnectionSpec config c))) \<and>
      gm_ok resolved
    else \<exists>e. resolve_secrets env ns config c w = (Err e, w)"
proof (cases "\<forall>ref \<in> set (key_refs ''apiKey'' (cns_APIKeySecretRef (GetConnectionSpec config c))). secret_value secret ns ref \<noteq> None")
  case True
  then have conn: "ResolveConnectionSecrets env ns (GetConnectionSpec config c) w = (Ok (connection_map secret ns (GetConnectionSpec config c)), w)"
    using connection_provides [OF assms, of "GetConnectionSpec config c" ns w] by simp
  have "gm_ok (connection_map secret ns (GetConnectionSpec config c))"
    by (auto simp: connection_map_def gm_ok_def split: list.split)
  then show ?thesis
    using True resolve_secrets_provides [OF assms, of ns config c, unfolded provides_def, THEN spec, THEN spec,
      of "connection_map secret ns (GetConnectionSpec config c)" w]
    unfolding resolve_secrets_def refs_present_def by (simp add: conn cong: if_cong)
next
  case False
  then have "\<exists>e. ResolveConnectionSecrets env ns (GetConnectionSpec config c) w = (Err e, w)"
    using connection_provides [OF assms, of "GetConnectionSpec config c" ns w] by auto
  with False show ?thesis by (auto simp: resolve_secrets_def refs_present_def)
qed

section \<open>Looking a secret up\<close>

lemma secret_key_eq:
  assumes "CHR ''/'' \<notin> set n" and "CHR ''/'' \<notin> set n'"
  shows "secret_key n k = secret_key n' k' \<longleftrightarrow> n = n' \<and> k = k'"
  using assms
proof (induction n arbitrary: n')
  case Nil
  then show ?case by (cases n') (auto simp: secret_key_def)
next
  case (Cons x n)
  then show ?case by (cases n') (auto simp: secret_key_def)
qed

lemma map_of_put_refs:
  assumes "\<forall>ref \<in> set refs. CHR ''/'' \<notin> set (fst ref) \<and> secret_value secret ns ref \<noteq> None" and "CHR ''/'' \<notin> set n"
  shows "map_of (put_refs secret ns refs m) (secret_key n k) =
    (if (n, k) \<in> set refs then secret_value secret ns (n, k) else map_of m (secret_key n k))"
  using assms(1)
proof (induction refs arbitrary: m)
  case (Cons ref refs)
  let ?m = "gm_set (secret_key (fst ref) (snd ref)) (the (secret_value secret ns ref)) m"
  have key: "secret_key n k = secret_key (fst ref) (snd ref) \<longleftrightarrow> n = fst ref \<and> k = snd ref"
    using Cons.prems assms(2) by (intro secret_key_eq) simp_all
  have "map_of (put_refs secret ns refs ?m) (secret_key n k) =
      (if (n, k) \<in> set refs then secret_value secret ns (n, k) else map_of ?m (secret_key n k))"
    using Cons.prems by (intro Cons.IH) simp
  moreover have "the (secret_value secret ns ref) = v" if "secret_value secret ns (n, k) = Some v" "n = fst ref \<and> k = snd ref" for v
    using that by simp
  moreover have "secret_value secret ns ref \<noteq> None" using Cons.prems by simp
  ultimately show ?case using key by (cases ref) (auto simp: put_refs_Cons)
qed (simp add: put_refs_def)

lemma map_of_put_refs_plain:
  "CHR ''/'' \<notin> set x \<Longrightarrow> map_of (put_refs secret ns refs m) x = map_of m x"
  by (induction refs arbitrary: m) (auto simp: put_refs_def secret_key_def)

lemma resolved_lookup:
  assumes "reads_secrets env secret"
    and "\<forall>ref \<in> set (config_refs secret ns config c). CHR ''/'' \<notin> set (fst ref)"
    and "resolve_secrets env ns config c w = (Ok resolved, w')" and "CHR ''/'' \<notin> set n"
  shows "map_of resolved (secret_key n k) = (if (n, k) \<in> set (config_refs secret ns config c) then secret_value secret ns (n, k) else None)"
    and "gm_ok resolved" and "refs_present secret ns config c"
proof -
  let ?refs = "config_refs secret ns config c" and ?m = "connection_map secret ns (GetConnectionSpec config c)"
  note run = resolve_secrets_run [OF assms(1), of ns config c w]
  show p: "refs_present secret ns config c" using run assms(3) by (auto split: if_splits)
  have m: "map_of resolved = map_of (put_refs secret ns ?refs ?m)" "gm_ok resolved" using run p assms(3) by auto
  then show "gm_ok resolved" by simp
  have "\<forall>ref \<in> set ?refs. CHR ''/'' \<notin> set (fst ref) \<and> secret_value secret ns ref \<noteq> None"
    using p assms(2) by (auto simp: refs_present_def)
  moreover have "secret_key n k \<noteq> ''apiKey''"
  proof
    assume "secret_key n k = ''apiKey''"
    then have "CHR ''/'' \<in> set ''apiKey''" unfolding secret_key_def by (metis in_set_conv_decomp append_Cons append_Nil)
    then show False by simp
  qed
  then have "map_of ?m (secret_key n k) = None" by (auto simp: connection_map_def split: list.split)
  ultimately show "map_of resolved (secret_key n k) = (if (n, k) \<in> set ?refs then secret_value secret ns (n, k) else None)"
    using assms(4) by (simp add: m map_of_put_refs)
qed

lemma resolved_value:
  assumes "reads_secrets env secret"
    and "\<forall>ref \<in> set (config_refs secret ns config c). CHR ''/'' \<notin> set (fst ref)"
    and "resolve_secrets env ns config c w = (Ok resolved, w')" and "(n, k) \<in> set (config_refs secret ns config c)"
  shows "secret_value secret ns (n, k) = Some (secret_or_empty resolved (n @ ''/'' @ k))"
proof -
  have n: "CHR ''/'' \<notin> set n" using assms(2,4) by force
  have "secret_value secret ns (n, k) \<noteq> None"
    using resolved_lookup(3) [OF assms(1-3) n] assms(4) by (auto simp: refs_present_def)
  then show ?thesis
    using resolved_lookup(1) [OF assms(1-3) n, of k] assms(4) by (auto simp: secret_or_empty_def secret_key_def)
qed

lemma resolved_connection:
  assumes "reads_secrets env secret" and "resolve_secrets env ns config c w = (Ok resolved, w')"
    and "cns_APIKeySecretRef (GetConnectionSpec config c) = Some ref"
  shows "secret_value secret ns (sk_Name ref, key_or ''apiKey'' (sk_Key ref)) = Some (secret_or_empty resolved ''apiKey'')"
proof -
  note run = resolve_secrets_run [OF assms(1), of ns config c w]
  have p: "refs_present secret ns config c" using run assms(2) by (auto split: if_splits)
  then have "map_of resolved ''apiKey'' = map_of (connection_map secret ns (GetConnectionSpec config c)) ''apiKey''"
    using run assms(2) by (auto simp: map_of_put_refs_plain)
  then show ?thesis
    using p assms(3) by (auto simp: refs_present_def key_refs_def connection_map_def secret_or_empty_def)
qed

text \<open>Where the compiler looks: under the name of the secret and the key, or its default.\<close>

lemma compiler_lookups:
  "dcs_CredentialsSecretRef dc = Some cr \<Longrightarrow>
     dci_Username (convert_download_client m dc) = secret_or_empty m (cr_Name cr @ ''/'' @ key_or ''username'' (cr_UsernameKey cr))"
  "dcs_CredentialsSecretRef dc = Some cr \<Longrightarrow>
     dci_Password (convert_download_client m dc) = secret_or_empty m (cr_Name cr @ ''/'' @ key_or ''password'' (cr_PasswordKey cr))"
  "di_APIKeySecretRef i = Some ref \<Longrightarrow>
     ixi_APIKey (convert_indexer m i) = secret_or_empty m (sk_Name ref @ ''/'' @ key_or ''apiKey'' (sk_Key ref))"
  "aus_PasswordSecretRef a = Some ref \<Longrightarrow>
     map_option (\<lambda>x. Some (aui_Password x)) (convertAuthentication (Some a) m) =
       Some (Some (secret_or_empty m (sk_Name ref @ ''/'' @ key_or ''password'' (sk_Key ref))))"
  by (simp_all add: convert_download_client_def convert_indexer_def convertAuthentication_def defaultString_def key_or_def
      split: prod.split)

lemma import_list_refs_in:
  assumes "l \<in> set (GetImportLists config c)" and "isp_SettingsSecretRef l = Some ref"
    and "secret_value secret ns (sk_Name ref, k) \<noteq> None"
  shows "(sk_Name ref, k) \<in> set (config_refs secret ns config c)"
proof -
  have "(sk_Name ref, k) \<in> set (import_list_refs secret ns l)"
    using assms(2,3) by (force simp: import_list_refs_def secret_value_def split: option.splits dest: map_of_SomeD)
  then show ?thesis using assms(1) by (auto simp: config_refs_def)
qed

text \<open>The settings of an import list: those of its secret, then those of the resource.\<close>

lemma resolved_import_list:
  assumes "reads_secrets env secret"
    and "\<forall>ref \<in> set (config_refs secret ns config c). CHR ''/'' \<notin> set (fst ref)"
    and "resolve_secrets env ns config c w = (Ok resolved, w')" and "valid_order ord" and "gm_ok (isp_Settings l)"
    and l: "l \<in> set (GetImportLists config c)" "isp_SettingsSecretRef l = Some ref" "CHR ''/'' \<notin> set (sk_Name ref)"
  shows "map_of (ili_Settings (convert_import_list ord resolved l)) k =
    (case secret_value secret ns (sk_Name ref, k) of Some v \<Rightarrow> Some v | None \<Rightarrow> map_of (isp_Settings l) k)"
proof -
  have "map_of resolved (secret_key (sk_Name ref) k) = secret_value secret ns (sk_Name ref, k)"
    using resolved_lookup(1) [OF assms(1-3) l(3), of k] import_list_refs_in [OF l(1,2), of secret ns k]
    by (cases "secret_value secret ns (sk_Name ref, k)") (auto split: if_splits)
  then show ?thesis
    using settings_of_lookup [OF assms(4,5) resolved_lookup(2) [OF assms(1-3) l(3)], where wrap = id and ref = "Some ref" and k = k]
    by (simp add: convert_import_list_def l(2) secret_key_def option.map_id split: option.splits)
qed

text \<open>
  C4. Secrets reach the compiler, for the five parts of a configuration whose secrets are
  resolved. The resolution succeeds exactly if the keys that the connection, the download
  clients, the direct indexers and the authentication refer to exist and so do the secrets of the
  import lists, and it changes nothing. Then the compiler finds exactly the values of the secrets:
  the API key of the connection, the user name and password of every download client, the API key
  of every direct indexer, the password of the authentication, and for an import list all entries
  of its secret, which take precedence over the settings written in the resource. The secrets of
  notifications are not among them: they are never resolved (\<open>notification_secret_ignored\<close> below).
  (The names of secrets have no slash, as Kubernetes demands.)
\<close>

theorem secrets_reach_compiler:
  assumes "reads_secrets env secret"
    and "\<forall>ref \<in> set (config_refs secret ns config c). CHR ''/'' \<notin> set (fst ref)"
    and "\<forall>l \<in> set (GetImportLists config c). gm_ok (isp_Settings l) \<and>
      (\<forall>ref. isp_SettingsSecretRef l = Some ref \<longrightarrow> CHR ''/'' \<notin> set (sk_Name ref))"
  shows "(if refs_present secret ns config c then \<exists>resolved. resolve_secrets env ns config c w = (Ok resolved, w)
      else \<exists>e. resolve_secrets env ns config c w = (Err e, w)) \<and>
    (\<forall>resolved w'. resolve_secrets env ns config c w = (Ok resolved, w') \<longrightarrow>
      (\<forall>ref. cns_APIKeySecretRef (GetConnectionSpec config c) = Some ref \<longrightarrow>
        secret_value secret ns (sk_Name ref, key_or ''apiKey'' (sk_Key ref)) =
          Some (conn_APIKey (connection_ir (GetConnectionSpec config c) resolved))) \<and>
      (\<forall>dc ref. dc \<in> set (GetDownloadClients config c) \<and> dcs_CredentialsSecretRef dc = Some ref \<longrightarrow>
        secret_value secret ns (cr_Name ref, key_or ''username'' (cr_UsernameKey ref)) =
          Some (dci_Username (convert_download_client resolved dc)) \<and>
        secret_value secret ns (cr_Name ref, key_or ''password'' (cr_PasswordKey ref)) =
          Some (dci_Password (convert_download_client resolved dc))) \<and>
      (\<forall>ixs idx ref. GetIndexersSpec config c = Some ixs \<and> idx \<in> set (ixs_Direct ixs) \<and> di_APIKeySecretRef idx = Some ref \<longrightarrow>
        secret_value secret ns (sk_Name ref, key_or ''apiKey'' (sk_Key ref)) = Some (ixi_APIKey (convert_indexer resolved idx))) \<and>
      (\<forall>ord l ref k. valid_order ord \<and> l \<in> set (GetImportLists config c) \<and> isp_SettingsSecretRef l = Some ref \<longrightarrow>
        map_of (ili_Settings (convert_import_list ord resolved l)) k =
          (case secret_value secret ns (sk_Name ref, k) of Some v \<Rightarrow> Some v | None \<Rightarrow> map_of (isp_Settings l) k)) \<and>
      (\<forall>a ref. GetAuthenticationSpec config c = Some a \<and> aus_PasswordSecretRef a = Some ref \<longrightarrow>
        Some (secret_value secret ns (sk_Name ref, key_or ''password'' (sk_Key ref))) =
          map_option (\<lambda>x. Some (aui_Password x)) (convertAuthentication (Some a) resolved)))"
proof (intro conjI allI impI; (elim conjE)?)
  show "if refs_present secret ns config c then \<exists>resolved. resolve_secrets env ns config c w = (Ok resolved, w)
      else \<exists>e. resolve_secrets env ns config c w = (Err e, w)"
    using resolve_secrets_run [OF assms(1), of ns config c w] by (auto split: if_splits)
next
  fix resolved w' ref
  assume "resolve_secrets env ns config c w = (Ok resolved, w')" "cns_APIKeySecretRef (GetConnectionSpec config c) = Some ref"
  then show "secret_value secret ns (sk_Name ref, key_or ''apiKey'' (sk_Key ref)) =
      Some (conn_APIKey (connection_ir (GetConnectionSpec config c) resolved))"
    by (simp add: connection_ir_def resolved_connection [OF assms(1)])
next
  fix resolved w' d ref
  assume ok: "resolve_secrets env ns config c w = (Ok resolved, w')" and d: "d \<in> set (GetDownloadClients config c)"
    "dcs_CredentialsSecretRef d = Some ref"
  show "secret_value secret ns (cr_Name ref, key_or ''username'' (cr_UsernameKey ref)) = Some (dci_Username (convert_download_client resolved d))"
    "secret_value secret ns (cr_Name ref, key_or ''password'' (cr_PasswordKey ref)) = Some (dci_Password (convert_download_client resolved d))"
    unfolding compiler_lookups(1,2) [OF d(2)]
    by (rule resolved_value [OF assms(1,2) ok], use d in \<open>force simp: config_refs_def credential_refs_def\<close>)+
next
  fix resolved w' ixs i ref
  assume ok: "resolve_secrets env ns config c w = (Ok resolved, w')"
    and i: "GetIndexersSpec config c = Some ixs" "i \<in> set (ixs_Direct ixs)" "di_APIKeySecretRef i = Some ref"
  show "secret_value secret ns (sk_Name ref, key_or ''apiKey'' (sk_Key ref)) = Some (ixi_APIKey (convert_indexer resolved i))"
    unfolding compiler_lookups(3) [OF i(3)]
    by (rule resolved_value [OF assms(1,2) ok], use i in \<open>force simp: config_refs_def key_refs_def\<close>)
next
  fix resolved w' ord l ref k
  assume "resolve_secrets env ns config c w = (Ok resolved, w')" "valid_order ord" "l \<in> set (GetImportLists config c)"
    "isp_SettingsSecretRef l = Some ref"
  with assms(3) show "map_of (ili_Settings (convert_import_list ord resolved l)) k =
      (case secret_value secret ns (sk_Name ref, k) of Some v \<Rightarrow> Some v | None \<Rightarrow> map_of (isp_Settings l) k)"
    by (intro resolved_import_list [OF assms(1,2)]) auto
next
  fix resolved w' a ref
  assume ok: "resolve_secrets env ns config c w = (Ok resolved, w')"
    and a: "GetAuthenticationSpec config c = Some a" "aus_PasswordSecretRef a = Some ref"
  have "(sk_Name ref, key_or ''password'' (sk_Key ref)) \<in> set (config_refs secret ns config c)"
    using a by (force simp: config_refs_def key_refs_def)
  from resolved_value [OF assms(1,2) ok this]
  show "Some (secret_value secret ns (sk_Name ref, key_or ''password'' (sk_Key ref))) =
      map_option (\<lambda>x. Some (aui_Password x)) (convertAuthentication (Some a) resolved)"
    by (simp only: compiler_lookups(4) [OF a(2)])
qed

definition sample_secret_client :: DownloadClientSpec where
  "sample_secret_client = sample_dc_spec\<lparr>dcs_CredentialsSecretRef :=
     Some \<lparr>cr_Name = ''qbit'', cr_UsernameKey = ''apiKey'', cr_PasswordKey = ''apiKey''\<rparr>\<rparr>"

definition sample_secret_config :: SonarrConfig where
  "sample_secret_config = sonc_Spec_update (son_DownloadClients_update (\<lambda>_. [sample_secret_client])) (sample_sonarr [] None None)"

theorem secrets_reach_compiler_witness:
  "\<exists>resolved. resolve_secrets (plain_env []) ''media'' SonarrConfigAdapter sample_secret_config () = (Ok resolved, ()) \<and>
     dci_Username (convert_download_client resolved sample_secret_client) = ''k''"
proof -
  let ?secret = "(\<lambda>ns n. Some [(''apiKey'', ''k'')]) :: secret_store"
  have reads: "reads_secrets (plain_env [] :: unit Env) ?secret"
    by (simp add: reads_secrets_def plain_env_def gm_ok_def give_def valid_forward_order)
  have refs: "config_refs ?secret ''media'' SonarrConfigAdapter sample_secret_config = [(''qbit'', ''apiKey''), (''qbit'', ''apiKey'')]"
    by (simp add: config_refs_def SonarrConfigAdapter_def sample_secret_config_def sample_sonarr_def sample_secret_client_def
        credential_refs_def key_or_def)
  have present: "refs_present ?secret ''media'' SonarrConfigAdapter sample_secret_config"
    unfolding refs_present_def refs
    by (simp add: secret_value_def key_refs_def SonarrConfigAdapter_def sample_secret_config_def sample_sonarr_def)
  have client: "sample_secret_client \<in> set (GetDownloadClients SonarrConfigAdapter sample_secret_config)"
      "dcs_CredentialsSecretRef sample_secret_client = Some \<lparr>cr_Name = ''qbit'', cr_UsernameKey = ''apiKey'', cr_PasswordKey = ''apiKey''\<rparr>"
    by (simp_all add: SonarrConfigAdapter_def sample_secret_config_def sample_secret_client_def)
  have slash: "\<forall>ref \<in> set (config_refs ?secret ''media'' SonarrConfigAdapter sample_secret_config). CHR ''/'' \<notin> set (fst ref)"
    unfolding refs by simp
  have lists: "\<forall>l \<in> set (GetImportLists SonarrConfigAdapter sample_secret_config). gm_ok (isp_Settings l) \<and>
      (\<forall>ref. isp_SettingsSecretRef l = Some ref \<longrightarrow> CHR ''/'' \<notin> set (sk_Name ref))"
    by (simp add: SonarrConfigAdapter_def sample_secret_config_def sample_sonarr_def)
  note all_refs = secrets_reach_compiler [OF reads slash lists, of "()"]
  obtain resolved where r: "resolve_secrets (plain_env []) ''media'' SonarrConfigAdapter sample_secret_config () = (Ok resolved, ())"
    using all_refs [THEN conjunct1] present by auto
  have "secret_value ?secret ''media'' (''qbit'', key_or ''username'' ''apiKey'') =
      Some (dci_Username (convert_download_client resolved sample_secret_client))"
    using all_refs [THEN conjunct2, THEN spec, THEN spec, THEN mp, OF r, THEN conjunct2, THEN conjunct1] client by force
  with r show ?thesis by (simp add: secret_value_def key_or_def)
qed

text \<open>
  The settings secret of a notification is never resolved: if no other part of the
  configuration refers to that secret, the compiled notification has only the settings written
  in the resource, as if it referred to no secret.
\<close>

theorem notification_secret_ignored:
  assumes "reads_secrets env secret" and "valid_order ord"
    and "resolve_secrets env ns config c w = (Ok resolved, w')"
    and "\<forall>other \<in> set (config_refs secret ns config c). CHR ''/'' \<notin> set (fst other) \<and> fst other \<noteq> sk_Name ref"
    and "CHR ''/'' \<notin> set (sk_Name ref)"
  shows "settings_of ord wrap settings (Some ref) resolved = settings_of ord wrap settings None resolved"
proof -
  let ?m = "connection_map secret ns (GetConnectionSpec config c)"
  have "refs_present secret ns config c"
    using resolve_secrets_run [OF assms(1), of ns config c w] assms(3) by (auto split: if_splits)
  then have m: "map_of resolved = map_of (put_refs secret ns (config_refs secret ns config c) ?m)"
    using resolve_secrets_run [OF assms(1), of ns config c w] assms(3) by auto
  have dom_put: "dom (map_of (put_refs secret ns refs m)) \<subseteq> (\<lambda>ref. secret_key (fst ref) (snd ref)) ` set refs \<union> dom (map_of m)" for refs m
    by (induction refs arbitrary: m) (fastforce simp: put_refs_def)+
  have "dom (map_of ?m) \<subseteq> {''apiKey''}" by (auto simp: connection_map_def split: list.splits)
  have keys: "\<exists>other \<in> set (config_refs secret ns config c). x = secret_key (fst other) (snd other)"
    if "x \<in> fst ` set resolved" "x \<noteq> ''apiKey''" for x
  proof -
    have "x \<in> dom (map_of resolved)" using that(1) by (simp add: dom_map_of_conv_image_fst)
    then show ?thesis
      using dom_put [of "config_refs secret ns config c" ?m] that(2) \<open>dom (map_of ?m) \<subseteq> {''apiKey''}\<close> unfolding m by blast
  qed
  have no_prefix: "\<not> HasPrefix x (sk_Name ref @ ''/'')" if x: "x \<in> fst ` set resolved" for x
  proof
    assume "HasPrefix x (sk_Name ref @ ''/'')"
    then obtain k where k: "x = secret_key (sk_Name ref) k" by (auto simp: secret_key_def HasPrefix_iff)
    then have "CHR ''/'' \<in> set x" by (simp add: secret_key_def)
    then have "x \<noteq> ''apiKey''" by auto
    with keys [OF x] obtain other where other: "other \<in> set (config_refs secret ns config c)" "x = secret_key (fst other) (snd other)"
      by blast
    then show False using k assms(4,5) secret_key_eq by metis
  qed
  have "copy_secrets wrap (sk_Name ref @ ''/'') es m = m" if "\<forall>e \<in> set es. \<not> HasPrefix (fst e) (sk_Name ref @ ''/'')" for es m
    using that by (induction es arbitrary: m) (auto simp: copy_secrets_def)
  then show ?thesis
    using assms(2) no_prefix by (simp add: settings_of_def Let_def)
qed

theorem notification_secret_ignored_witness:
  "settings_of forward_order VString [(''a'', ''b'')] (Some \<lparr>sk_Name = ''discord'', sk_Key = ''url''\<rparr>) [] =
   settings_of forward_order VString [(''a'', ''b'')] None []"
proof -
  let ?secret = "(\<lambda>ns n. Some [(''apiKey'', ''k'')]) :: secret_store" and ?c = "sample_sonarr [] None None"
  have reads: "reads_secrets (plain_env [] :: unit Env) ?secret"
    by (simp add: reads_secrets_def plain_env_def gm_ok_def give_def valid_forward_order)
  have run: "resolve_secrets (plain_env []) ''media'' SonarrConfigAdapter ?c () = (Ok [], ())"
    by (simp add: resolve_secrets_def SonarrConfigAdapter_def sample_sonarr_def ResolveConnectionSecrets_def give_def
        ResolveDownloadClientSecrets_def ResolveIndexerSecrets_def ResolveImportListSecrets_def ResolveAuthenticationSecrets_def)
  have "config_refs ?secret ''media'' SonarrConfigAdapter ?c = []"
    by (simp add: config_refs_def SonarrConfigAdapter_def sample_sonarr_def)
  then show ?thesis
    by (intro notification_secret_ignored [OF reads valid_forward_order run]) simp_all
qed

end
