(* ===== verification/Coordinator.thy ===== *)
theory Coordinator
  imports Secrets
begin

text \<open>
  \<^verbatim>\<open>src/internal/controller/prowlarr_coordinator_controller.go\<close>: the pull model, in which
  every application that refers to a ProwlarrConfig is registered with that Prowlarr. The
  pointer \<^verbatim>\<open>registration\<close> to a field of the application's status is threaded beside the
  world.
\<close>

section \<open>One application\<close>

definition registration_status :: "bool \<Rightarrow> string \<Rightarrow> int option \<Rightarrow> string \<Rightarrow> ProwlarrRegistration" where
  "registration_status registered name lastSync message =
     \<lparr>prg_Registered = registered, prg_ProwlarrName = name, prg_ApplicationID = None, prg_LastSync = lastSync,
      prg_SyncedIndexers = [], prg_Message = message\<rparr>"

definition push_key :: "string \<Rightarrow> string \<Rightarrow> string" where
  "push_key appType name = appType @ ''/'' @ name"

definition pull_name :: "string \<Rightarrow> string \<Rightarrow> string" where
  "pull_name configName appType = ''nebularr-pull-'' @ configName @ ''-'' @ appType"

text \<open>The key is looked for under two secret names, the application type's first.\<close>

definition find_app_key :: "'w Env \<Rightarrow> string \<Rightarrow> string \<Rightarrow> string \<Rightarrow> ('w, string) action" where
  "find_app_key env namespace appType configName =
     if_err (ResolveSecretValue env namespace (appType @ ''-api-key'') ''apiKey'')
       (\<lambda>_. if_err (ResolveSecretValue env namespace (configName @ ''-api-key'') ''apiKey'') (\<lambda>_. give []) give)
       give"

definition register_pull ::
    "'w Env \<Rightarrow> ProwlarrConfig \<Rightarrow> ProwlarrConnection \<Rightarrow> string \<Rightarrow> string \<Rightarrow> string \<Rightarrow> string \<Rightarrow> (ProwlarrRegistration option \<times> 'w, unit) action" where
  "register_pull env prowlarrConfig prowlarrConn configName appType appURL appAPIKey =
     (let prowlarrName = om_Name (proc_ObjectMeta prowlarrConfig); appName = pull_name configName appType
      in if_err (on_service (RegisterApp (env_applications env prowlarrConn) prowlarrConn
           \<lparr>arg_Name = appName, arg_Type = appType, arg_URL = appURL, arg_APIKey = appAPIKey,
            arg_ProwlarrURL = cns_URL (pro_Connection (proc_Spec prowlarrConfig)), arg_SyncLevel = SyncLevelFullSync,
            arg_SyncCategories = [], arg_Tags = []\<rparr>))
         (\<lambda>err. on_config (\<lambda>_. Some (registration_status False prowlarrName None (''Registration failed: '' @ err))) (fail err))
         (\<lambda>_. read_clock env (\<lambda>now.
            on_config (\<lambda>_. Some (registration_status True prowlarrName (Some now) (''Registered as '' @ appName))) (give ()))))"

definition processAppConfig ::
    "'w Env \<Rightarrow> ProwlarrConfig \<Rightarrow> ProwlarrConnection \<Rightarrow> (string, bool) gomap \<Rightarrow> string \<Rightarrow> string \<Rightarrow> string \<Rightarrow> IndexersSpec option
     \<Rightarrow> string \<Rightarrow> (ProwlarrRegistration option \<times> 'w, unit) action" where
  "processAppConfig env prowlarrConfig prowlarrConn pushModelApps configName namespace appType indexers appURL =
     (let prowlarrName = om_Name (proc_ObjectMeta prowlarrConfig) in
      case (case indexers of None \<Rightarrow> None | Some ixs \<Rightarrow> ixs_ProwlarrRef ixs) of
        None \<Rightarrow>
          on_config (\<lambda>registration. case registration of
              Some reg \<Rightarrow> if prg_Registered reg \<and> prg_ProwlarrName reg = prowlarrName
                then Some (registration_status False [] None ''ProwlarrRef removed from config'') else Some reg
            | None \<Rightarrow> None) (give ())
      | Some prowlarrRef \<Rightarrow>
          if prf_Name prowlarrRef \<noteq> prowlarrName then give ()
          else if gm_flag pushModelApps (push_key appType configName)
          then on_config (\<lambda>_. Some (registration_status False prowlarrName None
                 ''Conflict: app is defined in both ProwlarrConfig.applications[] (Push) and has prowlarrRef (Pull). Remove from one.''))
                 (fail (''conflict: '' @ push_key appType configName @ '' defined in both Push and Pull model''))
          else if \<not> (case prf_AutoRegister prowlarrRef of None \<Rightarrow> True | Some b \<Rightarrow> b)
          then on_config (\<lambda>_. Some (registration_status False prowlarrName None ''Auto-registration disabled (autoRegister: false)''))
                 (give ())
          else andThen (on_service (find_app_key env namespace appType configName)) (\<lambda>appAPIKey.
               if appAPIKey = []
               then on_config (\<lambda>_. Some (registration_status False prowlarrName None (''Could not resolve API key for '' @ configName)))
                      (fail (''could not resolve API key for '' @ push_key appType configName))
               else register_pull env prowlarrConfig prowlarrConn configName appType appURL appAPIKey))"

section \<open>All applications\<close>

record ('c, 'w) AppConfigs =
  ac_Type :: string
  ac_Config :: "'c ArrConfigObject"
  ac_Registration :: "'c \<Rightarrow> ProwlarrRegistration option"
  ac_SetRegistration :: "ProwlarrRegistration option \<Rightarrow> 'c \<Rightarrow> 'c"
  ac_List :: "string \<Rightarrow> ('w, 'c list) action"
  ac_UpdateStatus :: "'c \<Rightarrow> ('w, 'c) action"

definition run_process ::
    "(ProwlarrRegistration option \<times> 'w, unit) action \<Rightarrow> ProwlarrRegistration option \<Rightarrow> ('w, ProwlarrRegistration option \<times> bool) action" where
  "run_process m reg w =
     (case m (reg, w) of
        (Ok _, (reg', w')) \<Rightarrow> (Ok (reg', False), w')
      | (Err _, (reg', w')) \<Rightarrow> (Ok (reg', True), w')
      | (Panic p, (_, w')) \<Rightarrow> (Panic p, w'))"

text \<open>The status is written whether or not there was an error; \<open>errs\<close> counts the errors.\<close>

definition coordinate_item ::
    "'w Env \<Rightarrow> ProwlarrConfig \<Rightarrow> ProwlarrConnection \<Rightarrow> (string, bool) gomap \<Rightarrow> ('c, 'w) AppConfigs \<Rightarrow> 'c \<Rightarrow> nat \<Rightarrow> ('w, nat) action" where
  "coordinate_item env prowlarrConfig prowlarrConn pushModelApps apps c errs =
     (let config = ac_Config apps; meta = GetObjectMeta config c
      in andThen (run_process (processAppConfig env prowlarrConfig prowlarrConn pushModelApps (om_Name meta) (om_Namespace meta)
             (ac_Type apps) (GetIndexersSpec config c) (cns_URL (GetConnectionSpec config c))) (ac_Registration apps c)) (\<lambda>(reg, failed).
         andThen (or_else (discard (ac_UpdateStatus apps (ac_SetRegistration apps reg c))) (\<lambda>_. give ())) (\<lambda>_.
         give (if failed then errs + 1 else errs))))"

fun coordinate_items :: "('c \<Rightarrow> nat \<Rightarrow> ('w, nat) action) \<Rightarrow> 'c list \<Rightarrow> nat \<Rightarrow> ('w, nat) action" where
  "coordinate_items f [] errs = give errs"
| "coordinate_items f (c # cs) errs = andThen (f c errs) (\<lambda>errs. coordinate_items f cs errs)"

definition process_configs ::
    "'w Env \<Rightarrow> ProwlarrConfig \<Rightarrow> ProwlarrConnection \<Rightarrow> (string, bool) gomap \<Rightarrow> string \<Rightarrow> ('c, 'w) AppConfigs \<Rightarrow> nat \<Rightarrow> ('w, nat) action" where
  "process_configs env prowlarrConfig prowlarrConn pushModelApps namespace apps errs =
     if_err (ac_List apps namespace) (\<lambda>_. give errs)
       (\<lambda>items. coordinate_items (coordinate_item env prowlarrConfig prowlarrConn pushModelApps apps) items errs)"

definition radarr_configs :: "(string \<Rightarrow> ('w, RadarrConfig list) action) \<Rightarrow> (RadarrConfig \<Rightarrow> ('w, RadarrConfig) action) \<Rightarrow> (RadarrConfig, 'w) AppConfigs" where
  "radarr_configs lst upd = \<lparr>ac_Type = AppRadarr, ac_Config = RadarrConfigAdapter,
     ac_Registration = (\<lambda>c. radst_ProwlarrRegistration (radc_Status c)),
     ac_SetRegistration = (\<lambda>x. radc_Status_update (radst_ProwlarrRegistration_update (\<lambda>_. x))), ac_List = lst, ac_UpdateStatus = upd\<rparr>"

definition sonarr_configs :: "(string \<Rightarrow> ('w, SonarrConfig list) action) \<Rightarrow> (SonarrConfig \<Rightarrow> ('w, SonarrConfig) action) \<Rightarrow> (SonarrConfig, 'w) AppConfigs" where
  "sonarr_configs lst upd = \<lparr>ac_Type = AppSonarr, ac_Config = SonarrConfigAdapter,
     ac_Registration = (\<lambda>c. sonst_ProwlarrRegistration (sonc_Status c)),
     ac_SetRegistration = (\<lambda>x. sonc_Status_update (sonst_ProwlarrRegistration_update (\<lambda>_. x))), ac_List = lst, ac_UpdateStatus = upd\<rparr>"

definition lidarr_configs :: "(string \<Rightarrow> ('w, LidarrConfig list) action) \<Rightarrow> (LidarrConfig \<Rightarrow> ('w, LidarrConfig) action) \<Rightarrow> (LidarrConfig, 'w) AppConfigs" where
  "lidarr_configs lst upd = \<lparr>ac_Type = AppLidarr, ac_Config = LidarrConfigAdapter,
     ac_Registration = (\<lambda>c. lidst_ProwlarrRegistration (lidc_Status c)),
     ac_SetRegistration = (\<lambda>x. lidc_Status_update (lidst_ProwlarrRegistration_update (\<lambda>_. x))), ac_List = lst, ac_UpdateStatus = upd\<rparr>"

definition readarr_configs :: "(string \<Rightarrow> ('w, ReadarrConfig list) action) \<Rightarrow> (ReadarrConfig \<Rightarrow> ('w, ReadarrConfig) action) \<Rightarrow> (ReadarrConfig, 'w) AppConfigs" where
  "readarr_configs lst upd = \<lparr>ac_Type = AppReadarr, ac_Config = ReadarrConfigAdapter,
     ac_Registration = (\<lambda>c. reast_ProwlarrRegistration (reac_Status c)),
     ac_SetRegistration = (\<lambda>x. reac_Status_update (reast_ProwlarrRegistration_update (\<lambda>_. x))), ac_List = lst, ac_UpdateStatus = upd\<rparr>"

record 'w CoordinatorClient =
  cc_Get :: "string \<Rightarrow> string \<Rightarrow> ('w, ProwlarrConfig option) action"
  cc_ListRadarr :: "string \<Rightarrow> ('w, RadarrConfig list) action"
  cc_UpdateRadarr :: "RadarrConfig \<Rightarrow> ('w, RadarrConfig) action"
  cc_ListSonarr :: "string \<Rightarrow> ('w, SonarrConfig list) action"
  cc_UpdateSonarr :: "SonarrConfig \<Rightarrow> ('w, SonarrConfig) action"
  cc_ListLidarr :: "string \<Rightarrow> ('w, LidarrConfig list) action"
  cc_UpdateLidarr :: "LidarrConfig \<Rightarrow> ('w, LidarrConfig) action"
  cc_ListReadarr :: "string \<Rightarrow> ('w, ReadarrConfig list) action"
  cc_UpdateReadarr :: "ReadarrConfig \<Rightarrow> ('w, ReadarrConfig) action"

definition coordinate :: "'w Env \<Rightarrow> 'w CoordinatorClient \<Rightarrow> string \<Rightarrow> ProwlarrConfig \<Rightarrow> (string, string) gomap \<Rightarrow> ('w, nat) action" where
  "coordinate env client namespace prowlarrConfig prowlarrSecrets =
     (let conn = prowlarr_connection prowlarrConfig prowlarrSecrets;
          push = set_of_slice (map (\<lambda>app. push_key (pap_Type app) (pap_Name app)) (pro_Applications (proc_Spec prowlarrConfig)))
      in andThen (process_configs env prowlarrConfig conn push namespace (radarr_configs (cc_ListRadarr client) (cc_UpdateRadarr client)) 0) (\<lambda>errs.
         andThen (process_configs env prowlarrConfig conn push namespace (sonarr_configs (cc_ListSonarr client) (cc_UpdateSonarr client)) errs) (\<lambda>errs.
         andThen (process_configs env prowlarrConfig conn push namespace (lidarr_configs (cc_ListLidarr client) (cc_UpdateLidarr client)) errs) (\<lambda>errs.
         process_configs env prowlarrConfig conn push namespace (readarr_configs (cc_ListReadarr client) (cc_UpdateReadarr client)) errs))))"

definition ReconcileCoordination :: "'w Env \<Rightarrow> 'w CoordinatorClient \<Rightarrow> string \<Rightarrow> string \<Rightarrow> ('w, reconcile_return) action" where
  "ReconcileCoordination env client namespace name =
     if_err (cc_Get client namespace name) (\<lambda>err. give (no_requeue, Some err)) (\<lambda>found.
     case found of
       None \<Rightarrow> give (no_requeue, None)
     | Some prowlarrConfig \<Rightarrow>
         if om_DeletionTimestamp (proc_ObjectMeta prowlarrConfig) \<noteq> None then give (no_requeue, None)
         else if \<not> prost_Connected (proc_Status prowlarrConfig) then give (requeue_after 30, None)
         else if_err (ResolveConnectionSecrets env (om_Namespace (proc_ObjectMeta prowlarrConfig)) (pro_Connection (proc_Spec prowlarrConfig)))
           (\<lambda>err. give (requeue_after ErrorRequeueInterval, Some err))
           (\<lambda>prowlarrSecrets. andThen (coordinate env client namespace prowlarrConfig prowlarrSecrets) (\<lambda>errs.
              give (if errs > 0
                    then (requeue_after ErrorRequeueInterval, Some (''encountered '' @ Itoa (int errs) @ '' errors during coordination''))
                    else (requeue_after DefaultRequeueInterval, None)))))"

text \<open>The watch: a change of an application triggers the Prowlarr it refers to.\<close>

definition mapAppConfigToProwlarr :: "'c ArrConfigObject \<Rightarrow> 'c \<Rightarrow> (string \<times> string) list" where
  "mapAppConfigToProwlarr config c =
     (let prowlarrRefName = (case GetIndexersSpec config c of None \<Rightarrow> [] | Some ixs \<Rightarrow>
            (case ixs_ProwlarrRef ixs of None \<Rightarrow> [] | Some ref \<Rightarrow> prf_Name ref))
      in if prowlarrRefName \<noteq> [] then [(om_Namespace (GetObjectMeta config c), prowlarrRefName)] else [])"

section \<open>What is registered\<close>

lemma ResolveSecretValue_pure:
  assumes "reads_secrets env secret"
  shows "(\<exists>v. ResolveSecretValue env ns n k w = (Ok v, w)) \<or> (\<exists>e. ResolveSecretValue env ns n k w = (Err e, w))"
proof -
  have "case secret ns n of None \<Rightarrow> \<exists>e. env_GetSecret env ns n w = (Err e, w)
      | Some data \<Rightarrow> gm_ok data \<and> env_GetSecret env ns n w = (Ok data, w)"
    using assms unfolding reads_secrets_def by blast
  then show ?thesis
    by (auto simp: ResolveSecretValue_def give_def fail_def split: option.splits)
qed

lemma find_app_key_pure:
  assumes "reads_secrets env secret"
  shows "\<exists>key. find_app_key env ns t n w = (Ok key, w)"
  using ResolveSecretValue_pure [OF assms, of ns "t @ ''-api-key''" "''apiKey''" w]
    ResolveSecretValue_pure [OF assms, of ns "n @ ''-api-key''" "''apiKey''" w]
  by (auto simp: find_app_key_def if_err_def give_def)

definition pull_registration :: "ProwlarrConfig \<Rightarrow> string \<Rightarrow> string \<Rightarrow> string \<Rightarrow> string \<Rightarrow> AppRegistration" where
  "pull_registration prowlarrConfig configName appType appURL appAPIKey =
     \<lparr>arg_Name = pull_name configName appType, arg_Type = appType, arg_URL = appURL, arg_APIKey = appAPIKey,
      arg_ProwlarrURL = cns_URL (pro_Connection (proc_Spec prowlarrConfig)), arg_SyncLevel = SyncLevelFullSync,
      arg_SyncCategories = [], arg_Tags = []\<rparr>"

text \<open>
  C32. The registration in the status tells what the call did. For an application that refers to
  this Prowlarr and whose API key is read as \<open>key\<close> (empty if there is none), processing it sets
  the status to registered exactly if the application is not also in the push list, automatic
  registration is on, the key is there and the call that registers it, with the configuration's
  details and that key, was answered without an error. Then no error is returned, and in a
  Prowlarr that keeps what it is sent there is exactly one application of the pull name, with
  those details, the others untouched. A call that failed is an error and leaves the status not
  registered. When nothing is to be registered, Prowlarr is not called and left as it was: an
  application registered earlier stays there, and with automatic registration switched off the
  status says not registered without an error.
\<close>

theorem processAppConfig_truthful:
  assumes ref: "indexers = Some ixs" "ixs_ProwlarrRef ixs = Some pref" "prf_Name pref = om_Name (proc_ObjectMeta pc)"
    and key: "find_app_key env ns t n w = (Ok key, w)"
    and answer: "RegisterApp (env_applications env conn) conn (pull_registration pc n t url key) w = (answer, w1)" "returns answer"
    and run: "processAppConfig env pc conn push n ns t indexers url (reg, w) = (q, (reg', w'))"
  shows "let conflict = gm_flag push (push_key t n); attempted = (\<not> conflict \<and> prf_AutoRegister pref \<noteq> Some False \<and> key \<noteq> [])
    in (\<exists>status. reg' = Some status \<and> prg_ProwlarrName status = om_Name (proc_ObjectMeta pc) \<and>
          (prg_Registered status \<longleftrightarrow> attempted \<and> answer = Ok ()) \<and>
          (q = Ok () \<longleftrightarrow> prg_Registered status \<or> (\<not> conflict \<and> prf_AutoRegister pref = Some False)) \<and>
          (\<forall>e. attempted \<and> answer = Err e \<longrightarrow> q = Err e \<and> prg_Message status = ''Registration failed: '' @ e)) \<and>
       w' = (if attempted then w1 else w) \<and>
       (\<forall>del listed. attempted \<and> answer = Ok () \<and> app_service (env_applications env conn) del listed \<and> apps_ok (listed w) \<longrightarrow>
          (\<exists>i. app_named (pull_name n t) (listed w') =
            [answer_app i (buildApplicationResource (pull_registration pc n t url key) (pcn_URL conn))]) \<and>
          filter (\<lambda>x. apr_Name x \<noteq> pull_name n t) (listed w') = filter (\<lambda>x. apr_Name x \<noteq> pull_name n t) (listed w))"
proof -
  have kept: "(\<exists>i. app_named (pull_name n t) (listed w1) =
        [answer_app i (buildApplicationResource (pull_registration pc n t url key) (pcn_URL conn))]) \<and>
      filter (\<lambda>x. apr_Name x \<noteq> pull_name n t) (listed w1) = filter (\<lambda>x. apr_Name x \<noteq> pull_name n t) (listed w)"
    if "app_service (env_applications env conn) del listed" "apps_ok (listed w)" for del listed
    using register_result [OF that, of conn "pull_registration pc n t url key"] answer(1)
    by (auto simp: pull_registration_def)
  have auto: "(case prf_AutoRegister pref of None \<Rightarrow> True | Some b \<Rightarrow> b) \<longleftrightarrow> prf_AutoRegister pref \<noteq> Some False"
    by (auto split: option.split)
  note simps = ref key answer(1) give_def fail_def on_config_def on_service_def read_clock_def if_err_def andThen_def
    registration_status_def auto Let_def
  show ?thesis
  proof (cases answer)
    case (Ok u)
    then show ?thesis
      using run kept unfolding processAppConfig_def register_pull_def pull_registration_def [symmetric] Let_def
      by (auto simp: simps split: if_splits)
  next
    case (Err e)
    then show ?thesis
      using run unfolding processAppConfig_def register_pull_def pull_registration_def [symmetric] Let_def
      by (auto simp: simps split: if_splits)
  qed (use answer(2) in simp)
qed

section \<open>Two registrations of one application\<close>

lemma names_differ: "app_name AppSonarr n \<noteq> pull_name n AppSonarr"
  by (simp add: app_name_def pull_name_def)

lemma app_named_others:
  assumes "filter (\<lambda>x. apr_Name x \<noteq> b) xs = filter (\<lambda>x. apr_Name x \<noteq> b) ys" and "a \<noteq> b"
  shows "app_named a xs = app_named a ys"
proof -
  have "app_named a zs = app_named a (filter (\<lambda>x. apr_Name x \<noteq> b) zs)" for zs
    using assms(2) by (auto simp: app_named_def intro: filter_cong)
  then show ?thesis using assms(1) by metis
qed

lemma auto_register_run:
  assumes "app_service (env_applications env conn) del listed" and "apps_ok (listed w)"
    and "env_GetProwlarrConfig env (om_Namespace (sonc_ObjectMeta c)) (prf_Name pref) w = (Ok pc, w)"
    and "ResolveConnectionSecrets env (om_Namespace (sonc_ObjectMeta c)) (pro_Connection (proc_Spec pc)) w = (Ok ps, w)"
    and "conn = prowlarr_connection pc ps"
    and "son_Indexers (sonc_Spec c) = Some ixs" "ixs_ProwlarrRef ixs = Some pref" "prf_AutoRegister pref \<noteq> Some False"
  shows "\<exists>i r w'. auto_register (SonarrConfigReconciler ord digest env client) c resolved w = (Ok (), w') \<and> apps_ok (listed w') \<and>
    app_named (app_name AppSonarr (om_Name (sonc_ObjectMeta c))) (listed w') = [answer_app i r]"
proof -
  let ?app = "\<lparr>arg_Name = app_name AppSonarr (om_Name (sonc_ObjectMeta c)), arg_Type = AppSonarr,
     arg_URL = cns_URL (son_Connection (sonc_Spec c)), arg_APIKey = secret_or_empty resolved ''apiKey'', arg_ProwlarrURL = [],
     arg_SyncLevel = SyncLevelFullSync, arg_SyncCategories = [], arg_Tags = []\<rparr>"
  obtain i w' where "RegisterApp (env_applications env conn) conn ?app w = (Ok (), w')" "apps_ok (listed w')"
      "app_named (app_name AppSonarr (om_Name (sonc_ObjectMeta c))) (listed w') = [answer_app i (buildApplicationResource ?app (pcn_URL conn))]"
    using register_result [OF assms(1,2), of conn ?app] by auto
  moreover have "(case prf_AutoRegister pref of None \<Rightarrow> True | Some b \<Rightarrow> b)"
    using assms(8) by (auto split: option.split)
  ultimately have "auto_register (SonarrConfigReconciler ord digest env client) c resolved w = (Ok (), w')"
    using assms(3-7) by (simp add: auto_register_def SonarrConfigReconciler_def SonarrConfigAdapter_def HandleProwlarrRegistration_def or_else_def Let_def)
  then show ?thesis using \<open>apps_ok (listed w')\<close> \<open>app_named _ (listed w') = _\<close> by blast
qed

text \<open>
  A SonarrConfig that refers to a Prowlarr is registered there twice: by its own reconciler
  and by the coordinator, under two different names. When the resource is deleted, only the
  first registration is removed; the coordinator's one stays in Prowlarr.
\<close>

theorem registered_twice:
  assumes "app_service (env_applications env conn) (env_deleteApplication env conn) listed" and "apps_ok (listed w)"
    and "\<forall>w. env_GetProwlarrConfig env (om_Namespace (sonc_ObjectMeta c)) (prf_Name pref) w = (Ok pc, w)"
    and "\<forall>w. ResolveConnectionSecrets env (om_Namespace (sonc_ObjectMeta c)) (pro_Connection (proc_Spec pc)) w = (Ok ps, w)"
    and "conn = prowlarr_connection pc ps"
    and "son_Indexers (sonc_Spec c) = Some ixs" "ixs_ProwlarrRef ixs = Some pref" "prf_AutoRegister pref \<noteq> Some False"
    and "prf_Name pref = om_Name (proc_ObjectMeta pc)" "prf_Name pref \<noteq> []"
    and "\<not> gm_flag push (push_key AppSonarr (om_Name (sonc_ObjectMeta c)))"
    and "\<forall>w. find_app_key env (om_Namespace (sonc_ObjectMeta c)) AppSonarr (om_Name (sonc_ObjectMeta c)) w = (Ok key, w)" "key \<noteq> []"
  shows "\<exists>w1 w2 w3 reg' x y.
    auto_register (SonarrConfigReconciler ord digest env client) c resolved w = (Ok (), w1) \<and>
    processAppConfig env pc conn push (om_Name (sonc_ObjectMeta c)) (om_Namespace (sonc_ObjectMeta c)) AppSonarr
      (son_Indexers (sonc_Spec c)) url (reg, w1) = (Ok (), (reg', w2)) \<and>
    unregister_app (SonarrConfigReconciler ord digest env client) c w2 = (Ok (), w3) \<and>
    app_named (app_name AppSonarr (om_Name (sonc_ObjectMeta c))) (listed w2) = [x] \<and>
    app_named (pull_name (om_Name (sonc_ObjectMeta c)) AppSonarr) (listed w2) = [y] \<and>
    app_named (app_name AppSonarr (om_Name (sonc_ObjectMeta c))) (listed w3) = [] \<and>
    app_named (pull_name (om_Name (sonc_ObjectMeta c)) AppSonarr) (listed w3) = [y]"
proof -
  let ?n = "om_Name (sonc_ObjectMeta c)"
  obtain i r w1 where w1: "auto_register (SonarrConfigReconciler ord digest env client) c resolved w = (Ok (), w1)" "apps_ok (listed w1)"
      "app_named (app_name AppSonarr ?n) (listed w1) = [answer_app i r]"
    using auto_register_run [OF assms(1,2) _ _ assms(5-8)] assms(3,4) by blast
  let ?pull = "pull_registration pc ?n AppSonarr url key"
  have pull: "arg_Name ?pull = pull_name ?n AppSonarr" by (simp add: pull_registration_def)
  obtain j w2 where w2: "RegisterApp (env_applications env conn) conn ?pull w1 = (Ok (), w2)" "apps_ok (listed w2)"
      "app_named (pull_name ?n AppSonarr) (listed w2) = [answer_app j (buildApplicationResource ?pull (pcn_URL conn))]"
      "filter (\<lambda>x. apr_Name x \<noteq> pull_name ?n AppSonarr) (listed w2) = filter (\<lambda>x. apr_Name x \<noteq> pull_name ?n AppSonarr) (listed w1)"
    using register_result [OF assms(1) w1(2), of conn ?pull] unfolding pull by blast
  have first: "app_named (app_name AppSonarr ?n) (listed w2) = [answer_app i r]"
    using app_named_others [OF w2(4) names_differ] w1(3) by simp
  have auto: "(case prf_AutoRegister pref of None \<Rightarrow> True | Some b \<Rightarrow> b)"
    using assms(8) by (auto split: option.split)
  obtain reg' where process: "processAppConfig env pc conn push ?n (om_Namespace (sonc_ObjectMeta c)) AppSonarr
      (son_Indexers (sonc_Spec c)) url (reg, w1) = (Ok (), (reg', w2))"
    using auto w2(1) assms(6,7,9,11-13) unfolding pull_registration_def
    by (simp add: processAppConfig_def register_pull_def on_service_def if_err_def read_clock_def on_config_def give_def Let_def)
  obtain w3 where w3: "UnregisterApp (env_applications env conn) (env_deleteApplication env conn) (app_name AppSonarr ?n) w2 = (Ok (), w3)"
      "listed w3 = filter (\<lambda>x. apr_Name x \<noteq> app_name AppSonarr ?n) (listed w2)"
    using unregister_result [OF assms(1) w2(2)] by blast
  have unregister: "unregister_app (SonarrConfigReconciler ord digest env client) c w2 = (Ok (), w3)"
    using w3(1) assms(3-7,10)
    by (simp add: unregister_app_def SonarrConfigReconciler_def SonarrConfigAdapter_def HandleProwlarrUnregistration_def if_err_def or_else_def Let_def)
  have "app_named (app_name AppSonarr ?n) (listed w3) = []" unfolding w3(2) app_named_def by (simp add: filter_empty_conv)
  moreover have "app_named (pull_name ?n AppSonarr) (listed w3) = app_named (pull_name ?n AppSonarr) (listed w2)"
    using names_differ [of ?n] by (intro app_named_others [where b = "app_name AppSonarr ?n"]) (simp_all add: w3(2))
  then have "app_named (pull_name ?n AppSonarr) (listed w3) = [answer_app j (buildApplicationResource ?pull (pcn_URL conn))]"
    using w2(3) by simp
  ultimately show ?thesis using w1(1) process unregister first w2(3) by blast
qed

definition sample_prowlarr :: ProwlarrConfig where
  "sample_prowlarr = \<lparr>proc_ObjectMeta = \<lparr>om_Name = ''main'', om_Namespace = ''media'', om_Generation = 1, om_Finalizers = [],
       om_DeletionTimestamp = None\<rparr>,
     proc_Spec = \<lparr>pro_Connection = \<lparr>cns_URL = ''http://prowlarr'', cns_APIKeySecretRef = None, cns_ConfigPath = [],
         cns_InsecureSkipVerify = False, cns_Timeout = None\<rparr>, pro_Indexers = [], pro_Proxies = [], pro_Applications = [],
       pro_DownloadClients = [], pro_Authentication = None, pro_Reconciliation = None\<rparr>,
     proc_Status = \<lparr>prost_Conditions = [], prost_Connected = True, prost_ServiceVersion = [], prost_LastReconcile = None,
       prost_ManagedIndexers = [], prost_ManagedProxies = [], prost_ManagedApplications = [], prost_LastAppliedHash = [],
       prost_Health = None\<rparr>\<rparr>"

definition sample_indexers :: IndexersSpec where
  "sample_indexers = \<lparr>ixs_ProwlarrRef = Some \<lparr>prf_Name = ''main'', prf_AutoRegister = None, prf_Include = [], prf_Exclude = []\<rparr>,
     ixs_Direct = []\<rparr>"

definition sample_pull_config :: SonarrConfig where
  "sample_pull_config = sonc_Spec_update (son_Indexers_update (\<lambda>_. Some sample_indexers)) (sample_sonarr [] None None)"

definition apps_env :: "ApplicationResource list Env" where
  "apps_env = (plain_env [])\<lparr>env_applications := (\<lambda>_. list_endpoint ''/api/v1/applications/'' apr_ID answer_app),
     env_deleteApplication := (\<lambda>_. list_delete ''/api/v1/applications/'' apr_ID),
     env_GetProwlarrConfig := (\<lambda>ns n. give sample_prowlarr)\<rparr>"

lemma apps_env_service:
  "app_service (env_applications apps_env conn) (env_deleteApplication apps_env conn) (\<lambda>apps. apps)"
  by (simp add: apps_env_def list_app_service)

theorem registered_twice_witness:
  "\<exists>w1 w2 w3 reg' x y.
    auto_register (SonarrConfigReconciler forward_order (\<lambda>_. ''h'') apps_env
      \<lparr>oc_Get = (\<lambda>ns n. give None), oc_Update = give, oc_UpdateStatus = give\<rparr>) sample_pull_config [] sample_apps = (Ok (), w1) \<and>
    processAppConfig apps_env sample_prowlarr (prowlarr_connection sample_prowlarr []) [] ''tv'' ''media'' AppSonarr
      (son_Indexers (sonc_Spec sample_pull_config)) ''http://sonarr'' (None, w1) = (Ok (), (reg', w2)) \<and>
    unregister_app (SonarrConfigReconciler forward_order (\<lambda>_. ''h'') apps_env
      \<lparr>oc_Get = (\<lambda>ns n. give None), oc_Update = give, oc_UpdateStatus = give\<rparr>) sample_pull_config w2 = (Ok (), w3) \<and>
    app_named (app_name AppSonarr ''tv'') w2 = [x] \<and> app_named (pull_name ''tv'' AppSonarr) w2 = [y] \<and>
    app_named (app_name AppSonarr ''tv'') w3 = [] \<and> app_named (pull_name ''tv'' AppSonarr) w3 = [y]"
proof -
  have name: "om_Name (sonc_ObjectMeta sample_pull_config) = ''tv''" "om_Namespace (sonc_ObjectMeta sample_pull_config) = ''media''"
    by (simp_all add: sample_pull_config_def sample_sonarr_def)
  have ok: "apps_ok sample_apps" by (simp add: apps_ok_def positive_ids_def sample_apps_def)
  show ?thesis
    by (rule registered_twice [where conn = "prowlarr_connection sample_prowlarr []" and w = sample_apps and listed = "\<lambda>apps. apps"
        and c = sample_pull_config and env = apps_env and ps = "[]" and key = "''k''" and ixs = sample_indexers
        and pref = "\<lparr>prf_Name = ''main'', prf_AutoRegister = None, prf_Include = [], prf_Exclude = []\<rparr>",
        unfolded name, OF apps_env_service ok])
      (simp_all add: apps_env_def sample_prowlarr_def sample_indexers_def sample_pull_config_def plain_env_def give_def
        ResolveConnectionSecrets_def find_app_key_def ResolveSecretValue_def if_err_def gm_flag_def)
qed

definition pull_once :: "'w Env \<Rightarrow> 'w \<Rightarrow> unit outcome \<times> (ProwlarrRegistration option \<times> 'w)" where
  "pull_once env w = processAppConfig env sample_prowlarr (prowlarr_connection sample_prowlarr []) [] ''tv'' ''media'' AppSonarr
     (Some sample_indexers) ''http://sonarr'' (None, w)"

lemma pull_once_key:
  "env_GetSecret env = (\<lambda>ns n. give [(''apiKey'', ''k'')]) \<Longrightarrow> find_app_key env ns t n w = (Ok ''k'', w)"
  by (simp add: find_app_key_def ResolveSecretValue_def if_err_def give_def)

theorem processAppConfig_truthful_witness:
  "(\<exists>status w' i. pull_once apps_env sample_apps = (Ok (), (Some status, w')) \<and> prg_Registered status \<and>
     app_named (pull_name ''tv'' AppSonarr) w' = [answer_app i (buildApplicationResource
       (pull_registration sample_prowlarr ''tv'' AppSonarr ''http://sonarr'' ''k'') ''http://prowlarr'')]) \<and>
   (\<exists>status e. pull_once (plain_env []) () = (Err e, (Some status, ())) \<and> \<not> prg_Registered status)"
proof
  let ?conn = "prowlarr_connection sample_prowlarr []"
    and ?app = "pull_registration sample_prowlarr ''tv'' AppSonarr ''http://sonarr'' ''k''"
  have ref: "ixs_ProwlarrRef sample_indexers = Some \<lparr>prf_Name = ''main'', prf_AutoRegister = None, prf_Include = [], prf_Exclude = []\<rparr>"
    and prem: "prf_Name \<lparr>prf_Name = ''main'', prf_AutoRegister = None, prf_Include = [], prf_Exclude = []\<rparr> =
      om_Name (proc_ObjectMeta sample_prowlarr)" and url: "pcn_URL ?conn = ''http://prowlarr''"
    by (simp_all add: sample_indexers_def sample_prowlarr_def prowlarr_connection_def)
  {
    have ok: "apps_ok sample_apps" by (simp add: apps_ok_def positive_ids_def sample_apps_def)
    have key: "find_app_key apps_env ''media'' AppSonarr ''tv'' sample_apps = (Ok ''k'', sample_apps)"
      by (rule pull_once_key) (simp add: apps_env_def plain_env_def)
    obtain w1 where w1: "RegisterApp (env_applications apps_env ?conn) ?conn ?app sample_apps = (Ok (), w1)"
      using register_result [OF apps_env_service ok] by blast
    obtain q reg' w' where run: "pull_once apps_env sample_apps = (q, (reg', w'))" by (metis surj_pair)
    note T = processAppConfig_truthful [OF refl ref prem key w1 returns_simps(1) run [unfolded pull_once_def], unfolded Let_def]
    have "\<exists>status. reg' = Some status \<and> prg_Registered status" "q = Ok ()"
      using T by (auto simp: gm_flag_def)
    moreover have "\<exists>i. app_named (pull_name ''tv'' AppSonarr) w' = [answer_app i (buildApplicationResource ?app (pcn_URL ?conn))]"
      using T [THEN conjunct2, THEN conjunct2, rule_format, of "env_deleteApplication apps_env ?conn" "\<lambda>apps. apps"] ok apps_env_service
      by (simp add: gm_flag_def)
    ultimately show "\<exists>status w' i. pull_once apps_env sample_apps = (Ok (), (Some status, w')) \<and> prg_Registered status \<and>
        app_named (pull_name ''tv'' AppSonarr) w' = [answer_app i (buildApplicationResource ?app ''http://prowlarr'')]"
      using run url by auto
  }
  have key: "find_app_key (plain_env []) ''media'' AppSonarr ''tv'' () = (Ok ''k'', ())"
    by (rule pull_once_key) (simp add: plain_env_def)
  obtain e where w1: "RegisterApp (env_applications (plain_env []) ?conn) ?conn ?app () = (Err e, ())"
    by (simp add: plain_env_def refusing_def RegisterApp_def findApplicationByName_def createApplication_def discard_def wrap_err_def give_def fail_def)
  obtain q reg' where run: "pull_once (plain_env []) () = (q, (reg', ()))" by (metis surj_pair old.unit.exhaust)
  show "\<exists>status e. pull_once (plain_env []) () = (Err e, (Some status, ())) \<and> \<not> prg_Registered status"
    using processAppConfig_truthful [OF refl ref prem key w1 returns_simps(2) run [unfolded pull_once_def], unfolded Let_def] run
    by (auto simp: gm_flag_def)
qed

end
