(* ===== verification/Prowlarr_Convert.thy ===== *)
theory Prowlarr_Convert
  imports Endpoint
begin

text \<open>
  The wire types and conversions of the Prowlarr adapter
  (\<^verbatim>\<open>src/internal/adapters/prowlarr\<close>: \<^verbatim>\<open>types.go\<close> and the conversions of
  \<^verbatim>\<open>indexers.go\<close>, \<^verbatim>\<open>proxies.go\<close>, \<^verbatim>\<open>applications.go\<close> and \<^verbatim>\<open>clients.go\<close>): from what
  the service lists to the IR and from the IR to what is sent, with the comparisons the diffs
  use. The four field structs have the same fields; they are one record.
\<close>

section \<open>Wire types (types.go)\<close>

record IndexerField =
  pf_Name :: string
  pf_Value :: GoValue
  pf_Type :: string
  pf_Label :: string
  pf_Advanced :: bool

type_synonym IndexerProxyField = IndexerField
type_synonym ApplicationField = IndexerField
type_synonym DownloadClientField = IndexerField

record IndexerCategory =
  ict_ID :: int
  ict_Name :: string

record IndexerCaps =
  icp_Categories :: "IndexerCategory list"

record IndexerResource =
  pir_ID :: int
  pir_Name :: string
  pir_DefinitionName :: string
  pir_Implementation :: string
  pir_ConfigContract :: string
  pir_Enable :: bool
  pir_Protocol :: string
  pir_Priority :: int
  pir_AppProfileID :: int
  pir_Tags :: "int list"
  pir_Fields :: "IndexerField list"
  pir_Capabilities :: "IndexerCaps option"

record IndexerProxyResource =
  ppr_ID :: int
  ppr_Name :: string
  ppr_Implementation :: string
  ppr_ConfigContract :: string
  ppr_Tags :: "int list"
  ppr_Fields :: "IndexerProxyField list"

record ApplicationResource =
  pas_ID :: int
  pas_Name :: string
  pas_Implementation :: string
  pas_ConfigContract :: string
  pas_SyncLevel :: string
  pas_Tags :: "int list"
  pas_Fields :: "ApplicationField list"

record DownloadClientResource =
  pdr_ID :: int
  pdr_Name :: string
  pdr_Implementation :: string
  pdr_ConfigContract :: string
  pdr_Protocol :: string
  pdr_Enable :: bool
  pdr_Priority :: int
  pdr_Tags :: "int list"
  pdr_Fields :: "DownloadClientField list"

text \<open>A field as the code builds it: the metadata stays zero.\<close>

definition mk_field :: "string \<Rightarrow> GoValue \<Rightarrow> IndexerField" where
  "mk_field name v = \<lparr>pf_Name = name, pf_Value = v, pf_Type = '''', pf_Label = '''', pf_Advanced = False\<rparr>"

text \<open>\<^verbatim>\<open>if cond { fields = append(fields, ...) }\<close>\<close>

definition field_if :: "bool \<Rightarrow> string \<Rightarrow> GoValue \<Rightarrow> IndexerField list" where
  "field_if c name v = (if c then [mk_field name v] else [])"

section \<open>Indexers (indexers.go)\<close>

definition read_indexer_field :: "IndexerField \<Rightarrow> ProwlarrIndexerIR \<Rightarrow> ProwlarrIndexerIR" where
  "read_indexer_field f ir =
     (case as_string (pf_Value f) of
        None \<Rightarrow> ir
      | Some v \<Rightarrow>
          if pf_Name f = ''baseUrl'' then ir\<lparr>pidx_BaseURL := v\<rparr>
          else if pf_Name f = ''apiKey'' then ir\<lparr>pidx_APIKey := v\<rparr>
          else ir\<lparr>pidx_Settings := gm_set (pf_Name f) v (pidx_Settings ir)\<rparr>)"

definition indexer_ir :: "IndexerResource \<Rightarrow> ProwlarrIndexerIR" where
  "indexer_ir idx =
     fold read_indexer_field (pir_Fields idx)
       \<lparr>pidx_Name = pir_Name idx, pidx_Definition = pir_DefinitionName idx, pidx_Enable = pir_Enable idx,
        pidx_Priority = pir_Priority idx, pidx_BaseURL = '''', pidx_APIKey = '''', pidx_Settings = [], pidx_Tags = []\<rparr>"

text \<open>\<^verbatim>\<open>b.Settings[k] != v\<close>: a missing key reads as the empty string.\<close>

definition indexersEqual :: "ProwlarrIndexerIR \<Rightarrow> ProwlarrIndexerIR \<Rightarrow> bool" where
  "indexersEqual a b =
     (if pidx_Definition a \<noteq> pidx_Definition b \<or> pidx_Enable a \<noteq> pidx_Enable b \<or>
         pidx_Priority a \<noteq> pidx_Priority b \<or> pidx_BaseURL a \<noteq> pidx_BaseURL b then False
      else if length (pidx_Settings a) \<noteq> length (pidx_Settings b) then False
      else list_all (\<lambda>(k, v). (case map_of (pidx_Settings b) k of Some v' \<Rightarrow> v' | None \<Rightarrow> '''') = v) (pidx_Settings a))"

definition indexer_fields :: "range_order \<Rightarrow> ProwlarrIndexerIR \<Rightarrow> IndexerField list" where
  "indexer_fields ord idx =
     field_if (pidx_BaseURL idx \<noteq> '''') ''baseUrl'' (VString (pidx_BaseURL idx)) @
     field_if (pidx_APIKey idx \<noteq> '''') ''apiKey'' (VString (pidx_APIKey idx)) @
     map (\<lambda>(k, v). mk_field k (VString v)) (gm_range ord 0 (pidx_Settings idx))"

text \<open>The resource that is sent, with ID 0 (left out of the JSON) in a create.\<close>

definition indexer_resource :: "range_order \<Rightarrow> int \<Rightarrow> ProwlarrIndexerIR \<Rightarrow> int \<Rightarrow> IndexerResource" where
  "indexer_resource ord i idx tagID =
     \<lparr>pir_ID = i, pir_Name = pidx_Name idx, pir_DefinitionName = pidx_Definition idx, pir_Implementation = '''',
      pir_ConfigContract = '''', pir_Enable = pidx_Enable idx, pir_Protocol = '''', pir_Priority = pidx_Priority idx,
      pir_AppProfileID = 0, pir_Tags = [tagID], pir_Fields = indexer_fields ord idx, pir_Capabilities = None\<rparr>"

section \<open>Proxies (proxies.go)\<close>

definition implToProxyType :: "string \<Rightarrow> string" where
  "implToProxyType impl =
     (if impl = ''FlareSolverr'' then ProxyTypeFlareSolverr
      else if impl = ''HttpIndexerProxy'' then ProxyTypeHTTP
      else if impl = ''Socks4IndexerProxy'' then ProxyTypeSocks4
      else if impl = ''Socks5IndexerProxy'' then ProxyTypeSocks5
      else impl)"

definition proxyTypeToImpl :: "string \<Rightarrow> string" where
  "proxyTypeToImpl proxyType =
     (if proxyType = ProxyTypeFlareSolverr then ''FlareSolverr''
      else if proxyType = ProxyTypeHTTP then ''HttpIndexerProxy''
      else if proxyType = ProxyTypeSocks4 then ''Socks4IndexerProxy''
      else if proxyType = ProxyTypeSocks5 then ''Socks5IndexerProxy''
      else proxyType)"

definition read_proxy_field :: "IndexerProxyField \<Rightarrow> IndexerProxyIR \<Rightarrow> IndexerProxyIR" where
  "read_proxy_field f ir =
     (if pf_Name f = ''host'' then (case as_string (pf_Value f) of Some v \<Rightarrow> ir\<lparr>px_Host := v\<rparr> | None \<Rightarrow> ir)
      else if pf_Name f = ''port'' then (case as_float (pf_Value f) of Some v \<Rightarrow> ir\<lparr>px_Port := int_of_float v\<rparr> | None \<Rightarrow> ir)
      else if pf_Name f = ''username'' then (case as_string (pf_Value f) of Some v \<Rightarrow> ir\<lparr>px_Username := v\<rparr> | None \<Rightarrow> ir)
      else if pf_Name f = ''password'' then (case as_string (pf_Value f) of Some v \<Rightarrow> ir\<lparr>px_Password := v\<rparr> | None \<Rightarrow> ir)
      else if pf_Name f = ''requestTimeout''
      then (case as_float (pf_Value f) of Some v \<Rightarrow> ir\<lparr>px_RequestTimeout := int_of_float v\<rparr> | None \<Rightarrow> ir)
      else ir)"

definition proxy_ir :: "IndexerProxyResource \<Rightarrow> IndexerProxyIR" where
  "proxy_ir proxy =
     fold read_proxy_field (ppr_Fields proxy)
       \<lparr>px_Name = ppr_Name proxy, px_Type = implToProxyType (ppr_Implementation proxy), px_Host = '''', px_Port = 0,
        px_Username = '''', px_Password = '''', px_RequestTimeout = 0, px_Tags = []\<rparr>"

definition proxiesEqual :: "IndexerProxyIR \<Rightarrow> IndexerProxyIR \<Rightarrow> bool" where
  "proxiesEqual a b \<longleftrightarrow>
     px_Type a = px_Type b \<and> px_Host a = px_Host b \<and> px_Port a = px_Port b \<and>
     px_Username a = px_Username b \<and> px_RequestTimeout a = px_RequestTimeout b"

definition buildProxyFields :: "IndexerProxyIR \<Rightarrow> IndexerProxyField list" where
  "buildProxyFields proxy =
     (if px_Type proxy = ProxyTypeFlareSolverr
      then [mk_field ''host'' (VString (px_Host proxy))] @
           field_if (px_RequestTimeout proxy > 0) ''requestTimeout'' (VInt (px_RequestTimeout proxy))
      else field_if (px_Host proxy \<noteq> '''') ''host'' (VString (px_Host proxy)) @
           field_if (px_Port proxy > 0) ''port'' (VInt (px_Port proxy)) @
           field_if (px_Username proxy \<noteq> '''') ''username'' (VString (px_Username proxy)) @
           field_if (px_Password proxy \<noteq> '''') ''password'' (VString (px_Password proxy)))"

definition proxy_resource :: "int \<Rightarrow> IndexerProxyIR \<Rightarrow> int \<Rightarrow> IndexerProxyResource" where
  "proxy_resource i proxy tagID =
     \<lparr>ppr_ID = i, ppr_Name = px_Name proxy, ppr_Implementation = proxyTypeToImpl (px_Type proxy),
      ppr_ConfigContract = '''', ppr_Tags = [tagID], ppr_Fields = buildProxyFields proxy\<rparr>"

section \<open>Applications (applications.go)\<close>

definition implToAppType :: "string \<Rightarrow> string" where
  "implToAppType impl =
     (if impl = ''Radarr'' then AppTypeRadarr
      else if impl = ''Sonarr'' then AppTypeSonarr
      else if impl = ''Lidarr'' then AppTypeLidarr
      else if impl = ''Readarr'' then AppTypeReadarr
      else impl)"

definition appTypeToImpl :: "string \<Rightarrow> string" where
  "appTypeToImpl appType =
     (if appType = AppTypeRadarr then ''Radarr''
      else if appType = AppTypeSonarr then ''Sonarr''
      else if appType = AppTypeLidarr then ''Lidarr''
      else if appType = AppTypeReadarr then ''Readarr''
      else appType)"

definition append_sync_category :: "GoValue \<Rightarrow> ProwlarrApplicationIR \<Rightarrow> ProwlarrApplicationIR" where
  "append_sync_category cat ir =
     (case as_float cat of
        Some c \<Rightarrow> ir\<lparr>app_SyncCategories := app_SyncCategories ir @ [int_of_float c]\<rparr>
      | None \<Rightarrow> ir)"

definition read_application_field :: "ApplicationField \<Rightarrow> ProwlarrApplicationIR \<Rightarrow> ProwlarrApplicationIR" where
  "read_application_field f ir =
     (if pf_Name f = ''prowlarrUrl'' then (case as_string (pf_Value f) of Some v \<Rightarrow> ir\<lparr>app_ProwlarrURL := v\<rparr> | None \<Rightarrow> ir)
      else if pf_Name f = ''baseUrl'' then (case as_string (pf_Value f) of Some v \<Rightarrow> ir\<lparr>app_URL := v\<rparr> | None \<Rightarrow> ir)
      else if pf_Name f = ''apiKey'' then (case as_string (pf_Value f) of Some v \<Rightarrow> ir\<lparr>app_APIKey := v\<rparr> | None \<Rightarrow> ir)
      else if pf_Name f = ''syncCategories''
      then (case as_list (pf_Value f) of Some cats \<Rightarrow> fold append_sync_category cats ir | None \<Rightarrow> ir)
      else ir)"

definition application_ir :: "ApplicationResource \<Rightarrow> ProwlarrApplicationIR" where
  "application_ir app =
     fold read_application_field (pas_Fields app)
       \<lparr>app_Name = pas_Name app, app_Type = implToAppType (pas_Implementation app), app_ProwlarrURL = '''', app_URL = '''',
        app_APIKey = '''', app_SyncCategories = [], app_SyncLevel = pas_SyncLevel app, app_Tags = []\<rparr>"

definition applicationsEqual :: "ProwlarrApplicationIR \<Rightarrow> ProwlarrApplicationIR \<Rightarrow> bool" where
  "applicationsEqual a b =
     (if app_Type a \<noteq> app_Type b \<or> app_URL a \<noteq> app_URL b \<or> app_ProwlarrURL a \<noteq> app_ProwlarrURL b \<or>
         app_SyncLevel a \<noteq> app_SyncLevel b then False
      else if length (app_SyncCategories a) \<noteq> length (app_SyncCategories b) then False
      else list_all (\<lambda>c. gm_flag (set_of_slice (app_SyncCategories a)) c) (app_SyncCategories b))"

definition buildApplicationFields :: "ProwlarrApplicationIR \<Rightarrow> ApplicationField list" where
  "buildApplicationFields app =
     (let categories = (if app_SyncCategories app = []
                        then (case map_of DefaultSyncCategories (app_Type app) of Some defaults \<Rightarrow> defaults | None \<Rightarrow> [])
                        else app_SyncCategories app)
      in field_if (app_ProwlarrURL app \<noteq> '''') ''prowlarrUrl'' (VString (app_ProwlarrURL app)) @
         field_if (app_URL app \<noteq> '''') ''baseUrl'' (VString (app_URL app)) @
         field_if (app_APIKey app \<noteq> '''') ''apiKey'' (VString (app_APIKey app)) @
         field_if (categories \<noteq> []) ''syncCategories'' (VInts categories))"

definition application_resource :: "int \<Rightarrow> ProwlarrApplicationIR \<Rightarrow> int \<Rightarrow> ApplicationResource" where
  "application_resource i app tagID =
     \<lparr>pas_ID = i, pas_Name = app_Name app, pas_Implementation = appTypeToImpl (app_Type app),
      pas_ConfigContract = appTypeToImpl (app_Type app) @ ''Settings'', pas_SyncLevel = app_SyncLevel app,
      pas_Tags = [tagID], pas_Fields = buildApplicationFields app\<rparr>"

section \<open>Download clients (clients.go)\<close>

definition read_client_field :: "DownloadClientField \<Rightarrow> DownloadClientIR \<Rightarrow> DownloadClientIR" where
  "read_client_field f ir =
     (if pf_Name f = ''host'' then (case as_string (pf_Value f) of Some v \<Rightarrow> ir\<lparr>dc_Host := v\<rparr> | None \<Rightarrow> ir)
      else if pf_Name f = ''port'' then (case as_float (pf_Value f) of Some v \<Rightarrow> ir\<lparr>dc_Port := int_of_float v\<rparr> | None \<Rightarrow> ir)
      else if pf_Name f = ''useSsl'' then (case as_bool (pf_Value f) of Some v \<Rightarrow> ir\<lparr>dc_UseTLS := v\<rparr> | None \<Rightarrow> ir)
      else if pf_Name f = ''username'' then (case as_string (pf_Value f) of Some v \<Rightarrow> ir\<lparr>dc_Username := v\<rparr> | None \<Rightarrow> ir)
      else if pf_Name f = ''password'' then (case as_string (pf_Value f) of Some v \<Rightarrow> ir\<lparr>dc_Password := v\<rparr> | None \<Rightarrow> ir)
      else if pf_Name f = ''category'' then (case as_string (pf_Value f) of Some v \<Rightarrow> ir\<lparr>dc_Category := v\<rparr> | None \<Rightarrow> ir)
      else if pf_Name f = ''directory'' then (case as_string (pf_Value f) of Some v \<Rightarrow> ir\<lparr>dc_Directory := v\<rparr> | None \<Rightarrow> ir)
      else ir)"

definition client_ir :: "DownloadClientResource \<Rightarrow> DownloadClientIR" where
  "client_ir client =
     fold read_client_field (pdr_Fields client)
       \<lparr>dc_ID = 0, dc_Name = pdr_Name client, dc_Protocol = pdr_Protocol client,
        dc_Implementation = ToLower (pdr_Implementation client), dc_Enable = pdr_Enable client,
        dc_Priority = pdr_Priority client, dc_RemoveCompletedDownloads = False, dc_RemoveFailedDownloads = False,
        dc_Host = '''', dc_Port = 0, dc_UseTLS = False, dc_Username = '''', dc_Password = '''', dc_Category = '''',
        dc_Directory = ''''\<rparr>"

definition downloadClientsEqual :: "DownloadClientIR \<Rightarrow> DownloadClientIR \<Rightarrow> bool" where
  "downloadClientsEqual a b \<longleftrightarrow>
     dc_Protocol a = dc_Protocol b \<and> dc_Implementation a = dc_Implementation b \<and> dc_Enable a = dc_Enable b \<and>
     dc_Priority a = dc_Priority b \<and> dc_Host a = dc_Host b \<and> dc_Port a = dc_Port b \<and> dc_UseTLS a = dc_UseTLS b \<and>
     dc_Username a = dc_Username b \<and> dc_Category a = dc_Category b \<and> dc_Directory a = dc_Directory b"

definition implFromClientType :: "string \<Rightarrow> string" where
  "implFromClientType clientType =
     (let t = ToLower clientType in
      if t = ''qbittorrent'' then ''QBittorrent''
      else if t = ''transmission'' then ''Transmission''
      else if t = ''deluge'' then ''Deluge''
      else if t = ''rtorrent'' then ''RTorrent''
      else if t = ''sabnzbd'' then ''Sabnzbd''
      else if t = ''nzbget'' then ''NzbGet''
      else clientType)"

definition buildDownloadClientFields :: "DownloadClientIR \<Rightarrow> DownloadClientField list" where
  "buildDownloadClientFields client =
     field_if (dc_Host client \<noteq> '''') ''host'' (VString (dc_Host client)) @
     field_if (dc_Port client > 0) ''port'' (VInt (dc_Port client)) @
     [mk_field ''useSsl'' (VBool (dc_UseTLS client))] @
     field_if (dc_Username client \<noteq> '''') ''username'' (VString (dc_Username client)) @
     field_if (dc_Password client \<noteq> '''') ''password'' (VString (dc_Password client)) @
     field_if (dc_Category client \<noteq> '''') ''category'' (VString (dc_Category client)) @
     field_if (dc_Directory client \<noteq> '''') ''directory'' (VString (dc_Directory client))"

definition client_resource :: "int \<Rightarrow> DownloadClientIR \<Rightarrow> int \<Rightarrow> DownloadClientResource" where
  "client_resource i client tagID =
     \<lparr>pdr_ID = i, pdr_Name = dc_Name client, pdr_Implementation = implFromClientType (dc_Implementation client),
      pdr_ConfigContract = '''', pdr_Protocol = dc_Protocol client, pdr_Enable = dc_Enable client,
      pdr_Priority = dc_Priority client, pdr_Tags = [tagID], pdr_Fields = buildDownloadClientFields client\<rparr>"

end
