(* ===== verification/Prowlarr.thy ===== *)
theory Prowlarr
  imports Prowlarr_Convert
begin

text \<open>
  The Prowlarr adapter (\<^verbatim>\<open>src/internal/adapters/prowlarr\<close>): reading the managed state,
  computing the change set and applying it. The service is the parameter \<open>api\<close>. The IR of
  Prowlarr carries no IDs: the adapter keeps them in four package variables, maps from base
  URL and name to ID, which the read path and the creates fill and the updates and deletes
  consult before they fall back to a list of the service. The maps are the record
  \<open>ProwlarrVars\<close>, passed beside the service's state.
\<close>

section \<open>The service and the package variables\<close>

record 's ProwlarrAPI =
  papi_system :: "('s, SystemResource) endpoint"
  papi_tags :: "('s, TagResource) endpoint"
  papi_health :: "('s, HealthResource) endpoint"
  papi_indexers :: "('s, IndexerResource) endpoint"
  papi_proxies :: "('s, IndexerProxyResource) endpoint"
  papi_applications :: "('s, ApplicationResource) endpoint"
  papi_clients :: "('s, DownloadClientResource) endpoint"
  papi_delete :: "string \<Rightarrow> ('s, unit) action"

type_synonym id_cache = "(string, int) gomap"

record ProwlarrVars =
  indexerIDCache :: id_cache
  proxyIDCache :: id_cache
  applicationIDCache :: id_cache
  downloadClientIDCache :: id_cache

definition initial_vars :: ProwlarrVars where
  "initial_vars = \<lparr>indexerIDCache = [], proxyIDCache = [], applicationIDCache = [], downloadClientIDCache = []\<rparr>"

section \<open>Connect and discover (adapter.go)\<close>

definition Connect :: "'s ProwlarrAPI \<Rightarrow> ('s, ServiceInfo) action" where
  "Connect api =
     andThen (wrap_err ''failed to connect to Prowlarr'' (ep_get (papi_system api) ''/api/v1/system/status'')) (\<lambda>status.
       give \<lparr>si_Version = sys_Version status,
             si_StartTime = (case sys_StartTime status of Some t \<Rightarrow> t | None \<Rightarrow> 0)\<rparr>)"

definition Discover :: "int \<Rightarrow> 's ProwlarrAPI \<Rightarrow> ('s, Capabilities) action" where
  "Discover now api =
     andThen (try_types (ep_list (papi_clients api) ''/api/v1/downloadclient/schema'') pdr_Implementation) (\<lambda>dcTypes.
     andThen (try_types (ep_list (papi_indexers api) ''/api/v1/indexer/schema'') pir_DefinitionName) (\<lambda>idxTypes.
     give \<lparr>cap_DiscoveredAt = now, cap_Resolutions = [], cap_Sources = [], cap_CustomFormatSpecs = [],
           cap_AudioTiers = [], cap_DownloadClientTypes = dcTypes, cap_IndexerTypes = idxTypes\<rparr>))"

section \<open>The ownership tag (tags.go)\<close>

definition getOwnershipTagID :: "'s ProwlarrAPI \<Rightarrow> ('s, int) action" where
  "getOwnershipTagID api = GetOwnershipTagID (ep_list (papi_tags api)) ''v1''"

definition ensureOwnershipTag :: "'s ProwlarrAPI \<Rightarrow> ('s, int) action" where
  "ensureOwnershipTag api = EnsureOwnershipTag (ep_list (papi_tags api)) (ep_post (papi_tags api)) ''v1''"

definition hasTag :: "int list \<Rightarrow> int \<Rightarrow> bool" where
  "hasTag tags tagID = HasTag tags tagID"

section \<open>The caches\<close>

text \<open>
  The four caches are used alike; \<open>upd\<close> is the update function of the cache's field, \<open>sel\<close>
  its selector. \<open>fmt.Sprintf("%s:%s", c.BaseURL(), name)\<close> is the key.
\<close>

definition cacheKey :: "string \<Rightarrow> string \<Rightarrow> string" where
  "cacheKey baseURL name = baseURL @ '':'' @ name"

definition remember ::
    "((id_cache \<Rightarrow> id_cache) \<Rightarrow> ProwlarrVars \<Rightarrow> ProwlarrVars) \<Rightarrow> string \<Rightarrow> string \<Rightarrow> int \<Rightarrow> (ProwlarrVars \<times> 's, unit) action" where
  "remember upd baseURL name i vs = (Ok (), (upd (gm_set (cacheKey baseURL name) i) (fst vs), snd vs))"

definition forget ::
    "((id_cache \<Rightarrow> id_cache) \<Rightarrow> ProwlarrVars \<Rightarrow> ProwlarrVars) \<Rightarrow> string \<Rightarrow> string \<Rightarrow> (ProwlarrVars \<times> 's, unit) action" where
  "forget upd baseURL name vs = (Ok (), (upd (AList.delete (cacheKey baseURL name)) (fst vs), snd vs))"

text \<open>The body of the four \<^verbatim>\<open>getManaged\<close> functions: cache the ID of each resource with the tag.\<close>

definition read_managed ::
    "((id_cache \<Rightarrow> id_cache) \<Rightarrow> ProwlarrVars \<Rightarrow> ProwlarrVars) \<Rightarrow> string \<Rightarrow> ('r \<Rightarrow> string) \<Rightarrow> ('r \<Rightarrow> int) \<Rightarrow> ('r \<Rightarrow> bool)
     \<Rightarrow> ('r \<Rightarrow> 'a) \<Rightarrow> ('s, 'r list) action \<Rightarrow> (ProwlarrVars \<times> 's, 'a list) action" where
  "read_managed upd baseURL rname rid mine toIR lst =
     andThen (on_service lst) (\<lambda>rs vs.
       (Ok (map toIR (filter mine rs)),
        (fold (\<lambda>r. upd (gm_set (cacheKey baseURL (rname r)) (rid r))) (filter mine rs) (fst vs), snd vs)))"

text \<open>The ID of a resource to update: from the cache, else from a list, which fills the cache.\<close>

definition id_to_update ::
    "(ProwlarrVars \<Rightarrow> id_cache) \<Rightarrow> ((id_cache \<Rightarrow> id_cache) \<Rightarrow> ProwlarrVars \<Rightarrow> ProwlarrVars) \<Rightarrow> string \<Rightarrow> ('r \<Rightarrow> string)
     \<Rightarrow> ('r \<Rightarrow> int) \<Rightarrow> ('s, 'r list) action \<Rightarrow> string \<Rightarrow> string \<Rightarrow> (ProwlarrVars \<times> 's, int) action" where
  "id_to_update sel upd baseURL rname rid lst name notFound vs =
     (case map_of (sel (fst vs)) (cacheKey baseURL name) of
        Some i \<Rightarrow> give i vs
      | None \<Rightarrow> andThen (on_service lst) (\<lambda>rs.
          case find (\<lambda>r. rname r = name) rs of
            Some existing \<Rightarrow> andThen (remember upd baseURL name (rid existing)) (\<lambda>_.
              if rid existing = 0 then fail notFound else give (rid existing))
          | None \<Rightarrow> fail notFound) vs)"

text \<open>The ID of a resource to delete: 0 when it is neither cached nor listed.\<close>

definition id_to_delete ::
    "(ProwlarrVars \<Rightarrow> id_cache) \<Rightarrow> string \<Rightarrow> ('r \<Rightarrow> string) \<Rightarrow> ('r \<Rightarrow> int) \<Rightarrow> ('s, 'r list) action \<Rightarrow> string
     \<Rightarrow> (ProwlarrVars \<times> 's, int option) action" where
  "id_to_delete sel baseURL rname rid lst name vs =
     (case map_of (sel (fst vs)) (cacheKey baseURL name) of
        Some i \<Rightarrow> give (Some i) vs
      | None \<Rightarrow> andThen (on_service lst) (\<lambda>rs.
          case find (\<lambda>r. rname r = name) rs of
            Some existing \<Rightarrow> give (if rid existing = 0 then None else Some (rid existing))
          | None \<Rightarrow> give None) vs)"

section \<open>Indexers (indexers.go)\<close>

definition list_indexers :: "'s ProwlarrAPI \<Rightarrow> ('s, IndexerResource list) action" where
  "list_indexers api = wrap_err ''failed to get indexers'' (ep_list (papi_indexers api) ''/api/v1/indexer'')"

definition getManagedIndexers :: "string \<Rightarrow> 's ProwlarrAPI \<Rightarrow> int \<Rightarrow> (ProwlarrVars \<times> 's, ProwlarrIndexerIR list) action" where
  "getManagedIndexers baseURL api tagID =
     read_managed indexerIDCache_update baseURL pir_Name pir_ID (\<lambda>r. hasTag (pir_Tags r) tagID) indexer_ir (list_indexers api)"

definition diffIndexers :: "range_order \<Rightarrow> ProwlarrIR \<Rightarrow> ProwlarrIR \<Rightarrow> ChangeSet \<Rightarrow> ChangeSet" where
  "diffIndexers ord current desired changes =
     (let currentByName = index_by pidx_Name (pr_Indexers current);
          desiredByName = index_by pidx_Name (pr_Indexers desired);
          changes1 = fold (\<lambda>(name, desiredIdx) cs.
            case map_of currentByName name of
              None \<Rightarrow> add_create \<lparr>ch_ResourceType = ResourceIndexer, ch_Name = name,
                        ch_ID = None, ch_Payload = ProwlarrIndexerVal desiredIdx\<rparr> cs
            | Some currentIdx \<Rightarrow>
                if \<not> indexersEqual currentIdx desiredIdx
                then add_update \<lparr>ch_ResourceType = ResourceIndexer, ch_Name = name,
                        ch_ID = None, ch_Payload = ProwlarrIndexerVal desiredIdx\<rparr> cs
                else cs) (gm_range ord 0 desiredByName) changes
      in fold (\<lambda>(name, _) cs.
            case map_of desiredByName name of
              None \<Rightarrow> add_delete \<lparr>ch_ResourceType = ResourceIndexer, ch_Name = name,
                        ch_ID = None, ch_Payload = NoPayload\<rparr> cs
            | Some _ \<Rightarrow> cs) (gm_range ord 1 currentByName) changes1)"

definition createIndexer ::
    "range_order \<Rightarrow> string \<Rightarrow> 's ProwlarrAPI \<Rightarrow> ProwlarrIndexerIR \<Rightarrow> int \<Rightarrow> (ProwlarrVars \<times> 's, unit) action" where
  "createIndexer ord baseURL api idx tagID =
     andThen (on_service (wrap_err (''failed to create indexer '' @ pidx_Name idx)
               (ep_post (papi_indexers api) ''/api/v1/indexer'' (indexer_resource ord 0 idx tagID)))) (\<lambda>created.
       remember indexerIDCache_update baseURL (pidx_Name idx) (pir_ID created))"

definition updateIndexer ::
    "range_order \<Rightarrow> string \<Rightarrow> 's ProwlarrAPI \<Rightarrow> ProwlarrIndexerIR \<Rightarrow> int \<Rightarrow> (ProwlarrVars \<times> 's, unit) action" where
  "updateIndexer ord baseURL api idx tagID =
     andThen (id_to_update indexerIDCache indexerIDCache_update baseURL pir_Name pir_ID (list_indexers api) (pidx_Name idx)
               (''indexer '' @ pidx_Name idx @ '' not found'')) (\<lambda>i.
       on_service (wrap_err (''failed to update indexer '' @ pidx_Name idx)
         (discard (ep_put (papi_indexers api) (''/api/v1/indexer/'' @ Itoa i) (indexer_resource ord i idx tagID)))))"

definition deleteIndexer :: "string \<Rightarrow> 's ProwlarrAPI \<Rightarrow> string \<Rightarrow> (ProwlarrVars \<times> 's, unit) action" where
  "deleteIndexer baseURL api name =
     andThen (id_to_delete indexerIDCache baseURL pir_Name pir_ID (list_indexers api) name) (\<lambda>i.
       case i of
         None \<Rightarrow> give ()
       | Some i \<Rightarrow>
           andThen (on_service (wrap_err (''failed to delete indexer '' @ name)
             (papi_delete api (''/api/v1/indexer/'' @ Itoa i)))) (\<lambda>_.
           forget indexerIDCache_update baseURL name))"

section \<open>Proxies (proxies.go)\<close>

abbreviation ResourceIndexerProxy :: string where
  "ResourceIndexerProxy \<equiv> ''IndexerProxy''"

definition list_proxies :: "'s ProwlarrAPI \<Rightarrow> ('s, IndexerProxyResource list) action" where
  "list_proxies api = wrap_err ''failed to get proxies'' (ep_list (papi_proxies api) ''/api/v1/indexerproxy'')"

definition getManagedProxies :: "string \<Rightarrow> 's ProwlarrAPI \<Rightarrow> int \<Rightarrow> (ProwlarrVars \<times> 's, IndexerProxyIR list) action" where
  "getManagedProxies baseURL api tagID =
     read_managed proxyIDCache_update baseURL ppr_Name ppr_ID (\<lambda>r. hasTag (ppr_Tags r) tagID) proxy_ir (list_proxies api)"

definition diffProxies :: "range_order \<Rightarrow> ProwlarrIR \<Rightarrow> ProwlarrIR \<Rightarrow> ChangeSet \<Rightarrow> ChangeSet" where
  "diffProxies ord current desired changes =
     (let currentByName = index_by px_Name (pr_Proxies current);
          desiredByName = index_by px_Name (pr_Proxies desired);
          changes1 = fold (\<lambda>(name, desiredProxy) cs.
            case map_of currentByName name of
              None \<Rightarrow> add_create \<lparr>ch_ResourceType = ResourceIndexerProxy, ch_Name = name,
                        ch_ID = None, ch_Payload = IndexerProxyVal desiredProxy\<rparr> cs
            | Some currentProxy \<Rightarrow>
                if \<not> proxiesEqual currentProxy desiredProxy
                then add_update \<lparr>ch_ResourceType = ResourceIndexerProxy, ch_Name = name,
                        ch_ID = None, ch_Payload = IndexerProxyVal desiredProxy\<rparr> cs
                else cs) (gm_range ord 0 desiredByName) changes
      in fold (\<lambda>(name, _) cs.
            case map_of desiredByName name of
              None \<Rightarrow> add_delete \<lparr>ch_ResourceType = ResourceIndexerProxy, ch_Name = name,
                        ch_ID = None, ch_Payload = NoPayload\<rparr> cs
            | Some _ \<Rightarrow> cs) (gm_range ord 1 currentByName) changes1)"

definition createProxy :: "string \<Rightarrow> 's ProwlarrAPI \<Rightarrow> IndexerProxyIR \<Rightarrow> int \<Rightarrow> (ProwlarrVars \<times> 's, unit) action" where
  "createProxy baseURL api proxy tagID =
     andThen (on_service (wrap_err (''failed to create proxy '' @ px_Name proxy)
               (ep_post (papi_proxies api) ''/api/v1/indexerproxy'' (proxy_resource 0 proxy tagID)))) (\<lambda>created.
       remember proxyIDCache_update baseURL (px_Name proxy) (ppr_ID created))"

definition updateProxy :: "string \<Rightarrow> 's ProwlarrAPI \<Rightarrow> IndexerProxyIR \<Rightarrow> int \<Rightarrow> (ProwlarrVars \<times> 's, unit) action" where
  "updateProxy baseURL api proxy tagID =
     andThen (id_to_update proxyIDCache proxyIDCache_update baseURL ppr_Name ppr_ID (list_proxies api) (px_Name proxy)
               (''proxy '' @ px_Name proxy @ '' not found'')) (\<lambda>i.
       on_service (wrap_err (''failed to update proxy '' @ px_Name proxy)
         (discard (ep_put (papi_proxies api) (''/api/v1/indexerproxy/'' @ Itoa i) (proxy_resource i proxy tagID)))))"

definition deleteProxy :: "string \<Rightarrow> 's ProwlarrAPI \<Rightarrow> string \<Rightarrow> (ProwlarrVars \<times> 's, unit) action" where
  "deleteProxy baseURL api name =
     andThen (id_to_delete proxyIDCache baseURL ppr_Name ppr_ID (list_proxies api) name) (\<lambda>i.
       case i of
         None \<Rightarrow> give ()
       | Some i \<Rightarrow>
           andThen (on_service (wrap_err (''failed to delete proxy '' @ name)
             (papi_delete api (''/api/v1/indexerproxy/'' @ Itoa i)))) (\<lambda>_.
           forget proxyIDCache_update baseURL name))"

section \<open>Applications (applications.go)\<close>

definition list_applications :: "'s ProwlarrAPI \<Rightarrow> ('s, ApplicationResource list) action" where
  "list_applications api = wrap_err ''failed to get applications'' (ep_list (papi_applications api) ''/api/v1/applications'')"

definition getManagedApplications ::
    "string \<Rightarrow> 's ProwlarrAPI \<Rightarrow> int \<Rightarrow> (ProwlarrVars \<times> 's, ProwlarrApplicationIR list) action" where
  "getManagedApplications baseURL api tagID =
     read_managed applicationIDCache_update baseURL pas_Name pas_ID (\<lambda>r. hasTag (pas_Tags r) tagID) application_ir
       (list_applications api)"

definition diffApplications :: "range_order \<Rightarrow> ProwlarrIR \<Rightarrow> ProwlarrIR \<Rightarrow> ChangeSet \<Rightarrow> ChangeSet" where
  "diffApplications ord current desired changes =
     (let currentByName = index_by app_Name (pr_Applications current);
          desiredByName = index_by app_Name (pr_Applications desired);
          changes1 = fold (\<lambda>(name, desiredApp) cs.
            case map_of currentByName name of
              None \<Rightarrow> add_create \<lparr>ch_ResourceType = ResourceApplication, ch_Name = name,
                        ch_ID = None, ch_Payload = ProwlarrApplicationVal desiredApp\<rparr> cs
            | Some currentApp \<Rightarrow>
                if \<not> applicationsEqual currentApp desiredApp
                then add_update \<lparr>ch_ResourceType = ResourceApplication, ch_Name = name,
                        ch_ID = None, ch_Payload = ProwlarrApplicationVal desiredApp\<rparr> cs
                else cs) (gm_range ord 0 desiredByName) changes
      in fold (\<lambda>(name, _) cs.
            case map_of desiredByName name of
              None \<Rightarrow> add_delete \<lparr>ch_ResourceType = ResourceApplication, ch_Name = name,
                        ch_ID = None, ch_Payload = NoPayload\<rparr> cs
            | Some _ \<Rightarrow> cs) (gm_range ord 1 currentByName) changes1)"

definition createApplication ::
    "string \<Rightarrow> 's ProwlarrAPI \<Rightarrow> ProwlarrApplicationIR \<Rightarrow> int \<Rightarrow> (ProwlarrVars \<times> 's, unit) action" where
  "createApplication baseURL api app tagID =
     andThen (on_service (wrap_err (''failed to create application '' @ app_Name app)
               (ep_post (papi_applications api) ''/api/v1/applications'' (application_resource 0 app tagID)))) (\<lambda>created.
       remember applicationIDCache_update baseURL (app_Name app) (pas_ID created))"

definition updateApplication ::
    "string \<Rightarrow> 's ProwlarrAPI \<Rightarrow> ProwlarrApplicationIR \<Rightarrow> int \<Rightarrow> (ProwlarrVars \<times> 's, unit) action" where
  "updateApplication baseURL api app tagID =
     andThen (id_to_update applicationIDCache applicationIDCache_update baseURL pas_Name pas_ID (list_applications api)
               (app_Name app) (''application '' @ app_Name app @ '' not found'')) (\<lambda>i.
       on_service (wrap_err (''failed to update application '' @ app_Name app)
         (discard (ep_put (papi_applications api) (''/api/v1/applications/'' @ Itoa i) (application_resource i app tagID)))))"

definition deleteApplication :: "string \<Rightarrow> 's ProwlarrAPI \<Rightarrow> string \<Rightarrow> (ProwlarrVars \<times> 's, unit) action" where
  "deleteApplication baseURL api name =
     andThen (id_to_delete applicationIDCache baseURL pas_Name pas_ID (list_applications api) name) (\<lambda>i.
       case i of
         None \<Rightarrow> give ()
       | Some i \<Rightarrow>
           andThen (on_service (wrap_err (''failed to delete application '' @ name)
             (papi_delete api (''/api/v1/applications/'' @ Itoa i)))) (\<lambda>_.
           forget applicationIDCache_update baseURL name))"

section \<open>Download clients (clients.go)\<close>

definition list_clients :: "'s ProwlarrAPI \<Rightarrow> ('s, DownloadClientResource list) action" where
  "list_clients api = wrap_err ''failed to get download clients'' (ep_list (papi_clients api) ''/api/v1/downloadclient'')"

definition getManagedDownloadClients ::
    "string \<Rightarrow> 's ProwlarrAPI \<Rightarrow> int \<Rightarrow> (ProwlarrVars \<times> 's, DownloadClientIR list) action" where
  "getManagedDownloadClients baseURL api tagID =
     read_managed downloadClientIDCache_update baseURL pdr_Name pdr_ID (\<lambda>r. hasTag (pdr_Tags r) tagID) client_ir
       (list_clients api)"

definition diffDownloadClients :: "range_order \<Rightarrow> ProwlarrIR \<Rightarrow> ProwlarrIR \<Rightarrow> ChangeSet \<Rightarrow> ChangeSet" where
  "diffDownloadClients ord current desired changes =
     (let currentByName = index_by dc_Name (pr_DownloadClients current);
          desiredByName = index_by dc_Name (pr_DownloadClients desired);
          changes1 = fold (\<lambda>(name, desiredClient) cs.
            case map_of currentByName name of
              None \<Rightarrow> add_create \<lparr>ch_ResourceType = ResourceDownloadClient, ch_Name = name,
                        ch_ID = None, ch_Payload = DownloadClientVal desiredClient\<rparr> cs
            | Some currentClient \<Rightarrow>
                if \<not> downloadClientsEqual currentClient desiredClient
                then add_update \<lparr>ch_ResourceType = ResourceDownloadClient, ch_Name = name,
                        ch_ID = None, ch_Payload = DownloadClientVal desiredClient\<rparr> cs
                else cs) (gm_range ord 0 desiredByName) changes
      in fold (\<lambda>(name, _) cs.
            case map_of desiredByName name of
              None \<Rightarrow> add_delete \<lparr>ch_ResourceType = ResourceDownloadClient, ch_Name = name,
                        ch_ID = None, ch_Payload = NoPayload\<rparr> cs
            | Some _ \<Rightarrow> cs) (gm_range ord 1 currentByName) changes1)"

definition createDownloadClient :: "string \<Rightarrow> 's ProwlarrAPI \<Rightarrow> DownloadClientIR \<Rightarrow> int \<Rightarrow> (ProwlarrVars \<times> 's, unit) action" where
  "createDownloadClient baseURL api client tagID =
     andThen (on_service (wrap_err (''failed to create download client '' @ dc_Name client)
               (ep_post (papi_clients api) ''/api/v1/downloadclient'' (client_resource 0 client tagID)))) (\<lambda>created.
       remember downloadClientIDCache_update baseURL (dc_Name client) (pdr_ID created))"

definition updateDownloadClient :: "string \<Rightarrow> 's ProwlarrAPI \<Rightarrow> DownloadClientIR \<Rightarrow> int \<Rightarrow> (ProwlarrVars \<times> 's, unit) action" where
  "updateDownloadClient baseURL api client tagID =
     andThen (id_to_update downloadClientIDCache downloadClientIDCache_update baseURL pdr_Name pdr_ID (list_clients api)
               (dc_Name client) (''download client '' @ dc_Name client @ '' not found'')) (\<lambda>i.
       on_service (wrap_err (''failed to update download client '' @ dc_Name client)
         (discard (ep_put (papi_clients api) (''/api/v1/downloadclient/'' @ Itoa i) (client_resource i client tagID)))))"

definition deleteDownloadClient :: "string \<Rightarrow> 's ProwlarrAPI \<Rightarrow> string \<Rightarrow> (ProwlarrVars \<times> 's, unit) action" where
  "deleteDownloadClient baseURL api name =
     andThen (id_to_delete downloadClientIDCache baseURL pdr_Name pdr_ID (list_clients api) name) (\<lambda>i.
       case i of
         None \<Rightarrow> give ()
       | Some i \<Rightarrow>
           andThen (on_service (wrap_err (''failed to delete download client '' @ name)
             (papi_delete api (''/api/v1/downloadclient/'' @ Itoa i)))) (\<lambda>_.
           forget downloadClientIDCache_update baseURL name))"

section \<open>Reading, diffing and applying (adapter.go, apply.go)\<close>

definition read_state :: "string \<Rightarrow> 's ProwlarrAPI \<Rightarrow> int \<Rightarrow> ProwlarrIR \<Rightarrow> (ProwlarrVars \<times> 's, ProwlarrIR) action" where
  "read_state baseURL api tagID p =
     andThen (try_set (getManagedIndexers baseURL api tagID) (\<lambda>x p. p\<lparr>pr_Indexers := x\<rparr>) p) (\<lambda>p.
     andThen (try_set (getManagedProxies baseURL api tagID) (\<lambda>x p. p\<lparr>pr_Proxies := x\<rparr>) p) (\<lambda>p.
     andThen (try_set (getManagedApplications baseURL api tagID) (\<lambda>x p. p\<lparr>pr_Applications := x\<rparr>) p) (\<lambda>p.
     try_set (getManagedDownloadClients baseURL api tagID) (\<lambda>x p. p\<lparr>pr_DownloadClients := x\<rparr>) p)))"

definition CurrentState :: "int \<Rightarrow> 's ProwlarrAPI \<Rightarrow> ConnectionIR \<Rightarrow> (ProwlarrVars \<times> 's, IR) action" where
  "CurrentState now api conn vs =
     (let ir = zero_IR\<lparr>ir_Version := IRVersion, ir_GeneratedAt := now, ir_App := AppProwlarr, ir_Connection := Some conn\<rparr>;
          prowlarr = \<lparr>pr_Connection = Some conn, pr_Indexers = [], pr_Proxies = [], pr_Applications = [],
                      pr_DownloadClients = [], pr_Unrealized = []\<rparr>
      in case on_service (getOwnershipTagID api) vs of
           (Err _, vs') \<Rightarrow> (Ok (ir\<lparr>ir_Prowlarr := Some prowlarr\<rparr>), vs')
         | (Panic p, vs') \<Rightarrow> (Panic p, vs')
         | (Ok tagID, vs') \<Rightarrow>
             andThen (read_state (conn_URL conn) api tagID prowlarr) (\<lambda>p. give (ir\<lparr>ir_Prowlarr := Some p\<rparr>)) vs')"

definition Diff :: "range_order \<Rightarrow> IR \<Rightarrow> IR \<Rightarrow> ChangeSet" where
  "Diff ord current desired =
     (case ir_Prowlarr desired of
        None \<Rightarrow> no_changes
      | Some desiredProwlarr \<Rightarrow>
          let currentProwlarr = (case ir_Prowlarr current of
                Some p \<Rightarrow> p
              | None \<Rightarrow> \<lparr>pr_Connection = None, pr_Indexers = [], pr_Proxies = [], pr_Applications = [],
                         pr_DownloadClients = [], pr_Unrealized = []\<rparr>);
              c = diffIndexers (diff_order 0 ord) currentProwlarr desiredProwlarr no_changes;
              c = diffProxies (diff_order 1 ord) currentProwlarr desiredProwlarr c;
              c = diffApplications (diff_order 2 ord) currentProwlarr desiredProwlarr c
          in diffDownloadClients (diff_order 3 ord) currentProwlarr desiredProwlarr c)"

definition applyCreate ::
    "(ProwlarrIndexerIR \<Rightarrow> range_order) \<Rightarrow> string \<Rightarrow> 's ProwlarrAPI \<Rightarrow> int \<Rightarrow> Change \<Rightarrow> (ProwlarrVars \<times> 's, unit) action" where
  "applyCreate ords baseURL api tagID change =
     (if ch_ResourceType change = ResourceIndexer
      then (case ch_Payload change of ProwlarrIndexerVal idx \<Rightarrow> createIndexer (ords idx) baseURL api idx tagID
            | _ \<Rightarrow> fail ''invalid payload type for indexer'')
      else if ch_ResourceType change = ResourceIndexerProxy
      then (case ch_Payload change of IndexerProxyVal proxy \<Rightarrow> createProxy baseURL api proxy tagID
            | _ \<Rightarrow> fail ''invalid payload type for proxy'')
      else if ch_ResourceType change = ResourceApplication
      then (case ch_Payload change of ProwlarrApplicationVal app \<Rightarrow> createApplication baseURL api app tagID
            | _ \<Rightarrow> fail ''invalid payload type for application'')
      else if ch_ResourceType change = ResourceDownloadClient
      then (case ch_Payload change of DownloadClientVal client \<Rightarrow> createDownloadClient baseURL api client tagID
            | _ \<Rightarrow> fail ''invalid payload type for download client'')
      else fail (''unknown resource type: '' @ ch_ResourceType change))"

definition applyUpdate ::
    "(ProwlarrIndexerIR \<Rightarrow> range_order) \<Rightarrow> string \<Rightarrow> 's ProwlarrAPI \<Rightarrow> int \<Rightarrow> Change \<Rightarrow> (ProwlarrVars \<times> 's, unit) action" where
  "applyUpdate ords baseURL api tagID change =
     (if ch_ResourceType change = ResourceIndexer
      then (case ch_Payload change of ProwlarrIndexerVal idx \<Rightarrow> updateIndexer (ords idx) baseURL api idx tagID
            | _ \<Rightarrow> fail ''invalid payload type for indexer'')
      else if ch_ResourceType change = ResourceIndexerProxy
      then (case ch_Payload change of IndexerProxyVal proxy \<Rightarrow> updateProxy baseURL api proxy tagID
            | _ \<Rightarrow> fail ''invalid payload type for proxy'')
      else if ch_ResourceType change = ResourceApplication
      then (case ch_Payload change of ProwlarrApplicationVal app \<Rightarrow> updateApplication baseURL api app tagID
            | _ \<Rightarrow> fail ''invalid payload type for application'')
      else if ch_ResourceType change = ResourceDownloadClient
      then (case ch_Payload change of DownloadClientVal client \<Rightarrow> updateDownloadClient baseURL api client tagID
            | _ \<Rightarrow> fail ''invalid payload type for download client'')
      else fail (''unknown resource type: '' @ ch_ResourceType change))"

definition applyDelete :: "string \<Rightarrow> 's ProwlarrAPI \<Rightarrow> Change \<Rightarrow> (ProwlarrVars \<times> 's, unit) action" where
  "applyDelete baseURL api change =
     (if ch_ResourceType change = ResourceIndexer then deleteIndexer baseURL api (ch_Name change)
      else if ch_ResourceType change = ResourceIndexerProxy then deleteProxy baseURL api (ch_Name change)
      else if ch_ResourceType change = ResourceApplication then deleteApplication baseURL api (ch_Name change)
      else if ch_ResourceType change = ResourceDownloadClient then deleteDownloadClient baseURL api (ch_Name change)
      else fail (''unknown resource type: '' @ ch_ResourceType change))"

definition Apply ::
    "(ProwlarrIndexerIR \<Rightarrow> range_order) \<Rightarrow> 's ProwlarrAPI \<Rightarrow> ConnectionIR \<Rightarrow> ChangeSet
     \<Rightarrow> (ProwlarrVars \<times> 's, ApplyResult) action" where
  "Apply ords api conn changes =
     andThen (on_service (wrap_err ''failed to ensure ownership tag'' (ensureOwnershipTag api))) (\<lambda>tagID.
       ApplyChanges changes (applyCreate ords (conn_URL conn) api tagID) (applyUpdate ords (conn_URL conn) api tagID)
         (applyDelete (conn_URL conn) api))"

definition GetHealth :: "'s ProwlarrAPI \<Rightarrow> ('s, HealthStatus) action" where
  "GetHealth api = Shared_Service.GetHealth (ep_list (papi_health api)) ''v1''"

end
