(* ===== verification/Prowlarr_Codec.thy ===== *)
theory Prowlarr_Codec
  imports Prowlarr Collection
begin

text \<open>
  What Prowlarr lists for the resources the adapter sent reads back as the comparisons of the
  diffs accept it, for the four kinds of resources: the conversions are interpretations of
  \<open>wire_codec\<close>, each with the resources for which this holds. Where it does not hold, the
  adapter updates the resource on every pass.
\<close>

section \<open>What the service lists\<close>

definition answer_value :: "(GoValue \<Rightarrow> GoValue) \<Rightarrow> string \<Rightarrow> GoValue \<Rightarrow> GoValue" where
  "answer_value hide n v = (if n = ''password'' \<or> n = ''apiKey'' then hide v else wire v)"

definition answer_field :: "(GoValue \<Rightarrow> GoValue) \<Rightarrow> IndexerField \<Rightarrow> IndexerField" where
  "answer_field hide f = f\<lparr>pf_Value := answer_value hide (pf_Name f) (pf_Value f)\<rparr>"

definition answer_indexer :: "(GoValue \<Rightarrow> GoValue) \<Rightarrow> int \<Rightarrow> IndexerResource \<Rightarrow> IndexerResource" where
  "answer_indexer hide i r = r\<lparr>pir_ID := i, pir_Fields := map (answer_field hide) (pir_Fields r)\<rparr>"

definition answer_proxy :: "(GoValue \<Rightarrow> GoValue) \<Rightarrow> int \<Rightarrow> IndexerProxyResource \<Rightarrow> IndexerProxyResource" where
  "answer_proxy hide i r = r\<lparr>ppr_ID := i, ppr_Fields := map (answer_field hide) (ppr_Fields r)\<rparr>"

definition answer_application :: "(GoValue \<Rightarrow> GoValue) \<Rightarrow> int \<Rightarrow> ApplicationResource \<Rightarrow> ApplicationResource" where
  "answer_application hide i r = r\<lparr>pas_ID := i, pas_Fields := map (answer_field hide) (pas_Fields r)\<rparr>"

definition answer_client :: "(GoValue \<Rightarrow> GoValue) \<Rightarrow> int \<Rightarrow> DownloadClientResource \<Rightarrow> DownloadClientResource" where
  "answer_client hide i r = r\<lparr>pdr_ID := i, pdr_Fields := map (answer_field hide) (pdr_Fields r)\<rparr>"

section \<open>What is found in order on the next pass\<close>

definition indexer_settles :: "ProwlarrIndexerIR \<Rightarrow> bool" where
  "indexer_settles d \<longleftrightarrow> gm_ok (pidx_Settings d) \<and> fst ` set (pidx_Settings d) \<inter> {''baseUrl'', ''apiKey'', ''password''} = {}"

definition proxy_settles :: "IndexerProxyIR \<Rightarrow> bool" where
  "proxy_settles d \<longleftrightarrow> implToProxyType (proxyTypeToImpl (px_Type d)) = px_Type d \<and>
     (if px_Type d = ProxyTypeFlareSolverr
      then px_Port d = 0 \<and> px_Username d = '''' \<and> px_RequestTimeout d \<ge> 0
      else px_Port d \<ge> 0 \<and> px_RequestTimeout d = 0)"

definition application_settles :: "ProwlarrApplicationIR \<Rightarrow> bool" where
  "application_settles d \<longleftrightarrow> implToAppType (appTypeToImpl (app_Type d)) = app_Type d \<and>
     (app_SyncCategories d = [] \<longrightarrow> map_of DefaultSyncCategories (app_Type d) = None)"

definition client_settles :: "DownloadClientIR \<Rightarrow> bool" where
  "client_settles d \<longleftrightarrow> ToLower (dc_Implementation d) = dc_Implementation d \<and> dc_Port d \<ge> 0"

section \<open>Reading back\<close>

lemma field_if_simps [simp]:
  "map (answer_field hide) (field_if c n v) = field_if c n (answer_value hide n v)"
  "fold f (field_if c n v) ir = (if c then f (mk_field n v) ir else ir)"
  by (simp_all add: field_if_def answer_field_def mk_field_def)

lemma answer_mk_field [simp]: "answer_field hide (mk_field n v) = mk_field n (answer_value hide n v)"
  by (simp add: answer_field_def mk_field_def)

lemma mk_field_simps [simp]: "pf_Name (mk_field n v) = n" "pf_Value (mk_field n v) = v"
  by (simp_all add: mk_field_def)

lemma as_simps [simp]:
  "as_string (VString x) = Some x" "as_float (VFloat q) = Some q" "as_bool (VBool b) = Some b" "as_list (VList l) = Some l"
  by (simp_all add: as_string_def as_float_def as_bool_def as_list_def)

lemma proxy_read_back:
  assumes "exact_int (px_Port d)" "exact_int (px_RequestTimeout d)"
  shows "proxiesEqual (proxy_ir (answer_proxy hide i (proxy_resource j d tagID))) d \<longleftrightarrow> proxy_settles d"
  using assms
  by (cases "px_Type d = ProxyTypeFlareSolverr")
    (auto simp: proxy_ir_def answer_proxy_def proxy_resource_def buildProxyFields_def read_proxy_field_def answer_value_def
      proxiesEqual_def proxy_settles_def split: option.split)

lemma append_sync_categories:
  "\<forall>c \<in> set cs. exact_int c \<Longrightarrow> fold append_sync_category (map (\<lambda>i. VFloat (float64_of_int i)) cs) ir =
     ir\<lparr>app_SyncCategories := app_SyncCategories ir @ cs\<rparr>"
  by (induction cs arbitrary: ir) (simp_all add: append_sync_category_def)

lemma default_categories:
  "map_of DefaultSyncCategories t = Some cs \<Longrightarrow> cs \<noteq> [] \<and> (\<forall>c \<in> set cs. exact_int c)"
  by (auto simp: DefaultSyncCategories_def exact_int_def split: if_splits)

lemma application_read_back:
  assumes "\<forall>c \<in> set (app_SyncCategories d). exact_int c"
  shows "applicationsEqual (application_ir (answer_application hide i (application_resource j d tagID))) d \<longleftrightarrow> application_settles d"
proof -
  define cats where "cats = (if app_SyncCategories d = []
      then (case map_of DefaultSyncCategories (app_Type d) of Some defaults \<Rightarrow> defaults | None \<Rightarrow> [])
      else app_SyncCategories d)"
  have exact: "\<forall>c \<in> set cats. exact_int c"
    using assms default_categories [of "app_Type d"]
    by (cases "map_of DefaultSyncCategories (app_Type d)") (auto simp: cats_def)
  have same: "length cats = length (app_SyncCategories d) \<and> set (app_SyncCategories d) \<subseteq> set cats \<longleftrightarrow>
      (app_SyncCategories d = [] \<longrightarrow> map_of DefaultSyncCategories (app_Type d) = None)"
    using default_categories [of "app_Type d"]
    by (cases "map_of DefaultSyncCategories (app_Type d)") (auto simp: cats_def)
  have fields: "buildApplicationFields d =
      field_if (app_ProwlarrURL d \<noteq> '''') ''prowlarrUrl'' (VString (app_ProwlarrURL d)) @
      field_if (app_URL d \<noteq> '''') ''baseUrl'' (VString (app_URL d)) @
      field_if (app_APIKey d \<noteq> '''') ''apiKey'' (VString (app_APIKey d)) @ field_if (cats \<noteq> []) ''syncCategories'' (VInts cats)"
    by (simp only: buildApplicationFields_def cats_def Let_def)
  define r where "r = application_ir (answer_application hide i (application_resource j d tagID))"
  have "app_Type r = implToAppType (appTypeToImpl (app_Type d))" "app_SyncCategories r = cats"
      "app_URL r = app_URL d" "app_ProwlarrURL r = app_ProwlarrURL d" "app_SyncLevel r = app_SyncLevel d"
    by (simp_all add: r_def application_ir_def answer_application_def application_resource_def
        fields read_application_field_def answer_value_def append_sync_categories [OF exact] split: option.split)
  then show ?thesis
    using same unfolding r_def [symmetric]
    by (auto simp: applicationsEqual_def application_settles_def list_all_iff)
qed

lemma ToLower_impl: "ToLower (implFromClientType t) = ToLower t"
proof -
  have "ToLower ''QBittorrent'' = ''qbittorrent''" "ToLower ''Transmission'' = ''transmission''" "ToLower ''Deluge'' = ''deluge''"
    "ToLower ''RTorrent'' = ''rtorrent''" "ToLower ''Sabnzbd'' = ''sabnzbd''" "ToLower ''NzbGet'' = ''nzbget''"
    by code_simp+
  then show ?thesis by (simp add: implFromClientType_def Let_def)
qed

lemma prowlarr_client_read_back:
  assumes "exact_int (dc_Port d)"
  shows "downloadClientsEqual (client_ir (answer_client hide i (client_resource j d tagID))) d \<longleftrightarrow> client_settles d"
  using assms
  by (auto simp: client_ir_def answer_client_def client_resource_def buildDownloadClientFields_def read_client_field_def
      answer_value_def ToLower_impl downloadClientsEqual_def client_settles_def split: option.split)

lemma gm_set_new: "k \<notin> fst ` set m \<Longrightarrow> gm_set k v m = m @ [(k, v)]"
  unfolding gm_set_def by (induction m) auto

lemma read_settings:
  assumes "distinct (map fst es)" and "fst ` set es \<inter> {''baseUrl'', ''apiKey''} = {}"
    and "fst ` set es \<inter> fst ` set (pidx_Settings ir) = {}"
  shows "fold read_indexer_field (map (\<lambda>(k, v). mk_field k (VString v)) es) ir = ir\<lparr>pidx_Settings := pidx_Settings ir @ es\<rparr>"
  using assms
proof (induction es arbitrary: ir)
  case (Cons e es)
  obtain k v where e: "e = (k, v)" by fastforce
  have "read_indexer_field (mk_field k (VString v)) ir = ir\<lparr>pidx_Settings := pidx_Settings ir @ [(k, v)]\<rparr>"
    using Cons.prems e by (auto simp: read_indexer_field_def gm_set_new)
  moreover have "fst ` set es \<inter> fst ` set (pidx_Settings (ir\<lparr>pidx_Settings := pidx_Settings ir @ [(k, v)]\<rparr>)) = {}"
    using Cons.prems e by auto
  ultimately show ?case using Cons e by simp
qed simp

lemma prowlarr_indexer_read_back:
  assumes "indexer_settles d" and "valid_order ord"
  shows "indexersEqual (indexer_ir (answer_indexer hide i (indexer_resource ord j d tagID))) d"
proof -
  define es where "es = gm_range ord 0 (pidx_Settings d)"
  have es: "distinct (map fst es)" "set es = set (pidx_Settings d)" "length es = length (pidx_Settings d)"
    using assms by (simp_all add: es_def indexer_settles_def distinct_gm_range)
  have keys: "fst ` set es \<inter> {''baseUrl'', ''apiKey'', ''password''} = {}"
    using assms(1) es(2) by (simp add: indexer_settles_def)
  then have answered: "map (answer_field hide \<circ> (\<lambda>(k, v). mk_field k (VString v))) es = map (\<lambda>(k, v). mk_field k (VString v)) es"
    by (force simp: answer_value_def)
  have read: "fold read_indexer_field (map (\<lambda>(k, v). mk_field k (VString v)) es) ir = ir\<lparr>pidx_Settings := es\<rparr>"
    if "pidx_Settings ir = []" for ir
    using read_settings [OF es(1), of ir] keys that by auto
  define r where "r = indexer_ir (answer_indexer hide i (indexer_resource ord j d tagID))"
  have r: "pidx_Definition r = pidx_Definition d" "pidx_Enable r = pidx_Enable d" "pidx_Priority r = pidx_Priority d"
      "pidx_BaseURL r = pidx_BaseURL d" "pidx_Settings r = es"
    by (simp_all add: r_def indexer_ir_def answer_indexer_def indexer_resource_def indexer_fields_def es_def [symmetric]
        answered read read_indexer_field_def answer_value_def split: option.split)
  have "map_of (pidx_Settings d) k = Some v" if "(k, v) \<in> set es" for k v
    using that assms(1) by (simp add: es(2) indexer_settles_def set_gm_map_of)
  then show ?thesis
    unfolding r_def [symmetric] by (auto simp: indexersEqual_def r es(3) list_all_iff)
qed

section \<open>The conversions as codecs\<close>

lemma read_keeps_name:
  "pidx_Name (fold read_indexer_field fs x) = pidx_Name x" "px_Name (fold read_proxy_field fs y) = px_Name y"
  "app_Name (fold append_sync_category vs z) = app_Name z"
  "app_Name (fold read_application_field fs z) = app_Name z" "dc_Name (fold read_client_field fs w) = dc_Name w"
proof -
  show cats: "app_Name (fold append_sync_category vs z) = app_Name z" for vs z
    by (induction vs arbitrary: z) (simp_all add: append_sync_category_def split: option.split)
  show "pidx_Name (fold read_indexer_field fs x) = pidx_Name x"
    by (induction fs arbitrary: x) (simp_all add: read_indexer_field_def split: option.split)
  show "px_Name (fold read_proxy_field fs y) = px_Name y"
    by (induction fs arbitrary: y) (simp_all add: read_proxy_field_def split: option.split)
  show "app_Name (fold read_application_field fs z) = app_Name z"
    by (induction fs arbitrary: z) (simp_all add: read_application_field_def cats split: option.split)
  show "dc_Name (fold read_client_field fs w) = dc_Name w"
    by (induction fs arbitrary: w) (simp_all add: read_client_field_def split: option.split)
qed

lemma prowlarr_indexer_codec_simps:
  "pidx_Name (indexer_ir r) = pir_Name r" "pir_ID (answer_indexer hide i r) = i" "pir_Name (answer_indexer hide i r) = pir_Name r"
  "pir_Tags (answer_indexer hide i r) = pir_Tags r" "pir_Name (indexer_resource ord j d tagID) = pidx_Name d" "hasTag (pir_Tags (indexer_resource ord j d tagID)) tagID"
  "answer_indexer hide i (indexer_resource ord i d tagID) = answer_indexer hide i (indexer_resource ord 0 d tagID)"
  by (simp_all add: indexer_ir_def read_keeps_name answer_indexer_def indexer_resource_def hasTag_def)

lemma proxy_codec_simps:
  "px_Name (proxy_ir r) = ppr_Name r" "ppr_ID (answer_proxy hide i r) = i" "ppr_Name (answer_proxy hide i r) = ppr_Name r"
  "ppr_Tags (answer_proxy hide i r) = ppr_Tags r" "ppr_Name (proxy_resource j d tagID) = px_Name d" "hasTag (ppr_Tags (proxy_resource j d tagID)) tagID"
  "answer_proxy hide i (proxy_resource i d tagID) = answer_proxy hide i (proxy_resource 0 d tagID)"
  by (simp_all add: proxy_ir_def read_keeps_name answer_proxy_def proxy_resource_def hasTag_def)

lemma application_codec_simps:
  "app_Name (application_ir r) = pas_Name r" "pas_ID (answer_application hide i r) = i" "pas_Name (answer_application hide i r) = pas_Name r"
  "pas_Tags (answer_application hide i r) = pas_Tags r" "pas_Name (application_resource j d tagID) = app_Name d" "hasTag (pas_Tags (application_resource j d tagID)) tagID"
  "answer_application hide i (application_resource i d tagID) = answer_application hide i (application_resource 0 d tagID)"
  by (simp_all add: application_ir_def read_keeps_name answer_application_def application_resource_def hasTag_def)

lemma prowlarr_client_codec_simps:
  "dc_Name (client_ir r) = pdr_Name r" "pdr_ID (answer_client hide i r) = i" "pdr_Name (answer_client hide i r) = pdr_Name r"
  "pdr_Tags (answer_client hide i r) = pdr_Tags r" "pdr_Name (client_resource j d tagID) = dc_Name d" "hasTag (pdr_Tags (client_resource j d tagID)) tagID"
  "answer_client hide i (client_resource i d tagID) = answer_client hide i (client_resource 0 d tagID)"
  by (simp_all add: client_ir_def read_keeps_name answer_client_def client_resource_def hasTag_def)

definition proxy_sendable :: "IndexerProxyIR \<Rightarrow> bool" where
  "proxy_sendable d \<longleftrightarrow> proxy_settles d \<and> exact_int (px_Port d) \<and> exact_int (px_RequestTimeout d)"

definition application_sendable :: "ProwlarrApplicationIR \<Rightarrow> bool" where
  "application_sendable d \<longleftrightarrow> application_settles d \<and> (\<forall>c \<in> set (app_SyncCategories d). exact_int c)"

definition client_sendable :: "DownloadClientIR \<Rightarrow> bool" where
  "client_sendable d \<longleftrightarrow> client_settles d \<and> exact_int (dc_Port d)"

text \<open>
  A codec beside the cache of IDs it goes with. The cache is coherent when it has the ID of
  every managed resource; stale entries under other names do no harm.
\<close>

locale cached_codec = wire_codec key same sendable rid rname mine toIR send resend store
  for key :: "'a \<Rightarrow> string" and same sendable and rid :: "'r \<Rightarrow> int" and rname mine toIR send resend store +
  fixes sel :: "ProwlarrVars \<Rightarrow> id_cache" and upd :: "(id_cache \<Rightarrow> id_cache) \<Rightarrow> ProwlarrVars \<Rightarrow> ProwlarrVars"
  assumes sel_upd: "sel (upd f v) = f (sel v)"
    and upd_upd: "upd f (upd g v) = upd (f \<circ> g) v"
    and upd_id: "upd id v = v"

interpretation pidx: cached_codec pidx_Name indexersEqual "\<lambda>d. indexer_settles d \<and> valid_order (ords d)" pir_ID pir_Name
    "\<lambda>r. hasTag (pir_Tags r) tagID" indexer_ir "\<lambda>d. indexer_resource (ords d) 0 d tagID" "\<lambda>i d. indexer_resource (ords d) i d tagID"
    "answer_indexer hide" indexerIDCache indexerIDCache_update
  for ords tagID hide
  by unfold_locales (simp_all add: prowlarr_indexer_codec_simps prowlarr_indexer_read_back o_def)

interpretation ppx: cached_codec px_Name proxiesEqual proxy_sendable ppr_ID ppr_Name
    "\<lambda>r. hasTag (ppr_Tags r) tagID" proxy_ir "\<lambda>d. proxy_resource 0 d tagID" "\<lambda>i d. proxy_resource i d tagID"
    "answer_proxy hide" proxyIDCache proxyIDCache_update
  for tagID hide
  by unfold_locales (simp_all add: proxy_codec_simps proxy_read_back proxy_sendable_def o_def)

interpretation papp: cached_codec app_Name applicationsEqual application_sendable pas_ID pas_Name
    "\<lambda>r. hasTag (pas_Tags r) tagID" application_ir "\<lambda>d. application_resource 0 d tagID" "\<lambda>i d. application_resource i d tagID"
    "answer_application hide" applicationIDCache applicationIDCache_update
  for tagID hide
  by unfold_locales (simp_all add: application_codec_simps application_read_back application_sendable_def o_def)

interpretation pdc: cached_codec dc_Name downloadClientsEqual client_sendable pdr_ID pdr_Name
    "\<lambda>r. hasTag (pdr_Tags r) tagID" client_ir "\<lambda>d. client_resource 0 d tagID" "\<lambda>i d. client_resource i d tagID"
    "answer_client hide" downloadClientIDCache downloadClientIDCache_update
  for tagID hide
  by unfold_locales (simp_all add: prowlarr_client_codec_simps prowlarr_client_read_back client_sendable_def o_def)

end
