(* ===== verification/Prowlarr_Converge.thy ===== *)
theory Prowlarr_Converge
  imports Prowlarr_Codec
begin

text \<open>
  One reconciliation pass of the Prowlarr adapter over everything it manages:
  \<^verbatim>\<open>CurrentState\<close>, \<^verbatim>\<open>Diff\<close>, \<^verbatim>\<open>Apply\<close>, then \<^verbatim>\<open>CurrentState\<close> again, with an empty
  diff. The changes name no IDs, so the proof carries an invariant of the caches: they are
  coherent with what the service lists. The four kinds of resources are put together as one
  keyed collection whose keys are resource type and name.
\<close>

section \<open>Cached operations on one collection\<close>

lemma cacheKey_inject [simp]: "cacheKey b n = cacheKey b m \<longleftrightarrow> n = m"
  by (simp add: cacheKey_def)

text \<open>
  Beyond \<open>rest_collection\<close>: the answer to a post carries the ID that was assigned, and no call
  changes \<open>rest\<close>, what the service keeps besides this collection.
\<close>

definition kind_service ::
    "('s, 'r list) action \<Rightarrow> ('r \<Rightarrow> ('s, 'r) action) \<Rightarrow> (int \<Rightarrow> 'r \<Rightarrow> ('s, 'r) action) \<Rightarrow> (int \<Rightarrow> ('s, unit) action)
     \<Rightarrow> ('s \<Rightarrow> 'r list) \<Rightarrow> ('r \<Rightarrow> int) \<Rightarrow> ('r \<Rightarrow> string) \<Rightarrow> (int \<Rightarrow> 'r \<Rightarrow> 'r) \<Rightarrow> ('s \<Rightarrow> 'z) \<Rightarrow> bool" where
  "kind_service lst post put del listed rid rname store rest \<longleftrightarrow>
     rest_collection lst post put del listed rid rname store \<and>
     (\<forall>r s r' s' x. post r s = (Ok r', s') \<and> listed s' = listed s @ [x] \<longrightarrow> rid r' = rid x) \<and>
     (\<forall>r s. rest (snd (post r s)) = rest s) \<and> (\<forall>i r s. rest (snd (put i r s)) = rest s) \<and>
     (\<forall>i s. rest (snd (del i s)) = rest s)"

lemma kind_serviceD:
  assumes "kind_service lst post put del listed rid rname store rest"
  shows "rest_collection lst post put del listed rid rname store"
    and "post r s = (Ok r', s') \<Longrightarrow> listed s' = listed s @ [x] \<Longrightarrow> rid r' = rid x"
    and "post r s = (q, s') \<Longrightarrow> rest s' = rest s" and "put i r s = (q, s') \<Longrightarrow> rest s' = rest s"
    and "del i s = (q', s') \<Longrightarrow> rest s' = rest s"
  using assms unfolding kind_service_def by (blast, blast, metis snd_conv, metis snd_conv, metis snd_conv)

context cached_codec
begin

definition coherent :: "string \<Rightarrow> ProwlarrVars \<Rightarrow> 'r list \<Rightarrow> bool" where
  "coherent base v rs \<longleftrightarrow> (\<forall>r \<in> set rs. mine r \<longrightarrow> map_of (sel v) (cacheKey base (rname r)) = Some (rid r))"

definition tracked :: "('s \<Rightarrow> 'r list) \<Rightarrow> 'r list \<Rightarrow> string \<Rightarrow> ProwlarrVars \<times> 's \<Rightarrow> bool" where
  "tracked listed others base vs \<longleftrightarrow>
     collection_kept rid rname mine others (listed (snd vs)) \<and> coherent base (fst vs) (listed (snd vs))"

definition view :: "('s \<Rightarrow> 'r list) \<Rightarrow> ProwlarrVars \<times> 's \<Rightarrow> string \<rightharpoonup> 'a" where
  "view listed vs = latest key (managed (listed (snd vs)))"

lemma fold_upd: "fold (\<lambda>r. upd (f r)) rs v = upd (fold f rs) v"
proof (induction rs arbitrary: v)
  case Nil
  then show ?case by (simp add: upd_id [unfolded id_def])
next
  case (Cons r rs)
  then show ?case by (simp add: upd_upd o_def)
qed

lemma read_run:
  assumes svc: "kind_service lst post put del listed rid rname store rest"
    and dist: "distinct (map rid (listed (snd vs)))" "distinct (map rname (listed (snd vs)))"
  shows "\<exists>g. read_managed upd base rname rid mine toIR lst vs = (Ok (managed (listed (snd vs))), (upd g (fst vs), snd vs)) \<and>
    tracked listed (filter (\<lambda>r. \<not> mine r) (listed (snd vs))) base (upd g (fst vs), snd vs)"
proof -
  let ?rs = "filter mine (listed (snd vs))" and ?f = "\<lambda>r. gm_set (cacheKey base (rname r)) (rid r)"
  have "map_of (fold ?f rs m) (cacheKey base (rname r)) = Some (rid r)"
    if "distinct (map rname rs)" "r \<in> set rs" for rs m r
    using that
  proof (induction rs rule: rev_induct)
    case (snoc x xs)
    then show ?case by (auto simp: image_iff)
  qed simp
  then have "coherent base (upd (fold ?f ?rs) (fst vs)) (listed (snd vs))"
    using dist(2) by (simp add: coherent_def sel_upd distinct_map_filter)
  then have "tracked listed (filter (\<lambda>r. \<not> mine r) (listed (snd vs))) base (upd (fold ?f ?rs) (fst vs), snd vs)"
    using dist by (simp add: tracked_def collection_kept_def)
  then show ?thesis
    by (intro exI [of _ "fold ?f ?rs"])
      (simp add: read_managed_def rest_collectionD(1) [OF kind_serviceD(1) [OF svc]] on_service_def andThen_def managed_def fold_upd)
qed

lemma create_run:
  assumes svc: "kind_service lst post put del listed rid rname store rest" and tr: "tracked listed others base vs"
    and d: "key d \<notin> rname ` set others" "sendable d" "view listed vs (key d) = None"
  shows "\<exists>x g s'. andThen (on_service (wrap_err e (post (send d)))) (\<lambda>created. remember upd base (key d) (rid created)) vs =
      (Ok (), (upd g (fst vs), s')) \<and> tracked listed others base (upd g (fst vs), s') \<and> same x d \<and>
      view listed (upd g (fst vs), s') = (view listed vs)(key d \<mapsto> x) \<and> rest s' = rest (snd vs)"
proof -
  note kept = tr [unfolded tracked_def, THEN conjunct1]
  obtain i r' s' where s': "post (send d) (snd vs) = (Ok r', s')" "listed s' = listed (snd vs) @ [store i (send d)]"
      "collection_kept rid rname mine others (listed s')" "same (toIR (store i (send d))) d"
      "latest key (managed (listed s')) = (latest key (managed (listed (snd vs))))(key d \<mapsto> toIR (store i (send d)))"
    using post_effect [OF kind_serviceD(1) [OF svc] kept d(1,2) d(3) [unfolded view_def]] by blast
  have i: "rid r' = i" using kind_serviceD(2) [OF svc s'(1,2)] by (simp add: store_rid)
  let ?g = "gm_set (cacheKey base (key d)) i"
  have "rname r \<noteq> key d" if "r \<in> set (listed (snd vs))" "mine r" for r
    using d(3) that by (simp add: view_def view_None_iff)
  then have "coherent base (upd ?g (fst vs)) (listed s')"
    using tr by (auto simp: tracked_def coherent_def s'(2) sel_upd store_rname send_rname store_rid)
  then show ?thesis
    using s' i kind_serviceD(3) [OF svc s'(1)]
    by (intro exI [of _ "toIR (store i (send d))"] exI [of _ ?g] exI [of _ s'])
      (simp add: on_service_def andThen_def wrap_err_def remember_def tracked_def view_def)
qed

lemma cached_id:
  assumes "tracked listed others base vs" and "view listed vs k = Some c"
  obtains r where "r \<in> set (listed (snd vs))" "mine r" "rname r = k"
    "map_of (sel (fst vs)) (cacheKey base k) = Some (rid r)"
proof -
  note tr = assms(1) [unfolded tracked_def]
  from tr [THEN conjunct1] assms(2) [unfolded view_def]
  obtain r where "r \<in> set (listed (snd vs))" "mine r" "rname r = k" "c = toIR r" by (rule managed_resource)
  with tr [THEN conjunct2] show ?thesis by (intro that) (auto simp: coherent_def)
qed

lemma update_run:
  assumes svc: "kind_service lst post put del listed rid rname store rest" and tr: "tracked listed others base vs"
    and d: "sendable d" "view listed vs (key d) = Some c"
  shows "\<exists>x g s'. andThen (id_to_update sel upd base rname rid lst (key d) nf)
        (\<lambda>i. on_service (wrap_err e (discard (put i (resend i d))))) vs = (Ok (), (upd g (fst vs), s')) \<and>
      tracked listed others base (upd g (fst vs), s') \<and> same x d \<and>
      view listed (upd g (fst vs), s') = (view listed vs)(key d \<mapsto> x) \<and> rest s' = rest (snd vs)"
proof -
  note kept = tr [unfolded tracked_def, THEN conjunct1]
  obtain r where r: "r \<in> set (listed (snd vs))" "mine r" "rname r = key d"
      and cached: "map_of (sel (fst vs)) (cacheKey base (key d)) = Some (rid r)"
    using cached_id [OF tr d(2)] .
  define y where "y = store (rid r) (send d)"
  obtain r' s' where s': "put (rid r) (resend (rid r) d) (snd vs) = (Ok r', s')"
      "listed s' = map (\<lambda>x. if rid x = rid r then y else x) (listed (snd vs))"
      "collection_kept rid rname mine others (listed s')" "same (toIR y) d"
      "latest key (managed (listed s')) = (latest key (managed (listed (snd vs))))(key d \<mapsto> toIR y)"
    using put_effect [OF kind_serviceD(1) [OF svc] kept r d(1)] unfolding y_def by blast
  have y: "rid y = rid r" "rname y = rname r" by (simp_all add: y_def store_rid store_rname send_rname r)
  then have "coherent base (fst vs) (listed s')"
    using tr cached r(3) by (auto simp: tracked_def coherent_def s'(2))
  then show ?thesis
    using s' cached kind_serviceD(4) [OF svc s'(1)]
    by (intro exI [of _ "toIR y"] exI [of _ id] exI [of _ s'])
      (simp add: upd_id id_to_update_def on_service_def andThen_def wrap_err_def discard_def give_def tracked_def view_def)
qed

lemma delete_run:
  assumes svc: "kind_service lst post put del listed rid rname store rest" and tr: "tracked listed others base vs"
    and c: "view listed vs k = Some c"
  shows "\<exists>g s'. andThen (id_to_delete sel base rname rid lst k) (\<lambda>i. case i of None \<Rightarrow> give ()
        | Some i \<Rightarrow> andThen (on_service (wrap_err e (del i))) (\<lambda>_. forget upd base k)) vs = (Ok (), (upd g (fst vs), s')) \<and>
      tracked listed others base (upd g (fst vs), s') \<and>
      view listed (upd g (fst vs), s') = (view listed vs)(k := None) \<and> rest s' = rest (snd vs)"
proof -
  note kept = tr [unfolded tracked_def, THEN conjunct1]
  obtain r where r: "r \<in> set (listed (snd vs))" "mine r" "rname r = k"
      and cached: "map_of (sel (fst vs)) (cacheKey base k) = Some (rid r)"
    using cached_id [OF tr c] .
  obtain s' where s': "del (rid r) (snd vs) = (Ok (), s')" "listed s' = filter (\<lambda>x. rid x \<noteq> rid r) (listed (snd vs))"
      "collection_kept rid rname mine others (listed s')"
      "latest key (managed (listed s')) = (latest key (managed (listed (snd vs))))(rname r := None)"
    using delete_effect [OF kind_serviceD(1) [OF svc] kept r(1,2)] by blast
  let ?g = "AList.delete (cacheKey base k)"
  have "rname x \<noteq> k" if "x \<in> set (listed s')" for x
    using that kept r s'(2) by (auto simp: collection_kept_def distinct_map inj_on_def)
  then have "coherent base (upd ?g (fst vs)) (listed s')"
    using tr s'(2) by (auto simp: tracked_def coherent_def sel_upd delete_conv')
  then show ?thesis
    using s' cached r(3) kind_serviceD(5) [OF svc s'(1)]
    by (intro exI [of _ ?g] exI [of _ s'])
      (simp add: id_to_delete_def on_service_def andThen_def wrap_err_def forget_def give_def tracked_def view_def)
qed

end

section \<open>The four kinds as one collection\<close>

datatype item = IndexerItem ProwlarrIndexerIR | ProxyItem IndexerProxyIR | ApplicationItem ProwlarrApplicationIR
  | ClientItem DownloadClientIR

fun item_key :: "item \<Rightarrow> string \<times> string" where
  "item_key (IndexerItem d) = (ResourceIndexer, pidx_Name d)"
| "item_key (ProxyItem d) = (ResourceIndexerProxy, px_Name d)"
| "item_key (ApplicationItem d) = (ResourceApplication, app_Name d)"
| "item_key (ClientItem d) = (ResourceDownloadClient, dc_Name d)"

fun item_same :: "item \<Rightarrow> item \<Rightarrow> bool" where
  "item_same (IndexerItem c) (IndexerItem d) = indexersEqual c d"
| "item_same (ProxyItem c) (ProxyItem d) = proxiesEqual c d"
| "item_same (ApplicationItem c) (ApplicationItem d) = applicationsEqual c d"
| "item_same (ClientItem c) (ClientItem d) = downloadClientsEqual c d"
| "item_same _ _ = False"

fun item_payload :: "item \<Rightarrow> Payload" where
  "item_payload (IndexerItem d) = ProwlarrIndexerVal d"
| "item_payload (ProxyItem d) = IndexerProxyVal d"
| "item_payload (ApplicationItem d) = ProwlarrApplicationVal d"
| "item_payload (ClientItem d) = DownloadClientVal d"

definition item_change :: "string \<times> string \<Rightarrow> Payload \<Rightarrow> Change" where
  "item_change k p = \<lparr>ch_ResourceType = fst k, ch_Name = snd k, ch_ID = None, ch_Payload = p\<rparr>"

definition items :: "ProwlarrIR \<Rightarrow> item list" where
  "items p = map IndexerItem (pr_Indexers p) @ map ProxyItem (pr_Proxies p) @ map ApplicationItem (pr_Applications p) @
     map ClientItem (pr_DownloadClients p)"

lemma latest_append: "latest key (xs @ ys) k = (case latest key ys k of None \<Rightarrow> latest key xs k | Some x \<Rightarrow> Some x)"
  by (simp add: latest_def find_append split: option.split)

lemma latest_tagged:
  assumes "\<And>d. key (F d) = (T, name d)"
  shows "latest key (map F xs) (t, n) = (if t = T then map_option F (latest name xs n) else None)"
  by (induction xs rule: rev_induct) (auto simp: latest_snoc assms)

lemma latest_items:
  "latest item_key (items p) (t, n) =
     (if t = ResourceIndexer then map_option IndexerItem (latest pidx_Name (pr_Indexers p) n)
      else if t = ResourceIndexerProxy then map_option ProxyItem (latest px_Name (pr_Proxies p) n)
      else if t = ResourceApplication then map_option ApplicationItem (latest app_Name (pr_Applications p) n)
      else if t = ResourceDownloadClient then map_option ClientItem (latest dc_Name (pr_DownloadClients p) n)
      else None)"
  by (simp add: items_def latest_append latest_tagged [where T = ResourceIndexer and name = pidx_Name]
      latest_tagged [where T = ResourceIndexerProxy and name = px_Name]
      latest_tagged [where T = ResourceApplication and name = app_Name]
      latest_tagged [where T = ResourceDownloadClient and name = dc_Name] split: option.split)

section \<open>The adapter's diff is a keyed diff of the items\<close>

definition bare :: ProwlarrIR where
  "bare = \<lparr>pr_Connection = None, pr_Indexers = [], pr_Proxies = [], pr_Applications = [], pr_DownloadClients = [],
     pr_Unrealized = []\<rparr>"

abbreviation kind_create :: "string \<Rightarrow> ('a \<Rightarrow> item) \<Rightarrow> string \<Rightarrow> 'a \<Rightarrow> Change" where
  "kind_create t F n d \<equiv> item_change (t, n) (item_payload (F d))"

abbreviation kind_delete :: "string \<Rightarrow> string \<Rightarrow> 'a \<Rightarrow> Change" where
  "kind_delete t n c \<equiv> item_change (t, n) NoPayload"

interpretation idiff: keyed_diff pidx_Name indexersEqual "kind_create ResourceIndexer IndexerItem"
    "\<lambda>n c. kind_create ResourceIndexer IndexerItem n" "kind_delete ResourceIndexer"
    "\<lambda>ord cur des. diffIndexers ord (bare\<lparr>pr_Indexers := cur\<rparr>) (bare\<lparr>pr_Indexers := des\<rparr>)"
  by unfold_locales (simp add: diffIndexers_def upsert_loop_def delete_loop_def item_change_def Let_def)

interpretation xdiff: keyed_diff px_Name proxiesEqual "kind_create ResourceIndexerProxy ProxyItem"
    "\<lambda>n c. kind_create ResourceIndexerProxy ProxyItem n" "kind_delete ResourceIndexerProxy"
    "\<lambda>ord cur des. diffProxies ord (bare\<lparr>pr_Proxies := cur\<rparr>) (bare\<lparr>pr_Proxies := des\<rparr>)"
  by unfold_locales (simp add: diffProxies_def upsert_loop_def delete_loop_def item_change_def Let_def)

interpretation adiff: keyed_diff app_Name applicationsEqual "kind_create ResourceApplication ApplicationItem"
    "\<lambda>n c. kind_create ResourceApplication ApplicationItem n" "kind_delete ResourceApplication"
    "\<lambda>ord cur des. diffApplications ord (bare\<lparr>pr_Applications := cur\<rparr>) (bare\<lparr>pr_Applications := des\<rparr>)"
  by unfold_locales (simp add: diffApplications_def upsert_loop_def delete_loop_def item_change_def Let_def)

interpretation cdiff: keyed_diff dc_Name downloadClientsEqual "kind_create ResourceDownloadClient ClientItem"
    "\<lambda>n c. kind_create ResourceDownloadClient ClientItem n" "kind_delete ResourceDownloadClient"
    "\<lambda>ord cur des. diffDownloadClients ord (bare\<lparr>pr_DownloadClients := cur\<rparr>) (bare\<lparr>pr_DownloadClients := des\<rparr>)"
  by unfold_locales (simp add: diffDownloadClients_def upsert_loop_def delete_loop_def item_change_def Let_def)

lemma diff_parts:
  "diffIndexers ord c d = diffIndexers ord (bare\<lparr>pr_Indexers := pr_Indexers c\<rparr>) (bare\<lparr>pr_Indexers := pr_Indexers d\<rparr>)"
  "diffProxies ord c d = diffProxies ord (bare\<lparr>pr_Proxies := pr_Proxies c\<rparr>) (bare\<lparr>pr_Proxies := pr_Proxies d\<rparr>)"
  "diffApplications ord c d = diffApplications ord (bare\<lparr>pr_Applications := pr_Applications c\<rparr>) (bare\<lparr>pr_Applications := pr_Applications d\<rparr>)"
  "diffDownloadClients ord c d = diffDownloadClients ord (bare\<lparr>pr_DownloadClients := pr_DownloadClients c\<rparr>) (bare\<lparr>pr_DownloadClients := pr_DownloadClients d\<rparr>)"
  by (simp_all add: fun_eq_iff diffIndexers_def diffProxies_def diffApplications_def diffDownloadClients_def)

text \<open>The entries of the four indexes, tagged with their kind, as the loops \<open>t\<close> of the four diffs visit them.\<close>

abbreviation tag_entries :: "string \<Rightarrow> ('a \<Rightarrow> item) \<Rightarrow> (string \<times> 'a) list \<Rightarrow> ((string \<times> string) \<times> item) list" where
  "tag_entries t F es \<equiv> map (\<lambda>(n, d). ((t, n), F d)) es"

definition item_entries :: "range_order \<Rightarrow> nat \<Rightarrow> ProwlarrIR \<Rightarrow> ((string \<times> string) \<times> item) list" where
  "item_entries ord t p =
     tag_entries ResourceIndexer IndexerItem (gm_range (diff_order 0 ord) t (index_by pidx_Name (pr_Indexers p))) @
     tag_entries ResourceIndexerProxy ProxyItem (gm_range (diff_order 1 ord) t (index_by px_Name (pr_Proxies p))) @
     tag_entries ResourceApplication ApplicationItem (gm_range (diff_order 2 ord) t (index_by app_Name (pr_Applications p))) @
     tag_entries ResourceDownloadClient ClientItem (gm_range (diff_order 3 ord) t (index_by dc_Name (pr_DownloadClients p)))"

lemma map_of_tag_entries: "map_of (tag_entries T F es) (t, n) = (if t = T then map_option F (map_of es n) else None)"
  by (induction es) auto

lemma distinct_tag_entries: "distinct (map fst es) \<Longrightarrow> distinct (map fst (tag_entries T F es))"
  by (induction es) (auto simp: image_iff split: prod.splits)

lemma keys_tag_entries: "k \<in> fst ` set (tag_entries T F es) \<Longrightarrow> fst k = T"
  by auto

lemma item_entries:
  assumes "valid_order ord"
  shows "entries item_key (items p) (item_entries ord t p)"
proof -
  have o: "valid_order (diff_order k ord)" for k using assms by simp
  have "distinct (map fst (item_entries ord t p))"
    unfolding item_entries_def map_append distinct_append set_append set_map
    by (intro conjI distinct_tag_entries entriesD(1) [OF entries_range [OF o]]) (auto dest!: keys_tag_entries)
  moreover have "map_of (item_entries ord t p) (a, n) = latest item_key (items p) (a, n)" for a n
    by (simp add: item_entries_def map_of_tag_entries map_add_def entriesD(2) [OF entries_range [OF o]] latest_items
        split: option.split)
  ultimately show ?thesis by (simp add: entries_def)
qed

lemma plan_tagged:
  assumes "\<And>n. latest item_key cur (T, n) = map_option F (latest name xs n)" and "\<And>a b. item_same (F a) (F b) = same a b"
  shows "concat (map (plan_create item_key mkC cur \<circ> (\<lambda>(n, d). ((T, n), F d))) es) =
      concat (map (plan_create name (\<lambda>n d. mkC (T, n) (F d)) xs) es)"
    and "concat (map (plan_update item_key item_same mkU cur \<circ> (\<lambda>(n, d). ((T, n), F d))) es) =
      concat (map (plan_update name same (\<lambda>n c d. mkU (T, n) (F c) (F d)) xs) es)"
    and "concat (map (plan_delete item_key mkD cur \<circ> (\<lambda>(n, d). ((T, n), F d))) es) =
      concat (map (plan_delete name (\<lambda>n c. mkD (T, n) (F c)) xs) es)"
  by (induction es)
    (auto simp: plan_create_def plan_update_def plan_delete_def assms split: option.splits)

lemma kind_items:
  "latest item_key (items p) (ResourceIndexer, n) = map_option IndexerItem (latest pidx_Name (pr_Indexers p) n)"
  "latest item_key (items p) (ResourceIndexerProxy, n) = map_option ProxyItem (latest px_Name (pr_Proxies p) n)"
  "latest item_key (items p) (ResourceApplication, n) = map_option ApplicationItem (latest app_Name (pr_Applications p) n)"
  "latest item_key (items p) (ResourceDownloadClient, n) = map_option ClientItem (latest dc_Name (pr_DownloadClients p) n)"
  by (simp_all add: latest_items)

lemmas plan_kinds =
  plan_tagged [OF kind_items(1) item_same.simps(1)] plan_tagged [OF kind_items(2) item_same.simps(2)]
  plan_tagged [OF kind_items(3) item_same.simps(3)] plan_tagged [OF kind_items(4) item_same.simps(4)]

lemma Diff_plan:
  assumes "ir_Prowlarr current = Some c" and "ir_Prowlarr desired = Some d"
  shows "Diff ord current desired =
    \<lparr>cs_Creates = concat (map (plan_create item_key (\<lambda>k x. item_change k (item_payload x)) (items c)) (item_entries ord 0 d)),
     cs_Updates = concat (map (plan_update item_key item_same (\<lambda>k _ x. item_change k (item_payload x)) (items c)) (item_entries ord 0 d)),
     cs_Deletes = concat (map (plan_delete item_key (\<lambda>k _. item_change k NoPayload) (items d)) (item_entries ord 1 c))\<rparr>"
  using assms
  by (simp add: Diff_def Let_def diff_parts [of _ c d] idiff.diff_appends xdiff.diff_appends adiff.diff_appends
      cdiff.diff_appends cs_append_def no_changes_def item_entries_def plan_kinds)

section \<open>The service\<close>

definition prowlarr_service ::
    "(GoValue \<Rightarrow> GoValue) \<Rightarrow> 's ProwlarrAPI \<Rightarrow> int \<Rightarrow> ('s \<Rightarrow> IndexerResource list) \<Rightarrow> ('s \<Rightarrow> IndexerProxyResource list)
     \<Rightarrow> ('s \<Rightarrow> ApplicationResource list) \<Rightarrow> ('s \<Rightarrow> DownloadClientResource list) \<Rightarrow> bool" where
  "prowlarr_service hide api tagID li lp la ld \<longleftrightarrow>
     (\<forall>s. getOwnershipTagID api s = (Ok tagID, s)) \<and>
     kind_service (list_indexers api) (ep_post (papi_indexers api) ''/api/v1/indexer'')
       (\<lambda>i. ep_put (papi_indexers api) (''/api/v1/indexer/'' @ Itoa i)) (\<lambda>i. papi_delete api (''/api/v1/indexer/'' @ Itoa i))
       li pir_ID pir_Name (answer_indexer hide) (\<lambda>s. (lp s, la s, ld s)) \<and>
     kind_service (list_proxies api) (ep_post (papi_proxies api) ''/api/v1/indexerproxy'')
       (\<lambda>i. ep_put (papi_proxies api) (''/api/v1/indexerproxy/'' @ Itoa i)) (\<lambda>i. papi_delete api (''/api/v1/indexerproxy/'' @ Itoa i))
       lp ppr_ID ppr_Name (answer_proxy hide) (\<lambda>s. (li s, la s, ld s)) \<and>
     kind_service (list_applications api) (ep_post (papi_applications api) ''/api/v1/applications'')
       (\<lambda>i. ep_put (papi_applications api) (''/api/v1/applications/'' @ Itoa i)) (\<lambda>i. papi_delete api (''/api/v1/applications/'' @ Itoa i))
       la pas_ID pas_Name (answer_application hide) (\<lambda>s. (li s, lp s, ld s)) \<and>
     kind_service (list_clients api) (ep_post (papi_clients api) ''/api/v1/downloadclient'')
       (\<lambda>i. ep_put (papi_clients api) (''/api/v1/downloadclient/'' @ Itoa i)) (\<lambda>i. papi_delete api (''/api/v1/downloadclient/'' @ Itoa i))
       ld pdr_ID pdr_Name (answer_client hide) (\<lambda>s. (li s, lp s, la s))"

lemma prowlarr_serviceD:
  assumes "prowlarr_service hide api tagID li lp la ld"
  shows "getOwnershipTagID api s = (Ok tagID, s)"
    and "kind_service (list_indexers api) (ep_post (papi_indexers api) ''/api/v1/indexer'')
       (\<lambda>i. ep_put (papi_indexers api) (''/api/v1/indexer/'' @ Itoa i)) (\<lambda>i. papi_delete api (''/api/v1/indexer/'' @ Itoa i))
       li pir_ID pir_Name (answer_indexer hide) (\<lambda>s. (lp s, la s, ld s))"
    and "kind_service (list_proxies api) (ep_post (papi_proxies api) ''/api/v1/indexerproxy'')
       (\<lambda>i. ep_put (papi_proxies api) (''/api/v1/indexerproxy/'' @ Itoa i)) (\<lambda>i. papi_delete api (''/api/v1/indexerproxy/'' @ Itoa i))
       lp ppr_ID ppr_Name (answer_proxy hide) (\<lambda>s. (li s, la s, ld s))"
    and "kind_service (list_applications api) (ep_post (papi_applications api) ''/api/v1/applications'')
       (\<lambda>i. ep_put (papi_applications api) (''/api/v1/applications/'' @ Itoa i)) (\<lambda>i. papi_delete api (''/api/v1/applications/'' @ Itoa i))
       la pas_ID pas_Name (answer_application hide) (\<lambda>s. (li s, lp s, ld s))"
    and "kind_service (list_clients api) (ep_post (papi_clients api) ''/api/v1/downloadclient'')
       (\<lambda>i. ep_put (papi_clients api) (''/api/v1/downloadclient/'' @ Itoa i)) (\<lambda>i. papi_delete api (''/api/v1/downloadclient/'' @ Itoa i))
       ld pdr_ID pdr_Name (answer_client hide) (\<lambda>s. (li s, lp s, la s))"
  using assms unfolding prowlarr_service_def by blast+

text \<open>The items a state of the service holds for the operator, and what holds of them throughout a pass.\<close>

definition managed_ir ::
    "int \<Rightarrow> ('s \<Rightarrow> IndexerResource list) \<Rightarrow> ('s \<Rightarrow> IndexerProxyResource list) \<Rightarrow> ('s \<Rightarrow> ApplicationResource list)
     \<Rightarrow> ('s \<Rightarrow> DownloadClientResource list) \<Rightarrow> 's \<Rightarrow> ProwlarrIR" where
  "managed_ir tagID li lp la ld s = bare\<lparr>pr_Indexers := pidx.managed tagID (li s), pr_Proxies := ppx.managed tagID (lp s),
     pr_Applications := papp.managed tagID (la s), pr_DownloadClients := pdc.managed tagID (ld s)\<rparr>"

definition all_tracked where
  "all_tracked tagID li lp la ld oi op oa od base vs \<longleftrightarrow>
     pidx.tracked tagID li oi base vs \<and> ppx.tracked tagID lp op base vs \<and>
     papp.tracked tagID la oa base vs \<and> pdc.tracked tagID ld od base vs"

definition all_view where
  "all_view tagID li lp la ld vs = latest item_key (items (managed_ir tagID li lp la ld (snd vs)))"

lemma all_view:
  "all_view tagID li lp la ld vs (t, n) =
     (if t = ResourceIndexer then map_option IndexerItem (pidx.view tagID li vs n)
      else if t = ResourceIndexerProxy then map_option ProxyItem (ppx.view tagID lp vs n)
      else if t = ResourceApplication then map_option ApplicationItem (papp.view tagID la vs n)
      else if t = ResourceDownloadClient then map_option ClientItem (pdc.view tagID ld vs n)
      else None)"
  by (simp add: all_view_def latest_items managed_ir_def pidx.view_def ppx.view_def papp.view_def pdc.view_def)

text \<open>What the theorem asks of the desired configuration: every item settles, and its name is not taken by somebody else.\<close>

definition desired_ok ::
    "(ProwlarrIndexerIR \<Rightarrow> range_order) \<Rightarrow> IndexerResource list \<Rightarrow> IndexerProxyResource list \<Rightarrow> ApplicationResource list
     \<Rightarrow> DownloadClientResource list \<Rightarrow> ProwlarrIR \<Rightarrow> bool" where
  "desired_ok ords oi op oa od p \<longleftrightarrow>
     (\<forall>d \<in> set (pr_Indexers p). indexer_settles d \<and> valid_order (ords d) \<and> pidx_Name d \<notin> pir_Name ` set oi) \<and>
     (\<forall>d \<in> set (pr_Proxies p). proxy_sendable d \<and> px_Name d \<notin> ppr_Name ` set op) \<and>
     (\<forall>d \<in> set (pr_Applications p). application_sendable d \<and> app_Name d \<notin> pas_Name ` set oa) \<and>
     (\<forall>d \<in> set (pr_DownloadClients p). client_sendable d \<and> dc_Name d \<notin> pdr_Name ` set od)"

lemma wanted_item:
  assumes "desired_ok ords oi op oa od p" and "latest item_key (items p) k = Some x"
  obtains (indexer) d where "x = IndexerItem d" "k = (ResourceIndexer, pidx_Name d)" "indexer_settles d" "valid_order (ords d)"
      "pidx_Name d \<notin> pir_Name ` set oi"
    | (proxy) d where "x = ProxyItem d" "k = (ResourceIndexerProxy, px_Name d)" "proxy_sendable d" "px_Name d \<notin> ppr_Name ` set op"
    | (application) d where "x = ApplicationItem d" "k = (ResourceApplication, app_Name d)" "application_sendable d"
      "app_Name d \<notin> pas_Name ` set oa"
    | (client) d where "x = ClientItem d" "k = (ResourceDownloadClient, dc_Name d)" "client_sendable d" "dc_Name d \<notin> pdr_Name ` set od"
  using latest_SomeD [OF assms(2)] assms(1) by (cases x) (auto simp: items_def desired_ok_def)

lemmas tracked_defs = all_tracked_def
  pidx.tracked_def ppx.tracked_def papp.tracked_def pdc.tracked_def
  pidx.coherent_def ppx.coherent_def papp.coherent_def pdc.coherent_def

lemmas view_defs = all_view pidx.view_def ppx.view_def papp.view_def pdc.view_def

lemma item_map_eqI: "(\<And>t n. f (t, n) = h (t, n)) \<Longrightarrow> f = (h :: string \<times> string \<rightharpoonup> item)"
  by (simp add: fun_eq_iff)

text \<open>A step on one kind, seen on all of them.\<close>

lemma step_all:
  assumes "all_tracked tagID li lp la ld oi op oa od base (v, s)"
  shows "pidx.tracked tagID li oi base (indexerIDCache_update g v, s') \<Longrightarrow> (lp s', la s', ld s') = (lp s, la s, ld s) \<Longrightarrow>
      pidx.view tagID li (indexerIDCache_update g v, s') = (pidx.view tagID li (v, s))(n := y) \<Longrightarrow>
      all_tracked tagID li lp la ld oi op oa od base (indexerIDCache_update g v, s') \<and>
      all_view tagID li lp la ld (indexerIDCache_update g v, s') = (all_view tagID li lp la ld (v, s))((ResourceIndexer, n) := map_option IndexerItem y)"
    and "ppx.tracked tagID lp op base (proxyIDCache_update g v, s') \<Longrightarrow> (li s', la s', ld s') = (li s, la s, ld s) \<Longrightarrow>
      ppx.view tagID lp (proxyIDCache_update g v, s') = (ppx.view tagID lp (v, s))(n := z) \<Longrightarrow>
      all_tracked tagID li lp la ld oi op oa od base (proxyIDCache_update g v, s') \<and>
      all_view tagID li lp la ld (proxyIDCache_update g v, s') = (all_view tagID li lp la ld (v, s))((ResourceIndexerProxy, n) := map_option ProxyItem z)"
    and "papp.tracked tagID la oa base (applicationIDCache_update g v, s') \<Longrightarrow> (li s', lp s', ld s') = (li s, lp s, ld s) \<Longrightarrow>
      papp.view tagID la (applicationIDCache_update g v, s') = (papp.view tagID la (v, s))(n := a) \<Longrightarrow>
      all_tracked tagID li lp la ld oi op oa od base (applicationIDCache_update g v, s') \<and>
      all_view tagID li lp la ld (applicationIDCache_update g v, s') = (all_view tagID li lp la ld (v, s))((ResourceApplication, n) := map_option ApplicationItem a)"
    and "pdc.tracked tagID ld od base (downloadClientIDCache_update g v, s') \<Longrightarrow> (li s', lp s', la s') = (li s, lp s, la s) \<Longrightarrow>
      pdc.view tagID ld (downloadClientIDCache_update g v, s') = (pdc.view tagID ld (v, s))(n := c) \<Longrightarrow>
      all_tracked tagID li lp la ld oi op oa od base (downloadClientIDCache_update g v, s') \<and>
      all_view tagID li lp la ld (downloadClientIDCache_update g v, s') = (all_view tagID li lp la ld (v, s))((ResourceDownloadClient, n) := map_option ClientItem c)"
  using assms
  by (intro conjI item_map_eqI, simp add: tracked_defs, simp add: view_defs)+

lemma apply_item:
  "applyCreate ords base api tagID (item_change (ResourceIndexer, n) (ProwlarrIndexerVal d1)) = createIndexer (ords d1) base api d1 tagID"
  "applyCreate ords base api tagID (item_change (ResourceIndexerProxy, n) (IndexerProxyVal d2)) = createProxy base api d2 tagID"
  "applyCreate ords base api tagID (item_change (ResourceApplication, n) (ProwlarrApplicationVal d3)) = createApplication base api d3 tagID"
  "applyCreate ords base api tagID (item_change (ResourceDownloadClient, n) (DownloadClientVal d4)) = createDownloadClient base api d4 tagID"
  "applyUpdate ords base api tagID (item_change (ResourceIndexer, n) (ProwlarrIndexerVal d1)) = updateIndexer (ords d1) base api d1 tagID"
  "applyUpdate ords base api tagID (item_change (ResourceIndexerProxy, n) (IndexerProxyVal d2)) = updateProxy base api d2 tagID"
  "applyUpdate ords base api tagID (item_change (ResourceApplication, n) (ProwlarrApplicationVal d3)) = updateApplication base api d3 tagID"
  "applyUpdate ords base api tagID (item_change (ResourceDownloadClient, n) (DownloadClientVal d4)) = updateDownloadClient base api d4 tagID"
  "applyDelete base api (item_change (ResourceIndexer, n) NoPayload) = deleteIndexer base api n"
  "applyDelete base api (item_change (ResourceIndexerProxy, n) NoPayload) = deleteProxy base api n"
  "applyDelete base api (item_change (ResourceApplication, n) NoPayload) = deleteApplication base api n"
  "applyDelete base api (item_change (ResourceDownloadClient, n) NoPayload) = deleteDownloadClient base api n"
  by (simp_all add: applyCreate_def applyUpdate_def applyDelete_def item_change_def)

lemma item_creates:
  assumes svc: "prowlarr_service hide api tagID li lp la ld" and ok: "desired_ok ords oi op oa od p"
  shows "creates_resource (all_tracked tagID li lp la ld oi op oa od base) (all_view tagID li lp la ld) item_same
    (latest item_key (items p)) (\<lambda>k x. item_change k (item_payload x)) (applyCreate ords base api tagID)"
  unfolding creates_resource_def
proof (intro allI impI, elim conjE)
  fix k x vs
  assume tr: "all_tracked tagID li lp la ld oi op oa od base vs" and x: "latest item_key (items p) k = Some x"
    and old: "all_view tagID li lp la ld vs k = None"
  obtain v s where vs: "vs = (v, s)" by fastforce
  note kinds = tr [unfolded all_tracked_def vs] and step = step_all [OF tr [unfolded vs]] and svcs = prowlarr_serviceD [OF svc]
  from ok x show "\<exists>y vs'. applyCreate ords base api tagID (item_change k (item_payload x)) vs = (Ok (), vs') \<and>
      all_tracked tagID li lp la ld oi op oa od base vs' \<and> item_same y x \<and>
      all_view tagID li lp la ld vs' = (all_view tagID li lp la ld vs)(k \<mapsto> y)"
  proof (cases rule: wanted_item)
    case (indexer d)
    have "pidx.view tagID li (v, s) (pidx_Name d) = None" using old indexer(2) by (simp add: vs all_view)
    then obtain y g s' where r: "createIndexer (ords d) base api d tagID (v, s) = (Ok (), (indexerIDCache_update g v, s'))"
        "pidx.tracked tagID li oi base (indexerIDCache_update g v, s')" "indexersEqual y d"
        "pidx.view tagID li (indexerIDCache_update g v, s') = (pidx.view tagID li (v, s))(pidx_Name d \<mapsto> y)" "(lp s', la s', ld s') = (lp s, la s, ld s)"
      using pidx.create_run [where ords = ords, OF svcs(2) kinds [THEN conjunct1] indexer(5) conjI [OF indexer(3,4)]] unfolding createIndexer_def fst_conv snd_conv by blast
    then show ?thesis using step(1) [OF r(2,5,4)] indexer(1,2)
      by (intro exI [of _ "IndexerItem y"] exI [of _ "(indexerIDCache_update g v, s')"]) (simp add: vs apply_item)
  next
    case (proxy d)
    have "ppx.view tagID lp (v, s) (px_Name d) = None" using old proxy(2) by (simp add: vs all_view)
    then obtain y g s' where r: "createProxy base api d tagID (v, s) = (Ok (), (proxyIDCache_update g v, s'))"
        "ppx.tracked tagID lp op base (proxyIDCache_update g v, s')" "proxiesEqual y d"
        "ppx.view tagID lp (proxyIDCache_update g v, s') = (ppx.view tagID lp (v, s))(px_Name d \<mapsto> y)" "(li s', la s', ld s') = (li s, la s, ld s)"
      using ppx.create_run [OF svcs(3) kinds [THEN conjunct2, THEN conjunct1] proxy(4,3)] unfolding createProxy_def fst_conv snd_conv by blast
    then show ?thesis using step(2) [OF r(2,5,4)] proxy(1,2)
      by (intro exI [of _ "ProxyItem y"] exI [of _ "(proxyIDCache_update g v, s')"]) (simp add: vs apply_item)
  next
    case (application d)
    have "papp.view tagID la (v, s) (app_Name d) = None" using old application(2) by (simp add: vs all_view)
    then obtain y g s' where r: "createApplication base api d tagID (v, s) = (Ok (), (applicationIDCache_update g v, s'))"
        "papp.tracked tagID la oa base (applicationIDCache_update g v, s')" "applicationsEqual y d"
        "papp.view tagID la (applicationIDCache_update g v, s') = (papp.view tagID la (v, s))(app_Name d \<mapsto> y)" "(li s', lp s', ld s') = (li s, lp s, ld s)"
      using papp.create_run [OF svcs(4) kinds [THEN conjunct2, THEN conjunct2, THEN conjunct1] application(4,3)] unfolding createApplication_def fst_conv snd_conv by blast
    then show ?thesis using step(3) [OF r(2,5,4)] application(1,2)
      by (intro exI [of _ "ApplicationItem y"] exI [of _ "(applicationIDCache_update g v, s')"]) (simp add: vs apply_item)
  next
    case (client d)
    have "pdc.view tagID ld (v, s) (dc_Name d) = None" using old client(2) by (simp add: vs all_view)
    then obtain y g s' where r: "createDownloadClient base api d tagID (v, s) = (Ok (), (downloadClientIDCache_update g v, s'))"
        "pdc.tracked tagID ld od base (downloadClientIDCache_update g v, s')" "downloadClientsEqual y d"
        "pdc.view tagID ld (downloadClientIDCache_update g v, s') = (pdc.view tagID ld (v, s))(dc_Name d \<mapsto> y)" "(li s', lp s', la s') = (li s, lp s, la s)"
      using pdc.create_run [OF svcs(5) kinds [THEN conjunct2, THEN conjunct2, THEN conjunct2] client(4,3)] unfolding createDownloadClient_def fst_conv snd_conv by blast
    then show ?thesis using step(4) [OF r(2,5,4)] client(1,2)
      by (intro exI [of _ "ClientItem y"] exI [of _ "(downloadClientIDCache_update g v, s')"]) (simp add: vs apply_item)
  qed
qed

lemma item_updates:
  assumes svc: "prowlarr_service hide api tagID li lp la ld" and ok: "desired_ok ords oi op oa od p"
  shows "updates_resource (all_tracked tagID li lp la ld oi op oa od base) (all_view tagID li lp la ld) item_same
    (latest item_key (items p)) (\<lambda>k _ x. item_change k (item_payload x)) (applyUpdate ords base api tagID)"
  unfolding updates_resource_def
proof (intro allI impI, elim conjE)
  fix k c x vs
  assume tr: "all_tracked tagID li lp la ld oi op oa od base vs" and x: "latest item_key (items p) k = Some x"
    and old: "all_view tagID li lp la ld vs k = Some c"
  obtain v s where vs: "vs = (v, s)" by fastforce
  note kinds = tr [unfolded all_tracked_def vs] and step = step_all [OF tr [unfolded vs]] and svcs = prowlarr_serviceD [OF svc]
  from ok x show "\<exists>y vs'. applyUpdate ords base api tagID (item_change k (item_payload x)) vs = (Ok (), vs') \<and>
      all_tracked tagID li lp la ld oi op oa od base vs' \<and> item_same y x \<and>
      all_view tagID li lp la ld vs' = (all_view tagID li lp la ld vs)(k \<mapsto> y)"
  proof (cases rule: wanted_item)
    case (indexer d)
    obtain c' where "pidx.view tagID li (v, s) (pidx_Name d) = Some c'" using old indexer(2) by (auto simp: vs all_view)
    then obtain y g s' where r: "updateIndexer (ords d) base api d tagID (v, s) = (Ok (), (indexerIDCache_update g v, s'))"
        "pidx.tracked tagID li oi base (indexerIDCache_update g v, s')" "indexersEqual y d"
        "pidx.view tagID li (indexerIDCache_update g v, s') = (pidx.view tagID li (v, s))(pidx_Name d \<mapsto> y)" "(lp s', la s', ld s') = (lp s, la s, ld s)"
      using pidx.update_run [where ords = ords, OF svcs(2) kinds [THEN conjunct1] conjI [OF indexer(3,4)]] unfolding updateIndexer_def fst_conv snd_conv by blast
    then show ?thesis using step(1) [OF r(2,5,4)] indexer(1,2)
      by (intro exI [of _ "IndexerItem y"] exI [of _ "(indexerIDCache_update g v, s')"]) (simp add: vs apply_item)
  next
    case (proxy d)
    obtain c' where "ppx.view tagID lp (v, s) (px_Name d) = Some c'" using old proxy(2) by (auto simp: vs all_view)
    then obtain y g s' where r: "updateProxy base api d tagID (v, s) = (Ok (), (proxyIDCache_update g v, s'))"
        "ppx.tracked tagID lp op base (proxyIDCache_update g v, s')" "proxiesEqual y d"
        "ppx.view tagID lp (proxyIDCache_update g v, s') = (ppx.view tagID lp (v, s))(px_Name d \<mapsto> y)" "(li s', la s', ld s') = (li s, la s, ld s)"
      using ppx.update_run [OF svcs(3) kinds [THEN conjunct2, THEN conjunct1] proxy(3)] unfolding updateProxy_def fst_conv snd_conv by blast
    then show ?thesis using step(2) [OF r(2,5,4)] proxy(1,2)
      by (intro exI [of _ "ProxyItem y"] exI [of _ "(proxyIDCache_update g v, s')"]) (simp add: vs apply_item)
  next
    case (application d)
    obtain c' where "papp.view tagID la (v, s) (app_Name d) = Some c'" using old application(2) by (auto simp: vs all_view)
    then obtain y g s' where r: "updateApplication base api d tagID (v, s) = (Ok (), (applicationIDCache_update g v, s'))"
        "papp.tracked tagID la oa base (applicationIDCache_update g v, s')" "applicationsEqual y d"
        "papp.view tagID la (applicationIDCache_update g v, s') = (papp.view tagID la (v, s))(app_Name d \<mapsto> y)" "(li s', lp s', ld s') = (li s, lp s, ld s)"
      using papp.update_run [OF svcs(4) kinds [THEN conjunct2, THEN conjunct2, THEN conjunct1] application(3)] unfolding updateApplication_def fst_conv snd_conv by blast
    then show ?thesis using step(3) [OF r(2,5,4)] application(1,2)
      by (intro exI [of _ "ApplicationItem y"] exI [of _ "(applicationIDCache_update g v, s')"]) (simp add: vs apply_item)
  next
    case (client d)
    obtain c' where "pdc.view tagID ld (v, s) (dc_Name d) = Some c'" using old client(2) by (auto simp: vs all_view)
    then obtain y g s' where r: "updateDownloadClient base api d tagID (v, s) = (Ok (), (downloadClientIDCache_update g v, s'))"
        "pdc.tracked tagID ld od base (downloadClientIDCache_update g v, s')" "downloadClientsEqual y d"
        "pdc.view tagID ld (downloadClientIDCache_update g v, s') = (pdc.view tagID ld (v, s))(dc_Name d \<mapsto> y)" "(li s', lp s', la s') = (li s, lp s, la s)"
      using pdc.update_run [OF svcs(5) kinds [THEN conjunct2, THEN conjunct2, THEN conjunct2] client(3)] unfolding updateDownloadClient_def fst_conv snd_conv by blast
    then show ?thesis using step(4) [OF r(2,5,4)] client(1,2)
      by (intro exI [of _ "ClientItem y"] exI [of _ "(downloadClientIDCache_update g v, s')"]) (simp add: vs apply_item)
  qed
qed

lemma managed_item:
  assumes "all_view tagID li lp la ld vs k = Some c"
  obtains (indexer) n c' where "k = (ResourceIndexer, n)" "pidx.view tagID li vs n = Some c'"
    | (proxy) n c' where "k = (ResourceIndexerProxy, n)" "ppx.view tagID lp vs n = Some c'"
    | (application) n c' where "k = (ResourceApplication, n)" "papp.view tagID la vs n = Some c'"
    | (client) n c' where "k = (ResourceDownloadClient, n)" "pdc.view tagID ld vs n = Some c'"
  using assms by (cases k) (auto simp: all_view split: if_splits)

lemma item_deletes:
  assumes svc: "prowlarr_service hide api tagID li lp la ld"
  shows "deletes_resource (all_tracked tagID li lp la ld oi op oa od base) (all_view tagID li lp la ld)
    (\<lambda>k _. item_change k NoPayload) (applyDelete base api)"
  unfolding deletes_resource_def
proof (intro allI impI, elim conjE)
  fix k x vs
  assume tr: "all_tracked tagID li lp la ld oi op oa od base vs" and x: "all_view tagID li lp la ld vs k = Some x"
  obtain v s where vs: "vs = (v, s)" by fastforce
  note kinds = tr [unfolded all_tracked_def vs] and step = step_all [OF tr [unfolded vs]] and svcs = prowlarr_serviceD [OF svc]
  from x [unfolded vs] show "\<exists>vs'. applyDelete base api (item_change k NoPayload) vs = (Ok (), vs') \<and>
      all_tracked tagID li lp la ld oi op oa od base vs' \<and>
      all_view tagID li lp la ld vs' = (all_view tagID li lp la ld vs)(k := None)"
  proof (cases rule: managed_item)
    case (indexer n c)
    then obtain g s' where r: "deleteIndexer base api n (v, s) = (Ok (), (indexerIDCache_update g v, s'))"
        "pidx.tracked tagID li oi base (indexerIDCache_update g v, s')"
        "pidx.view tagID li (indexerIDCache_update g v, s') = (pidx.view tagID li (v, s))(n := None)" "(lp s', la s', ld s') = (lp s, la s, ld s)"
      using pidx.delete_run [OF svcs(2) kinds [THEN conjunct1]] unfolding deleteIndexer_def fst_conv snd_conv by blast
    then show ?thesis using step(1) [OF r(2,4,3)] indexer(1)
      by (intro exI [of _ "(indexerIDCache_update g v, s')"]) (simp add: vs apply_item)
  next
    case (proxy n c)
    then obtain g s' where r: "deleteProxy base api n (v, s) = (Ok (), (proxyIDCache_update g v, s'))"
        "ppx.tracked tagID lp op base (proxyIDCache_update g v, s')"
        "ppx.view tagID lp (proxyIDCache_update g v, s') = (ppx.view tagID lp (v, s))(n := None)" "(li s', la s', ld s') = (li s, la s, ld s)"
      using ppx.delete_run [OF svcs(3) kinds [THEN conjunct2, THEN conjunct1]] unfolding deleteProxy_def fst_conv snd_conv by blast
    then show ?thesis using step(2) [OF r(2,4,3)] proxy(1)
      by (intro exI [of _ "(proxyIDCache_update g v, s')"]) (simp add: vs apply_item)
  next
    case (application n c)
    then obtain g s' where r: "deleteApplication base api n (v, s) = (Ok (), (applicationIDCache_update g v, s'))"
        "papp.tracked tagID la oa base (applicationIDCache_update g v, s')"
        "papp.view tagID la (applicationIDCache_update g v, s') = (papp.view tagID la (v, s))(n := None)" "(li s', lp s', ld s') = (li s, lp s, ld s)"
      using papp.delete_run [OF svcs(4) kinds [THEN conjunct2, THEN conjunct2, THEN conjunct1]] unfolding deleteApplication_def fst_conv snd_conv by blast
    then show ?thesis using step(3) [OF r(2,4,3)] application(1)
      by (intro exI [of _ "(applicationIDCache_update g v, s')"]) (simp add: vs apply_item)
  next
    case (client n c)
    then obtain g s' where r: "deleteDownloadClient base api n (v, s) = (Ok (), (downloadClientIDCache_update g v, s'))"
        "pdc.tracked tagID ld od base (downloadClientIDCache_update g v, s')"
        "pdc.view tagID ld (downloadClientIDCache_update g v, s') = (pdc.view tagID ld (v, s))(n := None)" "(li s', lp s', la s') = (li s, lp s, la s)"
      using pdc.delete_run [OF svcs(5) kinds [THEN conjunct2, THEN conjunct2, THEN conjunct2]] unfolding deleteDownloadClient_def fst_conv snd_conv by blast
    then show ?thesis using step(4) [OF r(2,4,3)] client(1)
      by (intro exI [of _ "(downloadClientIDCache_update g v, s')"]) (simp add: vs apply_item)
  qed
qed

section \<open>One pass of the whole adapter\<close>

definition all_distinct where
  "all_distinct li lp la ld s \<longleftrightarrow>
     distinct (map pir_ID (li s)) \<and> distinct (map pir_Name (li s)) \<and> distinct (map ppr_ID (lp s)) \<and> distinct (map ppr_Name (lp s)) \<and>
     distinct (map pas_ID (la s)) \<and> distinct (map pas_Name (la s)) \<and> distinct (map pdr_ID (ld s)) \<and> distinct (map pdr_Name (ld s))"

text \<open>What other owners have on the service.\<close>

definition other_indexers :: "int \<Rightarrow> IndexerResource list \<Rightarrow> IndexerResource list" where
  "other_indexers tagID rs = filter (\<lambda>r. \<not> hasTag (pir_Tags r) tagID) rs"

definition other_proxies :: "int \<Rightarrow> IndexerProxyResource list \<Rightarrow> IndexerProxyResource list" where
  "other_proxies tagID rs = filter (\<lambda>r. \<not> hasTag (ppr_Tags r) tagID) rs"

definition other_applications :: "int \<Rightarrow> ApplicationResource list \<Rightarrow> ApplicationResource list" where
  "other_applications tagID rs = filter (\<lambda>r. \<not> hasTag (pas_Tags r) tagID) rs"

definition other_clients :: "int \<Rightarrow> DownloadClientResource list \<Rightarrow> DownloadClientResource list" where
  "other_clients tagID rs = filter (\<lambda>r. \<not> hasTag (pdr_Tags r) tagID) rs"

lemmas others_defs = other_indexers_def other_proxies_def other_applications_def other_clients_def

lemma tracked_facts:
  assumes "all_tracked tagID li lp la ld oi op oa od base vs"
  shows "all_distinct li lp la ld (snd vs)" "other_indexers tagID (li (snd vs)) = oi" "other_proxies tagID (lp (snd vs)) = op"
    "other_applications tagID (la (snd vs)) = oa" "other_clients tagID (ld (snd vs)) = od"
  using assms by (simp_all add: tracked_defs collection_kept_def all_distinct_def others_defs)

lemma CurrentState_run:
  assumes svc: "prowlarr_service hide api tagID li lp la ld" and dist: "all_distinct li lp la ld s"
  shows "\<exists>ir v'. CurrentState now api conn (v, s) = (Ok ir, (v', s)) \<and>
    ir_Prowlarr ir = Some ((managed_ir tagID li lp la ld s)\<lparr>pr_Connection := Some conn\<rparr>) \<and>
    all_tracked tagID li lp la ld (other_indexers tagID (li s)) (other_proxies tagID (lp s)) (other_applications tagID (la s))
      (other_clients tagID (ld s)) (conn_URL conn) (v', s)"
proof -
  note svcs = prowlarr_serviceD [OF svc] and d = dist [unfolded all_distinct_def]
  obtain g1 where r1: "getManagedIndexers (conn_URL conn) api tagID (v, s) = (Ok (pidx.managed tagID (li s)), (indexerIDCache_update g1 v, s))"
      "pidx.tracked tagID li (other_indexers tagID (li s)) (conn_URL conn) (indexerIDCache_update g1 v, s)"
    using pidx.read_run [where vs = "(v, s)" and tagID = tagID and base = "conn_URL conn", OF svcs(2)] d by (auto simp: getManagedIndexers_def others_defs)
  let ?v1 = "indexerIDCache_update g1 v"
  obtain g2 where r2: "getManagedProxies (conn_URL conn) api tagID (?v1, s) = (Ok (ppx.managed tagID (lp s)), (proxyIDCache_update g2 ?v1, s))"
      "ppx.tracked tagID lp (other_proxies tagID (lp s)) (conn_URL conn) (proxyIDCache_update g2 ?v1, s)"
    using ppx.read_run [where vs = "(?v1, s)" and tagID = tagID and base = "conn_URL conn", OF svcs(3)] d by (auto simp: getManagedProxies_def others_defs)
  let ?v2 = "proxyIDCache_update g2 ?v1"
  obtain g3 where r3: "getManagedApplications (conn_URL conn) api tagID (?v2, s) = (Ok (papp.managed tagID (la s)), (applicationIDCache_update g3 ?v2, s))"
      "papp.tracked tagID la (other_applications tagID (la s)) (conn_URL conn) (applicationIDCache_update g3 ?v2, s)"
    using papp.read_run [where vs = "(?v2, s)" and tagID = tagID and base = "conn_URL conn", OF svcs(4)] d by (auto simp: getManagedApplications_def others_defs)
  let ?v3 = "applicationIDCache_update g3 ?v2"
  obtain g4 where r4: "getManagedDownloadClients (conn_URL conn) api tagID (?v3, s) = (Ok (pdc.managed tagID (ld s)), (downloadClientIDCache_update g4 ?v3, s))"
      "pdc.tracked tagID ld (other_clients tagID (ld s)) (conn_URL conn) (downloadClientIDCache_update g4 ?v3, s)"
    using pdc.read_run [where vs = "(?v3, s)" and tagID = tagID and base = "conn_URL conn", OF svcs(5)] d by (auto simp: getManagedDownloadClients_def others_defs)
  have "all_tracked tagID li lp la ld (other_indexers tagID (li s)) (other_proxies tagID (lp s)) (other_applications tagID (la s))
      (other_clients tagID (ld s)) (conn_URL conn) (downloadClientIDCache_update g4 ?v3, s)"
    using r1(2) r2(2) r3(2) r4(2) by (simp add: tracked_defs)
  then show ?thesis
    by (simp add: CurrentState_def Let_def on_service_def svcs(1) read_state_def try_set_def or_else_def andThen_def
        r1(1) r2(1) r3(1) r4(1) give_def managed_ir_def bare_def)
qed

lemma ensure_tag:
  assumes "getOwnershipTagID api s = (Ok tagID, s)"
  shows "ensureOwnershipTag api s = (Ok tagID, s)"
  using assms by (simp add: ensureOwnershipTag_def EnsureOwnershipTag_def getOwnershipTagID_def or_else_def)

lemma pass_converges:
  assumes svc: "prowlarr_service hide api tagID li lp la ld" and ord: "valid_order ord" "valid_order ord'"
    and dist: "all_distinct li lp la ld s" and p: "ir_Prowlarr desired = Some p"
    and ok: "desired_ok ords (other_indexers tagID (li s)) (other_proxies tagID (lp s)) (other_applications tagID (la s))
      (other_clients tagID (ld s)) p"
  shows "\<exists>current v1 r v2 s' current' v3.
    CurrentState now api conn (v, s) = (Ok current, (v1, s)) \<and>
    Apply ords api conn (Diff ord current desired) (v1, s) = (Ok r, (v2, s')) \<and> Success r \<and>
    other_indexers tagID (li s') = other_indexers tagID (li s) \<and> other_proxies tagID (lp s') = other_proxies tagID (lp s) \<and>
    other_applications tagID (la s') = other_applications tagID (la s) \<and> other_clients tagID (ld s') = other_clients tagID (ld s) \<and>
    CurrentState now' api conn (v2, s') = (Ok current', (v3, s')) \<and> IsEmpty (Diff ord' current' desired)"
proof -
  let ?safe = "all_tracked tagID li lp la ld (other_indexers tagID (li s)) (other_proxies tagID (lp s)) (other_applications tagID (la s))
      (other_clients tagID (ld s)) (conn_URL conn)"
    and ?ir = "\<lambda>s. (managed_ir tagID li lp la ld s)\<lparr>pr_Connection := Some conn\<rparr>"
  have items_ir: "items (?ir t) = items (managed_ir tagID li lp la ld t)" for t by (simp add: items_def)
  obtain current v1 where c: "CurrentState now api conn (v, s) = (Ok current, (v1, s))" "ir_Prowlarr current = Some (?ir s)" "?safe (v1, s)"
    using CurrentState_run [OF svc dist] by blast
  have view: "all_view tagID li lp la ld vs = latest item_key (items (?ir (snd vs)))" for vs
    by (simp add: all_view_def items_ir)
  obtain r v2 s' where a: "ApplyChanges (Diff ord current desired) (applyCreate ords (conn_URL conn) api tagID)
        (applyUpdate ords (conn_URL conn) api tagID) (applyDelete (conn_URL conn) api) (v1, s) = (Ok r, (v2, s'))" "Success r" "?safe (v2, s')"
      "\<forall>k. settled item_same (latest item_key (items (?ir s)) k) (latest item_key (items p) k) (all_view tagID li lp la ld (v2, s') k)"
    using apply_plan [OF item_entries [OF ord(1)] item_entries [OF ord(1)] item_creates [OF svc ok] item_updates [OF svc ok]
        item_deletes [OF svc] view [of "(v1, s)", unfolded snd_conv] c(3)]
    unfolding Diff_plan [OF c(2) p] by fastforce
  note kept = tracked_facts [OF a(3), unfolded snd_conv]
  obtain current' v3 where c': "CurrentState now' api conn (v2, s') = (Ok current', (v3, s'))" "ir_Prowlarr current' = Some (?ir s')"
    using CurrentState_run [OF svc kept(1)] by blast
  have "\<forall>k. rel_option item_same (latest item_key (items (?ir s')) k) (latest item_key (items p) k)"
    using a(4) settled_in_sync by (fastforce simp: view)
  then have "IsEmpty (Diff ord' current' desired)"
    unfolding Diff_plan [OF c'(2) p] by (intro plan_empty item_entries ord(2))
  moreover have "Apply ords api conn (Diff ord current desired) (v1, s) = (Ok r, (v2, s'))"
    by (simp add: Apply_def on_service_def wrap_err_def andThen_def ensure_tag [OF prowlarr_serviceD(1) [OF svc]] a(1))
  ultimately show ?thesis using c(1) a(2) kept c'(1) by blast
qed


section \<open>An instance\<close>

text \<open>A service with four lists, each behind its own endpoint.\<close>

record served =
  sv_indexers :: "IndexerResource list"
  sv_proxies :: "IndexerProxyResource list"
  sv_applications :: "ApplicationResource list"
  sv_clients :: "DownloadClientResource list"

definition on_part :: "('s \<Rightarrow> 'p) \<Rightarrow> ('p \<Rightarrow> 's \<Rightarrow> 's) \<Rightarrow> ('p, 'a) action \<Rightarrow> ('s, 'a) action" where
  "on_part get put act s = (case act (get s) of (r, p) \<Rightarrow> (r, put p s))"

definition part_endpoint :: "('s \<Rightarrow> 'p) \<Rightarrow> ('p \<Rightarrow> 's \<Rightarrow> 's) \<Rightarrow> ('p, 'r) endpoint \<Rightarrow> ('s, 'r) endpoint" where
  "part_endpoint get put ep = \<lparr>ep_list = (\<lambda>p. on_part get put (ep_list ep p)), ep_get = (\<lambda>p. on_part get put (ep_get ep p)),
     ep_post = (\<lambda>p r. on_part get put (ep_post ep p r)), ep_put = (\<lambda>p r. on_part get put (ep_put ep p r))\<rparr>"

lemma part_kind_service:
  assumes "\<And>p s. get (put p s) = p" "\<And>s. put (get s) s = s" "\<And>p s. rest (put p s) = rest s" "\<And>i r. rid (store i r) = i"
  shows "kind_service (wrap_err e (ep_list (part_endpoint get put (list_endpoint prefix rid store)) q))
    (ep_post (part_endpoint get put (list_endpoint prefix rid store)) q)
    (\<lambda>i. ep_put (part_endpoint get put (list_endpoint prefix rid store)) (prefix @ Itoa i))
    (\<lambda>i. on_part get put (list_delete prefix rid (prefix @ Itoa i))) get rid rname store rest"
proof -
  have "rest_collection (wrap_err e (ep_list (part_endpoint get put (list_endpoint prefix rid store)) q))
    (ep_post (part_endpoint get put (list_endpoint prefix rid store)) q)
    (\<lambda>i. ep_put (part_endpoint get put (list_endpoint prefix rid store)) (prefix @ Itoa i))
    (\<lambda>i. on_part get put (list_delete prefix rid (prefix @ Itoa i))) get rid rname store"
    using fresh_id [of rid]
    by (auto simp: rest_collection_def wrap_err_def part_endpoint_def on_part_def list_endpoint_def list_delete_def assms Itoa_inject
        intro: filter_cong map_cong)
  then show ?thesis
    by (auto simp: kind_service_def part_endpoint_def on_part_def list_endpoint_def list_delete_def assms)
qed

abbreviation starred :: "GoValue \<Rightarrow> GoValue" where
  "starred v \<equiv> VString ''********''"

definition owner_tags :: "('s, TagResource) endpoint" where
  "owner_tags = no_endpoint\<lparr>ep_list := (\<lambda>p. give [\<lparr>tag_ID = 2, tag_Label = ''private''\<rparr>, \<lparr>tag_ID = 3, tag_Label = OwnershipTagName\<rparr>])\<rparr>"

definition served_api :: "served ProwlarrAPI" where
  "served_api = \<lparr>papi_system = no_endpoint, papi_tags = owner_tags, papi_health = no_endpoint,
     papi_indexers = part_endpoint sv_indexers (\<lambda>x. sv_indexers_update (\<lambda>_. x)) (list_endpoint ''/api/v1/indexer/'' pir_ID (answer_indexer starred)),
     papi_proxies = part_endpoint sv_proxies (\<lambda>x. sv_proxies_update (\<lambda>_. x)) (list_endpoint ''/api/v1/indexerproxy/'' ppr_ID (answer_proxy starred)),
     papi_applications = part_endpoint sv_applications (\<lambda>x. sv_applications_update (\<lambda>_. x)) (list_endpoint ''/api/v1/applications/'' pas_ID (answer_application starred)),
     papi_clients = part_endpoint sv_clients (\<lambda>x. sv_clients_update (\<lambda>_. x)) (list_endpoint ''/api/v1/downloadclient/'' pdr_ID (answer_client starred)),
     papi_delete = (\<lambda>p.
       if take 16 p = ''/api/v1/indexer/'' then on_part sv_indexers (\<lambda>x. sv_indexers_update (\<lambda>_. x)) (list_delete ''/api/v1/indexer/'' pir_ID p)
       else if take 21 p = ''/api/v1/indexerproxy/'' then on_part sv_proxies (\<lambda>x. sv_proxies_update (\<lambda>_. x)) (list_delete ''/api/v1/indexerproxy/'' ppr_ID p)
       else if take 21 p = ''/api/v1/applications/'' then on_part sv_applications (\<lambda>x. sv_applications_update (\<lambda>_. x)) (list_delete ''/api/v1/applications/'' pas_ID p)
       else on_part sv_clients (\<lambda>x. sv_clients_update (\<lambda>_. x)) (list_delete ''/api/v1/downloadclient/'' pdr_ID p))\<rparr>"

lemma served_api_service: "prowlarr_service starred served_api 3 sv_indexers sv_proxies sv_applications sv_clients"
proof -
  have tag: "getOwnershipTagID served_api s = (Ok 3, s)" for s
    by (simp add: getOwnershipTagID_def GetOwnershipTagID_def served_api_def owner_tags_def wrap_err_def andThen_def give_def
        OwnershipTagName_def)
  have del: "papi_delete served_api (''/api/v1/indexer/'' @ n) =
      on_part sv_indexers (\<lambda>x. sv_indexers_update (\<lambda>_. x)) (list_delete ''/api/v1/indexer/'' pir_ID (''/api/v1/indexer/'' @ n))"
    "papi_delete served_api (''/api/v1/indexerproxy/'' @ n) =
      on_part sv_proxies (\<lambda>x. sv_proxies_update (\<lambda>_. x)) (list_delete ''/api/v1/indexerproxy/'' ppr_ID (''/api/v1/indexerproxy/'' @ n))"
    "papi_delete served_api (''/api/v1/applications/'' @ n) =
      on_part sv_applications (\<lambda>x. sv_applications_update (\<lambda>_. x)) (list_delete ''/api/v1/applications/'' pas_ID (''/api/v1/applications/'' @ n))"
    "papi_delete served_api (''/api/v1/downloadclient/'' @ n) =
      on_part sv_clients (\<lambda>x. sv_clients_update (\<lambda>_. x)) (list_delete ''/api/v1/downloadclient/'' pdr_ID (''/api/v1/downloadclient/'' @ n))" for n
    by (simp_all add: served_api_def)
  have ep: "papi_indexers served_api = part_endpoint sv_indexers (\<lambda>x. sv_indexers_update (\<lambda>_. x)) (list_endpoint ''/api/v1/indexer/'' pir_ID (answer_indexer starred))"
    "papi_proxies served_api = part_endpoint sv_proxies (\<lambda>x. sv_proxies_update (\<lambda>_. x)) (list_endpoint ''/api/v1/indexerproxy/'' ppr_ID (answer_proxy starred))"
    "papi_applications served_api = part_endpoint sv_applications (\<lambda>x. sv_applications_update (\<lambda>_. x)) (list_endpoint ''/api/v1/applications/'' pas_ID (answer_application starred))"
    "papi_clients served_api = part_endpoint sv_clients (\<lambda>x. sv_clients_update (\<lambda>_. x)) (list_endpoint ''/api/v1/downloadclient/'' pdr_ID (answer_client starred))"
    by (simp_all add: served_api_def)
  show ?thesis
    unfolding prowlarr_service_def list_indexers_def list_proxies_def list_applications_def list_clients_def ep del
    by (intro conjI allI tag part_kind_service)
      (simp_all add: prowlarr_indexer_codec_simps proxy_codec_simps application_codec_simps prowlarr_client_codec_simps)
qed


definition prowlarr_proxy :: "string \<Rightarrow> string \<Rightarrow> int \<Rightarrow> IndexerProxyIR" where
  "prowlarr_proxy name t timeout = \<lparr>px_Name = name, px_Type = t, px_Host = ''proxy'', px_Port = 0, px_Username = '''',
     px_Password = '''', px_RequestTimeout = timeout, px_Tags = []\<rparr>"

definition prowlarr_application :: "int list \<Rightarrow> ProwlarrApplicationIR" where
  "prowlarr_application cats = \<lparr>app_Name = ''Sonarr'', app_Type = AppTypeSonarr, app_ProwlarrURL = ''http://prowlarr:9696'',
     app_URL = ''http://sonarr:8989'', app_APIKey = ''k'', app_SyncCategories = cats, app_SyncLevel = ''fullSync'', app_Tags = []\<rparr>"

section \<open>Where the pass does not settle\<close>

text \<open>
  A proxy that was sent is found in order on the next pass exactly when its kind survives
  both directions of the conversion and the fields its kind has no field for have the value an
  absent field reads as: a FlareSolverr proxy no port and no user name, an HTTP or SOCKS proxy
  no request timeout. The timeout has the default 60, so an HTTP or SOCKS proxy is updated on
  every pass.
\<close>

theorem proxy_settles_iff:
  assumes "exact_int (px_Port d)" "exact_int (px_RequestTimeout d)"
  shows "proxiesEqual (proxy_ir (answer_proxy hide i (proxy_resource j d tagID))) d \<longleftrightarrow>
    implToProxyType (proxyTypeToImpl (px_Type d)) = px_Type d \<and>
     (if px_Type d = ProxyTypeFlareSolverr
      then px_Port d = 0 \<and> px_Username d = '''' \<and> px_RequestTimeout d \<ge> 0
      else px_Port d \<ge> 0 \<and> px_RequestTimeout d = 0)"
  unfolding proxy_read_back [OF assms] by (rule proxy_settles_def)

theorem proxy_settles_iff_witness:
  "\<not> proxiesEqual (proxy_ir (answer_proxy starred 4 (proxy_resource 0 (prowlarr_proxy ''p'' ProxyTypeHTTP 60) 3)))
       (prowlarr_proxy ''p'' ProxyTypeHTTP 60)"
  using proxy_settles_iff [where d = "prowlarr_proxy ''p'' ProxyTypeHTTP 60" and hide = starred and i = 4 and j = 0 and tagID = 3]
  by (simp add: prowlarr_proxy_def exact_int_def)

text \<open>
  An application that was sent is found in order on the next pass exactly when its kind
  survives both directions of the conversion and it names categories or its kind has no default
  ones: an application that names none is sent with the defaults of its kind, which the
  comparison then sees as a difference.
\<close>

theorem application_settles_iff:
  assumes "\<forall>c \<in> set (app_SyncCategories d). exact_int c"
  shows "applicationsEqual (application_ir (answer_application hide i (application_resource j d tagID))) d \<longleftrightarrow>
    implToAppType (appTypeToImpl (app_Type d)) = app_Type d \<and>
     (app_SyncCategories d = [] \<longrightarrow> map_of DefaultSyncCategories (app_Type d) = None)"
  unfolding application_read_back [OF assms] by (rule application_settles_def)

theorem application_settles_iff_witness:
  "\<not> applicationsEqual (application_ir (answer_application starred 4 (application_resource 0 (prowlarr_application []) 3)))
       (prowlarr_application []) \<and>
   applicationsEqual (application_ir (answer_application starred 4 (application_resource 0 (prowlarr_application [5000]) 3)))
       (prowlarr_application [5000])"
  using application_settles_iff [where d = "prowlarr_application []" and hide = starred and i = 4 and j = 0 and tagID = 3]
    application_settles_iff [where d = "prowlarr_application [5000]" and hide = starred and i = 4 and j = 0 and tagID = 3]
  by (simp add: prowlarr_application_def exact_int_def DefaultSyncCategories_def implToAppType_def appTypeToImpl_def)

end
