(* ===== verification/Prowlarr_Compiler.thy ===== *)
theory Prowlarr_Compiler
  imports Convert Prowlarr_Converge
begin

text \<open>
  \<^verbatim>\<open>src/internal/compiler/prowlarr.go\<close>: from a \<^verbatim>\<open>ProwlarrConfig\<close> and its resolved secrets to
  the IR, and the composition with the adapter: what a config must say for the pass over what
  it compiles to converge. The settings of an indexer are copied in the order the runtime
  ranges over them.
\<close>

section \<open>Categories\<close>

definition prowlarr_categories :: "(string \<times> int) list" where
  "prowlarr_categories =
    [(''movies'', 2000), (''movies-sd'', 2030), (''movies-hd'', 2040), (''movies-uhd'', 2045), (''movies-4k'', 2045),
     (''movies-bluray'', 2050), (''movies-webdl'', 2010), (''movies-dvd'', 2020), (''movies-3d'', 2060),
     (''tv'', 5000), (''tv-foreign'', 5010), (''tv-sd'', 5030), (''tv-hd'', 5040), (''tv-uhd'', 5045), (''tv-4k'', 5045),
     (''tv-webdl'', 5010), (''tv-dvd'', 5020), (''tv-anime'', 5070), (''tv-sport'', 5060),
     (''audio'', 3000), (''music'', 3000), (''audio-mp3'', 3010), (''music-mp3'', 3010), (''audio-video'', 3020),
     (''music-video'', 3020), (''audio-lossless'', 3040), (''music-lossless'', 3040), (''audio-flac'', 3040),
     (''music-flac'', 3040), (''audio-foreign'', 3030), (''music-foreign'', 3030),
     (''books'', 7000), (''books-ebook'', 7020), (''books-comics'', 7030), (''books-mags'', 7010),
     (''xxx'', 6000), (''xxx-dvd'', 6010), (''xxx-wmv'', 6020), (''xxx-xvid'', 6030), (''xxx-x264'', 6040), (''xxx-other'', 6050),
     (''other'', 7010), (''misc'', 7999)]"

definition mapProwlarrCategoryName :: "string \<Rightarrow> int" where
  "mapProwlarrCategoryName name = (case map_of prowlarr_categories (ToLower name) of Some i \<Rightarrow> i | None \<Rightarrow> 0)"

fun prowlarr_category_ids :: "string list \<Rightarrow> int list" where
  "prowlarr_category_ids [] = []"
| "prowlarr_category_ids (cat # rest) =
     (case Atoi cat of
        (i, True) \<Rightarrow> i # prowlarr_category_ids rest
      | (_, False) \<Rightarrow>
          (let i = mapProwlarrCategoryName cat
           in if i > 0 then i # prowlarr_category_ids rest else prowlarr_category_ids rest))"

definition convertProwlarrCategories :: "string list \<Rightarrow> string \<Rightarrow> int list" where
  "convertProwlarrCategories categories appType =
     (if length categories = 0
      then (case map_of DefaultSyncCategories appType of Some defaults \<Rightarrow> defaults | None \<Rightarrow> [])
      else prowlarr_category_ids categories)"

section \<open>The four kinds of resources\<close>

definition compile_prowlarr_indexer :: "range_order \<Rightarrow> string \<Rightarrow> (string, string) gomap \<Rightarrow> ProwlarrIndexer \<Rightarrow> ProwlarrIndexerIR" where
  "compile_prowlarr_indexer ord configName resolvedSecrets idx =
     \<lparr>pidx_Name = managed_name configName (pix_Name idx), pidx_Definition = pix_Definition idx,
      pidx_Enable = (case pix_Enabled idx of None \<Rightarrow> True | Some b \<Rightarrow> b),
      pidx_Priority = (if pix_Priority idx = 0 then 25 else pix_Priority idx),
      pidx_BaseURL = pix_BaseURL idx,
      pidx_APIKey = (case pix_APIKeySecretRef idx of
         None \<Rightarrow> ''''
       | Some ref \<Rightarrow> secret_or_empty resolvedSecrets (sk_Name ref @ ''/'' @ defaultString (sk_Key ref) ''apiKey'')),
      pidx_Settings = (if length (pix_Settings idx) > 0 then copy_settings (\<lambda>v. v) (gm_range ord 0 (pix_Settings idx)) [] else []),
      pidx_Tags = pix_Tags idx\<rparr>"

definition compileProwlarrIndexers ::
    "range_order \<Rightarrow> ProwlarrIndexer list \<Rightarrow> string \<Rightarrow> (string, string) gomap \<Rightarrow> ProwlarrIndexerIR list" where
  "compileProwlarrIndexers ord indexers configName resolvedSecrets =
     map (\<lambda>(i, idx). compile_prowlarr_indexer (shift_order i ord) configName resolvedSecrets idx) (enumerate 0 indexers)"

text \<open>User name and password from a secret, each empty when it was not resolved.\<close>

definition credentials :: "(string, string) gomap \<Rightarrow> CredentialsSecretRef option \<Rightarrow> string \<times> string" where
  "credentials resolvedSecrets sel =
     (case sel of
        None \<Rightarrow> ('''', '''')
      | Some ref \<Rightarrow>
          (let usernameKey = defaultString (cr_UsernameKey ref) ''username'';
               passwordKey = defaultString (cr_PasswordKey ref) ''password'';
               secretPrefix = cr_Name ref @ ''/''
           in (secret_or_empty resolvedSecrets (secretPrefix @ usernameKey),
               secret_or_empty resolvedSecrets (secretPrefix @ passwordKey))))"

definition compileProwlarrProxies :: "IndexerProxy list \<Rightarrow> string \<Rightarrow> (string, string) gomap \<Rightarrow> IndexerProxyIR list" where
  "compileProwlarrProxies proxies configName resolvedSecrets =
     map (\<lambda>proxy.
       \<lparr>px_Name = managed_name configName (ipx_Name proxy), px_Type = ipx_Type proxy, px_Host = ipx_Host proxy,
        px_Port = ipx_Port proxy,
        px_Username = fst (credentials resolvedSecrets (ipx_CredentialsSecretRef proxy)),
        px_Password = snd (credentials resolvedSecrets (ipx_CredentialsSecretRef proxy)),
        px_RequestTimeout = (if ipx_Type proxy = ProxyTypeFlareSolverr \<and> ipx_RequestTimeout proxy = 0 then 60
                             else ipx_RequestTimeout proxy),
        px_Tags = ipx_Tags proxy\<rparr>) proxies"

definition compileProwlarrApplications ::
    "ProwlarrApplication list \<Rightarrow> string \<Rightarrow> string \<Rightarrow> (string, string) gomap \<Rightarrow> ProwlarrApplicationIR list" where
  "compileProwlarrApplications apps configName prowlarrURL resolvedSecrets =
     map (\<lambda>app.
       \<lparr>app_Name = managed_name configName (pap_Name app), app_Type = pap_Type app, app_ProwlarrURL = prowlarrURL,
        app_URL = pap_URL app,
        app_APIKey = (case pap_APIKeySecretRef app of
           None \<Rightarrow> ''''
         | Some ref \<Rightarrow> secret_or_empty resolvedSecrets (sk_Name ref @ ''/'' @ defaultString (sk_Key ref) ''apiKey'')),
        app_SyncCategories = convertProwlarrCategories (pap_SyncCategories app) (pap_Type app),
        app_SyncLevel = (if pap_SyncLevel app = '''' then SyncLevelFullSync else pap_SyncLevel app),
        app_Tags = []\<rparr>) apps"

definition compileProwlarrDownloadClients ::
    "DownloadClientSpec list \<Rightarrow> string \<Rightarrow> (string, string) gomap \<Rightarrow> DownloadClientIR list" where
  "compileProwlarrDownloadClients clients configName resolvedSecrets =
     map (\<lambda>dc.
       let (host, port, useTLS) = parseClientURL (dcs_URL dc);
           impl = (if dcs_Type dc = '''' then inferImplementationFromName (dcs_Name dc) else dcs_Type dc)
       in \<lparr>dc_ID = 0, dc_Name = managed_name configName (dcs_Name dc), dc_Protocol = inferProtocol impl,
           dc_Implementation = ToLower impl, dc_Enable = True, dc_Priority = dcs_Priority dc,
           dc_RemoveCompletedDownloads = False, dc_RemoveFailedDownloads = False,
           dc_Host = host, dc_Port = port, dc_UseTLS = useTLS,
           dc_Username = fst (credentials resolvedSecrets (dcs_CredentialsSecretRef dc)),
           dc_Password = snd (credentials resolvedSecrets (dcs_CredentialsSecretRef dc)),
           dc_Category = dcs_Category dc, dc_Directory = ''''\<rparr>) clients"

section \<open>The whole config\<close>

definition CompileProwlarrConfig ::
    "range_order \<Rightarrow> int \<Rightarrow> ProwlarrConfig \<Rightarrow> (string, string) gomap \<Rightarrow> Capabilities option \<Rightarrow> IR outcome" where
  "CompileProwlarrConfig ord now config resolvedSecrets caps =
     (let spec = proc_Spec config; configName = om_Name (proc_ObjectMeta config);
          conn = \<lparr>conn_URL = cns_URL (pro_Connection spec), conn_APIKey = secret_or_empty resolvedSecrets ''apiKey'',
                  conn_InsecureSkipVerify = False\<rparr>
      in Ok (zero_IR\<lparr>ir_Version := IRVersion, ir_GeneratedAt := now, ir_App := AppProwlarr, ir_Connection := Some conn,
           ir_Prowlarr := Some
             \<lparr>pr_Connection = Some conn,
              pr_Indexers = compileProwlarrIndexers ord (pro_Indexers spec) configName resolvedSecrets,
              pr_Proxies = compileProwlarrProxies (pro_Proxies spec) configName resolvedSecrets,
              pr_Applications = compileProwlarrApplications (pro_Applications spec) configName
                (cns_URL (pro_Connection spec)) resolvedSecrets,
              pr_DownloadClients = compileProwlarrDownloadClients (pro_DownloadClients spec) configName resolvedSecrets,
              pr_Unrealized = []\<rparr>\<rparr>))"


section \<open>What compiles to something that settles\<close>

text \<open>
  A spec that the schema of the resource accepts, with four more conditions: no setting has
  a name the adapter gives a meaning of its own; a proxy has no values for the fields its kind
  does not send; of the categories of an application at least one is known; and the port in
  the URL of a download client is one.
\<close>

definition indexer_spec_ok :: "ProwlarrIndexer \<Rightarrow> bool" where
  "indexer_spec_ok idx \<longleftrightarrow> gm_ok (pix_Settings idx) \<and> fst ` set (pix_Settings idx) \<inter> {''baseUrl'', ''apiKey'', ''password''} = {}"

definition proxy_spec_ok :: "(string, string) gomap \<Rightarrow> IndexerProxy \<Rightarrow> bool" where
  "proxy_spec_ok secrets p \<longleftrightarrow>
     ipx_Type p \<in> {ProxyTypeFlareSolverr, ProxyTypeHTTP, ProxyTypeSocks4, ProxyTypeSocks5} \<and>
     (if ipx_Type p = ProxyTypeFlareSolverr
      then ipx_Port p = 0 \<and> fst (credentials secrets (ipx_CredentialsSecretRef p)) = '''' \<and> 0 \<le> ipx_RequestTimeout p \<and>
        exact_int (ipx_RequestTimeout p)
      else 0 \<le> ipx_Port p \<and> exact_int (ipx_Port p) \<and> ipx_RequestTimeout p = 0)"

definition application_spec_ok :: "ProwlarrApplication \<Rightarrow> bool" where
  "application_spec_ok a \<longleftrightarrow> pap_Type a \<in> {AppTypeRadarr, AppTypeSonarr, AppTypeLidarr} \<and>
     (pap_SyncCategories a = [] \<or> prowlarr_category_ids (pap_SyncCategories a) \<noteq> []) \<and>
     (\<forall>i \<in> set (prowlarr_category_ids (pap_SyncCategories a)). exact_int i)"

definition client_spec_ok :: "DownloadClientSpec \<Rightarrow> bool" where
  "client_spec_ok dc \<longleftrightarrow> (case parseClientURL (dcs_URL dc) of (_, port, _) \<Rightarrow> 0 \<le> port \<and> port \<le> 65535)"

definition spec_ok :: "(string, string) gomap \<Rightarrow> ProwlarrConfigSpec \<Rightarrow> bool" where
  "spec_ok secrets spec \<longleftrightarrow> list_all indexer_spec_ok (pro_Indexers spec) \<and> list_all (proxy_spec_ok secrets) (pro_Proxies spec) \<and>
     list_all application_spec_ok (pro_Applications spec) \<and> list_all client_spec_ok (pro_DownloadClients spec)"

text \<open>The names the config's resources get are not taken by somebody else's.\<close>

definition names_free ::
    "string \<Rightarrow> IndexerResource list \<Rightarrow> IndexerProxyResource list \<Rightarrow> ApplicationResource list \<Rightarrow> DownloadClientResource list
     \<Rightarrow> ProwlarrConfigSpec \<Rightarrow> bool" where
  "names_free configName oi op oa od spec \<longleftrightarrow>
     (\<forall>x \<in> set (pro_Indexers spec). managed_name configName (pix_Name x) \<notin> pir_Name ` set oi) \<and>
     (\<forall>x \<in> set (pro_Proxies spec). managed_name configName (ipx_Name x) \<notin> ppr_Name ` set op) \<and>
     (\<forall>x \<in> set (pro_Applications spec). managed_name configName (pap_Name x) \<notin> pas_Name ` set oa) \<and>
     (\<forall>x \<in> set (pro_DownloadClients spec). managed_name configName (dcs_Name x) \<notin> pdr_Name ` set od)"

lemma ToLower_idem [simp]: "ToLower (ToLower s) = ToLower s"
  by (simp add: ToLower_def to_lower_char_def is_upper_def of_char_of)

lemma copied_settings:
  assumes "valid_order ord" and "gm_ok m"
  shows "gm_ok (copy_settings f (gm_range ord t m) [])" and "fst ` set (copy_settings f (gm_range ord t m) []) = fst ` set m"
proof -
  show ok: "gm_ok (copy_settings f (gm_range ord t m) [])"
    using gm_ok_fold_set [of "[]" fst "\<lambda>e. f (snd e)" "gm_range ord t m"] by (simp add: copy_settings_def case_prod_unfold)
  have "map_of (copy_settings f (gm_range ord t m) []) = (\<lambda>k. map_option f (map_of m k))"
    using assms by (auto simp: map_of_copy_settings distinct_gm_range map_of_gm_range split: option.split)
  then show "fst ` set (copy_settings f (gm_range ord t m) []) = fst ` set m"
    unfolding dom_map_of_conv_image_fst [symmetric] by (auto simp: dom_def)
qed

lemma compiled_indexers:
  assumes "valid_order ord" and "list_all indexer_spec_ok xs" and "d \<in> set (compileProwlarrIndexers ord xs configName secrets)"
  shows "indexer_settles d" "pidx_Name d \<in> (\<lambda>x. managed_name configName (pix_Name x)) ` set xs"
proof -
  obtain i x where d: "d = compile_prowlarr_indexer (shift_order i ord) configName secrets x" "x \<in> set xs"
    using assms(3) by (auto simp: compileProwlarrIndexers_def in_set_enumerate_eq)
  then have "indexer_spec_ok x" using assms(2) by (simp add: list_all_iff)
  then show "indexer_settles d" using assms(1)
    by (simp add: d(1) compile_prowlarr_indexer_def indexer_settles_def indexer_spec_ok_def copied_settings)
  show "pidx_Name d \<in> (\<lambda>x. managed_name configName (pix_Name x)) ` set xs"
    using d(2) by (simp add: d(1) compile_prowlarr_indexer_def)
qed

lemma compiled_proxies:
  assumes "list_all (proxy_spec_ok secrets) xs" and "d \<in> set (compileProwlarrProxies xs configName secrets)"
  shows "proxy_sendable d" "px_Name d \<in> (\<lambda>x. managed_name configName (ipx_Name x)) ` set xs"
proof -
  obtain x where x: "x \<in> set xs" "d \<in> set (compileProwlarrProxies [x] configName secrets)"
    using assms(2) by (auto simp: compileProwlarrProxies_def)
  then have "proxy_spec_ok secrets x" using assms(1) by (simp add: list_all_iff)
  with x(2) show "proxy_sendable d"
    by (cases "ipx_Type x = ProxyTypeFlareSolverr")
      (auto simp: compileProwlarrProxies_def proxy_sendable_def proxy_settles_def proxy_spec_ok_def implToProxyType_def
        proxyTypeToImpl_def exact_int_def)
  show "px_Name d \<in> (\<lambda>x. managed_name configName (ipx_Name x)) ` set xs"
    using x by (simp add: compileProwlarrProxies_def)
qed

lemma compiled_applications:
  assumes "list_all application_spec_ok xs" and "d \<in> set (compileProwlarrApplications xs configName url secrets)"
  shows "application_sendable d" "app_Name d \<in> (\<lambda>x. managed_name configName (pap_Name x)) ` set xs"
proof -
  obtain x where x: "x \<in> set xs" "d \<in> set (compileProwlarrApplications [x] configName url secrets)"
    using assms(2) by (auto simp: compileProwlarrApplications_def)
  then have "application_spec_ok x" using assms(1) by (simp add: list_all_iff)
  moreover have "\<exists>cs. map_of DefaultSyncCategories (pap_Type x) = Some cs" if "pap_Type x \<in> {AppTypeRadarr, AppTypeSonarr, AppTypeLidarr}"
    using that by (auto simp: DefaultSyncCategories_def)
  ultimately show "application_sendable d" using x(2) default_categories [of "pap_Type x"]
    by (auto simp: compileProwlarrApplications_def application_sendable_def application_settles_def application_spec_ok_def
        implToAppType_def appTypeToImpl_def convertProwlarrCategories_def)
  show "app_Name d \<in> (\<lambda>x. managed_name configName (pap_Name x)) ` set xs"
    using x by (simp add: compileProwlarrApplications_def)
qed

lemma compiled_clients:
  assumes "list_all client_spec_ok xs" and "d \<in> set (compileProwlarrDownloadClients xs configName secrets)"
  shows "client_sendable d" "dc_Name d \<in> (\<lambda>x. managed_name configName (dcs_Name x)) ` set xs"
proof -
  obtain x where x: "x \<in> set xs" "d \<in> set (compileProwlarrDownloadClients [x] configName secrets)"
    using assms(2) by (auto simp: compileProwlarrDownloadClients_def)
  then have "client_spec_ok x" using assms(1) by (simp add: list_all_iff)
  with x(2) show "client_sendable d"
    by (auto simp: compileProwlarrDownloadClients_def client_sendable_def client_settles_def client_spec_ok_def exact_int_def
        Let_def split: prod.splits)
  show "dc_Name d \<in> (\<lambda>x. managed_name configName (dcs_Name x)) ` set xs"
    using x by (simp add: compileProwlarrDownloadClients_def Let_def split: prod.splits)
qed

lemma compiled_ok:
  assumes ord: "valid_order ord" "\<And>d. valid_order (ords d)" and "spec_ok secrets (proc_Spec config)"
    and "names_free (om_Name (proc_ObjectMeta config)) oi op oa od (proc_Spec config)"
  shows "\<exists>ir p. CompileProwlarrConfig ord now config secrets caps = Ok ir \<and> ir_Prowlarr ir = Some p \<and> desired_ok ords oi op oa od p"
proof -
  let ?spec = "proc_Spec config" and ?name = "om_Name (proc_ObjectMeta config)"
  note ok = assms(3) [unfolded spec_ok_def] and free = assms(4) [unfolded names_free_def]
  have free_name: "n \<notin> B" if "\<forall>x \<in> A. f x \<notin> B" "n \<in> f ` A" for n :: string and f :: "'z \<Rightarrow> string" and A B
    using that by blast
  have "indexer_settles d \<and> valid_order (ords d) \<and> pidx_Name d \<notin> pir_Name ` set oi"
    if "d \<in> set (compileProwlarrIndexers ord (pro_Indexers ?spec) ?name secrets)" for d
    using compiled_indexers [OF ord(1) ok [THEN conjunct1] that] ord(2) by (intro conjI free_name [OF free [THEN conjunct1]])
  moreover have "proxy_sendable d \<and> px_Name d \<notin> ppr_Name ` set op"
    if "d \<in> set (compileProwlarrProxies (pro_Proxies ?spec) ?name secrets)" for d
    using compiled_proxies [OF ok [THEN conjunct2, THEN conjunct1] that]
    by (intro conjI free_name [OF free [THEN conjunct2, THEN conjunct1]])
  moreover have "application_sendable d \<and> app_Name d \<notin> pas_Name ` set oa"
    if "d \<in> set (compileProwlarrApplications (pro_Applications ?spec) ?name url secrets)" for d url
    using compiled_applications [OF ok [THEN conjunct2, THEN conjunct2, THEN conjunct1] that]
    by (intro conjI free_name [OF free [THEN conjunct2, THEN conjunct2, THEN conjunct1]])
  moreover have "client_sendable d \<and> dc_Name d \<notin> pdr_Name ` set od"
    if "d \<in> set (compileProwlarrDownloadClients (pro_DownloadClients ?spec) ?name secrets)" for d
    using compiled_clients [OF ok [THEN conjunct2, THEN conjunct2, THEN conjunct2] that]
    by (intro conjI free_name [OF free [THEN conjunct2, THEN conjunct2, THEN conjunct2]])
  ultimately show ?thesis
    by (simp add: CompileProwlarrConfig_def Let_def desired_ok_def)
qed

section \<open>From the config to a service in order\<close>

text \<open>
  C8. One reconciliation pass over a Prowlarr config converges, for a config whose resources the
  adapter reads back as it sent them and whose names no resource of another owner has: the config
  compiles, and on a service that keeps what it is sent, the pass that reads the service, diffs
  and applies succeeds, leaves every indexer, proxy, application and download client of other
  owners as it was, and the next pass finds nothing to do, in whatever orders the maps are ranged
  over and whatever the adapter's caches hold from earlier passes. The condition (\<open>spec_ok\<close>) is a
  real restriction for proxies: a FlareSolverr proxy has no port and no user name, and an HTTP or
  SOCKS proxy no request timeout, although the resource's schema defaults it to 60
  (\<^verbatim>\<open>prowlarrconfig_types.go\<close>, line 87); a proxy outside it is updated on every pass. Besides it asks
  that indexer settings do not name the base URL, the API key or the password, that applications
  are Radarr, Sonarr or Lidarr with at least one known category if they list any, and that ports
  are in range.
\<close>

theorem Prowlarr_config_converges:
  assumes "prowlarr_service hide api tagID li lp la ld" and "valid_order ord" "valid_order ord'" "valid_order ordc"
    and "\<forall>d. valid_order (ords d)" and "all_distinct li lp la ld s" and "spec_ok secrets (proc_Spec config)"
    and "names_free (om_Name (proc_ObjectMeta config)) (other_indexers tagID (li s)) (other_proxies tagID (lp s))
      (other_applications tagID (la s)) (other_clients tagID (ld s)) (proc_Spec config)"
  shows "\<exists>desired current v1 r v2 s' current' v3.
    CompileProwlarrConfig ordc now config secrets caps = Ok desired \<and>
    CurrentState now api conn (v, s) = (Ok current, (v1, s)) \<and>
    Apply ords api conn (Diff ord current desired) (v1, s) = (Ok r, (v2, s')) \<and> Success r \<and>
    other_indexers tagID (li s') = other_indexers tagID (li s) \<and> other_proxies tagID (lp s') = other_proxies tagID (lp s) \<and>
    other_applications tagID (la s') = other_applications tagID (la s) \<and> other_clients tagID (ld s') = other_clients tagID (ld s) \<and>
    CurrentState now' api conn (v2, s') = (Ok current', (v3, s')) \<and> IsEmpty (Diff ord' current' desired)"
proof -
  obtain desired p where c: "CompileProwlarrConfig ordc now config secrets caps = Ok desired" "ir_Prowlarr desired = Some p"
      "desired_ok ords (other_indexers tagID (li s)) (other_proxies tagID (lp s)) (other_applications tagID (la s))
        (other_clients tagID (ld s)) p"
    using compiled_ok [where ords = ords, OF assms(4) _ assms(7,8)] assms(5) by blast
  show ?thesis
    using pass_converges [where now = now and now' = now' and conn = conn and v = v, OF assms(1-3,6) c(2,3)] c(1) by blast
qed

text \<open>
  An instance: somebody else's indexer, a managed proxy that is no longer wanted, and a config
  with a resource of each kind.
\<close>

definition wanted_spec :: ProwlarrConfigSpec where
  "wanted_spec =
     \<lparr>pro_Connection = \<lparr>cns_URL = ''http://prowlarr:9696'', cns_APIKeySecretRef = None, cns_ConfigPath = '''',
         cns_InsecureSkipVerify = False, cns_Timeout = None\<rparr>,
      pro_Indexers = [\<lparr>pix_Name = ''nzb'', pix_Definition = ''Newznab'', pix_BaseURL = ''https://nzb.example'',
         pix_Settings = [(''vipExpiration'', ''2030-01-01'')], pix_APIKeySecretRef = None, pix_Tags = [], pix_Priority = 0, pix_Enabled = None\<rparr>],
      pro_Proxies = [\<lparr>ipx_Name = ''solver'', ipx_Type = ProxyTypeFlareSolverr, ipx_Host = ''http://solver:8191'', ipx_Port = 0,
         ipx_CredentialsSecretRef = None, ipx_RequestTimeout = 0, ipx_Tags = []\<rparr>],
      pro_Applications = [\<lparr>pap_Name = ''tv'', pap_Type = AppTypeSonarr, pap_URL = ''http://sonarr:8989'', pap_APIKeySecretRef = None,
         pap_ConfigPath = '''', pap_SyncCategories = [''TV-HD'', ''nonsense''], pap_SyncLevel = ''''\<rparr>],
      pro_DownloadClients = [], pro_Authentication = None, pro_Reconciliation = None\<rparr>"

definition wanted_config :: ProwlarrConfig where
  "wanted_config =
     \<lparr>proc_ObjectMeta = \<lparr>om_Name = ''main'', om_Namespace = ''media'', om_Generation = 1, om_Finalizers = [], om_DeletionTimestamp = None\<rparr>,
      proc_Spec = wanted_spec,
      proc_Status = \<lparr>prost_Conditions = [], prost_Connected = False, prost_ServiceVersion = '''', prost_LastReconcile = None,
       prost_ManagedIndexers = [], prost_ManagedProxies = [], prost_ManagedApplications = [], prost_LastAppliedHash = '''',
       prost_Health = None\<rparr>\<rparr>"

definition served_before :: served where
  "served_before = \<lparr>sv_indexers = [\<lparr>pir_ID = 1, pir_Name = ''theirs'', pir_DefinitionName = '''', pir_Implementation = '''',
       pir_ConfigContract = '''', pir_Enable = True, pir_Protocol = '''', pir_Priority = 1, pir_AppProfileID = 1, pir_Tags = [2], pir_Fields = [],
       pir_Capabilities = None\<rparr>],
     sv_proxies = [answer_proxy starred 4 (proxy_resource 0 (prowlarr_proxy ''old'' ProxyTypeHTTP 0) 3)],
     sv_applications = [], sv_clients = []\<rparr>"

definition prowlarr_conn :: ConnectionIR where
  "prowlarr_conn = \<lparr>conn_URL = ''http://prowlarr:9696'', conn_APIKey = ''k'', conn_InsecureSkipVerify = False\<rparr>"

lemma wanted_categories: "prowlarr_category_ids [''TV-HD'', ''nonsense''] = [5040]"
  by code_simp

lemma wanted_spec_ok: "spec_ok [] wanted_spec"
  by (simp add: spec_ok_def wanted_spec_def indexer_spec_ok_def gm_ok_def proxy_spec_ok_def application_spec_ok_def
      wanted_categories credentials_def exact_int_def del: prowlarr_category_ids.simps)

lemma wanted_names_free:
  "names_free ''main'' (other_indexers 3 (sv_indexers served_before)) (other_proxies 3 (sv_proxies served_before))
     (other_applications 3 (sv_applications served_before)) (other_clients 3 (sv_clients served_before)) wanted_spec"
  by (simp add: names_free_def wanted_spec_def served_before_def others_defs proxy_codec_simps managed_name_def)

theorem Prowlarr_config_converges_witness:
  "\<exists>desired current v1 r v2 s' current' v3.
    CompileProwlarrConfig backward_order 0 wanted_config [] None = Ok desired \<and>
    CurrentState 0 served_api prowlarr_conn (initial_vars, served_before) = (Ok current, (v1, served_before)) \<and>
    Apply (\<lambda>_. backward_order) served_api prowlarr_conn (Diff forward_order current desired) (v1, served_before) = (Ok r, (v2, s')) \<and>
    Success r \<and> map pir_Name (other_indexers 3 (sv_indexers s')) = [''theirs''] \<and>
    CurrentState 1 served_api prowlarr_conn (v2, s') = (Ok current', (v3, s')) \<and> IsEmpty (Diff backward_order current' desired)"
proof -
  have dist: "all_distinct sv_indexers sv_proxies sv_applications sv_clients served_before"
    by (simp add: all_distinct_def served_before_def)
  have theirs: "map pir_Name (other_indexers 3 (sv_indexers served_before)) = [''theirs'']"
    by (simp add: served_before_def others_defs hasTag_def)
  have "spec_ok [] (proc_Spec wanted_config)"
    "names_free (om_Name (proc_ObjectMeta wanted_config)) (other_indexers 3 (sv_indexers served_before))
      (other_proxies 3 (sv_proxies served_before)) (other_applications 3 (sv_applications served_before))
      (other_clients 3 (sv_clients served_before)) (proc_Spec wanted_config)"
    using wanted_spec_ok wanted_names_free by (simp_all add: wanted_config_def)
  from Prowlarr_config_converges [where now = 0 and now' = 1 and conn = prowlarr_conn and v = initial_vars and caps = None
      and ords = "\<lambda>_. backward_order", OF served_api_service valid_forward_order valid_backward_order valid_backward_order _ dist this]
  show ?thesis using valid_backward_order theirs by fastforce
qed

end
