(* ===== verification/Prowlarr_Reconcile.thy ===== *)
theory Prowlarr_Reconcile
  imports Lifecycle Prowlarr_Compiler
begin

text \<open>
  \<^verbatim>\<open>src/internal/controller/prowlarrconfig_controller.go\<close>: the controller of \<^verbatim>\<open>ProwlarrConfig\<close>,
  which has the flow of the generic reconciler without the direct settings and the registration,
  and the Prowlarr adapter behind the interface \<open>AdapterOps\<close>. The world is the pair of the
  adapter's package variables and the rest.
\<close>

section \<open>The adapter behind the interface\<close>

definition prowlarr_ops ::
    "range_order \<Rightarrow> (ProwlarrIndexerIR \<Rightarrow> range_order) \<Rightarrow> ('s \<Rightarrow> int) \<Rightarrow> (ConnectionIR \<Rightarrow> 's ProwlarrAPI)
     \<Rightarrow> (ProwlarrVars \<times> 's) AdapterOps" where
  "prowlarr_ops ord ords now api =
     \<lparr>ad_Name = ''prowlarr'', ad_SupportedApp = AppProwlarr,
      ad_Connect = (\<lambda>conn. on_service (Connect (api conn))),
      ad_Discover = (\<lambda>conn vs. on_service (Discover (now (snd vs)) (api conn)) vs),
      ad_CurrentState = (\<lambda>conn vs. andThen (CurrentState (now (snd vs)) (api conn) conn) (\<lambda>ir. give (Some ir)) vs),
      ad_Diff = (\<lambda>current desired caps. case current of
          None \<Rightarrow> if ir_Prowlarr desired = None then give no_changes else panics ''nil pointer dereference''
        | Some cur \<Rightarrow> give (Diff ord cur desired)),
      ad_Apply = (\<lambda>conn changes. if_err (Apply ords (api conn) conn changes) (\<lambda>e. give (None, Some e)) (\<lambda>x. give (Some x, None))),
      ad_ApplyDirect = None,
      ad_GetHealth = Some (\<lambda>conn. on_service (Prowlarr.GetHealth (api conn)))\<rparr>"

section \<open>The controller\<close>

definition prowlarrFinalizer :: string where
  "prowlarrFinalizer = ''prowlarrconfig.arr.rinzler.cloud/finalizer''"

record 'w ProwlarrConfigReconciler =
  pcr_Env :: "'w Env"
  pcr_Client :: "(ProwlarrConfig, 'w) ObjectClient"
  pcr_order :: range_order

abbreviation prowlarr_wrapper :: "ProwlarrConfig ConfigStatus" where
  "prowlarr_wrapper \<equiv> at_status proc_Status proc_Status_update ProwlarrStatusWrapper"

definition prowlarr_save :: "'w ProwlarrConfigReconciler \<Rightarrow> ctrl_Result \<Rightarrow> string option \<Rightarrow> (ProwlarrConfig \<times> 'w, reconcile_return) action" where
  "prowlarr_save r res err =
     if_err (store_object (oc_UpdateStatus (pcr_Client r))) (\<lambda>_. give (res, err)) (\<lambda>_. give (res, err))"

definition prowlarr_not_ready ::
    "'w ProwlarrConfigReconciler \<Rightarrow> int \<Rightarrow> string \<Rightarrow> string \<Rightarrow> string option \<Rightarrow> (ProwlarrConfig \<times> 'w, reconcile_return) action" where
  "prowlarr_not_ready r generation reason message err =
     SetCondition (pcr_Env r) prowlarr_wrapper generation ConditionTypeReady ConditionFalse reason message
       (prowlarr_save r (requeue_after ErrorRequeueInterval) err)"

definition prowlarr_secrets :: "'w Env \<Rightarrow> ProwlarrConfig \<Rightarrow> ('w, (string, string) gomap) action" where
  "prowlarr_secrets env config =
     (let namespace = om_Namespace (proc_ObjectMeta config); spec = proc_Spec config in
      andThen (ResolveConnectionSecrets env namespace (pro_Connection spec)) (\<lambda>resolved.
      andThen (ResolveDownloadClientSecrets env namespace (pro_DownloadClients spec) resolved) (\<lambda>resolved.
      andThen (ResolveProwlarrIndexerSecrets env namespace (pro_Indexers spec) resolved) (\<lambda>resolved.
      andThen (ResolveProxySecrets env namespace (pro_Proxies spec) resolved) (\<lambda>resolved.
      ResolveApplicationSecrets env namespace (pro_Applications spec) resolved)))))"

definition prowlarr_finish :: "'w ProwlarrConfigReconciler \<Rightarrow> ConnectionIR \<Rightarrow> (ProwlarrConfig \<times> 'w, reconcile_return) action" where
  "prowlarr_finish r connIR cw =
     andThen (on_service (CheckAndReportHealth (pcr_Env r) AppProwlarr connIR (proc_ObjectMeta (fst cw)))) (\<lambda>healthStatus.
     on_config (case healthStatus of None \<Rightarrow> (\<lambda>c. c) | Some _ \<Rightarrow> proc_Status_update (prost_Health_update (\<lambda>_. healthStatus)))
       (if_err (store_object (oc_UpdateStatus (pcr_Client r))) (\<lambda>err. give (no_requeue, Some err)) (\<lambda>_ cw.
         (Ok (requeue_after (requeue_interval (pro_Reconciliation (proc_Spec (fst cw)))), None), cw)))) cw"

definition reconcileNormal :: "'w ProwlarrConfigReconciler \<Rightarrow> (ProwlarrConfig \<times> 'w, reconcile_return) action" where
  "reconcileNormal r cw =
     (let env = pcr_Env r; config = fst cw; generation = om_Generation (proc_ObjectMeta config)
      in if_err (on_service (prowlarr_secrets env config))
           (\<lambda>err. prowlarr_not_ready r generation ''SecretResolutionFailed'' err (Some err))
           (\<lambda>resolvedSecrets.
             let connIR = connection_ir (pro_Connection (proc_Spec config)) resolvedSecrets
             in case Get (env_adapters env) AppProwlarr of
                  None \<Rightarrow> prowlarr_not_ready r generation ''AdapterNotFound'' ''prowlarr adapter not registered'' None
                | Some adapter \<Rightarrow>
                    if_err (on_service (ad_Discover adapter connIR))
                      (\<lambda>err. prowlarr_not_ready r generation ''DiscoveryFailed'' err (Some err))
                      (\<lambda>caps. read_clock env (\<lambda>now.
                        case CompileProwlarrConfig (pcr_order r) now config resolvedSecrets (Some caps) of
                          Err err \<Rightarrow> prowlarr_not_ready r generation ''CompilationFailed'' err (Some err)
                        | Panic p \<Rightarrow> panics p
                        | Ok desiredIR \<Rightarrow>
                            andThen (ReconcileConfig env AppProwlarr connIR desiredIR prowlarr_wrapper generation) (\<lambda>(_, err).
                              case err of
                                Some e \<Rightarrow> prowlarr_save r (requeue_after ErrorRequeueInterval) (Some e)
                              | None \<Rightarrow> prowlarr_finish r connIR))))
           cw)"

definition prowlarr_cleanup :: "'w Env \<Rightarrow> ProwlarrConfig \<Rightarrow> ('w, unit) action" where
  "prowlarr_cleanup env config =
     (let spec = pro_Connection (proc_Spec config) in
      if_err (ResolveConnectionSecrets env (om_Namespace (proc_ObjectMeta config)) spec) (\<lambda>_. give ()) (\<lambda>resolvedSecrets.
        or_else (CleanupManagedResources env AppProwlarr (connection_ir spec resolvedSecrets)) (\<lambda>_. give ())))"

definition reconcileDelete :: "'w ProwlarrConfigReconciler \<Rightarrow> (ProwlarrConfig \<times> 'w, reconcile_return) action" where
  "reconcileDelete r cw =
     andThen (on_service (prowlarr_cleanup (pcr_Env r) (fst cw))) (\<lambda>_.
     on_config (proc_ObjectMeta_update (om_Finalizers_update (env_RemoveFinalizer (pcr_Env r) prowlarrFinalizer)))
       (if_err (store_object (oc_Update (pcr_Client r))) (\<lambda>err. give (no_requeue, Some err))
         (\<lambda>_. give (no_requeue, None)))) cw"

definition reconcile_config :: "'w ProwlarrConfigReconciler \<Rightarrow> (ProwlarrConfig \<times> 'w, reconcile_return) action" where
  "reconcile_config r cw =
     (let env = pcr_Env r; config = fst cw; meta = proc_ObjectMeta config
      in if (case pro_Reconciliation (proc_Spec config) of None \<Rightarrow> False | Some spec \<Rightarrow> rcs_Suspend spec)
         then give (no_requeue, None) cw
         else if om_DeletionTimestamp meta \<noteq> None then reconcileDelete r cw
         else if \<not> env_ContainsFinalizer env prowlarrFinalizer (om_Finalizers meta)
         then on_config (proc_ObjectMeta_update (om_Finalizers_update (env_AddFinalizer env prowlarrFinalizer)))
           (if_err (store_object (oc_Update (pcr_Client r))) (\<lambda>err. give (no_requeue, Some err))
             (\<lambda>_. give (\<lparr>res_Requeue = True, res_RequeueAfter = 0\<rparr>, None))) cw
         else reconcileNormal r cw)"

definition Reconcile :: "'w ProwlarrConfigReconciler \<Rightarrow> string \<Rightarrow> string \<Rightarrow> ('w, reconcile_return) action" where
  "Reconcile r namespace name =
     if_err (oc_Get (pcr_Client r) namespace name) (\<lambda>err. give (no_requeue, Some err)) (\<lambda>obj.
       case obj of
         None \<Rightarrow> give (no_requeue, None)
       | Some c \<Rightarrow> (\<lambda>w. case reconcile_config r (c, w) of (q, (c', w')) \<Rightarrow> (q, w')))"


section \<open>Deletion\<close>

lemma cleanup_desired: "Diff ord current (zero_IR\<lparr>ir_App := app\<rparr>) = no_changes"
  by (simp add: Diff_def zero_IR_def)

text \<open>
  C39. Deleting a \<^verbatim>\<open>ProwlarrConfig\<close> leaves everything it managed on the service. The cleanup asks
  the adapter for the difference to an IR without a Prowlarr part, for which \<^verbatim>\<open>Diff\<close> answers
  that there is nothing to do: on a service that answers, the cleanup reports success and the
  service is as it was.
\<close>

theorem ProwlarrConfig_deletion_keeps_resources:
  assumes "Get (env_adapters env) AppProwlarr = Some (prowlarr_ops ord ords now api)"
    and "ResolveConnectionSecrets env (om_Namespace (proc_ObjectMeta config)) (pro_Connection (proc_Spec config)) (v, s) =
      (Ok resolved, (v, s))"
    and "prowlarr_service hide (api (connection_ir (pro_Connection (proc_Spec config)) resolved)) tagID li lp la ld"
    and "all_distinct li lp la ld s"
    and "\<forall>t. \<exists>caps. Discover t (api (connection_ir (pro_Connection (proc_Spec config)) resolved)) s = (Ok caps, s)"
  shows "\<exists>v'. prowlarr_cleanup env config (v, s) = (Ok (), (v', s))"
proof -
  let ?conn = "connection_ir (pro_Connection (proc_Spec config)) resolved"
  obtain ir v' where c: "CurrentState (now s) (api ?conn) ?conn (v, s) = (Ok ir, (v', s))"
    using CurrentState_run [OF assms(3,4)] by blast
  obtain caps where d: "Discover (now s) (api ?conn) s = (Ok caps, s)" using assms(5) by blast
  have "CleanupManagedResources env AppProwlarr ?conn (v, s) = (Ok (), (v', s))"
    using c d by (simp add: CleanupManagedResources_def assms(1) prowlarr_ops_def on_service_def andThen_def or_else_def give_def
        cleanup_desired IsEmpty_def no_changes_def)
  then show ?thesis
    using assms(2) by (simp add: prowlarr_cleanup_def Let_def if_err_def or_else_def)
qed

definition deletion_env :: "(ProwlarrVars \<times> served) Env" where
  "deletion_env = plain_env [(AppProwlarr, prowlarr_ops forward_order (\<lambda>_. forward_order) (\<lambda>_. 0) (\<lambda>_. served_api))]"

theorem ProwlarrConfig_deletion_keeps_resources_witness:
  "\<exists>v'. prowlarr_cleanup deletion_env wanted_config (initial_vars, served_before) = (Ok (), (v', served_before)) \<and>
    map ppr_Name (filter (\<lambda>r. hasTag (ppr_Tags r) 3) (sv_proxies served_before)) = [''old'']"
proof -
  have ads: "Get (env_adapters deletion_env) AppProwlarr =
      Some (prowlarr_ops forward_order (\<lambda>_. forward_order) (\<lambda>_. 0) (\<lambda>_. served_api))"
    by (simp add: deletion_env_def Get_def)
  have secrets: "\<exists>m. ResolveConnectionSecrets deletion_env (om_Namespace (proc_ObjectMeta wanted_config))
      (pro_Connection (proc_Spec wanted_config)) (initial_vars, served_before) = (Ok m, (initial_vars, served_before))"
    by (simp add: ResolveConnectionSecrets_def wanted_config_def wanted_spec_def give_def)
  have dist: "all_distinct sv_indexers sv_proxies sv_applications sv_clients served_before"
    by (simp add: all_distinct_def served_before_def)
  have disc: "\<forall>t. \<exists>caps. Discover t served_api served_before = (Ok caps, served_before)"
    by (simp add: Discover_def try_types_def served_api_def part_endpoint_def on_part_def list_endpoint_def or_else_def andThen_def give_def
        served_before_def)
  have old: "map ppr_Name (filter (\<lambda>r. hasTag (ppr_Tags r) 3) (sv_proxies served_before)) = [''old'']"
    by (simp add: served_before_def proxy_codec_simps prowlarr_proxy_def)
  obtain m where "ResolveConnectionSecrets deletion_env (om_Namespace (proc_ObjectMeta wanted_config))
      (pro_Connection (proc_Spec wanted_config)) (initial_vars, served_before) = (Ok m, (initial_vars, served_before))"
    using secrets by blast
  from ProwlarrConfig_deletion_keeps_resources [OF ads this served_api_service dist disc]
  obtain v' where "prowlarr_cleanup deletion_env wanted_config (initial_vars, served_before) = (Ok (), (v', served_before))" ..
  from conjI [OF this old] show ?thesis ..
qed

section \<open>The status\<close>

text \<open>
  The IR of a Prowlarr config carries no hash, so a reconciliation that succeeds records the
  empty one: the status of a \<^verbatim>\<open>ProwlarrConfig\<close> never has the hash of an applied configuration,
  and one that was there is lost; the rest of the status is as for the other resources, and the
  spec is not touched.
\<close>

theorem ProwlarrConfig_hash_never_recorded:
  assumes "sets_status_condition (env_SetStatusCondition env)"
    and "\<forall>adapter changes. Get (env_adapters env) AppProwlarr = Some adapter \<longrightarrow> returns_pair (ad_Apply adapter conn changes)"
    and "CompileProwlarrConfig ord now c secrets caps = Ok ir"
    and "ReconcileConfig env AppProwlarr conn ir prowlarr_wrapper generation (c, w) = (Ok (res, None), (c', w'))"
  shows "prost_LastAppliedHash (proc_Status c') = '''' \<and>
    has_condition ConditionTypeReady ConditionTrue generation (prowlarr_view c') \<and> proc_Spec c' = proc_Spec c"
proof -
  have "ir_SourceHash ir = ''''" using assms(3) by (auto simp: CompileProwlarrConfig_def Let_def zero_IR_def)
  moreover have "reconciled (prowlarr_view c) generation (ir_SourceHash ir) (Ok (res, None)) (prowlarr_view c') \<and> proc_Spec c' = proc_Spec c"
    using ensuresD [OF prowlarr_status.ReconcileConfig_reconciled [OF assms(1), of AppProwlarr conn] assms(4)] assms(2) by auto
  ultimately show ?thesis by (auto simp: reconciled_def prowlarr_view_def)
qed


text \<open>An instance: an adapter that connects, finds nothing and applies nothing.\<close>

definition idle_caps :: Capabilities where
  "idle_caps = \<lparr>cap_DiscoveredAt = 0, cap_Resolutions = [], cap_Sources = [], cap_CustomFormatSpecs = [],
     cap_AudioTiers = [], cap_DownloadClientTypes = [], cap_IndexerTypes = []\<rparr>"

definition idle_ops :: "unit AdapterOps" where
  "idle_ops = \<lparr>ad_Name = ''prowlarr'', ad_SupportedApp = AppProwlarr,
     ad_Connect = (\<lambda>conn. give \<lparr>si_Version = ''1'', si_StartTime = 0\<rparr>),
     ad_Discover = (\<lambda>conn. give idle_caps),
     ad_CurrentState = (\<lambda>conn. give (Some zero_IR)), ad_Diff = (\<lambda>cur des caps. give no_changes),
     ad_Apply = (\<lambda>conn changes. give (Some zero_result, None)), ad_ApplyDirect = None, ad_GetHealth = None\<rparr>"


lemma idle_ops_simps:
  "ad_Connect idle_ops conn w = (Ok \<lparr>si_Version = ''1'', si_StartTime = 0\<rparr>, w)" "ad_Discover idle_ops conn w = (Ok idle_caps, w)"
  "ad_CurrentState idle_ops conn w = (Ok (Some zero_IR), w)" "ad_Diff idle_ops cur des caps w = (Ok no_changes, w)"
  by (simp_all add: idle_ops_def give_def)

theorem ProwlarrConfig_hash_never_recorded_witness:
  "\<exists>ir res c' w'. CompileProwlarrConfig forward_order 0 wanted_config [] None = Ok ir \<and>
    ReconcileConfig (plain_env [(AppProwlarr, idle_ops)]) AppProwlarr prowlarr_conn ir prowlarr_wrapper 1 (wanted_config, ()) =
      (Ok (res, None), (c', w')) \<and> prost_LastAppliedHash (proc_Status c') = ''''"
proof -
  obtain ir where ir: "CompileProwlarrConfig forward_order 0 wanted_config [] None = Ok ir"
    by (simp add: CompileProwlarrConfig_def Let_def)
  have "IsEmpty no_changes" by (simp add: IsEmpty_def no_changes_def)
  then have "\<exists>res c' w'. ReconcileConfig (plain_env [(AppProwlarr, idle_ops)]) AppProwlarr prowlarr_conn ir prowlarr_wrapper 1
      (wanted_config, ()) = (Ok (res, None), (c', w'))"
    by (simp add: ReconcileConfig_def Get_def read_clock_def if_err_def on_service_def give_def on_config_def SetCondition_def
        on_world_def sync_changes_def finish_sync_def idle_ops_simps)
  then obtain res c' w' where run: "ReconcileConfig (plain_env [(AppProwlarr, idle_ops)]) AppProwlarr prowlarr_conn ir prowlarr_wrapper 1
      (wanted_config, ()) = (Ok (res, None), (c', w'))" by blast
  have law: "sets_status_condition (env_SetStatusCondition (plain_env [(AppProwlarr, idle_ops)]))"
    by (simp add: upsert_condition_sets)
  have pair: "\<forall>adapter changes. Get (env_adapters (plain_env [(AppProwlarr, idle_ops)])) AppProwlarr = Some adapter \<longrightarrow>
      returns_pair (ad_Apply adapter prowlarr_conn changes)"
    by (auto simp: Get_def idle_ops_def returns_pair_def give_def)
  show ?thesis
    using ProwlarrConfig_hash_never_recorded [OF law pair ir run] ir run by blast
qed

end
