(* ===== verification/Lidarr_Convert.thy ===== *)
theory Lidarr_Convert
  imports Endpoint
begin

text \<open>
  The wire types and conversions of the Lidarr adapter (\<^verbatim>\<open>src/internal/adapters/lidarr\<close>:
  \<^verbatim>\<open>types.go\<close>, and the pure functions of the other files). The adapter follows the Sonarr
  adapter; quality profiles are lists of audio tiers, indexers are the shared base resource, and
  a root folder carries the defaults of what is added below it. \<^verbatim>\<open>fmt.Sprintf("%v", v)\<close> of a
  dynamic value is the parameter \<open>sprint\<close>.
\<close>

section \<open>Types (types.go, importlists.go, mediamanagement.go)\<close>

record Quality =
  ql_ID :: int
  ql_Name :: string

datatype QualityProfileItem =
  QualityProfileItem (qpi_ID: int) (qpi_Name: string) (qpi_Quality: "Quality option")
    (qpi_Items: "QualityProfileItem list") (qpi_Allowed: bool)

text \<open>The adapter never looks into a format item.\<close>

record QualityProfileResource =
  qpr_ID :: int
  qpr_Name :: string
  qpr_UpgradeAllowed :: bool
  qpr_Cutoff :: int
  qpr_Items :: "QualityProfileItem list"
  qpr_MinFormatScore :: int
  qpr_CutoffFormatScore :: int
  qpr_FormatItems :: "GoValue list"

record DownloadClientResource =
  dcr_Base :: BaseDownloadClientResource
  dcr_RemoveCompletedDownloads :: bool
  dcr_RemoveFailedDownloads :: bool

type_synonym IndexerResource = BaseIndexerResource

record RootFolderResource =
  rfr_ID :: int
  rfr_Path :: string
  rfr_Name :: string
  rfr_DefaultMetadataProfileId :: int
  rfr_DefaultQualityProfileId :: int
  rfr_DefaultMonitorOption :: string

record NamingConfigResource =
  ncr_ID :: int
  ncr_RenameTracks :: bool
  ncr_ReplaceIllegalCharacters :: bool
  ncr_StandardTrackFormat :: string
  ncr_MultiDiscTrackFormat :: string
  ncr_ArtistFolderFormat :: string
  ncr_AlbumFolderFormat :: string

record MetadataProfileResource =
  mpr_ID :: int
  mpr_Name :: string

record NotificationResource =
  ntr_ID :: int
  ntr_Name :: string
  ntr_Implementation :: string
  ntr_ConfigContract :: string
  ntr_Tags :: "int list"
  ntr_Fields :: "Field list"
  ntr_OnGrab :: bool
  ntr_OnReleaseImport :: bool
  ntr_OnUpgrade :: bool
  ntr_OnRename :: bool
  ntr_OnArtistAdd :: bool
  ntr_OnArtistDelete :: bool
  ntr_OnAlbumDelete :: bool
  ntr_OnTrackRetag :: bool
  ntr_OnDownloadFailure :: bool
  ntr_OnImportFailure :: bool
  ntr_OnHealthIssue :: bool
  ntr_OnHealthRestored :: bool
  ntr_OnApplicationUpdate :: bool
  ntr_IncludeHealthWarnings :: bool

record CustomFormatResource =
  cfr_Base :: BaseCustomFormatResource

type_synonym DelayProfileResource = BaseDelayProfileResource

record ImportListResource =
  ilr_ID :: int
  ilr_Name :: string
  ilr_Implementation :: string
  ilr_ConfigContract :: string
  ilr_EnableAutomaticAdd :: bool
  ilr_SearchForNewAlbum :: bool
  ilr_QualityProfileID :: int
  ilr_MetadataProfileID :: int
  ilr_RootFolderPath :: string
  ilr_ShouldMonitor :: string
  ilr_MonitorNewItems :: string
  ilr_ListType :: string
  ilr_ListOrder :: int
  ilr_Tags :: "int list"
  ilr_Fields :: "Field list"

record MediaManagementConfigResource =
  mcr_ID :: int
  mcr_RecycleBin :: string
  mcr_RecycleBinCleanupDays :: int
  mcr_SetPermissionsLinux :: bool
  mcr_ChmodFolder :: string
  mcr_ChownGroup :: string
  mcr_DeleteEmptyFolders :: bool
  mcr_CreateEmptyArtistFolders :: bool
  mcr_CopyUsingHardlinks :: bool
  mcr_ImportExtraFiles :: bool
  mcr_ExtraFileExtensions :: string
  mcr_DownloadPropersAndRepacks :: string
  mcr_WatchLibraryForChanges :: bool
  mcr_AllowFingerprinting :: string
  mcr_RescanAfterRefresh :: string
  mcr_FileDate :: string
  mcr_SkipFreeSpaceCheckWhenImporting :: bool
  mcr_MinimumFreeSpaceWhenImporting :: int

section \<open>Download clients\<close>

definition clientToIR :: "DownloadClientResource \<Rightarrow> DownloadClientIR" where
  "clientToIR dc =
     (let b = dcr_Base dc in
      ExtractDownloadClientFields [''category'', ''musicCategory''] (bdc_Fields b)
        \<lparr>dc_ID = bdc_ID b, dc_Name = bdc_Name b, dc_Protocol = bdc_Protocol b,
         dc_Implementation = bdc_Implementation b, dc_Enable = bdc_Enable b, dc_Priority = bdc_Priority b,
         dc_RemoveCompletedDownloads = dcr_RemoveCompletedDownloads dc,
         dc_RemoveFailedDownloads = dcr_RemoveFailedDownloads dc,
         dc_Host = '''', dc_Port = 0, dc_UseTLS = False, dc_Username = '''', dc_Password = '''',
         dc_Category = '''', dc_Directory = ''''\<rparr>)"

definition downloadClientFromIR :: "DownloadClientIR \<Rightarrow> int \<Rightarrow> DownloadClientResource" where
  "downloadClientFromIR dc tagID =
     \<lparr>dcr_Base =
        \<lparr>bdc_ID = 0, bdc_Name = dc_Name dc, bdc_Implementation = dc_Implementation dc,
         bdc_ConfigContract = dc_Implementation dc @ ''Settings'', bdc_Protocol = dc_Protocol dc,
         bdc_Enable = dc_Enable dc, bdc_Priority = dc_Priority dc, bdc_Tags = [tagID],
         bdc_Fields = [mk_field ''host'' (VString (dc_Host dc)), mk_field ''port'' (VInt (dc_Port dc)),
           mk_field ''useSsl'' (VBool (dc_UseTLS dc)), mk_field ''username'' (VString (dc_Username dc)),
           mk_field ''password'' (VString (dc_Password dc)), mk_field ''musicCategory'' (VString (dc_Category dc))]\<rparr>,
      dcr_RemoveCompletedDownloads = dc_RemoveCompletedDownloads dc,
      dcr_RemoveFailedDownloads = dc_RemoveFailedDownloads dc\<rparr>"

section \<open>Indexers\<close>

definition indexerToIR :: "IndexerResource \<Rightarrow> IndexerIR" where
  "indexerToIR b =
     ExtractIndexerFields (bix_Fields b)
        \<lparr>idx_ID = bix_ID b, idx_Name = bix_Name b, idx_Protocol = bix_Protocol b,
         idx_Implementation = bix_Implementation b, idx_Enable = bix_Enable b, idx_Priority = bix_Priority b,
         idx_URL = '''', idx_APIKey = '''', idx_Categories = [], idx_MinimumSeeders = 0, idx_SeedRatio = 0,
         idx_SeedTimeMinutes = 0, idx_EnableRss = bix_EnableRss b,
         idx_EnableAutomaticSearch = bix_EnableAutomaticSearch b,
         idx_EnableInteractiveSearch = bix_EnableInteractiveSearch b\<rparr>"

definition indexerFromIR :: "IndexerIR \<Rightarrow> int \<Rightarrow> IndexerResource" where
  "indexerFromIR idx tagID =
     \<lparr>bix_ID = 0, bix_Name = idx_Name idx, bix_Implementation = idx_Implementation idx,
      bix_ConfigContract = idx_Implementation idx @ ''Settings'', bix_Protocol = idx_Protocol idx,
      bix_Enable = idx_Enable idx, bix_Priority = idx_Priority idx, bix_Tags = [tagID],
      bix_Fields = [mk_field ''baseUrl'' (VString (idx_URL idx)), mk_field ''apiKey'' (VString (idx_APIKey idx)),
        mk_field ''categories'' (VInts (idx_Categories idx))],
      bix_EnableRss = idx_EnableRss idx, bix_EnableAutomaticSearch = idx_EnableAutomaticSearch idx,
      bix_EnableInteractiveSearch = idx_EnableInteractiveSearch idx\<rparr>"

section \<open>Custom formats\<close>

text \<open>The first field named \<^verbatim>\<open>value\<close>, as a string.\<close>

fun spec_value :: "(GoValue \<Rightarrow> string) \<Rightarrow> Field list \<Rightarrow> string" where
  "spec_value sprint [] = ''''"
| "spec_value sprint (field # rest) =
     (if f_Name field = ''value''
      then (case as_string (f_Value field) of Some v \<Rightarrow> v | None \<Rightarrow> sprint (f_Value field))
      else spec_value sprint rest)"

definition customFormatToIR :: "(GoValue \<Rightarrow> string) \<Rightarrow> CustomFormatResource \<Rightarrow> CustomFormatIR" where
  "customFormatToIR sprint cf =
     (let b = cfr_Base cf in
      \<lparr>cf_ID = bcf_ID b, cf_Name = bcf_Name b, cf_IncludeWhenRenaming = bcf_IncludeCustomFormatWhenRenaming b,
       cf_Specifications = map (\<lambda>spec. \<lparr>fs_Type = csp_Implementation spec, fs_Name = csp_Name spec,
          fs_Negate = csp_Negate spec, fs_Required = csp_Required spec,
          fs_Value = spec_value sprint (csp_Fields spec)\<rparr>) (bcf_Specifications b)\<rparr>)"

definition buildSpecFields :: "FormatSpecIR \<Rightarrow> Field list" where
  "buildSpecFields spec = [mk_field ''value'' (VString (fs_Value spec))]"

definition irToCustomFormat :: "CustomFormatIR \<Rightarrow> CustomFormatResource" where
  "irToCustomFormat ir =
     \<lparr>cfr_Base = \<lparr>bcf_ID = cf_ID ir, bcf_Name = cf_Name ir,
        bcf_IncludeCustomFormatWhenRenaming = cf_IncludeWhenRenaming ir,
        bcf_Specifications = map (\<lambda>spec. \<lparr>csp_Name = fs_Name spec, csp_Implementation = fs_Type spec,
          csp_Negate = fs_Negate spec, csp_Required = fs_Required spec, csp_Fields = buildSpecFields spec\<rparr>)
          (cf_Specifications ir)\<rparr>\<rparr>"

section \<open>Quality profiles (quality.go, apply.go)\<close>

definition qualityToTier :: "string \<Rightarrow> string" where
  "qualityToTier qualityName =
     (if qualityName \<in> set [''FLAC 24bit'', ''FLAC 24bit Lossless''] then ''lossless-hires''
      else if qualityName \<in> set [''FLAC'', ''FLAC Lossless'', ''ALAC'', ''APE'', ''WAV''] then ''lossless''
      else if qualityName \<in> set [''MP3-320'', ''AAC-320'', ''OGG Vorbis Q10''] then ''lossy-high''
      else if qualityName \<in> set [''MP3-256'', ''AAC-256'', ''OGG Vorbis Q8''] then ''lossy-mid''
      else if qualityName \<in> set [''MP3-128'', ''AAC-128'', ''MP3-VBR'', ''AAC-VBR''] then ''lossy-low''
      else '''')"

definition profileToIR :: "QualityProfileResource \<Rightarrow> AudioQualityIR" where
  "profileToIR p =
     \<lparr>aq_ProfileName = qpr_Name p, aq_UpgradeAllowed = qpr_UpgradeAllowed p, aq_Cutoff = '''',
      aq_Tiers = List.map_filter (\<lambda>item. case qpi_Quality item of
         Some q \<Rightarrow> if qpi_Allowed item \<and> qualityToTier (ql_Name q) \<noteq> ''''
                    then Some \<lparr>at_Tier = qualityToTier (ql_Name q), at_Allowed = True\<rparr> else None
       | None \<Rightarrow> None) (qpr_Items p),
      aq_ReleaseProfile = None, aq_FormatScores = [], aq_MinimumCustomFormatScore = 0,
      aq_UpgradeUntilCustomFormatScore = 0\<rparr>"

definition groupNameToTier :: "string \<Rightarrow> string" where
  "groupNameToTier groupName =
     (if groupName = ''Lossless'' then ''lossless''
      else if groupName = ''High Quality Lossy'' then ''lossy-high''
      else if groupName = ''Mid Quality Lossy'' then ''lossy-mid''
      else if groupName = ''Low Quality Lossy'' then ''lossy-low''
      else '''')"

definition qualityNameToTier :: "string \<Rightarrow> string" where
  "qualityNameToTier qualityName =
     (if qualityName \<in> set [''FLAC 24bit'', ''ALAC 24bit''] then ''lossless-hires''
      else if qualityName \<in> set [''FLAC'', ''ALAC'', ''APE'', ''WavPack'', ''WAV''] then ''lossless''
      else if qualityName \<in> set [''MP3-320'', ''AAC-320'', ''OGG Vorbis Q10'', ''OGG Vorbis Q9'', ''MP3-VBR-V0'', ''AAC-VBR''] then ''lossy-high''
      else if qualityName \<in> set [''MP3-256'', ''AAC-256'', ''OGG Vorbis Q8'', ''OGG Vorbis Q7'', ''MP3-VBR-V2''] then ''lossy-mid''
      else if qualityName \<in> set [''MP3-192'', ''AAC-192'', ''OGG Vorbis Q6'', ''WMA'', ''MP3-160'', ''MP3-128''] then ''lossy-low''
      else '''')"

text \<open>A deep copy: in values without sharing, the item itself.\<close>

fun copyQualityItem :: "QualityProfileItem \<Rightarrow> QualityProfileItem" where
  "copyQualityItem (QualityProfileItem i name quality items allowed) =
     QualityProfileItem i name (map_option (\<lambda>q. \<lparr>ql_ID = ql_ID q, ql_Name = ql_Name q\<rparr>) quality)
       (map copyQualityItem items) allowed"

text \<open>The tier of an item of the schema: by the name of the group, else by that of the quality.\<close>

definition item_tier :: "QualityProfileItem \<Rightarrow> string" where
  "item_tier item =
     (let tierName = groupNameToTier (qpi_Name item)
      in if tierName = '''' then (case qpi_Quality item of Some q \<Rightarrow> qualityNameToTier (ql_Name q) | None \<Rightarrow> '''') else tierName)"

fun apply_tiers :: "(string, bool) gomap \<Rightarrow> string \<Rightarrow> QualityProfileItem list \<Rightarrow> int \<Rightarrow> QualityProfileItem list \<times> int" where
  "apply_tiers tierAllowed cutoff [] cutoffID = ([], cutoffID)"
| "apply_tiers tierAllowed cutoff (item # rest) cutoffID =
     (let copied = copyQualityItem item; tierName = item_tier item;
          (item', c) = (case map_of tierAllowed tierName of
             None \<Rightarrow> (copied, cutoffID)
           | Some allowed \<Rightarrow>
               (QualityProfileItem (qpi_ID copied) (qpi_Name copied) (qpi_Quality copied) (qpi_Items copied) allowed,
                if allowed \<and> cutoff = tierName
                then (if qpi_ID item \<noteq> 0 then qpi_ID item
                      else case qpi_Quality item of Some q \<Rightarrow> ql_ID q | None \<Rightarrow> cutoffID)
                else cutoffID));
          (is, c') = apply_tiers tierAllowed cutoff rest c
      in (item' # is, c'))"

definition profileFromSchema :: "QualityProfileResource \<Rightarrow> AudioQualityIR \<Rightarrow> QualityProfileResource" where
  "profileFromSchema schema profile =
     (let tierAllowed = fold (\<lambda>tier m. gm_set (at_Tier tier) (at_Allowed tier) m) (aq_Tiers profile) [];
          (items, cutoffID) = apply_tiers tierAllowed (aq_Cutoff profile) (qpr_Items schema) 0
      in \<lparr>qpr_ID = 0, qpr_Name = aq_ProfileName profile, qpr_UpgradeAllowed = aq_UpgradeAllowed profile,
          qpr_Cutoff = (if cutoffID = 0 then 1005 else cutoffID), qpr_Items = items,
          qpr_MinFormatScore = 0, qpr_CutoffFormatScore = 0, qpr_FormatItems = []\<rparr>)"

section \<open>Naming\<close>

definition namingToIR :: "NamingConfigResource \<Rightarrow> LidarrNamingIR" where
  "namingToIR n =
     \<lparr>ln_RenameTracks = ncr_RenameTracks n, ln_ReplaceIllegalCharacters = ncr_ReplaceIllegalCharacters n,
      ln_ColonReplacementFormat = 0, ln_StandardTrackFormat = ncr_StandardTrackFormat n,
      ln_MultiDiscTrackFormat = ncr_MultiDiscTrackFormat n, ln_ArtistFolderFormat = ncr_ArtistFolderFormat n,
      ln_AlbumFolderFormat = ncr_AlbumFolderFormat n\<rparr>"

definition namingFromIR :: "int \<Rightarrow> LidarrNamingIR \<Rightarrow> NamingConfigResource" where
  "namingFromIR namingConfigID naming =
     \<lparr>ncr_ID = namingConfigID, ncr_RenameTracks = ln_RenameTracks naming,
      ncr_ReplaceIllegalCharacters = ln_ReplaceIllegalCharacters naming,
      ncr_StandardTrackFormat = ln_StandardTrackFormat naming, ncr_MultiDiscTrackFormat = ln_MultiDiscTrackFormat naming,
      ncr_ArtistFolderFormat = ln_ArtistFolderFormat naming, ncr_AlbumFolderFormat = ln_AlbumFolderFormat naming\<rparr>"

section \<open>Notifications\<close>

definition notificationToIR :: "NotificationResource \<Rightarrow> NotificationIR" where
  "notificationToIR n =
     \<lparr>nt_ID = ntr_ID n, nt_Name = ntr_Name n, nt_Implementation = ntr_Implementation n,
      nt_ConfigContract = ntr_ConfigContract n, nt_Enabled = True,
      nt_OnGrab = ntr_OnGrab n, nt_OnDownload = False, nt_OnUpgrade = ntr_OnUpgrade n,
      nt_OnRename = ntr_OnRename n, nt_OnHealthIssue = ntr_OnHealthIssue n,
      nt_OnHealthRestored = ntr_OnHealthRestored n, nt_OnApplicationUpdate = ntr_OnApplicationUpdate n,
      nt_OnManualInteractionRequired = False, nt_IncludeHealthWarnings = ntr_IncludeHealthWarnings n,
      nt_OnMovieAdded = False, nt_OnMovieDelete = False, nt_OnMovieFileDelete = False,
      nt_OnMovieFileDeleteForUpgrade = False, nt_OnSeriesAdd = False, nt_OnSeriesDelete = False,
      nt_OnEpisodeFileDelete = False, nt_OnEpisodeFileDeleteForUpgrade = False,
      nt_OnReleaseImport = ntr_OnReleaseImport n, nt_OnArtistAdd = ntr_OnArtistAdd n,
      nt_OnArtistDelete = ntr_OnArtistDelete n, nt_OnAlbumDelete = ntr_OnAlbumDelete n,
      nt_OnTrackRetag = ntr_OnTrackRetag n, nt_OnDownloadFailure = ntr_OnDownloadFailure n,
      nt_OnImportFailure = ntr_OnImportFailure n,
      nt_Fields = fold (\<lambda>f m. if f_Name f \<noteq> '''' \<and> f_Value f \<noteq> VNil then gm_set (f_Name f) (f_Value f) m else m)
        (ntr_Fields n) [],
      nt_Tags = ntr_Tags n\<rparr>"

definition irToNotification :: "range_order \<Rightarrow> NotificationIR \<Rightarrow> int \<Rightarrow> NotificationResource" where
  "irToNotification ord ir tagID =
     \<lparr>ntr_ID = nt_ID ir, ntr_Name = nt_Name ir, ntr_Implementation = nt_Implementation ir,
      ntr_ConfigContract = nt_ConfigContract ir, ntr_Tags = [tagID],
      ntr_Fields = map (\<lambda>(name, value). mk_field name value) (gm_range ord 0 (nt_Fields ir)),
      ntr_OnGrab = nt_OnGrab ir, ntr_OnReleaseImport = nt_OnReleaseImport ir, ntr_OnUpgrade = nt_OnUpgrade ir,
      ntr_OnRename = nt_OnRename ir, ntr_OnArtistAdd = nt_OnArtistAdd ir, ntr_OnArtistDelete = nt_OnArtistDelete ir,
      ntr_OnAlbumDelete = nt_OnAlbumDelete ir, ntr_OnTrackRetag = nt_OnTrackRetag ir,
      ntr_OnDownloadFailure = nt_OnDownloadFailure ir, ntr_OnImportFailure = nt_OnImportFailure ir,
      ntr_OnHealthIssue = nt_OnHealthIssue ir, ntr_OnHealthRestored = nt_OnHealthRestored ir,
      ntr_OnApplicationUpdate = nt_OnApplicationUpdate ir, ntr_IncludeHealthWarnings = nt_IncludeHealthWarnings ir\<rparr>"

section \<open>Delay profiles, mappings, folders, media management\<close>

definition delayProfileToIR :: "DelayProfileResource \<Rightarrow> DelayProfileIR" where
  "delayProfileToIR p =
     \<lparr>dp_ID = bdp_ID p, dp_Name = '''', dp_Order = bdp_Order p,
      dp_PreferredProtocol = (if bdp_PreferredProtocol p = ''usenet'' then ProtocolUsenet
                              else if bdp_PreferredProtocol p = ''torrent'' then ProtocolTorrent else ''''),
      dp_UsenetDelay = bdp_UsenetDelay p, dp_TorrentDelay = bdp_TorrentDelay p,
      dp_EnableUsenet = bdp_EnableUsenet p, dp_EnableTorrent = bdp_EnableTorrent p,
      dp_BypassIfHighestQuality = bdp_BypassIfHighestQuality p,
      dp_BypassIfAboveCustomFormatScore = bdp_BypassIfAboveCustomFormatScore p,
      dp_MinimumCustomFormatScore = bdp_MinimumCustomFormatScore p, dp_Tags = bdp_Tags p, dp_TagNames = []\<rparr>"

definition irToDelayProfile :: "DelayProfileIR \<Rightarrow> int list \<Rightarrow> DelayProfileResource" where
  "irToDelayProfile ir tagIDs =
     \<lparr>bdp_ID = 0, bdp_Order = dp_Order ir,
      bdp_PreferredProtocol = (if dp_PreferredProtocol ir = ProtocolUsenet then ''usenet''
                               else if dp_PreferredProtocol ir = ProtocolTorrent then ''torrent'' else ''usenet''),
      bdp_UsenetDelay = dp_UsenetDelay ir, bdp_TorrentDelay = dp_TorrentDelay ir,
      bdp_EnableUsenet = dp_EnableUsenet ir, bdp_EnableTorrent = dp_EnableTorrent ir,
      bdp_BypassIfHighestQuality = dp_BypassIfHighestQuality ir,
      bdp_BypassIfAboveCustomFormatScore = dp_BypassIfAboveCustomFormatScore ir,
      bdp_MinimumCustomFormatScore = dp_MinimumCustomFormatScore ir, bdp_Tags = tagIDs\<rparr>"

text \<open>The tags \<^verbatim>\<open>createDelayProfile\<close> and \<^verbatim>\<open>updateDelayProfile\<close> write.\<close>

definition delay_tag_ids :: "DelayProfileIR \<Rightarrow> int \<Rightarrow> int list" where
  "delay_tag_ids ir tagID = (if tagID > 0 \<and> length (dp_TagNames ir) = 0 then [tagID] else []) @ dp_Tags ir"

definition mappingToIR :: "RemotePathMappingResource \<Rightarrow> RemotePathMappingIR" where
  "mappingToIR m = \<lparr>rpm_ID = rpr_ID m, rpm_Host = rpr_Host m, rpm_RemotePath = rpr_RemotePath m,
                    rpm_LocalPath = rpr_LocalPath m\<rparr>"

definition mappingFromIR :: "int \<Rightarrow> RemotePathMappingIR \<Rightarrow> RemotePathMappingResource" where
  "mappingFromIR i m = \<lparr>rpr_ID = i, rpr_Host = rpm_Host m, rpr_RemotePath = rpm_RemotePath m,
                        rpr_LocalPath = rpm_LocalPath m\<rparr>"

definition folderToIR :: "RootFolderResource \<Rightarrow> RootFolderIR" where
  "folderToIR f = \<lparr>rf_Path = rfr_Path f, rf_Name = rfr_Name f, rf_DefaultMonitor = rfr_DefaultMonitorOption f\<rparr>"

text \<open>
  \<^verbatim>\<open>splitPath\<close>, with the component that is being read in front of the loop's arguments. The
  code reads rune by rune; the separator is ASCII, so the parts of a valid UTF-8 path are the same.
\<close>

fun split_path_from :: "string \<Rightarrow> string \<Rightarrow> string list" where
  "split_path_from current [] = (if current \<noteq> '''' then [current] else [])"
| "split_path_from current (c # path) =
     (if c = CHR ''/'' then (if current \<noteq> '''' then current # split_path_from '''' path else split_path_from '''' path)
      else split_path_from (current @ [c]) path)"

definition splitPath :: "string \<Rightarrow> string list" where
  "splitPath path = split_path_from '''' path"

text \<open>The first profile the operator owns, and the profile a root folder gets.\<close>

definition folder_profile_id :: "QualityProfileResource list \<Rightarrow> int" where
  "folder_profile_id profiles =
     (let owned = (case find (\<lambda>qp. length (qpr_Name qp) > 9 \<and> take 9 (qpr_Name qp) = ''nebularr-'') profiles of
                     Some qp \<Rightarrow> qpr_ID qp | None \<Rightarrow> 1)
      in case profiles of [] \<Rightarrow> owned | qp # _ \<Rightarrow> (if owned = 1 then qpr_ID qp else owned))"

definition folder_resource :: "RootFolderIR \<Rightarrow> MetadataProfileResource list \<Rightarrow> QualityProfileResource list \<Rightarrow> RootFolderResource" where
  "folder_resource rf metadataProfiles qualityProfiles =
     \<lparr>rfr_ID = 0, rfr_Path = rf_Path rf,
      rfr_Name = (if rf_Name rf = ''''
                  then (let parts = splitPath (rf_Path rf) in if length parts > 0 then last parts else rf_Path rf)
                  else rf_Name rf),
      rfr_DefaultMetadataProfileId = (case metadataProfiles of [] \<Rightarrow> 1 | p # _ \<Rightarrow> mpr_ID p),
      rfr_DefaultQualityProfileId = folder_profile_id qualityProfiles,
      rfr_DefaultMonitorOption = (if rf_DefaultMonitor rf = '''' then ''all'' else rf_DefaultMonitor rf)\<rparr>"

definition set_media_fields :: "MediaManagementIR \<Rightarrow> MediaManagementConfigResource \<Rightarrow> MediaManagementConfigResource" where
  "set_media_fields ir current =
     current\<lparr>mcr_RecycleBin := mm_RecycleBin ir, mcr_RecycleBinCleanupDays := mm_RecycleBinCleanupDays ir,
             mcr_SetPermissionsLinux := mm_SetPermissions ir, mcr_ChmodFolder := mm_ChmodFolder ir,
             mcr_ChownGroup := mm_ChownGroup ir, mcr_DeleteEmptyFolders := mm_DeleteEmptyFolders ir,
             mcr_CreateEmptyArtistFolders := mm_CreateEmptyFolders ir, mcr_CopyUsingHardlinks := mm_UseHardlinks ir,
             mcr_WatchLibraryForChanges := (case mm_WatchLibraryForChanges ir of Some b \<Rightarrow> b | None \<Rightarrow> mcr_WatchLibraryForChanges current),
             mcr_AllowFingerprinting := (if mm_AllowFingerprinting ir \<noteq> '''' then mm_AllowFingerprinting ir
                                         else mcr_AllowFingerprinting current)\<rparr>"

definition mediaToIR :: "MediaManagementConfigResource \<Rightarrow> MediaManagementIR" where
  "mediaToIR config =
     \<lparr>mm_RecycleBin = mcr_RecycleBin config, mm_RecycleBinCleanupDays = mcr_RecycleBinCleanupDays config,
      mm_SetPermissions = mcr_SetPermissionsLinux config, mm_ChmodFolder = mcr_ChmodFolder config,
      mm_ChownGroup = mcr_ChownGroup config, mm_DeleteEmptyFolders = mcr_DeleteEmptyFolders config,
      mm_CreateEmptyFolders = mcr_CreateEmptyArtistFolders config, mm_UseHardlinks = mcr_CopyUsingHardlinks config,
      mm_WatchLibraryForChanges = Some (mcr_WatchLibraryForChanges config),
      mm_AllowFingerprinting = mcr_AllowFingerprinting config\<rparr>"

section \<open>Import lists\<close>

fun findSchemaByType :: "ImportListResource list \<Rightarrow> string \<Rightarrow> ImportListResource option" where
  "findSchemaByType [] listType = None"
| "findSchemaByType (s # schemas) listType =
     (if ilr_Implementation s = listType then Some s else findSchemaByType schemas listType)"

definition buildImportListFields :: "range_order \<Rightarrow> (string \<times> string) list \<Rightarrow> ImportListResource \<Rightarrow> Field list" where
  "buildImportListFields ord settings schema =
     (let schemaFields = set_of_slice (map f_Name (ilr_Fields schema))
      in map (\<lambda>(name, value). mk_field name (VString value))
           (filter (\<lambda>(name, value). gm_flag schemaFields name) (gm_range ord 0 settings)))"

definition irToImportList :: "ImportListIR \<Rightarrow> ImportListResource \<Rightarrow> Field list \<Rightarrow> int \<Rightarrow> ImportListResource" where
  "irToImportList ir schema fls tagID =
     \<lparr>ilr_ID = 0, ilr_Name = il_Name ir, ilr_Implementation = il_Type ir,
      ilr_ConfigContract = ilr_ConfigContract schema, ilr_EnableAutomaticAdd = il_EnableAuto ir,
      ilr_SearchForNewAlbum = il_SearchOnAdd ir, ilr_QualityProfileID = il_QualityProfileID ir,
      ilr_MetadataProfileID = 1, ilr_RootFolderPath = il_RootFolderPath ir, ilr_ShouldMonitor = ''entireArtist'',
      ilr_MonitorNewItems = ''all'', ilr_ListType = ''program'', ilr_ListOrder = 0,
      ilr_Tags = [tagID], ilr_Fields = fls\<rparr>"

definition importListToIR :: "(GoValue \<Rightarrow> string) \<Rightarrow> ImportListResource \<Rightarrow> ImportListIR" where
  "importListToIR sprint l =
     \<lparr>il_Name = ilr_Name l, il_Type = ilr_Implementation l, il_Enabled = True,
      il_EnableAuto = ilr_EnableAutomaticAdd l, il_SearchOnAdd = ilr_SearchForNewAlbum l,
      il_QualityProfileID = ilr_QualityProfileID l, il_QualityProfileName = '''',
      il_RootFolderPath = ilr_RootFolderPath l, il_Monitor = '''', il_MinimumAvailability = '''',
      il_SeriesType = '''', il_SeasonFolder = False, il_ShouldMonitor = '''',
      il_Settings = fold (\<lambda>f m. if f_Value f \<noteq> VNil
          then gm_set (f_Name f) (case as_string (f_Value f) of Some v \<Rightarrow> v | None \<Rightarrow> sprint (f_Value f)) m else m)
        (ilr_Fields l) []\<rparr>"

end
