(* ===== verification/Lidarr_Converge.thy ===== *)
theory Lidarr_Converge
  imports Lidarr Collection
begin

text \<open>
  What the Lidarr adapter reaches against a service that stores what it is sent: download
  clients, indexers and custom formats are interpretations of \<open>adapter_collection\<close>, so one pass
  over each collection settles. The quality profile the adapter writes is compared with a
  reference that marks each item by its tier, and the name of a root folder with the last
  component of its path.
\<close>

section \<open>What a service answers\<close>

definition answer_client :: "(GoValue \<Rightarrow> GoValue) \<Rightarrow> int \<Rightarrow> DownloadClientResource \<Rightarrow> DownloadClientResource" where
  "answer_client hide i r =
     r\<lparr>dcr_Base := (dcr_Base r)\<lparr>bdc_ID := i, bdc_Fields := map (answer_field hide) (bdc_Fields (dcr_Base r))\<rparr>\<rparr>"

definition answer_indexer :: "(GoValue \<Rightarrow> GoValue) \<Rightarrow> int \<Rightarrow> IndexerResource \<Rightarrow> IndexerResource" where
  "answer_indexer hide i r = r\<lparr>bix_ID := i, bix_Fields := map (answer_field hide) (bix_Fields r)\<rparr>"

definition answer_format :: "int \<Rightarrow> CustomFormatResource \<Rightarrow> CustomFormatResource" where
  "answer_format i r =
     r\<lparr>cfr_Base := (cfr_Base r)\<lparr>bcf_ID := i, bcf_Specifications := map (\<lambda>sp. sp\<lparr>csp_Fields :=
         map (\<lambda>f. f\<lparr>f_Value := wire (f_Value f)\<rparr>) (csp_Fields sp)\<rparr>) (bcf_Specifications (cfr_Base r))\<rparr>\<rparr>"

section \<open>The conversions as codecs\<close>

abbreviation client_id :: "DownloadClientResource \<Rightarrow> int" where
  "client_id r \<equiv> bdc_ID (dcr_Base r)"

abbreviation client_name :: "DownloadClientResource \<Rightarrow> string" where
  "client_name r \<equiv> bdc_Name (dcr_Base r)"

abbreviation client_owned :: "int \<Rightarrow> DownloadClientResource \<Rightarrow> bool" where
  "client_owned tagID r \<equiv> HasTag (bdc_Tags (dcr_Base r)) tagID"

abbreviation format_id :: "CustomFormatResource \<Rightarrow> int" where
  "format_id r \<equiv> bcf_ID (cfr_Base r)"

abbreviation format_name :: "CustomFormatResource \<Rightarrow> string" where
  "format_name r \<equiv> bcf_Name (cfr_Base r)"

lemma lidarr_client_read_back:
  assumes "exact_int (dc_Port dc)"
  shows "clientToIR (answer_client hide i (downloadClientFromIR dc tagID)) =
    dc\<lparr>dc_ID := i, dc_Password := hidden hide (dc_Password dc), dc_Directory := ''''\<rparr>"
  using assms
  by (simp add: clientToIR_def answer_client_def downloadClientFromIR_def ExtractDownloadClientFields_def
      extract_dc_field_mk hidden_def Let_def split: option.split)

lemma lidarr_client_codec:
  "dc_Name (clientToIR r) = client_name r" "dc_ID (clientToIR r) = client_id r"
  "client_id (answer_client hide i r) = i" "client_name (answer_client hide i r) = client_name r"
  "client_owned tagID (answer_client hide i r) = client_owned tagID r"
  "client_name (downloadClientFromIR d tagID) = dc_Name d" "client_owned tagID (downloadClientFromIR d tagID)"
  "answer_client hide i (set_client_id i r) = answer_client hide i r"
  by (simp_all add: clientToIR_def Let_def extract_dc_keeps answer_client_def downloadClientFromIR_def set_client_id_def)

lemma lidarr_client_accepted:
  "exact_int (dc_Port d) \<Longrightarrow> DownloadClientsEqual (clientToIR (answer_client hide i (downloadClientFromIR d tagID))) d"
  by (simp add: lidarr_client_read_back DownloadClientsEqual_def)

interpretation lidarr_clients: adapter_collection dc_Name DownloadClientsEqual dc_create dc_update dc_delete
    DiffDownloadClientsWithIR dc_ID "\<lambda>d. exact_int (dc_Port d)"
    client_id client_name "client_owned tagID" clientToIR "\<lambda>d. downloadClientFromIR d tagID"
    "\<lambda>i d. set_client_id i (downloadClientFromIR d tagID)" "answer_client hide"
  for tagID hide
  by unfold_locales (simp_all add: lidarr_client_codec lidarr_client_accepted)

lemma lidarr_indexer_read_back:
  assumes "\<forall>c \<in> set (idx_Categories idx). exact_int c"
  shows "indexerToIR (answer_indexer hide i (indexerFromIR idx tagID)) =
    idx\<lparr>idx_ID := i, idx_APIKey := hidden hide (idx_APIKey idx), idx_MinimumSeeders := 0, idx_SeedRatio := 0,
        idx_SeedTimeMinutes := 0\<rparr>"
  using assms
  by (simp add: indexerToIR_def answer_indexer_def indexerFromIR_def ExtractIndexerFields_def
      extract_idx_field_mk append_categories hidden_def split: option.split)

lemma lidarr_indexer_codec:
  "idx_Name (indexerToIR r) = bix_Name r" "idx_ID (indexerToIR r) = bix_ID r"
  "bix_ID (answer_indexer hide i r) = i" "bix_Name (answer_indexer hide i r) = bix_Name r"
  "HasTag (bix_Tags (answer_indexer hide i r)) tagID = HasTag (bix_Tags r) tagID"
  "bix_Name (indexerFromIR d tagID) = idx_Name d" "HasTag (bix_Tags (indexerFromIR d tagID)) tagID"
  "answer_indexer hide i (r\<lparr>bix_ID := i\<rparr>) = answer_indexer hide i r"
  by (simp_all add: indexerToIR_def extract_idx_keeps answer_indexer_def indexerFromIR_def)

lemma lidarr_indexer_accepted:
  "\<forall>c \<in> set (idx_Categories d). exact_int c \<Longrightarrow>
     IndexersEqual (indexerToIR (answer_indexer hide i (indexerFromIR d tagID))) d"
  by (simp add: lidarr_indexer_read_back IndexersEqual_def)

interpretation lidarr_indexers: adapter_collection idx_Name IndexersEqual idx_create idx_update idx_delete
    DiffIndexersWithIR idx_ID "\<lambda>d. \<forall>c \<in> set (idx_Categories d). exact_int c"
    bix_ID bix_Name "\<lambda>r. HasTag (bix_Tags r) tagID" indexerToIR "\<lambda>d. indexerFromIR d tagID"
    "\<lambda>i d. (indexerFromIR d tagID)\<lparr>bix_ID := i\<rparr>" "answer_indexer hide"
  for tagID hide
  by unfold_locales (simp_all add: lidarr_indexer_codec lidarr_indexer_accepted)

lemma lidarr_specs_read_back:
  "map (\<lambda>spec. \<lparr>fs_Type = fs_Type spec, fs_Name = fs_Name spec, fs_Negate = fs_Negate spec,
     fs_Required = fs_Required spec, fs_Value = fs_Value spec\<rparr>) sps = (sps :: FormatSpecIR list)"
  by (rule map_idI) simp

lemma lidarr_format_read_back:
  "customFormatToIR sprint (answer_format i (irToCustomFormat ir)) = ir\<lparr>cf_ID := i\<rparr>"
  by (simp add: customFormatToIR_def answer_format_def irToCustomFormat_def buildSpecFields_def mk_field_def
      as_string_def Let_def o_def lidarr_specs_read_back)

lemma lidarr_format_codec:
  "cf_Name (customFormatToIR sprint r) = format_name r" "cf_ID (customFormatToIR sprint r) = format_id r"
  "format_id (answer_format i r) = i" "format_name (answer_format i r) = format_name r"
  "format_name (irToCustomFormat d) = cf_Name d"
  "answer_format i (irToCustomFormat (d\<lparr>cf_ID := i\<rparr>)) = answer_format i (irToCustomFormat d)"
  by (simp_all add: customFormatToIR_def answer_format_def irToCustomFormat_def Let_def)

lemma lidarr_specs_equal_refl: "specs_equal sps sps"
  by (induction sps) auto

lemma lidarr_format_accepted: "customFormatsEqual (customFormatToIR sprint (answer_format i (irToCustomFormat d))) d"
  by (simp add: lidarr_format_read_back customFormatsEqual_def lidarr_specs_equal_refl)

interpretation lidarr_formats: adapter_collection cf_Name customFormatsEqual cf_create cf_update cf_delete
    diffCustomFormats cf_ID "\<lambda>d. True" format_id format_name "\<lambda>r. True" "customFormatToIR sprint" irToCustomFormat
    "\<lambda>i d. irToCustomFormat (d\<lparr>cf_ID := i\<rparr>)" answer_format
  for sprint
  by unfold_locales (simp_all add: lidarr_format_codec lidarr_format_accepted)

section \<open>Convergence of download clients and indexers\<close>

definition client_service :: "(GoValue \<Rightarrow> GoValue) \<Rightarrow> 's LidarrAPI \<Rightarrow> ('s \<Rightarrow> DownloadClientResource list) \<Rightarrow> bool" where
  "client_service hide api listed \<longleftrightarrow>
     rest_collection (ep_list (api_clients api) ''/api/v1/downloadclient'')
       (ep_post (api_clients api) ''/api/v1/downloadclient'')
       (\<lambda>i. ep_put (api_clients api) (''/api/v1/downloadclient/'' @ Itoa i))
       (\<lambda>i. api_delete api (''/api/v1/downloadclient/'' @ Itoa i))
       listed client_id client_name (answer_client hide)"

definition indexer_service :: "(GoValue \<Rightarrow> GoValue) \<Rightarrow> 's LidarrAPI \<Rightarrow> ('s \<Rightarrow> IndexerResource list) \<Rightarrow> bool" where
  "indexer_service hide api listed \<longleftrightarrow>
     rest_collection (ep_list (api_indexers api) ''/api/v1/indexer'')
       (ep_post (api_indexers api) ''/api/v1/indexer'')
       (\<lambda>i. ep_put (api_indexers api) (''/api/v1/indexer/'' @ Itoa i))
       (\<lambda>i. api_delete api (''/api/v1/indexer/'' @ Itoa i))
       listed bix_ID bix_Name (answer_indexer hide)"

lemma lidarr_apply_client:
  "applyCreate ord api tagID (dc_create k d) =
     andThen (ep_post (api_clients api) ''/api/v1/downloadclient'' (downloadClientFromIR d tagID)) (\<lambda>_. give ())"
  "applyUpdate ord api vars tagID (dc_update k c d) =
     andThen (ep_put (api_clients api) (''/api/v1/downloadclient/'' @ Itoa (dc_ID c))
       (set_client_id (dc_ID c) (downloadClientFromIR d tagID))) (\<lambda>_. give ())"
  "applyDelete api (dc_delete k c) = api_delete api (''/api/v1/downloadclient/'' @ Itoa (dc_ID c))"
  by (simp_all add: applyCreate_def applyUpdate_def applyDelete_def with_id_def dc_create_def dc_update_def dc_delete_def
      createDownloadClient_def updateDownloadClient_def discard_def)

lemma lidarr_apply_indexer:
  "applyCreate ord api tagID (idx_create k d) =
     andThen (ep_post (api_indexers api) ''/api/v1/indexer'' (indexerFromIR d tagID)) (\<lambda>_. give ())"
  "applyUpdate ord api vars tagID (idx_update k c d) =
     andThen (ep_put (api_indexers api) (''/api/v1/indexer/'' @ Itoa (idx_ID c))
       ((indexerFromIR d tagID)\<lparr>bix_ID := idx_ID c\<rparr>)) (\<lambda>_. give ())"
  "applyDelete api (idx_delete k c) = api_delete api (''/api/v1/indexer/'' @ Itoa (idx_ID c))"
  by (simp_all add: applyCreate_def applyUpdate_def applyDelete_def with_id_def idx_create_def idx_update_def idx_delete_def
      createIndexer_def updateIndexer_def discard_def)

text \<open>
  Download clients and indexers settle in one pass, under the conditions of Sonarr's; the minimum
  seeders of an indexer are never sent and never compared.
\<close>

theorem Lidarr_clients_converge:
  assumes "client_service hide api listed" and "valid_order ord" and "valid_order ord'"
    and "distinct (map client_id (listed s))" and "distinct (map client_name (listed s))"
    and "\<forall>d \<in> set desired. exact_int (dc_Port d)"
    and "\<forall>d \<in> set desired. \<forall>r \<in> set (listed s). client_name r = dc_Name d \<longrightarrow> client_owned tagID r"
    and "getManagedDownloadClients api tagID s = (Ok current, s0)"
  shows "\<exists>r s' current'.
    ApplyChanges (DiffDownloadClientsWithIR ord current desired no_changes)
      (\<lambda>c. applyCreate (ords c) api tagID c) (\<lambda>c. applyUpdate (ords c) api vars tagID c) (\<lambda>c. applyDelete api c) s0
      = (Ok r, s') \<and> Success r \<and>
    filter (\<lambda>r. \<not> client_owned tagID r) (listed s') = filter (\<lambda>r. \<not> client_owned tagID r) (listed s) \<and>
    getManagedDownloadClients api tagID s' = (Ok current', s') \<and>
    IsEmpty (DiffDownloadClientsWithIR ord' current' desired no_changes)"
proof -
  note svc = assms(1) [unfolded client_service_def]
  have read: "getManagedDownloadClients api tagID t = (Ok (lidarr_clients.managed tagID (listed t)), t)" for t
    by (simp add: getManagedDownloadClients_def rest_collectionD(1) [OF svc] give_def lidarr_clients.managed_def)
  then have "current = lidarr_clients.managed tagID (listed s)" "s0 = s" using assms(8) by auto
  then show ?thesis
    using lidarr_clients.converges [where createFn = "\<lambda>c. applyCreate (ords c) api tagID c"
        and updateFn = "\<lambda>c. applyUpdate (ords c) api vars tagID c" and deleteFn = "\<lambda>c. applyDelete api c",
        OF svc lidarr_apply_client(1) lidarr_apply_client(2) lidarr_apply_client(3) assms(2-7)]
    by (auto simp: read)
qed

theorem Lidarr_indexers_converge:
  assumes "indexer_service hide api listed" and "valid_order ord" and "valid_order ord'"
    and "distinct (map bix_ID (listed s))" and "distinct (map bix_Name (listed s))"
    and "\<forall>d \<in> set desired. \<forall>c \<in> set (idx_Categories d). exact_int c"
    and "\<forall>d \<in> set desired. \<forall>r \<in> set (listed s). bix_Name r = idx_Name d \<longrightarrow> HasTag (bix_Tags r) tagID"
    and "getManagedIndexers api tagID s = (Ok current, s0)"
  shows "\<exists>r s' current'.
    ApplyChanges (DiffIndexersWithIR ord current desired no_changes)
      (\<lambda>c. applyCreate (ords c) api tagID c) (\<lambda>c. applyUpdate (ords c) api vars tagID c) (\<lambda>c. applyDelete api c) s0
      = (Ok r, s') \<and> Success r \<and>
    filter (\<lambda>r. \<not> HasTag (bix_Tags r) tagID) (listed s') = filter (\<lambda>r. \<not> HasTag (bix_Tags r) tagID) (listed s) \<and>
    getManagedIndexers api tagID s' = (Ok current', s') \<and>
    IsEmpty (DiffIndexersWithIR ord' current' desired no_changes)"
proof -
  note svc = assms(1) [unfolded indexer_service_def]
  have read: "getManagedIndexers api tagID t = (Ok (lidarr_indexers.managed tagID (listed t)), t)" for t
    by (simp add: getManagedIndexers_def rest_collectionD(1) [OF svc] give_def lidarr_indexers.managed_def)
  then have "current = lidarr_indexers.managed tagID (listed s)" "s0 = s" using assms(8) by auto
  then show ?thesis
    using lidarr_indexers.converges [where createFn = "\<lambda>c. applyCreate (ords c) api tagID c"
        and updateFn = "\<lambda>c. applyUpdate (ords c) api vars tagID c" and deleteFn = "\<lambda>c. applyDelete api c",
        OF svc lidarr_apply_indexer(1) lidarr_apply_indexer(2) lidarr_apply_indexer(3) assms(2-7)]
    by (auto simp: read)
qed

section \<open>Convergence of custom formats\<close>

text \<open>What the operator relies on from Lidarr's custom format endpoint.\<close>

definition format_service :: "'s LidarrAPI \<Rightarrow> ('s \<Rightarrow> CustomFormatResource list) \<Rightarrow> bool" where
  "format_service api listed \<longleftrightarrow>
     rest_collection (ep_list (api_formats api) ''/api/v1/customformat'')
       (ep_post (api_formats api) ''/api/v1/customformat'')
       (\<lambda>i. ep_put (api_formats api) (''/api/v1/customformat/'' @ Itoa i))
       (\<lambda>i. api_delete api (''/api/v1/customformat/'' @ Itoa i))
       listed format_id format_name answer_format"

lemma rest_collection_wrap:
  assumes "rest_collection lst post put del listed rid rname store"
  shows "rest_collection (wrap_err a lst) (\<lambda>r. wrap_err b (post r)) (\<lambda>i r. wrap_err c (put i r))
    (\<lambda>i. wrap_err d (del i)) listed rid rname store"
  unfolding rest_collection_def
proof (intro conjI allI impI, goal_cases)
  case (1 s) show ?case by (rule wrap_err_Ok [OF rest_collectionD(1) [OF assms]])
next
  case (2 r s) then show ?case using rest_collectionD(2) [OF assms, of r s] wrap_err_Ok by metis
next
  case (3 i r s) then show ?case using rest_collectionD(3) [OF assms, of i s r] wrap_err_Ok by metis
next
  case (4 i s) then show ?case using rest_collectionD(4) [OF assms, of i s] wrap_err_Ok by metis
qed

lemma wrap_err_discard: "wrap_err w (discard m) = andThen (wrap_err w m) (\<lambda>_. give ())"
  by (rule ext) (auto simp: wrap_err_def discard_def andThen_def give_def split: prod.split outcome.split)

lemma apply_format:
  "applyCreate ord api tagID (cf_create k d) =
     andThen (wrap_err ''failed to create custom format''
       (ep_post (api_formats api) ''/api/v1/customformat'' (irToCustomFormat d))) (\<lambda>_. give ())"
  "applyUpdate ord api vars tagID (cf_update k c d) =
     andThen (wrap_err ''failed to update custom format''
       (ep_put (api_formats api) (''/api/v1/customformat/'' @ Itoa (cf_ID c))
         (irToCustomFormat (d\<lparr>cf_ID := cf_ID c\<rparr>)))) (\<lambda>_. give ())"
  "applyDelete api (cf_delete k c) =
     wrap_err ''failed to delete custom format'' (api_delete api (''/api/v1/customformat/'' @ Itoa (cf_ID c)))"
  by (simp_all add: applyCreate_def applyUpdate_def applyDelete_def with_id_def cf_create_def cf_update_def cf_delete_def
      createCustomFormat_def updateCustomFormat_def deleteCustomFormat_def wrap_err_discard)

lemma lidarr_names_of_sync:
  assumes "\<forall>k. rel_option same (latest key xs k) (latest key ys k)"
  shows "key ` set xs = key ` set ys"
proof -
  have "k \<in> key ` set xs \<longleftrightarrow> k \<in> key ` set ys" for k
    using assms [rule_format, of k] latest_None_iff [of key xs k] latest_None_iff [of key ys k]
    by (cases "latest key xs k"; cases "latest key ys k") auto
  then show ?thesis by blast
qed

text \<open>
  C18. The Lidarr adapter makes the custom formats of the service those of the spec: against a
  service that stores what it is sent, one pass of reading, diffing and applying succeeds, and
  reading again gives exactly the desired formats by name, with an empty diff. That includes the
  deletion of every other custom format, also of those the operator never created: the adapter
  reads all of them and knows no owner, contrary to \<^verbatim>\<open>docs/DESIGN.md\<close>, section 7 (no deletion of
  unowned resources), and \<^verbatim>\<open>docs/README.md\<close>, line 296. Lidarr sends every value of a specification
  as text, so unlike Sonarr's there is no condition on the formats.
\<close>

theorem Lidarr_formats_converge:
  assumes "format_service api listed" and "valid_order ord" and "valid_order ord'"
    and "distinct (map format_id (listed s))" and "distinct (map format_name (listed s))"
    and "getAllCustomFormats sprint api s = (Ok current, s0)"
  shows "\<exists>r s' current'.
    ApplyChanges (diffCustomFormats ord current desired no_changes)
      (\<lambda>c. applyCreate (ords c) api tagID c) (\<lambda>c. applyUpdate (ords c) api vars tagID c) (\<lambda>c. applyDelete api c) s0
      = (Ok r, s') \<and> Success r \<and>
    getAllCustomFormats sprint api s' = (Ok current', s') \<and>
    cf_Name ` set current' = cf_Name ` set desired \<and>
    IsEmpty (diffCustomFormats ord' current' desired no_changes)"
proof -
  note svc = rest_collection_wrap [OF assms(1) [unfolded format_service_def]]
  have read: "getAllCustomFormats sprint api t = (Ok (lidarr_formats.managed sprint (listed t)), t)" for t
    by (simp add: getAllCustomFormats_def rest_collectionD(1) [OF svc] give_def lidarr_formats.managed_def)
  then have "current = lidarr_formats.managed sprint (listed s)" "s0 = s" using assms(6) by auto
  then obtain r s' where "ApplyChanges (diffCustomFormats ord current desired no_changes)
      (\<lambda>c. applyCreate (ords c) api tagID c) (\<lambda>c. applyUpdate (ords c) api vars tagID c) (\<lambda>c. applyDelete api c) s0
      = (Ok r, s')" "Success r" and synced: "IsEmpty (diffCustomFormats ord' (lidarr_formats.managed sprint (listed s')) desired no_changes)"
    using lidarr_formats.converges [where createFn = "\<lambda>c. applyCreate (ords c) api tagID c"
        and updateFn = "\<lambda>c. applyUpdate (ords c) api vars tagID c" and deleteFn = "\<lambda>c. applyDelete api c",
        OF svc apply_format(1) apply_format(2) apply_format(3) assms(2-5), of desired sprint]
    by auto
  moreover have "cf_Name ` set (lidarr_formats.managed sprint (listed s')) = cf_Name ` set desired"
    by (rule lidarr_names_of_sync) (use synced in \<open>simp add: lidarr_formats.empty_iff_in_sync [OF assms(3)]\<close>)
  ultimately show ?thesis using read by blast
qed

text \<open>An instance: a service with a format nobody asked for and one that is out of date.\<close>

definition format_api :: "CustomFormatResource list LidarrAPI" where
  "format_api = \<lparr>api_system = no_endpoint, api_tags = no_endpoint, api_health = no_endpoint, api_profiles = no_endpoint,
     api_clients = no_endpoint, api_indexers = no_endpoint, api_folders = no_endpoint, api_metadata = no_endpoint,
     api_mappings = no_endpoint, api_naming = no_endpoint, api_lists = no_endpoint, api_media = no_endpoint,
     api_host = no_endpoint, api_notifications = no_endpoint,
     api_formats = list_endpoint ''/api/v1/customformat/'' format_id answer_format, api_delays = no_endpoint,
     api_delete = list_delete ''/api/v1/customformat/'' format_id\<rparr>"

definition flac_format :: "string \<Rightarrow> CustomFormatIR" where
  "flac_format v = \<lparr>cf_ID = 0, cf_Name = ''flac'', cf_IncludeWhenRenaming = False,
     cf_Specifications = [\<lparr>fs_Type = ''ReleaseTitleSpecification'', fs_Name = ''title'', fs_Negate = False,
                           fs_Required = True, fs_Value = v\<rparr>]\<rparr>"

definition served_formats :: "CustomFormatResource list" where
  "served_formats = [answer_format 1 (irToCustomFormat (flac_format ''mp3'')),
                     answer_format 2 (irToCustomFormat ((flac_format ''x'')\<lparr>cf_Name := ''old''\<rparr>))]"

lemma format_api_service: "format_service format_api (\<lambda>rs. rs)"
proof -
  have "api_formats format_api = list_endpoint ''/api/v1/customformat/'' format_id answer_format"
    "api_delete format_api = list_delete ''/api/v1/customformat/'' format_id"
    by (simp_all add: format_api_def)
  then show ?thesis unfolding format_service_def by (simp only: list_endpoint_collection)
qed

theorem Lidarr_formats_converge_witness:
  "\<exists>r s' current'.
    ApplyChanges (diffCustomFormats forward_order (map (customFormatToIR (\<lambda>_. '''')) served_formats)
        [flac_format ''flac''] no_changes)
      (\<lambda>c. applyCreate forward_order format_api 3 c) (\<lambda>c. applyUpdate forward_order format_api initial_vars 3 c)
      (\<lambda>c. applyDelete format_api c) served_formats = (Ok r, s') \<and> Success r \<and>
    getAllCustomFormats (\<lambda>_. '''') format_api s' = (Ok current', s') \<and> cf_Name ` set current' = {''flac''}"
proof -
  have read: "getAllCustomFormats (\<lambda>_. '''') format_api served_formats =
      (Ok (map (customFormatToIR (\<lambda>_. '''')) served_formats), served_formats)"
    by (simp add: getAllCustomFormats_def format_api_def list_endpoint_def wrap_err_def andThen_def give_def)
  have "distinct (map format_id served_formats)" "distinct (map format_name served_formats)"
    by (simp_all add: served_formats_def lidarr_format_codec flac_format_def)
  from Lidarr_formats_converge [OF format_api_service valid_forward_order valid_backward_order this read,
      of "[flac_format ''flac'']" "\<lambda>_. forward_order" 3 initial_vars]
  obtain r s' current' where *: "ApplyChanges (diffCustomFormats forward_order (map (customFormatToIR (\<lambda>_. '''')) served_formats)
        [flac_format ''flac''] no_changes)
      (\<lambda>c. applyCreate forward_order format_api 3 c) (\<lambda>c. applyUpdate forward_order format_api initial_vars 3 c)
      (\<lambda>c. applyDelete format_api c) served_formats = (Ok r, s')" "Success r"
    "getAllCustomFormats (\<lambda>_. '''') format_api s' = (Ok current', s')"
    "cf_Name ` set current' = cf_Name ` set [flac_format ''flac'']" by blast
  then show ?thesis by (intro exI conjI) (assumption, assumption, assumption, simp add: flac_format_def)
qed

section \<open>Quality profiles\<close>

text \<open>What the tiers of a profile say of a tier: the last mention counts.\<close>

definition tier_setting :: "AudioQualityTierIR list \<Rightarrow> string \<Rightarrow> bool option" where
  "tier_setting tiers name = map_option at_Allowed (latest at_Tier tiers name)"

definition mark_tier :: "AudioQualityTierIR list \<Rightarrow> QualityProfileItem \<Rightarrow> QualityProfileItem" where
  "mark_tier tiers item =
     (case tier_setting tiers (item_tier item) of None \<Rightarrow> item
      | Some allowed \<Rightarrow> QualityProfileItem (qpi_ID item) (qpi_Name item) (qpi_Quality item) (qpi_Items item) allowed)"

text \<open>The IDs an item offers as the cutoff of a profile.\<close>

definition cutoff_ids :: "AudioQualityIR \<Rightarrow> QualityProfileItem \<Rightarrow> int list" where
  "cutoff_ids profile item =
     (if item_tier item = aq_Cutoff profile \<and> tier_setting (aq_Tiers profile) (item_tier item) = Some True
      then (if qpi_ID item \<noteq> 0 then [qpi_ID item] else case qpi_Quality item of Some q \<Rightarrow> [ql_ID q] | None \<Rightarrow> [])
      else [])"

lemma copyQualityItem_id [simp]: "copyQualityItem item = item"
proof (induction item)
  case (QualityProfileItem i name quality items allowed)
  then have "map copyQualityItem items = items" by (simp add: map_idI)
  moreover have "map_option (\<lambda>q. \<lparr>ql_ID = ql_ID q, ql_Name = ql_Name q\<rparr>) quality = quality"
    by (cases quality) auto
  ultimately show ?case by simp
qed

lemma map_of_tier_settings:
  "map_of (fold (\<lambda>tier m. gm_set (at_Tier tier) (at_Allowed tier) m) tiers []) name = tier_setting tiers name"
  by (induction tiers rule: rev_induct) (auto simp: tier_setting_def latest_snoc)

lemma apply_tiers_eq:
  assumes "\<And>name. map_of allowed name = tier_setting (aq_Tiers profile) name"
  shows "apply_tiers allowed (aq_Cutoff profile) items c =
    (map (mark_tier (aq_Tiers profile)) items, last (c # concat (map (cutoff_ids profile) items)))"
proof (induction items arbitrary: c)
  case (Cons item items)
  show ?case
    by (cases "tier_setting (aq_Tiers profile) (item_tier item)"; cases "qpi_Quality item"; cases item)
      (auto simp: Let_def assms Cons mark_tier_def cutoff_ids_def)
qed simp

text \<open>
  C22. The quality profile the adapter writes is the schema with every item marked as its
  tier is in the profile, items of tiers the profile does not mention untouched; its cutoff is
  the last item of the schema whose tier is the allowed cutoff tier, by its own ID or its
  quality's, and 1005 (the Lossless group) where there is none.
\<close>

theorem profileFromSchema_reference:
  "profileFromSchema schema profile =
     \<lparr>qpr_ID = 0, qpr_Name = aq_ProfileName profile, qpr_UpgradeAllowed = aq_UpgradeAllowed profile,
      qpr_Cutoff = (case last (0 # concat (map (cutoff_ids profile) (qpr_Items schema))) of c \<Rightarrow> if c = 0 then 1005 else c),
      qpr_Items = map (mark_tier (aq_Tiers profile)) (qpr_Items schema),
      qpr_MinFormatScore = 0, qpr_CutoffFormatScore = 0, qpr_FormatItems = []\<rparr>"
  by (simp add: profileFromSchema_def apply_tiers_eq map_of_tier_settings)

section \<open>Root folders\<close>

text \<open>A path of the given components.\<close>

definition slash_path :: "string list \<Rightarrow> string" where
  "slash_path parts = concat (map (\<lambda>p. CHR ''/'' # p) parts)"

lemma split_path_component:
  "CHR ''/'' \<notin> set p \<Longrightarrow> split_path_from cur (p @ path) = split_path_from (cur @ p) path"
  by (induction p arbitrary: cur) auto

lemma splitPath_slash_path:
  assumes "\<forall>p \<in> set parts. p \<noteq> '''' \<and> CHR ''/'' \<notin> set p"
  shows "splitPath (slash_path parts) = parts"
proof -
  have "split_path_from cur (slash_path parts) = (if cur = '''' then parts else cur # parts)" for cur
    using assms
  proof (induction parts arbitrary: cur)
    case (Cons p parts)
    have "split_path_from '''' (p @ slash_path parts) = p # parts"
      using Cons by (simp add: split_path_component)
    then show ?case by (simp add: slash_path_def)
  qed (simp add: slash_path_def)
  then show ?thesis by (simp add: splitPath_def)
qed

text \<open>
  C40. The name and the monitor option a spec gives a root folder never reach Lidarr: the diff
  hands the create only the path, so the folder is posted under the last component of its path
  with the option \<^verbatim>\<open>all\<close>, whatever the spec says, and an existing folder is never updated.
\<close>

theorem Lidarr_folder_settings_lost:
  assumes "rf \<in> set desired" and "rf_Path rf \<notin> rf_Path ` set current"
    and "rf_Path rf = slash_path (parts @ [p])" and "\<forall>q \<in> set (parts @ [p]). q \<noteq> '''' \<and> CHR ''/'' \<notin> set q"
    and "ep_list (api_metadata api) ''/api/v1/metadataprofile'' s = (Ok metadata, s1)"
    and "ep_list (api_profiles api) ''/api/v1/qualityprofile'' s1 = (Ok qualities, s2)"
  shows "\<exists>change \<in> set (cs_Creates (DiffRootFolders current desired no_changes)). ch_Name change = rf_Path rf \<and>
    applyCreate ord api tagID change s =
      discard (ep_post (api_folders api) ''/api/v1/rootfolder''
        \<lparr>rfr_ID = 0, rfr_Path = rf_Path rf, rfr_Name = p,
         rfr_DefaultMetadataProfileId = (case metadata of [] \<Rightarrow> 1 | m # _ \<Rightarrow> mpr_ID m),
         rfr_DefaultQualityProfileId = folder_profile_id qualities, rfr_DefaultMonitorOption = ''all''\<rparr>) s2"
proof -
  define change where "change = \<lparr>ch_ResourceType = ResourceRootFolder, ch_Name = rf_Path rf, ch_ID = None,
    ch_Payload = RootFolderVal \<lparr>rf_Path = rf_Path rf, rf_Name = '''', rf_DefaultMonitor = ''''\<rparr>\<rparr>"
  have "change \<in> set (cs_Creates (DiffRootFolders current desired no_changes))"
    using assms(1,2) by (auto simp: DiffRootFolders_creates_only change_def)
  moreover have "applyCreate ord api tagID change s = discard (ep_post (api_folders api) ''/api/v1/rootfolder''
      (folder_resource \<lparr>rf_Path = rf_Path rf, rf_Name = '''', rf_DefaultMonitor = ''''\<rparr> metadata qualities)) s2"
    using assms(5,6) by (simp add: applyCreate_def change_def createRootFolder_def)
  moreover have "splitPath (rf_Path rf) = parts @ [p]"
    unfolding assms(3) by (rule splitPath_slash_path [OF assms(4)])
  ultimately show ?thesis
    by (intro bexI [of _ change]) (auto simp: folder_resource_def change_def Let_def)
qed

definition folder_api :: "RootFolderResource list LidarrAPI" where
  "folder_api = \<lparr>api_system = no_endpoint, api_tags = no_endpoint, api_health = no_endpoint,
     api_profiles = no_endpoint\<lparr>ep_list := (\<lambda>_. give [])\<rparr>, api_clients = no_endpoint, api_indexers = no_endpoint,
     api_folders = list_endpoint ''/api/v1/rootfolder/'' rfr_ID (\<lambda>i r. r\<lparr>rfr_ID := i\<rparr>),
     api_metadata = no_endpoint\<lparr>ep_list := (\<lambda>_. give [\<lparr>mpr_ID = 4, mpr_Name = ''Standard''\<rparr>])\<rparr>,
     api_mappings = no_endpoint, api_naming = no_endpoint, api_lists = no_endpoint, api_media = no_endpoint,
     api_host = no_endpoint, api_notifications = no_endpoint, api_formats = no_endpoint, api_delays = no_endpoint,
     api_delete = (\<lambda>_. fail ''404'')\<rparr>"

theorem Lidarr_folder_settings_lost_witness:
  "\<exists>change \<in> set (cs_Creates (DiffRootFolders []
       [\<lparr>rf_Path = ''/data/music'', rf_Name = ''Vinyl rips'', rf_DefaultMonitor = ''none''\<rparr>] no_changes)).
     map (\<lambda>f. (rfr_Name f, rfr_DefaultMonitorOption f)) (snd (applyCreate forward_order folder_api 3 change [])) = [(''music'', ''all'')]"
proof -
  let ?rf = "\<lparr>rf_Path = ''/data/music'', rf_Name = ''Vinyl rips'', rf_DefaultMonitor = ''none''\<rparr>"
  have lists: "ep_list (api_metadata folder_api) ''/api/v1/metadataprofile'' [] = (Ok [\<lparr>mpr_ID = 4, mpr_Name = ''Standard''\<rparr>], [])"
    "ep_list (api_profiles folder_api) ''/api/v1/qualityprofile'' [] = (Ok [], [])"
    by (simp_all add: folder_api_def give_def)
  have "rf_Path ?rf = slash_path ([''data''] @ [''music''])" by (simp add: slash_path_def)
  from Lidarr_folder_settings_lost [OF _ _ this _ lists, of "[?rf]" "[]" forward_order 3]
  obtain change where "change \<in> set (cs_Creates (DiffRootFolders [] [?rf] no_changes))"
      and app: "applyCreate forward_order folder_api 3 change [] =
        discard (ep_post (api_folders folder_api) ''/api/v1/rootfolder''
          \<lparr>rfr_ID = 0, rfr_Path = rf_Path ?rf, rfr_Name = ''music'',
           rfr_DefaultMetadataProfileId = (case [\<lparr>mpr_ID = 4, mpr_Name = ''Standard''\<rparr>] of [] \<Rightarrow> 1 | m # _ \<Rightarrow> mpr_ID m),
           rfr_DefaultQualityProfileId = folder_profile_id [], rfr_DefaultMonitorOption = ''all''\<rparr>) []"
    by auto
  moreover have "map (\<lambda>f. (rfr_Name f, rfr_DefaultMonitorOption f)) (snd (applyCreate forward_order folder_api 3 change [])) = [(''music'', ''all'')]"
    unfolding app by (simp add: discard_def folder_api_def list_endpoint_def andThen_def give_def)
  ultimately show ?thesis by (intro bexI)
qed

end
