(* ===== verification/Readarr.thy ===== *)
theory Readarr
  imports Endpoint
begin

text \<open>
  The Readarr adapter (\<^verbatim>\<open>src/internal/adapters/readarr\<close>): the wire types and conversions,
  connecting, discovering, reading the managed state, diffing and applying, over a service that
  is the parameter \<open>api\<close>. Download clients and indexers are compared by name only and deleted
  by name; quality and metadata profiles are managed by the prefix of their name. The naming,
  import list and notification types of \<^verbatim>\<open>types.go\<close> are used nowhere.
\<close>

section \<open>Types (types.go)\<close>

record DownloadClientResource =
  rdc_ID :: int
  rdc_Name :: string
  rdc_Implementation :: string
  rdc_Protocol :: string
  rdc_Enable :: bool
  rdc_Priority :: int
  rdc_Tags :: "int list"
  rdc_Fields :: "Field list"

record IndexerResource =
  rix_ID :: int
  rix_Name :: string
  rix_Implementation :: string
  rix_Protocol :: string
  rix_Enable :: bool
  rix_Priority :: int
  rix_Tags :: "int list"
  rix_Fields :: "Field list"

record RootFolderResource =
  rrf_ID :: int
  rrf_Path :: string
  rrf_Name :: string
  rrf_DefaultMetadataProfileId :: int
  rrf_DefaultQualityProfileId :: int
  rrf_DefaultMonitorOption :: string
  rrf_DefaultNewItemMonitorOption :: string
  rrf_DefaultTags :: "int list"
  rrf_IsCalibreLibrary :: bool
  rrf_Host :: string
  rrf_Port :: int
  rrf_UrlBase :: string
  rrf_Username :: string
  rrf_Password :: string
  rrf_Library :: string
  rrf_OutputFormat :: string
  rrf_OutputProfile :: int
  rrf_UseSsl :: bool

record QualityResource =
  rq_ID :: int
  rq_Name :: string

datatype QualityProfileItemResource =
  QualityProfileItemResource (rqi_ID: int) (rqi_Name: string) (rqi_Quality: "QualityResource option")
    (rqi_Items: "QualityProfileItemResource list") (rqi_Allowed: bool)

record QualityProfileResource =
  rqp_ID :: int
  rqp_Name :: string
  rqp_UpgradeAllowed :: bool
  rqp_Cutoff :: int
  rqp_Items :: "QualityProfileItemResource list"

record MetadataProfileResource =
  rmr_ID :: int
  rmr_Name :: string
  rmr_MinPopularity :: rat
  rmr_SkipMissingDate :: bool
  rmr_SkipMissingIsbn :: bool
  rmr_SkipPartsAndSets :: bool
  rmr_SkipSeriesSecondary :: bool
  rmr_AllowedLanguages :: string

record QualityDefinitionResource =
  rqd_ID :: int
  rqd_Quality :: QualityResource
  rqd_Title :: string
  rqd_Weight :: int
  rqd_MinSize :: rat
  rqd_MaxSize :: rat

section \<open>The service\<close>

record 's ReadarrAPI =
  rapi_system :: "('s, SystemResource) endpoint"
  rapi_tags :: "('s, TagResource) endpoint"
  rapi_health :: "('s, HealthResource) endpoint"
  rapi_profiles :: "('s, QualityProfileResource) endpoint"
  rapi_definitions :: "('s, QualityDefinitionResource) endpoint"
  rapi_metadata :: "('s, MetadataProfileResource) endpoint"
  rapi_clients :: "('s, DownloadClientResource) endpoint"
  rapi_indexers :: "('s, IndexerResource) endpoint"
  rapi_folders :: "('s, RootFolderResource) endpoint"
  rapi_delete :: "string \<Rightarrow> ('s, unit) action"

section \<open>Connect and discover\<close>

definition Connect :: "'s ReadarrAPI \<Rightarrow> ('s, ServiceInfo) action" where
  "Connect api =
     andThen (wrap_err ''failed to connect to Readarr'' (ep_get (rapi_system api) ''/api/v1/system/status'')) (\<lambda>status.
       give \<lparr>si_Version = sys_Version status,
             si_StartTime = (case sys_StartTime status of Some t \<Rightarrow> t | None \<Rightarrow> 0)\<rparr>)"

definition Discover :: "int \<Rightarrow> 's ReadarrAPI \<Rightarrow> ('s, Capabilities) action" where
  "Discover now api =
     andThen (try_types (ep_list (rapi_clients api) ''/api/v1/downloadclient/schema'') rdc_Implementation) (\<lambda>dcTypes.
     andThen (try_types (ep_list (rapi_indexers api) ''/api/v1/indexer/schema'') rix_Implementation) (\<lambda>idxTypes.
     give \<lparr>cap_DiscoveredAt = now, cap_Resolutions = [], cap_Sources = [], cap_CustomFormatSpecs = [],
           cap_AudioTiers = [], cap_DownloadClientTypes = dcTypes, cap_IndexerTypes = idxTypes\<rparr>))"

section \<open>Download clients, indexers and root folders: conversions (adapter.go)\<close>

definition containsTag :: "int list \<Rightarrow> int \<Rightarrow> bool" where
  "containsTag tags tagID = HasTag tags tagID"

definition read_client_field :: "Field \<Rightarrow> DownloadClientIR \<Rightarrow> DownloadClientIR" where
  "read_client_field field ir =
     (if f_Value field = VNil then ir
      else if f_Name field = ''host'' then (case as_string (f_Value field) of Some v \<Rightarrow> ir\<lparr>dc_Host := v\<rparr> | None \<Rightarrow> ir)
      else if f_Name field = ''port'' then (case as_float (f_Value field) of Some v \<Rightarrow> ir\<lparr>dc_Port := int_of_float v\<rparr> | None \<Rightarrow> ir)
      else if f_Name field = ''useSsl'' then (case as_bool (f_Value field) of Some v \<Rightarrow> ir\<lparr>dc_UseTLS := v\<rparr> | None \<Rightarrow> ir)
      else if f_Name field = ''username'' then (case as_string (f_Value field) of Some v \<Rightarrow> ir\<lparr>dc_Username := v\<rparr> | None \<Rightarrow> ir)
      else if f_Name field = ''category'' \<or> f_Name field = ''bookCategory''
           then (case as_string (f_Value field) of Some v \<Rightarrow> ir\<lparr>dc_Category := v\<rparr> | None \<Rightarrow> ir)
      else ir)"

definition downloadClientToIR :: "DownloadClientResource \<Rightarrow> DownloadClientIR" where
  "downloadClientToIR dc =
     fold read_client_field (rdc_Fields dc)
       \<lparr>dc_ID = 0, dc_Name = rdc_Name dc, dc_Protocol = rdc_Protocol dc, dc_Implementation = rdc_Implementation dc,
        dc_Enable = rdc_Enable dc, dc_Priority = rdc_Priority dc, dc_RemoveCompletedDownloads = False,
        dc_RemoveFailedDownloads = False, dc_Host = '''', dc_Port = 0, dc_UseTLS = False, dc_Username = '''',
        dc_Password = '''', dc_Category = '''', dc_Directory = ''''\<rparr>"

definition client_resource :: "DownloadClientIR \<Rightarrow> int \<Rightarrow> DownloadClientResource" where
  "client_resource dc tagID =
     \<lparr>rdc_ID = 0, rdc_Name = dc_Name dc, rdc_Implementation = dc_Implementation dc, rdc_Protocol = dc_Protocol dc,
      rdc_Enable = dc_Enable dc, rdc_Priority = dc_Priority dc, rdc_Tags = [tagID],
      rdc_Fields = [mk_field ''host'' (VString (dc_Host dc)), mk_field ''port'' (VInt (dc_Port dc)),
          mk_field ''useSsl'' (VBool (dc_UseTLS dc)), mk_field ''username'' (VString (dc_Username dc)),
          mk_field ''password'' (VString (dc_Password dc))] @
        (if dc_Category dc \<noteq> '''' then [mk_field ''bookCategory'' (VString (dc_Category dc))] else [])\<rparr>"

definition read_indexer_field :: "Field \<Rightarrow> IndexerIR \<Rightarrow> IndexerIR" where
  "read_indexer_field field ir =
     (if f_Value field = VNil then ir
      else if f_Name field = ''baseUrl'' then (case as_string (f_Value field) of Some v \<Rightarrow> ir\<lparr>idx_URL := v\<rparr> | None \<Rightarrow> ir)
      else if f_Name field = ''minimumSeeders''
           then (case as_float (f_Value field) of Some v \<Rightarrow> ir\<lparr>idx_MinimumSeeders := int_of_float v\<rparr> | None \<Rightarrow> ir)
      else if f_Name field = ''enableRss'' then (case as_bool (f_Value field) of Some v \<Rightarrow> ir\<lparr>idx_EnableRss := v\<rparr> | None \<Rightarrow> ir)
      else if f_Name field = ''enableAutomaticSearch''
           then (case as_bool (f_Value field) of Some v \<Rightarrow> ir\<lparr>idx_EnableAutomaticSearch := v\<rparr> | None \<Rightarrow> ir)
      else if f_Name field = ''enableInteractiveSearch''
           then (case as_bool (f_Value field) of Some v \<Rightarrow> ir\<lparr>idx_EnableInteractiveSearch := v\<rparr> | None \<Rightarrow> ir)
      else ir)"

definition indexerToIR :: "IndexerResource \<Rightarrow> IndexerIR" where
  "indexerToIR idx =
     fold read_indexer_field (rix_Fields idx)
       \<lparr>idx_ID = 0, idx_Name = rix_Name idx, idx_Protocol = rix_Protocol idx, idx_Implementation = rix_Implementation idx,
        idx_Enable = rix_Enable idx, idx_Priority = rix_Priority idx, idx_URL = '''', idx_APIKey = '''',
        idx_Categories = [], idx_MinimumSeeders = 0, idx_SeedRatio = 0, idx_SeedTimeMinutes = 0, idx_EnableRss = False,
        idx_EnableAutomaticSearch = False, idx_EnableInteractiveSearch = False\<rparr>"

definition indexer_resource :: "IndexerIR \<Rightarrow> int \<Rightarrow> IndexerResource" where
  "indexer_resource idx tagID =
     \<lparr>rix_ID = 0, rix_Name = idx_Name idx, rix_Implementation = idx_Implementation idx, rix_Protocol = idx_Protocol idx,
      rix_Enable = idx_Enable idx, rix_Priority = idx_Priority idx, rix_Tags = [tagID],
      rix_Fields = [mk_field ''baseUrl'' (VString (idx_URL idx)), mk_field ''apiKey'' (VString (idx_APIKey idx)),
        mk_field ''minimumSeeders'' (VInt (idx_MinimumSeeders idx)), mk_field ''enableRss'' (VBool (idx_EnableRss idx)),
        mk_field ''enableAutomaticSearch'' (VBool (idx_EnableAutomaticSearch idx)),
        mk_field ''enableInteractiveSearch'' (VBool (idx_EnableInteractiveSearch idx))]\<rparr>"

definition folder_resource :: "RootFolderIR \<Rightarrow> RootFolderResource" where
  "folder_resource rf =
     \<lparr>rrf_ID = 0, rrf_Path = rf_Path rf, rrf_Name = rf_Name rf, rrf_DefaultMetadataProfileId = 0,
      rrf_DefaultQualityProfileId = 0, rrf_DefaultMonitorOption = '''', rrf_DefaultNewItemMonitorOption = '''',
      rrf_DefaultTags = [], rrf_IsCalibreLibrary = False, rrf_Host = '''', rrf_Port = 0, rrf_UrlBase = '''',
      rrf_Username = '''', rrf_Password = '''', rrf_Library = '''', rrf_OutputFormat = '''', rrf_OutputProfile = 0,
      rrf_UseSsl = False\<rparr>"

section \<open>Quality profiles: conversions (quality.go)\<close>

text \<open>
  The functions take pointers and answer nil for nil; every caller passes the address of a
  value.
\<close>

definition qualityToFormat :: "QualityResource \<Rightarrow> string" where
  "qualityToFormat q = rq_Name q"

definition qualityItemToTier :: "QualityProfileItemResource \<Rightarrow> BookQualityTierIR" where
  "qualityItemToTier item =
     (if length (rqi_Items item) > 0
      then \<lparr>bt_Name = rqi_Name item,
            bt_Formats = filter (\<lambda>format. format \<noteq> '''')
              (map qualityToFormat (List.map_filter rqi_Quality (rqi_Items item))),
            bt_Allowed = rqi_Allowed item\<rparr>
      else case rqi_Quality item of
             Some q \<Rightarrow> \<lparr>bt_Name = rq_Name q, bt_Formats = (if qualityToFormat q \<noteq> '''' then [qualityToFormat q] else []),
                        bt_Allowed = rqi_Allowed item\<rparr>
           | None \<Rightarrow> \<lparr>bt_Name = '''', bt_Formats = [], bt_Allowed = rqi_Allowed item\<rparr>)"

definition has_quality :: "int \<Rightarrow> QualityProfileItemResource \<Rightarrow> bool" where
  "has_quality i item = (case rqi_Quality item of Some q \<Rightarrow> rq_ID q = i | None \<Rightarrow> False)"

fun findCutoffTier :: "QualityProfileItemResource list \<Rightarrow> int \<Rightarrow> BookQualityTierIR option" where
  "findCutoffTier [] cutoffID = None"
| "findCutoffTier (item # items) cutoffID =
     (if rqi_ID item = cutoffID then Some (qualityItemToTier item)
      else case find (has_quality cutoffID) (rqi_Items item) of
             Some subItem \<Rightarrow> Some (qualityItemToTier subItem)
           | None \<Rightarrow> if has_quality cutoffID item then Some (qualityItemToTier item) else findCutoffTier items cutoffID)"

definition qualityProfileToIR :: "QualityProfileResource \<Rightarrow> BookQualityIR" where
  "qualityProfileToIR profile =
     \<lparr>bq_ProfileName = rqp_Name profile, bq_UpgradeAllowed = rqp_UpgradeAllowed profile,
      bq_Cutoff = (if rqp_Cutoff profile > 0
                   then (case findCutoffTier (rqp_Items profile) (rqp_Cutoff profile) of
                           Some cutoffTier \<Rightarrow> cutoffTier | None \<Rightarrow> zero_BookQualityTierIR)
                   else zero_BookQualityTierIR),
      bq_Tiers = map qualityItemToTier (rqp_Items profile)\<rparr>"

fun findQualityByName :: "QualityDefinitionResource list \<Rightarrow> string \<Rightarrow> QualityDefinitionResource option" where
  "findQualityByName [] name = None"
| "findQualityByName (q # qualities) name =
     (if rq_Name (rqd_Quality q) = name then Some q else findQualityByName qualities name)"

definition findQualityIDByName :: "QualityDefinitionResource list \<Rightarrow> string \<Rightarrow> int" where
  "findQualityIDByName qualities name =
     (case findQualityByName qualities name of Some def \<Rightarrow> rq_ID (rqd_Quality def) | None \<Rightarrow> 0)"

definition tierToQualityItem :: "QualityDefinitionResource list \<Rightarrow> BookQualityTierIR \<Rightarrow> QualityProfileItemResource" where
  "tierToQualityItem qualities tier =
     (if length (bt_Formats tier) > 0
      then QualityProfileItemResource 0 (bt_Name tier) None
             (List.map_filter (\<lambda>format. case findQualityByName qualities format of
                 Some qualityDef \<Rightarrow> Some (QualityProfileItemResource 0 ''''
                   (Some \<lparr>rq_ID = rq_ID (rqd_Quality qualityDef), rq_Name = rq_Name (rqd_Quality qualityDef)\<rparr>) [] (bt_Allowed tier))
               | None \<Rightarrow> None) (bt_Formats tier))
             (bt_Allowed tier)
      else if bt_Name tier \<noteq> ''''
      then QualityProfileItemResource 0 (bt_Name tier)
             (case findQualityByName qualities (bt_Name tier) of
                Some qualityDef \<Rightarrow> Some \<lparr>rq_ID = rq_ID (rqd_Quality qualityDef), rq_Name = rq_Name (rqd_Quality qualityDef)\<rparr>
              | None \<Rightarrow> None) [] (bt_Allowed tier)
      else QualityProfileItemResource 0 (bt_Name tier) None [] (bt_Allowed tier))"

text \<open>The profile that \<^verbatim>\<open>createQualityProfile\<close> and \<^verbatim>\<open>updateQualityProfile\<close> build.\<close>

definition profile_resource :: "QualityDefinitionResource list \<Rightarrow> int \<Rightarrow> BookQualityIR \<Rightarrow> QualityProfileResource" where
  "profile_resource qualities profileID ir =
     (let cutoffID = (if bt_Name (bq_Cutoff ir) \<noteq> '''' then findQualityIDByName qualities (bt_Name (bq_Cutoff ir)) else 0)
      in \<lparr>rqp_ID = profileID, rqp_Name = bq_ProfileName ir, rqp_UpgradeAllowed = bq_UpgradeAllowed ir,
          rqp_Cutoff = (if cutoffID > 0 then cutoffID else 0),
          rqp_Items = map (tierToQualityItem qualities) (bq_Tiers ir)\<rparr>)"

section \<open>Metadata profiles: conversions (metadata.go)\<close>

definition metadataProfileToIR :: "MetadataProfileResource \<Rightarrow> MetadataProfileIR" where
  "metadataProfileToIR profile =
     \<lparr>mp_ID = Some (rmr_ID profile), mp_Name = rmr_Name profile, mp_MinPopularity = rmr_MinPopularity profile,
      mp_SkipMissingDate = rmr_SkipMissingDate profile, mp_SkipMissingIsbn = rmr_SkipMissingIsbn profile,
      mp_SkipPartsAndSets = rmr_SkipPartsAndSets profile, mp_SkipSeriesSecondary = rmr_SkipSeriesSecondary profile,
      mp_AllowedLanguages = rmr_AllowedLanguages profile\<rparr>"

definition metadata_resource :: "int \<Rightarrow> MetadataProfileIR \<Rightarrow> MetadataProfileResource" where
  "metadata_resource profileID ir =
     \<lparr>rmr_ID = profileID, rmr_Name = mp_Name ir, rmr_MinPopularity = mp_MinPopularity ir,
      rmr_SkipMissingDate = mp_SkipMissingDate ir, rmr_SkipMissingIsbn = mp_SkipMissingIsbn ir,
      rmr_SkipPartsAndSets = mp_SkipPartsAndSets ir, rmr_SkipSeriesSecondary = mp_SkipSeriesSecondary ir,
      rmr_AllowedLanguages = mp_AllowedLanguages ir\<rparr>"

section \<open>Reading the managed state\<close>

definition nebularr_name :: "string \<Rightarrow> bool" where
  "nebularr_name name \<longleftrightarrow> \<not> (length name < 9 \<or> take 9 name \<noteq> ''nebularr-'')"

definition getManagedQualityProfiles :: "'s ReadarrAPI \<Rightarrow> ('s, BookQualityIR list) action" where
  "getManagedQualityProfiles api =
     andThen (wrap_err ''failed to get quality profiles'' (ep_list (rapi_profiles api) ''/api/v1/qualityprofile'')) (\<lambda>profiles.
       give (map qualityProfileToIR (filter (\<lambda>p. nebularr_name (rqp_Name p)) profiles)))"

definition getManagedMetadataProfiles :: "'s ReadarrAPI \<Rightarrow> ('s, MetadataProfileIR list) action" where
  "getManagedMetadataProfiles api =
     andThen (wrap_err ''failed to get metadata profiles'' (ep_list (rapi_metadata api) ''/api/v1/metadataprofile'')) (\<lambda>profiles.
       give (map metadataProfileToIR (filter (\<lambda>p. nebularr_name (rmr_Name p)) profiles)))"

definition getManagedDownloadClients :: "'s ReadarrAPI \<Rightarrow> int \<Rightarrow> ('s, DownloadClientIR list) action" where
  "getManagedDownloadClients api tagID =
     andThen (ep_list (rapi_clients api) ''/api/v1/downloadclient'') (\<lambda>clients.
       give (map downloadClientToIR (filter (\<lambda>client. containsTag (rdc_Tags client) tagID) clients)))"

definition getManagedIndexers :: "'s ReadarrAPI \<Rightarrow> int \<Rightarrow> ('s, IndexerIR list) action" where
  "getManagedIndexers api tagID =
     andThen (ep_list (rapi_indexers api) ''/api/v1/indexer'') (\<lambda>indexers.
       give (map indexerToIR (filter (\<lambda>indexer. containsTag (rix_Tags indexer) tagID) indexers)))"

definition getRootFolders :: "'s ReadarrAPI \<Rightarrow> ('s, RootFolderIR list) action" where
  "getRootFolders api =
     andThen (ep_list (rapi_folders api) ''/api/v1/rootfolder'') (\<lambda>folders.
       give (map (\<lambda>folder. \<lparr>rf_Path = rrf_Path folder, rf_Name = '''', rf_DefaultMonitor = ''''\<rparr>) folders))"

definition getOwnershipTagID :: "'s ReadarrAPI \<Rightarrow> ('s, int) action" where
  "getOwnershipTagID api = GetOwnershipTagID (ep_list (rapi_tags api)) ''v1''"

definition ensureOwnershipTag :: "'s ReadarrAPI \<Rightarrow> ('s, int) action" where
  "ensureOwnershipTag api = EnsureOwnershipTag (ep_list (rapi_tags api)) (ep_post (rapi_tags api)) ''v1''"

definition read_state :: "'s ReadarrAPI \<Rightarrow> int \<Rightarrow> IR \<Rightarrow> ('s, IR) action" where
  "read_state api tagID ir =
     andThen (try_set (getManagedQualityProfiles api) (\<lambda>ps ir. case ps of [] \<Rightarrow> ir
       | p # _ \<Rightarrow> ir\<lparr>ir_Quality := Some \<lparr>q_Video = None, q_Audio = None, q_Book = Some p\<rparr>\<rparr>) ir) (\<lambda>ir.
     andThen (try_set (getManagedMetadataProfiles api) (\<lambda>x ir. ir\<lparr>ir_MetadataProfiles := map Some x\<rparr>) ir) (\<lambda>ir.
     andThen (try_set (getManagedDownloadClients api tagID) (\<lambda>x ir. ir\<lparr>ir_DownloadClients := x\<rparr>) ir) (\<lambda>ir.
     andThen (try_set (getManagedIndexers api tagID) (\<lambda>x ir. if length x > 0
       then ir\<lparr>ir_Indexers := Some \<lparr>idxs_ProwlarrRef = None, idxs_Direct = x\<rparr>\<rparr> else ir) ir) (\<lambda>ir.
     try_set (getRootFolders api) (\<lambda>x ir. ir\<lparr>ir_RootFolders := x\<rparr>) ir))))"

definition CurrentState :: "int \<Rightarrow> 's ReadarrAPI \<Rightarrow> ConnectionIR \<Rightarrow> ('s, IR) action" where
  "CurrentState now api conn s =
     (let ir = zero_IR\<lparr>ir_Version := IRVersion, ir_GeneratedAt := now, ir_App := AppReadarr, ir_Connection := Some conn\<rparr>
      in case getOwnershipTagID api s of
           (Err _, s') \<Rightarrow> (Ok ir, s')
         | (Panic p, s') \<Rightarrow> (Panic p, s')
         | (Ok tagID, s') \<Rightarrow> read_state api tagID ir s')"

section \<open>Diff\<close>

definition diffQualityProfiles :: "IR \<Rightarrow> IR \<Rightarrow> ChangeSet \<Rightarrow> ChangeSet" where
  "diffQualityProfiles current desired changes =
     DiffBookQualityProfiles (Option.bind (ir_Quality current) q_Book) (Option.bind (ir_Quality desired) q_Book) changes"

definition metadataProfilesEqual :: "MetadataProfileIR \<Rightarrow> MetadataProfileIR \<Rightarrow> bool" where
  "metadataProfilesEqual current desired \<longleftrightarrow>
     mp_Name current = mp_Name desired \<and>
     mp_MinPopularity current = mp_MinPopularity desired \<and>
     mp_SkipMissingDate current = mp_SkipMissingDate desired \<and>
     mp_SkipMissingIsbn current = mp_SkipMissingIsbn desired \<and>
     mp_SkipPartsAndSets current = mp_SkipPartsAndSets desired \<and>
     mp_SkipSeriesSecondary current = mp_SkipSeriesSecondary desired \<and>
     mp_AllowedLanguages current = mp_AllowedLanguages desired"

definition metadata_changes ::
    "range_order \<Rightarrow> MetadataProfileIR list \<Rightarrow> MetadataProfileIR list \<Rightarrow> ChangeSet \<Rightarrow> ChangeSet" where
  "metadata_changes ord current desired changes =
     (let currentMap = index_by mp_Name current;
          desiredMap = index_by mp_Name desired;
          changes1 = fold (\<lambda>(name, desiredProfile) cs.
            case map_of currentMap name of
              None \<Rightarrow> add_create \<lparr>ch_ResourceType = ResourceMetadataProfile, ch_Name = name,
                        ch_ID = None, ch_Payload = MetadataProfilePtr desiredProfile\<rparr> cs
            | Some currentProfile \<Rightarrow>
                if \<not> metadataProfilesEqual currentProfile desiredProfile
                then add_update \<lparr>ch_ResourceType = ResourceMetadataProfile, ch_Name = name,
                       ch_ID = mp_ID currentProfile, ch_Payload = MetadataProfilePtr desiredProfile\<rparr> cs
                else cs) (gm_range ord 0 desiredMap) changes
      in fold (\<lambda>(name, currentProfile) cs.
            case map_of desiredMap name of
              None \<Rightarrow> add_delete \<lparr>ch_ResourceType = ResourceMetadataProfile, ch_Name = name,
                        ch_ID = mp_ID currentProfile, ch_Payload = NoPayload\<rparr> cs
            | Some _ \<Rightarrow> cs) (gm_range ord 1 currentMap) changes1)"

text \<open>The profiles are pointers; indexing them reads the name of each, so a nil among them panics.\<close>

definition diffMetadataProfiles ::
    "range_order \<Rightarrow> MetadataProfileIR option list \<Rightarrow> MetadataProfileIR option list \<Rightarrow> ChangeSet \<Rightarrow> ChangeSet outcome" where
  "diffMetadataProfiles ord current desired changes =
     (if None \<in> set current \<or> None \<in> set desired then Panic ''nil pointer dereference''
      else Ok (metadata_changes ord (List.map_filter id current) (List.map_filter id desired) changes))"

definition diffDownloadClients :: "range_order \<Rightarrow> DownloadClientIR list \<Rightarrow> DownloadClientIR list \<Rightarrow> ChangeSet \<Rightarrow> ChangeSet" where
  "diffDownloadClients ord current desired changes =
     (let currentMap = index_by dc_Name current;
          desiredMap = index_by dc_Name desired;
          changes1 = fold (\<lambda>(name, desiredDC) cs.
            case map_of currentMap name of
              None \<Rightarrow> add_create \<lparr>ch_ResourceType = ResourceDownloadClient, ch_Name = name,
                        ch_ID = None, ch_Payload = DownloadClientVal desiredDC\<rparr> cs
            | Some _ \<Rightarrow> cs) (gm_range ord 0 desiredMap) changes
      in fold (\<lambda>(name, _) cs.
            case map_of desiredMap name of
              None \<Rightarrow> add_delete \<lparr>ch_ResourceType = ResourceDownloadClient, ch_Name = name,
                        ch_ID = None, ch_Payload = NoPayload\<rparr> cs
            | Some _ \<Rightarrow> cs) (gm_range ord 1 currentMap) changes1)"

definition indexer_changes :: "range_order \<Rightarrow> IndexerIR list \<Rightarrow> IndexerIR list \<Rightarrow> ChangeSet \<Rightarrow> ChangeSet" where
  "indexer_changes ord current desired changes =
     (let currentIndexers = index_by idx_Name current;
          desiredIndexers = index_by idx_Name desired;
          changes1 = fold (\<lambda>(name, desiredIdx) cs.
            case map_of currentIndexers name of
              None \<Rightarrow> add_create \<lparr>ch_ResourceType = ResourceIndexer, ch_Name = name,
                        ch_ID = None, ch_Payload = IndexerVal desiredIdx\<rparr> cs
            | Some _ \<Rightarrow> cs) (gm_range ord 0 desiredIndexers) changes
      in fold (\<lambda>(name, _) cs.
            case map_of desiredIndexers name of
              None \<Rightarrow> add_delete \<lparr>ch_ResourceType = ResourceIndexer, ch_Name = name,
                        ch_ID = None, ch_Payload = NoPayload\<rparr> cs
            | Some _ \<Rightarrow> cs) (gm_range ord 1 currentIndexers) changes1)"

definition diffIndexers :: "range_order \<Rightarrow> IR \<Rightarrow> IR \<Rightarrow> ChangeSet \<Rightarrow> ChangeSet" where
  "diffIndexers ord current desired changes =
     indexer_changes ord
       (case ir_Indexers current of None \<Rightarrow> [] | Some ix \<Rightarrow> idxs_Direct ix)
       (case ir_Indexers desired of None \<Rightarrow> [] | Some ix \<Rightarrow> idxs_Direct ix) changes"

definition diffRootFolders :: "IR \<Rightarrow> IR \<Rightarrow> ChangeSet \<Rightarrow> ChangeSet" where
  "diffRootFolders current desired changes =
     (let currentPaths = set_of_slice (map rf_Path (ir_RootFolders current))
      in fold (\<lambda>rf cs.
           if \<not> gm_flag currentPaths (rf_Path rf)
           then add_create \<lparr>ch_ResourceType = ResourceRootFolder, ch_Name = rf_Path rf, ch_ID = None,
                  ch_Payload = RootFolderVal rf\<rparr> cs
           else cs) (ir_RootFolders desired) changes)"

definition Diff :: "range_order \<Rightarrow> IR \<Rightarrow> IR \<Rightarrow> ChangeSet outcome" where
  "Diff ord current desired =
     (case diffMetadataProfiles (diff_order 0 ord) (ir_MetadataProfiles current) (ir_MetadataProfiles desired)
             (diffQualityProfiles current desired no_changes) of
        Ok c \<Rightarrow>
          Ok (diffRootFolders current desired
               (diffIndexers (diff_order 2 ord) current desired
                 (diffDownloadClients (diff_order 1 ord) (ir_DownloadClients current) (ir_DownloadClients desired) c)))
      | Err e \<Rightarrow> Err (''failed to diff metadata profiles: '' @ e)
      | Panic p \<Rightarrow> Panic p)"

section \<open>Apply\<close>

definition createQualityProfile :: "'s ReadarrAPI \<Rightarrow> BookQualityIR \<Rightarrow> ('s, unit) action" where
  "createQualityProfile api ir =
     andThen (wrap_err ''failed to get quality definitions'' (ep_list (rapi_definitions api) ''/api/v1/qualitydefinition'')) (\<lambda>qualities.
       discard (ep_post (rapi_profiles api) ''/api/v1/qualityprofile'' (profile_resource qualities 0 ir)))"

definition updateQualityProfile :: "'s ReadarrAPI \<Rightarrow> BookQualityIR \<Rightarrow> int \<Rightarrow> ('s, unit) action" where
  "updateQualityProfile api ir profileID =
     andThen (wrap_err ''failed to get quality definitions'' (ep_list (rapi_definitions api) ''/api/v1/qualitydefinition'')) (\<lambda>qualities.
       discard (ep_put (rapi_profiles api) (''/api/v1/qualityprofile/'' @ Itoa profileID) (profile_resource qualities profileID ir)))"

definition createMetadataProfile :: "'s ReadarrAPI \<Rightarrow> MetadataProfileIR \<Rightarrow> ('s, unit) action" where
  "createMetadataProfile api ir = discard (ep_post (rapi_metadata api) ''/api/v1/metadataprofile'' (metadata_resource 0 ir))"

definition updateMetadataProfile :: "'s ReadarrAPI \<Rightarrow> MetadataProfileIR \<Rightarrow> int \<Rightarrow> ('s, unit) action" where
  "updateMetadataProfile api ir profileID =
     discard (ep_put (rapi_metadata api) (''/api/v1/metadataprofile/'' @ Itoa profileID) (metadata_resource profileID ir))"

definition createDownloadClient :: "'s ReadarrAPI \<Rightarrow> DownloadClientIR \<Rightarrow> int \<Rightarrow> ('s, unit) action" where
  "createDownloadClient api dc tagID =
     discard (ep_post (rapi_clients api) ''/api/v1/downloadclient'' (client_resource dc tagID))"

definition createIndexer :: "'s ReadarrAPI \<Rightarrow> IndexerIR \<Rightarrow> int \<Rightarrow> ('s, unit) action" where
  "createIndexer api idx tagID = discard (ep_post (rapi_indexers api) ''/api/v1/indexer'' (indexer_resource idx tagID))"

definition createRootFolder :: "'s ReadarrAPI \<Rightarrow> RootFolderIR \<Rightarrow> ('s, unit) action" where
  "createRootFolder api rf = discard (ep_post (rapi_folders api) ''/api/v1/rootfolder'' (folder_resource rf))"

text \<open>The loop of the deletes by name: the first resource with the name, and no error if there is none.\<close>

definition delete_first :: "('r \<Rightarrow> string) \<Rightarrow> ('r \<Rightarrow> int) \<Rightarrow> (int \<Rightarrow> ('s, unit) action) \<Rightarrow> string \<Rightarrow> 'r list \<Rightarrow> ('s, unit) action" where
  "delete_first rname rid del name rs =
     (case find (\<lambda>r. rname r = name) rs of None \<Rightarrow> give () | Some r \<Rightarrow> del (rid r))"

definition deleteQualityProfileByName :: "'s ReadarrAPI \<Rightarrow> string \<Rightarrow> ('s, unit) action" where
  "deleteQualityProfileByName api name =
     andThen (ep_list (rapi_profiles api) ''/api/v1/qualityprofile'')
       (delete_first rqp_Name rqp_ID (\<lambda>i. rapi_delete api (''/api/v1/qualityprofile/'' @ Itoa i)) name)"

definition deleteMetadataProfileByName :: "'s ReadarrAPI \<Rightarrow> string \<Rightarrow> ('s, unit) action" where
  "deleteMetadataProfileByName api name =
     andThen (ep_list (rapi_metadata api) ''/api/v1/metadataprofile'')
       (delete_first rmr_Name rmr_ID (\<lambda>i. rapi_delete api (''/api/v1/metadataprofile/'' @ Itoa i)) name)"

definition deleteDownloadClientByName :: "'s ReadarrAPI \<Rightarrow> string \<Rightarrow> ('s, unit) action" where
  "deleteDownloadClientByName api name =
     andThen (ep_list (rapi_clients api) ''/api/v1/downloadclient'')
       (delete_first rdc_Name rdc_ID (\<lambda>i. rapi_delete api (''/api/v1/downloadclient/'' @ Itoa i)) name)"

definition deleteIndexerByName :: "'s ReadarrAPI \<Rightarrow> string \<Rightarrow> ('s, unit) action" where
  "deleteIndexerByName api name =
     andThen (ep_list (rapi_indexers api) ''/api/v1/indexer'')
       (delete_first rix_Name rix_ID (\<lambda>i. rapi_delete api (''/api/v1/indexer/'' @ Itoa i)) name)"

definition applyCreate :: "'s ReadarrAPI \<Rightarrow> int \<Rightarrow> Change \<Rightarrow> ('s, unit) action" where
  "applyCreate api tagID change =
     (if ch_ResourceType change = ResourceQualityProfile
      then (case ch_Payload change of BookQualityPtr p \<Rightarrow> createQualityProfile api p | _ \<Rightarrow> panics ''interface conversion'')
      else if ch_ResourceType change = ResourceMetadataProfile
      then (case ch_Payload change of MetadataProfilePtr p \<Rightarrow> createMetadataProfile api p | _ \<Rightarrow> panics ''interface conversion'')
      else if ch_ResourceType change = ResourceDownloadClient
      then (case ch_Payload change of DownloadClientVal p \<Rightarrow> createDownloadClient api p tagID | _ \<Rightarrow> panics ''interface conversion'')
      else if ch_ResourceType change = ResourceIndexer
      then (case ch_Payload change of IndexerVal p \<Rightarrow> createIndexer api p tagID | _ \<Rightarrow> panics ''interface conversion'')
      else if ch_ResourceType change = ResourceRootFolder
      then (case ch_Payload change of RootFolderVal p \<Rightarrow> createRootFolder api p | _ \<Rightarrow> panics ''interface conversion'')
      else fail (''unknown resource type: '' @ ch_ResourceType change))"

definition applyUpdate :: "'s ReadarrAPI \<Rightarrow> Change \<Rightarrow> ('s, unit) action" where
  "applyUpdate api change =
     (if ch_ResourceType change = ResourceQualityProfile
      then (case ch_ID change of
              Some i \<Rightarrow> (case ch_Payload change of BookQualityPtr p \<Rightarrow> updateQualityProfile api p i | _ \<Rightarrow> panics ''interface conversion'')
            | None \<Rightarrow> fail ''quality profile update requires ID'')
      else if ch_ResourceType change = ResourceMetadataProfile
      then (case ch_ID change of
              Some i \<Rightarrow> (case ch_Payload change of MetadataProfilePtr p \<Rightarrow> updateMetadataProfile api p i | _ \<Rightarrow> panics ''interface conversion'')
            | None \<Rightarrow> fail ''metadata profile update requires ID'')
      else give ())"

definition applyDelete :: "'s ReadarrAPI \<Rightarrow> Change \<Rightarrow> ('s, unit) action" where
  "applyDelete api change =
     (if ch_ResourceType change = ResourceQualityProfile then deleteQualityProfileByName api (ch_Name change)
      else if ch_ResourceType change = ResourceMetadataProfile then deleteMetadataProfileByName api (ch_Name change)
      else if ch_ResourceType change = ResourceDownloadClient then deleteDownloadClientByName api (ch_Name change)
      else if ch_ResourceType change = ResourceIndexer then deleteIndexerByName api (ch_Name change)
      else fail (''unknown resource type: '' @ ch_ResourceType change))"

text \<open>Unlike the other adapters', a failing \<^verbatim>\<open>Apply\<close> answers an empty result beside the error.\<close>

definition Apply :: "'s ReadarrAPI \<Rightarrow> ChangeSet \<Rightarrow> ('s, ApplyResult option \<times> string option) action" where
  "Apply api changes s =
     (case ensureOwnershipTag api s of
        (Err err, s') \<Rightarrow> (Ok (Some zero_result, Some (''failed to ensure ownership tag: '' @ err)), s')
      | (Panic p, s') \<Rightarrow> (Panic p, s')
      | (Ok tagID, s') \<Rightarrow>
          andThen (ApplyChanges changes (\<lambda>change. applyCreate api tagID change) (\<lambda>change. applyUpdate api change)
                     (\<lambda>change. applyDelete api change)) (\<lambda>result. give (Some result, None)) s')"

definition GetHealth :: "'s ReadarrAPI \<Rightarrow> ('s, HealthStatus) action" where
  "GetHealth api = Shared_Service.GetHealth (ep_list (rapi_health api)) ''v1''"

end
