(* ===== verification/Readarr_Converge.thy ===== *)
theory Readarr_Converge
  imports Readarr Collection Compiler
begin

text \<open>
  What the Readarr adapter reaches against a service that stores what it is sent. Metadata
  profiles settle in one pass, updates included. Download clients and indexers settle by name:
  a resource of the right name is never changed again, whatever its settings.
\<close>

section \<open>The changes as the diffs write them\<close>

definition mp_create :: "string \<Rightarrow> MetadataProfileIR \<Rightarrow> Change" where
  "mp_create name d = \<lparr>ch_ResourceType = ResourceMetadataProfile, ch_Name = name, ch_ID = None,
                       ch_Payload = MetadataProfilePtr d\<rparr>"

definition mp_update :: "string \<Rightarrow> MetadataProfileIR \<Rightarrow> MetadataProfileIR \<Rightarrow> Change" where
  "mp_update name c d = \<lparr>ch_ResourceType = ResourceMetadataProfile, ch_Name = name, ch_ID = mp_ID c,
                         ch_Payload = MetadataProfilePtr d\<rparr>"

definition mp_delete :: "string \<Rightarrow> MetadataProfileIR \<Rightarrow> Change" where
  "mp_delete name c = \<lparr>ch_ResourceType = ResourceMetadataProfile, ch_Name = name, ch_ID = mp_ID c,
                       ch_Payload = NoPayload\<rparr>"

text \<open>A create of a client or an indexer, the update that never happens, and a delete by name.\<close>

definition by_name :: "string \<Rightarrow> ('a \<Rightarrow> Payload) \<Rightarrow> string \<Rightarrow> 'a \<Rightarrow> Change" where
  "by_name t payload name d = \<lparr>ch_ResourceType = t, ch_Name = name, ch_ID = None, ch_Payload = payload d\<rparr>"

definition no_update :: "string \<Rightarrow> string \<Rightarrow> 'a \<Rightarrow> 'a \<Rightarrow> Change" where
  "no_update t name c d = \<lparr>ch_ResourceType = t, ch_Name = name, ch_ID = None, ch_Payload = NoPayload\<rparr>"

section \<open>What a service answers\<close>

definition answer_client :: "(GoValue \<Rightarrow> GoValue) \<Rightarrow> int \<Rightarrow> DownloadClientResource \<Rightarrow> DownloadClientResource" where
  "answer_client hide i r = r\<lparr>rdc_ID := i, rdc_Fields := map (answer_field hide) (rdc_Fields r)\<rparr>"

definition answer_indexer :: "(GoValue \<Rightarrow> GoValue) \<Rightarrow> int \<Rightarrow> IndexerResource \<Rightarrow> IndexerResource" where
  "answer_indexer hide i r = r\<lparr>rix_ID := i, rix_Fields := map (answer_field hide) (rix_Fields r)\<rparr>"

section \<open>The conversions as codecs\<close>

lemma read_client_keeps: "dc_Name (fold read_client_field fs ir) = dc_Name ir"
  by (induction fs arbitrary: ir) (simp_all add: read_client_field_def split: option.split)

lemma read_indexer_keeps: "idx_Name (fold read_indexer_field fs ir) = idx_Name ir"
  by (induction fs arbitrary: ir) (simp_all add: read_indexer_field_def split: option.split)

interpretation readarr_clients: codec_collection dc_Name "\<lambda>_ _. True" "by_name ResourceDownloadClient DownloadClientVal"
    "no_update ResourceDownloadClient" "by_name ResourceDownloadClient (\<lambda>_. NoPayload)" diffDownloadClients "\<lambda>_. True"
    rdc_ID rdc_Name "\<lambda>r. containsTag (rdc_Tags r) tagID" downloadClientToIR "\<lambda>d. client_resource d tagID"
    "\<lambda>i d. (client_resource d tagID)\<lparr>rdc_ID := i\<rparr>" "answer_client hide"
  for tagID hide
  by (unfold_locales, unfold diffDownloadClients_def upsert_loop_def delete_loop_def by_name_def no_update_def Let_def
      not_True_eq_False if_False)
    (simp_all add: downloadClientToIR_def read_client_keeps answer_client_def client_resource_def containsTag_def)

interpretation readarr_indexers: codec_collection idx_Name "\<lambda>_ _. True" "by_name ResourceIndexer IndexerVal"
    "no_update ResourceIndexer" "by_name ResourceIndexer (\<lambda>_. NoPayload)" indexer_changes "\<lambda>_. True"
    rix_ID rix_Name "\<lambda>r. containsTag (rix_Tags r) tagID" indexerToIR "\<lambda>d. indexer_resource d tagID"
    "\<lambda>i d. (indexer_resource d tagID)\<lparr>rix_ID := i\<rparr>" "answer_indexer hide"
  for tagID hide
  by (unfold_locales, unfold indexer_changes_def upsert_loop_def delete_loop_def by_name_def no_update_def Let_def
      not_True_eq_False if_False)
    (simp_all add: indexerToIR_def read_indexer_keeps answer_indexer_def indexer_resource_def containsTag_def)

interpretation readarr_metadata: codec_collection mp_Name metadataProfilesEqual mp_create mp_update mp_delete
    metadata_changes "\<lambda>d. nebularr_name (mp_Name d)" rmr_ID rmr_Name "\<lambda>r. nebularr_name (rmr_Name r)"
    metadataProfileToIR "metadata_resource 0" metadata_resource "\<lambda>i r. r\<lparr>rmr_ID := i\<rparr>"
  by (unfold_locales, unfold metadata_changes_def upsert_loop_def delete_loop_def mp_create_def mp_update_def mp_delete_def Let_def)
    (simp_all add: metadataProfileToIR_def metadata_resource_def metadataProfilesEqual_def)


section \<open>Convergence\<close>

text \<open>What the operator relies on from Readarr's metadata profile and download client endpoints.\<close>

definition metadata_service :: "'s ReadarrAPI \<Rightarrow> ('s \<Rightarrow> MetadataProfileResource list) \<Rightarrow> bool" where
  "metadata_service api listed \<longleftrightarrow>
     rest_collection (ep_list (rapi_metadata api) ''/api/v1/metadataprofile'')
       (ep_post (rapi_metadata api) ''/api/v1/metadataprofile'')
       (\<lambda>i. ep_put (rapi_metadata api) (''/api/v1/metadataprofile/'' @ Itoa i))
       (\<lambda>i. rapi_delete api (''/api/v1/metadataprofile/'' @ Itoa i))
       listed rmr_ID rmr_Name (\<lambda>i r. r\<lparr>rmr_ID := i\<rparr>)"

definition book_client_service :: "(GoValue \<Rightarrow> GoValue) \<Rightarrow> 's ReadarrAPI \<Rightarrow> ('s \<Rightarrow> DownloadClientResource list) \<Rightarrow> bool" where
  "book_client_service hide api listed \<longleftrightarrow>
     rest_collection (ep_list (rapi_clients api) ''/api/v1/downloadclient'')
       (ep_post (rapi_clients api) ''/api/v1/downloadclient'')
       (\<lambda>i. ep_put (rapi_clients api) (''/api/v1/downloadclient/'' @ Itoa i))
       (\<lambda>i. rapi_delete api (''/api/v1/downloadclient/'' @ Itoa i))
       listed rdc_ID rdc_Name (answer_client hide)"

lemma apply_metadata:
  "applyCreate api tagID (mp_create k d) =
     andThen (ep_post (rapi_metadata api) ''/api/v1/metadataprofile'' (metadata_resource 0 d)) (\<lambda>_. give ())"
  "applyUpdate api (mp_update k (metadataProfileToIR r) d) =
     andThen (ep_put (rapi_metadata api) (''/api/v1/metadataprofile/'' @ Itoa (rmr_ID r)) (metadata_resource (rmr_ID r) d))
       (\<lambda>_. give ())"
  "applyDelete api (mp_delete k c) =
     andThen (ep_list (rapi_metadata api) ''/api/v1/metadataprofile'') (\<lambda>rs. case find (\<lambda>r. rmr_Name r = k) rs of
       None \<Rightarrow> give () | Some r \<Rightarrow> rapi_delete api (''/api/v1/metadataprofile/'' @ Itoa (rmr_ID r)))"
  by (simp_all add: applyCreate_def applyUpdate_def applyDelete_def mp_create_def mp_update_def mp_delete_def
      createMetadataProfile_def updateMetadataProfile_def deleteMetadataProfileByName_def delete_first_def [abs_def]
      metadataProfileToIR_def discard_def del: append.simps)

lemma map_filter_Some: "List.map_filter id (map Some xs) = xs"
  by (induction xs) simp_all

lemma diff_metadata_values:
  "diffMetadataProfiles ord (map Some cur) (map Some des) cs = Ok (metadata_changes ord cur des cs)"
  by (auto simp: diffMetadataProfiles_def map_filter_Some)

text \<open>
  C23. The Readarr adapter converges on metadata profiles: against a service that stores what
  it is sent, one pass of reading, diffing and applying succeeds, leaves the profiles without
  the operator's prefix as they were, and reading again gives an empty diff; every desired
  name must carry the prefix, as the compiler gives it.
\<close>

theorem Readarr_metadata_converge:
  assumes "metadata_service api listed" and "valid_order ord" and "valid_order ord'"
    and "distinct (map rmr_ID (listed s))" and "distinct (map rmr_Name (listed s))"
    and "\<forall>d \<in> set desired. nebularr_name (mp_Name d)"
    and "getManagedMetadataProfiles api s = (Ok current, s0)"
  shows "\<exists>changes r s' current' changes'.
    diffMetadataProfiles ord (map Some current) (map Some desired) no_changes = Ok changes \<and>
    ApplyChanges changes (\<lambda>c. applyCreate api tagID c) (\<lambda>c. applyUpdate api c) (\<lambda>c. applyDelete api c) s0 = (Ok r, s') \<and>
    Success r \<and>
    filter (\<lambda>r. \<not> nebularr_name (rmr_Name r)) (listed s') = filter (\<lambda>r. \<not> nebularr_name (rmr_Name r)) (listed s) \<and>
    getManagedMetadataProfiles api s' = (Ok current', s') \<and>
    diffMetadataProfiles ord' (map Some current') (map Some desired) no_changes = Ok changes' \<and> IsEmpty changes'"
proof -
  note svc = assms(1) [unfolded metadata_service_def]
  have read: "getManagedMetadataProfiles api t = (Ok (readarr_metadata.managed (listed t)), t)" for t
    by (simp add: getManagedMetadataProfiles_def rest_collectionD(1) [OF svc] give_def readarr_metadata.managed_def)
  then have cur: "current = readarr_metadata.managed (listed s)" "s0 = s" using assms(7) by auto
  have free: "\<forall>d \<in> set desired. \<forall>r \<in> set (listed s). rmr_Name r = mp_Name d \<longrightarrow> nebularr_name (rmr_Name r)"
    using assms(6) by simp
  have want: "mp_Name d = k \<and> nebularr_name (mp_Name d)" if "latest mp_Name desired k = Some d" for k d
    using readarr_metadata.wanted_free [OF assms(6) free that] by blast
  from readarr_metadata.converges_by_name [where createFn = "\<lambda>c. applyCreate api tagID c"
      and updateFn = "\<lambda>c. applyUpdate api c" and deleteFn = "\<lambda>c. applyDelete api c",
      OF svc apply_metadata(1) readarr_metadata.update_law [OF svc want apply_metadata(2)] apply_metadata(3)
        assms(2-6) free]
  show ?thesis by (auto simp: diff_metadata_values cur read)
qed

lemma apply_book_client:
  "applyCreate api tagID (by_name ResourceDownloadClient DownloadClientVal k d) =
     andThen (ep_post (rapi_clients api) ''/api/v1/downloadclient'' (client_resource d tagID)) (\<lambda>_. give ())"
  "applyUpdate api (no_update ResourceDownloadClient k c d) = give ()"
  "applyDelete api (by_name ResourceDownloadClient (\<lambda>_. NoPayload) k c) =
     andThen (ep_list (rapi_clients api) ''/api/v1/downloadclient'') (\<lambda>rs. case find (\<lambda>r. rdc_Name r = k) rs of
       None \<Rightarrow> give () | Some r \<Rightarrow> rapi_delete api (''/api/v1/downloadclient/'' @ Itoa (rdc_ID r)))"
  by (simp_all add: applyCreate_def applyUpdate_def applyDelete_def by_name_def no_update_def
      createDownloadClient_def deleteDownloadClientByName_def delete_first_def [abs_def] discard_def
      del: append.simps)

lemma names_agree_iff:
  "(\<forall>k. rel_option (\<lambda>_ _. True) (latest key xs k) (latest key ys k)) \<longleftrightarrow> key ` set xs = key ` set ys"
proof -
  have "rel_option (\<lambda>_ _. True) (latest key xs k) (latest key ys k) \<longleftrightarrow> (k \<in> key ` set xs \<longleftrightarrow> k \<in> key ` set ys)" for k
    using latest_None_iff [of key xs k] latest_None_iff [of key ys k]
    by (cases "latest key xs k"; cases "latest key ys k") auto
  then show ?thesis by auto
qed

text \<open>
  Readarr's download clients settle by name only: one pass gives exactly the desired
  names, leaving the clients of other owners as they were, and from then on the diff is empty
  for every spec with those names, so a changed host, port or category is never applied.
\<close>

theorem Readarr_clients_settle_by_name:
  assumes "book_client_service hide api listed" and "valid_order ord" and "valid_order ord'"
    and "distinct (map rdc_ID (listed s))" and "distinct (map rdc_Name (listed s))"
    and "\<forall>d \<in> set desired. \<forall>r \<in> set (listed s). rdc_Name r = dc_Name d \<longrightarrow> containsTag (rdc_Tags r) tagID"
    and "getManagedDownloadClients api tagID s = (Ok current, s0)"
  shows "\<exists>r s' current'.
    ApplyChanges (diffDownloadClients ord current desired no_changes)
      (\<lambda>c. applyCreate api tagID c) (\<lambda>c. applyUpdate api c) (\<lambda>c. applyDelete api c) s0 = (Ok r, s') \<and> Success r \<and>
    filter (\<lambda>r. \<not> containsTag (rdc_Tags r) tagID) (listed s') = filter (\<lambda>r. \<not> containsTag (rdc_Tags r) tagID) (listed s) \<and>
    getManagedDownloadClients api tagID s' = (Ok current', s') \<and>
    (\<forall>other. IsEmpty (diffDownloadClients ord' current' other no_changes) \<longleftrightarrow> dc_Name ` set other = dc_Name ` set desired)"
proof -
  note svc = assms(1) [unfolded book_client_service_def]
  have read: "getManagedDownloadClients api tagID t = (Ok (readarr_clients.managed tagID (listed t)), t)" for t
    by (simp add: getManagedDownloadClients_def rest_collectionD(1) [OF svc] give_def readarr_clients.managed_def)
  then have cur: "current = readarr_clients.managed tagID (listed s)" "s0 = s" using assms(7) by auto
  have kept: "updates_resource P (\<lambda>s. latest dc_Name (readarr_clients.managed tagID (listed s))) (\<lambda>_ _. True) want
      (no_update ResourceDownloadClient) (\<lambda>c. applyUpdate api c)" for P want
    by (rule readarr_clients.no_update_law) (simp_all add: apply_book_client(2))
  have "\<forall>d \<in> set desired. True" by simp
  from readarr_clients.converges_by_name [where createFn = "\<lambda>c. applyCreate api tagID c"
      and updateFn = "\<lambda>c. applyUpdate api c" and deleteFn = "\<lambda>c. applyDelete api c",
      OF svc apply_book_client(1) kept apply_book_client(3)
        assms(2-5) this assms(6)]
  obtain r s' where "ApplyChanges (diffDownloadClients ord current desired no_changes)
      (\<lambda>c. applyCreate api tagID c) (\<lambda>c. applyUpdate api c) (\<lambda>c. applyDelete api c) s0 = (Ok r, s')" "Success r"
    "filter (\<lambda>r. \<not> containsTag (rdc_Tags r) tagID) (listed s') = filter (\<lambda>r. \<not> containsTag (rdc_Tags r) tagID) (listed s)"
    and synced: "IsEmpty (diffDownloadClients ord' (readarr_clients.managed tagID (listed s')) desired no_changes)"
    unfolding cur by blast
  moreover have "IsEmpty (diffDownloadClients ord' (readarr_clients.managed tagID (listed s')) other no_changes) \<longleftrightarrow>
      dc_Name ` set other = dc_Name ` set desired" for other
    using synced by (auto simp: readarr_clients.empty_iff_in_sync [OF assms(3)] names_agree_iff)
  ultimately show ?thesis using read by blast
qed

section \<open>Quality profiles\<close>

text \<open>The definitions name every format once, and every quality has an ID of its own.\<close>

definition knows_formats :: "QualityDefinitionResource list \<Rightarrow> string list \<Rightarrow> bool" where
  "knows_formats qualities formats \<longleftrightarrow>
     set formats \<subseteq> (\<lambda>q. rq_Name (rqd_Quality q)) ` set qualities \<and> '''' \<notin> set formats \<and>
     (\<forall>q \<in> set qualities. rq_ID (rqd_Quality q) > 0) \<and>
     (\<forall>p \<in> set qualities. \<forall>q \<in> set qualities. rq_ID (rqd_Quality p) = rq_ID (rqd_Quality q) \<longrightarrow>
        rq_Name (rqd_Quality p) = rq_Name (rqd_Quality q))"

definition format_tier :: "string \<Rightarrow> BookQualityTierIR" where
  "format_tier format = \<lparr>bt_Name = format, bt_Formats = [format], bt_Allowed = True\<rparr>"

lemma knows_formatsD:
  assumes "knows_formats qualities formats"
  shows "f \<in> set formats \<Longrightarrow> f \<in> (\<lambda>q. rq_Name (rqd_Quality q)) ` set qualities"
    and "f \<in> set formats \<Longrightarrow> f \<noteq> ''''"
    and "q \<in> set qualities \<Longrightarrow> rq_ID (rqd_Quality q) > 0"
    and "p \<in> set qualities \<Longrightarrow> q \<in> set qualities \<Longrightarrow> rq_ID (rqd_Quality p) = rq_ID (rqd_Quality q) \<Longrightarrow>
      rq_Name (rqd_Quality p) = rq_Name (rqd_Quality q)"
  using assms unfolding knows_formats_def by blast+

lemma compileBookQuality_eq:
  "compileBookQuality input name =
     \<lparr>bq_ProfileName = name, bq_UpgradeAllowed = bqi_UpgradeAllowed input,
      bq_Cutoff = (if bqi_CutoffFormat input \<in> set (bqi_AllowedFormats input) then format_tier (bqi_CutoffFormat input)
                   else zero_BookQualityTierIR),
      bq_Tiers = map format_tier (bqi_AllowedFormats input)\<rparr>"
proof -
  have "fold (add_book_tier cutoff) formats ir =
      ir\<lparr>bq_Cutoff := (if cutoff \<in> set formats then format_tier cutoff else bq_Cutoff ir),
         bq_Tiers := bq_Tiers ir @ map format_tier formats\<rparr>" for cutoff formats ir
    by (induction formats arbitrary: ir) (simp_all add: add_book_tier_def Let_def format_tier_def)
  then show ?thesis by (simp add: compileBookQuality_def)
qed

lemma findQualityByName_Some:
  assumes "name \<in> (\<lambda>q. rq_Name (rqd_Quality q)) ` set qualities"
  shows "\<exists>q \<in> set qualities. findQualityByName qualities name = Some q \<and> rq_Name (rqd_Quality q) = name"
  using assms by (induction qualities) auto

text \<open>The item of a known format: a group of one quality, with that format's ID.\<close>

lemma tierToQualityItem_known:
  assumes "knows_formats qualities formats" and "f \<in> set formats"
  shows "tierToQualityItem qualities (format_tier f) =
      QualityProfileItemResource 0 f None [QualityProfileItemResource 0 ''''
        (Some \<lparr>rq_ID = findQualityIDByName qualities f, rq_Name = f\<rparr>) [] True] True"
    and "findQualityIDByName qualities f > 0"
proof -
  obtain q where "q \<in> set qualities" "findQualityByName qualities f = Some q" "rq_Name (rqd_Quality q) = f"
    using findQualityByName_Some [OF knows_formatsD(1) [OF assms]] by blast
  then show "tierToQualityItem qualities (format_tier f) =
      QualityProfileItemResource 0 f None [QualityProfileItemResource 0 ''''
        (Some \<lparr>rq_ID = findQualityIDByName qualities f, rq_Name = f\<rparr>) [] True] True"
    "findQualityIDByName qualities f > 0"
    using knows_formatsD(3) [OF assms(1)]
    by (simp_all add: tierToQualityItem_def format_tier_def findQualityIDByName_def map_filter_simps)
qed

lemma format_tier_Name [simp]: "bt_Name (format_tier f) = f"
  by (simp add: format_tier_def)

lemma tier_of_known:
  assumes "f \<noteq> ''''"
  shows "qualityItemToTier (QualityProfileItemResource 0 '''' (Some \<lparr>rq_ID = n, rq_Name = f\<rparr>) [] True) = format_tier f"
    and "qualityItemToTier (QualityProfileItemResource 0 f None [QualityProfileItemResource 0 ''''
      (Some \<lparr>rq_ID = n, rq_Name = f\<rparr>) [] True] True) = format_tier f"
  using assms by (simp_all add: qualityItemToTier_def qualityToFormat_def format_tier_def map_filter_simps)

lemma findQualityIDByName_inject:
  assumes "knows_formats qualities formats" and "f \<in> set formats" and "g \<in> set formats"
  shows "findQualityIDByName qualities f = findQualityIDByName qualities g \<longleftrightarrow> f = g"
proof -
  obtain p q where "p \<in> set qualities" "findQualityByName qualities f = Some p" "rq_Name (rqd_Quality p) = f"
    "q \<in> set qualities" "findQualityByName qualities g = Some q" "rq_Name (rqd_Quality q) = g"
    using findQualityByName_Some [OF knows_formatsD(1) [OF assms(1,2)]]
      findQualityByName_Some [OF knows_formatsD(1) [OF assms(1,3)]] by blast
  then have "findQualityIDByName qualities f = rq_ID (rqd_Quality p)" "findQualityIDByName qualities g = rq_ID (rqd_Quality q)"
      "rq_ID (rqd_Quality p) = rq_ID (rqd_Quality q) \<Longrightarrow> f = g"
    using knows_formatsD(4) [OF assms(1), of p q] by (simp_all add: findQualityIDByName_def)
  then show ?thesis by metis
qed

lemma findCutoffTier_known:
  assumes known: "knows_formats qualities all" and "set formats \<subseteq> set all" and "f \<in> set formats"
  shows "findCutoffTier (map (tierToQualityItem qualities \<circ> format_tier) formats) (findQualityIDByName qualities f) =
    Some (format_tier f)"
  using assms(2,3)
proof (induction formats)
  case (Cons g gs)
  have f: "f \<in> set all" and g: "g \<in> set all" using Cons.prems by auto
  have "findQualityIDByName qualities g = findQualityIDByName qualities f \<longleftrightarrow> g = f"
    by (rule findQualityIDByName_inject [OF known g f])
  moreover have "findQualityIDByName qualities f \<noteq> 0" using tierToQualityItem_known(2) [OF known f] by simp
  moreover have "f \<noteq> ''''" by (rule knows_formatsD(2) [OF known f])
  moreover have "f \<noteq> g \<Longrightarrow> f \<in> set gs" "set gs \<subseteq> set all" using Cons.prems by auto
  ultimately show ?case
    using Cons.IH tierToQualityItem_known(1) [OF known g]
    by (cases "g = f") (simp_all add: has_quality_def tier_of_known)
qed simp

text \<open>
  C24. Quality profiles round trip: for a service whose definitions know every allowed
  format, reading back the profile the adapter builds from a compiled book quality gives that
  book quality again, tiers, cutoff and all.
\<close>

theorem Readarr_quality_round_trip:
  assumes "knows_formats qualities (bqi_AllowedFormats input)"
  shows "qualityProfileToIR (profile_resource qualities i (compileBookQuality input name)) = compileBookQuality input name"
proof -
  note known = assms
  have tier: "qualityItemToTier (tierToQualityItem qualities (format_tier f)) = format_tier f"
    if "f \<in> set (bqi_AllowedFormats input)" for f
    unfolding tierToQualityItem_known(1) [OF known that] by (rule tier_of_known(2) [OF knows_formatsD(2) [OF known that]])
  have pos: "findQualityIDByName qualities f > 0" "f \<noteq> ''''" if "f \<in> set (bqi_AllowedFormats input)" for f
    using tierToQualityItem_known(2) [OF known that] knows_formatsD(2) [OF known that] .
  have "findCutoffTier (map (tierToQualityItem qualities \<circ> format_tier) (bqi_AllowedFormats input))
      (findQualityIDByName qualities (bqi_CutoffFormat input)) = Some (format_tier (bqi_CutoffFormat input))"
    if "bqi_CutoffFormat input \<in> set (bqi_AllowedFormats input)"
    using findCutoffTier_known [OF known subset_refl that] .
  then show ?thesis
    using tier pos by (simp add: compileBookQuality_eq qualityProfileToIR_def profile_resource_def Let_def o_def
        zero_BookQualityTierIR_def)
qed

section \<open>Instances\<close>

definition empty_readarr :: "'s ReadarrAPI" where
  "empty_readarr = \<lparr>rapi_system = no_endpoint, rapi_tags = no_endpoint, rapi_health = no_endpoint, rapi_profiles = no_endpoint,
     rapi_definitions = no_endpoint, rapi_metadata = no_endpoint, rapi_clients = no_endpoint, rapi_indexers = no_endpoint,
     rapi_folders = no_endpoint, rapi_delete = (\<lambda>_. fail ''404'')\<rparr>"

definition metadata_api :: "MetadataProfileResource list ReadarrAPI" where
  "metadata_api = empty_readarr\<lparr>rapi_metadata := list_endpoint ''/api/v1/metadataprofile/'' rmr_ID (\<lambda>i r. r\<lparr>rmr_ID := i\<rparr>),
     rapi_delete := list_delete ''/api/v1/metadataprofile/'' rmr_ID\<rparr>"

definition book_client_api :: "DownloadClientResource list ReadarrAPI" where
  "book_client_api = empty_readarr
     \<lparr>rapi_clients := list_endpoint ''/api/v1/downloadclient/'' rdc_ID (answer_client (\<lambda>_. VString ''****'')),
      rapi_delete := list_delete ''/api/v1/downloadclient/'' rdc_ID\<rparr>"

lemma metadata_api_service: "metadata_service metadata_api (\<lambda>rs. rs)"
proof -
  have "rapi_metadata metadata_api = list_endpoint ''/api/v1/metadataprofile/'' rmr_ID (\<lambda>i r. r\<lparr>rmr_ID := i\<rparr>)"
    "rapi_delete metadata_api = list_delete ''/api/v1/metadataprofile/'' rmr_ID"
    by (simp_all add: metadata_api_def)
  then show ?thesis unfolding metadata_service_def by (simp only: list_endpoint_collection)
qed

lemma book_client_api_service: "book_client_service (\<lambda>_. VString ''****'') book_client_api (\<lambda>rs. rs)"
proof -
  have "rapi_clients book_client_api = list_endpoint ''/api/v1/downloadclient/'' rdc_ID (answer_client (\<lambda>_. VString ''****''))"
    "rapi_delete book_client_api = list_delete ''/api/v1/downloadclient/'' rdc_ID"
    by (simp_all add: book_client_api_def)
  then show ?thesis unfolding book_client_service_def by (simp only: list_endpoint_collection)
qed

definition served_metadata :: "MetadataProfileResource list" where
  "served_metadata =
     [\<lparr>rmr_ID = 1, rmr_Name = ''Standard'', rmr_MinPopularity = 350, rmr_SkipMissingDate = True, rmr_SkipMissingIsbn = False,
       rmr_SkipPartsAndSets = True, rmr_SkipSeriesSecondary = False, rmr_AllowedLanguages = ''eng''\<rparr>,
      \<lparr>rmr_ID = 2, rmr_Name = ''nebularr-old'', rmr_MinPopularity = 0, rmr_SkipMissingDate = False, rmr_SkipMissingIsbn = False,
       rmr_SkipPartsAndSets = False, rmr_SkipSeriesSecondary = False, rmr_AllowedLanguages = ''''\<rparr>]"

definition wanted_metadata :: MetadataProfileIR where
  "wanted_metadata = compileMetadataProfile
     \<lparr>mpi_Name = ''books'', mpi_MinPopularity = 100, mpi_SkipMissingDate = True, mpi_SkipMissingIsbn = True,
      mpi_SkipPartsAndSets = False, mpi_SkipSeriesSecondary = False, mpi_AllowedLanguages = [''eng'', ''fre'']\<rparr> ''nebularr-media''"

theorem Readarr_metadata_converge_witness:
  "\<exists>changes r s'. diffMetadataProfiles forward_order
       (map Some (map metadataProfileToIR (filter (\<lambda>p. nebularr_name (rmr_Name p)) served_metadata)))
       (map Some [wanted_metadata]) no_changes = Ok changes \<and>
     ApplyChanges changes (\<lambda>c. applyCreate metadata_api 3 c) (\<lambda>c. applyUpdate metadata_api c) (\<lambda>c. applyDelete metadata_api c)
       served_metadata = (Ok r, s') \<and> Success r \<and>
     map rmr_Name (filter (\<lambda>r. \<not> nebularr_name (rmr_Name r)) s') = [''Standard'']"
proof -
  have read: "getManagedMetadataProfiles metadata_api served_metadata =
      (Ok (map metadataProfileToIR (filter (\<lambda>p. nebularr_name (rmr_Name p)) served_metadata)), served_metadata)"
    by (simp add: getManagedMetadataProfiles_def metadata_api_def list_endpoint_def give_def)
  have "distinct (map rmr_ID served_metadata)" "distinct (map rmr_Name served_metadata)"
    by (simp_all add: served_metadata_def)
  moreover have "\<forall>d \<in> set [wanted_metadata]. nebularr_name (mp_Name d)"
    by (simp add: wanted_metadata_def compileMetadataProfile_def nebularr_name_def)
  ultimately obtain changes r s' where *: "diffMetadataProfiles forward_order
       (map Some (map metadataProfileToIR (filter (\<lambda>p. nebularr_name (rmr_Name p)) served_metadata)))
       (map Some [wanted_metadata]) no_changes = Ok changes"
      "ApplyChanges changes (\<lambda>c. applyCreate metadata_api 3 c) (\<lambda>c. applyUpdate metadata_api c) (\<lambda>c. applyDelete metadata_api c)
       served_metadata = (Ok r, s')" "Success r"
      and others: "filter (\<lambda>r. \<not> nebularr_name (rmr_Name r)) s' = filter (\<lambda>r. \<not> nebularr_name (rmr_Name r)) served_metadata"
    using Readarr_metadata_converge [OF metadata_api_service valid_forward_order valid_backward_order _ _ _ read, of "[wanted_metadata]" 3]
    by blast
  have "map rmr_Name (filter (\<lambda>r. \<not> nebularr_name (rmr_Name r)) s') = [''Standard'']"
    unfolding others by (simp add: served_metadata_def nebularr_name_def)
  with * show ?thesis by (intro exI conjI)
qed

theorem Readarr_clients_settle_by_name_witness:
  "\<exists>r s' current'. ApplyChanges (diffDownloadClients forward_order [] [sample_dc ''sab'' 0 8080] no_changes)
      (\<lambda>c. applyCreate book_client_api 3 c) (\<lambda>c. applyUpdate book_client_api c) (\<lambda>c. applyDelete book_client_api c) [] = (Ok r, s') \<and>
    getManagedDownloadClients book_client_api 3 s' = (Ok current', s') \<and>
    IsEmpty (diffDownloadClients backward_order current' [sample_dc ''sab'' 0 9090] no_changes)"
proof -
  have read: "getManagedDownloadClients book_client_api 3 [] = (Ok [], [])"
    by (simp add: getManagedDownloadClients_def book_client_api_def list_endpoint_def andThen_def give_def)
  have "dc_Name ` set [sample_dc ''sab'' 0 9090] = dc_Name ` set [sample_dc ''sab'' 0 8080]"
    by (simp add: sample_dc_def)
  moreover obtain r s' current' where *: "ApplyChanges (diffDownloadClients forward_order [] [sample_dc ''sab'' 0 8080] no_changes)
      (\<lambda>c. applyCreate book_client_api 3 c) (\<lambda>c. applyUpdate book_client_api c) (\<lambda>c. applyDelete book_client_api c) [] = (Ok r, s')"
    "getManagedDownloadClients book_client_api 3 s' = (Ok current', s')"
    "\<forall>other. IsEmpty (diffDownloadClients backward_order current' other no_changes) \<longleftrightarrow>
       dc_Name ` set other = dc_Name ` set [sample_dc ''sab'' 0 8080]"
    using Readarr_clients_settle_by_name [OF book_client_api_service valid_forward_order valid_backward_order _ _ _ read,
        of "[sample_dc ''sab'' 0 8080]"] by auto
  ultimately have "IsEmpty (diffDownloadClients backward_order current' [sample_dc ''sab'' 0 9090] no_changes)"
    by (simp only: simp_thms)
  with *(1,2) show ?thesis by (intro exI conjI)
qed

theorem Readarr_quality_round_trip_witness:
  "qualityProfileToIR (profile_resource
       [\<lparr>rqd_ID = 7, rqd_Quality = \<lparr>rq_ID = 2, rq_Name = ''EPUB''\<rparr>, rqd_Title = ''EPUB'', rqd_Weight = 1, rqd_MinSize = 0, rqd_MaxSize = 1\<rparr>,
        \<lparr>rqd_ID = 8, rqd_Quality = \<lparr>rq_ID = 3, rq_Name = ''PDF''\<rparr>, rqd_Title = ''PDF'', rqd_Weight = 2, rqd_MinSize = 0, rqd_MaxSize = 1\<rparr>] 0
       (compileBookQuality \<lparr>bqi_ProfileName = '''', bqi_UpgradeAllowed = True, bqi_CutoffFormat = ''PDF'',
          bqi_AllowedFormats = [''EPUB'', ''PDF'']\<rparr> ''nebularr-books'')) =
     compileBookQuality \<lparr>bqi_ProfileName = '''', bqi_UpgradeAllowed = True, bqi_CutoffFormat = ''PDF'',
       bqi_AllowedFormats = [''EPUB'', ''PDF'']\<rparr> ''nebularr-books''"
  by (rule Readarr_quality_round_trip) (simp add: knows_formats_def)

end
