(* ===== verification/Bazarr.thy ===== *)
theory Bazarr
  imports CRD Go_Url
begin

text \<open>
  Bazarr, which is configured by a file: the custom resource
  (\<^verbatim>\<open>src/api/v1alpha1/bazarrconfig_types.go\<close>) and the generator of its \<^verbatim>\<open>config.yaml\<close>
  (\<^verbatim>\<open>src/internal/adapters/bazarr/generator.go\<close>). MD5 is the parameter \<open>md5_hex\<close>.
\<close>

section \<open>The custom resource\<close>

record BazarrLanguage =
  bzl_Code :: string
  bzl_Forced :: bool
  bzl_HearingImpaired :: bool

record BazarrLanguageProfile =
  bzp_Name :: string
  bzp_Languages :: "BazarrLanguage list"
  bzp_DefaultForSeries :: bool
  bzp_DefaultForMovies :: bool

record BazarrProvider =
  bzr_Name :: string
  bzr_Username :: string
  bzr_PasswordSecretRef :: "SecretKeySelector option"
  bzr_APIKeySecretRef :: "SecretKeySelector option"

record BazarrConnectionSpec =
  bzc_URL :: string
  bzc_APIKeySecretRef :: "SecretKeySelector option"
  bzc_ConfigPath :: string

abbreviation BazarrConfigModeFile :: string where "BazarrConfigModeFile \<equiv> ''file''"
abbreviation BazarrConfigModeAPI :: string where "BazarrConfigModeAPI \<equiv> ''api''"

record BazarrAPIConnectionSpec =
  bza_URL :: string
  bza_APIKeySecretRef :: SecretKeySelector

record BazarrConfigSpec =
  baz_ConfigMode :: string
  baz_Connection :: "BazarrAPIConnectionSpec option"
  baz_Sonarr :: BazarrConnectionSpec
  baz_Radarr :: BazarrConnectionSpec
  baz_LanguageProfiles :: "BazarrLanguageProfile list"
  baz_Providers :: "BazarrProvider list"
  baz_Authentication :: "AuthenticationSpec option"
  baz_OutputPath :: string
  baz_ConfigMapRef :: "LocalObjectReference option"
  baz_Reconciliation :: "ReconciliationSpec option"

record BazarrConfigStatus =
  bazst_Conditions :: "Condition list"
  bazst_ActiveMode :: string
  bazst_BazarrConnected :: bool
  bazst_BazarrVersion :: string
  bazst_SonarrConnected :: bool
  bazst_RadarrConnected :: bool
  bazst_ConfigGenerated :: bool
  bazst_LanguageProfilesSynced :: bool
  bazst_ProvidersSynced :: bool
  bazst_LastReconcile :: "int option"
  bazst_LastAppliedHash :: string

text \<open>The UID of the object's metadata is a field of its own: only this controller reads it.\<close>

record BazarrConfig =
  bazc_ObjectMeta :: ObjectMeta
  bazc_UID :: string
  bazc_Spec :: BazarrConfigSpec
  bazc_Status :: BazarrConfigStatus

section \<open>The configuration file\<close>

record ArrSection =
  as_IP :: string
  as_Port :: int
  as_BaseURL :: string
  as_SSL :: bool
  as_APIKey :: string

type_synonym SonarrSection = ArrSection
type_synonym RadarrSection = ArrSection

record GeneralConfig =
  gc_UseSonarr :: bool
  gc_UseRadarr :: bool
  gc_EnabledProviders :: "string list"
  gc_SingleLanguage :: bool
  gc_SerieDefaultEnabled :: bool
  gc_SerieDefaultProfile :: int
  gc_MovieDefaultEnabled :: bool
  gc_MovieDefaultProfile :: int

record ConfigLanguageItem =
  cli_ID :: int
  cli_Language :: string
  cli_Forced :: bool
  cli_HI :: bool
  cli_AudioExclude :: bool

text \<open>The cutoff is always nil.\<close>

record ConfigLanguageProfile =
  clp_Name :: string
  clp_ProfileID :: int
  clp_Items :: "ConfigLanguageItem list"

record AuthConfig =
  ac_Type :: "string option"
  ac_Username :: string
  ac_Password :: string

record ProviderConfig =
  pvc_Username :: string
  pvc_Password :: string
  pvc_APIKey :: string

record Config =
  bcf_Sonarr :: SonarrSection
  bcf_Radarr :: RadarrSection
  bcf_General :: GeneralConfig
  bcf_Languages :: "ConfigLanguageProfile list"
  bcf_Auth :: "AuthConfig option"
  bcf_Providers :: "(string, ProviderConfig) gomap"

record ProviderSecrets =
  pvs_Password :: string
  pvs_APIKey :: string

definition no_secrets :: ProviderSecrets where
  "no_secrets = \<lparr>pvs_Password = '''', pvs_APIKey = ''''\<rparr>"

record GeneratorInput =
  gi_Spec :: BazarrConfigSpec
  gi_SonarrAPIKey :: string
  gi_RadarrAPIKey :: string
  gi_ResolvedProviderSecrets :: "(string, ProviderSecrets) gomap"
  gi_ResolvedAuthPassword :: string

section \<open>Generation\<close>

text \<open>\<^verbatim>\<open>idx + 1\<close> for the elements of a slice, in order.\<close>

definition numbered :: "'a list \<Rightarrow> (int \<times> 'a) list" where
  "numbered xs = zip (map (\<lambda>i. int i + 1) [0..<length xs]) xs"

text \<open>The texts of the errors of \<^verbatim>\<open>url.Parse\<close> and \<^verbatim>\<open>strconv.Atoi\<close> are the library's; they are not modelled.\<close>

definition parseURL :: "string \<Rightarrow> (string \<times> int \<times> string \<times> bool) outcome" where
  "parseURL rawURL =
     (case Parse rawURL of
        None \<Rightarrow> Err ''parse error''
      | Some parsed \<Rightarrow>
          (let host = (if Hostname parsed = '''' then ''localhost'' else Hostname parsed);
               ssl = (url_Scheme parsed = ''https'');
               portStr = Port parsed;
               basePath = (if url_Path parsed = '''' then ''/'' else url_Path parsed)
           in if portStr = '''' then Ok (host, if ssl then 443 else 80, basePath, ssl)
              else (case Atoi portStr of
                      (port, True) \<Rightarrow> Ok (host, port, basePath, ssl)
                    | (_, False) \<Rightarrow> Err ''invalid port'')))"

definition default_profile :: "(BazarrLanguageProfile \<Rightarrow> bool) \<Rightarrow> BazarrLanguageProfile list \<Rightarrow> int" where
  "default_profile is_default profiles =
     fold (\<lambda>(id, profile) acc. if is_default profile then id else acc) (numbered profiles) 1"

definition buildGeneralConfig :: "BazarrConfigSpec \<Rightarrow> GeneralConfig" where
  "buildGeneralConfig spec =
     \<lparr>gc_UseSonarr = True, gc_UseRadarr = True,
      gc_EnabledProviders = map bzr_Name (baz_Providers spec),
      gc_SingleLanguage = False,
      gc_SerieDefaultEnabled = True,
      gc_SerieDefaultProfile = default_profile bzp_DefaultForSeries (baz_LanguageProfiles spec),
      gc_MovieDefaultEnabled = True,
      gc_MovieDefaultProfile = default_profile bzp_DefaultForMovies (baz_LanguageProfiles spec)\<rparr>"

definition buildLanguageProfiles :: "BazarrLanguageProfile list \<Rightarrow> ConfigLanguageProfile list" where
  "buildLanguageProfiles profiles =
     map (\<lambda>(id, profile).
       \<lparr>clp_Name = bzp_Name profile, clp_ProfileID = id,
        clp_Items = map (\<lambda>(langId, lang).
          \<lparr>cli_ID = langId, cli_Language = bzl_Code lang, cli_Forced = bzl_Forced lang,
           cli_HI = bzl_HearingImpaired lang, cli_AudioExclude = False\<rparr>) (numbered (bzp_Languages profile))\<rparr>)
       (numbered profiles)"

definition buildAuthConfig :: "(string \<Rightarrow> string) \<Rightarrow> AuthenticationSpec option \<Rightarrow> string \<Rightarrow> AuthConfig option" where
  "buildAuthConfig md5_hex auth resolvedPassword =
     (case auth of
        None \<Rightarrow> None
      | Some a \<Rightarrow>
          if aus_Method a = ''none'' then None
          else Some \<lparr>ac_Type = (if aus_Method a \<noteq> '''' \<and> aus_Method a \<noteq> ''none'' then Some (aus_Method a) else None),
                     ac_Username = aus_Username a,
                     ac_Password = (if resolvedPassword \<noteq> '''' then md5_hex resolvedPassword else '''')\<rparr>)"

definition buildProviderConfig :: "BazarrProvider \<Rightarrow> ProviderSecrets \<Rightarrow> ProviderConfig option" where
  "buildProviderConfig provider secrets =
     (let config = \<lparr>pvc_Username = bzr_Username provider, pvc_Password = pvs_Password secrets, pvc_APIKey = pvs_APIKey secrets\<rparr>
      in if pvc_Username config = '''' \<and> pvc_Password config = '''' \<and> pvc_APIKey config = '''' then None else Some config)"

text \<open>\<^verbatim>\<open>m[name]\<close>: a missing entry reads as empty secrets.\<close>

definition secrets_of :: "(string, ProviderSecrets) gomap \<Rightarrow> string \<Rightarrow> ProviderSecrets" where
  "secrets_of m name = (case map_of m name of None \<Rightarrow> no_secrets | Some s \<Rightarrow> s)"

definition build_providers :: "(string, ProviderSecrets) gomap \<Rightarrow> BazarrProvider list \<Rightarrow> (string, ProviderConfig) gomap" where
  "build_providers resolved providers =
     fold (\<lambda>provider m. case buildProviderConfig provider (secrets_of resolved (bzr_Name provider)) of
         None \<Rightarrow> m | Some pc \<Rightarrow> gm_set (bzr_Name provider) pc m) providers []"

definition Generate :: "(string \<Rightarrow> string) \<Rightarrow> GeneratorInput \<Rightarrow> Config outcome" where
  "Generate md5_hex input =
     (let spec = gi_Spec input
      in case parseURL (bzc_URL (baz_Sonarr spec)) of
           Panic p \<Rightarrow> Panic p
         | Err err \<Rightarrow> Err (''invalid sonarr URL: '' @ err)
         | Ok (sonarrHost, sonarrPort, sonarrBase, sonarrSSL) \<Rightarrow>
       (case parseURL (bzc_URL (baz_Radarr spec)) of
           Panic p \<Rightarrow> Panic p
         | Err err \<Rightarrow> Err (''invalid radarr URL: '' @ err)
         | Ok (radarrHost, radarrPort, radarrBase, radarrSSL) \<Rightarrow>
             Ok \<lparr>bcf_Sonarr = \<lparr>as_IP = sonarrHost, as_Port = sonarrPort, as_BaseURL = sonarrBase, as_SSL = sonarrSSL,
                    as_APIKey = gi_SonarrAPIKey input\<rparr>,
                 bcf_Radarr = \<lparr>as_IP = radarrHost, as_Port = radarrPort, as_BaseURL = radarrBase, as_SSL = radarrSSL,
                    as_APIKey = gi_RadarrAPIKey input\<rparr>,
                 bcf_General = buildGeneralConfig spec,
                 bcf_Languages = (if 0 < length (baz_LanguageProfiles spec) then buildLanguageProfiles (baz_LanguageProfiles spec) else []),
                 bcf_Auth = (case baz_Authentication spec of
                     None \<Rightarrow> None
                   | Some a \<Rightarrow> if aus_Method a \<noteq> ''none'' then buildAuthConfig md5_hex (Some a) (gi_ResolvedAuthPassword input) else None),
                 bcf_Providers = build_providers (gi_ResolvedProviderSecrets input) (baz_Providers spec)\<rparr>))"

section \<open>What is generated\<close>

lemma length_numbered [simp]: "length (numbered xs) = length xs"
  by (simp add: numbered_def)

lemma numbered_nth [simp]: "k < length xs \<Longrightarrow> numbered xs ! k = (int k + 1, xs ! k)"
  by (simp add: numbered_def)

lemma numbered_snoc: "numbered (xs @ [x]) = numbered xs @ [(int (length xs) + 1, x)]"
  by (simp add: numbered_def)

lemma map_fst_numbered: "map fst (numbered xs) = map (\<lambda>i. int i + 1) [0..<length xs]"
  by (simp add: numbered_def)

lemma default_profile_snoc:
  "default_profile f (xs @ [x]) = (if f x then int (length xs) + 1 else default_profile f xs)"
  by (simp add: default_profile_def numbered_snoc)

text \<open>The profile at position \<open>k\<close> is the default: the last one marked, or the first when none is.\<close>

definition chosen_default :: "(BazarrLanguageProfile \<Rightarrow> bool) \<Rightarrow> BazarrLanguageProfile list \<Rightarrow> nat \<Rightarrow> bool" where
  "chosen_default marked profiles k \<longleftrightarrow> k < length profiles \<and>
     (if list_ex marked profiles then marked (profiles ! k) \<and> \<not> list_ex marked (drop (Suc k) profiles) else k = 0)"

lemma default_profile_unmarked: "\<not> list_ex f xs \<Longrightarrow> default_profile f xs = 1"
  by (induction xs rule: rev_induct) (auto simp: default_profile_snoc, simp add: default_profile_def numbered_def)

lemma default_profile_chosen:
  "xs \<noteq> [] \<Longrightarrow> \<exists>k. default_profile f xs = int k + 1 \<and> chosen_default f xs k"
proof (induction xs rule: rev_induct)
  case (snoc x xs)
  show ?case
  proof (cases "f x \<or> \<not> list_ex f xs")
    case True
    then show ?thesis
      using default_profile_unmarked [of f "xs @ [x]"]
      by (cases "f x") (auto simp: default_profile_snoc chosen_default_def)
  next
    case False
    with snoc obtain k where "default_profile f xs = int k + 1" "chosen_default f xs k" by fastforce
    with False show ?thesis by (auto simp: default_profile_snoc chosen_default_def nth_append)
  qed
qed simp

lemma buildLanguageProfiles_nth:
  "k < length ps \<Longrightarrow> clp_ProfileID (buildLanguageProfiles ps ! k) = int k + 1 \<and> clp_Name (buildLanguageProfiles ps ! k) = bzp_Name (ps ! k)"
  by (simp add: buildLanguageProfiles_def)

lemma buildLanguageProfiles_ids: "map clp_ProfileID (buildLanguageProfiles ps) = map (\<lambda>i. int i + 1) [0..<length ps]"
  by (simp add: buildLanguageProfiles_def map_fst_numbered [symmetric] comp_def case_prod_beta)

lemma buildLanguageProfiles_Nil [simp]: "buildLanguageProfiles [] = []"
  by (simp add: buildLanguageProfiles_def numbered_def)

lemma buildLanguageProfiles_names: "map clp_Name (buildLanguageProfiles ps) = map bzp_Name ps"
  by (rule nth_equalityI) (simp_all add: buildLanguageProfiles_def)

lemma distinct_profile_ids: "distinct (map clp_ProfileID (buildLanguageProfiles ps))"
  by (simp add: buildLanguageProfiles_ids distinct_map inj_on_def)

lemma Generate_OkD:
  assumes "Generate md5_hex input = Ok config"
  shows "bcf_General config = buildGeneralConfig (gi_Spec input)"
    "bcf_Languages config = buildLanguageProfiles (baz_LanguageProfiles (gi_Spec input))"
  using assms by (auto simp: Generate_def Let_def buildLanguageProfiles_def numbered_def split: outcome.splits prod.splits)

text \<open>
  C20. The file the generator writes lists the language profiles of the spec by name, in order
  and numbered without repetition, and its two default profiles are among them: the last profile
  the spec marks as the default for series (for movies), or the first when it marks none. A spec
  without language profiles is the exception: the file then lists none, and still names number 1
  as both defaults.
\<close>

theorem Generate_defaults_named:
  assumes "Generate md5_hex input = Ok config"
  shows "distinct (map clp_ProfileID (bcf_Languages config)) \<and>
    map clp_Name (bcf_Languages config) = map bzp_Name (baz_LanguageProfiles (gi_Spec input)) \<and>
    (if baz_LanguageProfiles (gi_Spec input) = []
     then bcf_Languages config = [] \<and> gc_SerieDefaultProfile (bcf_General config) = 1 \<and>
       gc_MovieDefaultProfile (bcf_General config) = 1
     else
      (\<exists>k. chosen_default bzp_DefaultForSeries (baz_LanguageProfiles (gi_Spec input)) k \<and>
        clp_ProfileID (bcf_Languages config ! k) = gc_SerieDefaultProfile (bcf_General config) \<and>
        clp_Name (bcf_Languages config ! k) = bzp_Name (baz_LanguageProfiles (gi_Spec input) ! k)) \<and>
      (\<exists>k. chosen_default bzp_DefaultForMovies (baz_LanguageProfiles (gi_Spec input)) k \<and>
        clp_ProfileID (bcf_Languages config ! k) = gc_MovieDefaultProfile (bcf_General config) \<and>
        clp_Name (bcf_Languages config ! k) = bzp_Name (baz_LanguageProfiles (gi_Spec input) ! k)))"
proof -
  let ?ps = "baz_LanguageProfiles (gi_Spec input)"
  have "\<exists>k. chosen_default f ?ps k \<and> clp_ProfileID (buildLanguageProfiles ?ps ! k) = default_profile f ?ps \<and>
      clp_Name (buildLanguageProfiles ?ps ! k) = bzp_Name (?ps ! k)" if "?ps \<noteq> []" for f
    using default_profile_chosen [OF that, of f] buildLanguageProfiles_nth [of _ ?ps]
    by (fastforce simp: chosen_default_def)
  moreover have "default_profile f [] = 1" for f by (simp add: default_profile_unmarked)
  ultimately show ?thesis
    using Generate_OkD [OF assms] by (simp add: distinct_profile_ids buildLanguageProfiles_names buildGeneralConfig_def)
qed

definition sample_profile :: "string \<Rightarrow> bool \<Rightarrow> bool \<Rightarrow> BazarrLanguageProfile" where
  "sample_profile name series movies =
     \<lparr>bzp_Name = name, bzp_Languages = [\<lparr>bzl_Code = ''en'', bzl_Forced = False, bzl_HearingImpaired = True\<rparr>],
      bzp_DefaultForSeries = series, bzp_DefaultForMovies = movies\<rparr>"

definition sample_connection :: "string \<Rightarrow> BazarrConnectionSpec" where
  "sample_connection url = \<lparr>bzc_URL = url, bzc_APIKeySecretRef = None, bzc_ConfigPath = ''''\<rparr>"

definition sample_bazarr :: "BazarrLanguageProfile list \<Rightarrow> BazarrConfigSpec" where
  "sample_bazarr profiles =
     \<lparr>baz_ConfigMode = '''', baz_Connection = None,
      baz_Sonarr = sample_connection ''http://sonarr:8989/tv'', baz_Radarr = sample_connection ''https://radarr'',
      baz_LanguageProfiles = profiles, baz_Providers = [], baz_Authentication = None, baz_OutputPath = '''',
      baz_ConfigMapRef = Some \<lparr>lor_Name = ''bazarr''\<rparr>, baz_Reconciliation = None\<rparr>"

definition sample_input :: "BazarrLanguageProfile list \<Rightarrow> GeneratorInput" where
  "sample_input profiles =
     \<lparr>gi_Spec = sample_bazarr profiles, gi_SonarrAPIKey = ''k'', gi_RadarrAPIKey = '''',
      gi_ResolvedProviderSecrets = [], gi_ResolvedAuthPassword = ''''\<rparr>"

lemma sample_urls:
  "parseURL ''http://sonarr:8989/tv'' = Ok (''sonarr'', 8989, ''/tv'', False)"
  "parseURL ''https://radarr'' = Ok (''radarr'', 443, ''/'', True)"
  by code_simp+

lemma Generate_sample: "\<exists>config. Generate md5_hex (sample_input profiles) = Ok config"
  by (simp add: Generate_def sample_input_def sample_bazarr_def sample_connection_def sample_urls Let_def)

theorem Generate_defaults_named_witness:
  "\<exists>config. Generate rev (sample_input [sample_profile ''a'' True False, sample_profile ''b'' True False]) = Ok config \<and>
    distinct (map clp_ProfileID (bcf_Languages config)) \<and>
    (\<exists>k. chosen_default bzp_DefaultForSeries [sample_profile ''a'' True False, sample_profile ''b'' True False] k \<and> k = 1 \<and>
      clp_ProfileID (bcf_Languages config ! k) = gc_SerieDefaultProfile (bcf_General config))"
proof -
  let ?ps = "[sample_profile ''a'' True False, sample_profile ''b'' True False]"
  obtain config where run: "Generate rev (sample_input ?ps) = Ok config" using Generate_sample by blast
  have ps: "baz_LanguageProfiles (gi_Spec (sample_input ?ps)) = ?ps" by (simp add: sample_input_def sample_bazarr_def)
  have one: "k = 1" if "chosen_default bzp_DefaultForSeries ?ps k" for k
    using that by (auto simp: chosen_default_def sample_profile_def less_Suc_eq)
  have "\<exists>k. chosen_default bzp_DefaultForSeries ?ps k \<and>
      clp_ProfileID (bcf_Languages config ! k) = gc_SerieDefaultProfile (bcf_General config)"
    "distinct (map clp_ProfileID (bcf_Languages config))"
    using Generate_defaults_named [OF run] ps by auto
  with run one show ?thesis by blast
qed

end
