(* ===== verification/Http.thy ===== *)
theory Http
  imports Go_Url Collection
begin

text \<open>
  HTTP as the clients of the operator use it: \<^verbatim>\<open>http.NewRequestWithContext\<close> with the headers set
  on the request, and \<^verbatim>\<open>http.Client.Do\<close>, which is the parameter \<open>transport\<close>; a call that never
  reaches a server is its \<open>Err\<close>. \<^verbatim>\<open>encoding/json\<close> is a parameter per Go type, \<open>JSON\<close>. The theory
  then models the client of \<^verbatim>\<open>src/internal/adapters/httpclient/client.go\<close>, which all \<^verbatim>\<open>*arr\<close>
  adapters share, and shows that on a REST server it has the behaviour the adapters' endpoints
  are assumed to have.
\<close>

section \<open>Requests and responses\<close>

text \<open>\<^verbatim>\<open>SetBasicAuth\<close> is a field of its own: its header is the encoding of the pair.\<close>

record HttpRequest =
  rq_Method :: string
  rq_URL :: string
  rq_Header :: "(string, string) gomap"
  rq_BasicAuth :: "(string \<times> string) option"
  rq_Body :: "string option"

record HttpResponse =
  rs_StatusCode :: int
  rs_Header :: "(string, string) gomap"
  rs_Body :: string

type_synonym 'w transport = "HttpRequest \<Rightarrow> ('w, HttpResponse) action"

abbreviation StatusOK :: int where "StatusOK \<equiv> 200"
abbreviation StatusCreated :: int where "StatusCreated \<equiv> 201"
abbreviation StatusAccepted :: int where "StatusAccepted \<equiv> 202"
abbreviation StatusNoContent :: int where "StatusNoContent \<equiv> 204"

text \<open>
  \<^verbatim>\<open>NewRequestWithContext\<close> fails on a URL that does not parse; the methods the code passes are
  valid ones.
\<close>

definition NewRequest :: "string \<Rightarrow> string \<Rightarrow> string option \<Rightarrow> HttpRequest outcome" where
  "NewRequest method url body =
     (case Parse url of
        None \<Rightarrow> Err ''parse error''
      | Some _ \<Rightarrow> Ok \<lparr>rq_Method = method, rq_URL = url, rq_Header = [], rq_BasicAuth = None, rq_Body = body\<rparr>)"

text \<open>\<^verbatim>\<open>textproto.CanonicalMIMEHeaderKey\<close> on letters, digits and hyphens.\<close>

fun canonical_from :: "bool \<Rightarrow> string \<Rightarrow> string" where
  "canonical_from upper [] = []"
| "canonical_from upper (c # cs) =
     (if upper \<and> is_lower c then char_of (code c - 32) else if \<not> upper then to_lower_char c else c) #
     canonical_from (c = CHR ''-'') cs"

declare canonical_from.simps [simp del]

definition set_header :: "string \<Rightarrow> string \<Rightarrow> HttpRequest \<Rightarrow> HttpRequest" where
  "set_header k v = rq_Header_update (gm_set (canonical_from True k) v)"

definition get_header :: "HttpResponse \<Rightarrow> string \<Rightarrow> string" where
  "get_header resp k = (case map_of (rs_Header resp) (canonical_from True k) of None \<Rightarrow> '''' | Some v \<Rightarrow> v)"

definition SetBasicAuth :: "string \<Rightarrow> string \<Rightarrow> HttpRequest \<Rightarrow> HttpRequest" where
  "SetBasicAuth username password = rq_BasicAuth_update (\<lambda>_. Some (username, password))"

section \<open>JSON\<close>

record 'a JSON =
  Marshal :: "'a \<Rightarrow> string outcome"
  Unmarshal :: "string \<Rightarrow> 'a outcome"

definition of_outcome :: "'a outcome \<Rightarrow> ('s, 'a) action" where
  "of_outcome r s = (r, s)"

lemma of_outcome_simps [simp]: "of_outcome r s = (r, s)"
  by (simp add: of_outcome_def)

text \<open>\<^verbatim>\<open>fmt.Errorf("unexpected status %d: %s", resp.StatusCode, string(body))\<close>\<close>

definition unexpected_status :: "HttpResponse \<Rightarrow> string" where
  "unexpected_status resp = ''unexpected status '' @ Itoa (rs_StatusCode resp) @ '': '' @ rs_Body resp"

section \<open>The client of the adapters (httpclient/client.go)\<close>

record Client =
  cl_baseURL :: string
  cl_apiKey :: string

text \<open>The timeout and the TLS settings of the client belong to the transport.\<close>

record ClientConfig =
  cfg_BaseURL :: string
  cfg_APIKey :: string
  cfg_InsecureSkipVerify :: bool
  cfg_Timeout :: int

record HttpSettings =
  hs_Timeout :: int
  hs_InsecureSkipVerify :: bool

definition DefaultTimeout :: int where
  "DefaultTimeout = 30"

definition New :: "ClientConfig \<Rightarrow> Client \<times> HttpSettings" where
  "New cfg =
     (\<lparr>cl_baseURL = cfg_BaseURL cfg, cl_apiKey = cfg_APIKey cfg\<rparr>,
      \<lparr>hs_Timeout = (if cfg_Timeout cfg = 0 then DefaultTimeout else cfg_Timeout cfg),
       hs_InsecureSkipVerify = cfg_InsecureSkipVerify cfg\<rparr>)"

definition BaseURL :: "Client \<Rightarrow> string" where
  "BaseURL c = cl_baseURL c"

definition Get :: "'w transport \<Rightarrow> 'a JSON \<Rightarrow> Client \<Rightarrow> string \<Rightarrow> ('w, 'a) action" where
  "Get Do json c path =
     andThen (of_outcome (NewRequest ''GET'' (cl_baseURL c @ path) None)) (\<lambda>req.
     andThen (Do (set_header ''X-Api-Key'' (cl_apiKey c) req)) (\<lambda>resp.
     if rs_StatusCode resp \<noteq> StatusOK then fail (unexpected_status resp)
     else of_outcome (Unmarshal json (rs_Body resp))))"

text \<open>
  \<^verbatim>\<open>Post\<close> and \<^verbatim>\<open>Put\<close> take the body and the place for the answer as \<^verbatim>\<open>interface{}\<close>: a nil body
  is \<open>None\<close>, and \<open>decode\<close> reads the answer, \<open>give ()\<close> when there is no place for it.
\<close>

definition decode_with :: "'b JSON \<Rightarrow> HttpResponse \<Rightarrow> ('w, 'b) action" where
  "decode_with json resp = of_outcome (Unmarshal json (rs_Body resp))"

definition no_result :: "HttpResponse \<Rightarrow> ('w, unit) action" where
  "no_result resp = give ()"

definition send_body :: "'a JSON \<Rightarrow> 'a option \<Rightarrow> ('w, string option) action" where
  "send_body json body = (case body of None \<Rightarrow> give None | Some x \<Rightarrow> andThen (of_outcome (Marshal json x)) (\<lambda>d. give (Some d)))"

definition Post ::
    "'w transport \<Rightarrow> 'a JSON \<Rightarrow> Client \<Rightarrow> string \<Rightarrow> 'a option \<Rightarrow> (HttpResponse \<Rightarrow> ('w, 'b) action) \<Rightarrow> ('w, 'b) action" where
  "Post Do json c path body decode =
     andThen (send_body json body) (\<lambda>bodyReader.
     andThen (of_outcome (NewRequest ''POST'' (cl_baseURL c @ path) bodyReader)) (\<lambda>req.
     andThen (Do (set_header ''Content-Type'' ''application/json'' (set_header ''X-Api-Key'' (cl_apiKey c) req))) (\<lambda>resp.
     if rs_StatusCode resp \<noteq> StatusOK \<and> rs_StatusCode resp \<noteq> StatusCreated then fail (unexpected_status resp)
     else decode resp)))"

definition Put ::
    "'w transport \<Rightarrow> 'a JSON \<Rightarrow> Client \<Rightarrow> string \<Rightarrow> 'a option \<Rightarrow> (HttpResponse \<Rightarrow> ('w, 'b) action) \<Rightarrow> ('w, 'b) action" where
  "Put Do json c path body decode =
     andThen (send_body json body) (\<lambda>bodyReader.
     andThen (of_outcome (NewRequest ''PUT'' (cl_baseURL c @ path) bodyReader)) (\<lambda>req.
     andThen (Do (set_header ''Content-Type'' ''application/json'' (set_header ''X-Api-Key'' (cl_apiKey c) req))) (\<lambda>resp.
     if rs_StatusCode resp \<noteq> StatusOK \<and> rs_StatusCode resp \<noteq> StatusAccepted then fail (unexpected_status resp)
     else decode resp)))"

definition Delete :: "'w transport \<Rightarrow> Client \<Rightarrow> string \<Rightarrow> ('w, unit) action" where
  "Delete Do c path =
     andThen (of_outcome (NewRequest ''DELETE'' (cl_baseURL c @ path) None)) (\<lambda>req.
     andThen (Do (set_header ''X-Api-Key'' (cl_apiKey c) req)) (\<lambda>resp.
     if rs_StatusCode resp \<noteq> StatusOK \<and> rs_StatusCode resp \<noteq> StatusNoContent then fail (unexpected_status resp)
     else give ()))"

section \<open>The endpoint of a resource type\<close>

text \<open>The calls of an adapter for one resource type, over the client.\<close>

definition http_endpoint :: "'w transport \<Rightarrow> 'r list JSON \<Rightarrow> 'r JSON \<Rightarrow> Client \<Rightarrow> ('w, 'r) endpoint" where
  "http_endpoint Do jsons json c =
     \<lparr>ep_list = Get Do jsons c, ep_get = Get Do json c,
      ep_post = (\<lambda>path r. Post Do json c path (Some r) (decode_with json)),
      ep_put = (\<lambda>path r. Put Do json c path (Some r) (decode_with json))\<rparr>"

section \<open>A REST server\<close>

text \<open>
  What the client sends: the request of a method for a path, with the headers the client sets.
\<close>

definition api_request :: "Client \<Rightarrow> string \<Rightarrow> string \<Rightarrow> HttpRequest" where
  "api_request c method path =
     \<lparr>rq_Method = method, rq_URL = cl_baseURL c @ path, rq_Header = [(''X-Api-Key'', cl_apiKey c)], rq_BasicAuth = None, rq_Body = None\<rparr>"

definition json_request :: "Client \<Rightarrow> string \<Rightarrow> string \<Rightarrow> string \<Rightarrow> HttpRequest" where
  "json_request c method path body =
     (api_request c method path)\<lparr>rq_Header := [(''X-Api-Key'', cl_apiKey c), (''Content-Type'', ''application/json'')], rq_Body := Some body\<rparr>"

lemma canonical_headers [simp]:
  "canonical_from True ''X-Api-Key'' = ''X-Api-Key''"
  "canonical_from True ''Content-Type'' = ''Content-Type''"
  by (simp_all add: canonical_from.simps is_lower_def to_lower_char_def is_upper_def)

definition url_ok :: "string \<Rightarrow> bool" where
  "url_ok u \<longleftrightarrow> Parse u \<noteq> None"

text \<open>
  \<open>answers Do req P s s'\<close>: the server answers the request with one of the given codes and a body
  that satisfies \<open>P\<close>, and is left in the state \<open>s'\<close>.
\<close>

definition answers :: "'w transport \<Rightarrow> HttpRequest \<Rightarrow> int set \<Rightarrow> (string \<Rightarrow> bool) \<Rightarrow> 'w \<Rightarrow> 'w \<Rightarrow> bool" where
  "answers Do req codes P s s' \<longleftrightarrow> (\<exists>resp. Do req s = (Ok resp, s') \<and> rs_StatusCode resp \<in> codes \<and> P (rs_Body resp))"

text \<open>
  A server with a collection at \<open>path\<close>, its members at \<open>prefix\<close> and the number: the list is
  answered as JSON; a post of a member with a free name adds it under a fresh ID; a put replaces
  the member with the ID; a delete removes it.
\<close>

definition rest_server ::
    "'w transport \<Rightarrow> 'r list JSON \<Rightarrow> 'r JSON \<Rightarrow> Client \<Rightarrow> string \<Rightarrow> string
     \<Rightarrow> ('w \<Rightarrow> 'r list) \<Rightarrow> ('r \<Rightarrow> int) \<Rightarrow> ('r \<Rightarrow> string) \<Rightarrow> (int \<Rightarrow> 'r \<Rightarrow> 'r) \<Rightarrow> bool" where
  "rest_server Do jsons json c path prefix listed rid rname store \<longleftrightarrow>
     (\<forall>s. answers Do (api_request c ''GET'' path) {StatusOK} (\<lambda>b. Unmarshal jsons b = Ok (listed s)) s s) \<and>
     (\<forall>r b s. Marshal json r = Ok b \<and> rname r \<notin> rname ` set (listed s) \<longrightarrow>
        (\<exists>i s'. answers Do (json_request c ''POST'' path b) {StatusOK, StatusCreated} (\<lambda>b'. \<exists>r'. Unmarshal json b' = Ok r') s s' \<and>
           i \<notin> rid ` set (listed s) \<and> listed s' = listed s @ [store i r])) \<and>
     (\<forall>i r b s. Marshal json r = Ok b \<and> i \<in> rid ` set (listed s) \<and> (\<forall>x \<in> set (listed s). rname x = rname r \<longrightarrow> rid x = i) \<longrightarrow>
        (\<exists>s'. answers Do (json_request c ''PUT'' (prefix @ Itoa i) b) {StatusOK, StatusAccepted} (\<lambda>b'. \<exists>r'. Unmarshal json b' = Ok r') s s' \<and>
           listed s' = map (\<lambda>x. if rid x = i then store i r else x) (listed s))) \<and>
     (\<forall>i s. i \<in> rid ` set (listed s) \<longrightarrow>
        (\<exists>s'. answers Do (api_request c ''DELETE'' (prefix @ Itoa i)) {StatusOK, StatusNoContent} (\<lambda>_. True) s s' \<and>
           listed s' = filter (\<lambda>x. rid x \<noteq> i) (listed s)))"

lemma Get_answered:
  assumes "url_ok (cl_baseURL c @ path)" and "answers Do (api_request c ''GET'' path) {StatusOK} (\<lambda>b. Unmarshal json b = Ok x) s s'"
  shows "Get Do json c path s = (Ok x, s')"
proof -
  obtain resp where "Do (api_request c ''GET'' path) s = (Ok resp, s')" "rs_StatusCode resp = 200" "Unmarshal json (rs_Body resp) = Ok x"
    using assms(2) by (auto simp: answers_def)
  then show ?thesis
    using assms(1) by (auto simp: Get_def url_ok_def NewRequest_def api_request_def set_header_def andThen_def gm_set_def)
qed

lemma Post_answered:
  assumes "url_ok (cl_baseURL c @ path)" and "Marshal json r = Ok b"
    and "answers Do (json_request c ''POST'' path b) {StatusOK, StatusCreated} (\<lambda>b'. \<exists>r'. Unmarshal json' b' = Ok r') s s'"
  shows "\<exists>r'. Post Do json c path (Some r) (decode_with json') s = (Ok r', s')"
proof -
  obtain resp r' where "Do (json_request c ''POST'' path b) s = (Ok resp, s')" "rs_StatusCode resp \<in> {200, 201}"
      "Unmarshal json' (rs_Body resp) = Ok r'"
    using assms(3) by (auto simp: answers_def)
  then show ?thesis
    using assms(1,2) by (auto simp: Post_def send_body_def give_def url_ok_def NewRequest_def json_request_def api_request_def set_header_def
        andThen_def gm_set_def decode_with_def)
qed

lemma Put_answered:
  assumes "url_ok (cl_baseURL c @ path)" and "Marshal json r = Ok b"
    and "answers Do (json_request c ''PUT'' path b) {StatusOK, StatusAccepted} (\<lambda>b'. \<exists>r'. Unmarshal json' b' = Ok r') s s'"
  shows "\<exists>r'. Put Do json c path (Some r) (decode_with json') s = (Ok r', s')"
proof -
  obtain resp r' where "Do (json_request c ''PUT'' path b) s = (Ok resp, s')" "rs_StatusCode resp \<in> {200, 202}"
      "Unmarshal json' (rs_Body resp) = Ok r'"
    using assms(3) by (auto simp: answers_def)
  then show ?thesis
    using assms(1,2) by (auto simp: Put_def send_body_def give_def url_ok_def NewRequest_def json_request_def api_request_def set_header_def
        andThen_def gm_set_def decode_with_def)
qed

lemma Delete_answered:
  assumes "url_ok (cl_baseURL c @ path)"
    and "answers Do (api_request c ''DELETE'' path) {StatusOK, StatusNoContent} (\<lambda>_. True) s s'"
  shows "Delete Do c path s = (Ok (), s')"
proof -
  obtain resp where "Do (api_request c ''DELETE'' path) s = (Ok resp, s')" "rs_StatusCode resp \<in> {200, 204}"
    using assms(2) by (auto simp: answers_def)
  then show ?thesis
    using assms(1) by (auto simp: Delete_def url_ok_def NewRequest_def api_request_def set_header_def andThen_def gm_set_def give_def)
qed

text \<open>
  C7. The HTTP client refines what the adapters rely on: over a REST server that speaks JSON, the
  endpoint made of its Get, Post and Put, with its Delete, is a REST collection, the contract
  from which the convergence of the adapters follows.
\<close>

theorem http_endpoint_refines_collection:
  assumes "rest_server Do jsons json c path prefix listed rid rname store"
    and "\<forall>r. \<exists>b. Marshal json r = Ok b"
    and "url_ok (cl_baseURL c @ path)" and "\<forall>i. url_ok (cl_baseURL c @ prefix @ Itoa i)"
  shows "rest_collection (ep_list (http_endpoint Do jsons json c) path) (ep_post (http_endpoint Do jsons json c) path)
    (\<lambda>i. ep_put (http_endpoint Do jsons json c) (prefix @ Itoa i)) (\<lambda>i. Delete Do c (prefix @ Itoa i)) listed rid rname store"
proof -
  note server = assms(1) [unfolded rest_server_def]
  note get = server [THEN conjunct1, rule_format] and post = server [THEN conjunct2, THEN conjunct1, rule_format]
    and put = server [THEN conjunct2, THEN conjunct2, THEN conjunct1, rule_format]
    and del = server [THEN conjunct2, THEN conjunct2, THEN conjunct2, rule_format]
  have "Get Do jsons c path s = (Ok (listed s), s)" for s
    by (rule Get_answered [OF assms(3) get])
  moreover have "\<exists>i r' s'. Post Do json c path (Some r) (decode_with json) s = (Ok r', s') \<and> i \<notin> rid ` set (listed s) \<and>
      listed s' = listed s @ [store i r]" if free: "rname r \<notin> rname ` set (listed s)" for r s
  proof -
    obtain b where b: "Marshal json r = Ok b" using assms(2) by blast
    obtain i s' where s': "answers Do (json_request c ''POST'' path b) {StatusOK, StatusCreated} (\<lambda>b'. \<exists>r'. Unmarshal json b' = Ok r') s s'"
      and i: "i \<notin> rid ` set (listed s)" "listed s' = listed s @ [store i r]" using post [OF conjI [OF b free]] by blast
    with Post_answered [OF assms(3) b s'] show ?thesis by blast
  qed
  moreover have "\<exists>r' s'. Put Do json c (prefix @ Itoa i) (Some r) (decode_with json) s = (Ok r', s') \<and>
      listed s' = map (\<lambda>x. if rid x = i then store i r else x) (listed s)"
    if old: "i \<in> rid ` set (listed s)" "\<forall>x \<in> set (listed s). rname x = rname r \<longrightarrow> rid x = i" for i r s
  proof -
    obtain b where b: "Marshal json r = Ok b" using assms(2) by blast
    obtain s' where s': "answers Do (json_request c ''PUT'' (prefix @ Itoa i) b) {StatusOK, StatusAccepted} (\<lambda>b'. \<exists>r'. Unmarshal json b' = Ok r') s s'"
      and l: "listed s' = map (\<lambda>x. if rid x = i then store i r else x) (listed s)" using put [OF conjI [OF b conjI [OF old]]] by blast
    with Put_answered [OF assms(4) [rule_format] b s'] show ?thesis by blast
  qed
  moreover have "\<exists>s'. Delete Do c (prefix @ Itoa i) s = (Ok (), s') \<and> listed s' = filter (\<lambda>x. rid x \<noteq> i) (listed s)"
    if old: "i \<in> rid ` set (listed s)" for i s
  proof -
    obtain s' where s': "answers Do (api_request c ''DELETE'' (prefix @ Itoa i)) {StatusOK, StatusNoContent} (\<lambda>_. True) s s'"
      and l: "listed s' = filter (\<lambda>x. rid x \<noteq> i) (listed s)" using del [OF old] by blast
    with Delete_answered [OF assms(4) [rule_format] s'] show ?thesis by blast
  qed
  ultimately show ?thesis
    by (simp add: rest_collection_def http_endpoint_def)
qed

section \<open>A server that meets the hypotheses\<close>

text \<open>Members are pairs of an ID and a name, written in a self-delimiting form.\<close>

fun enc_str :: "string \<Rightarrow> string" where
  "enc_str [] = ''.''"
| "enc_str (c # cs) = CHR ''c'' # c # enc_str cs"

fun dec_str :: "string \<Rightarrow> (string \<times> string) option" where
  "dec_str (x # c # r) =
     (if x = CHR ''.'' then Some ([], c # r) else map_option (\<lambda>(s, t). (c # s, t)) (dec_str r))"
| "dec_str [x] = (if x = CHR ''.'' then Some ([], []) else None)"
| "dec_str [] = None"

lemma dec_enc_str [simp]: "dec_str (enc_str s @ r) = Some (s, r)"
proof (induction s)
  case Nil
  then show ?case by (cases r) auto
qed auto

fun enc_member :: "int \<times> string \<Rightarrow> string" where
  "enc_member (i, n) = enc_str ((if i < 0 then CHR ''-'' else CHR ''+'') # replicate (nat \<bar>i\<bar>) CHR ''1'') @ enc_str n"

definition dec_int :: "string \<Rightarrow> int" where
  "dec_int s = (if HasPrefix s ''-'' then - int (length s - 1) else int (length s - 1))"

definition dec_member :: "string \<Rightarrow> ((int \<times> string) \<times> string) option" where
  "dec_member s = (case dec_str s of None \<Rightarrow> None | Some (i, r) \<Rightarrow> map_option (\<lambda>(n, t). ((dec_int i, n), t)) (dec_str r))"

lemma dec_enc_member [simp]: "dec_member (enc_member m @ r) = Some (m, r)"
  by (cases m) (auto simp: dec_member_def dec_int_def simp del: enc_str.simps)

declare enc_member.simps [simp del]

fun enc_members :: "(int \<times> string) list \<Rightarrow> string" where
  "enc_members [] = '']''"
| "enc_members (m # ms) = CHR '','' # enc_member m @ enc_members ms"

text \<open>The first argument bounds the number of members.\<close>

fun dec_members :: "nat \<Rightarrow> string \<Rightarrow> (int \<times> string) list option" where
  "dec_members 0 s = (if s = '']'' then Some [] else None)"
| "dec_members (Suc n) s =
     (if s = '']'' then Some []
      else case dec_member (tl s) of None \<Rightarrow> None | Some (m, t) \<Rightarrow> map_option ((#) m) (dec_members n t))"

lemma dec_enc_members: "length ms \<le> n \<Longrightarrow> dec_members n (enc_members ms) = Some ms"
  by (induction ms arbitrary: n; case_tac n) auto

lemma length_enc_members: "length ms \<le> length (enc_members ms)"
  by (induction ms) auto

definition option_outcome :: "'a option \<Rightarrow> 'a outcome" where
  "option_outcome r = (case r of None \<Rightarrow> Err ''invalid character'' | Some x \<Rightarrow> Ok x)"

definition member_json :: "(int \<times> string) JSON" where
  "member_json = \<lparr>Marshal = (\<lambda>m. Ok (enc_member m)), Unmarshal = (\<lambda>s. option_outcome (map_option fst (dec_member s)))\<rparr>"

definition members_json :: "(int \<times> string) list JSON" where
  "members_json = \<lparr>Marshal = (\<lambda>ms. Ok (enc_members ms)), Unmarshal = (\<lambda>s. option_outcome (dec_members (length s) s))\<rparr>"

lemma json_round_trips [simp]:
  "Unmarshal member_json (enc_member m) = Ok m" "Unmarshal members_json (enc_members ms) = Ok ms"
  using dec_enc_member [of m "[]"]
  by (simp_all add: member_json_def members_json_def option_outcome_def dec_enc_members length_enc_members)

definition member_client :: Client where
  "member_client = \<lparr>cl_baseURL = ''http://sonarr:8989'', cl_apiKey = ''k''\<rparr>"

definition replied :: "int \<Rightarrow> string \<Rightarrow> HttpResponse" where
  "replied status body = \<lparr>rs_StatusCode = status, rs_Header = [], rs_Body = body\<rparr>"

definition member_server :: "(int \<times> string) list transport" where
  "member_server req ms =
     (let target = (\<lambda>m. rq_URL req = ''http://sonarr:8989/tag/'' @ Itoa (fst m));
          body = (case rq_Body req of None \<Rightarrow> '''' | Some b \<Rightarrow> b)
      in if map_of (rq_Header req) ''X-Api-Key'' \<noteq> Some ''k'' then (Ok (replied 401 ''''), ms)
         else if rq_Method req = ''GET'' then (Ok (replied 200 (enc_members ms)), ms)
         else if rq_Method req = ''DELETE'' then (Ok (replied 200 ''''), filter (\<lambda>m. \<not> target m) ms)
         else case Unmarshal member_json body of
             Ok (i, n) \<Rightarrow>
               if rq_Method req = ''POST'' then (Ok (replied 201 body), ms @ [(fresh_id fst ms, n)])
               else (Ok (replied 202 body), map (\<lambda>m. if target m then (fst m, n) else m) ms)
           | _ \<Rightarrow> (Ok (replied 400 ''''), ms))"

definition renumber :: "int \<Rightarrow> int \<times> string \<Rightarrow> int \<times> string" where
  "renumber i m = (i, snd m)"

lemma member_server_rest:
  "rest_server member_server members_json member_json member_client ''/tag'' ''/tag/'' (\<lambda>ms. ms) fst snd renumber"
proof -
  have enc: "b = enc_member r" if "Marshal member_json r = Ok b" for r b
    using that by (simp add: member_json_def)
  have new: "fresh_id fst ms \<notin> fst ` set ms" for ms :: "(int \<times> string) list" by (rule fresh_id)
  show ?thesis
    unfolding rest_server_def answers_def
    using new
    by (auto simp: member_server_def api_request_def json_request_def member_client_def replied_def Let_def renumber_def Itoa_inject
        dest!: enc intro: filter_cong map_cong)
qed

lemma member_urls: "url_ok (''http://sonarr:8989/tag/'' @ Itoa i)" "url_ok ''http://sonarr:8989/tag''"
proof -
  have plain: "plain_path (''/tag/'' @ Itoa i)"
    using itoa_nat_digits [of "nat i"] itoa_nat_digits [of "nat (- i)"]
    by (auto simp: plain_path_def Itoa_def list_all_iff is_alpha_def is_lower_def is_upper_def is_digit_def)
  have "Parse (''http'' @ ''://'' @ host_port ''sonarr'' (Some ''8989'') @ p) \<noteq> None" if "plain_path p" for p
    using that by (subst Parse_plain) (auto simp: plain_scheme_def plain_host_def plain_port_def is_alpha_def is_lower_def is_upper_def is_digit_def)
  from this [OF plain] this [of "''/tag''"] show "url_ok (''http://sonarr:8989/tag/'' @ Itoa i)" "url_ok ''http://sonarr:8989/tag''"
    by (auto simp: url_ok_def host_port_def plain_path_def is_alpha_def is_lower_def is_upper_def is_digit_def)
qed

theorem http_endpoint_refines_collection_witness:
  "rest_collection (ep_list (http_endpoint member_server members_json member_json member_client) ''/tag'')
    (ep_post (http_endpoint member_server members_json member_json member_client) ''/tag'')
    (\<lambda>i. ep_put (http_endpoint member_server members_json member_json member_client) (''/tag/'' @ Itoa i))
    (\<lambda>i. Delete member_server member_client (''/tag/'' @ Itoa i)) (\<lambda>ms. ms) fst snd renumber"
proof (rule http_endpoint_refines_collection [OF member_server_rest])
  show "\<forall>r. \<exists>b. Marshal member_json r = Ok b" by (simp add: member_json_def)
  show "url_ok (cl_baseURL member_client @ ''/tag'')" "\<forall>i. url_ok (cl_baseURL member_client @ ''/tag/'' @ Itoa i)"
    using member_urls by (simp_all add: member_client_def)
qed

end
