(* ===== verification/Go_Values.thy ===== *)
theory Go_Values
  imports Http "HOL-Library.List_Lexorder" "HOL-Library.Char_ord"
begin

text \<open>
  The functions on strings that the clients of the services take from Go's standard library:
  \<^verbatim>\<open>strings.TrimSuffix\<close>, \<^verbatim>\<open>strings.TrimSpace\<close> and \<^verbatim>\<open>strings.Join\<close>, \<^verbatim>\<open>url.QueryEscape\<close> and
  \<^verbatim>\<open>url.Values.Encode\<close>, which writes the keys in order.
\<close>

definition TrimSuffix :: "string \<Rightarrow> string \<Rightarrow> string" where
  "TrimSuffix s suffix = (if HasPrefix (rev s) (rev suffix) then take (length s - length suffix) s else s)"

text \<open>The white space of ASCII.\<close>

definition is_space :: "char \<Rightarrow> bool" where
  "is_space c \<longleftrightarrow> c = CHR '' '' \<or> (9 \<le> code c \<and> code c \<le> 13)"

definition TrimSpace :: "string \<Rightarrow> string" where
  "TrimSpace s = rev (dropWhile is_space (rev (dropWhile is_space s)))"

fun join :: "string \<Rightarrow> string list \<Rightarrow> string" where
  "join sep [] = ''''"
| "join sep [s] = s"
| "join sep (s # t # ss) = s @ sep @ join sep (t # ss)"

definition upper_hex :: "nat \<Rightarrow> char" where
  "upper_hex d = (if d < 10 then char_of (48 + d) else char_of (55 + d))"

definition QueryEscape :: "string \<Rightarrow> string" where
  "QueryEscape s = concat (map (\<lambda>c.
     if is_alpha c \<or> is_digit c \<or> c \<in> set ''-_.~'' then [c]
     else if c = CHR '' '' then ''+''
     else [CHR ''%'', upper_hex (code c div 16), upper_hex (code c mod 16)]) s)"

definition Values_Encode :: "(string, string) gomap \<Rightarrow> string" where
  "Values_Encode params = join ''&'' (map (\<lambda>k. QueryEscape k @ ''='' @ QueryEscape (the (map_of params k))) (sort (map fst params)))"

text \<open>\<^verbatim>\<open>int\<close> and \<^verbatim>\<open>int64\<close> arithmetic wraps around.\<close>

definition to_int64 :: "int \<Rightarrow> int" where
  "to_int64 x = (x + 2 ^ 63) mod 2 ^ 64 - 2 ^ 63"

lemma to_int64_exact: "- (2 ^ 63) \<le> x \<Longrightarrow> x < 2 ^ 63 \<Longrightarrow> to_int64 x = x"
  by (simp add: to_int64_def)

section \<open>Building a map section by section\<close>

text \<open>\<^verbatim>\<open>if c { m[k] = v }\<close>\<close>

definition set_if :: "bool \<Rightarrow> 'k \<Rightarrow> 'v \<Rightarrow> ('k, 'v) gomap \<Rightarrow> ('k, 'v) gomap" where
  "set_if c k v m = (if c then gm_set k v m else m)"

text \<open>\<^verbatim>\<open>if p != nil { m[k] = *p }\<close>, with the constructor of the value that is stored.\<close>

definition set_opt :: "'a option \<Rightarrow> 'k \<Rightarrow> ('a \<Rightarrow> 'v) \<Rightarrow> ('k, 'v) gomap \<Rightarrow> ('k, 'v) gomap" where
  "set_opt p k f m = (case p of None \<Rightarrow> m | Some x \<Rightarrow> gm_set k (f x) m)"

text \<open>\<^verbatim>\<open>if spec.Section != nil { ... }\<close>\<close>

definition on_section :: "'s option \<Rightarrow> ('s \<Rightarrow> 'm \<Rightarrow> 'm) \<Rightarrow> 'm \<Rightarrow> 'm" where
  "on_section sec f m = (case sec of None \<Rightarrow> m | Some s \<Rightarrow> f s m)"

text \<open>Settings are written in the order of the code: \<open>steps\<close> applies its functions from left to right.\<close>

definition steps :: "('m \<Rightarrow> 'm) list \<Rightarrow> 'm \<Rightarrow> 'm" where
  "steps fs m = fold (\<lambda>f m. f m) fs m"

lemma steps_simps [simp]: "steps [] m = m" "steps (f # fs) m = steps fs (f m)"
  by (simp_all add: steps_def)

lemma steps_preserves: "\<forall>f \<in> set fs. \<forall>m. P m \<longrightarrow> P (f m) \<Longrightarrow> P m \<Longrightarrow> P (steps fs m)"
  by (induction fs arbitrary: m) auto

section \<open>Decoded JSON\<close>

text \<open>What \<^verbatim>\<open>json.Unmarshal\<close> stores in an \<^verbatim>\<open>interface{}\<close>.\<close>

datatype JsonValue =
    JNull
  | JBool bool
  | JNumber rat
  | JString string
  | JArray "JsonValue list"
  | JObject "(string \<times> JsonValue) list"

section \<open>A client with state\<close>

text \<open>
  The methods of a client that changes its own fields act on the pair of the client and the world;
  \<open>with_client\<close> reads the client.
\<close>

definition with_client :: "('c \<Rightarrow> ('c \<times> 'w, 'a) action) \<Rightarrow> ('c \<times> 'w, 'a) action" where
  "with_client k cw = k (fst cw) cw"

text \<open>\<^verbatim>\<open>fmt.Errorf("HTTP error: %d - %s", resp.StatusCode, string(bodyBytes))\<close>\<close>

definition http_error :: "HttpResponse \<Rightarrow> string" where
  "http_error resp = ''HTTP error: '' @ Itoa (rs_StatusCode resp) @ '' - '' @ rs_Body resp"

end
