(* ===== verification/Bazarr_Client.thy ===== *)
theory Bazarr_Client
  imports Go_Values
begin

text \<open>
  \<^verbatim>\<open>src/internal/adapters/bazarr/client.go\<close>: the client of Bazarr's API, over a transport. The
  JSON encodings of its types are the parameters of the record \<open>BazarrJSON\<close>.
\<close>

section \<open>The types of the API\<close>

record SystemStatus =
  bst_BazarrVersion :: string
  bst_SonarrVersion :: string
  bst_RadarrVersion :: string
  bst_OSVersion :: string
  bst_PythonVersion :: string
  bst_StartTime :: string

record ConnectionStatus =
  bcs_Status :: string
  bcs_Version :: string

record BazarrHealth =
  bh_DiskSpace :: string
  bh_Status :: string

record BazarrHealthStatus =
  bhs_Sonarr :: "ConnectionStatus option"
  bhs_Radarr :: "ConnectionStatus option"
  bhs_Bazarr :: "BazarrHealth option"

record LanguageProfileItem =
  lpi_ID :: int
  lpi_Language :: string
  lpi_Forced :: string
  lpi_HI :: string
  lpi_AudioExclude :: string

record LanguageProfile =
  lp_ProfileID :: int
  lp_Name :: string
  lp_Cutoff :: "int option"
  lp_Items :: "LanguageProfileItem list"

record Language =
  lg_Code2 :: string
  lg_Code3 :: string
  lg_Name :: string

record Provider =
  pv_Name :: string
  pv_Enabled :: bool
  pv_Settings :: "(string, GoValue) gomap"

record SystemSettings =
  ss_General :: "(string, GoValue) gomap"
  ss_Sonarr :: "(string, GoValue) gomap"
  ss_Radarr :: "(string, GoValue) gomap"
  ss_Auth :: "(string, GoValue) gomap"
  ss_Proxy :: "(string, GoValue) gomap"
  ss_Subsync :: "(string, GoValue) gomap"
  ss_Analytics :: "(string, GoValue) gomap"
  ss_Betaseries :: "(string, GoValue) gomap"

text \<open>The decoders unwrap the field \<^verbatim>\<open>data\<close> of the answers.\<close>

record BazarrJSON =
  bj_SystemStatus :: "SystemStatus JSON"
  bj_HealthStatus :: "BazarrHealthStatus JSON"
  bj_Languages :: "Language list JSON"
  bj_LanguageProfiles :: "LanguageProfile list JSON"
  bj_LanguageProfile :: "LanguageProfile JSON"
  bj_LanguageProfileData :: "LanguageProfile JSON"
  bj_ProviderList :: "Provider list JSON"
  bj_Providers :: "Provider list JSON"
  bj_SystemSettings :: "SystemSettings JSON"
  bj_Settings :: "(string, GoValue) gomap JSON"

section \<open>The client\<close>

record 'w BazarrClient =
  bzcl_baseURL :: string
  bzcl_apiKey :: string
  bzcl_Do :: "'w transport"
  bzcl_json :: BazarrJSON

text \<open>\<^verbatim>\<open>NewClient\<close> is \<^verbatim>\<open>NewClientWithHTTP\<close> with a client that has a timeout of 30 seconds.\<close>

definition NewClientWithHTTP :: "'w transport \<Rightarrow> BazarrJSON \<Rightarrow> string \<Rightarrow> string \<Rightarrow> 'w BazarrClient" where
  "NewClientWithHTTP Do json baseURL apiKey =
     \<lparr>bzcl_baseURL = TrimSuffix baseURL ''/'', bzcl_apiKey = apiKey, bzcl_Do = Do, bzcl_json = json\<rparr>"

definition NewClient :: "(int \<Rightarrow> 'w transport) \<Rightarrow> BazarrJSON \<Rightarrow> string \<Rightarrow> string \<Rightarrow> 'w BazarrClient" where
  "NewClient http_client json baseURL apiKey =
     \<lparr>bzcl_baseURL = TrimSuffix baseURL ''/'', bzcl_apiKey = apiKey, bzcl_Do = http_client 30, bzcl_json = json\<rparr>"

definition doRequest :: "'w BazarrClient \<Rightarrow> string \<Rightarrow> string \<Rightarrow> string option \<Rightarrow> ('w, HttpResponse) action" where
  "doRequest c method path body =
     (let reqURL = bzcl_baseURL c @ path
      in andThen (wrap_err ''failed to create request'' (of_outcome (NewRequest method reqURL body))) (\<lambda>req.
           bzcl_Do c
             ((if body \<noteq> None then set_header ''Content-Type'' ''application/json'' else (\<lambda>r. r))
               (set_header ''Accept'' ''application/json'' (set_header ''X-API-KEY'' (bzcl_apiKey c) req)))))"

definition get :: "'w BazarrClient \<Rightarrow> string \<Rightarrow> (HttpResponse \<Rightarrow> ('w, 'a) action) \<Rightarrow> ('w, 'a) action" where
  "get c path result =
     andThen (doRequest c ''GET'' path None) (\<lambda>resp.
     if rs_StatusCode resp \<noteq> StatusOK then fail (unexpected_status resp) else result resp)"

definition success_status :: "HttpResponse \<Rightarrow> bool" where
  "success_status resp \<longleftrightarrow> \<not> (rs_StatusCode resp < 200 \<or> rs_StatusCode resp \<ge> 300)"

definition marshal_body :: "'b JSON \<Rightarrow> 'b option \<Rightarrow> ('w, string option) action" where
  "marshal_body json body = wrap_err ''failed to marshal request body'' (send_body json body)"

definition post ::
    "'w BazarrClient \<Rightarrow> 'b JSON \<Rightarrow> string \<Rightarrow> 'b option \<Rightarrow> (HttpResponse \<Rightarrow> ('w, 'a) action) \<Rightarrow> ('w, 'a) action" where
  "post c json path body result =
     andThen (marshal_body json body) (\<lambda>bodyReader.
     andThen (doRequest c ''POST'' path bodyReader) (\<lambda>resp.
     if \<not> success_status resp then fail (unexpected_status resp) else result resp))"

definition patch :: "'w BazarrClient \<Rightarrow> 'b JSON \<Rightarrow> string \<Rightarrow> 'b option \<Rightarrow> ('w, unit) action" where
  "patch c json path body =
     andThen (marshal_body json body) (\<lambda>bodyReader.
     andThen (doRequest c ''PATCH'' path bodyReader) (\<lambda>resp.
     if \<not> success_status resp then fail (unexpected_status resp) else give ()))"

definition delete_path :: "'w BazarrClient \<Rightarrow> string \<Rightarrow> ('w, unit) action" where
  "delete_path c path =
     andThen (doRequest c ''DELETE'' path None) (\<lambda>resp.
     if \<not> success_status resp then fail (unexpected_status resp) else give ())"

section \<open>The calls\<close>

abbreviation profiles_path :: string where
  "profiles_path \<equiv> ''/api/system/languages/profiles''"

definition GetSystemStatus :: "'w BazarrClient \<Rightarrow> ('w, SystemStatus) action" where
  "GetSystemStatus c = wrap_err ''failed to get system status''
     (get c ''/api/system/status'' (decode_with (bj_SystemStatus (bzcl_json c))))"

definition GetHealth :: "'w BazarrClient \<Rightarrow> ('w, BazarrHealthStatus) action" where
  "GetHealth c = wrap_err ''failed to get health status''
     (get c ''/api/system/health'' (decode_with (bj_HealthStatus (bzcl_json c))))"

definition GetLanguages :: "'w BazarrClient \<Rightarrow> ('w, Language list) action" where
  "GetLanguages c = wrap_err ''failed to get languages''
     (get c ''/api/system/languages'' (decode_with (bj_Languages (bzcl_json c))))"

definition GetLanguageProfiles :: "'w BazarrClient \<Rightarrow> ('w, LanguageProfile list) action" where
  "GetLanguageProfiles c = wrap_err ''failed to get language profiles''
     (get c profiles_path (decode_with (bj_LanguageProfiles (bzcl_json c))))"

definition CreateLanguageProfile :: "'w BazarrClient \<Rightarrow> LanguageProfile \<Rightarrow> ('w, LanguageProfile) action" where
  "CreateLanguageProfile c profile = wrap_err ''failed to create language profile''
     (post c (bj_LanguageProfile (bzcl_json c)) profiles_path (Some profile) (decode_with (bj_LanguageProfileData (bzcl_json c))))"

definition UpdateLanguageProfile :: "'w BazarrClient \<Rightarrow> LanguageProfile \<Rightarrow> ('w, unit) action" where
  "UpdateLanguageProfile c profile = wrap_err ''failed to update language profile''
     (patch c (bj_LanguageProfile (bzcl_json c)) (profiles_path @ ''/'' @ Itoa (lp_ProfileID profile)) (Some profile))"

definition DeleteLanguageProfile :: "'w BazarrClient \<Rightarrow> int \<Rightarrow> ('w, unit) action" where
  "DeleteLanguageProfile c profileID = wrap_err ''failed to delete language profile''
     (delete_path c (profiles_path @ ''/'' @ Itoa profileID))"

definition GetProviders :: "'w BazarrClient \<Rightarrow> ('w, Provider list) action" where
  "GetProviders c = wrap_err ''failed to get providers''
     (get c ''/api/providers'' (decode_with (bj_ProviderList (bzcl_json c))))"

definition UpdateProviders :: "'w BazarrClient \<Rightarrow> Provider list \<Rightarrow> ('w, unit) action" where
  "UpdateProviders c providers = wrap_err ''failed to update providers''
     (post c (bj_Providers (bzcl_json c)) ''/api/providers'' (Some providers) no_result)"

definition GetSettings :: "'w BazarrClient \<Rightarrow> ('w, SystemSettings) action" where
  "GetSettings c = wrap_err ''failed to get settings''
     (get c ''/api/system/settings'' (decode_with (bj_SystemSettings (bzcl_json c))))"

definition UpdateSettings :: "'w BazarrClient \<Rightarrow> (string, GoValue) gomap \<Rightarrow> ('w, unit) action" where
  "UpdateSettings c settings = wrap_err ''failed to update settings''
     (post c (bj_Settings (bzcl_json c)) ''/api/system/settings'' (Some settings) no_result)"

definition TestConnection :: "'w BazarrClient \<Rightarrow> ('w, unit) action" where
  "TestConnection c = discard (GetSystemStatus c)"

definition GetVersion :: "'w BazarrClient \<Rightarrow> ('w, string) action" where
  "GetVersion c = andThen (GetSystemStatus c) (\<lambda>status. give (bst_BazarrVersion status))"

section \<open>Searching\<close>

definition SearchSubtitles :: "'w BazarrClient \<Rightarrow> string \<Rightarrow> int \<Rightarrow> string \<Rightarrow> ('w, unit) action" where
  "SearchSubtitles c itemType itemID language =
     (let params = gm_set ''language'' language (gm_set (itemType @ ''id'') (Itoa itemID) (gm_set ''action'' ''search'' []))
      in wrap_err ''failed to search subtitles''
           (post c (bj_Settings (bzcl_json c)) (''/api/subtitles?'' @ Values_Encode params) None no_result))"

end
