(* ===== verification/Bazarr_Reconcile.thy ===== *)
theory Bazarr_Reconcile
  imports Bazarr Bazarr_Client Lifecycle
begin

text \<open>
  \<^verbatim>\<open>src/internal/controller/bazarrconfig_controller.go\<close>: the controller of \<^verbatim>\<open>BazarrConfig\<close>, which
  writes a settings file to a ConfigMap (file mode) or talks to Bazarr's API (API mode). The
  cluster's ConfigMaps, \<^verbatim>\<open>controllerutil.SetControllerReference\<close>, the YAML encoder, MD5 and the
  HTTP transport are parameters of the record \<open>BazarrConfigReconciler\<close>.
\<close>

section \<open>State\<close>

definition BazarrStatusWrapper :: "BazarrConfigStatus ConfigStatus" where
  "BazarrStatusWrapper = \<lparr>GetConditions = bazst_Conditions,
     SetConditions = (\<lambda>conditions w. w\<lparr>bazst_Conditions := conditions\<rparr>),
     SetConnected = (\<lambda>connected w. w),
     SetServiceVersion = (\<lambda>version w. w),
     SetLastReconcile = (\<lambda>t w. w\<lparr>bazst_LastReconcile := t\<rparr>),
     SetLastAppliedHash = (\<lambda>hash w. w\<lparr>bazst_LastAppliedHash := hash\<rparr>)\<rparr>"

abbreviation bazarr_wrapper :: "BazarrConfig ConfigStatus" where
  "bazarr_wrapper \<equiv> at_status bazc_Status bazc_Status_update BazarrStatusWrapper"

text \<open>Of the owner references of a ConfigMap the code reads the UIDs; nil data is \<open>None\<close>.\<close>

record ConfigMap =
  cm_Name :: string
  cm_Namespace :: string
  cm_OwnerUIDs :: "string list"
  cm_Data :: "(string, string) gomap option"

text \<open>A read gives \<open>None\<close> for the error \<^verbatim>\<open>apierrors.IsNotFound\<close> recognises.\<close>

record 'w ConfigMapClient =
  cmc_Get :: "string \<Rightarrow> string \<Rightarrow> ('w, ConfigMap option) action"
  cmc_Create :: "ConfigMap \<Rightarrow> ('w, unit) action"
  cmc_Update :: "ConfigMap \<Rightarrow> ('w, unit) action"
  cmc_Delete :: "ConfigMap \<Rightarrow> ('w, unit) action"

record 'w BazarrConfigReconciler =
  brc_Env :: "'w Env"
  brc_Client :: "(BazarrConfig, 'w) ObjectClient"
  brc_ConfigMaps :: "'w ConfigMapClient"
  brc_SetControllerReference :: "BazarrConfig \<Rightarrow> ConfigMap \<Rightarrow> ConfigMap outcome"
  brc_yaml :: "Config \<Rightarrow> string outcome"
  brc_md5 :: "string \<Rightarrow> string"
  brc_http :: "int \<Rightarrow> 'w transport"
  brc_json :: BazarrJSON

definition bazarrFinalizer :: string where
  "bazarrFinalizer = ''bazarrconfig.arr.rinzler.cloud/finalizer''"

abbreviation update_bazarr_status :: "(BazarrConfigStatus \<Rightarrow> BazarrConfigStatus) \<Rightarrow> BazarrConfig \<Rightarrow> BazarrConfig" where
  "update_bazarr_status \<equiv> bazc_Status_update"

section \<open>Secrets\<close>

definition resolveConnectionAPIKey :: "'w Env \<Rightarrow> string \<Rightarrow> BazarrConnectionSpec \<Rightarrow> ('w, string) action" where
  "resolveConnectionAPIKey env namespace conn =
     (case bzc_APIKeySecretRef conn of
        None \<Rightarrow> give ''''
      | Some ref \<Rightarrow> ResolveSecretValue env namespace (sk_Name ref) (key_or ''apiKey'' (sk_Key ref)))"

definition resolve_ref :: "'w Env \<Rightarrow> string \<Rightarrow> string \<Rightarrow> SecretKeySelector option \<Rightarrow> ('w, string) action" where
  "resolve_ref env namespace dflt ref =
     (case ref of
        None \<Rightarrow> give ''''
      | Some r \<Rightarrow> ResolveSecretValue env namespace (sk_Name r) (key_or dflt (sk_Key r)))"

definition resolve_provider :: "'w Env \<Rightarrow> string \<Rightarrow> BazarrProvider \<Rightarrow> ('w, ProviderSecrets) action" where
  "resolve_provider env namespace provider =
     andThen (resolve_ref env namespace ''password'' (bzr_PasswordSecretRef provider)) (\<lambda>password.
     andThen (resolve_ref env namespace ''apiKey'' (bzr_APIKeySecretRef provider)) (\<lambda>apiKey.
     give \<lparr>pvs_Password = password, pvs_APIKey = apiKey\<rparr>))"

fun resolve_providers ::
    "'w Env \<Rightarrow> string \<Rightarrow> BazarrProvider list \<Rightarrow> (string, ProviderSecrets) gomap \<Rightarrow> ('w, (string, ProviderSecrets) gomap) action" where
  "resolve_providers env namespace [] result = give result"
| "resolve_providers env namespace (provider # rest) result =
     andThen (resolve_provider env namespace provider) (\<lambda>secrets.
     resolve_providers env namespace rest (gm_set (bzr_Name provider) secrets result))"

definition resolveProviderSecrets :: "'w Env \<Rightarrow> string \<Rightarrow> BazarrProvider list \<Rightarrow> ('w, (string, ProviderSecrets) gomap) action" where
  "resolveProviderSecrets env namespace providers = resolve_providers env namespace providers []"

definition resolve_auth_password :: "'w Env \<Rightarrow> string \<Rightarrow> AuthenticationSpec option \<Rightarrow> ('w, string) action" where
  "resolve_auth_password env namespace auth =
     (case auth of None \<Rightarrow> give '''' | Some a \<Rightarrow> resolve_ref env namespace ''password'' (aus_PasswordSecretRef a))"

section \<open>Returning\<close>

definition bazarr_save :: "'w BazarrConfigReconciler \<Rightarrow> ctrl_Result \<Rightarrow> string option \<Rightarrow> (BazarrConfig \<times> 'w, reconcile_return) action" where
  "bazarr_save r res err =
     if_err (store_object (oc_UpdateStatus (brc_Client r))) (\<lambda>_. give (res, err)) (\<lambda>_. give (res, err))"

text \<open>\<open>mark\<close> is the field of the status that some of the failures set beside the condition.\<close>

definition bazarr_not_ready ::
    "'w BazarrConfigReconciler \<Rightarrow> int \<Rightarrow> string \<Rightarrow> string \<Rightarrow> (BazarrConfigStatus \<Rightarrow> BazarrConfigStatus) \<Rightarrow> (BazarrConfig \<times> 'w, reconcile_return) action" where
  "bazarr_not_ready r generation reason err mark =
     SetCondition (brc_Env r) bazarr_wrapper generation ConditionTypeReady ConditionFalse reason err
       (on_config (update_bazarr_status mark) (bazarr_save r (requeue_after ErrorRequeueInterval) (Some err)))"

text \<open>The last status update and the interval to the next run.\<close>

definition bazarr_done :: "'w BazarrConfigReconciler \<Rightarrow> (BazarrConfig \<times> 'w, reconcile_return) action" where
  "bazarr_done r =
     if_err (store_object (oc_UpdateStatus (brc_Client r))) (\<lambda>err. give (no_requeue, Some err)) (\<lambda>_ cw.
       (Ok (requeue_after (requeue_interval (baz_Reconciliation (bazc_Spec (fst cw)))), None), cw))"

section \<open>File mode\<close>

definition ensureConfigMap :: "'w BazarrConfigReconciler \<Rightarrow> BazarrConfig \<Rightarrow> string \<Rightarrow> string \<Rightarrow> ('w, unit) action" where
  "ensureConfigMap r config name configData =
     (let namespace = om_Namespace (bazc_ObjectMeta config)
      in andThen (cmc_Get (brc_ConfigMaps r) namespace name) (\<lambda>found.
           case found of
             None \<Rightarrow>
               andThen (of_outcome (brc_SetControllerReference r config
                 \<lparr>cm_Name = name, cm_Namespace = namespace, cm_OwnerUIDs = [], cm_Data = Some [(''config.yaml'', configData)]\<rparr>))
                 (cmc_Create (brc_ConfigMaps r))
           | Some cm \<Rightarrow>
               cmc_Update (brc_ConfigMaps r)
                 (cm\<lparr>cm_Data := Some (gm_set ''config.yaml'' configData (case cm_Data cm of None \<Rightarrow> [] | Some d \<Rightarrow> d))\<rparr>)))"

definition write_config :: "'w BazarrConfigReconciler \<Rightarrow> BazarrConfig \<Rightarrow> string \<Rightarrow> ('w, unit) action" where
  "write_config r config configYAML =
     (case baz_ConfigMapRef (bazc_Spec config) of
        None \<Rightarrow> give ()
      | Some ref \<Rightarrow> ensureConfigMap r config (lor_Name ref) configYAML)"

definition finish_file_mode :: "'w BazarrConfigReconciler \<Rightarrow> int \<Rightarrow> (BazarrConfig \<times> 'w, reconcile_return) action" where
  "finish_file_mode r generation =
     on_config (update_bazarr_status (\<lambda>st. st\<lparr>bazst_ConfigGenerated := True, bazst_BazarrConnected := False,
       bazst_BazarrVersion := '''', bazst_LanguageProfilesSynced := False, bazst_ProvidersSynced := False\<rparr>))
     (read_clock (brc_Env r) (\<lambda>now.
     on_config (update_bazarr_status (bazst_LastReconcile_update (\<lambda>_. Some now)))
     (SetCondition (brc_Env r) bazarr_wrapper generation ConditionTypeReady ConditionTrue ''Ready''
       ''Bazarr configuration generated successfully (file mode)'' (bazarr_done r))))"

definition generate_config_file ::
    "'w BazarrConfigReconciler \<Rightarrow> BazarrConfig \<Rightarrow> string \<Rightarrow> string \<Rightarrow> (string, ProviderSecrets) gomap \<Rightarrow> string
     \<Rightarrow> (BazarrConfig \<times> 'w, reconcile_return) action" where
  "generate_config_file r config sonarrAPIKey radarrAPIKey providerSecrets authPassword =
     (let generation = om_Generation (bazc_ObjectMeta config);
          input = \<lparr>gi_Spec = bazc_Spec config, gi_SonarrAPIKey = sonarrAPIKey, gi_RadarrAPIKey = radarrAPIKey,
                   gi_ResolvedProviderSecrets = providerSecrets, gi_ResolvedAuthPassword = authPassword\<rparr>
      in if_err (of_outcome (Generate (brc_md5 r) input))
           (\<lambda>err. bazarr_not_ready r generation ''ConfigGenerationFailed'' err (\<lambda>st. st))
           (\<lambda>generatedConfig.
         if_err (of_outcome (brc_yaml r generatedConfig))
           (\<lambda>err. bazarr_not_ready r generation ''YAMLSerializationFailed'' err (\<lambda>st. st))
           (\<lambda>configYAML.
         if_err (on_service (write_config r config configYAML))
           (\<lambda>err. bazarr_not_ready r generation ''ConfigMapUpdateFailed'' err (\<lambda>st. st))
           (\<lambda>_. finish_file_mode r generation))))"

definition reconcileFileMode :: "'w BazarrConfigReconciler \<Rightarrow> (BazarrConfig \<times> 'w, reconcile_return) action" where
  "reconcileFileMode r cw =
     (let env = brc_Env r; config = fst cw; spec = bazc_Spec config; namespace = om_Namespace (bazc_ObjectMeta config);
          generation = om_Generation (bazc_ObjectMeta config)
      in on_config (update_bazarr_status (bazst_ActiveMode_update (\<lambda>_. BazarrConfigModeFile)))
        (if_err (on_service (resolveConnectionAPIKey env namespace (baz_Sonarr spec)))
           (\<lambda>err. bazarr_not_ready r generation ''SonarrSecretResolutionFailed'' err (bazst_SonarrConnected_update (\<lambda>_. False)))
           (\<lambda>sonarrAPIKey.
         on_config (update_bazarr_status (bazst_SonarrConnected_update (\<lambda>_. True)))
        (if_err (on_service (resolveConnectionAPIKey env namespace (baz_Radarr spec)))
           (\<lambda>err. bazarr_not_ready r generation ''RadarrSecretResolutionFailed'' err (bazst_RadarrConnected_update (\<lambda>_. False)))
           (\<lambda>radarrAPIKey.
         on_config (update_bazarr_status (bazst_RadarrConnected_update (\<lambda>_. True)))
        (if_err (on_service (resolveProviderSecrets env namespace (baz_Providers spec)))
           (\<lambda>err. bazarr_not_ready r generation ''ProviderSecretResolutionFailed'' err (\<lambda>st. st))
           (\<lambda>providerSecrets.
         if_err (on_service (resolve_auth_password env namespace (baz_Authentication spec)))
           (\<lambda>err. bazarr_not_ready r generation ''AuthSecretResolutionFailed'' err (\<lambda>st. st))
           (\<lambda>authPassword.
         generate_config_file r config sonarrAPIKey radarrAPIKey providerSecrets authPassword))))))) cw)"

section \<open>API mode\<close>

definition api_flag :: "bool \<Rightarrow> string" where
  "api_flag b = (if b then ''True'' else ''False'')"

definition api_profile :: "BazarrLanguageProfile \<Rightarrow> LanguageProfile" where
  "api_profile desired =
     \<lparr>lp_ProfileID = 0, lp_Name = bzp_Name desired, lp_Cutoff = None,
      lp_Items = map (\<lambda>(itemID, lang).
        \<lparr>lpi_ID = itemID, lpi_Language = bzl_Code lang, lpi_Forced = api_flag (bzl_Forced lang),
         lpi_HI = api_flag (bzl_HearingImpaired lang), lpi_AudioExclude = ''False''\<rparr>) (numbered (bzp_Languages desired))\<rparr>"

definition sync_profile :: "'w BazarrClient \<Rightarrow> (string, LanguageProfile) gomap \<Rightarrow> BazarrLanguageProfile \<Rightarrow> ('w, unit) action" where
  "sync_profile client currentByName desired =
     (case map_of currentByName (bzp_Name desired) of
        Some existing \<Rightarrow>
          or_else (UpdateLanguageProfile client ((api_profile desired)\<lparr>lp_ProfileID := lp_ProfileID existing\<rparr>)) (\<lambda>_. give ())
      | None \<Rightarrow> or_else (discard (CreateLanguageProfile client (api_profile desired))) (\<lambda>_. give ()))"

fun sync_profiles :: "'w BazarrClient \<Rightarrow> (string, LanguageProfile) gomap \<Rightarrow> BazarrLanguageProfile list \<Rightarrow> ('w, unit) action" where
  "sync_profiles client currentByName [] = give ()"
| "sync_profiles client currentByName (desired # rest) =
     andThen (sync_profile client currentByName desired) (\<lambda>_. sync_profiles client currentByName rest)"

definition syncLanguageProfiles :: "'w BazarrClient \<Rightarrow> BazarrConfig \<Rightarrow> ('w, unit) action" where
  "syncLanguageProfiles client config =
     andThen (wrap_err ''failed to get current language profiles'' (GetLanguageProfiles client)) (\<lambda>currentProfiles.
     sync_profiles client (index_by lp_Name currentProfiles) (baz_LanguageProfiles (bazc_Spec config)))"

definition api_provider :: "(string, ProviderSecrets) gomap \<Rightarrow> BazarrProvider \<Rightarrow> Provider" where
  "api_provider providerSecrets p =
     (let secrets = secrets_of providerSecrets (bzr_Name p);
          add = (\<lambda>k v m. if v \<noteq> '''' then gm_set k (VString v) m else m)
      in \<lparr>pv_Name = bzr_Name p, pv_Enabled = True,
          pv_Settings = add ''apikey'' (pvs_APIKey secrets) (add ''password'' (pvs_Password secrets) (add ''username'' (bzr_Username p) []))\<rparr>)"

definition syncProviders :: "'w BazarrConfigReconciler \<Rightarrow> 'w BazarrClient \<Rightarrow> BazarrConfig \<Rightarrow> ('w, unit) action" where
  "syncProviders r client config =
     (let providers = baz_Providers (bazc_Spec config)
      in if length providers = 0 then give ()
         else andThen (wrap_err ''failed to resolve provider secrets''
                (resolveProviderSecrets (brc_Env r) (om_Namespace (bazc_ObjectMeta config)) providers)) (\<lambda>providerSecrets.
              wrap_err ''failed to update providers'' (UpdateProviders client (map (api_provider providerSecrets) providers))))"

definition report_health :: "BazarrHealthStatus \<Rightarrow> BazarrConfigStatus \<Rightarrow> BazarrConfigStatus" where
  "report_health health st =
     (let st = (case bhs_Sonarr health of None \<Rightarrow> st | Some s \<Rightarrow> st\<lparr>bazst_SonarrConnected := (bcs_Status s = ''True'')\<rparr>)
      in case bhs_Radarr health of None \<Rightarrow> st | Some s \<Rightarrow> st\<lparr>bazst_RadarrConnected := (bcs_Status s = ''True'')\<rparr>)"

definition finish_api_mode :: "'w BazarrConfigReconciler \<Rightarrow> int \<Rightarrow> string \<Rightarrow> (BazarrConfig \<times> 'w, reconcile_return) action" where
  "finish_api_mode r generation version =
     on_config (update_bazarr_status (bazst_ConfigGenerated_update (\<lambda>_. False)))
     (read_clock (brc_Env r) (\<lambda>now.
     on_config (update_bazarr_status (bazst_LastReconcile_update (\<lambda>_. Some now)))
     (SetCondition (brc_Env r) bazarr_wrapper generation ConditionTypeReady ConditionTrue ''Ready''
       (''Bazarr configured successfully via API (v'' @ version @ '')'') (bazarr_done r))))"

definition sync_bazarr :: "'w BazarrConfigReconciler \<Rightarrow> 'w BazarrClient \<Rightarrow> BazarrConfig \<Rightarrow> string \<Rightarrow> (BazarrConfig \<times> 'w, reconcile_return) action" where
  "sync_bazarr r client config version =
     (let generation = om_Generation (bazc_ObjectMeta config)
      in if_err (on_service (syncLanguageProfiles client config))
           (\<lambda>err. bazarr_not_ready r generation ''LanguageProfileSyncFailed'' err (bazst_LanguageProfilesSynced_update (\<lambda>_. False)))
           (\<lambda>_. on_config (update_bazarr_status (bazst_LanguageProfilesSynced_update (\<lambda>_. True)))
        (if_err (on_service (syncProviders r client config))
           (\<lambda>err. bazarr_not_ready r generation ''ProviderSyncFailed'' err (bazst_ProvidersSynced_update (\<lambda>_. False)))
           (\<lambda>_. on_config (update_bazarr_status (bazst_ProvidersSynced_update (\<lambda>_. True)))
             (finish_api_mode r generation version)))))"

definition reconcileAPIMode :: "'w BazarrConfigReconciler \<Rightarrow> (BazarrConfig \<times> 'w, reconcile_return) action" where
  "reconcileAPIMode r cw =
     (let env = brc_Env r; config = fst cw; generation = om_Generation (bazc_ObjectMeta config)
      in on_config (update_bazarr_status (bazst_ActiveMode_update (\<lambda>_. BazarrConfigModeAPI)))
        (case baz_Connection (bazc_Spec config) of
           None \<Rightarrow> bazarr_not_ready r generation ''ConnectionMissing'' ''connection is required for API mode'' (\<lambda>st. st)
         | Some conn \<Rightarrow>
             if_err (on_service (ResolveSecretValue env (om_Namespace (bazc_ObjectMeta config))
                 (sk_Name (bza_APIKeySecretRef conn)) (sk_Key (bza_APIKeySecretRef conn))))
               (\<lambda>err. bazarr_not_ready r generation ''BazarrSecretResolutionFailed'' err (bazst_BazarrConnected_update (\<lambda>_. False)))
               (\<lambda>bazarrAPIKey.
                 let client = NewClient (brc_http r) (brc_json r) (bza_URL conn) bazarrAPIKey
                 in if_err (on_service (GetVersion client))
                      (\<lambda>err. bazarr_not_ready r generation ''BazarrConnectionFailed'' err (bazst_BazarrConnected_update (\<lambda>_. False)))
                      (\<lambda>version.
                    on_config (update_bazarr_status (\<lambda>st. st\<lparr>bazst_BazarrConnected := True, bazst_BazarrVersion := version\<rparr>))
                   (if_err (on_service (Bazarr_Client.GetHealth client))
                      (\<lambda>_. sync_bazarr r client config version)
                      (\<lambda>health. on_config (update_bazarr_status (report_health health)) (sync_bazarr r client config version)))))) cw)"

section \<open>Deletion and dispatch\<close>

definition delete_configmap :: "'w BazarrConfigReconciler \<Rightarrow> BazarrConfig \<Rightarrow> ('w, unit) action" where
  "delete_configmap r config =
     (case baz_ConfigMapRef (bazc_Spec config) of
        None \<Rightarrow> give ()
      | Some ref \<Rightarrow>
          if_err (cmc_Get (brc_ConfigMaps r) (om_Namespace (bazc_ObjectMeta config)) (lor_Name ref)) (\<lambda>_. give ()) (\<lambda>found.
            case found of
              None \<Rightarrow> give ()
            | Some cm \<Rightarrow>
                if bazc_UID config \<in> set (cm_OwnerUIDs cm) then or_else (cmc_Delete (brc_ConfigMaps r) cm) (\<lambda>_. give ()) else give ()))"

definition reconcileDelete :: "'w BazarrConfigReconciler \<Rightarrow> (BazarrConfig \<times> 'w, reconcile_return) action" where
  "reconcileDelete r cw =
     andThen (on_service (delete_configmap r (fst cw))) (\<lambda>_.
     on_config (bazc_ObjectMeta_update (om_Finalizers_update (env_RemoveFinalizer (brc_Env r) bazarrFinalizer)))
       (if_err (store_object (oc_Update (brc_Client r))) (\<lambda>err. give (no_requeue, Some err))
         (\<lambda>_. give (no_requeue, None)))) cw"

definition reconcile_bazarr :: "'w BazarrConfigReconciler \<Rightarrow> (BazarrConfig \<times> 'w, reconcile_return) action" where
  "reconcile_bazarr r cw =
     (let env = brc_Env r; config = fst cw; meta = bazc_ObjectMeta config;
          mode = (if baz_ConfigMode (bazc_Spec config) = '''' then BazarrConfigModeFile else baz_ConfigMode (bazc_Spec config))
      in if (case baz_Reconciliation (bazc_Spec config) of None \<Rightarrow> False | Some spec \<Rightarrow> rcs_Suspend spec)
         then give (no_requeue, None) cw
         else if om_DeletionTimestamp meta \<noteq> None then reconcileDelete r cw
         else if \<not> env_ContainsFinalizer env bazarrFinalizer (om_Finalizers meta)
         then on_config (bazc_ObjectMeta_update (om_Finalizers_update (env_AddFinalizer env bazarrFinalizer)))
           (if_err (store_object (oc_Update (brc_Client r))) (\<lambda>err. give (no_requeue, Some err))
             (\<lambda>_. give (\<lparr>res_Requeue = True, res_RequeueAfter = 0\<rparr>, None))) cw
         else if mode = BazarrConfigModeFile then reconcileFileMode r cw
         else if mode = BazarrConfigModeAPI then reconcileAPIMode r cw
         else give (no_requeue, Some (''unknown config mode: '' @ mode)) cw)"

definition Reconcile :: "'w BazarrConfigReconciler \<Rightarrow> string \<Rightarrow> string \<Rightarrow> ('w, reconcile_return) action" where
  "Reconcile r namespace name =
     if_err (oc_Get (brc_Client r) namespace name) (\<lambda>err. give (no_requeue, Some err)) (\<lambda>obj.
       case obj of
         None \<Rightarrow> give (no_requeue, None)
       | Some c \<Rightarrow> (\<lambda>w. case reconcile_bazarr r (c, w) of (q, (c', w')) \<Rightarrow> (q, w')))"

end
