(* ===== verification/Frame.thy ===== *)
theory Frame
  imports Lifecycle
begin

text \<open>
  What a step of a controller leaves alone: \<open>keeps view m\<close> says that the action \<open>m\<close> does not
  change the part \<open>view\<close> of the world. The rules follow the code; with \<open>view\<close> the identity an
  action only reads.
\<close>

definition keeps :: "('w \<Rightarrow> 'v) \<Rightarrow> ('w, 'a) action \<Rightarrow> bool" where
  "keeps view m \<longleftrightarrow> (\<forall>w. view (snd (m w)) = view w)"

abbreviation only_reads :: "('w, 'a) action \<Rightarrow> bool" where
  "only_reads m \<equiv> keeps (\<lambda>w. w) m"

named_theorems keeps_rules \<open>rules that an action keeps a part of the world\<close>

lemma keepsD: "keeps view m \<Longrightarrow> m w = (q, w') \<Longrightarrow> view w' = view w"
  by (metis keeps_def snd_conv)

lemma keeps_give [keeps_rules]: "keeps view (give x)"
  by (simp add: keeps_def give_def)

lemma keeps_fail [keeps_rules]: "keeps view (fail e)"
  by (simp add: keeps_def fail_def)

lemma keeps_andThen [keeps_rules]: "keeps view m \<Longrightarrow> (\<And>x. keeps view (f x)) \<Longrightarrow> keeps view (andThen m f)"
  by (auto simp: keeps_def andThen_def split: prod.split outcome.split) (metis snd_conv)+

lemma keeps_if_err [keeps_rules]:
  "keeps view m \<Longrightarrow> (\<And>e. keeps view (h e)) \<Longrightarrow> (\<And>x. keeps view (f x)) \<Longrightarrow> keeps view (if_err m h f)"
  by (auto simp: keeps_def if_err_def split: prod.split outcome.split) (metis snd_conv)+

lemma keeps_wrap_err [keeps_rules]: "keeps view m \<Longrightarrow> keeps view (wrap_err msg m)"
  by (auto simp: keeps_def wrap_err_def split: prod.split outcome.split) (metis snd_conv)+

lemma keeps_or_else [keeps_rules]: "keeps view m \<Longrightarrow> (\<And>e. keeps view (h e)) \<Longrightarrow> keeps view (or_else m h)"
  by (auto simp: keeps_def or_else_def split: prod.split outcome.split) (metis snd_conv)+

lemma only_reads_keeps: "only_reads m \<Longrightarrow> keeps view m"
  by (simp add: keeps_def)

lemma keeps_ResolveSecretValue [keeps_rules]:
  "(\<And>n. keeps view (env_GetSecret env ns n)) \<Longrightarrow> keeps view (ResolveSecretValue env ns name key)"
  unfolding ResolveSecretValue_def by (intro keeps_rules) (auto split: option.split intro: keeps_rules)

text \<open>The same for a step that also changes the resource in memory.\<close>

lemma ensures_keeps_store:
  assumes "\<And>c. keeps view (wr c)"
    and "\<And>c' w'. view w' = view w \<Longrightarrow> wr c w = (Ok c', w') \<Longrightarrow> ensures (k ()) (c', w') Q"
    and "\<And>e w'. view w' = view w \<Longrightarrow> ensures (h e) (c, w') Q"
    and "\<And>p w'. view w' = view w \<Longrightarrow> Q (Panic p) (c, w')"
  shows "ensures (if_err (store_object wr) h k) (c, w) Q"
  by (rule ensures_store) (auto intro: assms dest: keepsD [OF assms(1)])

lemma ensures_reads_if_err:
  assumes "only_reads m"
    and "\<And>x. m w = (Ok x, w) \<Longrightarrow> ensures (k x) (c, w) Q"
    and "\<And>e. ensures (h e) (c, w) Q"
    and "\<And>p. Q (Panic p) (c, w)"
  shows "ensures (if_err (on_service m) h k) (c, w) Q"
proof (rule ensures_if_err)
  fix x w' assume m: "m w = (Ok x, w')"
  with keepsD [OF assms(1) m] show "ensures (k x) (c, w') Q" using assms(2) by simp
next
  fix e w' assume m: "m w = (Err e, w')"
  with keepsD [OF assms(1) m] show "ensures (h e) (c, w') Q" using assms(3) by simp
next
  fix p w' assume m: "m w = (Panic p, w')"
  with keepsD [OF assms(1) m] show "Q (Panic p) (c, w')" using assms(4) by simp
qed

end
