(* ===== verification/Bazarr_Safety.thy ===== *)
theory Bazarr_Safety
  imports Bazarr_Reconcile Frame
begin

text \<open>
  What the controller of \<^verbatim>\<open>BazarrConfig\<close> does to the cluster and what it reports: the file it
  writes in file mode, the ConfigMaps its deletion touches, and the status after API mode.
\<close>

section \<open>The cluster's ConfigMaps\<close>

type_synonym configmaps = "string \<times> string \<Rightarrow> ConfigMap option"

definition cm_key :: "ConfigMap \<Rightarrow> string \<times> string" where
  "cm_key cm = (cm_Namespace cm, cm_Name cm)"

text \<open>
  The client reads and writes the ConfigMaps \<open>cms\<close> of the world: a call that fails changes
  nothing, and what it reads under a key is stored there.
\<close>

definition writes :: "('w \<Rightarrow> configmaps) \<Rightarrow> ('w, unit) action \<Rightarrow> string \<times> string \<Rightarrow> ConfigMap option \<Rightarrow> bool" where
  "writes cms m key cm \<longleftrightarrow>
     (\<forall>w q w'. m w = (q, w') \<longrightarrow> cms w' = (if q = Ok () then (cms w)(key := cm) else cms w))"

definition configmap_store :: "'w ConfigMapClient \<Rightarrow> ('w \<Rightarrow> configmaps) \<Rightarrow> bool" where
  "configmap_store cl cms \<longleftrightarrow>
     (\<forall>ns n. keeps cms (cmc_Get cl ns n)) \<and>
     (\<forall>ns n w x w'. cmc_Get cl ns n w = (Ok x, w') \<longrightarrow> x = cms w (ns, n)) \<and>
     (\<forall>w k cm. cms w k = Some cm \<longrightarrow> cm_key cm = k) \<and>
     (\<forall>cm. writes cms (cmc_Create cl cm) (cm_key cm) (Some cm) \<and> writes cms (cmc_Update cl cm) (cm_key cm) (Some cm) \<and>
       writes cms (cmc_Delete cl cm) (cm_key cm) None)"

lemma configmap_storeD:
  assumes "configmap_store cl cms"
  shows "keeps cms (cmc_Get cl ns n)" "cmc_Get cl ns n w = (Ok x, w') \<Longrightarrow> x = cms w (ns, n)"
    "cms w k = Some cm \<Longrightarrow> cm_key cm = k"
    "writes cms (cmc_Create cl cm) (cm_key cm) (Some cm)" "writes cms (cmc_Update cl cm) (cm_key cm) (Some cm)"
    "writes cms (cmc_Delete cl cm) (cm_key cm) None"
  using assms unfolding configmap_store_def by blast+

lemma writesD: "writes cms m key cm \<Longrightarrow> m w = (q, w') \<Longrightarrow> cms w' = (if q = Ok () then (cms w)(key := cm) else cms w)"
  by (simp add: writes_def)

definition data_of :: "ConfigMap option \<Rightarrow> string \<Rightarrow> string option" where
  "data_of found = (case found of None \<Rightarrow> Map.empty | Some cm \<Rightarrow> map_of (case cm_Data cm of None \<Rightarrow> [] | Some d \<Rightarrow> d))"

text \<open>One ConfigMap has changed, and of its entries only \<^verbatim>\<open>config.yaml\<close>.\<close>

definition file_written :: "configmaps \<Rightarrow> string \<times> string \<Rightarrow> string \<Rightarrow> configmaps \<Rightarrow> bool" where
  "file_written cms key yaml cms' \<longleftrightarrow>
     (\<exists>cm. cms' = cms(key \<mapsto> cm) \<and> data_of (Some cm) = (data_of (cms key))(''config.yaml'' \<mapsto> yaml))"

text \<open>\<^verbatim>\<open>SetControllerReference\<close> adds an owner reference and leaves the rest.\<close>

definition only_owners :: "('c \<Rightarrow> ConfigMap \<Rightarrow> ConfigMap outcome) \<Rightarrow> bool" where
  "only_owners f \<longleftrightarrow> (\<forall>c cm cm'. f c cm = Ok cm' \<longrightarrow> cm' = cm\<lparr>cm_OwnerUIDs := cm_OwnerUIDs cm'\<rparr>)"

lemma ensureConfigMap_written:
  assumes store: "configmap_store (brc_ConfigMaps r) cms" and owners: "only_owners (brc_SetControllerReference r)"
    and run: "ensureConfigMap r config name yaml w = (Ok (), w')"
  shows "file_written (cms w) (om_Namespace (bazc_ObjectMeta config), name) yaml (cms w')"
proof -
  let ?ns = "om_Namespace (bazc_ObjectMeta config)"
  note laws = configmap_storeD [OF store]
  obtain found w1 where get: "cmc_Get (brc_ConfigMaps r) ?ns name w = (Ok found, w1)"
    using run by (auto simp: ensureConfigMap_def andThen_def Let_def split: prod.splits outcome.splits)
  have w1: "cms w1 = cms w" "found = cms w (?ns, name)"
    using keepsD [OF laws(1) get] laws(2) [OF get] by auto
  show ?thesis
  proof (cases found)
    case None
    with run get obtain cm where
      cm: "brc_SetControllerReference r config
        \<lparr>cm_Name = name, cm_Namespace = ?ns, cm_OwnerUIDs = [], cm_Data = Some [(''config.yaml'', yaml)]\<rparr> = Ok cm"
      and create: "cmc_Create (brc_ConfigMaps r) cm w1 = (Ok (), w')"
      by (auto simp: ensureConfigMap_def andThen_def Let_def split: prod.splits outcome.splits)
    from cm owners have "cm = \<lparr>cm_Name = name, cm_Namespace = ?ns, cm_OwnerUIDs = cm_OwnerUIDs cm, cm_Data = Some [(''config.yaml'', yaml)]\<rparr>"
      unfolding only_owners_def by fastforce
    then have "cm_key cm = (?ns, name)" "cm_Data cm = Some [(''config.yaml'', yaml)]" by (metis ConfigMap.select_convs cm_key_def)+
    then show ?thesis
      using writesD [OF laws(4) create] w1 None by (force simp: file_written_def data_of_def)
  next
    case (Some old)
    let ?new = "old\<lparr>cm_Data := Some (gm_set ''config.yaml'' yaml (case cm_Data old of None \<Rightarrow> [] | Some d \<Rightarrow> d))\<rparr>"
    have "cmc_Update (brc_ConfigMaps r) ?new w1 = (Ok (), w')"
      using run get Some by (auto simp: ensureConfigMap_def Let_def)
    moreover have "cm_key ?new = (?ns, name)"
      using laws(3) [of w "(?ns, name)" old] w1 Some by (simp add: cm_key_def)
    ultimately have "cms w' = (cms w)((?ns, name) \<mapsto> ?new)"
      using writesD [OF laws(5), of ?new w1] w1 by simp
    then show ?thesis
      unfolding file_written_def using w1(2) [symmetric] Some by (intro exI [of _ ?new]) (simp add: data_of_def)
  qed
qed

section \<open>File mode\<close>

lemma bazarr_wrapper_simps [simp]:
  "GetConditions bazarr_wrapper c = bazst_Conditions (bazc_Status c)"
  "SetConditions bazarr_wrapper cs c = c\<lparr>bazc_Status := (bazc_Status c)\<lparr>bazst_Conditions := cs\<rparr>\<rparr>"
  by (simp_all add: at_status_def BazarrStatusWrapper_def)

lemma ensures_outcome:
  assumes "\<And>x. r = Ok x \<Longrightarrow> ensures (k x) cw Q" and "\<And>e. ensures (h e) cw Q" and "\<And>p. Q (Panic p) cw"
  shows "ensures (if_err (of_outcome r) h k) cw Q"
  using assms by (cases r) (auto simp: ensures_def if_err_def)

lemma reads_resolutions:
  assumes "\<And>n. only_reads (env_GetSecret env ns n)"
  shows "only_reads (resolveConnectionAPIKey env ns conn)" "only_reads (resolve_ref env ns dflt ref)"
    "only_reads (resolve_auth_password env ns auth)" "only_reads (resolveProviderSecrets env ns providers)"
proof -
  show conn: "only_reads (resolveConnectionAPIKey env ns conn)"
    by (auto simp: resolveConnectionAPIKey_def split: option.split intro!: keeps_rules assms)
  show ref: "only_reads (resolve_ref env ns dflt ref)" for dflt ref
    by (auto simp: resolve_ref_def split: option.split intro!: keeps_rules assms)
  then show "only_reads (resolve_auth_password env ns auth)"
    by (auto simp: resolve_auth_password_def split: option.split intro: keeps_rules)
  have "only_reads (resolve_provider env ns p)" for p
    unfolding resolve_provider_def by (intro keeps_rules ref)
  then have "only_reads (resolve_providers env ns providers m)" for m
    by (induction providers arbitrary: m) (auto intro!: keeps_rules)
  then show "only_reads (resolveProviderSecrets env ns providers)"
    by (simp add: resolveProviderSecrets_def)
qed

definition failed_return :: "reconcile_return outcome \<Rightarrow> bool" where
  "failed_return q \<longleftrightarrow> (\<forall>res. q \<noteq> Ok (res, None))"

lemma failed_return_simps [simp]:
  "failed_return (Err e)" "failed_return (Panic p)" "failed_return (Ok (res, err)) \<longleftrightarrow> err \<noteq> None"
  by (auto simp: failed_return_def)

lemma ensures_bazarr_not_ready:
  assumes "\<And>q cw. failed_return q \<Longrightarrow> Q q cw"
  shows "ensures (bazarr_not_ready r g reason err mark) (c, w) Q"
  by (auto simp: bazarr_not_ready_def bazarr_save_def SetCondition_def intro!: ensures_store assms)

lemma ensures_finish_file_mode:
  assumes "\<And>c. keeps cms (oc_UpdateStatus (brc_Client r) c)"
    and "\<And>q cw. failed_return q \<Longrightarrow> Q q cw" and "\<And>q c' w'. cms w' = cms w \<Longrightarrow> Q q (c', w')"
  shows "ensures (finish_file_mode r g) (c, w) Q"
  by (auto simp: finish_file_mode_def bazarr_done_def SetCondition_def ensures_pure intro!: ensures_keeps_store [OF assms(1)] assms(2,3))

text \<open>The file for a resource: the generator run on the secrets its references name.\<close>

definition file_of :: "'w BazarrConfigReconciler \<Rightarrow> BazarrConfig \<Rightarrow> 'w \<Rightarrow> string \<Rightarrow> bool" where
  "file_of r c w yaml \<longleftrightarrow>
     (let env = brc_Env r; ns = om_Namespace (bazc_ObjectMeta c); spec = bazc_Spec c
      in \<exists>sonarrKey radarrKey secrets password config.
        resolveConnectionAPIKey env ns (baz_Sonarr spec) w = (Ok sonarrKey, w) \<and>
        resolveConnectionAPIKey env ns (baz_Radarr spec) w = (Ok radarrKey, w) \<and>
        resolveProviderSecrets env ns (baz_Providers spec) w = (Ok secrets, w) \<and>
        resolve_auth_password env ns (baz_Authentication spec) w = (Ok password, w) \<and>
        Generate (brc_md5 r) \<lparr>gi_Spec = spec, gi_SonarrAPIKey = sonarrKey, gi_RadarrAPIKey = radarrKey,
          gi_ResolvedProviderSecrets = secrets, gi_ResolvedAuthPassword = password\<rparr> = Ok config \<and>
        brc_yaml r config = Ok yaml)"

lemma write_config_written:
  assumes "configmap_store (brc_ConfigMaps r) cms" and "only_owners (brc_SetControllerReference r)"
    and "baz_ConfigMapRef (bazc_Spec c) = Some ref" and "write_config r c yaml w = (Ok (), w')"
  shows "file_written (cms w) (om_Namespace (bazc_ObjectMeta c), lor_Name ref) yaml (cms w')"
  using ensureConfigMap_written [OF assms(1,2)] assms(3,4) by (simp add: write_config_def)

text \<open>
  C19. When file mode reports success, the ConfigMap the resource names holds under
  \<^verbatim>\<open>config.yaml\<close> the serialised configuration that the generator builds from the spec and the
  secrets its references name; the other entries of that ConfigMap and all other ConfigMaps are
  as they were.
\<close>

theorem Bazarr_file_written:
  assumes "configmap_store (brc_ConfigMaps r) cms" and "only_owners (brc_SetControllerReference r)"
    and "\<forall>ns n. only_reads (env_GetSecret (brc_Env r) ns n)" and "\<forall>c. keeps cms (oc_UpdateStatus (brc_Client r) c)"
    and "baz_ConfigMapRef (bazc_Spec c) = Some ref"
    and "reconcileFileMode r (c, w) = (Ok (res, None), (c', w'))"
  shows "\<exists>yaml. file_of r c w yaml \<and>
    file_written (cms w) (om_Namespace (bazc_ObjectMeta c), lor_Name ref) yaml (cms w')"
proof -
  let ?ns = "om_Namespace (bazc_ObjectMeta c)" and ?spec = "bazc_Spec c" and ?env = "brc_Env r"
  let ?Q = "\<lambda>q cw. failed_return q \<or> (\<exists>yaml. file_of r c w yaml \<and> file_written (cms w) (?ns, lor_Name ref) yaml (cms (snd cw)))"
  note reads = reads_resolutions [of ?env ?ns, OF assms(3) [rule_format]]
  have failing: "ensures (bazarr_not_ready r g reason err mark) (c1, w1) ?Q" for g reason err mark c1 w1
    by (rule ensures_bazarr_not_ready) simp
  have ended: "ensures (finish_file_mode r g) (c1, w1) ?Q"
    if "write_config r c yaml w = (Ok x, w1)" "file_of r c w yaml" for yaml w1 g c1 x
    using that write_config_written [OF assms(1,2,5), of yaml w w1]
    by (intro ensures_finish_file_mode [OF assms(4) [rule_format]]) auto
  have finish: "ensures (generate_config_file r c s rr p a) (c1, w) ?Q"
    if "resolveConnectionAPIKey ?env ?ns (baz_Sonarr ?spec) w = (Ok s, w)"
      "resolveConnectionAPIKey ?env ?ns (baz_Radarr ?spec) w = (Ok rr, w)"
      "resolveProviderSecrets ?env ?ns (baz_Providers ?spec) w = (Ok p, w)"
      "resolve_auth_password ?env ?ns (baz_Authentication ?spec) w = (Ok a, w)"
    for s rr p a c1
    unfolding generate_config_file_def Let_def
    by (intro ensures_outcome ensures_if_err failing ended) (use that in \<open>auto simp: file_of_def Let_def\<close>)
  have "ensures (reconcileFileMode r) (c, w) ?Q"
    by (subst ensures_def, subst reconcileFileMode_def, subst ensures_def [symmetric])
      (auto simp: Let_def intro!: ensures_reads_if_err [OF reads(1)] ensures_reads_if_err [OF reads(3)] ensures_reads_if_err [OF reads(4)] failing finish)
  from ensuresD [OF this assms(6)] show ?thesis by simp
qed

text \<open>An instance: the world is the list of ConfigMaps.\<close>

definition listed_cms :: "ConfigMap list \<Rightarrow> configmaps" where
  "listed_cms ws k = find (\<lambda>cm. cm_key cm = k) ws"

definition put_cm :: "ConfigMap \<Rightarrow> (ConfigMap list, unit) action" where
  "put_cm cm ws = (Ok (), cm # filter (\<lambda>x. cm_key x \<noteq> cm_key cm) ws)"

definition list_cms :: "ConfigMap list ConfigMapClient" where
  "list_cms = \<lparr>cmc_Get = (\<lambda>ns n ws. (Ok (listed_cms ws (ns, n)), ws)), cmc_Create = put_cm, cmc_Update = put_cm,
     cmc_Delete = (\<lambda>cm ws. (Ok (), filter (\<lambda>x. cm_key x \<noteq> cm_key cm) ws))\<rparr>"

lemma find_filter: "find P (filter Q xs) = find (\<lambda>x. Q x \<and> P x) xs"
  by (induction xs) auto

lemma list_cms_store: "configmap_store list_cms listed_cms"
proof -
  have gone: "listed_cms (filter (\<lambda>x. cm_key x \<noteq> k) ws) = (listed_cms ws)(k := None)" for k ws
    by (rule ext) (auto simp: listed_cms_def find_filter find_None_iff intro: find_cong)
  then have put: "listed_cms (snd (put_cm cm ws)) = (listed_cms ws)(cm_key cm := Some cm)" for cm ws
    using gone [of "cm_key cm" ws] by (auto simp: put_cm_def listed_cms_def fun_eq_iff)
  have found: "cm_key cm = k" if "listed_cms ws k = Some cm" for ws k cm
    using that by (auto simp: listed_cms_def find_Some_iff)
  show ?thesis
    unfolding configmap_store_def writes_def
    using put gone found by (auto simp: list_cms_def keeps_def put_cm_def fun_eq_iff split: if_splits)
qed

definition sample_bazarr_config :: "BazarrConfigSpec \<Rightarrow> int option \<Rightarrow> BazarrConfig" where
  "sample_bazarr_config spec deleted =
     \<lparr>bazc_ObjectMeta = \<lparr>om_Name = ''subs'', om_Namespace = ''media'', om_Generation = 1, om_Finalizers = [bazarrFinalizer],
        om_DeletionTimestamp = deleted\<rparr>,
      bazc_UID = ''u1'', bazc_Spec = spec,
      bazc_Status = \<lparr>bazst_Conditions = [], bazst_ActiveMode = '''', bazst_BazarrConnected = False, bazst_BazarrVersion = '''',
        bazst_SonarrConnected = False, bazst_RadarrConnected = False, bazst_ConfigGenerated = False,
        bazst_LanguageProfilesSynced = False, bazst_ProvidersSynced = False, bazst_LastReconcile = None,
        bazst_LastAppliedHash = ''''\<rparr>\<rparr>"

definition no_json :: "'a JSON" where
  "no_json = \<lparr>Marshal = (\<lambda>_. Ok ''''), Unmarshal = (\<lambda>_. Err ''EOF'')\<rparr>"

definition sample_bazarr_json :: BazarrJSON where
  "sample_bazarr_json = \<lparr>bj_SystemStatus = no_json, bj_HealthStatus = no_json, bj_Languages = no_json,
     bj_LanguageProfiles = no_json, bj_LanguageProfile = no_json, bj_LanguageProfileData = no_json, bj_ProviderList = no_json,
     bj_Providers = no_json, bj_SystemSettings = no_json, bj_Settings = no_json\<rparr>"

definition sample_bazarr_reconciler :: "(int \<Rightarrow> ConfigMap list transport) \<Rightarrow> BazarrJSON \<Rightarrow> ConfigMap list BazarrConfigReconciler" where
  "sample_bazarr_reconciler http json =
     \<lparr>brc_Env = plain_env [], brc_Client = \<lparr>oc_Get = (\<lambda>ns n. give None), oc_Update = give, oc_UpdateStatus = give\<rparr>,
      brc_ConfigMaps = list_cms,
      brc_SetControllerReference = (\<lambda>c cm. Ok (cm\<lparr>cm_OwnerUIDs := [bazc_UID c]\<rparr>)),
      brc_yaml = (\<lambda>config. Ok (''ip: '' @ as_IP (bcf_Sonarr config))), brc_md5 = rev, brc_http = http, brc_json = json\<rparr>"

definition refuses_all :: "int \<Rightarrow> 'w transport" where
  "refuses_all timeout req = fail ''connection refused''"

definition foreign_cm :: ConfigMap where
  "foreign_cm = \<lparr>cm_Name = ''bazarr'', cm_Namespace = ''media'', cm_OwnerUIDs = [''u2''], cm_Data = Some [(''a'', ''b'')]\<rparr>"

lemma sample_bazarr_laws:
  "configmap_store (brc_ConfigMaps (sample_bazarr_reconciler http json)) listed_cms"
  "only_owners (brc_SetControllerReference (sample_bazarr_reconciler http json))"
  "\<forall>ns n. only_reads (env_GetSecret (brc_Env (sample_bazarr_reconciler http json)) ns n)"
  "\<forall>c. keeps listed_cms (oc_UpdateStatus (brc_Client (sample_bazarr_reconciler http json)) c)"
  "\<forall>c. keeps listed_cms (oc_Update (brc_Client (sample_bazarr_reconciler http json)) c)"
  using list_cms_store
  by (auto simp: sample_bazarr_reconciler_def only_owners_def plain_env_def intro: keeps_rules)

theorem Bazarr_file_written_witness:
  "\<exists>c' w' yaml. reconcileFileMode (sample_bazarr_reconciler refuses_all sample_bazarr_json)
      (sample_bazarr_config (sample_bazarr []) None, [foreign_cm]) =
      (Ok (requeue_after DefaultRequeueInterval, None), (c', w')) \<and>
    file_written (listed_cms [foreign_cm]) (''media'', ''bazarr'') yaml (listed_cms w')"
proof -
  let ?r = "sample_bazarr_reconciler refuses_all sample_bazarr_json" and ?c = "sample_bazarr_config (sample_bazarr []) None"
  have "\<exists>c' w'. reconcileFileMode ?r (?c, [foreign_cm]) = (Ok (requeue_after DefaultRequeueInterval, None), (c', w'))"
    by (simp add: reconcileFileMode_def Let_def on_config_def if_err_def on_service_def resolveConnectionAPIKey_def
        resolveProviderSecrets_def resolve_auth_password_def generate_config_file_def write_config_def ensureConfigMap_def
        finish_file_mode_def bazarr_done_def SetCondition_def read_clock_def store_object_def give_def requeue_interval_def
        sample_bazarr_config_def sample_bazarr_def sample_connection_def sample_bazarr_reconciler_def list_cms_def listed_cms_def
        put_cm_def foreign_cm_def cm_key_def Generate_def sample_urls)
  then obtain c' w' where run: "reconcileFileMode ?r (?c, [foreign_cm]) = (Ok (requeue_after DefaultRequeueInterval, None), (c', w'))"
    by blast
  have ref: "baz_ConfigMapRef (bazc_Spec ?c) = Some \<lparr>lor_Name = ''bazarr''\<rparr>"
    by (simp add: sample_bazarr_config_def sample_bazarr_def)
  from Bazarr_file_written [OF sample_bazarr_laws(1-4) ref run] run show ?thesis
    by (auto simp: sample_bazarr_config_def)
qed

section \<open>Deletion\<close>

lemma delete_configmap_owned:
  assumes store: "configmap_store (brc_ConfigMaps r) cms"
    and run: "delete_configmap r c w = (q, w')"
  shows "cms w' = cms w \<or> (\<exists>ref cm. baz_ConfigMapRef (bazc_Spec c) = Some ref \<and>
    cms w (om_Namespace (bazc_ObjectMeta c), lor_Name ref) = Some cm \<and> bazc_UID c \<in> set (cm_OwnerUIDs cm) \<and>
    cms w' = (cms w)((om_Namespace (bazc_ObjectMeta c), lor_Name ref) := None))"
proof (cases "baz_ConfigMapRef (bazc_Spec c)")
  case None
  with run show ?thesis by (simp add: delete_configmap_def give_def)
next
  case (Some ref)
  let ?ns = "om_Namespace (bazc_ObjectMeta c)"
  note laws = configmap_storeD [OF store]
  obtain found w1 where get: "cmc_Get (brc_ConfigMaps r) ?ns (lor_Name ref) w = (found, w1)" by fastforce
  have w1: "cms w1 = cms w" by (rule keepsD [OF laws(1) get])
  show ?thesis
  proof (cases "\<exists>cm. found = Ok (Some cm) \<and> bazc_UID c \<in> set (cm_OwnerUIDs cm)")
    case True
    then obtain cm where cm: "found = Ok (Some cm)" "bazc_UID c \<in> set (cm_OwnerUIDs cm)" by blast
    then have at: "cms w (?ns, lor_Name ref) = Some cm" using laws(2) get by metis
    obtain q' w2 where del: "cmc_Delete (brc_ConfigMaps r) cm w1 = (q', w2)" by fastforce
    have "w' = w2" using run get Some cm del by (auto simp: delete_configmap_def if_err_def or_else_def give_def split: outcome.splits)
    then show ?thesis
      using writesD [OF laws(6) del] w1 Some cm at laws(3) [OF at] by auto
  next
    case False
    then have "w' = w1"
      using run get Some by (auto simp: delete_configmap_def if_err_def give_def split: outcome.splits option.splits if_splits)
    then show ?thesis using w1 by simp
  qed
qed

text \<open>
  C21. Deleting a \<^verbatim>\<open>BazarrConfig\<close> changes no ConfigMap but the one the resource names, and changes
  that one only by removing it when an owner reference of it carries the UID of the resource.
\<close>

theorem Bazarr_deletion_owned:
  assumes "configmap_store (brc_ConfigMaps r) cms" and "\<forall>c. keeps cms (oc_Update (brc_Client r) c)"
    and "om_DeletionTimestamp (bazc_ObjectMeta c) \<noteq> None"
    and "reconcile_bazarr r (c, w) = (q, (c', w'))"
  shows "cms w' = cms w \<or> (\<exists>ref cm. baz_ConfigMapRef (bazc_Spec c) = Some ref \<and>
    cms w (om_Namespace (bazc_ObjectMeta c), lor_Name ref) = Some cm \<and> bazc_UID c \<in> set (cm_OwnerUIDs cm) \<and>
    cms w' = (cms w)((om_Namespace (bazc_ObjectMeta c), lor_Name ref) := None))"
proof -
  let ?P = "\<lambda>w1. cms w1 = cms w \<or> (\<exists>ref cm. baz_ConfigMapRef (bazc_Spec c) = Some ref \<and>
    cms w (om_Namespace (bazc_ObjectMeta c), lor_Name ref) = Some cm \<and> bazc_UID c \<in> set (cm_OwnerUIDs cm) \<and>
    cms w1 = (cms w)((om_Namespace (bazc_ObjectMeta c), lor_Name ref) := None))"
  have del: "?P w1" if "delete_configmap r c w = (q, w1)" for q w1
    by (rule delete_configmap_owned [OF assms(1) that])
  have "ensures (reconcileDelete r) (c, w) (\<lambda>q cw. ?P (snd cw))"
    by (subst ensures_def, subst reconcileDelete_def, subst ensures_def [symmetric], rule ensures_call)
      (auto intro!: ensures_keeps_store [OF assms(2) [rule_format]] dest!: del)
  then have "?P w'" if "reconcileDelete r (c, w) = (q, (c', w'))" for q c' w'
    using ensuresD that by fastforce
  moreover have "reconcile_bazarr r (c, w) = (if (case baz_Reconciliation (bazc_Spec c) of None \<Rightarrow> False | Some spec \<Rightarrow> rcs_Suspend spec)
      then give (no_requeue, None) (c, w) else reconcileDelete r (c, w))"
    using assms(3) by (simp add: reconcile_bazarr_def Let_def)
  then have "w' = w \<or> reconcileDelete r (c, w) = (q, (c', w'))"
    using assms(4) by (auto simp: give_def split: if_splits)
  ultimately show ?thesis by blast
qed

theorem Bazarr_deletion_owned_witness:
  "\<exists>q c' w'. reconcile_bazarr (sample_bazarr_reconciler refuses_all sample_bazarr_json)
      (sample_bazarr_config (sample_bazarr []) (Some 5), [foreign_cm]) = (q, (c', w')) \<and>
    listed_cms w' = listed_cms [foreign_cm]"
proof -
  let ?r = "sample_bazarr_reconciler refuses_all sample_bazarr_json" and ?c = "sample_bazarr_config (sample_bazarr []) (Some 5)"
  obtain q c' w' where run: "reconcile_bazarr ?r (?c, [foreign_cm]) = (q, (c', w'))" by (cases "reconcile_bazarr ?r (?c, [foreign_cm])") auto
  have del: "om_DeletionTimestamp (bazc_ObjectMeta ?c) \<noteq> None" by (simp add: sample_bazarr_config_def)
  have "listed_cms w' = listed_cms [foreign_cm]"
    using Bazarr_deletion_owned [OF sample_bazarr_laws(1,5) del run]
    by (auto simp: sample_bazarr_config_def sample_bazarr_def listed_cms_def foreign_cm_def split: if_splits)
  with run show ?thesis by blast
qed

section \<open>API mode\<close>

lemma sync_profiles_refused:
  assumes "\<forall>p. \<exists>e. UpdateLanguageProfile client p w = (Err e, w)" and "\<forall>p. \<exists>e. CreateLanguageProfile client p w = (Err e, w)"
  shows "sync_profiles client current ps w = (Ok (), w)"
proof (induction ps)
  case (Cons p ps)
  have "sync_profile client current p w = (Ok (), w)"
  proof (cases "map_of current (bzp_Name p)")
    case None
    obtain e where "CreateLanguageProfile client (api_profile p) w = (Err e, w)" using assms(2) by blast
    then show ?thesis using None by (simp add: sync_profile_def or_else_def discard_def give_def)
  next
    case (Some old)
    obtain e where "UpdateLanguageProfile client ((api_profile p)\<lparr>lp_ProfileID := lp_ProfileID old\<rparr>) w = (Err e, w)"
      using assms(1) by blast
    then show ?thesis using Some by (simp add: sync_profile_def or_else_def give_def)
  qed
  with Cons show ?case by simp
qed (simp add: give_def)

lemma finish_api_mode_ready:
  assumes "sets_status_condition (env_SetStatusCondition (brc_Env r))"
    and "\<forall>c. oc_UpdateStatus (brc_Client r) c w = (Ok c, save c)"
  shows "\<exists>c'. finish_api_mode r g version (c, w) = (Ok (requeue_after (requeue_interval (baz_Reconciliation (bazc_Spec c))), None), (c', save c')) \<and>
    bazst_LanguageProfilesSynced (bazc_Status c') = bazst_LanguageProfilesSynced (bazc_Status c) \<and>
    (\<exists>x. condition_of ConditionTypeReady (bazst_Conditions (bazc_Status c')) = Some x \<and> cd_Status x = ConditionTrue)"
proof -
  let ?new = "\<lparr>cd_Type = ConditionTypeReady, cd_Status = ConditionTrue, cd_ObservedGeneration = g, cd_LastTransitionTime = env_Now (brc_Env r) w,
    cd_Reason = ''Ready'', cd_Message = ''Bazarr configured successfully via API (v'' @ version @ '')''\<rparr>"
  let ?cs = "env_SetStatusCondition (brc_Env r) ?new (bazst_Conditions (bazc_Status c))"
  let ?c = "c\<lparr>bazc_Status := (bazc_Status c)\<lparr>bazst_ConfigGenerated := False, bazst_LastReconcile := Some (env_Now (brc_Env r) w),
    bazst_Conditions := ?cs\<rparr>\<rparr>"
  obtain t where "condition_of (cd_Type ?new) ?cs = Some (?new\<lparr>cd_LastTransitionTime := t\<rparr>)"
    using assms(1) unfolding sets_status_condition_def by blast
  then have "\<exists>x. condition_of ConditionTypeReady (bazst_Conditions (bazc_Status ?c)) = Some x \<and> cd_Status x = ConditionTrue" by simp
  moreover have "finish_api_mode r g version (c, w) = (Ok (requeue_after (requeue_interval (baz_Reconciliation (bazc_Spec c))), None), (?c, save ?c))"
    using assms(2) by (simp add: finish_api_mode_def on_config_def read_clock_def SetCondition_def bazarr_done_def if_err_def store_object_def)
  moreover have "bazst_LanguageProfilesSynced (bazc_Status ?c) = bazst_LanguageProfilesSynced (bazc_Status c)" by simp
  ultimately show ?thesis by blast
qed

text \<open>
  C34. In API mode the status hides a failed synchronisation. When Bazarr answers reads but refuses
  every write of a language profile, the reconciliation returns no error, and the status says that
  the language profiles are synced and that the resource is ready.
\<close>

theorem Bazarr_sync_failures_hidden:
  assumes "sets_status_condition (env_SetStatusCondition (brc_Env r))"
    and "baz_Connection (bazc_Spec c) = Some conn" and "baz_Providers (bazc_Spec c) = []"
    and "ResolveSecretValue (brc_Env r) (om_Namespace (bazc_ObjectMeta c)) (sk_Name (bza_APIKeySecretRef conn))
      (sk_Key (bza_APIKeySecretRef conn)) w = (Ok key, w)"
    and "client = NewClient (brc_http r) (brc_json r) (bza_URL conn) key"
    and "GetVersion client w = (Ok version, w)" and "Bazarr_Client.GetHealth client w = (Ok health, w)"
    and "GetLanguageProfiles client w = (Ok current, w)"
    and "\<forall>p. \<exists>e. UpdateLanguageProfile client p w = (Err e, w)" and "\<forall>p. \<exists>e. CreateLanguageProfile client p w = (Err e, w)"
    and "\<forall>c. oc_UpdateStatus (brc_Client r) c w = (Ok c, save c)"
  shows "\<exists>c'. reconcileAPIMode r (c, w) = (Ok (requeue_after (requeue_interval (baz_Reconciliation (bazc_Spec c))), None), (c', save c')) \<and>
    bazst_LanguageProfilesSynced (bazc_Status c') \<and>
    (\<exists>x. condition_of ConditionTypeReady (bazst_Conditions (bazc_Status c')) = Some x \<and> cd_Status x = ConditionTrue)"
proof -
  have sync: "syncLanguageProfiles client c w = (Ok (), w)"
    using assms(8) sync_profiles_refused [OF assms(9,10)] by (simp add: syncLanguageProfiles_def)
  have cl: "NewClient (brc_http r) (brc_json r) (bza_URL conn) key = client" using assms(5) by simp
  have prov: "syncProviders r client c w = (Ok (), w)" using assms(3) by (simp add: syncProviders_def give_def)
  let ?c = "update_bazarr_status (bazst_ProvidersSynced_update (\<lambda>_. True) \<circ> (bazst_LanguageProfilesSynced_update (\<lambda>_. True) \<circ>
    (report_health health \<circ> ((\<lambda>st. st\<lparr>bazst_BazarrConnected := True, bazst_BazarrVersion := version\<rparr>) \<circ>
      bazst_ActiveMode_update (\<lambda>_. BazarrConfigModeAPI))))) c"
  have "reconcileAPIMode r (c, w) = finish_api_mode r (om_Generation (bazc_ObjectMeta c)) version (?c, w)"
    using assms(2,4,6,7) sync prov by (simp add: reconcileAPIMode_def sync_bazarr_def Let_def on_config_def if_err_def on_service_def cl)
  then show ?thesis
    using finish_api_mode_ready [OF assms(1,11), of "om_Generation (bazc_ObjectMeta c)" version ?c] by simp
qed

definition canned :: "'a \<Rightarrow> 'a JSON" where
  "canned x = \<lparr>Marshal = (\<lambda>_. Ok ''{}''), Unmarshal = (\<lambda>_. Ok x)\<rparr>"

definition canned_json :: BazarrJSON where
  "canned_json = sample_bazarr_json\<lparr>
     bj_SystemStatus := canned \<lparr>bst_BazarrVersion = ''1.4'', bst_SonarrVersion = '''', bst_RadarrVersion = '''', bst_OSVersion = '''',
       bst_PythonVersion = '''', bst_StartTime = ''''\<rparr>,
     bj_HealthStatus := canned \<lparr>bhs_Sonarr = None, bhs_Radarr = None, bhs_Bazarr = None\<rparr>,
     bj_LanguageProfiles := canned []\<rparr>"

definition read_only_server :: "int \<Rightarrow> 'w transport" where
  "read_only_server timeout req =
     give \<lparr>rs_StatusCode = (if rq_Method req = ''GET'' then 200 else 403), rs_Header = [], rs_Body = ''{}''\<rparr>"

definition api_spec :: BazarrConfigSpec where
  "api_spec = (sample_bazarr [sample_profile ''a'' True False])\<lparr>baz_ConfigMode := BazarrConfigModeAPI,
     baz_Connection := Some \<lparr>bza_URL = ''http://bazarr:6767/'', bza_APIKeySecretRef = \<lparr>sk_Name = ''s'', sk_Key = ''apiKey''\<rparr>\<rparr>\<rparr>"

lemma bazarr_api_urls:
  "map_option url_Host (Parse ''http://bazarr:6767/api/system/status'') = Some ''bazarr:6767''"
  "map_option url_Host (Parse ''http://bazarr:6767/api/system/health'') = Some ''bazarr:6767''"
  "map_option url_Host (Parse ''http://bazarr:6767/api/system/languages/profiles'') = Some ''bazarr:6767''"
  by code_simp+

lemma canned_json_simps:
  "bj_SystemStatus canned_json = canned \<lparr>bst_BazarrVersion = ''1.4'', bst_SonarrVersion = '''', bst_RadarrVersion = '''',
     bst_OSVersion = '''', bst_PythonVersion = '''', bst_StartTime = ''''\<rparr>"
  "bj_HealthStatus canned_json = canned \<lparr>bhs_Sonarr = None, bhs_Radarr = None, bhs_Bazarr = None\<rparr>"
  "bj_LanguageProfiles canned_json = canned []" "bj_LanguageProfile canned_json = no_json"
  by (simp_all add: canned_json_def sample_bazarr_json_def)

lemma get_canned:
  assumes "Parse (bzcl_baseURL cl @ path) \<noteq> None" and "bzcl_Do cl = read_only_server t"
  shows "get cl path (decode_with (canned x)) w = (Ok x, w)"
  using assms by (auto simp: get_def doRequest_def NewRequest_def Let_def andThen_def wrap_err_def read_only_server_def give_def
      set_header_def decode_with_def canned_def)

lemma doRequest_refused:
  assumes "bzcl_Do cl = read_only_server t" and "method \<noteq> ''GET''"
  shows "\<exists>resp. doRequest cl method path body w = (Ok resp, w) \<and> \<not> success_status resp \<or> (\<exists>e. doRequest cl method path body w = (Err e, w))"
  using assms by (auto simp: doRequest_def NewRequest_def Let_def andThen_def wrap_err_def read_only_server_def give_def
      set_header_def success_status_def split: option.split)

lemma profile_refused:
  assumes "bzcl_Do cl = read_only_server t" and "bj_LanguageProfile (bzcl_json cl) = no_json"
  shows "\<exists>e. UpdateLanguageProfile cl p w = (Err e, w)" "\<exists>e. CreateLanguageProfile cl p w = (Err e, w)"
  using assms(2) doRequest_refused [OF assms(1), of "''PATCH''" "profiles_path @ ''/'' @ Itoa (lp_ProfileID p)" "Some ''''" w]
    doRequest_refused [OF assms(1), of "''POST''" profiles_path "Some ''''" w]
  by (auto simp: UpdateLanguageProfile_def CreateLanguageProfile_def patch_def post_def marshal_body_def send_body_def no_json_def
      wrap_err_def give_def fail_def andThen_def)

theorem Bazarr_sync_failures_hidden_witness:
  "\<exists>c'. reconcileAPIMode (sample_bazarr_reconciler read_only_server canned_json) (sample_bazarr_config api_spec None, []) =
      (Ok (requeue_after DefaultRequeueInterval, None), (c', [])) \<and> bazst_LanguageProfilesSynced (bazc_Status c')"
proof -
  let ?r = "sample_bazarr_reconciler read_only_server canned_json" and ?c = "sample_bazarr_config api_spec None"
  let ?conn = "\<lparr>bza_URL = ''http://bazarr:6767/'', bza_APIKeySecretRef = \<lparr>sk_Name = ''s'', sk_Key = ''apiKey''\<rparr>\<rparr>"
  define client where "client = NewClient (brc_http ?r) (brc_json ?r) (bza_URL ?conn) ''k''"
  have base: "bzcl_baseURL client = ''http://bazarr:6767''" "bzcl_json client = canned_json" "bzcl_Do client = read_only_server 30"
    by (simp_all add: client_def NewClient_def sample_bazarr_reconciler_def TrimSuffix_def)
  have urls: "Parse (bzcl_baseURL client @ ''/api/system/status'') \<noteq> None" "Parse (bzcl_baseURL client @ ''/api/system/health'') \<noteq> None"
    "Parse (bzcl_baseURL client @ profiles_path) \<noteq> None"
    using bazarr_api_urls unfolding base by auto
  have refused: "\<exists>e. UpdateLanguageProfile client p [] = (Err e, [])" "\<exists>e. CreateLanguageProfile client p [] = (Err e, [])" for p
    by (rule profile_refused [OF base(3)], unfold base(2), rule canned_json_simps)+
  have pre: "sets_status_condition (env_SetStatusCondition (brc_Env ?r))"
    "baz_Connection (bazc_Spec ?c) = Some ?conn" "baz_Providers (bazc_Spec ?c) = []"
    "ResolveSecretValue (brc_Env ?r) (om_Namespace (bazc_ObjectMeta ?c)) (sk_Name (bza_APIKeySecretRef ?conn))
      (sk_Key (bza_APIKeySecretRef ?conn)) [] = (Ok ''k'', [])"
    "\<forall>c. oc_UpdateStatus (brc_Client ?r) c [] = (Ok c, [])"
    by (simp_all add: sample_bazarr_reconciler_def upsert_condition_sets sample_bazarr_config_def api_spec_def sample_bazarr_def
        ResolveSecretValue_def plain_env_def give_def)
  have reads: "GetVersion client [] = (Ok ''1.4'', [])"
    "Bazarr_Client.GetHealth client [] = (Ok \<lparr>bhs_Sonarr = None, bhs_Radarr = None, bhs_Bazarr = None\<rparr>, [])"
    "GetLanguageProfiles client [] = (Ok [], [])"
    by (simp_all only: GetVersion_def GetSystemStatus_def Bazarr_Client.GetHealth_def GetLanguageProfiles_def base(2) canned_json_simps)
      (simp_all add: get_canned [OF urls(1) base(3)] get_canned [OF urls(2) base(3)] get_canned [OF urls(3) base(3)] wrap_err_def andThen_def give_def)
  have "requeue_interval (baz_Reconciliation (bazc_Spec ?c)) = DefaultRequeueInterval"
    by (simp add: sample_bazarr_config_def api_spec_def sample_bazarr_def requeue_interval_def)
  then show ?thesis
    using Bazarr_sync_failures_hidden [OF pre(1-4) client_def reads _ _ pre(5)] refused by auto
qed

end
