(* ===== verification/Stack_Types.thy ===== *)
theory Stack_Types
  imports CRD
begin

text \<open>
  \<^verbatim>\<open>src/api/v1alpha1/downloadstackconfig_types.go\<close>: the custom resource of the download stack, one
  record per struct. A pointer is an \<open>option\<close>, a slice a list; a time is a number.
\<close>

record GluetunProviderSpec =
  glu_provider_Name :: string
  glu_provider_CredentialsSecretRef :: "CredentialsSecretRef option"
  glu_provider_PrivateKeySecretRef :: "SecretKeySelector option"

record GluetunServerSpec =
  glu_server_Regions :: "string list"
  glu_server_Countries :: "string list"
  glu_server_Cities :: "string list"
  glu_server_Hostnames :: "string list"

record GluetunFirewallSpec =
  glu_firewall_VPNInputPorts :: "int list"
  glu_firewall_InputPorts :: "int list"
  glu_firewall_OutboundSubnets :: "string list"
  glu_firewall_Debug :: bool

record GluetunKillSwitchSpec =
  glu_killswitch_Enabled :: bool

record GluetunDNSSpec =
  glu_dns_OverTLS :: bool
  glu_dns_PlaintextAddress :: string
  glu_dns_KeepNameserver :: bool

record GluetunIPv6Spec =
  glu_ipv6_Enabled :: bool

record GluetunLoggingSpec =
  glu_logging_Level :: string

record GluetunSpec =
  glu_Provider :: GluetunProviderSpec
  glu_VPNType :: string
  glu_Server :: "GluetunServerSpec option"
  glu_Firewall :: "GluetunFirewallSpec option"
  glu_KillSwitch :: "GluetunKillSwitchSpec option"
  glu_DNS :: "GluetunDNSSpec option"
  glu_IPv6 :: "GluetunIPv6Spec option"
  glu_Logging :: "GluetunLoggingSpec option"

record TransmissionConnectionSpec =
  tr_connection_URL :: string
  tr_connection_CredentialsSecretRef :: "CredentialsSecretRef option"

record TransmissionSpeedSpec =
  tr_speed_DownloadLimit :: int
  tr_speed_DownloadLimitEnabled :: bool
  tr_speed_UploadLimit :: int
  tr_speed_UploadLimitEnabled :: bool

record TransmissionAltSpeedSpec =
  tr_altspeed_Enabled :: bool
  tr_altspeed_Down :: int
  tr_altspeed_Up :: int
  tr_altspeed_TimeEnabled :: bool
  tr_altspeed_TimeBegin :: int
  tr_altspeed_TimeEnd :: int
  tr_altspeed_TimeDays :: "int list"

record TransmissionDirectoriesSpec =
  tr_directories_Download :: string
  tr_directories_Incomplete :: string
  tr_directories_IncompleteEnabled :: bool

record TransmissionSeedingSpec =
  tr_seeding_RatioLimit :: string
  tr_seeding_RatioLimited :: bool
  tr_seeding_IdleLimit :: int
  tr_seeding_IdleLimitEnabled :: bool

record TransmissionQueueSpec =
  tr_queue_DownloadSize :: int
  tr_queue_DownloadEnabled :: bool
  tr_queue_SeedSize :: int
  tr_queue_SeedEnabled :: bool
  tr_queue_StalledEnabled :: bool
  tr_queue_StalledMinutes :: int

record TransmissionPeersSpec =
  tr_peers_LimitGlobal :: int
  tr_peers_LimitPerTorrent :: int
  tr_peers_Port :: int
  tr_peers_RandomPort :: bool
  tr_peers_PortForwardingEnabled :: bool

record TransmissionSecuritySpec =
  tr_security_Encryption :: string
  tr_security_PEXEnabled :: "bool option"
  tr_security_DHTEnabled :: "bool option"
  tr_security_LPDEnabled :: "bool option"
  tr_security_UTPEnabled :: "bool option"

record TransmissionBlocklistSpec =
  tr_blocklist_Enabled :: bool
  tr_blocklist_URL :: string

record TransmissionSpec =
  tr_Connection :: TransmissionConnectionSpec
  tr_Speed :: "TransmissionSpeedSpec option"
  tr_AltSpeed :: "TransmissionAltSpeedSpec option"
  tr_Directories :: "TransmissionDirectoriesSpec option"
  tr_Seeding :: "TransmissionSeedingSpec option"
  tr_Queue :: "TransmissionQueueSpec option"
  tr_Peers :: "TransmissionPeersSpec option"
  tr_Security :: "TransmissionSecuritySpec option"
  tr_Blocklist :: "TransmissionBlocklistSpec option"

record QBittorrentConnectionSpec =
  qb_connection_URL :: string
  qb_connection_CredentialsSecretRef :: "CredentialsSecretRef option"

record QBittorrentSpeedSpec =
  qb_speed_DownloadLimit :: int
  qb_speed_UploadLimit :: int
  qb_speed_GlobalDownloadSpeedLimit :: int
  qb_speed_GlobalUploadSpeedLimit :: int

record QBittorrentAltSpeedSpec =
  qb_altspeed_Enabled :: bool
  qb_altspeed_DownloadLimit :: int
  qb_altspeed_UploadLimit :: int
  qb_altspeed_SchedulerEnabled :: bool
  qb_altspeed_SchedulerDays :: int
  qb_altspeed_ScheduleFromHour :: int
  qb_altspeed_ScheduleFromMinute :: int
  qb_altspeed_ScheduleToHour :: int
  qb_altspeed_ScheduleToMinute :: int

record QBittorrentDirectoriesSpec =
  qb_directories_SavePath :: string
  qb_directories_TempPath :: string
  qb_directories_TempPathEnabled :: bool
  qb_directories_CreateSubfolder :: "bool option"
  qb_directories_AppendExtension :: "bool option"

record QBittorrentSeedingSpec =
  qb_seeding_MaxRatio :: string
  qb_seeding_MaxRatioEnabled :: bool
  qb_seeding_MaxSeedingTime :: int
  qb_seeding_MaxSeedingTimeEnabled :: bool
  qb_seeding_MaxRatioAction :: "int option"

record QBittorrentQueueSpec =
  qb_queue_QueueingEnabled :: "bool option"
  qb_queue_MaxActiveDownloads :: int
  qb_queue_MaxActiveUploads :: int
  qb_queue_MaxActiveTorrents :: int

record QBittorrentConnectionsSpec =
  qb_connections_MaxConnections :: int
  qb_connections_MaxConnectionsPerTorrent :: int
  qb_connections_MaxUploads :: int
  qb_connections_MaxUploadsPerTorrent :: int
  qb_connections_ListenPort :: int
  qb_connections_RandomPort :: bool
  qb_connections_UPnPEnabled :: "bool option"

record QBittorrentBitTorrentSpec =
  qb_bittorrent_DHT :: "bool option"
  qb_bittorrent_PeX :: "bool option"
  qb_bittorrent_LSD :: "bool option"
  qb_bittorrent_Encryption :: "int option"
  qb_bittorrent_AnonymousMode :: bool

record QBittorrentSpec =
  qb_Connection :: QBittorrentConnectionSpec
  qb_Speed :: "QBittorrentSpeedSpec option"
  qb_AltSpeed :: "QBittorrentAltSpeedSpec option"
  qb_Directories :: "QBittorrentDirectoriesSpec option"
  qb_Seeding :: "QBittorrentSeedingSpec option"
  qb_Queue :: "QBittorrentQueueSpec option"
  qb_Connections :: "QBittorrentConnectionsSpec option"
  qb_BitTorrent :: "QBittorrentBitTorrentSpec option"

record DelugeConnectionSpec =
  dl_connection_URL :: string
  dl_connection_PasswordSecretRef :: "SecretKeySelector option"

record DelugeSpeedSpec =
  dl_speed_MaxDownloadSpeed :: int
  dl_speed_MaxUploadSpeed :: int
  dl_speed_MaxDownloadSpeedPerTorrent :: int
  dl_speed_MaxUploadSpeedPerTorrent :: int

record DelugeDirectoriesSpec =
  dl_directories_DownloadLocation :: string
  dl_directories_MoveCompleted :: bool
  dl_directories_MoveCompletedPath :: string
  dl_directories_CopyTorrentFile :: bool
  dl_directories_TorrentFilesLocation :: string

record DelugeSeedingSpec =
  dl_seeding_StopSeedAtRatio :: bool
  dl_seeding_StopSeedRatio :: string
  dl_seeding_RemoveAtRatio :: bool
  dl_seeding_ShareRatioLimit :: string
  dl_seeding_SeedTimeLimit :: int

record DelugeQueueSpec =
  dl_queue_MaxActiveDownloading :: int
  dl_queue_MaxActiveSeeding :: int
  dl_queue_MaxActiveLimit :: int
  dl_queue_QueueNewToTop :: bool

record DelugeConnectionsSpec =
  dl_connections_MaxConnections :: int
  dl_connections_MaxConnectionsPerTorrent :: int
  dl_connections_MaxUploadSlots :: int
  dl_connections_MaxUploadSlotsPerTorrent :: int
  dl_connections_ListenPorts :: "int list"
  dl_connections_RandomPort :: bool

record DelugeProtocolSpec =
  dl_protocol_DHT :: "bool option"
  dl_protocol_UPnP :: "bool option"
  dl_protocol_NATPMP :: "bool option"
  dl_protocol_LSD :: "bool option"
  dl_protocol_ProtocolEncryption :: "bool option"
  dl_protocol_EncryptionLevel :: "int option"

record DelugeSpec =
  dl_Connection :: DelugeConnectionSpec
  dl_Speed :: "DelugeSpeedSpec option"
  dl_Directories :: "DelugeDirectoriesSpec option"
  dl_Seeding :: "DelugeSeedingSpec option"
  dl_Queue :: "DelugeQueueSpec option"
  dl_Connections :: "DelugeConnectionsSpec option"
  dl_Protocol :: "DelugeProtocolSpec option"

record RTorrentConnectionSpec =
  rt_connection_URL :: string
  rt_connection_CredentialsSecretRef :: "CredentialsSecretRef option"

record RTorrentSpeedSpec =
  rt_speed_DownloadRate :: int
  rt_speed_UploadRate :: int

record RTorrentDirectoriesSpec =
  rt_directories_Directory :: string
  rt_directories_SessionDirectory :: string

record RTorrentSeedingSpec =
  rt_seeding_MinSeedRatio :: string
  rt_seeding_MaxSeedRatio :: string
  rt_seeding_MinSeedTime :: int
  rt_seeding_MaxSeedTime :: int

record RTorrentConnectionsSpec =
  rt_connections_MaxPeers :: int
  rt_connections_MaxPeersPerTorrent :: int
  rt_connections_MaxUploads :: int
  rt_connections_MaxUploadsPerTorrent :: int
  rt_connections_Port :: int
  rt_connections_PortRange :: string
  rt_connections_PortRandomize :: bool

record RTorrentProtocolSpec =
  rt_protocol_DHT :: "bool option"
  rt_protocol_PEX :: "bool option"
  rt_protocol_Encryption :: string

record RTorrentSpec =
  rt_Connection :: RTorrentConnectionSpec
  rt_Speed :: "RTorrentSpeedSpec option"
  rt_Directories :: "RTorrentDirectoriesSpec option"
  rt_Seeding :: "RTorrentSeedingSpec option"
  rt_Connections :: "RTorrentConnectionsSpec option"
  rt_Protocol :: "RTorrentProtocolSpec option"

record SABnzbdConnectionSpec =
  sab_connection_URL :: string
  sab_connection_APIKeySecretRef :: SecretKeySelector

record SABnzbdSpeedSpec =
  sab_speed_SpeedLimit :: int
  sab_speed_SpeedLimitPercentage :: int
  sab_speed_PauseDownloads :: bool

record SABnzbdDirectoriesSpec =
  sab_directories_DownloadDir :: string
  sab_directories_CompleteDir :: string
  sab_directories_IncompleteDir :: string
  sab_directories_ScriptDir :: string
  sab_directories_NzbBackupDir :: string

record SABnzbdCategorySpec =
  sab_category_Name :: string
  sab_category_Dir :: string
  sab_category_Priority :: int
  sab_category_Script :: string

record SABnzbdQueueSpec =
  sab_queue_PreCheck :: bool
  sab_queue_MaxRetries :: int
  sab_queue_Connections :: int

record SABnzbdPostProcessingSpec =
  sab_postprocessing_Enabled :: bool
  sab_postprocessing_QuickCheck :: bool
  sab_postprocessing_UnpackEnabled :: bool
  sab_postprocessing_CleanupEnabled :: bool
  sab_postprocessing_ScriptEnabled :: bool

record SABnzbdSpec =
  sab_Connection :: SABnzbdConnectionSpec
  sab_Speed :: "SABnzbdSpeedSpec option"
  sab_Directories :: "SABnzbdDirectoriesSpec option"
  sab_Categories :: "SABnzbdCategorySpec list"
  sab_Queue :: "SABnzbdQueueSpec option"
  sab_PostProcessing :: "SABnzbdPostProcessingSpec option"

record NZBGetConnectionSpec =
  nzb_connection_URL :: string
  nzb_connection_CredentialsSecretRef :: "CredentialsSecretRef option"

record NZBGetSpeedSpec =
  nzb_speed_DownloadRate :: int
  nzb_speed_ArticleTimeout :: int
  nzb_speed_WriteBuffer :: int

record NZBGetDirectoriesSpec =
  nzb_directories_MainDir :: string
  nzb_directories_DestDir :: string
  nzb_directories_InterDir :: string
  nzb_directories_NzbDir :: string
  nzb_directories_TempDir :: string
  nzb_directories_ScriptDir :: string

record NZBGetCategorySpec =
  nzb_category_Name :: string
  nzb_category_DestDir :: string
  nzb_category_Unpack :: "bool option"
  nzb_category_Aliases :: "string list"

record NZBGetQueueSpec =
  nzb_queue_FlushQueue :: bool
  nzb_queue_DupeCheck :: bool
  nzb_queue_PropagationDelay :: int
  nzb_queue_HealthCheck :: string

record NZBGetPostProcessingSpec =
  nzb_postprocessing_ParCheck :: string
  nzb_postprocessing_ParRepair :: "bool option"
  nzb_postprocessing_Unpack :: "bool option"
  nzb_postprocessing_UnpackCleanupDisk :: "bool option"
  nzb_postprocessing_DirectUnpack :: "bool option"
  nzb_postprocessing_ScriptOrder :: "string list"

record NZBGetConnectionsSpec =
  nzb_connections_ArticleConnections :: int
  nzb_connections_RetryInterval :: int
  nzb_connections_TerminateTimeout :: int
  nzb_connections_Decode :: "bool option"

record NZBGetSpec =
  nzb_Connection :: NZBGetConnectionSpec
  nzb_Speed :: "NZBGetSpeedSpec option"
  nzb_Directories :: "NZBGetDirectoriesSpec option"
  nzb_Categories :: "NZBGetCategorySpec list"
  nzb_Queue :: "NZBGetQueueSpec option"
  nzb_PostProcessing :: "NZBGetPostProcessingSpec option"
  nzb_Connections :: "NZBGetConnectionsSpec option"

record DownloadStackConfigSpec =
  dss_DeploymentRef :: LocalObjectReference
  dss_Gluetun :: GluetunSpec
  dss_Transmission :: "TransmissionSpec option"
  dss_QBittorrent :: "QBittorrentSpec option"
  dss_Deluge :: "DelugeSpec option"
  dss_RTorrent :: "RTorrentSpec option"
  dss_SABnzbd :: "SABnzbdSpec option"
  dss_NZBGet :: "NZBGetSpec option"
  dss_RestartOnGluetunChange :: bool
  dss_Reconciliation :: "ReconciliationSpec option"

record DownloadStackConfigStatus =
  dst_Conditions :: "Condition list"
  dst_GluetunConfigHash :: string
  dst_GluetunSecretGenerated :: bool
  dst_TransmissionConnected :: bool
  dst_TransmissionVersion :: string
  dst_QBittorrentConnected :: bool
  dst_QBittorrentVersion :: string
  dst_DelugeConnected :: bool
  dst_DelugeVersion :: string
  dst_RTorrentConnected :: bool
  dst_RTorrentVersion :: string
  dst_SABnzbdConnected :: bool
  dst_SABnzbdVersion :: string
  dst_NZBGetConnected :: bool
  dst_NZBGetVersion :: string
  dst_LastReconcile :: "int option"
  dst_ObservedGeneration :: int

record DownloadStackConfig =
  dsc_ObjectMeta :: ObjectMeta
  dsc_Spec :: DownloadStackConfigSpec
  dsc_Status :: DownloadStackConfigStatus

end
