(* ===== verification/Gluetun.thy ===== *)
theory Gluetun
  imports Stack_Types Go_Values
begin

text \<open>
  \<^verbatim>\<open>src/internal/adapters/downloadstack/gluetun.go\<close>: the environment of the VPN container and the
  hash by which the controller notices that it changed. SHA-256, cut to its first eight bytes and
  printed in hexadecimal, is the parameter \<open>sha256_8\<close>.
\<close>

section \<open>The environment\<close>

definition joinInts :: "int list \<Rightarrow> string" where
  "joinInts ints = join '','' (map Itoa ints)"

record GluetunEnvInput =
  gei_Spec :: GluetunSpec
  gei_Username :: string
  gei_Password :: string
  gei_PrivateKey :: string

text \<open>The blocks of the code, each for one section of the spec.\<close>

definition on_off :: "bool \<Rightarrow> string" where
  "on_off b = (if b then ''on'' else ''off'')"

definition vpn_credentials :: "GluetunEnvInput \<Rightarrow> (string, string) gomap \<Rightarrow> (string, string) gomap" where
  "vpn_credentials input env =
     (if glu_VPNType (gei_Spec input) = ''wireguard''
      then set_if (gei_PrivateKey input \<noteq> '''') ''WIREGUARD_PRIVATE_KEY'' (gei_PrivateKey input) env
      else set_if (gei_Password input \<noteq> '''') ''OPENVPN_PASSWORD'' (gei_Password input)
          (set_if (gei_Username input \<noteq> '''') ''OPENVPN_USER'' (gei_Username input) env))"

definition server_env :: "GluetunServerSpec \<Rightarrow> (string, string) gomap \<Rightarrow> (string, string) gomap" where
  "server_env server env =
     set_if (0 < length (glu_server_Hostnames server)) ''SERVER_HOSTNAMES'' (join '','' (glu_server_Hostnames server))
    (set_if (0 < length (glu_server_Cities server)) ''SERVER_CITIES'' (join '','' (glu_server_Cities server))
    (set_if (0 < length (glu_server_Countries server)) ''SERVER_COUNTRIES'' (join '','' (glu_server_Countries server))
    (set_if (0 < length (glu_server_Regions server)) ''SERVER_REGIONS'' (join '','' (glu_server_Regions server)) env)))"

definition firewall_env :: "GluetunFirewallSpec \<Rightarrow> (string, string) gomap \<Rightarrow> (string, string) gomap" where
  "firewall_env firewall env =
     set_if (glu_firewall_Debug firewall) ''FIREWALL_DEBUG'' ''on''
    (set_if (0 < length (glu_firewall_OutboundSubnets firewall)) ''FIREWALL_OUTBOUND_SUBNETS'' (join '','' (glu_firewall_OutboundSubnets firewall))
    (set_if (0 < length (glu_firewall_InputPorts firewall)) ''FIREWALL_INPUT_PORTS'' (joinInts (glu_firewall_InputPorts firewall))
    (set_if (0 < length (glu_firewall_VPNInputPorts firewall)) ''FIREWALL_VPN_INPUT_PORTS'' (joinInts (glu_firewall_VPNInputPorts firewall)) env)))"

definition dns_env :: "GluetunDNSSpec \<Rightarrow> (string, string) gomap \<Rightarrow> (string, string) gomap" where
  "dns_env dns env =
     set_if (glu_dns_KeepNameserver dns) ''DNS_KEEP_NAMESERVER'' ''on''
    (set_if (glu_dns_PlaintextAddress dns \<noteq> '''') ''DNS_PLAINTEXT_ADDRESS'' (glu_dns_PlaintextAddress dns)
    (gm_set ''DOT'' (on_off (glu_dns_OverTLS dns)) env))"

definition GenerateGluetunEnv :: "GluetunEnvInput \<Rightarrow> (string, string) gomap" where
  "GenerateGluetunEnv input =
     (let spec = gei_Spec input
      in on_section (glu_Logging spec) (\<lambda>logging. set_if (glu_logging_Level logging \<noteq> '''') ''LOG_LEVEL'' (glu_logging_Level logging))
        (on_section (glu_IPv6 spec) (\<lambda>ipv6. gm_set ''OPENVPN_IPV6'' (if \<not> glu_ipv6_Enabled ipv6 then ''off'' else ''on''))
        (on_section (glu_DNS spec) dns_env
        (on_section (glu_KillSwitch spec) (\<lambda>kill. gm_set ''BLOCK_WITHOUT_VPN'' (on_off (glu_killswitch_Enabled kill)))
        (on_section (glu_Firewall spec) firewall_env
        (on_section (glu_Server spec) server_env
        (vpn_credentials input
        (gm_set ''VPN_TYPE'' (glu_VPNType spec)
        (gm_set ''VPN_SERVICE_PROVIDER'' (glu_provider_Name (glu_Provider spec)) [])))))))))"

section \<open>The hash\<close>

definition env_line :: "(string \<Rightarrow> string option) \<Rightarrow> string \<Rightarrow> string" where
  "env_line env k = k @ ''='' @ (case env k of None \<Rightarrow> '''' | Some v \<Rightarrow> v)"

text \<open>The code ranges over the map and sorts the keys, so the order of the range does not matter.\<close>

definition hashed_text :: "(string, string) gomap \<Rightarrow> string" where
  "hashed_text env = concat (map (\<lambda>k. env_line (map_of env) k @ [CHR 0x0A]) (sort (map fst env)))"

definition HashGluetunEnv :: "(string \<Rightarrow> string) \<Rightarrow> (string, string) gomap \<Rightarrow> string" where
  "HashGluetunEnv sha256_8 env = sha256_8 (hashed_text env)"

section \<open>Which variables are set\<close>

definition gluetun_keys :: "string list" where
  "gluetun_keys = [''VPN_SERVICE_PROVIDER'', ''VPN_TYPE'', ''WIREGUARD_PRIVATE_KEY'', ''OPENVPN_PASSWORD'', ''OPENVPN_USER'',
     ''SERVER_HOSTNAMES'', ''SERVER_CITIES'', ''SERVER_COUNTRIES'', ''SERVER_REGIONS'', ''FIREWALL_DEBUG'',
     ''FIREWALL_OUTBOUND_SUBNETS'', ''FIREWALL_INPUT_PORTS'', ''FIREWALL_VPN_INPUT_PORTS'', ''BLOCK_WITHOUT_VPN'',
     ''DNS_KEEP_NAMESERVER'', ''DNS_PLAINTEXT_ADDRESS'', ''DOT'', ''OPENVPN_IPV6'', ''LOG_LEVEL'']"

definition keyed_by :: "string list \<Rightarrow> (string, 'v) gomap \<Rightarrow> bool" where
  "keyed_by ks m \<longleftrightarrow> gm_ok m \<and> fst ` set m \<subseteq> set ks"

lemma keyed_by_Nil: "keyed_by ks []"
  by (simp add: keyed_by_def)

lemma dom_gm_set: "fst ` set (gm_set k v m) = insert k (fst ` set m)"
  by (metis dom_map_of_conv_image_fst fun_upd_apply map_of_gm_set dom_fun_upd option.distinct(1))

lemma keyed_by_set: "k \<in> set ks \<Longrightarrow> keyed_by ks m \<Longrightarrow> keyed_by ks (gm_set k v m)"
  by (auto simp: keyed_by_def dom_gm_set)

lemma keyed_by_set_if: "k \<in> set ks \<Longrightarrow> keyed_by ks m \<Longrightarrow> keyed_by ks (set_if c k v m)"
  by (simp add: set_if_def keyed_by_set)

lemma keyed_by_section:
  "(\<And>s m. keyed_by ks m \<Longrightarrow> keyed_by ks (f s m)) \<Longrightarrow> keyed_by ks m \<Longrightarrow> keyed_by ks (on_section sec f m)"
  by (simp add: on_section_def split: option.split)

lemmas keyed_by_intros = keyed_by_set keyed_by_set_if keyed_by_Nil

lemma vpn_credentials_keys: "keyed_by gluetun_keys m \<Longrightarrow> keyed_by gluetun_keys (vpn_credentials input m)"
  unfolding vpn_credentials_def
  by (cases "glu_VPNType (gei_Spec input) = ''wireguard''") (simp_all add: keyed_by_set_if gluetun_keys_def)

lemma server_env_keys: "keyed_by gluetun_keys m \<Longrightarrow> keyed_by gluetun_keys (server_env server m)"
  unfolding server_env_def by (intro keyed_by_intros) (simp_all add: gluetun_keys_def)

lemma firewall_env_keys: "keyed_by gluetun_keys m \<Longrightarrow> keyed_by gluetun_keys (firewall_env firewall m)"
  unfolding firewall_env_def by (intro keyed_by_intros) (simp_all add: gluetun_keys_def)

lemma dns_env_keys: "keyed_by gluetun_keys m \<Longrightarrow> keyed_by gluetun_keys (dns_env dns m)"
  unfolding dns_env_def by (intro keyed_by_intros) (simp_all add: gluetun_keys_def)

lemma GenerateGluetunEnv_keys: "keyed_by gluetun_keys (GenerateGluetunEnv input)"
  unfolding GenerateGluetunEnv_def Let_def
  by (intro keyed_by_section vpn_credentials_keys server_env_keys firewall_env_keys dns_env_keys keyed_by_intros)
    (assumption | simp add: gluetun_keys_def)+

section \<open>The hash detects every change\<close>

lemma cut_inject:
  assumes "c \<notin> set k" "c \<notin> set k'" "k @ c # v = k' @ c # v'"
  shows "k = k' \<and> v = v'"
  using assms
proof (induction k arbitrary: k')
  case Nil
  then show ?case by (cases k') auto
next
  case (Cons a k)
  then show ?case by (cases k') auto
qed

lemma lines_inject:
  "\<forall>l \<in> set ls. nl \<notin> set l \<Longrightarrow> \<forall>l \<in> set ls'. nl \<notin> set l \<Longrightarrow>
    concat (map (\<lambda>l. l @ [nl]) ls) = concat (map (\<lambda>l. l @ [nl]) ls') \<Longrightarrow> ls = ls'"
proof (induction ls arbitrary: ls')
  case Nil
  then show ?case by (cases ls') auto
next
  case (Cons l ls)
  then obtain l' ms where ls': "ls' = l' # ms" by (cases ls') auto
  have "l @ nl # concat (map (\<lambda>l. l @ [nl]) ls) = l' @ nl # concat (map (\<lambda>l. l @ [nl]) ms)"
    using Cons.prems(3) by (simp add: ls')
  then have "l = l' \<and> concat (map (\<lambda>l. l @ [nl]) ls) = concat (map (\<lambda>l. l @ [nl]) ms)"
    using Cons.prems(1,2) by (intro cut_inject [where c = nl]) (simp_all add: ls')
  moreover have "\<forall>l \<in> set ls. nl \<notin> set l" "\<forall>l \<in> set ms. nl \<notin> set l"
    using Cons.prems(1,2) by (simp_all add: ls')
  ultimately show ?case using Cons.IH [of ms] by (simp add: ls')
qed

text \<open>Values of one line, under keys that are names.\<close>

definition single_lines :: "(string, string) gomap \<Rightarrow> bool" where
  "single_lines env \<longleftrightarrow> (\<forall>(k, v) \<in> set env. CHR 0x0A \<notin> set v)"

definition plain_keys :: "(string, 'v) gomap \<Rightarrow> bool" where
  "plain_keys env \<longleftrightarrow> (\<forall>k \<in> fst ` set env. CHR 0x0A \<notin> set k \<and> CHR ''='' \<notin> set k)"

lemma hashed_text_inject:
  assumes "gm_ok env" "gm_ok env'" "plain_keys env" "plain_keys env'" "single_lines env" "single_lines env'"
    and "hashed_text env = hashed_text env'"
  shows "map_of env = map_of env'"
proof -
  let ?ls = "\<lambda>env. map (env_line (map_of env)) (sort (map fst env))"
  have flat: "CHR 0x0A \<notin> set l" if "l \<in> set (?ls env)" "plain_keys env" "single_lines env" for l env
  proof -
    have "l \<in> env_line (map_of env) ` fst ` set env" using that(1) by simp
    then obtain k where k: "k \<in> fst ` set env" "l = env_line (map_of env) k" by blast
    then obtain v where v: "map_of env k = Some v" by (metis domD dom_map_of_conv_image_fst)
    have "CHR 0x0A \<notin> set k" using k(1) that(2) unfolding plain_keys_def by blast
    moreover have "CHR 0x0A \<notin> set v" using map_of_SomeD [OF v] that(3) unfolding single_lines_def by blast
    ultimately show ?thesis by (simp add: k(2) v env_line_def)
  qed
  have joined: "hashed_text env = concat (map (\<lambda>l. l @ [CHR 0x0A]) (?ls env))" for env
    by (simp add: hashed_text_def comp_def)
  have "?ls env = ?ls env'"
    using flat [OF _ assms(3,5)] flat [OF _ assms(4,6)] assms(7) unfolding joined
    by (intro lines_inject [where nl = "CHR 0x0A"]) blast+
  then have "set (?ls env) = set (?ls env')" by simp
  then have lines: "env_line (map_of env) ` fst ` set env = env_line (map_of env') ` fst ` set env'"
    by simp
  have some: "map_of env' k = Some v"
    if "env_line (map_of env) ` fst ` set env = env_line (map_of env') ` fst ` set env'" "plain_keys env" "plain_keys env'"
      "map_of env k = Some v" for env env' :: "(string, string) gomap" and k v
  proof -
    have k: "k \<in> fst ` set env" using that(4) by (metis domI dom_map_of_conv_image_fst)
    then have "env_line (map_of env) k \<in> env_line (map_of env') ` fst ` set env'"
      using that(1) by blast
    then obtain k' where k': "k' \<in> fst ` set env'" "env_line (map_of env) k = env_line (map_of env') k'"
      by blast
    obtain v' where v': "map_of env' k' = Some v'"
      using k'(1) by (metis domD dom_map_of_conv_image_fst)
    have "k @ CHR ''='' # v = k' @ CHR ''='' # v'"
      using k'(2) by (simp add: env_line_def that(4) v')
    moreover have "CHR ''='' \<notin> set k" using that(2) k unfolding plain_keys_def by blast
    moreover have "CHR ''='' \<notin> set k'" using that(3) k'(1) unfolding plain_keys_def by blast
    ultimately have "k = k' \<and> v = v'" by (intro cut_inject)
    then show ?thesis using v' by simp
  qed
  show ?thesis
  proof
    fix k
    show "map_of env k = map_of env' k"
      using some [OF lines assms(3,4)] some [OF lines [symmetric] assms(4,3)] by (metis not_None_eq)
  qed
qed

lemma sort_keys: "gm_ok env \<Longrightarrow> gm_ok env' \<Longrightarrow> map_of env = map_of env' \<Longrightarrow> sort (map fst env) = sort (map fst env')"
  by (metis dom_map_of_conv_image_fst gm_ok_def set_eq_iff_mset_eq_distinct list.set_map properties_for_sort mset_sort sorted_sort)

lemma gluetun_plain: "plain_keys (GenerateGluetunEnv input)"
proof -
  have "\<forall>k \<in> set gluetun_keys. CHR 0x0A \<notin> set k \<and> CHR ''='' \<notin> set k" by (simp add: gluetun_keys_def)
  then show ?thesis
    using GenerateGluetunEnv_keys [of input] by (auto simp: keyed_by_def plain_keys_def)
qed

text \<open>
  C12. The hash of the Gluetun environment detects every change and nothing else: for two
  environments without line breaks in their values whose texts SHA-256 tells apart, the hashes
  agree exactly if the environments do.
\<close>

theorem Gluetun_hash_detects_changes:
  assumes "single_lines (GenerateGluetunEnv input)" and "single_lines (GenerateGluetunEnv input')"
    and "sha256_8 (hashed_text (GenerateGluetunEnv input)) = sha256_8 (hashed_text (GenerateGluetunEnv input')) \<longrightarrow>
      hashed_text (GenerateGluetunEnv input) = hashed_text (GenerateGluetunEnv input')"
  shows "HashGluetunEnv sha256_8 (GenerateGluetunEnv input) = HashGluetunEnv sha256_8 (GenerateGluetunEnv input') \<longleftrightarrow>
    map_of (GenerateGluetunEnv input) = map_of (GenerateGluetunEnv input')"
proof
  have ok: "gm_ok (GenerateGluetunEnv i)" for i using GenerateGluetunEnv_keys by (simp add: keyed_by_def)
  assume "HashGluetunEnv sha256_8 (GenerateGluetunEnv input) = HashGluetunEnv sha256_8 (GenerateGluetunEnv input')"
  then have "hashed_text (GenerateGluetunEnv input) = hashed_text (GenerateGluetunEnv input')"
    using assms(3) by (simp add: HashGluetunEnv_def)
  then show "map_of (GenerateGluetunEnv input) = map_of (GenerateGluetunEnv input')"
    by (rule hashed_text_inject [OF ok ok gluetun_plain gluetun_plain assms(1,2)])
next
  have ok: "gm_ok (GenerateGluetunEnv i)" for i using GenerateGluetunEnv_keys by (simp add: keyed_by_def)
  assume same: "map_of (GenerateGluetunEnv input) = map_of (GenerateGluetunEnv input')"
  from sort_keys [OF ok ok this] same show "HashGluetunEnv sha256_8 (GenerateGluetunEnv input) = HashGluetunEnv sha256_8 (GenerateGluetunEnv input')"
    by (simp add: HashGluetunEnv_def hashed_text_def)
qed

definition sample_gluetun :: "string \<Rightarrow> GluetunEnvInput" where
  "sample_gluetun user =
     \<lparr>gei_Spec = \<lparr>glu_Provider = \<lparr>glu_provider_Name = ''mullvad'', glu_provider_CredentialsSecretRef = None, glu_provider_PrivateKeySecretRef = None\<rparr>,
        glu_VPNType = ''openvpn'', glu_Server = Some \<lparr>glu_server_Regions = [''Europe'', ''Asia''], glu_server_Countries = [], glu_server_Cities = [],
          glu_server_Hostnames = []\<rparr>,
        glu_Firewall = None, glu_KillSwitch = Some \<lparr>glu_killswitch_Enabled = True\<rparr>, glu_DNS = None, glu_IPv6 = None, glu_Logging = None\<rparr>,
      gei_Username = user, gei_Password = '''', gei_PrivateKey = ''''\<rparr>"

lemma sample_gluetun_env:
  "GenerateGluetunEnv (sample_gluetun ''u'') =
    [(''VPN_SERVICE_PROVIDER'', ''mullvad''), (''VPN_TYPE'', ''openvpn''), (''OPENVPN_USER'', ''u''), (''SERVER_REGIONS'', ''Europe,Asia''),
     (''BLOCK_WITHOUT_VPN'', ''on'')]"
  "GenerateGluetunEnv (sample_gluetun ''v'') =
    [(''VPN_SERVICE_PROVIDER'', ''mullvad''), (''VPN_TYPE'', ''openvpn''), (''OPENVPN_USER'', ''v''), (''SERVER_REGIONS'', ''Europe,Asia''),
     (''BLOCK_WITHOUT_VPN'', ''on'')]"
  by code_simp+

theorem Gluetun_hash_detects_changes_witness:
  "HashGluetunEnv rev (GenerateGluetunEnv (sample_gluetun ''u'')) \<noteq> HashGluetunEnv rev (GenerateGluetunEnv (sample_gluetun ''v''))"
proof -
  have lines: "single_lines (GenerateGluetunEnv (sample_gluetun ''u''))" "single_lines (GenerateGluetunEnv (sample_gluetun ''v''))"
    by (simp_all add: sample_gluetun_env single_lines_def)
  have "map_of (GenerateGluetunEnv (sample_gluetun ''u'')) ''OPENVPN_USER'' \<noteq> map_of (GenerateGluetunEnv (sample_gluetun ''v'')) ''OPENVPN_USER''"
    by (simp add: sample_gluetun_env)
  then have "map_of (GenerateGluetunEnv (sample_gluetun ''u'')) \<noteq> map_of (GenerateGluetunEnv (sample_gluetun ''v''))" by metis
  then show ?thesis
    using Gluetun_hash_detects_changes [OF lines, of rev] by simp
qed

end
