(* ===== verification/Transmission.thy ===== *)
theory Transmission
  imports Gluetun Reconcile_Status
begin

unbundle bit_operations_syntax

text \<open>
  \<^verbatim>\<open>src/internal/adapters/downloadstack/transmission_client.go\<close> and \<^verbatim>\<open>transmission_settings.go\<close>: the
  client of Transmission's RPC interface, which keeps a session ID and repeats a request when the
  session has expired or the network fails, and the settings built from the custom resource.
  \<^verbatim>\<open>http.Client.Do\<close>, \<^verbatim>\<open>time.Sleep\<close> and the JSON codecs are fields of the client's record;
  \<^verbatim>\<open>strconv.ParseFloat\<close> is a parameter that gives finite numbers.
\<close>

section \<open>Data\<close>

record TransmissionRPCRequest =
  trq_Method :: string
  trq_Arguments :: "(string, GoValue) gomap"
  trq_Tag :: int

record TransmissionRPCResponse =
  trs_Result :: string
  trs_Arguments :: "(string, JsonValue) gomap"
  trs_Tag :: int

record TransmissionSession =
  ts_Version :: string
  ts_SpeedLimitDown :: int
  ts_SpeedLimitDownEnabled :: bool
  ts_SpeedLimitUp :: int
  ts_SpeedLimitUpEnabled :: bool
  ts_AltSpeedEnabled :: bool
  ts_AltSpeedDown :: int
  ts_AltSpeedUp :: int
  ts_AltSpeedTimeEnabled :: bool
  ts_AltSpeedTimeBegin :: int
  ts_AltSpeedTimeEnd :: int
  ts_AltSpeedTimeDay :: int
  ts_DownloadDir :: string
  ts_IncompleteDirEnabled :: bool
  ts_IncompleteDir :: string
  ts_SeedRatioLimit :: rat
  ts_SeedRatioLimited :: bool
  ts_IdleSeedingLimit :: int
  ts_IdleSeedingLimitEnabled :: bool
  ts_DownloadQueueSize :: int
  ts_DownloadQueueEnabled :: bool
  ts_SeedQueueSize :: int
  ts_SeedQueueEnabled :: bool
  ts_QueueStalledEnabled :: bool
  ts_QueueStalledMinutes :: int
  ts_PeerLimitGlobal :: int
  ts_PeerLimitPerTorrent :: int
  ts_PeerPort :: int
  ts_PeerPortRandomOnStart :: bool
  ts_PortForwardingEnabled :: bool
  ts_Encryption :: string
  ts_PexEnabled :: bool
  ts_DhtEnabled :: bool
  ts_LpdEnabled :: bool
  ts_UtpEnabled :: bool
  ts_BlocklistEnabled :: bool
  ts_BlocklistURL :: string
  ts_BlocklistSize :: int

record TransmissionJSON =
  tj_request :: "TransmissionRPCRequest JSON"
  tj_response :: "TransmissionRPCResponse JSON"
  tj_arguments :: "(string, JsonValue) gomap JSON"
  tj_session :: "TransmissionSession JSON"

record 'w TransmissionClient =
  trc_baseURL :: string
  trc_rpcURL :: string
  trc_sessionID :: string
  trc_username :: string
  trc_password :: string
  trc_Do :: "'w transport"
  trc_Sleep :: "nat \<Rightarrow> 'w \<Rightarrow> 'w"
  trc_json :: TransmissionJSON

type_synonym ('w, 'a) transmission_call = "('w TransmissionClient \<times> 'w, 'a) action"

definition SessionHeader :: string where
  "SessionHeader = ''X-Transmission-Session-Id''"

definition MaxRetries :: nat where
  "MaxRetries = 3"

text \<open>The transport is that of a client with the timeout \<^verbatim>\<open>DefaultTimeout\<close>.\<close>

definition NewTransmissionClient ::
    "(int \<Rightarrow> 'w transport) \<Rightarrow> (nat \<Rightarrow> 'w \<Rightarrow> 'w) \<Rightarrow> TransmissionJSON \<Rightarrow> string \<Rightarrow> string \<Rightarrow> string \<Rightarrow> 'w TransmissionClient" where
  "NewTransmissionClient http_client sleep json baseURL username password =
     \<lparr>trc_baseURL = baseURL, trc_rpcURL = baseURL @ ''/transmission/rpc'', trc_sessionID = '''', trc_username = username,
      trc_password = password, trc_Do = http_client DefaultTimeout, trc_Sleep = sleep, trc_json = json\<rparr>"

section \<open>Requests\<close>

definition quoted :: "string \<Rightarrow> string" where
  "quoted s = CHR 0x22 # s @ [CHR 0x22]"

definition basic_auth :: "string \<Rightarrow> string \<Rightarrow> HttpRequest \<Rightarrow> HttpRequest" where
  "basic_auth username password req = (if username \<noteq> '''' then SetBasicAuth username password req else req)"

definition send :: "(HttpRequest \<Rightarrow> HttpRequest) \<Rightarrow> HttpRequest \<Rightarrow> ('w, HttpResponse) transmission_call" where
  "send headers req = with_client (\<lambda>c. on_service (trc_Do c (basic_auth (trc_username c) (trc_password c) (headers req))))"

definition rpc_post :: "string \<Rightarrow> ('w, HttpRequest) transmission_call" where
  "rpc_post body =
     with_client (\<lambda>c. wrap_err ''failed to create request'' (of_outcome (NewRequest ''POST'' (trc_rpcURL c) (Some body))))"

definition set_session :: "string \<Rightarrow> string \<Rightarrow> ('w, 'a) transmission_call \<Rightarrow> ('w, 'a) transmission_call" where
  "set_session sid missing k = on_config (trc_sessionID_update (\<lambda>_. sid)) (if sid = '''' then fail missing else k)"

definition getSessionID :: "('w, unit) transmission_call" where
  "getSessionID =
     andThen (rpc_post (''{'' @ quoted ''method'' @ '':'' @ quoted ''session-get'' @ ''}'')) (\<lambda>req.
     andThen (wrap_err ''failed to send request'' (send (set_header ''Content-Type'' ''application/json'') req)) (\<lambda>resp.
     if rs_StatusCode resp = 409 then set_session (get_header resp SessionHeader) ''no session ID in 409 response'' (give ())
     else if rs_StatusCode resp = 200 then set_session (get_header resp SessionHeader) ''successful response but no session ID'' (give ())
     else fail (''unexpected status code getting session: '' @ Itoa (rs_StatusCode resp))))"

definition ensure_session :: "('w, unit) transmission_call" where
  "ensure_session =
     with_client (\<lambda>c. if trc_sessionID c = '''' then wrap_err ''failed to get session ID'' getSessionID else give ())"

definition session_headers :: "'w TransmissionClient \<Rightarrow> HttpRequest \<Rightarrow> HttpRequest" where
  "session_headers c req = set_header SessionHeader (trc_sessionID c) (set_header ''Content-Type'' ''application/json'' req)"

text \<open>An answer that is neither an expired session nor a network error.\<close>

definition read_answer :: "HttpResponse \<Rightarrow> ('w, TransmissionRPCResponse) transmission_call" where
  "read_answer resp =
     (if rs_StatusCode resp = 401 then fail ''unauthorized - invalid credentials''
      else if rs_StatusCode resp \<noteq> 200 then fail (http_error resp)
      else andThen (wrap_err ''failed to decode response'' (with_client (\<lambda>c. of_outcome (Unmarshal (tj_response (trc_json c)) (rs_Body resp)))))
        (\<lambda>rpcResp. if trs_Result rpcResp \<noteq> ''success'' then fail (''RPC error: '' @ trs_Result rpcResp) else give rpcResp))"

definition sleep_seconds :: "nat \<Rightarrow> ('w, unit) transmission_call" where
  "sleep_seconds n = with_client (\<lambda>c cw. (Ok (), (fst cw, trc_Sleep c n (snd cw))))"

text \<open>The loop of \<^verbatim>\<open>request\<close>; \<open>attempt\<close> is its counter.\<close>

function attempt_request :: "string \<Rightarrow> nat \<Rightarrow> ('w, TransmissionRPCResponse) transmission_call" where
  "attempt_request body attempt =
     (if attempt \<le> MaxRetries then
        andThen ensure_session (\<lambda>_.
        andThen (rpc_post body) (\<lambda>req.
        if_err (with_client (\<lambda>c. send (session_headers c) req))
          (\<lambda>err. if attempt < MaxRetries then andThen (sleep_seconds (2 ^ attempt)) (\<lambda>_. attempt_request body (attempt + 1))
                 else fail (''request failed after retries: '' @ err))
          (\<lambda>resp. if rs_StatusCode resp = 409
                  then set_session (get_header resp SessionHeader) ''session expired but no new ID provided'' (attempt_request body (attempt + 1))
                  else read_answer resp)))
      else fail ''request failed - max retries exceeded'')"
  by pat_completeness auto
termination
  by (relation "measure (\<lambda>(body, attempt). Suc MaxRetries - attempt)") auto

declare attempt_request.simps [simp del]

definition request :: "string \<Rightarrow> (string, GoValue) gomap \<Rightarrow> ('w, TransmissionRPCResponse) transmission_call" where
  "request method arguments =
     andThen (with_client (\<lambda>c. wrap_err ''failed to marshal request''
       (of_outcome (Marshal (tj_request (trc_json c)) \<lparr>trq_Method = method, trq_Arguments = arguments, trq_Tag = 0\<rparr>)))) (\<lambda>body.
     attempt_request body 0)"

section \<open>The calls\<close>

definition GetSession :: "('w, TransmissionSession) transmission_call" where
  "GetSession =
     andThen (request ''session-get'' []) (\<lambda>resp.
     with_client (\<lambda>c.
       andThen (wrap_err ''failed to marshal arguments'' (of_outcome (Marshal (tj_arguments (trc_json c)) (trs_Arguments resp)))) (\<lambda>argBytes.
       wrap_err ''failed to unmarshal session'' (of_outcome (Unmarshal (tj_session (trc_json c)) argBytes)))))"

definition TestConnection :: "('w, unit) transmission_call" where
  "TestConnection = discard GetSession"

definition SetSession :: "(string, GoValue) gomap \<Rightarrow> ('w, unit) transmission_call" where
  "SetSession settings = discard (request ''session-set'' settings)"

definition GetSessionStats :: "('w, (string, JsonValue) gomap) transmission_call" where
  "GetSessionStats = andThen (request ''session-stats'' []) (\<lambda>resp. give (trs_Arguments resp))"

definition UpdateBlocklist :: "('w, unit) transmission_call" where
  "UpdateBlocklist = discard (request ''blocklist-update'' [])"

section \<open>The interface\<close>

text \<open>What the controller uses, for the client above and for others.\<close>

record 's TransmissionClientInterface =
  tci_TestConnection :: "('s, unit) action"
  tci_GetSession :: "('s, TransmissionSession) action"
  tci_SetSession :: "(string, GoValue) gomap \<Rightarrow> ('s, unit) action"
  tci_GetSessionStats :: "('s, (string, JsonValue) gomap) action"
  tci_UpdateBlocklist :: "('s, unit) action"

definition transmission_interface :: "('w TransmissionClient \<times> 'w) TransmissionClientInterface" where
  "transmission_interface =
     \<lparr>tci_TestConnection = TestConnection, tci_GetSession = GetSession, tci_SetSession = SetSession,
      tci_GetSessionStats = GetSessionStats, tci_UpdateBlocklist = UpdateBlocklist\<rparr>"

definition GetTransmissionVersion :: "'s TransmissionClientInterface \<Rightarrow> ('s, string) action" where
  "GetTransmissionVersion client = andThen (tci_GetSession client) (\<lambda>session. give (ts_Version session))"

section \<open>Settings\<close>

text \<open>The days are 1 for Monday to 7 for Sunday, the bits of the mask 0 for Sunday to 6 for Saturday.\<close>

definition day_bit :: "int \<Rightarrow> int" where
  "day_bit day =
     (if day = 1 then 2 else if day = 2 then 4 else if day = 3 then 8 else if day = 4 then 16
      else if day = 5 then 32 else if day = 6 then 64 else if day = 7 then 1 else 0)"

definition dayMask :: "int list \<Rightarrow> int" where
  "dayMask days = fold (\<lambda>day mask. mask OR day_bit day) days 0"

definition transmission_speed :: "TransmissionSpeedSpec \<Rightarrow> (string, GoValue) gomap \<Rightarrow> (string, GoValue) gomap" where
  "transmission_speed speed = steps
     [gm_set ''speed-limit-down'' (VInt (tr_speed_DownloadLimit speed)),
      gm_set ''speed-limit-down-enabled'' (VBool (tr_speed_DownloadLimitEnabled speed)),
      gm_set ''speed-limit-up'' (VInt (tr_speed_UploadLimit speed)),
      gm_set ''speed-limit-up-enabled'' (VBool (tr_speed_UploadLimitEnabled speed))]"

definition transmission_alt_speed :: "TransmissionAltSpeedSpec \<Rightarrow> (string, GoValue) gomap \<Rightarrow> (string, GoValue) gomap" where
  "transmission_alt_speed alt = steps
     [gm_set ''alt-speed-enabled'' (VBool (tr_altspeed_Enabled alt)),
      gm_set ''alt-speed-down'' (VInt (tr_altspeed_Down alt)),
      gm_set ''alt-speed-up'' (VInt (tr_altspeed_Up alt)),
      gm_set ''alt-speed-time-enabled'' (VBool (tr_altspeed_TimeEnabled alt)),
      gm_set ''alt-speed-time-begin'' (VInt (tr_altspeed_TimeBegin alt)),
      gm_set ''alt-speed-time-end'' (VInt (tr_altspeed_TimeEnd alt)),
      set_if (0 < length (tr_altspeed_TimeDays alt)) ''alt-speed-time-day'' (VInt (dayMask (tr_altspeed_TimeDays alt)))]"

definition transmission_directories :: "TransmissionDirectoriesSpec \<Rightarrow> (string, GoValue) gomap \<Rightarrow> (string, GoValue) gomap" where
  "transmission_directories dirs = steps
     [set_if (tr_directories_Download dirs \<noteq> '''') ''download-dir'' (VString (tr_directories_Download dirs)),
      set_if (tr_directories_Incomplete dirs \<noteq> '''') ''incomplete-dir'' (VString (tr_directories_Incomplete dirs)),
      gm_set ''incomplete-dir-enabled'' (VBool (tr_directories_IncompleteEnabled dirs))]"

definition transmission_seeding :: "(string \<Rightarrow> rat option) \<Rightarrow> TransmissionSeedingSpec \<Rightarrow> (string, GoValue) gomap \<Rightarrow> (string, GoValue) gomap" where
  "transmission_seeding ParseFloat seeding = steps
     [if tr_seeding_RatioLimit seeding \<noteq> '''' then set_opt (ParseFloat (tr_seeding_RatioLimit seeding)) ''seedRatioLimit'' VFloat else (\<lambda>m. m),
      gm_set ''seedRatioLimited'' (VBool (tr_seeding_RatioLimited seeding)),
      gm_set ''idle-seeding-limit'' (VInt (tr_seeding_IdleLimit seeding)),
      gm_set ''idle-seeding-limit-enabled'' (VBool (tr_seeding_IdleLimitEnabled seeding))]"

definition transmission_queue :: "TransmissionQueueSpec \<Rightarrow> (string, GoValue) gomap \<Rightarrow> (string, GoValue) gomap" where
  "transmission_queue queue = steps
     [gm_set ''download-queue-size'' (VInt (tr_queue_DownloadSize queue)),
      gm_set ''download-queue-enabled'' (VBool (tr_queue_DownloadEnabled queue)),
      gm_set ''seed-queue-size'' (VInt (tr_queue_SeedSize queue)),
      gm_set ''seed-queue-enabled'' (VBool (tr_queue_SeedEnabled queue)),
      gm_set ''queue-stalled-enabled'' (VBool (tr_queue_StalledEnabled queue)),
      gm_set ''queue-stalled-minutes'' (VInt (tr_queue_StalledMinutes queue))]"

definition transmission_peers :: "TransmissionPeersSpec \<Rightarrow> (string, GoValue) gomap \<Rightarrow> (string, GoValue) gomap" where
  "transmission_peers peers = steps
     [set_if (tr_peers_LimitGlobal peers > 0) ''peer-limit-global'' (VInt (tr_peers_LimitGlobal peers)),
      set_if (tr_peers_LimitPerTorrent peers > 0) ''peer-limit-per-torrent'' (VInt (tr_peers_LimitPerTorrent peers)),
      set_if (tr_peers_Port peers > 0) ''peer-port'' (VInt (tr_peers_Port peers)),
      gm_set ''peer-port-random-on-start'' (VBool (tr_peers_RandomPort peers)),
      gm_set ''port-forwarding-enabled'' (VBool (tr_peers_PortForwardingEnabled peers))]"

definition transmission_security :: "TransmissionSecuritySpec \<Rightarrow> (string, GoValue) gomap \<Rightarrow> (string, GoValue) gomap" where
  "transmission_security security = steps
     [set_if (tr_security_Encryption security \<noteq> '''') ''encryption'' (VString (tr_security_Encryption security)),
      set_opt (tr_security_PEXEnabled security) ''pex-enabled'' VBool,
      set_opt (tr_security_DHTEnabled security) ''dht-enabled'' VBool,
      set_opt (tr_security_LPDEnabled security) ''lpd-enabled'' VBool,
      set_opt (tr_security_UTPEnabled security) ''utp-enabled'' VBool]"

definition transmission_blocklist :: "TransmissionBlocklistSpec \<Rightarrow> (string, GoValue) gomap \<Rightarrow> (string, GoValue) gomap" where
  "transmission_blocklist blocklist = steps
     [gm_set ''blocklist-enabled'' (VBool (tr_blocklist_Enabled blocklist)),
      set_if (tr_blocklist_URL blocklist \<noteq> '''') ''blocklist-url'' (VString (tr_blocklist_URL blocklist))]"

definition buildTransmissionSettings :: "(string \<Rightarrow> rat option) \<Rightarrow> TransmissionSpec \<Rightarrow> (string, GoValue) gomap" where
  "buildTransmissionSettings ParseFloat spec = steps
     [on_section (tr_Speed spec) transmission_speed,
      on_section (tr_AltSpeed spec) transmission_alt_speed,
      on_section (tr_Directories spec) transmission_directories,
      on_section (tr_Seeding spec) (transmission_seeding ParseFloat),
      on_section (tr_Queue spec) transmission_queue,
      on_section (tr_Peers spec) transmission_peers,
      on_section (tr_Security spec) transmission_security,
      on_section (tr_Blocklist spec) transmission_blocklist] []"

definition SyncTransmissionSettings ::
    "(string \<Rightarrow> rat option) \<Rightarrow> 's TransmissionClientInterface \<Rightarrow> TransmissionSpec \<Rightarrow> ('s, unit) action" where
  "SyncTransmissionSettings ParseFloat client spec =
     (let settings = buildTransmissionSettings ParseFloat spec
      in if length settings = 0 then give () else tci_SetSession client settings)"

end
