(* ===== verification/Stack_Answers.thy ===== *)
theory Stack_Answers
  imports Go_Values
begin

text \<open>
  The structs that the clients of \<^verbatim>\<open>src/internal/adapters/downloadstack\<close> decode the answers of the
  download clients into, one record per struct. A raw JSON message is its text.
\<close>

record QBittorrentPreferences =
  qbp_Locale :: string
  qbp_CreateSubfolderEnabled :: bool
  qbp_StartPausedEnabled :: bool
  qbp_AutoDeleteMode :: int
  qbp_PreallocateAll :: bool
  qbp_IncompleteFilesExt :: bool
  qbp_SavePath :: string
  qbp_TempPathEnabled :: bool
  qbp_TempPath :: string
  qbp_ExportDir :: string
  qbp_ExportDirFin :: string
  qbp_ScanDirs :: JsonValue
  qbp_MailNotificationEnabled :: bool
  qbp_MailNotificationSender :: string
  qbp_MailNotificationEmail :: string
  qbp_MailNotificationSmtp :: string
  qbp_MailNotificationSslEnabled :: bool
  qbp_MailNotificationAuthEnabled :: bool
  qbp_MailNotificationUsername :: string
  qbp_MailNotificationPassword :: string
  qbp_ListenPort :: int
  qbp_Upnp :: bool
  qbp_RandomPort :: bool
  qbp_MaxConnec :: int
  qbp_MaxConnecPerTorrent :: int
  qbp_MaxUploads :: int
  qbp_MaxUploadsPerTorrent :: int
  qbp_DlLimit :: int
  qbp_UpLimit :: int
  qbp_AltDlLimit :: int
  qbp_AltUpLimit :: int
  qbp_BittorrentProtocol :: int
  qbp_LimitUtpRate :: bool
  qbp_LimitTcpOverhead :: bool
  qbp_LimitLanPeers :: bool
  qbp_SchedulerEnabled :: bool
  qbp_ScheduleFromHour :: int
  qbp_ScheduleFromMin :: int
  qbp_ScheduleToHour :: int
  qbp_ScheduleToMin :: int
  qbp_SchedulerDays :: int
  qbp_Dht :: bool
  qbp_Pex :: bool
  qbp_Lsd :: bool
  qbp_Encryption :: int
  qbp_AnonymousMode :: bool
  qbp_QueueingEnabled :: bool
  qbp_MaxActiveDownloads :: int
  qbp_MaxActiveTorrents :: int
  qbp_MaxActiveUploads :: int
  qbp_DontCountSlowTorrents :: bool
  qbp_SlowTorrentDlRateThreshold :: int
  qbp_SlowTorrentUlRateThreshold :: int
  qbp_SlowTorrentInactiveTimer :: int
  qbp_MaxRatio :: rat
  qbp_MaxRatioEnabled :: bool
  qbp_MaxSeedingTime :: int
  qbp_MaxSeedingTimeEnabled :: bool
  qbp_MaxRatioAct :: int
  qbp_WebUiDomainList :: string
  qbp_WebUiAddress :: string
  qbp_WebUiPort :: int
  qbp_WebUiUpnp :: bool
  qbp_WebUiUsername :: string
  qbp_WebUiPassword :: string
  qbp_WebUiCsrfProtectionEnabled :: bool
  qbp_WebUiClickjackingProtectionEnabled :: bool
  qbp_WebUiSecureCookieEnabled :: bool
  qbp_WebUiMaxAuthFailCount :: int
  qbp_WebUiBanDuration :: int
  qbp_WebUiSessionTimeout :: int
  qbp_BypassLocalAuth :: bool
  qbp_BypassAuthSubnetWhitelistEnabled :: bool
  qbp_BypassAuthSubnetWhitelist :: string
  qbp_AlternativeWebuiEnabled :: bool
  qbp_AlternativeWebuiPath :: string
  qbp_UseHttps :: bool

record DelugeRPCError =
  dle_Message :: string
  dle_Code :: int

record DelugeRPCResponse =
  dlr_ID :: int
  dlr_Result :: string
  dlr_Error :: "DelugeRPCError option"

record DelugeConfig =
  dlc_DownloadLocation :: string
  dlc_MoveCompleted :: bool
  dlc_MoveCompletedPath :: string
  dlc_AutoManagedDefault :: bool
  dlc_CopyTorrentFile :: bool
  dlc_TorrentfilesLocation :: string
  dlc_MaxDownloadSpeed :: rat
  dlc_MaxUploadSpeed :: rat
  dlc_MaxDownloadSpeedPerTorrent :: rat
  dlc_MaxUploadSpeedPerTorrent :: rat
  dlc_MaxConnections :: int
  dlc_MaxConnectionsPerTorrent :: int
  dlc_MaxUploadSlots :: int
  dlc_MaxUploadSlotsPerTorrent :: int
  dlc_StopSeedAtRatio :: bool
  dlc_StopSeedRatio :: rat
  dlc_RemoveAtRatio :: bool
  dlc_ShareRatioLimit :: rat
  dlc_SeedTimeRatioLimit :: rat
  dlc_SeedTimeLimit :: int
  dlc_MaxActiveDownloading :: int
  dlc_MaxActiveSeeding :: int
  dlc_MaxActiveLimit :: int
  dlc_QueueNewToTop :: bool
  dlc_StopSeedWhenShareRatioReached :: bool
  dlc_ListenPorts :: "int list"
  dlc_RandomPort :: bool
  dlc_ListenInterface :: string
  dlc_OutgoingInterface :: string
  dlc_ListenUsesSysPorts :: bool
  dlc_ListenReusePorts :: bool
  dlc_DHTEnabled :: bool
  dlc_UPnPEnabled :: bool
  dlc_NATPMPEnabled :: bool
  dlc_LSDEnabled :: bool
  dlc_PEEnabled :: bool
  dlc_PEEncLevel :: int
  dlc_ProxyEnabled :: bool
  dlc_ProxyHostname :: string
  dlc_ProxyPort :: int
  dlc_ProxyUsername :: string
  dlc_ProxyPassword :: string
  dlc_AddPaused :: bool
  dlc_PreAllocateStorage :: bool
  dlc_PrioritizeFirstLastPieces :: bool
  dlc_SequentialDownload :: bool
  dlc_SuperSeeding :: bool

record SABnzbdMiscConfig =
  sbm_DownloadDir :: string
  sbm_CompleteDir :: string
  sbm_IncompleteDir :: string
  sbm_ScriptDir :: string
  sbm_NzbBackupDir :: string
  sbm_AdminDir :: string
  sbm_LogDir :: string
  sbm_Bandwidth :: string
  sbm_BandwidthPerc :: int
  sbm_QueueCompleteAction :: string
  sbm_PreCheck :: bool
  sbm_Unpack :: bool
  sbm_UnpackReplace :: bool
  sbm_ScriptArgs :: string
  sbm_DirectUnpack :: bool
  sbm_EnableMeta :: bool
  sbm_SafeMode :: bool
  sbm_NoAssembly :: bool
  sbm_ParOption :: int
  sbm_HistoryRetention :: string
  sbm_EmailServer :: string
  sbm_EmailTo :: string
  sbm_EmailFrom :: string

record SABnzbdServerConfig =
  sbs_Name :: string
  sbs_Host :: string
  sbs_Port :: int
  sbs_Username :: string
  sbs_Password :: string
  sbs_Connections :: int
  sbs_SSL :: bool
  sbs_SSLVerify :: int
  sbs_Optional :: bool
  sbs_Retention :: int
  sbs_Enable :: bool
  sbs_Priority :: int

record SABnzbdCategory =
  sbk_Name :: string
  sbk_Order :: int
  sbk_Dir :: string
  sbk_Script :: string
  sbk_Priority :: int
  sbk_PostProc :: int

record SABnzbdConfig =
  sbc_Misc :: SABnzbdMiscConfig
  sbc_Servers :: "SABnzbdServerConfig list"
  sbc_Categories :: "SABnzbdCategory list"

record SABnzbdSlot =
  sbl_ID :: string
  sbl_Filename :: string
  sbl_Status :: string
  sbl_Size :: string
  sbl_SizeLeft :: string
  sbl_Percentage :: string
  sbl_Category :: string
  sbl_Priority :: string
  sbl_TimeLeft :: string

record SABnzbdQueue =
  sbq_Status :: string
  sbq_Paused :: bool
  sbq_PausedAll :: bool
  sbq_Speed :: string
  sbq_SpeedLimit :: string
  sbq_SpeedLimitAbs :: string
  sbq_SizeLeft :: string
  sbq_TimeLeft :: string
  sbq_NoOfSlots :: int
  sbq_NoOfSlotsTotal :: int
  sbq_Slots :: "SABnzbdSlot list"

record SABnzbdHistorySlot =
  sbhs_ID :: string
  sbhs_Name :: string
  sbhs_Status :: string
  sbhs_Size :: string
  sbhs_Category :: string
  sbhs_Completed :: int
  sbhs_FailMessage :: string

record SABnzbdHistory =
  sbh_NoOfSlots :: int
  sbh_Slots :: "SABnzbdHistorySlot list"

record SABnzbdResponse =
  sbr_Status :: bool
  sbr_Error :: string

record NZBGetRPCError =
  nge_Name :: string
  nge_Code :: int
  nge_Message :: string

record NZBGetRPCResponse =
  ngr_Result :: string
  ngr_Error :: "NZBGetRPCError option"
  ngr_ID :: int

record NZBGetConfigItem =
  ngc_Name :: string
  ngc_Value :: string

record NZBGetServerStatus =
  ngv_ID :: int
  ngv_Active :: bool

record NZBGetStatus =
  ngs_RemainingSizeLo :: int
  ngs_RemainingSizeHi :: int
  ngs_RemainingSizeMB :: int
  ngs_ForcedSizeLo :: int
  ngs_ForcedSizeHi :: int
  ngs_ForcedSizeMB :: int
  ngs_DownloadedSizeLo :: int
  ngs_DownloadedSizeHi :: int
  ngs_DownloadedSizeMB :: int
  ngs_ArticleCacheLo :: int
  ngs_ArticleCacheHi :: int
  ngs_ArticleCacheMB :: int
  ngs_DownloadRate :: int
  ngs_AverageDownloadRate :: int
  ngs_DownloadLimit :: int
  ngs_ThreadCount :: int
  ngs_PostJobCount :: int
  ngs_UrlCount :: int
  ngs_UpTimeSec :: int
  ngs_DownloadTimeSec :: int
  ngs_ServerPaused :: bool
  ngs_DownloadPaused :: bool
  ngs_Download2Paused :: bool
  ngs_ServerStandBy :: bool
  ngs_PostPaused :: bool
  ngs_ScanPaused :: bool
  ngs_QuotaReached :: bool
  ngs_FreeDiskSpaceLo :: int
  ngs_FreeDiskSpaceHi :: int
  ngs_FreeDiskSpaceMB :: int
  ngs_ServerTime :: int
  ngs_ResumeTime :: int
  ngs_FeedActive :: bool
  ngs_QueueScriptCount :: int
  ngs_NewsServers :: "NZBGetServerStatus list"

record NZBGetParameter =
  ngp_Name :: string
  ngp_Value :: string

record NZBGetScriptStatus =
  ngx_Name :: string
  ngx_Status :: string

record NZBGetServerStat =
  ngt_ServerID :: int
  ngt_SuccessArticles :: int
  ngt_FailedArticles :: int

record NZBGetLogEntry =
  ngl_ID :: int
  ngl_Kind :: string
  ngl_Time :: int
  ngl_Text :: string

record NZBGetGroup =
  ngg_NZBID :: int
  ngg_NZBName :: string
  ngg_NZBNicename :: string
  ngg_Kind :: string
  ngg_URL :: string
  ngg_NZBFilename :: string
  ngg_DestDir :: string
  ngg_FinalDir :: string
  ngg_Category :: string
  ngg_ParStatus :: string
  ngg_UnpackStatus :: string
  ngg_MoveStatus :: string
  ngg_ScriptStatus :: string
  ngg_DeleteStatus :: string
  ngg_MarkStatus :: string
  ngg_UrlStatus :: string
  ngg_FileSizeLo :: int
  ngg_FileSizeHi :: int
  ngg_FileSizeMB :: int
  ngg_FileCount :: int
  ngg_MinPostTime :: int
  ngg_MaxPostTime :: int
  ngg_TotalArticles :: int
  ngg_SuccessArticles :: int
  ngg_FailedArticles :: int
  ngg_Health :: int
  ngg_CriticalHealth :: int
  ngg_DupeKey :: string
  ngg_DupeScore :: int
  ngg_DupeMode :: string
  ngg_Deleted :: bool
  ngg_DownloadedSizeLo :: int
  ngg_DownloadedSizeHi :: int
  ngg_DownloadedSizeMB :: int
  ngg_DownloadTimeSec :: int
  ngg_PostTotalTimeSec :: int
  ngg_ParTimeSec :: int
  ngg_RepairTimeSec :: int
  ngg_UnpackTimeSec :: int
  ngg_MessageCount :: int
  ngg_ExtraParBlocks :: int
  ngg_Parameters :: "NZBGetParameter list"
  ngg_ScriptStatuses :: "NZBGetScriptStatus list"
  ngg_ServerStats :: "NZBGetServerStat list"
  ngg_PostInfoText :: string
  ngg_PostStageProgress :: int
  ngg_PostStageTimeSec :: int
  ngg_Log :: "NZBGetLogEntry list"

record NZBGetHistoryItem =
  ngh_NZBID :: int
  ngh_NZBName :: string
  ngh_NZBNicename :: string
  ngh_Kind :: string
  ngh_URL :: string
  ngh_NZBFilename :: string
  ngh_DestDir :: string
  ngh_FinalDir :: string
  ngh_Category :: string
  ngh_ParStatus :: string
  ngh_UnpackStatus :: string
  ngh_MoveStatus :: string
  ngh_ScriptStatus :: string
  ngh_DeleteStatus :: string
  ngh_MarkStatus :: string
  ngh_UrlStatus :: string
  ngh_FileSizeLo :: int
  ngh_FileSizeHi :: int
  ngh_FileSizeMB :: int
  ngh_FileCount :: int
  ngh_TotalArticles :: int
  ngh_SuccessArticles :: int
  ngh_FailedArticles :: int
  ngh_Health :: int
  ngh_CriticalHealth :: int
  ngh_DupeKey :: string
  ngh_DupeScore :: int
  ngh_DupeMode :: string
  ngh_Deleted :: bool
  ngh_DownloadedSizeLo :: int
  ngh_DownloadedSizeHi :: int
  ngh_DownloadedSizeMB :: int
  ngh_DownloadTimeSec :: int
  ngh_PostTotalTimeSec :: int
  ngh_ParTimeSec :: int
  ngh_RepairTimeSec :: int
  ngh_UnpackTimeSec :: int
  ngh_MessageCount :: int
  ngh_ExtraParBlocks :: int
  ngh_Parameters :: "NZBGetParameter list"
  ngh_ScriptStatuses :: "NZBGetScriptStatus list"
  ngh_ServerStats :: "NZBGetServerStat list"
  ngh_Status :: string
  ngh_HistoryTime :: int

end
