(* ===== verification/QBittorrent.thy ===== *)
theory QBittorrent
  imports Stack_Answers Reconcile_Helper
begin

text \<open>
  \<^verbatim>\<open>src/internal/adapters/downloadstack/qbittorrent_client.go\<close>: the client of qBittorrent's Web API. It
  logs in before its first request and once more when a request is refused with status 403. The
  cookie jar that holds the session belongs to the transport.
\<close>

record QBittorrentJSON =
  qbj_preferences :: "QBittorrentPreferences JSON"
  qbj_settings :: "(string, GoValue) gomap JSON"
  qbj_object :: "(string, JsonValue) gomap JSON"

record 'w QBittorrentClient =
  qbc_baseURL :: string
  qbc_username :: string
  qbc_password :: string
  qbc_loggedIn :: bool
  qbc_Do :: "'w transport"
  qbc_json :: QBittorrentJSON

type_synonym ('w, 'a) qbittorrent_call = "('w QBittorrentClient \<times> 'w, 'a) action"

definition NewQBittorrentClient :: "(int \<Rightarrow> 'w transport) \<Rightarrow> QBittorrentJSON \<Rightarrow> string \<Rightarrow> string \<Rightarrow> string \<Rightarrow> 'w QBittorrentClient" where
  "NewQBittorrentClient http_client json baseURL username password =
     \<lparr>qbc_baseURL = TrimSuffix baseURL ''/'', qbc_username = username, qbc_password = password, qbc_loggedIn = False,
      qbc_Do = http_client DefaultTimeout, qbc_json = json\<rparr>"

abbreviation form_type :: string where
  "form_type \<equiv> ''application/x-www-form-urlencoded''"

definition qb_login :: "('w, unit) qbittorrent_call" where
  "qb_login = with_client (\<lambda>c.
     if qbc_loggedIn c then give ()
     else
       let data = gm_set ''password'' (qbc_password c) (gm_set ''username'' (qbc_username c) [])
       in andThen (wrap_err ''failed to create login request''
            (of_outcome (NewRequest ''POST'' (qbc_baseURL c @ ''/api/v2/auth/login'') (Some (Values_Encode data))))) (\<lambda>req.
          andThen (wrap_err ''login request failed'' (on_service (qbc_Do c (set_header ''Content-Type'' form_type req)))) (\<lambda>resp.
          let result = TrimSpace (rs_Body resp)
          in if rs_StatusCode resp \<noteq> 200 then fail (''login failed with status '' @ Itoa (rs_StatusCode resp) @ '': '' @ result)
             else if result = ''Fails.'' then fail ''login failed: invalid credentials''
             else if result \<noteq> ''Ok.'' then fail (''unexpected login response: '' @ result)
             else on_config (qbc_loggedIn_update (\<lambda>_. True)) (give ()))))"

text \<open>One HTTP request of \<^verbatim>\<open>request\<close>, with the texts of its two errors.\<close>

definition qb_send ::
    "string \<Rightarrow> string \<Rightarrow> string \<Rightarrow> string \<Rightarrow> (string, string) gomap option \<Rightarrow> ('w, HttpResponse) qbittorrent_call" where
  "qb_send not_created not_sent method endpoint data = with_client (\<lambda>c.
     andThen (wrap_err not_created (of_outcome (NewRequest method (qbc_baseURL c @ endpoint) (map_option Values_Encode data)))) (\<lambda>req.
     wrap_err not_sent (on_service (qbc_Do c (if data \<noteq> None then set_header ''Content-Type'' form_type req else req)))))"

definition qb_request :: "string \<Rightarrow> string \<Rightarrow> (string, string) gomap option \<Rightarrow> ('w, string) qbittorrent_call" where
  "qb_request method endpoint data =
     andThen (with_client (\<lambda>c. if \<not> qbc_loggedIn c then qb_login else give ())) (\<lambda>_.
     andThen (qb_send ''failed to create request'' ''request failed'' method endpoint data) (\<lambda>resp.
     andThen
       (if rs_StatusCode resp = 403 then
          on_config (qbc_loggedIn_update (\<lambda>_. False))
            (andThen (wrap_err ''re-login failed'' qb_login) (\<lambda>_.
             qb_send ''failed to create retry request'' ''retry request failed'' method endpoint data))
        else give resp) (\<lambda>resp.
     if rs_StatusCode resp \<noteq> 200 then fail (http_error resp) else give (rs_Body resp))))"

definition qb_GetVersion :: "('w, string) qbittorrent_call" where
  "qb_GetVersion = andThen (qb_request ''GET'' ''/api/v2/app/version'' None) (\<lambda>body. give (TrimSpace body))"

definition qb_TestConnection :: "('w, unit) qbittorrent_call" where
  "qb_TestConnection = discard qb_GetVersion"

definition qb_GetPreferences :: "('w, QBittorrentPreferences) qbittorrent_call" where
  "qb_GetPreferences =
     andThen (qb_request ''GET'' ''/api/v2/app/preferences'' None) (\<lambda>body.
     wrap_err ''failed to unmarshal preferences'' (with_client (\<lambda>c. of_outcome (Unmarshal (qbj_preferences (qbc_json c)) body))))"

definition SetPreferences :: "(string, GoValue) gomap \<Rightarrow> ('w, unit) qbittorrent_call" where
  "SetPreferences prefs =
     andThen (wrap_err ''failed to marshal preferences'' (with_client (\<lambda>c. of_outcome (Marshal (qbj_settings (qbc_json c)) prefs)))) (\<lambda>prefsJSON.
     discard (qb_request ''POST'' ''/api/v2/app/setPreferences'' (Some (gm_set ''json'' prefsJSON []))))"

definition GetTransferInfo :: "('w, (string, JsonValue) gomap) qbittorrent_call" where
  "GetTransferInfo =
     andThen (qb_request ''GET'' ''/api/v2/transfer/info'' None) (\<lambda>body.
     wrap_err ''failed to unmarshal transfer info'' (with_client (\<lambda>c. of_outcome (Unmarshal (qbj_object (qbc_json c)) body))))"

definition GetMainData :: "int \<Rightarrow> ('w, (string, JsonValue) gomap) qbittorrent_call" where
  "GetMainData rid =
     andThen (qb_request ''GET'' (''/api/v2/sync/maindata?'' @ Values_Encode (set_if (rid > 0) ''rid'' (Itoa rid) [])) None) (\<lambda>body.
     wrap_err ''failed to unmarshal main data'' (with_client (\<lambda>c. of_outcome (Unmarshal (qbj_object (qbc_json c)) body))))"

definition ToggleSpeedLimitsMode :: "('w, unit) qbittorrent_call" where
  "ToggleSpeedLimitsMode = discard (qb_request ''POST'' ''/api/v2/transfer/toggleSpeedLimitsMode'' None)"

definition SetSpeedLimits :: "int \<Rightarrow> int \<Rightarrow> ('w, unit) qbittorrent_call" where
  "SetSpeedLimits downloadLimit uploadLimit =
     SetPreferences [(''dl_limit'', VInt (to_int64 (downloadLimit * 1024))), (''up_limit'', VInt (to_int64 (uploadLimit * 1024)))]"

end
