(* ===== verification/Deluge.thy ===== *)
theory Deluge
  imports Stack_Answers Reconcile_Helper
begin

text \<open>
  \<^verbatim>\<open>src/internal/adapters/downloadstack/deluge_client.go\<close>: the client of Deluge's JSON-RPC interface. Its
  state is the login and the number of the last request.
\<close>

text \<open>The values the code passes as parameters.\<close>

datatype DelugeParam = DString string | DConfig "(string, GoValue) gomap" | DStrings "string list"

record DelugeRPCRequest =
  dlq_ID :: int
  dlq_Method :: string
  dlq_Params :: "DelugeParam list"

record DelugeJSON =
  dj_request :: "DelugeRPCRequest JSON"
  dj_response :: "DelugeRPCResponse JSON"
  dj_bool :: "bool JSON"
  dj_string :: "string JSON"
  dj_strings :: "string list JSON"
  dj_hosts :: "JsonValue list list JSON"
  dj_config :: "DelugeConfig JSON"
  dj_object :: "(string, JsonValue) gomap JSON"

record 'w DelugeClient =
  dcl_baseURL :: string
  dcl_password :: string
  dcl_loggedIn :: bool
  dcl_requestID :: int
  dcl_Do :: "'w transport"
  dcl_json :: DelugeJSON

type_synonym ('w, 'a) deluge_call = "('w DelugeClient \<times> 'w, 'a) action"

definition NewDelugeClient :: "(int \<Rightarrow> 'w transport) \<Rightarrow> DelugeJSON \<Rightarrow> string \<Rightarrow> string \<Rightarrow> 'w DelugeClient" where
  "NewDelugeClient http_client json baseURL password =
     \<lparr>dcl_baseURL = TrimSuffix baseURL ''/'', dcl_password = password, dcl_loggedIn = False, dcl_requestID = 0,
      dcl_Do = http_client DefaultTimeout, dcl_json = json\<rparr>"

definition deluge_nextID :: "(int \<Rightarrow> ('w, 'a) deluge_call) \<Rightarrow> ('w, 'a) deluge_call" where
  "deluge_nextID k cw =
     (let n = to_int64 (dcl_requestID (fst cw) + 1) in k n ((fst cw)\<lparr>dcl_requestID := n\<rparr>, snd cw))"

definition rpc_failure :: "string \<Rightarrow> int \<Rightarrow> string" where
  "rpc_failure message n = ''RPC error: '' @ message @ '' (code '' @ Itoa n @ '')''"

definition deluge_request :: "string \<Rightarrow> DelugeParam list \<Rightarrow> ('w, DelugeRPCResponse) deluge_call" where
  "deluge_request method params =
     deluge_nextID (\<lambda>rpcID. with_client (\<lambda>c.
     andThen (wrap_err ''failed to marshal request''
       (of_outcome (Marshal (dj_request (dcl_json c)) \<lparr>dlq_ID = rpcID, dlq_Method = method, dlq_Params = params\<rparr>))) (\<lambda>body.
     andThen (wrap_err ''failed to create request'' (of_outcome (NewRequest ''POST'' (dcl_baseURL c @ ''/json'') (Some body)))) (\<lambda>req.
     andThen (wrap_err ''request failed''
       (on_service (dcl_Do c (set_header ''Accept'' ''application/json'' (set_header ''Content-Type'' ''application/json'' req))))) (\<lambda>resp.
     if rs_StatusCode resp \<noteq> 200 then fail (http_error resp)
     else andThen (wrap_err ''failed to decode response'' (of_outcome (Unmarshal (dj_response (dcl_json c)) (rs_Body resp)))) (\<lambda>rpcResp.
       case dlr_Error rpcResp of
         Some err \<Rightarrow> fail (rpc_failure (dle_Message err) (dle_Code err))
       | None \<Rightarrow> give rpcResp))))))"

definition deluge_result :: "string \<Rightarrow> (DelugeJSON \<Rightarrow> 'a JSON) \<Rightarrow> DelugeRPCResponse \<Rightarrow> ('w, 'a) deluge_call" where
  "deluge_result msg codec resp = wrap_err msg (with_client (\<lambda>c. of_outcome (Unmarshal (codec (dcl_json c)) (dlr_Result resp))))"

definition logged_in :: "bool \<Rightarrow> ('w, 'a) deluge_call \<Rightarrow> ('w, 'a) deluge_call" where
  "logged_in b = on_config (dcl_loggedIn_update (\<lambda>_. b))"

text \<open>\<^verbatim>\<open>hosts[0][0].(string)\<close> panics on an empty first host; other values than strings are skipped.\<close>

definition connect_first :: "JsonValue list list \<Rightarrow> ('w, unit) deluge_call" where
  "connect_first hosts =
     (case hosts of
        [] \<Rightarrow> give ()
      | [] # _ \<Rightarrow> of_outcome (Panic ''index out of range [0] with length 0'')
      | (JString hostID # _) # _ \<Rightarrow> or_else (discard (deluge_request ''web.connect'' [DString hostID])) (\<lambda>_. give ())
      | _ \<Rightarrow> give ())"

definition deluge_Login :: "('w, unit) deluge_call" where
  "deluge_Login = with_client (\<lambda>c.
     if dcl_loggedIn c then give ()
     else
       andThen (wrap_err ''login request failed'' (deluge_request ''auth.login'' [DString (dcl_password c)])) (\<lambda>resp.
       andThen (deluge_result ''failed to parse login response'' dj_bool resp) (\<lambda>success.
       if \<not> success then fail ''login failed: invalid password''
       else
         andThen (wrap_err ''failed to get hosts'' (deluge_request ''web.get_hosts'' [])) (\<lambda>hostsResp.
         andThen (deluge_result ''failed to parse hosts'' dj_hosts hostsResp) (\<lambda>hosts.
         andThen (connect_first hosts) (\<lambda>_.
         logged_in True (give ())))))))"

definition ensureLoggedIn :: "('w, unit) deluge_call" where
  "ensureLoggedIn = with_client (\<lambda>c.
     if \<not> dcl_loggedIn c then deluge_Login
     else if_err (deluge_request ''auth.check_session'' [])
       (\<lambda>_. logged_in False deluge_Login)
       (\<lambda>resp. if_err (with_client (\<lambda>c. of_outcome (Unmarshal (dj_bool (dcl_json c)) (dlr_Result resp))))
          (\<lambda>_. logged_in False deluge_Login)
          (\<lambda>valid. if \<not> valid then logged_in False deluge_Login else give ())))"

definition logged_in_call :: "string \<Rightarrow> DelugeParam list \<Rightarrow> ('w, DelugeRPCResponse) deluge_call" where
  "logged_in_call method params = andThen ensureLoggedIn (\<lambda>_. deluge_request method params)"

section \<open>The calls\<close>

definition deluge_GetVersion :: "('w, string) deluge_call" where
  "deluge_GetVersion = andThen (logged_in_call ''daemon.info'' []) (deluge_result ''failed to parse version'' dj_string)"

definition deluge_TestConnection :: "('w, unit) deluge_call" where
  "deluge_TestConnection = andThen deluge_Login (\<lambda>_. discard deluge_GetVersion)"

definition deluge_GetConfig :: "('w, DelugeConfig) deluge_call" where
  "deluge_GetConfig = andThen (logged_in_call ''core.get_config'' []) (deluge_result ''failed to parse config'' dj_config)"

definition deluge_SetConfig :: "(string, GoValue) gomap \<Rightarrow> ('w, unit) deluge_call" where
  "deluge_SetConfig config = discard (logged_in_call ''core.set_config'' [DConfig config])"

definition GetLabels :: "('w, string list) deluge_call" where
  "GetLabels =
     andThen ensureLoggedIn (\<lambda>_.
     andThen (wrap_err ''label plugin might not be enabled'' (deluge_request ''label.get_labels'' [])) (deluge_result ''failed to parse labels'' dj_strings))"

definition AddLabel :: "string \<Rightarrow> ('w, unit) deluge_call" where
  "AddLabel label = discard (logged_in_call ''label.add'' [DString label])"

definition GetSessionStatus :: "('w, (string, JsonValue) gomap) deluge_call" where
  "GetSessionStatus =
     andThen (logged_in_call ''core.get_session_status''
       [DStrings [''upload_rate'', ''download_rate'', ''num_peers'', ''num_connections'', ''payload_upload_rate'', ''payload_download_rate'',
         ''total_upload'', ''total_download'', ''dht_nodes'']]) (deluge_result ''failed to parse session status'' dj_object)"

definition PauseAllTorrents :: "('w, unit) deluge_call" where
  "PauseAllTorrents = discard (logged_in_call ''core.pause_session'' [])"

definition ResumeAllTorrents :: "('w, unit) deluge_call" where
  "ResumeAllTorrents = discard (logged_in_call ''core.resume_session'' [])"

definition GetEnabledPlugins :: "('w, string list) deluge_call" where
  "GetEnabledPlugins = andThen (logged_in_call ''core.get_enabled_plugins'' []) (deluge_result ''failed to parse plugins'' dj_strings)"

definition EnablePlugin :: "string \<Rightarrow> ('w, unit) deluge_call" where
  "EnablePlugin plugin = discard (logged_in_call ''core.enable_plugin'' [DString plugin])"

end
