(* ===== verification/RTorrent.thy ===== *)
theory RTorrent
  imports Stack_Answers
begin

text \<open>
  \<^verbatim>\<open>src/internal/adapters/downloadstack/rtorrent_client.go\<close>: the client of rTorrent's XML-RPC interface.
  \<^verbatim>\<open>encoding/xml\<close> is a pair of fields of the client's record.
\<close>

text \<open>
  The parameters of a call by their Go type; \<open>XOther\<close> is a value of any other type, which the call
  refuses.
\<close>

datatype XmlParam = XString string | XInt int | XInt64 int | XFloat rat | XBool bool | XOther string

record XMLRPCValue =
  xv_String :: string
  xv_Int :: "int option"
  xv_Int4 :: "int option"
  xv_Double :: "rat option"
  xv_Boolean :: "int option"

record XMLRPCRequest =
  xq_MethodName :: string
  xq_Params :: "XMLRPCValue list"

record XMLScalar =
  xs_String :: string
  xs_Int :: int
  xs_Int4 :: int
  xs_Double :: rat
  xs_Boolean :: int

record XMLAnswer = XMLScalar +
  xs_Array :: "XMLScalar list option"

record XMLMember =
  xm_Name :: string
  xm_String :: string
  xm_Int :: int

record XMLRPCResponse =
  xr_Params :: "XMLAnswer list"
  xr_Fault :: "XMLMember list option"

record 'w RTorrentClient =
  rtc_baseURL :: string
  rtc_username :: string
  rtc_password :: string
  rtc_Do :: "'w transport"
  rtc_marshal :: "XMLRPCRequest \<Rightarrow> string outcome"
  rtc_unmarshal :: "string \<Rightarrow> XMLRPCResponse outcome"

definition NewRTorrentClient ::
    "(int \<Rightarrow> 'w transport) \<Rightarrow> (XMLRPCRequest \<Rightarrow> string outcome) \<Rightarrow> (string \<Rightarrow> XMLRPCResponse outcome)
     \<Rightarrow> string \<Rightarrow> string \<Rightarrow> string \<Rightarrow> 'w RTorrentClient" where
  "NewRTorrentClient http_client marshal unmarshal baseURL username password =
     \<lparr>rtc_baseURL = TrimSuffix baseURL ''/'', rtc_username = username, rtc_password = password,
      rtc_Do = http_client DefaultTimeout, rtc_marshal = marshal, rtc_unmarshal = unmarshal\<rparr>"

section \<open>Calls\<close>

definition no_value :: XMLRPCValue where
  "no_value = \<lparr>xv_String = '''', xv_Int = None, xv_Int4 = None, xv_Double = None, xv_Boolean = None\<rparr>"

fun xml_value :: "XmlParam \<Rightarrow> XMLRPCValue outcome" where
  "xml_value (XString v) = Ok (no_value\<lparr>xv_String := v\<rparr>)"
| "xml_value (XInt v) = Ok (no_value\<lparr>xv_Int := Some v\<rparr>)"
| "xml_value (XInt64 v) = Ok (no_value\<lparr>xv_Int := Some v\<rparr>)"
| "xml_value (XFloat v) = Ok (no_value\<lparr>xv_Double := Some v\<rparr>)"
| "xml_value (XBool v) = Ok (no_value\<lparr>xv_Boolean := Some (if v then 1 else 0)\<rparr>)"
| "xml_value (XOther ty) = Err (''unsupported parameter type: '' @ ty)"

fun xml_params :: "XmlParam list \<Rightarrow> ('w, XMLRPCValue list) action" where
  "xml_params [] = give []"
| "xml_params (p # ps) = andThen (of_outcome (xml_value p)) (\<lambda>v. andThen (xml_params ps) (\<lambda>vs. give (v # vs)))"

definition xml_header :: string where
  "xml_header = ''<?xml version='' @ [CHR 0x22] @ ''1.0'' @ [CHR 0x22] @ '' encoding='' @ [CHR 0x22] @ ''UTF-8'' @ [CHR 0x22] @ ''?>'' @ [CHR 0x0A]"

text \<open>The loop over the members of a fault; a later member of the same name wins.\<close>

definition fault_text :: "XMLMember list \<Rightarrow> string" where
  "fault_text members =
     (let faultCode = fold (\<lambda>m x. if xm_Name m = ''faultCode'' then xm_Int m else x) members 0;
          faultString = fold (\<lambda>m x. if xm_Name m = ''faultString'' then xm_String m else x) members ''''
      in ''XML-RPC fault '' @ Itoa faultCode @ '': '' @ faultString)"

definition call :: "'w RTorrentClient \<Rightarrow> string \<Rightarrow> XmlParam list \<Rightarrow> ('w, XMLRPCResponse) action" where
  "call c method params =
     andThen (xml_params params) (\<lambda>xmlParams.
     andThen (wrap_err ''failed to marshal request'' (of_outcome (rtc_marshal c \<lparr>xq_MethodName = method, xq_Params = xmlParams\<rparr>))) (\<lambda>body.
     andThen (wrap_err ''failed to create request'' (of_outcome (NewRequest ''POST'' (rtc_baseURL c) (Some (xml_header @ body))))) (\<lambda>req.
     let req = set_header ''Content-Type'' ''text/xml'' req;
         req = (if rtc_username c \<noteq> '''' then SetBasicAuth (rtc_username c) (rtc_password c) req else req)
     in andThen (wrap_err ''request failed'' (rtc_Do c req)) (\<lambda>resp.
     if rs_StatusCode resp \<noteq> 200 then fail (http_error resp)
     else andThen (wrap_err ''failed to unmarshal response'' (of_outcome (rtc_unmarshal c (rs_Body resp)))) (\<lambda>xmlResp.
       case xr_Fault xmlResp of
         Some members \<Rightarrow> fail (fault_text members)
       | None \<Rightarrow> give xmlResp)))))"

text \<open>Reading the first value of an answer; \<open>dflt\<close> is what the code returns when there is none.\<close>

definition first_value :: "(XMLAnswer \<Rightarrow> 'a) \<Rightarrow> ('w, 'a) action \<Rightarrow> XMLRPCResponse \<Rightarrow> ('w, 'a) action" where
  "first_value f dflt resp = (case xr_Params resp of [] \<Rightarrow> dflt | v # _ \<Rightarrow> give (f v))"

definition rt_GetVersion :: "'w RTorrentClient \<Rightarrow> ('w, string) action" where
  "rt_GetVersion c = andThen (call c ''system.client_version'' []) (first_value xs_String (fail ''no version in response''))"

definition rt_TestConnection :: "'w RTorrentClient \<Rightarrow> ('w, unit) action" where
  "rt_TestConnection c = discard (rt_GetVersion c)"

definition GetLibTorrentVersion :: "'w RTorrentClient \<Rightarrow> ('w, string) action" where
  "GetLibTorrentVersion c = andThen (call c ''system.library_version'' []) (first_value xs_String (fail ''no version in response''))"

definition setting_text :: "XMLAnswer \<Rightarrow> string" where
  "setting_text v =
     (if xs_String v \<noteq> '''' then xs_String v else if xs_Int v \<noteq> 0 then Itoa (xs_Int v)
      else if xs_Int4 v \<noteq> 0 then Itoa (xs_Int4 v) else '''')"

definition GetSetting :: "'w RTorrentClient \<Rightarrow> string \<Rightarrow> ('w, string) action" where
  "GetSetting c name = andThen (call c name []) (first_value setting_text (give ''''))"

definition SetSetting :: "'w RTorrentClient \<Rightarrow> string \<Rightarrow> XmlParam \<Rightarrow> ('w, unit) action" where
  "SetSetting c name v = discard (call c (name @ ''.set'') [XString '''', v])"

definition GetDownloadRate :: "'w RTorrentClient \<Rightarrow> ('w, int) action" where
  "GetDownloadRate c = andThen (call c ''throttle.global_down.max_rate'' []) (first_value xs_Int (give 0))"

definition rt_SetDownloadRate :: "'w RTorrentClient \<Rightarrow> int \<Rightarrow> ('w, unit) action" where
  "rt_SetDownloadRate c rate = discard (call c ''throttle.global_down.max_rate.set'' [XString '''', XInt64 rate])"

definition GetUploadRate :: "'w RTorrentClient \<Rightarrow> ('w, int) action" where
  "GetUploadRate c = andThen (call c ''throttle.global_up.max_rate'' []) (first_value xs_Int (give 0))"

definition SetUploadRate :: "'w RTorrentClient \<Rightarrow> int \<Rightarrow> ('w, unit) action" where
  "SetUploadRate c rate = discard (call c ''throttle.global_up.max_rate.set'' [XString '''', XInt64 rate])"

definition GetDirectory :: "'w RTorrentClient \<Rightarrow> ('w, string) action" where
  "GetDirectory c = andThen (call c ''directory.default'' []) (first_value xs_String (give ''''))"

definition SetDirectory :: "'w RTorrentClient \<Rightarrow> string \<Rightarrow> ('w, unit) action" where
  "SetDirectory c dir = discard (call c ''directory.default.set'' [XString '''', XString dir])"

definition GetSessionDirectory :: "'w RTorrentClient \<Rightarrow> ('w, string) action" where
  "GetSessionDirectory c = andThen (call c ''session.path'' []) (first_value xs_String (give ''''))"

definition GetMaxPeers :: "'w RTorrentClient \<Rightarrow> ('w, int) action" where
  "GetMaxPeers c = andThen (call c ''throttle.max_peers.normal'' []) (first_value xs_Int (give 0))"

definition SetMaxPeers :: "'w RTorrentClient \<Rightarrow> int \<Rightarrow> ('w, unit) action" where
  "SetMaxPeers c peers = discard (call c ''throttle.max_peers.normal.set'' [XString '''', XInt64 peers])"

definition GetMaxUploads :: "'w RTorrentClient \<Rightarrow> ('w, int) action" where
  "GetMaxUploads c = andThen (call c ''throttle.max_uploads.global'' []) (first_value xs_Int (give 0))"

definition SetMaxUploads :: "'w RTorrentClient \<Rightarrow> int \<Rightarrow> ('w, unit) action" where
  "SetMaxUploads c uploads = discard (call c ''throttle.max_uploads.global.set'' [XString '''', XInt64 uploads])"

definition IsDHTEnabled :: "'w RTorrentClient \<Rightarrow> ('w, bool) action" where
  "IsDHTEnabled c = andThen (call c ''dht.mode'' []) (first_value (\<lambda>v. xs_String v \<noteq> ''off'') (give False))"

definition SetDHTMode :: "'w RTorrentClient \<Rightarrow> string \<Rightarrow> ('w, unit) action" where
  "SetDHTMode c mode = discard (call c ''dht.mode.set'' [XString mode])"

definition GetEncryptionMode :: "'w RTorrentClient \<Rightarrow> ('w, string) action" where
  "GetEncryptionMode c =
     or_else (andThen (call c ''protocol.encryption.set'' []) (first_value xs_String (give ''''))) (\<lambda>_. give '''')"

definition SetEncryptionMode :: "'w RTorrentClient \<Rightarrow> string \<Rightarrow> ('w, unit) action" where
  "SetEncryptionMode c mode = discard (call c ''protocol.encryption.set'' [XString mode])"

definition GetTransferStats :: "'w RTorrentClient \<Rightarrow> ('w, int \<times> int) action" where
  "GetTransferStats c =
     andThen (wrap_err ''failed to get download rate'' (call c ''throttle.global_down.rate'' [])) (\<lambda>dlResp.
     andThen (first_value xs_Int (give 0) dlResp) (\<lambda>downloadRate.
     andThen (wrap_err ''failed to get upload rate'' (call c ''throttle.global_up.rate'' [])) (\<lambda>ulResp.
     andThen (first_value xs_Int (give 0) ulResp) (\<lambda>uploadRate.
     give (downloadRate, uploadRate)))))"

end
