(* ===== verification/SABnzbd.thy ===== *)
theory SABnzbd
  imports Stack_Answers
begin

text \<open>
  \<^verbatim>\<open>src/internal/adapters/downloadstack/sabnzbd_client.go\<close>: the client of SABnzbd's API. The codecs of
  the anonymous structs with one member are codecs of that member.
\<close>

record SABnzbdJSON =
  sj_version :: "string JSON"
  sj_config :: "SABnzbdConfig JSON"
  sj_response :: "SABnzbdResponse JSON"
  sj_queue :: "SABnzbdQueue JSON"
  sj_history :: "SABnzbdHistory JSON"
  sj_object :: "(string, JsonValue) gomap JSON"
  sj_warnings :: "string list JSON"

record 'w SABnzbdClient =
  sac_baseURL :: string
  sac_apiKey :: string
  sac_Do :: "'w transport"
  sac_json :: SABnzbdJSON

definition NewSABnzbdClient :: "(int \<Rightarrow> 'w transport) \<Rightarrow> SABnzbdJSON \<Rightarrow> string \<Rightarrow> string \<Rightarrow> 'w SABnzbdClient" where
  "NewSABnzbdClient http_client json baseURL apiKey =
     \<lparr>sac_baseURL = TrimSuffix baseURL ''/'', sac_apiKey = apiKey, sac_Do = http_client DefaultTimeout, sac_json = json\<rparr>"

definition sab_request :: "'w SABnzbdClient \<Rightarrow> string \<Rightarrow> (string, string) gomap \<Rightarrow> ('w, string) action" where
  "sab_request c mode params =
     (let params = gm_set ''output'' ''json'' (gm_set ''mode'' mode (gm_set ''apikey'' (sac_apiKey c) params));
          reqURL = sac_baseURL c @ ''/api?'' @ Values_Encode params
      in andThen (wrap_err ''failed to create request'' (of_outcome (NewRequest ''GET'' reqURL None))) (\<lambda>req.
         andThen (wrap_err ''request failed'' (sac_Do c req)) (\<lambda>resp.
         if rs_StatusCode resp \<noteq> 200 then fail (http_error resp) else give (rs_Body resp))))"

definition sab_parse :: "string \<Rightarrow> 'a JSON \<Rightarrow> string \<Rightarrow> ('w, 'a) action" where
  "sab_parse msg codec body = wrap_err msg (of_outcome (Unmarshal codec body))"

definition sab_GetVersion :: "'w SABnzbdClient \<Rightarrow> ('w, string) action" where
  "sab_GetVersion c = andThen (sab_request c ''version'' []) (sab_parse ''failed to parse version'' (sj_version (sac_json c)))"

definition sab_TestConnection :: "'w SABnzbdClient \<Rightarrow> ('w, unit) action" where
  "sab_TestConnection c = discard (sab_GetVersion c)"

definition sab_GetConfig :: "'w SABnzbdClient \<Rightarrow> ('w, SABnzbdConfig) action" where
  "sab_GetConfig c = andThen (sab_request c ''get_config'' []) (sab_parse ''failed to parse config'' (sj_config (sac_json c)))"

definition sab_SetConfig :: "'w SABnzbdClient \<Rightarrow> string \<Rightarrow> string \<Rightarrow> string \<Rightarrow> ('w, unit) action" where
  "sab_SetConfig c sect keyword v =
     andThen (sab_request c ''set_config'' (gm_set ''value'' v (gm_set ''keyword'' keyword (gm_set ''section'' sect [])))) (\<lambda>body.
     andThen (sab_parse ''failed to parse response'' (sj_response (sac_json c)) body) (\<lambda>result.
     if \<not> sbr_Status result then fail (''set_config failed: '' @ sbr_Error result) else give ()))"

definition GetQueue :: "'w SABnzbdClient \<Rightarrow> ('w, SABnzbdQueue) action" where
  "GetQueue c = andThen (sab_request c ''queue'' []) (sab_parse ''failed to parse queue'' (sj_queue (sac_json c)))"

definition sab_GetHistory :: "'w SABnzbdClient \<Rightarrow> ('w, SABnzbdHistory) action" where
  "sab_GetHistory c = andThen (sab_request c ''history'' []) (sab_parse ''failed to parse history'' (sj_history (sac_json c)))"

definition Pause :: "'w SABnzbdClient \<Rightarrow> ('w, unit) action" where
  "Pause c = discard (sab_request c ''pause'' [])"

definition Resume :: "'w SABnzbdClient \<Rightarrow> ('w, unit) action" where
  "Resume c = discard (sab_request c ''resume'' [])"

definition SetSpeedLimit :: "'w SABnzbdClient \<Rightarrow> int \<Rightarrow> ('w, unit) action" where
  "SetSpeedLimit c limit = discard (sab_request c ''config'' (gm_set ''value'' (Itoa limit) []))"

definition Restart :: "'w SABnzbdClient \<Rightarrow> ('w, unit) action" where
  "Restart c = discard (sab_request c ''restart'' [])"

definition GetServerStats :: "'w SABnzbdClient \<Rightarrow> ('w, (string, JsonValue) gomap) action" where
  "GetServerStats c = andThen (sab_request c ''server_stats'' []) (sab_parse ''failed to parse server stats'' (sj_object (sac_json c)))"

definition GetWarnings :: "'w SABnzbdClient \<Rightarrow> ('w, string list) action" where
  "GetWarnings c = andThen (sab_request c ''warnings'' []) (sab_parse ''failed to parse warnings'' (sj_warnings (sac_json c)))"

end
