(* ===== verification/NZBGet.thy ===== *)
theory NZBGet
  imports Stack_Answers Reconcile_Helper
begin

text \<open>
  \<^verbatim>\<open>src/internal/adapters/downloadstack/nzbget_client.go\<close>: the client of NZBGet's JSON-RPC interface. Its
  state is the number of the last request.
\<close>

datatype NZBGetParam = NInt int | NBool bool | NItems "NZBGetConfigItem list"

record NZBGetRPCRequest =
  ngq_Method :: string
  ngq_Params :: "NZBGetParam list"
  ngq_ID :: int
  ngq_Version :: string

record NZBGetJSON =
  nj_request :: "NZBGetRPCRequest JSON"
  nj_response :: "NZBGetRPCResponse JSON"
  nj_bool :: "bool JSON"
  nj_string :: "string JSON"
  nj_config :: "NZBGetConfigItem list JSON"
  nj_status :: "NZBGetStatus JSON"
  nj_groups :: "NZBGetGroup list JSON"
  nj_history :: "NZBGetHistoryItem list JSON"
  nj_log :: "NZBGetLogEntry list JSON"

record 'w NZBGetClient =
  ngcl_baseURL :: string
  ngcl_username :: string
  ngcl_password :: string
  ngcl_requestID :: int
  ngcl_Do :: "'w transport"
  ngcl_json :: NZBGetJSON

type_synonym ('w, 'a) nzbget_call = "('w NZBGetClient \<times> 'w, 'a) action"

definition NewNZBGetClient :: "(int \<Rightarrow> 'w transport) \<Rightarrow> NZBGetJSON \<Rightarrow> string \<Rightarrow> string \<Rightarrow> string \<Rightarrow> 'w NZBGetClient" where
  "NewNZBGetClient http_client json baseURL username password =
     \<lparr>ngcl_baseURL = TrimSuffix baseURL ''/'', ngcl_username = username, ngcl_password = password, ngcl_requestID = 0,
      ngcl_Do = http_client DefaultTimeout, ngcl_json = json\<rparr>"

definition nzbget_nextID :: "(int \<Rightarrow> ('w, 'a) nzbget_call) \<Rightarrow> ('w, 'a) nzbget_call" where
  "nzbget_nextID k cw =
     (let n = to_int64 (ngcl_requestID (fst cw) + 1) in k n ((fst cw)\<lparr>ngcl_requestID := n\<rparr>, snd cw))"

definition nzbget_request :: "string \<Rightarrow> NZBGetParam list \<Rightarrow> ('w, NZBGetRPCResponse) nzbget_call" where
  "nzbget_request method params =
     nzbget_nextID (\<lambda>rpcID. with_client (\<lambda>c.
     andThen (wrap_err ''failed to marshal request'' (of_outcome (Marshal (nj_request (ngcl_json c))
       \<lparr>ngq_Method = method, ngq_Params = params, ngq_ID = rpcID, ngq_Version = ''2.0''\<rparr>))) (\<lambda>body.
     andThen (wrap_err ''failed to create request'' (of_outcome (NewRequest ''POST'' (ngcl_baseURL c @ ''/jsonrpc'') (Some body)))) (\<lambda>req.
     let req = set_header ''Content-Type'' ''application/json'' req;
         req = (if ngcl_username c \<noteq> '''' then SetBasicAuth (ngcl_username c) (ngcl_password c) req else req)
     in andThen (wrap_err ''request failed'' (on_service (ngcl_Do c req))) (\<lambda>resp.
     if rs_StatusCode resp = 401 then fail ''authentication failed: invalid credentials''
     else if rs_StatusCode resp \<noteq> 200 then fail (http_error resp)
     else andThen (wrap_err ''failed to decode response'' (of_outcome (Unmarshal (nj_response (ngcl_json c)) (rs_Body resp)))) (\<lambda>rpcResp.
       case ngr_Error rpcResp of
         Some err \<Rightarrow> fail (''RPC error: '' @ nge_Message err @ '' (code '' @ Itoa (nge_Code err) @ '')'')
       | None \<Rightarrow> give rpcResp))))))"

definition nzbget_result :: "string \<Rightarrow> (NZBGetJSON \<Rightarrow> 'a JSON) \<Rightarrow> NZBGetRPCResponse \<Rightarrow> ('w, 'a) nzbget_call" where
  "nzbget_result msg codec resp = wrap_err msg (with_client (\<lambda>c. of_outcome (Unmarshal (codec (ngcl_json c)) (ngr_Result resp))))"

text \<open>A call whose answer is a flag.\<close>

definition nzbget_command :: "string \<Rightarrow> NZBGetParam list \<Rightarrow> string \<Rightarrow> ('w, unit) nzbget_call" where
  "nzbget_command method params failed =
     andThen (nzbget_request method params) (\<lambda>resp.
     andThen (nzbget_result ''failed to parse response'' nj_bool resp) (\<lambda>success.
     if \<not> success then fail failed else give ()))"

section \<open>The calls\<close>

definition nzbget_GetVersion :: "('w, string) nzbget_call" where
  "nzbget_GetVersion = andThen (nzbget_request ''version'' []) (nzbget_result ''failed to parse version'' nj_string)"

definition nzbget_TestConnection :: "('w, unit) nzbget_call" where
  "nzbget_TestConnection = discard nzbget_GetVersion"

definition nzbget_GetConfig :: "('w, NZBGetConfigItem list) nzbget_call" where
  "nzbget_GetConfig = andThen (nzbget_request ''config'' []) (nzbget_result ''failed to parse config'' nj_config)"

definition nzbget_SetConfig :: "string \<Rightarrow> string \<Rightarrow> ('w, unit) nzbget_call" where
  "nzbget_SetConfig name v =
     nzbget_command ''saveconfig'' [NItems [\<lparr>ngc_Name = name, ngc_Value = v\<rparr>]] ''saveconfig failed''"

definition GetStatus :: "('w, NZBGetStatus) nzbget_call" where
  "GetStatus = andThen (nzbget_request ''status'' []) (nzbget_result ''failed to parse status'' nj_status)"

definition GetGroups :: "('w, NZBGetGroup list) nzbget_call" where
  "GetGroups = andThen (nzbget_request ''listgroups'' []) (nzbget_result ''failed to parse groups'' nj_groups)"

definition nzbget_GetHistory :: "('w, NZBGetHistoryItem list) nzbget_call" where
  "nzbget_GetHistory = andThen (nzbget_request ''history'' [NBool False]) (nzbget_result ''failed to parse history'' nj_history)"

definition PauseDownload :: "('w, unit) nzbget_call" where
  "PauseDownload = nzbget_command ''pausedownload'' [] ''pausedownload failed''"

definition ResumeDownload :: "('w, unit) nzbget_call" where
  "ResumeDownload = nzbget_command ''resumedownload'' [] ''resumedownload failed''"

definition nzbget_SetDownloadRate :: "int \<Rightarrow> ('w, unit) nzbget_call" where
  "nzbget_SetDownloadRate rate = nzbget_command ''rate'' [NInt rate] ''rate failed''"

definition Reload :: "('w, unit) nzbget_call" where
  "Reload = nzbget_command ''reload'' [] ''reload failed''"

definition Scan :: "('w, unit) nzbget_call" where
  "Scan = nzbget_command ''scan'' [] ''scan failed''"

definition Shutdown :: "('w, unit) nzbget_call" where
  "Shutdown = nzbget_command ''shutdown'' [] ''shutdown failed''"

definition GetLog :: "int \<Rightarrow> int \<Rightarrow> ('w, NZBGetLogEntry list) nzbget_call" where
  "GetLog start n = andThen (nzbget_request ''log'' [NInt start, NInt n]) (nzbget_result ''failed to parse log'' nj_log)"

end
