(* ===== verification/Stack_Sync.thy ===== *)
theory Stack_Sync
  imports Stack_Types QBittorrent Deluge RTorrent SABnzbd NZBGet
begin

text \<open>
  The functions of \<^verbatim>\<open>src/internal/controller/downloadstackconfig_controller.go\<close> that write the settings
  of the custom resource to a download client. \<^verbatim>\<open>fmt.Sscanf\<close> with \<^verbatim>\<open>%f\<close> is the parameter
  \<open>Sscanf\<close>, which gives finite numbers.
\<close>

type_synonym settings_map = "(string, GoValue) gomap"

definition set_ratio :: "(string \<Rightarrow> rat option) \<Rightarrow> string \<Rightarrow> string \<Rightarrow> settings_map \<Rightarrow> settings_map" where
  "set_ratio Sscanf ratio k m = (if ratio \<noteq> '''' then set_opt (Sscanf ratio) k VFloat m else m)"

definition set_positive :: "int \<Rightarrow> string \<Rightarrow> settings_map \<Rightarrow> settings_map" where
  "set_positive n k = set_if (n > 0) k (VInt n)"

definition set_nonempty :: "string \<Rightarrow> string \<Rightarrow> settings_map \<Rightarrow> settings_map" where
  "set_nonempty s k = set_if (s \<noteq> '''') k (VString s)"

section \<open>qBittorrent\<close>

text \<open>KiB to bytes\<close>

definition kib :: "int \<Rightarrow> GoValue" where
  "kib n = VInt (to_int64 (n * 1024))"

definition qb_speed :: "QBittorrentSpeedSpec \<Rightarrow> settings_map \<Rightarrow> settings_map" where
  "qb_speed speed = steps
     [set_if (qb_speed_DownloadLimit speed > 0) ''dl_limit'' (kib (qb_speed_DownloadLimit speed)),
      set_if (qb_speed_UploadLimit speed > 0) ''up_limit'' (kib (qb_speed_UploadLimit speed)),
      set_if (qb_speed_GlobalDownloadSpeedLimit speed > 0) ''dl_limit'' (kib (qb_speed_GlobalDownloadSpeedLimit speed)),
      set_if (qb_speed_GlobalUploadSpeedLimit speed > 0) ''up_limit'' (kib (qb_speed_GlobalUploadSpeedLimit speed))]"

definition qb_alt_speed :: "QBittorrentAltSpeedSpec \<Rightarrow> settings_map \<Rightarrow> settings_map" where
  "qb_alt_speed alt = steps
     [gm_set ''alt_dl_limit'' (kib (qb_altspeed_DownloadLimit alt)),
      gm_set ''alt_up_limit'' (kib (qb_altspeed_UploadLimit alt)),
      gm_set ''scheduler_enabled'' (VBool (qb_altspeed_SchedulerEnabled alt)),
      set_positive (qb_altspeed_SchedulerDays alt) ''scheduler_days'',
      gm_set ''schedule_from_hour'' (VInt (qb_altspeed_ScheduleFromHour alt)),
      gm_set ''schedule_from_min'' (VInt (qb_altspeed_ScheduleFromMinute alt)),
      gm_set ''schedule_to_hour'' (VInt (qb_altspeed_ScheduleToHour alt)),
      gm_set ''schedule_to_min'' (VInt (qb_altspeed_ScheduleToMinute alt))]"

definition qb_directories :: "QBittorrentDirectoriesSpec \<Rightarrow> settings_map \<Rightarrow> settings_map" where
  "qb_directories dirs = steps
     [set_nonempty (qb_directories_SavePath dirs) ''save_path'',
      set_nonempty (qb_directories_TempPath dirs) ''temp_path'',
      gm_set ''temp_path_enabled'' (VBool (qb_directories_TempPathEnabled dirs)),
      set_opt (qb_directories_CreateSubfolder dirs) ''create_subfolder_enabled'' VBool,
      set_opt (qb_directories_AppendExtension dirs) ''incomplete_files_ext'' VBool]"

definition qb_seeding :: "(string \<Rightarrow> rat option) \<Rightarrow> QBittorrentSeedingSpec \<Rightarrow> settings_map \<Rightarrow> settings_map" where
  "qb_seeding Sscanf seeding = steps
     [gm_set ''max_ratio_enabled'' (VBool (qb_seeding_MaxRatioEnabled seeding)),
      set_ratio Sscanf (qb_seeding_MaxRatio seeding) ''max_ratio'',
      gm_set ''max_seeding_time_enabled'' (VBool (qb_seeding_MaxSeedingTimeEnabled seeding)),
      set_positive (qb_seeding_MaxSeedingTime seeding) ''max_seeding_time'',
      set_opt (qb_seeding_MaxRatioAction seeding) ''max_ratio_act'' VInt]"

definition qb_queue :: "QBittorrentQueueSpec \<Rightarrow> settings_map \<Rightarrow> settings_map" where
  "qb_queue queue = steps
     [set_opt (qb_queue_QueueingEnabled queue) ''queueing_enabled'' VBool,
      set_positive (qb_queue_MaxActiveDownloads queue) ''max_active_downloads'',
      set_positive (qb_queue_MaxActiveUploads queue) ''max_active_uploads'',
      set_positive (qb_queue_MaxActiveTorrents queue) ''max_active_torrents'']"

definition qb_connections :: "QBittorrentConnectionsSpec \<Rightarrow> settings_map \<Rightarrow> settings_map" where
  "qb_connections conns = steps
     [set_positive (qb_connections_MaxConnections conns) ''max_connec'',
      set_positive (qb_connections_MaxConnectionsPerTorrent conns) ''max_connec_per_torrent'',
      set_positive (qb_connections_MaxUploads conns) ''max_uploads'',
      set_positive (qb_connections_MaxUploadsPerTorrent conns) ''max_uploads_per_torrent'',
      set_positive (qb_connections_ListenPort conns) ''listen_port'',
      gm_set ''random_port'' (VBool (qb_connections_RandomPort conns)),
      set_opt (qb_connections_UPnPEnabled conns) ''upnp'' VBool]"

definition qb_bittorrent :: "QBittorrentBitTorrentSpec \<Rightarrow> settings_map \<Rightarrow> settings_map" where
  "qb_bittorrent bt = steps
     [set_opt (qb_bittorrent_DHT bt) ''dht'' VBool,
      set_opt (qb_bittorrent_PeX bt) ''pex'' VBool,
      set_opt (qb_bittorrent_LSD bt) ''lsd'' VBool,
      set_opt (qb_bittorrent_Encryption bt) ''encryption'' VInt,
      gm_set ''anonymous_mode'' (VBool (qb_bittorrent_AnonymousMode bt))]"

definition qb_preferences :: "(string \<Rightarrow> rat option) \<Rightarrow> QBittorrentSpec \<Rightarrow> settings_map" where
  "qb_preferences Sscanf spec = steps
     [on_section (qb_Speed spec) qb_speed,
      on_section (qb_AltSpeed spec) qb_alt_speed,
      on_section (qb_Directories spec) qb_directories,
      on_section (qb_Seeding spec) (qb_seeding Sscanf),
      on_section (qb_Queue spec) qb_queue,
      on_section (qb_Connections spec) qb_connections,
      on_section (qb_BitTorrent spec) qb_bittorrent] []"

definition syncQBittorrentSettings :: "(string \<Rightarrow> rat option) \<Rightarrow> QBittorrentSpec \<Rightarrow> ('w, unit) qbittorrent_call" where
  "syncQBittorrentSettings Sscanf spec =
     (let prefs = qb_preferences Sscanf spec in if length prefs > 0 then SetPreferences prefs else give ())"

section \<open>Deluge\<close>

definition set_speed :: "int \<Rightarrow> string \<Rightarrow> settings_map \<Rightarrow> settings_map" where
  "set_speed n k = set_if (n \<noteq> 0) k (VFloat (float64_of_int n))"

definition dl_speed :: "DelugeSpeedSpec \<Rightarrow> settings_map \<Rightarrow> settings_map" where
  "dl_speed speed = steps
     [set_speed (dl_speed_MaxDownloadSpeed speed) ''max_download_speed'',
      set_speed (dl_speed_MaxUploadSpeed speed) ''max_upload_speed'',
      set_speed (dl_speed_MaxDownloadSpeedPerTorrent speed) ''max_download_speed_per_torrent'',
      set_speed (dl_speed_MaxUploadSpeedPerTorrent speed) ''max_upload_speed_per_torrent'']"

definition dl_directories :: "DelugeDirectoriesSpec \<Rightarrow> settings_map \<Rightarrow> settings_map" where
  "dl_directories dirs = steps
     [set_nonempty (dl_directories_DownloadLocation dirs) ''download_location'',
      gm_set ''move_completed'' (VBool (dl_directories_MoveCompleted dirs)),
      set_nonempty (dl_directories_MoveCompletedPath dirs) ''move_completed_path'',
      gm_set ''copy_torrent_file'' (VBool (dl_directories_CopyTorrentFile dirs)),
      set_nonempty (dl_directories_TorrentFilesLocation dirs) ''torrentfiles_location'']"

definition dl_seeding :: "(string \<Rightarrow> rat option) \<Rightarrow> DelugeSeedingSpec \<Rightarrow> settings_map \<Rightarrow> settings_map" where
  "dl_seeding Sscanf seeding = steps
     [gm_set ''stop_seed_at_ratio'' (VBool (dl_seeding_StopSeedAtRatio seeding)),
      set_ratio Sscanf (dl_seeding_StopSeedRatio seeding) ''stop_seed_ratio'',
      gm_set ''remove_seed_at_ratio'' (VBool (dl_seeding_RemoveAtRatio seeding)),
      set_ratio Sscanf (dl_seeding_ShareRatioLimit seeding) ''share_ratio_limit'',
      set_if (dl_seeding_SeedTimeLimit seeding \<noteq> 0) ''seed_time_limit'' (VInt (dl_seeding_SeedTimeLimit seeding))]"

definition dl_queue :: "DelugeQueueSpec \<Rightarrow> settings_map \<Rightarrow> settings_map" where
  "dl_queue queue = steps
     [set_positive (dl_queue_MaxActiveDownloading queue) ''max_active_downloading'',
      set_positive (dl_queue_MaxActiveSeeding queue) ''max_active_seeding'',
      set_positive (dl_queue_MaxActiveLimit queue) ''max_active_limit'',
      gm_set ''queue_new_to_top'' (VBool (dl_queue_QueueNewToTop queue))]"

definition dl_connections :: "DelugeConnectionsSpec \<Rightarrow> settings_map \<Rightarrow> settings_map" where
  "dl_connections conns = steps
     [set_positive (dl_connections_MaxConnections conns) ''max_connections_global'',
      set_positive (dl_connections_MaxConnectionsPerTorrent conns) ''max_connections_per_torrent'',
      set_positive (dl_connections_MaxUploadSlots conns) ''max_upload_slots_global'',
      set_positive (dl_connections_MaxUploadSlotsPerTorrent conns) ''max_upload_slots_per_torrent'',
      set_if (length (dl_connections_ListenPorts conns) = 2) ''listen_ports'' (VInts (dl_connections_ListenPorts conns)),
      gm_set ''random_port'' (VBool (dl_connections_RandomPort conns))]"

definition dl_protocol :: "DelugeProtocolSpec \<Rightarrow> settings_map \<Rightarrow> settings_map" where
  "dl_protocol protocol = steps
     [set_opt (dl_protocol_DHT protocol) ''dht'' VBool,
      set_opt (dl_protocol_UPnP protocol) ''upnp'' VBool,
      set_opt (dl_protocol_NATPMP protocol) ''natpmp'' VBool,
      set_opt (dl_protocol_LSD protocol) ''lsd'' VBool,
      set_opt (dl_protocol_ProtocolEncryption protocol) ''pe_enabled'' VBool,
      set_opt (dl_protocol_EncryptionLevel protocol) ''enc_level'' VInt]"

definition deluge_settings :: "(string \<Rightarrow> rat option) \<Rightarrow> DelugeSpec \<Rightarrow> settings_map" where
  "deluge_settings Sscanf spec = steps
     [on_section (dl_Speed spec) dl_speed,
      on_section (dl_Directories spec) dl_directories,
      on_section (dl_Seeding spec) (dl_seeding Sscanf),
      on_section (dl_Queue spec) dl_queue,
      on_section (dl_Connections spec) dl_connections,
      on_section (dl_Protocol spec) dl_protocol] []"

definition syncDelugeSettings :: "(string \<Rightarrow> rat option) \<Rightarrow> DelugeSpec \<Rightarrow> ('w, unit) deluge_call" where
  "syncDelugeSettings Sscanf spec =
     (let config = deluge_settings Sscanf spec in if length config > 0 then deluge_SetConfig config else give ())"

section \<open>Settings that are one call each\<close>

text \<open>\<^verbatim>\<open>if c { if err := m(); err != nil { return fmt.Errorf("failed to set X: %w", err) } }\<close>\<close>

definition set_when :: "bool \<Rightarrow> string \<Rightarrow> ('s, unit) action \<Rightarrow> ('s, unit) action" where
  "set_when c what m = (if c then wrap_err (''failed to set '' @ what) m else give ())"

fun in_order :: "('s, unit) action list \<Rightarrow> ('s, unit) action" where
  "in_order [] = give ()"
| "in_order (m # ms) = andThen m (\<lambda>_. in_order ms)"

definition with_section :: "'x option \<Rightarrow> ('x \<Rightarrow> ('s, unit) action list) \<Rightarrow> ('s, unit) action" where
  "with_section sec f = (case sec of None \<Rightarrow> give () | Some x \<Rightarrow> in_order (f x))"

section \<open>rTorrent\<close>

definition syncRTorrentSettings :: "'w RTorrentClient \<Rightarrow> RTorrentSpec \<Rightarrow> ('w, unit) action" where
  "syncRTorrentSettings client spec = in_order
     [with_section (rt_Speed spec) (\<lambda>speed.
        [set_when (rt_speed_DownloadRate speed > 0) ''download rate'' (rt_SetDownloadRate client (to_int64 (rt_speed_DownloadRate speed * 1024))),
         set_when (rt_speed_UploadRate speed > 0) ''upload rate'' (SetUploadRate client (to_int64 (rt_speed_UploadRate speed * 1024)))]),
      with_section (rt_Directories spec) (\<lambda>dirs.
        [set_when (rt_directories_Directory dirs \<noteq> '''') ''directory'' (SetDirectory client (rt_directories_Directory dirs))]),
      with_section (rt_Connections spec) (\<lambda>conns.
        [set_when (rt_connections_MaxPeers conns > 0) ''max peers'' (SetMaxPeers client (rt_connections_MaxPeers conns)),
         set_when (rt_connections_MaxUploads conns > 0) ''max uploads'' (SetMaxUploads client (rt_connections_MaxUploads conns))]),
      with_section (rt_Protocol spec) (\<lambda>protocol.
        [case rt_protocol_DHT protocol of
           None \<Rightarrow> give ()
         | Some dht \<Rightarrow> set_when True ''DHT mode'' (SetDHTMode client (if dht then ''auto'' else ''off'')),
         set_when (rt_protocol_Encryption protocol \<noteq> '''') ''encryption mode'' (SetEncryptionMode client (rt_protocol_Encryption protocol))])]"

section \<open>SABnzbd\<close>

definition sab_set :: "'w SABnzbdClient \<Rightarrow> bool \<Rightarrow> string \<Rightarrow> string \<Rightarrow> ('w, unit) action" where
  "sab_set client c keyword v = set_when c keyword (sab_SetConfig client ''misc'' keyword v)"

definition sab_set_path :: "'w SABnzbdClient \<Rightarrow> string \<Rightarrow> string \<Rightarrow> ('w, unit) action" where
  "sab_set_path client keyword v = sab_set client (v \<noteq> '''') keyword v"

definition syncSABnzbdSettings :: "'w SABnzbdClient \<Rightarrow> SABnzbdSpec \<Rightarrow> ('w, unit) action" where
  "syncSABnzbdSettings client spec = in_order
     [with_section (sab_Speed spec) (\<lambda>speed.
        [set_when (sab_speed_SpeedLimit speed > 0) ''speed limit'' (SetSpeedLimit client (sab_speed_SpeedLimit speed)),
         if sab_speed_PauseDownloads speed then wrap_err ''failed to pause downloads'' (Pause client) else give ()]),
      with_section (sab_Directories spec) (\<lambda>dirs.
        [sab_set_path client ''download_dir'' (sab_directories_DownloadDir dirs),
         sab_set_path client ''complete_dir'' (sab_directories_CompleteDir dirs),
         sab_set_path client ''incomplete_dir'' (sab_directories_IncompleteDir dirs),
         sab_set_path client ''script_dir'' (sab_directories_ScriptDir dirs),
         sab_set_path client ''nzb_backup_dir'' (sab_directories_NzbBackupDir dirs)]),
      with_section (sab_Queue spec) (\<lambda>queue.
        [sab_set client (sab_queue_PreCheck queue) ''pre_check'' ''1'',
         sab_set client (sab_queue_MaxRetries queue > 0) ''max_art_tries'' (Itoa (sab_queue_MaxRetries queue))]),
      with_section (sab_PostProcessing spec) (\<lambda>post.
        [sab_set client (sab_postprocessing_UnpackEnabled post) ''unpack'' ''1'',
         sab_set client (sab_postprocessing_CleanupEnabled post) ''cleanup_list'' ''1''])]"

section \<open>NZBGet\<close>

definition nzb_set :: "bool \<Rightarrow> string \<Rightarrow> string \<Rightarrow> ('w, unit) nzbget_call" where
  "nzb_set c name v = set_when c name (nzbget_SetConfig name v)"

definition nzb_set_positive :: "string \<Rightarrow> int \<Rightarrow> ('w, unit) nzbget_call" where
  "nzb_set_positive name n = nzb_set (n > 0) name (Itoa n)"

definition nzb_set_nonempty :: "string \<Rightarrow> string \<Rightarrow> ('w, unit) nzbget_call" where
  "nzb_set_nonempty name v = nzb_set (v \<noteq> '''') name v"

definition nzb_set_flag :: "string \<Rightarrow> bool option \<Rightarrow> ('w, unit) nzbget_call" where
  "nzb_set_flag name flag =
     (case flag of None \<Rightarrow> give () | Some b \<Rightarrow> nzb_set True name (if b then ''yes'' else ''no''))"

definition syncNZBGetSettings :: "NZBGetSpec \<Rightarrow> ('w, unit) nzbget_call" where
  "syncNZBGetSettings spec = in_order
     [with_section (nzb_Speed spec) (\<lambda>speed.
        [set_when (nzb_speed_DownloadRate speed > 0) ''download rate'' (nzbget_SetDownloadRate (nzb_speed_DownloadRate speed)),
         nzb_set_positive ''ArticleTimeout'' (nzb_speed_ArticleTimeout speed),
         nzb_set_positive ''WriteBuffer'' (nzb_speed_WriteBuffer speed)]),
      with_section (nzb_Directories spec) (\<lambda>dirs.
        [nzb_set_nonempty ''MainDir'' (nzb_directories_MainDir dirs),
         nzb_set_nonempty ''DestDir'' (nzb_directories_DestDir dirs),
         nzb_set_nonempty ''InterDir'' (nzb_directories_InterDir dirs),
         nzb_set_nonempty ''NzbDir'' (nzb_directories_NzbDir dirs),
         nzb_set_nonempty ''TempDir'' (nzb_directories_TempDir dirs),
         nzb_set_nonempty ''ScriptDir'' (nzb_directories_ScriptDir dirs)]),
      with_section (nzb_Queue spec) (\<lambda>queue.
        [nzb_set (nzb_queue_DupeCheck queue) ''DupeCheck'' ''yes'',
         nzb_set_positive ''PropagationDelay'' (nzb_queue_PropagationDelay queue),
         nzb_set_nonempty ''HealthCheck'' (nzb_queue_HealthCheck queue)]),
      with_section (nzb_PostProcessing spec) (\<lambda>post.
        [nzb_set_nonempty ''ParCheck'' (nzb_postprocessing_ParCheck post),
         nzb_set_flag ''ParRepair'' (nzb_postprocessing_ParRepair post),
         nzb_set_flag ''Unpack'' (nzb_postprocessing_Unpack post),
         nzb_set_flag ''UnpackCleanupDisk'' (nzb_postprocessing_UnpackCleanupDisk post),
         nzb_set_flag ''DirectUnpack'' (nzb_postprocessing_DirectUnpack post)]),
      with_section (nzb_Connections spec) (\<lambda>conns.
        [nzb_set_positive ''ArticleConnections'' (nzb_connections_ArticleConnections conns),
         nzb_set_positive ''RetryInterval'' (nzb_connections_RetryInterval conns),
         nzb_set_positive ''TerminateTimeout'' (nzb_connections_TerminateTimeout conns),
         nzb_set_flag ''Decode'' (nzb_connections_Decode conns)])]"

end
