(* ===== verification/Stack_Reconcile.thy ===== *)
theory Stack_Reconcile
  imports Transmission Stack_Sync Lifecycle
begin

text \<open>
  \<^verbatim>\<open>src/internal/controller/downloadstackconfig_controller.go\<close>: the controller of
  \<^verbatim>\<open>DownloadStackConfig\<close>. It writes the environment of the VPN container to a Secret, restarts the
  deployment when the environment has changed, and then configures the download clients of the
  resource one after the other. The cluster's Deployments, \<^verbatim>\<open>controllerutil.CreateOrUpdate\<close> and
  \<^verbatim>\<open>SetControllerReference\<close>, SHA-256, the HTTP transport and the codecs are parameters of the
  record \<open>DownloadStackConfigReconciler\<close>.
\<close>

section \<open>State\<close>

definition DownloadStackStatusWrapper :: "DownloadStackConfigStatus ConfigStatus" where
  "DownloadStackStatusWrapper = \<lparr>GetConditions = dst_Conditions,
     SetConditions = (\<lambda>conditions w. w\<lparr>dst_Conditions := conditions\<rparr>),
     SetConnected = (\<lambda>connected w. w\<lparr>dst_TransmissionConnected := connected\<rparr>),
     SetServiceVersion = (\<lambda>version w. w\<lparr>dst_TransmissionVersion := version\<rparr>),
     SetLastReconcile = (\<lambda>t w. w\<lparr>dst_LastReconcile := t\<rparr>),
     SetLastAppliedHash = (\<lambda>hash w. w\<lparr>dst_GluetunConfigHash := hash\<rparr>)\<rparr>"

abbreviation stack_wrapper :: "DownloadStackConfig ConfigStatus" where
  "stack_wrapper \<equiv> at_status dsc_Status dsc_Status_update DownloadStackStatusWrapper"

text \<open>Of a Secret the code sets the owner references and \<^verbatim>\<open>StringData\<close>, of a Deployment the annotations of its template.\<close>

record Secret =
  sec_Name :: string
  sec_Namespace :: string
  sec_OwnerUIDs :: "string list"
  sec_StringData :: "(string, string) gomap"

record Deployment =
  dep_Name :: string
  dep_Namespace :: string
  dep_Annotations :: "(string, string) gomap option"

record 'w DownloadStackConfigReconciler =
  dsr_Env :: "'w Env"
  dsr_Client :: "(DownloadStackConfig, 'w) ObjectClient"
  dsr_CreateOrUpdate :: "Secret \<Rightarrow> (Secret \<Rightarrow> Secret outcome) \<Rightarrow> ('w, unit) action"
  dsr_SetControllerReference :: "DownloadStackConfig \<Rightarrow> Secret \<Rightarrow> Secret outcome"
  dsr_GetDeployment :: "string \<Rightarrow> string \<Rightarrow> ('w, Deployment) action"
  dsr_UpdateDeployment :: "Deployment \<Rightarrow> ('w, unit) action"
  dsr_sha256_8 :: "string \<Rightarrow> string"
  dsr_FormatTime :: "int \<Rightarrow> string"
  dsr_ParseFloat :: "string \<Rightarrow> rat option"
  dsr_Sscanf :: "string \<Rightarrow> rat option"
  dsr_http :: "int \<Rightarrow> 'w transport"
  dsr_Sleep :: "nat \<Rightarrow> 'w \<Rightarrow> 'w"
  dsr_TransmissionClientFactory :: "(string \<Rightarrow> string \<Rightarrow> string \<Rightarrow> 'w TransmissionClientInterface) option"
  dsr_transmission_json :: TransmissionJSON
  dsr_qbittorrent_json :: QBittorrentJSON
  dsr_deluge_json :: DelugeJSON
  dsr_xml :: "(XMLRPCRequest \<Rightarrow> string outcome) \<times> (string \<Rightarrow> XMLRPCResponse outcome)"
  dsr_sabnzbd_json :: SABnzbdJSON
  dsr_nzbget_json :: NZBGetJSON

definition downloadStackFinalizer :: string where
  "downloadStackFinalizer = ''downloadstackconfig.arr.rinzler.cloud/finalizer''"

definition restartAnnotationKey :: string where
  "restartAnnotationKey = ''downloadstack.arr.rinzler.cloud/restartedAt''"

definition configHashAnnotationKey :: string where
  "configHashAnnotationKey = ''downloadstack.arr.rinzler.cloud/gluetun-hash''"

abbreviation update_stack_status :: "(DownloadStackConfigStatus \<Rightarrow> DownloadStackConfigStatus) \<Rightarrow> DownloadStackConfig \<Rightarrow> DownloadStackConfig" where
  "update_stack_status \<equiv> dsc_Status_update"

text \<open>The steps of the controller change the resource in memory, and their value is what they return.\<close>

type_synonym ('w, 'a) stack_step = "(DownloadStackConfig \<times> 'w, 'a) action"

definition not_ready :: "'w DownloadStackConfigReconciler \<Rightarrow> string \<Rightarrow> string \<Rightarrow> ('w, 'a) stack_step \<Rightarrow> ('w, 'a) stack_step" where
  "not_ready r reason message k cw =
     SetCondition (dsr_Env r) stack_wrapper (om_Generation (dsc_ObjectMeta (fst cw))) ConditionTypeReady ConditionFalse reason message k cw"

definition stack_save :: "'w DownloadStackConfigReconciler \<Rightarrow> string \<Rightarrow> ('w, reconcile_return) stack_step" where
  "stack_save r err =
     if_err (store_object (oc_UpdateStatus (dsr_Client r)))
       (\<lambda>_. give (requeue_after ErrorRequeueInterval, Some err)) (\<lambda>_. give (requeue_after ErrorRequeueInterval, Some err))"

definition stack_failed :: "'w DownloadStackConfigReconciler \<Rightarrow> string \<Rightarrow> string \<Rightarrow> ('w, reconcile_return) stack_step" where
  "stack_failed r reason err = not_ready r reason err (stack_save r err)"

section \<open>Credentials\<close>

definition stack_credentials :: "'w Env \<Rightarrow> string \<Rightarrow> string \<times> string \<Rightarrow> CredentialsSecretRef option \<Rightarrow> ('w, string \<times> string) action" where
  "stack_credentials env namespace dflt ref =
     (case ref of
        None \<Rightarrow> give dflt
      | Some creds \<Rightarrow>
          andThen (ResolveSecretValue env namespace (cr_Name creds) (key_or ''username'' (cr_UsernameKey creds))) (\<lambda>username.
          andThen (ResolveSecretValue env namespace (cr_Name creds) (key_or ''password'' (cr_PasswordKey creds))) (\<lambda>password.
          give (username, password))))"

definition stack_key :: "'w Env \<Rightarrow> string \<Rightarrow> string \<Rightarrow> string \<Rightarrow> SecretKeySelector option \<Rightarrow> ('w, string) action" where
  "stack_key env namespace key dflt ref =
     (case ref of
        None \<Rightarrow> give dflt
      | Some keyRef \<Rightarrow> ResolveSecretValue env namespace (sk_Name keyRef) (key_or key (sk_Key keyRef)))"

section \<open>Gluetun\<close>

definition restartDeployment :: "'w DownloadStackConfigReconciler \<Rightarrow> DownloadStackConfig \<Rightarrow> ('w, unit) action" where
  "restartDeployment r config w =
     andThen (wrap_err ''failed to get deployment''
       (dsr_GetDeployment r (om_Namespace (dsc_ObjectMeta config)) (lor_Name (dss_DeploymentRef (dsc_Spec config))))) (\<lambda>deployment w.
     wrap_err ''failed to update deployment'' (dsr_UpdateDeployment r
       (deployment\<lparr>dep_Annotations := Some
          (gm_set configHashAnnotationKey (dst_GluetunConfigHash (dsc_Status config))
          (gm_set restartAnnotationKey (dsr_FormatTime r (env_Now (dsr_Env r) w))
             (case dep_Annotations deployment of None \<Rightarrow> [] | Some a \<Rightarrow> a)))\<rparr>)) w) w"

definition write_env :: "'w DownloadStackConfigReconciler \<Rightarrow> DownloadStackConfig \<Rightarrow> (string, string) gomap \<Rightarrow> ('w, unit) action" where
  "write_env r config gluetunEnv =
     dsr_CreateOrUpdate r
       \<lparr>sec_Name = om_Name (dsc_ObjectMeta config) @ ''-gluetun-env'', sec_Namespace = om_Namespace (dsc_ObjectMeta config),
        sec_OwnerUIDs = [], sec_StringData = []\<rparr>
       (\<lambda>gluetunSecret. case dsr_SetControllerReference r config gluetunSecret of
          Ok s \<Rightarrow> Ok (s\<lparr>sec_StringData := gluetunEnv\<rparr>)
        | Err e \<Rightarrow> Err e
        | Panic p \<Rightarrow> Panic p)"

text \<open>An error of the restart is logged and dropped.\<close>

definition restart_if_changed :: "'w DownloadStackConfigReconciler \<Rightarrow> bool \<Rightarrow> ('w, unit) stack_step" where
  "restart_if_changed r configChanged cw =
     (if configChanged \<and> dss_RestartOnGluetunChange (dsc_Spec (fst cw))
      then on_service (or_else (restartDeployment r (fst cw)) (\<lambda>_. give ())) cw
      else give () cw)"

definition apply_env :: "'w DownloadStackConfigReconciler \<Rightarrow> GluetunEnvInput \<Rightarrow> ('w, reconcile_return) stack_step \<Rightarrow> ('w, reconcile_return) stack_step" where
  "apply_env r input k cw =
     (let config = fst cw; gluetunEnv = GenerateGluetunEnv input; newHash = HashGluetunEnv (dsr_sha256_8 r) gluetunEnv
      in if_err (on_service (write_env r config gluetunEnv)) (stack_failed r ''GluetunSecretFailed'') (\<lambda>_.
         on_config (update_stack_status (\<lambda>st. st\<lparr>dst_GluetunSecretGenerated := True, dst_GluetunConfigHash := newHash\<rparr>))
           (andThen (restart_if_changed r (newHash \<noteq> dst_GluetunConfigHash (dsc_Status config))) (\<lambda>_. k))) cw)"

definition configure_gluetun :: "'w DownloadStackConfigReconciler \<Rightarrow> ('w, reconcile_return) stack_step \<Rightarrow> ('w, reconcile_return) stack_step" where
  "configure_gluetun r k cw =
     (let env = dsr_Env r; config = fst cw; namespace = om_Namespace (dsc_ObjectMeta config); spec = dss_Gluetun (dsc_Spec config);
          provider = glu_Provider spec
      in if_err (on_service (stack_credentials env namespace ('''', '''') (glu_provider_CredentialsSecretRef provider)))
           (stack_failed r ''GluetunCredentialsFailed'') (\<lambda>(username, password).
         if_err (on_service (stack_key env namespace ''privateKey'' '''' (glu_provider_PrivateKeySecretRef provider)))
           (stack_failed r ''GluetunPrivateKeyFailed'') (\<lambda>privateKey.
         apply_env r \<lparr>gei_Spec = spec, gei_Username = username, gei_Password = password, gei_PrivateKey = privateKey\<rparr> k)) cw)"

section \<open>Download clients\<close>

text \<open>A client of the functions below has its own state \<open>'c\<close>; its calls leave it as they change it, also when they fail.\<close>

definition use_client :: "'c \<Rightarrow> ('c \<times> 'w, 'a) action \<Rightarrow> ('w, 'a outcome \<times> 'c) action" where
  "use_client c m w =
     (case m (c, w) of
        (Ok x, (c', w')) \<Rightarrow> (Ok (Ok x, c'), w')
      | (Err e, (c', w')) \<Rightarrow> (Ok (Err e, c'), w')
      | (Panic p, (c', w')) \<Rightarrow> (Panic p, w'))"

definition sync_client :: "'w DownloadStackConfigReconciler \<Rightarrow> string \<Rightarrow> 'c \<Rightarrow> ('c \<times> 'w, unit) action \<Rightarrow> ('w, unit) stack_step" where
  "sync_client r name client sync =
     andThen (on_service (use_client client sync)) (\<lambda>(synced, client).
     case synced of
       Err err \<Rightarrow> not_ready r (name @ ''SyncFailed'') err (fail err)
     | _ \<Rightarrow> give ())"

text \<open>
  The part the six functions share: test the connection, note the version, synchronise the
  settings. \<open>set_connected\<close> and \<open>set_version\<close> set the two fields of the status.
\<close>

definition reconcile_client ::
    "'w DownloadStackConfigReconciler \<Rightarrow> string \<Rightarrow> (bool \<Rightarrow> DownloadStackConfigStatus \<Rightarrow> DownloadStackConfigStatus)
     \<Rightarrow> (string \<Rightarrow> DownloadStackConfigStatus \<Rightarrow> DownloadStackConfigStatus) \<Rightarrow> 'c
     \<Rightarrow> ('c \<times> 'w, unit) action \<Rightarrow> ('c \<times> 'w, string) action \<Rightarrow> ('c \<times> 'w, unit) action \<Rightarrow> ('w, unit) stack_step" where
  "reconcile_client r name set_connected set_version client test get_version sync =
     andThen (on_service (use_client client test)) (\<lambda>(tested, client).
     case tested of
       Err err \<Rightarrow> on_config (update_stack_status (set_connected False)) (not_ready r (name @ ''ConnectionFailed'') err (fail err))
     | _ \<Rightarrow>
         on_config (update_stack_status (set_connected True))
           (andThen (on_service (use_client client get_version)) (\<lambda>(got, client).
            on_config (update_stack_status (case got of Ok v \<Rightarrow> set_version v | _ \<Rightarrow> (\<lambda>st. st)))
              (sync_client r name client sync))))"

definition with_credentials :: "'w DownloadStackConfigReconciler \<Rightarrow> string \<Rightarrow> ('w, 'x) action \<Rightarrow> ('x \<Rightarrow> ('w, unit) stack_step) \<Rightarrow> ('w, unit) stack_step" where
  "with_credentials r name resolve k =
     if_err (on_service resolve) (\<lambda>err. not_ready r (name @ ''CredentialsFailed'') err (fail err)) k"

definition reconcileTransmission :: "'w DownloadStackConfigReconciler \<Rightarrow> TransmissionSpec \<Rightarrow> ('w, unit) stack_step" where
  "reconcileTransmission r spec cw =
     with_credentials r ''Transmission''
       (stack_credentials (dsr_Env r) (om_Namespace (dsc_ObjectMeta (fst cw))) ('''', '''') (tr_connection_CredentialsSecretRef (tr_Connection spec)))
       (\<lambda>(username, password).
         let url = tr_connection_URL (tr_Connection spec);
             set_connected = (\<lambda>b st. st\<lparr>dst_TransmissionConnected := b\<rparr>);
             set_version = (\<lambda>v st. st\<lparr>dst_TransmissionVersion := v\<rparr>)
         in case dsr_TransmissionClientFactory r of
              Some factory \<Rightarrow>
                let client = factory url username password
                in reconcile_client r ''Transmission'' set_connected set_version ()
                     (on_service (tci_TestConnection client)) (on_service (GetTransmissionVersion client))
                     (on_service (SyncTransmissionSettings (dsr_ParseFloat r) client spec))
            | None \<Rightarrow>
                reconcile_client r ''Transmission'' set_connected set_version
                  (NewTransmissionClient (dsr_http r) (dsr_Sleep r) (dsr_transmission_json r) url username password)
                  (tci_TestConnection transmission_interface) (GetTransmissionVersion transmission_interface)
                  (SyncTransmissionSettings (dsr_ParseFloat r) transmission_interface spec)) cw"

definition reconcileQBittorrent :: "'w DownloadStackConfigReconciler \<Rightarrow> QBittorrentSpec \<Rightarrow> ('w, unit) stack_step" where
  "reconcileQBittorrent r spec cw =
     with_credentials r ''QBittorrent''
       (stack_credentials (dsr_Env r) (om_Namespace (dsc_ObjectMeta (fst cw))) ('''', '''') (qb_connection_CredentialsSecretRef (qb_Connection spec)))
       (\<lambda>(username, password).
         reconcile_client r ''QBittorrent'' (\<lambda>b st. st\<lparr>dst_QBittorrentConnected := b\<rparr>) (\<lambda>v st. st\<lparr>dst_QBittorrentVersion := v\<rparr>)
           (NewQBittorrentClient (dsr_http r) (dsr_qbittorrent_json r) (qb_connection_URL (qb_Connection spec)) username password)
           qb_TestConnection qb_GetVersion (syncQBittorrentSettings (dsr_Sscanf r) spec)) cw"

definition reconcileDeluge :: "'w DownloadStackConfigReconciler \<Rightarrow> DelugeSpec \<Rightarrow> ('w, unit) stack_step" where
  "reconcileDeluge r spec cw =
     with_credentials r ''Deluge''
       (stack_key (dsr_Env r) (om_Namespace (dsc_ObjectMeta (fst cw))) ''password'' ''deluge'' (dl_connection_PasswordSecretRef (dl_Connection spec)))
       (\<lambda>password.
         reconcile_client r ''Deluge'' (\<lambda>b st. st\<lparr>dst_DelugeConnected := b\<rparr>) (\<lambda>v st. st\<lparr>dst_DelugeVersion := v\<rparr>)
           (NewDelugeClient (dsr_http r) (dsr_deluge_json r) (dl_connection_URL (dl_Connection spec)) password)
           deluge_TestConnection deluge_GetVersion (syncDelugeSettings (dsr_Sscanf r) spec)) cw"

definition reconcileRTorrent :: "'w DownloadStackConfigReconciler \<Rightarrow> RTorrentSpec \<Rightarrow> ('w, unit) stack_step" where
  "reconcileRTorrent r spec cw =
     with_credentials r ''RTorrent''
       (stack_credentials (dsr_Env r) (om_Namespace (dsc_ObjectMeta (fst cw))) ('''', '''') (rt_connection_CredentialsSecretRef (rt_Connection spec)))
       (\<lambda>(username, password).
         let client = NewRTorrentClient (dsr_http r) (fst (dsr_xml r)) (snd (dsr_xml r)) (rt_connection_URL (rt_Connection spec)) username password
         in reconcile_client r ''RTorrent'' (\<lambda>b st. st\<lparr>dst_RTorrentConnected := b\<rparr>) (\<lambda>v st. st\<lparr>dst_RTorrentVersion := v\<rparr>) ()
              (on_service (rt_TestConnection client)) (on_service (rt_GetVersion client)) (on_service (syncRTorrentSettings client spec))) cw"

definition reconcileSABnzbd :: "'w DownloadStackConfigReconciler \<Rightarrow> SABnzbdSpec \<Rightarrow> ('w, unit) stack_step" where
  "reconcileSABnzbd r spec cw =
     with_credentials r ''SABnzbd''
       (stack_key (dsr_Env r) (om_Namespace (dsc_ObjectMeta (fst cw))) ''apiKey'' '''' (Some (sab_connection_APIKeySecretRef (sab_Connection spec))))
       (\<lambda>apiKey.
         let client = NewSABnzbdClient (dsr_http r) (dsr_sabnzbd_json r) (sab_connection_URL (sab_Connection spec)) apiKey
         in reconcile_client r ''SABnzbd'' (\<lambda>b st. st\<lparr>dst_SABnzbdConnected := b\<rparr>) (\<lambda>v st. st\<lparr>dst_SABnzbdVersion := v\<rparr>) ()
              (on_service (sab_TestConnection client)) (on_service (sab_GetVersion client)) (on_service (syncSABnzbdSettings client spec))) cw"

definition reconcileNZBGet :: "'w DownloadStackConfigReconciler \<Rightarrow> NZBGetSpec \<Rightarrow> ('w, unit) stack_step" where
  "reconcileNZBGet r spec cw =
     with_credentials r ''NZBGet''
       (stack_credentials (dsr_Env r) (om_Namespace (dsc_ObjectMeta (fst cw))) (''nzbget'', ''tegbzn6789'')
         (nzb_connection_CredentialsSecretRef (nzb_Connection spec)))
       (\<lambda>(username, password).
         reconcile_client r ''NZBGet'' (\<lambda>b st. st\<lparr>dst_NZBGetConnected := b\<rparr>) (\<lambda>v st. st\<lparr>dst_NZBGetVersion := v\<rparr>)
           (NewNZBGetClient (dsr_http r) (dsr_nzbget_json r) (nzb_connection_URL (nzb_Connection spec)) username password)
           nzbget_TestConnection nzbget_GetVersion (syncNZBGetSettings spec)) cw"

section \<open>Reconciliation\<close>

definition no_client :: "DownloadStackConfigSpec \<Rightarrow> bool" where
  "no_client spec \<longleftrightarrow> dss_Transmission spec = None \<and> dss_QBittorrent spec = None \<and> dss_Deluge spec = None \<and> dss_RTorrent spec = None \<and>
     dss_SABnzbd spec = None \<and> dss_NZBGet spec = None"

definition no_client_text :: string where
  "no_client_text = ''At least one download client (Transmission, qBittorrent, Deluge, rTorrent, SABnzbd, or NZBGet) must be configured''"

definition if_configured :: "'x option \<Rightarrow> ('x \<Rightarrow> ('w, unit) stack_step) \<Rightarrow> ('w, unit) stack_step" where
  "if_configured spec m = (case spec of None \<Rightarrow> give () | Some x \<Rightarrow> m x)"

definition configure_clients :: "'w DownloadStackConfigReconciler \<Rightarrow> DownloadStackConfigSpec \<Rightarrow> ('w, unit) stack_step" where
  "configure_clients r spec = in_order
     [if_configured (dss_Transmission spec) (reconcileTransmission r),
      if_configured (dss_QBittorrent spec) (reconcileQBittorrent r),
      if_configured (dss_Deluge spec) (reconcileDeluge r),
      if_configured (dss_RTorrent spec) (reconcileRTorrent r),
      if_configured (dss_SABnzbd spec) (reconcileSABnzbd r),
      if_configured (dss_NZBGet spec) (reconcileNZBGet r)]"

definition stack_done :: "'w DownloadStackConfigReconciler \<Rightarrow> int \<Rightarrow> ('w, reconcile_return) stack_step" where
  "stack_done r now cw =
     (let generation = om_Generation (dsc_ObjectMeta (fst cw))
      in on_config (update_stack_status (\<lambda>st. st\<lparr>dst_LastReconcile := Some now, dst_ObservedGeneration := generation\<rparr>))
        (SetCondition (dsr_Env r) stack_wrapper generation ConditionTypeReady ConditionTrue ''Reconciled'' ''Configuration applied successfully''
          (if_err (store_object (oc_UpdateStatus (dsr_Client r))) (\<lambda>err. give (no_requeue, Some err)) (\<lambda>_ cw.
             (Ok (requeue_after (requeue_interval (dss_Reconciliation (dsc_Spec (fst cw)))), None), cw)))) cw)"

definition configure_download_clients :: "'w DownloadStackConfigReconciler \<Rightarrow> int \<Rightarrow> ('w, reconcile_return) stack_step" where
  "configure_download_clients r now cw =
     (if no_client (dsc_Spec (fst cw))
      then not_ready r ''NoDownloadClient'' no_client_text (stack_save r ''no download client configured'')
      else if_err (configure_clients r (dsc_Spec (fst cw))) (stack_save r) (\<lambda>_. stack_done r now)) cw"

definition reconcileNormal :: "'w DownloadStackConfigReconciler \<Rightarrow> ('w, reconcile_return) stack_step" where
  "reconcileNormal r =
     read_clock (dsr_Env r) (\<lambda>now.
     configure_gluetun r (configure_download_clients r now))"

definition reconcileDelete :: "'w DownloadStackConfigReconciler \<Rightarrow> ('w, reconcile_return) stack_step" where
  "reconcileDelete r =
     on_config (dsc_ObjectMeta_update (om_Finalizers_update (env_RemoveFinalizer (dsr_Env r) downloadStackFinalizer)))
       (if_err (store_object (oc_Update (dsr_Client r))) (\<lambda>err. give (no_requeue, Some err)) (\<lambda>_. give (no_requeue, None)))"

definition reconcile_stack :: "'w DownloadStackConfigReconciler \<Rightarrow> ('w, reconcile_return) stack_step" where
  "reconcile_stack r cw =
     (let env = dsr_Env r; config = fst cw; meta = dsc_ObjectMeta config
      in if (case dss_Reconciliation (dsc_Spec config) of None \<Rightarrow> False | Some spec \<Rightarrow> rcs_Suspend spec) then give (no_requeue, None) cw
         else if om_DeletionTimestamp meta \<noteq> None then reconcileDelete r cw
         else if \<not> env_ContainsFinalizer env downloadStackFinalizer (om_Finalizers meta)
         then on_config (dsc_ObjectMeta_update (om_Finalizers_update (env_AddFinalizer env downloadStackFinalizer)))
           (if_err (store_object (oc_Update (dsr_Client r))) (\<lambda>err. give (no_requeue, Some err))
             (\<lambda>_. give (\<lparr>res_Requeue = True, res_RequeueAfter = 0\<rparr>, None))) cw
         else reconcileNormal r cw)"

definition Reconcile :: "'w DownloadStackConfigReconciler \<Rightarrow> string \<Rightarrow> string \<Rightarrow> ('w, reconcile_return) action" where
  "Reconcile r namespace name =
     if_err (oc_Get (dsr_Client r) namespace name) (\<lambda>err. give (no_requeue, Some err)) (\<lambda>obj.
       case obj of
         None \<Rightarrow> give (no_requeue, None)
       | Some c \<Rightarrow> (\<lambda>w. case reconcile_stack r (c, w) of (q, (c', w')) \<Rightarrow> (q, w')))"

end
