(* ===== verification/Wp_Rules.thy ===== *)
theory Wp_Rules
  imports Go_Values Reconcile_Status
begin

text \<open>
  Weakest preconditions for the actions of the clients: the rules of the collection \<open>wp\<close> rewrite
  \<open>ensures m s Q\<close> along the program text of \<open>m\<close>, as the reconciler's rules of \<open>ensures\<close> do for the
  steps on a stored resource.
\<close>

named_theorems wp \<open>weakest preconditions of the combinators\<close>

lemma wp_andThen [wp]:
  "ensures (andThen m k) s Q \<longleftrightarrow>
    ensures m s (\<lambda>q s'. case q of Ok x \<Rightarrow> ensures (k x) s' Q | Err e \<Rightarrow> Q (Err e) s' | Panic p \<Rightarrow> Q (Panic p) s')"
  by (simp add: ensures_def andThen_def split: prod.split outcome.split)

lemma wp_if_err [wp]:
  "ensures (if_err m h k) s Q \<longleftrightarrow>
    ensures m s (\<lambda>q s'. case q of Ok x \<Rightarrow> ensures (k x) s' Q | Err e \<Rightarrow> ensures (h e) s' Q | Panic p \<Rightarrow> Q (Panic p) s')"
  by (simp add: ensures_def if_err_def split: prod.split outcome.split)

lemma wp_wrap_err [wp]:
  "ensures (wrap_err msg m) s Q \<longleftrightarrow>
    ensures m s (\<lambda>q s'. case q of Ok x \<Rightarrow> Q (Ok x) s' | Err e \<Rightarrow> Q (Err (msg @ '': '' @ e)) s' | Panic p \<Rightarrow> Q (Panic p) s')"
  by (simp add: ensures_def wrap_err_def split: prod.split outcome.split)

lemma wp_or_else [wp]:
  "ensures (or_else m h) s Q \<longleftrightarrow>
    ensures m s (\<lambda>q s'. case q of Ok x \<Rightarrow> Q (Ok x) s' | Err e \<Rightarrow> ensures (h e) s' Q | Panic p \<Rightarrow> Q (Panic p) s')"
  by (simp add: ensures_def or_else_def split: prod.split outcome.split)

lemma wp_discard [wp]:
  "ensures (discard m) s Q \<longleftrightarrow>
    ensures m s (\<lambda>q s'. case q of Ok x \<Rightarrow> Q (Ok ()) s' | Err e \<Rightarrow> Q (Err e) s' | Panic p \<Rightarrow> Q (Panic p) s')"
  by (simp add: discard_def ensures_def andThen_def give_def split: prod.split outcome.split)

lemma wp_of_outcome [wp]: "ensures (of_outcome r) s Q \<longleftrightarrow> Q r s"
  by (simp add: ensures_def)

lemma wp_with_client [wp]: "ensures (with_client k) cw Q \<longleftrightarrow> ensures (k (fst cw)) cw Q"
  by (simp add: ensures_def with_client_def)

lemma wp_on_service [wp]: "ensures (on_service m) (c, w) Q \<longleftrightarrow> ensures m w (\<lambda>q w'. Q q (c, w'))"
  by (simp add: ensures_def on_service_def split: prod.split)

lemma wp_if [wp]: "ensures (if b then m else m') s Q \<longleftrightarrow> (if b then ensures m s Q else ensures m' s Q)"
  by simp

lemma ensures_mono: "ensures m s Q \<Longrightarrow> (\<And>q s'. Q q s' \<Longrightarrow> Q' q s') \<Longrightarrow> ensures m s Q'"
  by (simp add: ensures_def split: prod.splits)

text \<open>The same as rules that pass through an assertion on the state between two steps.\<close>

lemma andThen_rule:
  assumes "ensures m s P" and "\<And>x s'. P (Ok x) s' \<Longrightarrow> ensures (k x) s' Q"
    and "\<And>e s'. P (Err e) s' \<Longrightarrow> Q (Err e) s'" and "\<And>p s'. P (Panic p) s' \<Longrightarrow> Q (Panic p) s'"
  shows "ensures (andThen m k) s Q"
  unfolding wp_andThen using assms(1) by (rule ensures_mono) (auto intro: assms(2-4) split: outcome.split)

lemma if_err_rule:
  assumes "ensures m s P" and "\<And>x s'. P (Ok x) s' \<Longrightarrow> ensures (k x) s' Q"
    and "\<And>e s'. P (Err e) s' \<Longrightarrow> ensures (h e) s' Q" and "\<And>p s'. P (Panic p) s' \<Longrightarrow> Q (Panic p) s'"
  shows "ensures (if_err m h k) s Q"
  unfolding wp_if_err using assms(1) by (rule ensures_mono) (auto intro: assms(2-4) split: outcome.split)

lemma wrap_err_rule:
  assumes "ensures m s P" and "\<And>x s'. P (Ok x) s' \<Longrightarrow> Q (Ok x) s'"
    and "\<And>e s'. P (Err e) s' \<Longrightarrow> Q (Err (msg @ '': '' @ e)) s'" and "\<And>p s'. P (Panic p) s' \<Longrightarrow> Q (Panic p) s'"
  shows "ensures (wrap_err msg m) s Q"
  unfolding wp_wrap_err using assms(1)
proof (rule ensures_mono)
  show "case q of Ok x \<Rightarrow> Q (Ok x) s' | Err e \<Rightarrow> Q (Err (msg @ '': '' @ e)) s' | Panic p \<Rightarrow> Q (Panic p) s'" if "P q s'" for q s'
    using that assms(2-4) by (cases q) simp_all
qed

lemma ensures_eq: "ensures m s (\<lambda>q s'. q = r \<and> s' = t) \<longleftrightarrow> m s = (r, t)"
  by (auto simp: ensures_def split: prod.split)

lemma ensures_runs: "m s = (q, s') \<Longrightarrow> ensures m s Q \<longleftrightarrow> Q q s'"
  by (simp add: ensures_def)

end
