(* ===== verification/Transmission_Session.thy ===== *)
theory Transmission_Session
  imports Transmission Wp_Rules
begin

text \<open>
  The retry loop of the Transmission client: it ends for every server after at most five HTTP
  requests and seven seconds of waiting, and against a server that follows Transmission's session
  protocol it hides the protocol from its callers. The days of the alternative speed limits are
  the bits of the mask.
\<close>

section \<open>The loop ends\<close>

text \<open>A world with a meter: the number of HTTP requests and the seconds slept so far.\<close>

record 'w metered =
  mt_requests :: nat
  mt_slept :: nat
  mt_world :: 'w

definition metered_transport :: "'w transport \<Rightarrow> 'w metered transport" where
  "metered_transport Do req m =
     (case Do req (mt_world m) of (r, w) \<Rightarrow> (r, m\<lparr>mt_requests := mt_requests m + 1, mt_world := w\<rparr>))"

definition metered_sleep :: "(nat \<Rightarrow> 'w \<Rightarrow> 'w) \<Rightarrow> nat \<Rightarrow> 'w metered \<Rightarrow> 'w metered" where
  "metered_sleep sleep n m = m\<lparr>mt_slept := mt_slept m + n, mt_world := sleep n (mt_world m)\<rparr>"

definition metered_client :: "'w TransmissionClient \<Rightarrow> 'w metered TransmissionClient" where
  "metered_client c =
     \<lparr>trc_baseURL = trc_baseURL c, trc_rpcURL = trc_rpcURL c, trc_sessionID = trc_sessionID c, trc_username = trc_username c,
      trc_password = trc_password c, trc_Do = metered_transport (trc_Do c), trc_Sleep = metered_sleep (trc_Sleep c), trc_json = trc_json c\<rparr>"

definition start_meter :: "'w \<Rightarrow> 'w metered" where
  "start_meter w = \<lparr>mt_requests = 0, mt_slept = 0, mt_world = w\<rparr>"

text \<open>A client on the metered world: its calls count, whatever they answer.\<close>

definition counts :: "'w metered TransmissionClient \<Rightarrow> bool" where
  "counts c \<longleftrightarrow> (\<exists>Do sleep. trc_Do c = metered_transport Do \<and> trc_Sleep c = metered_sleep sleep)"

lemma counts_client [simp]: "counts (metered_client c)"
  by (auto simp: counts_def metered_client_def)

lemma counts_session [simp]: "counts (trc_sessionID_update f c) = counts c"
  by (simp add: counts_def)

text \<open>\<open>spent r t\<close>: at most \<open>r\<close> requests and \<open>t\<close> seconds since the meter stood at \<open>m\<close>.\<close>

definition spent :: "'w metered \<Rightarrow> nat \<Rightarrow> nat \<Rightarrow> 'w metered \<Rightarrow> bool" where
  "spent m r t m' \<longleftrightarrow> mt_requests m' \<le> mt_requests m + r \<and> mt_slept m' \<le> mt_slept m + t"

lemma spent_refl [simp]: "spent m r t m"
  by (simp add: spent_def)

lemma spent_trans: "spent m r t m' \<Longrightarrow> spent m' r' t' m'' \<Longrightarrow> r + r' \<le> R \<Longrightarrow> t + t' \<le> T \<Longrightarrow> spent m R T m''"
  by (simp add: spent_def)

lemma send_spent:
  assumes "counts c"
  shows "ensures (send headers req) (c, m) (\<lambda>q (c', m'). c' = c \<and> spent m 1 0 m')"
proof -
  obtain Do where "trc_Do c = metered_transport Do" using assms by (auto simp: counts_def)
  then show ?thesis
    by (simp add: send_def wp_with_client wp_on_service) (simp add: ensures_def metered_transport_def spent_def split: prod.split)
qed

lemma sleep_spent:
  assumes "counts c"
  shows "ensures (sleep_seconds n) (c, m) (\<lambda>q (c', m'). q = Ok () \<and> c' = c \<and> spent m 0 n m')"
proof -
  obtain sleep where "trc_Sleep c = metered_sleep sleep" using assms by (auto simp: counts_def)
  then show ?thesis
    by (simp add: sleep_seconds_def wp) (simp add: ensures_def metered_sleep_def spent_def)
qed

lemma read_answer_keeps: "ensures (read_answer resp) cw (\<lambda>q cw'. cw' = cw)"
  by (simp add: read_answer_def wp split: outcome.split)

lemma rpc_post_keeps: "ensures (rpc_post body) cw (\<lambda>q cw'. cw' = cw)"
  by (simp add: rpc_post_def wp split: outcome.split)

text \<open>Getting a session takes one request; afterwards the client has one.\<close>

lemma getSessionID_spent:
  assumes "counts c"
  shows "ensures getSessionID (c, m) (\<lambda>q (c', m'). counts c' \<and> spent m 1 0 m' \<and> (q = Ok () \<longrightarrow> trc_sessionID c' \<noteq> ''''))"
  unfolding getSessionID_def
proof (rule andThen_rule [OF rpc_post_keeps], goal_cases)
  case (1 req cw)
  have "ensures (wrap_err msg (send headers req)) (c, m) (\<lambda>q (c', m'). c' = c \<and> spent m 1 0 m')" for msg headers
    by (rule wrap_err_rule [OF send_spent [OF assms]])
  then show ?case
    unfolding 1
    by (rule andThen_rule) (auto simp: set_session_def assms)
qed (auto simp: assms)

definition session_missing :: "'w TransmissionClient \<Rightarrow> nat" where
  "session_missing c = (if trc_sessionID c = '''' then 1 else 0)"

lemma ensure_session_spent:
  assumes "counts c"
  shows "ensures ensure_session (c, m) (\<lambda>q (c', m'). counts c' \<and> spent m (session_missing c) 0 m' \<and> (q = Ok () \<longrightarrow> trc_sessionID c' \<noteq> ''''))"
proof (cases "trc_sessionID c = ''''")
  case True
  then show ?thesis
    by (simp add: ensure_session_def wp_with_client wp_if session_missing_def) (rule wrap_err_rule [OF getSessionID_spent [OF assms]], auto)
next
  case False
  then show ?thesis by (simp add: ensure_session_def wp_with_client assms)
qed

text \<open>The seconds that a loop at its attempt \<open>a\<close> may still sleep.\<close>

definition wait_left :: "nat \<Rightarrow> nat" where
  "wait_left a = 8 - 2 ^ min a 3"

lemma wait_left_step: "a < MaxRetries \<Longrightarrow> 2 ^ a + wait_left (a + 1) \<le> wait_left a"
proof -
  assume "a < MaxRetries"
  then have "a = 0 \<or> a = 1 \<or> a = 2" by (auto simp: MaxRetries_def)
  then show ?thesis by (auto simp: wait_left_def)
qed

lemma wait_left_mono: "wait_left (a + 1) \<le> wait_left a"
  unfolding wait_left_def by (intro diff_le_mono2 power_increasing) auto

lemma attempt_request_spent:
  assumes "counts c"
  shows "ensures (attempt_request body a) (c, m) (\<lambda>q (c', m'). spent m (Suc MaxRetries - a + session_missing c) (wait_left a) m')"
  using assms
proof (induction "Suc MaxRetries - a" arbitrary: a c m)
  case 0
  then show ?case by (simp add: attempt_request.simps)
next
  case (Suc n)
  let ?r = "Suc MaxRetries - a + session_missing c"
  have a: "a \<le> MaxRetries" using Suc(2) by simp
  have again: "ensures (attempt_request body (a + 1)) (c', m') (\<lambda>q (c', m''). spent m ?r (wait_left a) m'')"
    if c': "counts c'" "trc_sessionID c' \<noteq> ''''" and m': "spent m (session_missing c + 1) t m'" and t: "t + wait_left (a + 1) \<le> wait_left a" for c' m' t
  proof (rule ensures_mono [OF Suc(1) [of "a + 1" c' m', OF _ c'(1)]])
    show "n = Suc MaxRetries - (a + 1)" using Suc(2) by simp
    show "(case s' of (c', m'') \<Rightarrow> spent m ?r (wait_left a) m'')"
      if "(case s' of (c'', m'') \<Rightarrow> spent m' (Suc MaxRetries - (a + 1) + session_missing c') (wait_left (a + 1)) m'')" for s'
      using that c'(2) a t by (cases s') (auto simp: session_missing_def intro: spent_trans [OF m'])
  qed
  have sent: "ensures (send headers req) (c', m') (\<lambda>q (c'', m''). c'' = c' \<and> spent m (session_missing c + 1) 0 m'')"
    if "counts c'" "spent m (session_missing c) 0 m'" for headers req c' m'
    using send_spent [OF that(1)] by (rule ensures_mono) (auto intro: spent_trans [OF that(2)])
  have enough: "spent m (session_missing c + 1) 0 m' \<Longrightarrow> spent m ?r (wait_left a) m'" for m'
    using a by (auto simp: spent_def)
  show ?case
    unfolding attempt_request.simps [of body a] if_P [OF a]
  proof (rule andThen_rule [OF ensure_session_spent [OF Suc(3)]], goal_cases)
    case (1 x cw)
    then obtain c' m' where cw: "cw = (c', m')" and c': "counts c'" "trc_sessionID c' \<noteq> ''''" and m': "spent m (session_missing c) 0 m'"
      by (cases cw) auto
    show ?case
      unfolding cw
    proof (rule andThen_rule [OF rpc_post_keeps], goal_cases)
      case (1 req cw')
      show ?case
        unfolding 1
      proof (rule if_err_rule, unfold wp_with_client, rule sent [OF _ m'], goal_cases)
        case (2 resp cw)
        then obtain m'' where cw: "cw = (c', m'')" and m'': "spent m (session_missing c + 1) 0 m''" by (cases cw) auto
        show ?case
          unfolding cw wp_if
          using c' enough [OF m''] again [OF _ _ m'' , of "trc_sessionID_update f c'" for f] wait_left_mono [of a]
          by (auto simp: set_session_def intro: ensures_mono [OF read_answer_keeps])
      next
        case (3 e cw)
        then obtain m'' where cw: "cw = (c', m'')" and m'': "spent m (session_missing c + 1) 0 m''" by (cases cw) auto
        show ?case
        proof (cases "a < MaxRetries")
          case True
          show ?thesis
            unfolding cw if_P [OF True]
          proof (rule andThen_rule [OF sleep_spent [OF c'(1)]], goal_cases)
            case (1 x s')
            then obtain m3 where s': "s' = (c', m3)" and m3: "spent m'' 0 (2 ^ a) m3" by (cases s') auto
            show ?case
              unfolding s' by (rule again [OF c' spent_trans [OF m'' m3] wait_left_step [OF True]]) simp_all
          qed auto
        qed (simp add: cw enough [OF m''])
      qed (use c' enough in auto)
    qed (use m' a in \<open>auto simp: spent_def\<close>)
  qed (use a in \<open>auto simp: spent_def\<close>)
qed

text \<open>
  C9. The Transmission client's retry loop always ends: whatever the server and the network do, a
  request to Transmission makes at most five HTTP requests and sleeps for at most seven seconds
  before it returns.
\<close>

theorem Transmission_request_ends:
  "case request method arguments (metered_client c, start_meter w) of
     (q, (c', m)) \<Rightarrow> mt_requests m \<le> 5 \<and> mt_slept m \<le> 7"
proof -
  have "ensures (request method arguments) (metered_client c, start_meter w) (\<lambda>q (c', m). spent (start_meter w) 5 7 m)"
    unfolding request_def
  proof (rule andThen_rule [where P = "\<lambda>q s. s = (metered_client c, start_meter w)"], goal_cases)
    case 1
    show ?case by (simp add: wp_with_client wp_wrap_err wp_of_outcome split: outcome.split)
  next
    case (2 body s)
    have "session_missing (metered_client c) \<le> 1" by (simp add: session_missing_def)
    then show ?case
      unfolding 2
      by (intro ensures_mono [OF attempt_request_spent [OF counts_client]])
        (auto simp: MaxRetries_def wait_left_def spent_def)
  qed auto
  then show ?thesis
    by (simp add: ensures_def spent_def start_meter_def split: prod.splits)
qed

section \<open>The session protocol\<close>

text \<open>
  Transmission's protocol: a request without the current session ID is refused with status 409 and
  told the ID; the others are handled.
\<close>

definition session_server :: "('w \<Rightarrow> string) \<Rightarrow> 'w transport \<Rightarrow> 'w transport \<Rightarrow> bool" where
  "session_server sid handle Do \<longleftrightarrow>
     (\<forall>req w. Do req w = (if map_of (rq_Header req) SessionHeader = Some (sid w) then handle req w
        else (Ok \<lparr>rs_StatusCode = 409, rs_Header = [(SessionHeader, sid w)], rs_Body = ''''\<rparr>, w)))"

lemma canonical_session [simp]: "canonical_from True SessionHeader = SessionHeader"
  by (simp add: SessionHeader_def canonical_from.simps is_lower_def to_lower_char_def is_upper_def)

lemma header_names [simp]: "SessionHeader \<noteq> ''Content-Type''"
  by (simp add: SessionHeader_def)

definition plain_post :: "'w TransmissionClient \<Rightarrow> string \<Rightarrow> HttpRequest" where
  "plain_post c body = \<lparr>rq_Method = ''POST'', rq_URL = trc_rpcURL c, rq_Header = [], rq_BasicAuth = None, rq_Body = Some body\<rparr>"

text \<open>The request a caller means to send, with the session of the client.\<close>

definition session_request :: "'w TransmissionClient \<Rightarrow> string \<Rightarrow> HttpRequest" where
  "session_request c body = basic_auth (trc_username c) (trc_password c) (session_headers c (plain_post c body))"

lemma basic_auth_header [simp]: "rq_Header (basic_auth u p req) = rq_Header req"
  by (simp add: basic_auth_def SetBasicAuth_def)

lemma session_request_header [simp]: "map_of (rq_Header (session_request c body)) SessionHeader = Some (trc_sessionID c)"
  by (simp add: session_request_def session_headers_def set_header_def plain_post_def map_of_gm_set)

lemma rpc_post_runs: "url_ok (trc_rpcURL c) \<Longrightarrow> rpc_post body (c, w) = (Ok (plain_post c body), (c, w))"
  by (auto simp: rpc_post_def with_client_def url_ok_def NewRequest_def plain_post_def wrap_err_def)

text \<open>One attempt of a client that has a session.\<close>

lemma attempt_runs:
  assumes "url_ok (trc_rpcURL c)" and "trc_sessionID c \<noteq> ''''" and "a \<le> MaxRetries"
    and "trc_Do c (session_request c body) w = (Ok resp, w')"
  shows "attempt_request body a (c, w) =
    (if rs_StatusCode resp = 409
     then set_session (get_header resp SessionHeader) ''session expired but no new ID provided'' (attempt_request body (a + 1)) (c, w')
     else read_answer resp (c, w'))"
proof -
  have "ensure_session (c, w) = (Ok (), (c, w))" using assms(2) by (simp add: ensure_session_def with_client_def give_def)
  moreover have "with_client (\<lambda>c. send (session_headers c) (plain_post c body)) (c, w) = (Ok resp, (c, w'))"
    using assms(4) by (simp add: with_client_def send_def on_service_def session_request_def)
  ultimately show ?thesis
    using assms(3) by (subst attempt_request.simps) (simp add: rpc_post_runs [OF assms(1)] if_err_def with_client_def)
qed

lemma getSessionID_runs:
  assumes "session_server sid handle (trc_Do c)" and "url_ok (trc_rpcURL c)" and "sid w \<noteq> ''''"
  shows "getSessionID (c, w) = (Ok (), (c\<lparr>trc_sessionID := sid w\<rparr>, w))"
proof -
  have "send (set_header ''Content-Type'' ''application/json'') (plain_post c body) (c, w) =
      (Ok \<lparr>rs_StatusCode = 409, rs_Header = [(SessionHeader, sid w)], rs_Body = ''''\<rparr>, (c, w))" for body
    using assms(1) by (simp add: send_def with_client_def on_service_def session_server_def set_header_def plain_post_def gm_set_def)
  then show ?thesis
    using assms(3) by (simp add: getSessionID_def rpc_post_runs [OF assms(2)] wrap_err_def set_session_def on_config_def get_header_def give_def)
qed

text \<open>
  C10. The client hides Transmission's session protocol: against a server that follows it, a request
  of a client without a session, with an expired one or with the current one is answered in the
  same way, by what the server makes of the request with its current session ID, and the client
  then has that ID.
\<close>

theorem Transmission_session_recovers:
  assumes "session_server sid handle (trc_Do c)" and "url_ok (trc_rpcURL c)" and "sid w \<noteq> ''''"
    and "Marshal (tj_request (trc_json c)) \<lparr>trq_Method = method, trq_Arguments = arguments, trq_Tag = 0\<rparr> = Ok body"
    and "handle (session_request (c\<lparr>trc_sessionID := sid w\<rparr>) body) w = (Ok resp, w')" and "rs_StatusCode resp \<noteq> 409"
  shows "request method arguments (c, w) = read_answer resp (c\<lparr>trc_sessionID := sid w\<rparr>, w')"
proof -
  let ?c = "c\<lparr>trc_sessionID := sid w\<rparr>"
  have Do: "trc_Do c (session_request c' body) w =
      (if trc_sessionID c' = sid w then handle (session_request c' body) w
       else (Ok \<lparr>rs_StatusCode = 409, rs_Header = [(SessionHeader, sid w)], rs_Body = ''''\<rparr>, w))" for c' :: "'a TransmissionClient"
    using assms(1) by (simp add: session_server_def)
  have current: "attempt_request body a (?c, w) = read_answer resp (?c, w')" if "a \<le> MaxRetries" for a
    using that assms(2,3,5,6) Do [of ?c] attempt_runs [of ?c a body w resp w'] by simp
  have "attempt_request body 0 (c, w) = read_answer resp (?c, w')"
  proof (cases "trc_sessionID c = ''''")
    case True
    then have "ensure_session (c, w) = (Ok (), (?c, w))"
      using getSessionID_runs [OF assms(1-3)] by (simp add: ensure_session_def with_client_def wrap_err_def)
    moreover have "ensure_session (?c, w) = (Ok (), (?c, w))"
      using assms(3) by (simp add: ensure_session_def with_client_def give_def)
    ultimately have "attempt_request body 0 (c, w) = attempt_request body 0 (?c, w)"
      by (subst (1 2) attempt_request.simps) simp
    then show ?thesis using current by simp
  next
    case False
    show ?thesis
    proof (cases "trc_sessionID c = sid w")
      case True
      then have "?c = c" by simp
      then show ?thesis using current [of 0] by simp
    next
      case other: False
      have "attempt_request body 0 (c, w) = attempt_request body 1 (?c, w)"
        using attempt_runs [OF assms(2) False _ Do [of c, unfolded if_not_P [OF other]], of 0] assms(3)
        by (simp add: set_session_def on_config_def get_header_def)
      then show ?thesis using current [of 1] by (simp add: MaxRetries_def)
    qed
  qed
  then show ?thesis
    using assms(4) by (simp add: request_def with_client_def wrap_err_def)
qed

text \<open>A server whose session ID is its state, and a client whose ID has expired.\<close>

definition sample_handle :: "string transport" where
  "sample_handle req w = (Ok \<lparr>rs_StatusCode = 200, rs_Header = [], rs_Body = ''pong''\<rparr>, w)"

definition sample_server :: "string transport" where
  "sample_server req w =
     (if map_of (rq_Header req) SessionHeader = Some w then sample_handle req w
      else (Ok \<lparr>rs_StatusCode = 409, rs_Header = [(SessionHeader, w)], rs_Body = ''''\<rparr>, w))"

definition sample_json :: TransmissionJSON where
  "sample_json =
     \<lparr>tj_request = \<lparr>Marshal = (\<lambda>r. Ok (trq_Method r)), Unmarshal = (\<lambda>_. Err ''not read'')\<rparr>,
      tj_response = \<lparr>Marshal = (\<lambda>_. Err ''not written''), Unmarshal = (\<lambda>s. Ok \<lparr>trs_Result = ''success'', trs_Arguments = [(s, JNull)], trs_Tag = 0\<rparr>)\<rparr>,
      tj_arguments = \<lparr>Marshal = (\<lambda>_. Ok ''''), Unmarshal = (\<lambda>_. Err ''not read'')\<rparr>,
      tj_session = \<lparr>Marshal = (\<lambda>_. Err ''not written''), Unmarshal = (\<lambda>_. Err ''no session'')\<rparr>\<rparr>"

definition sample_client :: "string TransmissionClient" where
  "sample_client = (NewTransmissionClient (\<lambda>_. sample_server) (\<lambda>_ w. w) sample_json ''http://t:9091'' ''u'' ''p'')\<lparr>trc_sessionID := ''old''\<rparr>"

theorem Transmission_session_recovers_witness:
  "request ''session-stats'' [] (sample_client, ''new'') =
    (Ok \<lparr>trs_Result = ''success'', trs_Arguments = [(''pong'', JNull)], trs_Tag = 0\<rparr>, (sample_client\<lparr>trc_sessionID := ''new''\<rparr>, ''new''))"
proof -
  have "session_server (\<lambda>w. w) sample_handle (trc_Do sample_client)"
    by (simp add: session_server_def sample_client_def NewTransmissionClient_def sample_server_def)
  moreover have "url_ok (trc_rpcURL sample_client)"
    by (simp add: sample_client_def NewTransmissionClient_def) code_simp
  moreover have "Marshal (tj_request (trc_json sample_client)) \<lparr>trq_Method = ''session-stats'', trq_Arguments = [], trq_Tag = 0\<rparr> = Ok ''session-stats''"
    by (simp add: sample_client_def NewTransmissionClient_def sample_json_def)
  moreover have "''new'' \<noteq> ''''" by simp
  ultimately have "request ''session-stats'' [] (sample_client, ''new'') =
      read_answer \<lparr>rs_StatusCode = 200, rs_Header = [], rs_Body = ''pong''\<rparr> (sample_client\<lparr>trc_sessionID := ''new''\<rparr>, ''new'')"
    by (intro Transmission_session_recovers [where sid = "\<lambda>w. w" and handle = sample_handle]) (simp_all add: sample_handle_def)
  then show ?thesis
    by (simp add: read_answer_def with_client_def wrap_err_def give_def sample_client_def NewTransmissionClient_def sample_json_def)
qed

section \<open>The days of the alternative speed limits\<close>

lemma bit_day: "bit (day_bit d) n \<longleftrightarrow> n < 7 \<and> d = (if n = 0 then 7 else int n)"
proof -
  have "day_bit d = (if 1 \<le> d \<and> d \<le> 6 then 2 ^ nat d else if d = 7 then 2 ^ 0 else 0)"
  proof (cases "1 \<le> d \<and> d \<le> 6")
    case True
    then have "d = 1 \<or> d = 2 \<or> d = 3 \<or> d = 4 \<or> d = 5 \<or> d = 6" by auto
    then show ?thesis by (elim disjE) (simp_all add: day_bit_def)
  next
    case False
    then have "d \<noteq> 1 \<and> d \<noteq> 2 \<and> d \<noteq> 3 \<and> d \<noteq> 4 \<and> d \<noteq> 5 \<and> d \<noteq> 6" by auto
    then show ?thesis using False by (simp add: day_bit_def)
  qed
  then show ?thesis by (auto simp: bit_exp_iff simp del: power_0)
qed

lemma bit_dayMask: "bit (dayMask days) n \<longleftrightarrow> n < 7 \<and> (if n = 0 then 7 else int n) \<in> set days"
proof -
  have "bit (fold (\<lambda>day mask. mask OR day_bit day) days m) n \<longleftrightarrow> bit m n \<or> (n < 7 \<and> (if n = 0 then 7 else int n) \<in> set days)" for m
    by (induction days arbitrary: m) (auto simp: bit_or_iff bit_day)
  then show ?thesis by (simp add: dayMask_def)
qed

lemma map_of_set_if: "map_of (set_if c k v m) k' = (if c \<and> k' = k then Some v else map_of m k')"
  by (simp add: set_if_def map_of_gm_set)

lemma map_of_set_opt: "map_of (set_opt p k f m) k' = (if p \<noteq> None \<and> k' = k then Some (f (the p)) else map_of m k')"
  by (cases p) (simp_all add: set_opt_def map_of_gm_set)

lemma unset_later:
  "map_of (transmission_blocklist b m) ''alt-speed-time-day'' = map_of m ''alt-speed-time-day''"
  "map_of (transmission_security x m) ''alt-speed-time-day'' = map_of m ''alt-speed-time-day''"
  "map_of (transmission_peers y m) ''alt-speed-time-day'' = map_of m ''alt-speed-time-day''"
  "map_of (transmission_queue z m) ''alt-speed-time-day'' = map_of m ''alt-speed-time-day''"
  "map_of (transmission_seeding pf t m) ''alt-speed-time-day'' = map_of m ''alt-speed-time-day''"
  "map_of (transmission_directories u m) ''alt-speed-time-day'' = map_of m ''alt-speed-time-day''"
  by (simp_all add: transmission_blocklist_def transmission_security_def transmission_peers_def transmission_queue_def
      transmission_seeding_def transmission_directories_def map_of_set_if map_of_set_opt map_of_gm_set)

lemma section_keeps: "(\<And>s m. map_of (f s m) k = map_of m k) \<Longrightarrow> map_of (on_section sec f m) k = map_of m k"
  by (simp add: on_section_def split: option.split)

text \<open>
  The days of Transmission's alternative speed limits: when the resource names days, the
  settings contain a mask whose bit 0 says whether Sunday (day 7) is among them, bit n for n from
  1 to 6 whether day n is, and which has no other bits; days outside 1 to 7 are ignored.
\<close>

theorem Transmission_day_mask:
  assumes "tr_AltSpeed spec = Some alt" and "tr_altspeed_TimeDays alt \<noteq> []"
  shows "\<exists>mask. map_of (buildTransmissionSettings ParseFloat spec) ''alt-speed-time-day'' = Some (VInt mask) \<and>
    (\<forall>n. bit mask n = (n < 7 \<and> (if n = 0 then 7 else int n) \<in> set (tr_altspeed_TimeDays alt)))"
proof -
  have "map_of (buildTransmissionSettings ParseFloat spec) ''alt-speed-time-day'' = Some (VInt (dayMask (tr_altspeed_TimeDays alt)))"
    using assms by (simp add: buildTransmissionSettings_def section_keeps unset_later)
      (simp add: on_section_def transmission_alt_speed_def set_if_def map_of_gm_set)
  then show ?thesis using bit_dayMask by blast
qed

definition weekend_spec :: TransmissionSpec where
  "weekend_spec = \<lparr>tr_Connection = \<lparr>tr_connection_URL = ''http://t:9091'', tr_connection_CredentialsSecretRef = None\<rparr>, tr_Speed = None,
     tr_AltSpeed = Some \<lparr>tr_altspeed_Enabled = True, tr_altspeed_Down = 50, tr_altspeed_Up = 10, tr_altspeed_TimeEnabled = True,
       tr_altspeed_TimeBegin = 540, tr_altspeed_TimeEnd = 1020, tr_altspeed_TimeDays = [6, 7]\<rparr>,
     tr_Directories = None, tr_Seeding = None, tr_Queue = None, tr_Peers = None, tr_Security = None, tr_Blocklist = None\<rparr>"

theorem Transmission_day_mask_witness:
  "\<exists>mask. map_of (buildTransmissionSettings (\<lambda>_. None) weekend_spec) ''alt-speed-time-day'' = Some (VInt mask) \<and>
    bit mask 6 \<and> bit mask 0 \<and> \<not> bit mask 1"
  using Transmission_day_mask [of weekend_spec "the (tr_AltSpeed weekend_spec)" "\<lambda>_. None"]
  by (auto simp: weekend_spec_def)

end
