(* ===== verification/Stack_Safety.thy ===== *)
theory Stack_Safety
  imports Stack_Reconcile Transmission_Session Frame
begin

text \<open>
  What the controller of \<^verbatim>\<open>DownloadStackConfig\<close> reports: a reconciliation without an error means that
  every configured download client answered; a restart of the deployment that failed is reported
  as a success and never tried again; a Deluge server can crash the operator; the units of
  qBittorrent's limits.
\<close>

section \<open>What the steps for the clients change\<close>

lemma stack_wrapper_simps [simp]:
  "GetConditions stack_wrapper c = dst_Conditions (dsc_Status c)"
  "SetConditions stack_wrapper cs c = c\<lparr>dsc_Status := (dsc_Status c)\<lparr>dst_Conditions := cs\<rparr>\<rparr>"
  by (simp_all add: at_status_def DownloadStackStatusWrapper_def)

text \<open>A step that changes nothing of the resource but its status, and keeps \<open>I\<close> of that; when it succeeds it establishes \<open>J\<close>.\<close>

definition status_step ::
    "(DownloadStackConfigStatus \<Rightarrow> bool) \<Rightarrow> (DownloadStackConfigStatus \<Rightarrow> bool) \<Rightarrow> ('w, unit) stack_step \<Rightarrow> bool" where
  "status_step I J m \<longleftrightarrow>
     (\<forall>c w. I (dsc_Status c) \<longrightarrow> ensures m (c, w) (\<lambda>q (c', w'). dsc_Spec c' = dsc_Spec c \<and> dsc_ObjectMeta c' = dsc_ObjectMeta c \<and>
        I (dsc_Status c') \<and> (q = Ok () \<longrightarrow> J (dsc_Status c'))))"

lemma on_service_keeps: "ensures (on_service m) (c, w) (\<lambda>q (c', w'). c' = c)"
  by (simp add: ensures_def on_service_def split: prod.split)

lemma ensures_not_ready:
  "ensures (not_ready r reason msg k) (c, w) Q \<longleftrightarrow>
    ensures k (c\<lparr>dsc_Status := (dsc_Status c)\<lparr>dst_Conditions := env_SetStatusCondition (dsr_Env r)
      \<lparr>cd_Type = ConditionTypeReady, cd_Status = ConditionFalse, cd_ObservedGeneration = om_Generation (dsc_ObjectMeta c),
       cd_LastTransitionTime = env_Now (dsr_Env r) w, cd_Reason = reason, cd_Message = msg\<rparr> (dst_Conditions (dsc_Status c))\<rparr>\<rparr>, w) Q"
  by (simp add: ensures_def not_ready_def SetCondition_def read_clock_def on_config_def)

text \<open>A property of the status that the conditions, and the two fields of one client, do not affect.\<close>

definition unaffected ::
    "(bool \<Rightarrow> DownloadStackConfigStatus \<Rightarrow> DownloadStackConfigStatus) \<Rightarrow> (string \<Rightarrow> DownloadStackConfigStatus \<Rightarrow> DownloadStackConfigStatus)
     \<Rightarrow> (DownloadStackConfigStatus \<Rightarrow> bool) \<Rightarrow> bool" where
  "unaffected set_connected set_version I \<longleftrightarrow>
     (\<forall>st. (\<forall>cs. I (st\<lparr>dst_Conditions := cs\<rparr>) = I st) \<and> (\<forall>b. I (set_connected b st) = I st) \<and> (\<forall>v. I (set_version v st) = I st))"

lemma reconcile_client_step:
  assumes I: "unaffected set_connected set_version I"
    and J: "\<And>st. J (set_connected True st)" "\<And>st v. J (set_version v st) = J st"
  shows "status_step I J (reconcile_client r name set_connected set_version cl test get_version sync)"
  unfolding status_step_def
proof (intro allI impI)
  fix c :: DownloadStackConfig and w :: 'a
  assume c: "I (dsc_Status c)"
  have I': "I (st\<lparr>dst_Conditions := cs\<rparr>) = I st" "I (set_connected b st) = I st" "I (set_version v st) = I st" for st cs b v
    using I by (auto simp: unaffected_def)
  let ?Q = "\<lambda>q (c', w'). dsc_Spec c' = dsc_Spec c \<and> dsc_ObjectMeta c' = dsc_ObjectMeta c \<and> I (dsc_Status c') \<and> (q = Ok () \<longrightarrow> J (dsc_Status c'))"
  have sync_ok: "ensures (sync_client r name cl' sync) (c', w') ?Q" if "?Q (Ok ()) (c', w')" for cl' c' w'
    unfolding sync_client_def by (rule andThen_rule [OF on_service_keeps]) (use that in \<open>auto simp: ensures_not_ready I' split: outcome.split\<close>)
  show "ensures (reconcile_client r name set_connected set_version cl test get_version sync) (c, w) ?Q"
    unfolding reconcile_client_def
  proof (rule andThen_rule [OF on_service_keeps], goal_cases)
    case (1 x s)
    then obtain w' where s: "s = (c, w')" by (cases s) auto
    obtain tested cl' where x: "x = (tested, cl')" by (cases x)
    have "ensures (andThen (on_service (use_client cl' get_version)) (\<lambda>(got, client).
        on_config (update_stack_status (case got of Ok v \<Rightarrow> set_version v | _ \<Rightarrow> (\<lambda>st. st))) (sync_client r name client sync)))
      (update_stack_status (set_connected True) c, w') ?Q"
      by (rule andThen_rule [OF on_service_keeps]) (auto simp: c I' J intro!: sync_ok split: outcome.split)
    then show ?case
      by (auto simp: s x c I' ensures_not_ready split: outcome.split)
  qed (auto simp: c)
qed

lemma status_step_both: "status_step I J m \<Longrightarrow> status_step I (\<lambda>st. I st \<and> J st) m"
  by (auto simp: status_step_def intro: ensures_mono)

lemma status_step_seq:
  assumes m: "status_step I J m" and n: "status_step J K n" and IJ: "\<And>st. J st \<Longrightarrow> I st"
  shows "status_step I K (andThen m (\<lambda>_. n))"
  unfolding status_step_def
proof (intro allI impI)
  fix c :: DownloadStackConfig and w :: 'a
  assume "I (dsc_Status c)"
  with m have first: "ensures m (c, w) (\<lambda>q (c', w'). dsc_Spec c' = dsc_Spec c \<and> dsc_ObjectMeta c' = dsc_ObjectMeta c \<and>
      I (dsc_Status c') \<and> (q = Ok () \<longrightarrow> J (dsc_Status c')))"
    by (simp add: status_step_def)
  show "ensures (andThen m (\<lambda>_. n)) (c, w) (\<lambda>q (c', w'). dsc_Spec c' = dsc_Spec c \<and> dsc_ObjectMeta c' = dsc_ObjectMeta c \<and>
      I (dsc_Status c') \<and> (q = Ok () \<longrightarrow> K (dsc_Status c')))"
  proof (rule andThen_rule [OF first], goal_cases)
    case (1 x s)
    then obtain c' w' where s: "s = (c', w')" and c': "dsc_Spec c' = dsc_Spec c" "dsc_ObjectMeta c' = dsc_ObjectMeta c" "J (dsc_Status c')"
      by (cases s) auto
    have "ensures n (c', w') (\<lambda>q (c', w'). dsc_Spec c' = dsc_Spec c \<and> dsc_ObjectMeta c' = dsc_ObjectMeta c \<and>
        J (dsc_Status c') \<and> (q = Ok () \<longrightarrow> K (dsc_Status c')))"
      using n [unfolded status_step_def, rule_format, OF c'(3)] c'(1,2) by simp
    then show ?case unfolding s by (rule ensures_mono) (auto intro: IJ)
  qed auto
qed

lemma status_step_give: "(\<And>st. I st \<Longrightarrow> J st) \<Longrightarrow> status_step I J (give ())"
  by (simp add: status_step_def)

lemma status_step_configured:
  "(\<And>x. spec = Some x \<Longrightarrow> status_step I J (m x)) \<Longrightarrow> status_step I (\<lambda>st. I st \<and> (spec \<noteq> None \<longrightarrow> J st)) (if_configured spec m)"
  by (cases spec) (auto simp: if_configured_def intro: status_step_give dest: status_step_both)

lemma with_credentials_step:
  assumes "\<And>st cs. I (st\<lparr>dst_Conditions := cs\<rparr>) = I st" and "\<And>x. status_step I J (k x)"
  shows "status_step I J (with_credentials r name resolve k)"
  unfolding status_step_def with_credentials_def
  by (intro allI impI, rule if_err_rule [OF on_service_keeps])
    (use assms in \<open>auto simp: ensures_not_ready status_step_def\<close>)

lemma status_step_reads: "(\<And>c. status_step I J (m c)) \<Longrightarrow> status_step I J (\<lambda>cw. m (fst cw) cw)"
  by (simp add: status_step_def ensures_def)

lemma unaffected_conditions: "unaffected f g I \<Longrightarrow> I (st\<lparr>dst_Conditions := cs\<rparr>) = I st"
  by (simp add: unaffected_def)

text \<open>The six functions: resolve the credentials, then the common part.\<close>

lemmas client_step = status_step_reads [of _ _ "\<lambda>c. with_credentials r name (resolve c) k" for r name resolve k, OF with_credentials_step]

lemma reconcileTransmission_step:
  assumes "unaffected (\<lambda>b st. st\<lparr>dst_TransmissionConnected := b\<rparr>) (\<lambda>v st. st\<lparr>dst_TransmissionVersion := v\<rparr>) I"
  shows "status_step I dst_TransmissionConnected (reconcileTransmission r spec)"
  unfolding reconcileTransmission_def
  by (rule client_step) (auto simp: unaffected_conditions [OF assms] Let_def split: prod.split option.split intro!: reconcile_client_step [OF assms])

lemma reconcileQBittorrent_step:
  assumes "unaffected (\<lambda>b st. st\<lparr>dst_QBittorrentConnected := b\<rparr>) (\<lambda>v st. st\<lparr>dst_QBittorrentVersion := v\<rparr>) I"
  shows "status_step I dst_QBittorrentConnected (reconcileQBittorrent r spec)"
  unfolding reconcileQBittorrent_def
  by (rule client_step) (auto simp: unaffected_conditions [OF assms] Let_def split: prod.split option.split intro!: reconcile_client_step [OF assms])

lemma reconcileDeluge_step:
  assumes "unaffected (\<lambda>b st. st\<lparr>dst_DelugeConnected := b\<rparr>) (\<lambda>v st. st\<lparr>dst_DelugeVersion := v\<rparr>) I"
  shows "status_step I dst_DelugeConnected (reconcileDeluge r spec)"
  unfolding reconcileDeluge_def
  by (rule client_step) (auto simp: unaffected_conditions [OF assms] Let_def split: prod.split option.split intro!: reconcile_client_step [OF assms])

lemma reconcileRTorrent_step:
  assumes "unaffected (\<lambda>b st. st\<lparr>dst_RTorrentConnected := b\<rparr>) (\<lambda>v st. st\<lparr>dst_RTorrentVersion := v\<rparr>) I"
  shows "status_step I dst_RTorrentConnected (reconcileRTorrent r spec)"
  unfolding reconcileRTorrent_def
  by (rule client_step) (auto simp: unaffected_conditions [OF assms] Let_def split: prod.split option.split intro!: reconcile_client_step [OF assms])

lemma reconcileSABnzbd_step:
  assumes "unaffected (\<lambda>b st. st\<lparr>dst_SABnzbdConnected := b\<rparr>) (\<lambda>v st. st\<lparr>dst_SABnzbdVersion := v\<rparr>) I"
  shows "status_step I dst_SABnzbdConnected (reconcileSABnzbd r spec)"
  unfolding reconcileSABnzbd_def
  by (rule client_step) (auto simp: unaffected_conditions [OF assms] Let_def split: prod.split option.split intro!: reconcile_client_step [OF assms])

lemma reconcileNZBGet_step:
  assumes "unaffected (\<lambda>b st. st\<lparr>dst_NZBGetConnected := b\<rparr>) (\<lambda>v st. st\<lparr>dst_NZBGetVersion := v\<rparr>) I"
  shows "status_step I dst_NZBGetConnected (reconcileNZBGet r spec)"
  unfolding reconcileNZBGet_def
  by (rule client_step) (auto simp: unaffected_conditions [OF assms] Let_def split: prod.split option.split intro!: reconcile_client_step [OF assms])

section \<open>Success means that the clients answered\<close>

definition clients_connected :: "DownloadStackConfigSpec \<Rightarrow> DownloadStackConfigStatus \<Rightarrow> bool" where
  "clients_connected spec st \<longleftrightarrow>
     (dss_Transmission spec \<noteq> None \<longrightarrow> dst_TransmissionConnected st) \<and> (dss_QBittorrent spec \<noteq> None \<longrightarrow> dst_QBittorrentConnected st) \<and>
     (dss_Deluge spec \<noteq> None \<longrightarrow> dst_DelugeConnected st) \<and> (dss_RTorrent spec \<noteq> None \<longrightarrow> dst_RTorrentConnected st) \<and>
     (dss_SABnzbd spec \<noteq> None \<longrightarrow> dst_SABnzbdConnected st) \<and> (dss_NZBGet spec \<noteq> None \<longrightarrow> dst_NZBGetConnected st)"

lemma configure_clients_step:
  "status_step (\<lambda>st. dst_GluetunConfigHash st = h) (\<lambda>st. dst_GluetunConfigHash st = h \<and> clients_connected spec st) (configure_clients r spec)"
proof -
  let ?I0 = "\<lambda>st. dst_GluetunConfigHash st = h"
  let ?I1 = "\<lambda>st. ?I0 st \<and> (dss_Transmission spec \<noteq> None \<longrightarrow> dst_TransmissionConnected st)"
  let ?I2 = "\<lambda>st. ?I1 st \<and> (dss_QBittorrent spec \<noteq> None \<longrightarrow> dst_QBittorrentConnected st)"
  let ?I3 = "\<lambda>st. ?I2 st \<and> (dss_Deluge spec \<noteq> None \<longrightarrow> dst_DelugeConnected st)"
  let ?I4 = "\<lambda>st. ?I3 st \<and> (dss_RTorrent spec \<noteq> None \<longrightarrow> dst_RTorrentConnected st)"
  let ?I5 = "\<lambda>st. ?I4 st \<and> (dss_SABnzbd spec \<noteq> None \<longrightarrow> dst_SABnzbdConnected st)"
  let ?I6 = "\<lambda>st. ?I5 st \<and> (dss_NZBGet spec \<noteq> None \<longrightarrow> dst_NZBGetConnected st)"
  have "status_step ?I0 ?I1 (if_configured (dss_Transmission spec) (reconcileTransmission r))"
    by (rule status_step_configured, rule reconcileTransmission_step) (simp add: unaffected_def)
  moreover have "status_step ?I1 ?I2 (if_configured (dss_QBittorrent spec) (reconcileQBittorrent r))"
    by (rule status_step_configured, rule reconcileQBittorrent_step) (simp add: unaffected_def)
  moreover have "status_step ?I2 ?I3 (if_configured (dss_Deluge spec) (reconcileDeluge r))"
    by (rule status_step_configured, rule reconcileDeluge_step) (simp add: unaffected_def)
  moreover have "status_step ?I3 ?I4 (if_configured (dss_RTorrent spec) (reconcileRTorrent r))"
    by (rule status_step_configured, rule reconcileRTorrent_step) (simp add: unaffected_def)
  moreover have "status_step ?I4 ?I5 (if_configured (dss_SABnzbd spec) (reconcileSABnzbd r))"
    by (rule status_step_configured, rule reconcileSABnzbd_step) (simp add: unaffected_def)
  moreover have "status_step ?I5 ?I6 (andThen (if_configured (dss_NZBGet spec) (reconcileNZBGet r)) (\<lambda>_. give ()))"
    by (rule status_step_seq, rule status_step_configured, rule reconcileNZBGet_step) (auto simp: unaffected_def intro: status_step_give)
  ultimately have "status_step ?I0 ?I6 (configure_clients r spec)"
    unfolding configure_clients_def in_order.simps
    by (elim status_step_seq [rotated 2] status_step_seq) blast+
  then show ?thesis by (simp add: clients_connected_def conj_assoc)
qed

text \<open>The steps that fail return an error.\<close>

lemma stack_save_errs: "ensures (stack_save r err) cw (\<lambda>q cw'. \<forall>res. q \<noteq> Ok (res, None))"
  by (simp add: stack_save_def wp_if_err) (rule ensures_any, simp split: outcome.split)

lemma stack_failed_errs: "ensures (stack_failed r reason err) (c, w) (\<lambda>q cw'. \<forall>res. q \<noteq> Ok (res, None))"
  by (simp add: stack_failed_def ensures_not_ready stack_save_errs)

definition on_success :: "(DownloadStackConfig \<Rightarrow> bool) \<Rightarrow> reconcile_return outcome \<Rightarrow> DownloadStackConfig \<times> 'w \<Rightarrow> bool" where
  "on_success P q cw \<longleftrightarrow> (\<forall>res. q = Ok (res, None) \<longrightarrow> P (fst cw))"

lemma errs_on_success: "ensures m s (\<lambda>q cw'. \<forall>res. q \<noteq> Ok (res, None)) \<Longrightarrow> ensures m s (on_success P)"
  by (erule ensures_mono) (simp add: on_success_def)

lemma panic_on_success [simp]: "on_success P (Panic p) cw"
  by (simp add: on_success_def)

text \<open>Gluetun's part ends in an error or goes on with a resource whose specification is the same.\<close>

lemma configure_gluetun_rule:
  assumes "\<And>c' w'. dsc_Spec c' = dsc_Spec c \<Longrightarrow> ensures k (c', w') (on_success P)"
  shows "ensures (configure_gluetun r k) (c, w) (on_success P)"
proof -
  have env: "ensures (apply_env r input k) (c, w') (on_success P)" for input w'
  proof -
    have "ensures (andThen (restart_if_changed r b) (\<lambda>_. k)) (c', w'') (on_success P)" if c': "dsc_Spec c' = dsc_Spec c" for b c' w''
    proof (rule andThen_rule [where P = "\<lambda>q (c'', w''). c'' = c' \<and> (\<forall>e. q \<noteq> Err e)"], goal_cases)
      case 1
      show ?case
        by (auto simp: restart_if_changed_def ensures_def give_def on_service_def or_else_def split: prod.split outcome.split)
    qed (use c' in \<open>auto intro: assms\<close>)
    then show ?thesis
      by (subst ensures_def, subst apply_env_def, subst ensures_def [symmetric], simp only: Let_def, intro if_err_rule [OF on_service_keeps])
        (auto intro: errs_on_success [OF stack_failed_errs])
  qed
  show ?thesis
    by (subst ensures_def, subst configure_gluetun_def, subst ensures_def [symmetric], simp only: Let_def, intro if_err_rule [OF on_service_keeps])
      (auto intro!: if_err_rule [OF on_service_keeps] env errs_on_success [OF stack_failed_errs] split: prod.split)
qed

text \<open>The status update stores the status it is given.\<close>

definition stores_status :: "'w DownloadStackConfigReconciler \<Rightarrow> bool" where
  "stores_status r \<longleftrightarrow>
     (\<forall>c w c' w'. oc_UpdateStatus (dsr_Client r) c w = (Ok c', w') \<longrightarrow> dsc_Status c' = dsc_Status c)"

lemma stack_done_rule:
  assumes "stores_status r"
  shows "ensures (stack_done r now) (c, w) (on_success (\<lambda>c'. \<exists>cs t g. dsc_Status c' =
    (dsc_Status c)\<lparr>dst_LastReconcile := t, dst_ObservedGeneration := g, dst_Conditions := cs\<rparr>))"
proof -
  let ?st = "(dsc_Status c)\<lparr>dst_LastReconcile := Some now, dst_ObservedGeneration := om_Generation (dsc_ObjectMeta c)\<rparr>"
  obtain cs where run: "stack_done r now (c, w) =
      if_err (store_object (oc_UpdateStatus (dsr_Client r))) (\<lambda>err. give (no_requeue, Some err)) (\<lambda>_ cw.
        (Ok (requeue_after (requeue_interval (dss_Reconciliation (dsc_Spec (fst cw)))), None), cw))
        (c\<lparr>dsc_Status := ?st\<lparr>dst_Conditions := cs\<rparr>\<rparr>, w)"
    by (simp add: stack_done_def Let_def on_config_def SetCondition_def read_clock_def)
  show ?thesis
    unfolding ensures_def run unfolding ensures_def [symmetric]
  proof (rule ensures_store, goal_cases)
    case (1 c' w')
    from assms [unfolded stores_status_def, rule_format, OF this] have "dsc_Status c' = ?st\<lparr>dst_Conditions := cs\<rparr>" by simp
    then show ?case by (auto simp: ensures_def on_success_def)
  qed (simp_all add: on_success_def)
qed

lemma ensures_configure_download_clients:
  "ensures (configure_download_clients r now) (c, w) Q \<longleftrightarrow>
    (if no_client (dsc_Spec c) then ensures (not_ready r ''NoDownloadClient'' no_client_text (stack_save r ''no download client configured'')) (c, w) Q
     else ensures (if_err (configure_clients r (dsc_Spec c)) (stack_save r) (\<lambda>_. stack_done r now)) (c, w) Q)"
  by (simp add: ensures_def configure_download_clients_def)

text \<open>
  C11. A reconciliation of a \<^verbatim>\<open>DownloadStackConfig\<close> that returns no error has configured at least one
  download client, and the status it leaves says of every client of the specification that it is
  connected.
\<close>

theorem Stack_success_means_connected:
  assumes "stores_status r" and "reconcileNormal r (c, w) = (Ok (res, None), (c', w'))"
  shows "\<not> no_client (dsc_Spec c) \<and> clients_connected (dsc_Spec c) (dsc_Status c')"
proof -
  let ?P = "\<lambda>c'. \<not> no_client (dsc_Spec c) \<and> clients_connected (dsc_Spec c) (dsc_Status c')"
  have finish: "ensures (stack_done r now) (c1, w1) (on_success ?P)"
    if "\<not> no_client (dsc_Spec c)" "clients_connected (dsc_Spec c) (dsc_Status c1)" for now c1 w1
    using stack_done_rule [OF assms(1)]
    by (rule ensures_mono) (use that in \<open>auto simp: on_success_def clients_connected_def\<close>)
  have clients: "ensures (if_err (configure_clients r (dsc_Spec c)) (stack_save r) (\<lambda>_. stack_done r now)) (c1, w1) (on_success ?P)"
    if "\<not> no_client (dsc_Spec c)" for now c1 w1
  proof -
    have "ensures (configure_clients r (dsc_Spec c)) (c1, w1) (\<lambda>q (c', w'). q = Ok () \<longrightarrow> clients_connected (dsc_Spec c) (dsc_Status c'))"
      using configure_clients_step [unfolded status_step_def, rule_format, of c1 "dst_GluetunConfigHash (dsc_Status c1)" r "dsc_Spec c" w1]
      by (auto elim: ensures_mono)
    then show ?thesis
      by (rule if_err_rule) (auto intro: errs_on_success [OF stack_save_errs] finish [OF that])
  qed
  have "ensures (reconcileNormal r) (c, w) (on_success ?P)"
    unfolding reconcileNormal_def ensures_simps
  proof (rule configure_gluetun_rule)
    show "ensures (configure_download_clients r now) (c1, w1) (on_success ?P)" if "dsc_Spec c1 = dsc_Spec c" for now c1 w1
      using that clients unfolding ensures_configure_download_clients ensures_not_ready
      by (cases "no_client (dsc_Spec c)") (simp_all add: errs_on_success [OF stack_save_errs])
  qed
  then show ?thesis
    using assms(2) by (simp add: ensures_def on_success_def)
qed

section \<open>A failed restart is forgotten\<close>

definition env_applied :: "'w DownloadStackConfigReconciler \<Rightarrow> GluetunEnvInput \<Rightarrow> DownloadStackConfig \<Rightarrow> DownloadStackConfig" where
  "env_applied r input = update_stack_status (\<lambda>st. st\<lparr>dst_GluetunSecretGenerated := True,
     dst_GluetunConfigHash := HashGluetunEnv (dsr_sha256_8 r) (GenerateGluetunEnv input)\<rparr>)"

lemma apply_env_runs:
  assumes "write_env r c (GenerateGluetunEnv input) w = (Ok (), w1)"
    and "restart_if_changed r (HashGluetunEnv (dsr_sha256_8 r) (GenerateGluetunEnv input) \<noteq> dst_GluetunConfigHash (dsc_Status c))
      (env_applied r input c, w1) = (Ok (), (c', w2))"
  shows "apply_env r input k (c, w) = k (c', w2)"
  using assms by (simp add: apply_env_def Let_def if_err_def on_service_def on_config_def env_applied_def)

lemma configure_gluetun_runs:
  assumes "stack_credentials (dsr_Env r) (om_Namespace (dsc_ObjectMeta c)) ('''', '''')
      (glu_provider_CredentialsSecretRef (glu_Provider (dss_Gluetun (dsc_Spec c)))) w = (Ok (username, password), w1)"
    and "stack_key (dsr_Env r) (om_Namespace (dsc_ObjectMeta c)) ''privateKey'' ''''
      (glu_provider_PrivateKeySecretRef (glu_Provider (dss_Gluetun (dsc_Spec c)))) w1 = (Ok privateKey, w2)"
  shows "configure_gluetun r k (c, w) =
    apply_env r \<lparr>gei_Spec = dss_Gluetun (dsc_Spec c), gei_Username = username, gei_Password = password, gei_PrivateKey = privateKey\<rparr> k (c, w2)"
  using assms by (simp add: configure_gluetun_def Let_def if_err_def on_service_def)

lemma stack_done_runs:
  assumes "sets_status_condition (env_SetStatusCondition (dsr_Env r))" and "\<forall>c w. \<exists>w'. oc_UpdateStatus (dsr_Client r) c w = (Ok c, w')"
  shows "\<exists>res c' w'. stack_done r now (c, w) = (Ok (res, None), (c', w')) \<and> dst_GluetunConfigHash (dsc_Status c') = dst_GluetunConfigHash (dsc_Status c) \<and>
    (\<exists>x. condition_of ConditionTypeReady (dst_Conditions (dsc_Status c')) = Some x \<and> cd_Status x = ConditionTrue)"
proof -
  let ?new = "\<lparr>cd_Type = ConditionTypeReady, cd_Status = ConditionTrue, cd_ObservedGeneration = om_Generation (dsc_ObjectMeta c),
    cd_LastTransitionTime = env_Now (dsr_Env r) w, cd_Reason = ''Reconciled'', cd_Message = ''Configuration applied successfully''\<rparr>"
  let ?cs = "env_SetStatusCondition (dsr_Env r) ?new (dst_Conditions (dsc_Status c))"
  let ?c = "c\<lparr>dsc_Status := (dsc_Status c)\<lparr>dst_LastReconcile := Some now, dst_ObservedGeneration := om_Generation (dsc_ObjectMeta c), dst_Conditions := ?cs\<rparr>\<rparr>"
  obtain t where "condition_of (cd_Type ?new) ?cs = Some (?new\<lparr>cd_LastTransitionTime := t\<rparr>)"
    using assms(1) unfolding sets_status_condition_def by blast
  then have "\<exists>x. condition_of ConditionTypeReady (dst_Conditions (dsc_Status ?c)) = Some x \<and> cd_Status x = ConditionTrue" by simp
  moreover obtain w' where "oc_UpdateStatus (dsr_Client r) ?c w = (Ok ?c, w')" using assms(2) by blast
  then have "stack_done r now (c, w) = (Ok (requeue_after (requeue_interval (dss_Reconciliation (dsc_Spec ?c))), None), (?c, w'))"
    by (simp add: stack_done_def Let_def on_config_def SetCondition_def read_clock_def if_err_def store_object_def comp_def)
  ultimately show ?thesis by fastforce
qed

text \<open>
  C35. A failed restart of the deployment is reported as a success and never repeated. When the
  environment of the VPN container has changed, its Secret is written, the restart fails, and the
  download clients are configured, then the reconciliation returns no error and reports the
  resource as ready; and with the status it leaves, the next reconciliation that resolves the same
  environment goes from the Secret to the download clients without restarting the deployment.
\<close>

theorem Stack_failed_restart_forgotten:
  assumes "sets_status_condition (env_SetStatusCondition (dsr_Env r))" and "\<forall>c w. \<exists>w'. oc_UpdateStatus (dsr_Client r) c w = (Ok c, w')"
    and "stack_credentials (dsr_Env r) (om_Namespace (dsc_ObjectMeta c)) ('''', '''')
      (glu_provider_CredentialsSecretRef (glu_Provider (dss_Gluetun (dsc_Spec c)))) w = (Ok (username, password), w1)"
    and "stack_key (dsr_Env r) (om_Namespace (dsc_ObjectMeta c)) ''privateKey'' ''''
      (glu_provider_PrivateKeySecretRef (glu_Provider (dss_Gluetun (dsc_Spec c)))) w1 = (Ok privateKey, w2)"
    and "input = \<lparr>gei_Spec = dss_Gluetun (dsc_Spec c), gei_Username = username, gei_Password = password, gei_PrivateKey = privateKey\<rparr>"
    and "write_env r c (GenerateGluetunEnv input) w2 = (Ok (), w3)" and "restartDeployment r (env_applied r input c) w3 = (Err e, w4)"
    and "\<not> no_client (dsc_Spec c)" and "configure_clients r (dsc_Spec c) (env_applied r input c, w4) = (Ok (), (c5, w5))"
    and "dss_RestartOnGluetunChange (dsc_Spec c)" and "HashGluetunEnv (dsr_sha256_8 r) (GenerateGluetunEnv input) \<noteq> dst_GluetunConfigHash (dsc_Status c)"
  shows "\<exists>res c' w'. reconcileNormal r (c, w) = (Ok (res, None), (c', w')) \<and>
    (\<exists>x. condition_of ConditionTypeReady (dst_Conditions (dsc_Status c')) = Some x \<and> cd_Status x = ConditionTrue) \<and>
    (\<forall>k w w'. write_env r c' (GenerateGluetunEnv input) w = (Ok (), w') \<longrightarrow> apply_env r input k (c', w) = k (env_applied r input c', w'))"
proof -
  have restart: "restart_if_changed r True (env_applied r input c, w3) = (Ok (), (env_applied r input c, w4))"
    using assms(7,10) by (simp add: restart_if_changed_def env_applied_def on_service_def or_else_def give_def)
  have "reconcileNormal r (c, w) = configure_download_clients r (env_Now (dsr_Env r) w) (env_applied r input c, w4)"
    using configure_gluetun_runs [OF assms(3,4)] apply_env_runs [OF assms(6)] restart assms(5,11)
    by (simp add: reconcileNormal_def read_clock_def)
  also have "\<dots> = stack_done r (env_Now (dsr_Env r) w) (c5, w5)"
    using assms(8,9) by (simp add: configure_download_clients_def env_applied_def if_err_def)
  finally have run: "reconcileNormal r (c, w) = stack_done r (env_Now (dsr_Env r) w) (c5, w5)" .
  have "status_step (\<lambda>st. dst_GluetunConfigHash st = h) (\<lambda>st. dst_GluetunConfigHash st = h \<and> clients_connected (dsc_Spec c) st)
      (configure_clients r (dsc_Spec c))" for h by (rule configure_clients_step)
  then have hash: "dst_GluetunConfigHash (dsc_Status c5) = HashGluetunEnv (dsr_sha256_8 r) (GenerateGluetunEnv input)"
    using assms(9) unfolding status_step_def
    by (force simp: ensures_def env_applied_def dest!: spec [of _ "env_applied r input c"] spec [of _ w4])
  obtain res c' w' where fin: "stack_done r (env_Now (dsr_Env r) w) (c5, w5) = (Ok (res, None), (c', w'))"
      "dst_GluetunConfigHash (dsc_Status c') = dst_GluetunConfigHash (dsc_Status c5)"
      "\<exists>x. condition_of ConditionTypeReady (dst_Conditions (dsc_Status c')) = Some x \<and> cd_Status x = ConditionTrue"
    using stack_done_runs [OF assms(1,2)] by blast
  have "apply_env r input k (c', w) = k (env_applied r input c', w')" if "write_env r c' (GenerateGluetunEnv input) w = (Ok (), w')" for k w w'
    using apply_env_runs [OF that] fin(2) hash by (simp add: restart_if_changed_def give_def)
  then show ?thesis using run fin(1,3) by auto
qed

section \<open>A concrete stack\<close>

text \<open>
  A cluster without the deployment, and a Transmission that accepts its settings.
\<close>

definition accepting_transmission :: "'w TransmissionClientInterface" where
  "accepting_transmission = \<lparr>tci_TestConnection = give (), tci_GetSession = fail ''busy'', tci_SetSession = (\<lambda>_. give ()),
     tci_GetSessionStats = give [], tci_UpdateBlocklist = give ()\<rparr>"

definition silent_json :: "'a JSON" where
  "silent_json = \<lparr>Marshal = (\<lambda>_. Err ''silent''), Unmarshal = (\<lambda>_. Err ''silent'')\<rparr>"

definition sample_stack_reconciler :: "unit DownloadStackConfigReconciler" where
  "sample_stack_reconciler =
     \<lparr>dsr_Env = plain_env [], dsr_Client = \<lparr>oc_Get = (\<lambda>ns n. give None), oc_Update = give, oc_UpdateStatus = give\<rparr>,
      dsr_CreateOrUpdate = (\<lambda>s f. give ()), dsr_SetControllerReference = (\<lambda>c s. Ok s), dsr_GetDeployment = (\<lambda>ns n. fail ''not found''),
      dsr_UpdateDeployment = (\<lambda>d. give ()), dsr_sha256_8 = (\<lambda>s. s), dsr_FormatTime = Itoa, dsr_ParseFloat = (\<lambda>_. None), dsr_Sscanf = (\<lambda>_. None),
      dsr_http = (\<lambda>t req. fail ''connection refused''), dsr_Sleep = (\<lambda>n w. w), dsr_TransmissionClientFactory = Some (\<lambda>u n p. accepting_transmission),
      dsr_transmission_json = \<lparr>tj_request = silent_json, tj_response = silent_json, tj_arguments = silent_json, tj_session = silent_json\<rparr>,
      dsr_qbittorrent_json = \<lparr>qbj_preferences = silent_json, qbj_settings = silent_json, qbj_object = silent_json\<rparr>,
      dsr_deluge_json = \<lparr>dj_request = silent_json, dj_response = silent_json, dj_bool = silent_json, dj_string = silent_json, dj_strings = silent_json,
        dj_hosts = silent_json, dj_config = silent_json, dj_object = silent_json\<rparr>,
      dsr_xml = (\<lambda>_. Err ''silent'', \<lambda>_. Err ''silent''),
      dsr_sabnzbd_json = \<lparr>sj_version = silent_json, sj_config = silent_json, sj_response = silent_json, sj_queue = silent_json, sj_history = silent_json,
        sj_object = silent_json, sj_warnings = silent_json\<rparr>,
      dsr_nzbget_json = \<lparr>nj_request = silent_json, nj_response = silent_json, nj_bool = silent_json, nj_string = silent_json, nj_config = silent_json,
        nj_status = silent_json, nj_groups = silent_json, nj_history = silent_json, nj_log = silent_json\<rparr>\<rparr>"

definition sample_stack_spec :: DownloadStackConfigSpec where
  "sample_stack_spec =
     \<lparr>dss_DeploymentRef = \<lparr>lor_Name = ''stack''\<rparr>, dss_Gluetun = gei_Spec (sample_gluetun ''u''), dss_Transmission = Some weekend_spec, dss_QBittorrent = None,
      dss_Deluge = None, dss_RTorrent = None, dss_SABnzbd = None, dss_NZBGet = None, dss_RestartOnGluetunChange = True, dss_Reconciliation = None\<rparr>"

definition sample_stack :: DownloadStackConfig where
  "sample_stack =
     \<lparr>dsc_ObjectMeta = \<lparr>om_Name = ''stack'', om_Namespace = ''media'', om_Generation = 1, om_Finalizers = [downloadStackFinalizer], om_DeletionTimestamp = None\<rparr>,
      dsc_Spec = sample_stack_spec,
      dsc_Status = \<lparr>dst_Conditions = [], dst_GluetunConfigHash = '''', dst_GluetunSecretGenerated = False, dst_TransmissionConnected = False,
        dst_TransmissionVersion = '''', dst_QBittorrentConnected = False, dst_QBittorrentVersion = '''', dst_DelugeConnected = False, dst_DelugeVersion = '''',
        dst_RTorrentConnected = False, dst_RTorrentVersion = '''', dst_SABnzbdConnected = False, dst_SABnzbdVersion = '''', dst_NZBGetConnected = False,
        dst_NZBGetVersion = '''', dst_LastReconcile = None, dst_ObservedGeneration = 0\<rparr>\<rparr>"

abbreviation sample_stack_input :: GluetunEnvInput where
  "sample_stack_input \<equiv> \<lparr>gei_Spec = dss_Gluetun (dsc_Spec sample_stack), gei_Username = '''', gei_Password = '''', gei_PrivateKey = ''''\<rparr>"

lemma sample_stack_runs:
  shows "stack_credentials (dsr_Env sample_stack_reconciler) ns ('''', '''') (glu_provider_CredentialsSecretRef (glu_Provider (dss_Gluetun (dsc_Spec sample_stack)))) () = (Ok ('''', ''''), ())"
    and "stack_key (dsr_Env sample_stack_reconciler) ns ''privateKey'' '''' (glu_provider_PrivateKeySecretRef (glu_Provider (dss_Gluetun (dsc_Spec sample_stack)))) () = (Ok '''', ())"
    and "write_env sample_stack_reconciler c gluetunEnv () = (Ok (), ())"
    and "restartDeployment sample_stack_reconciler c () = (Err ''failed to get deployment: not found'', ())"
    and "\<not> no_client (dsc_Spec sample_stack)"
    and "configure_clients sample_stack_reconciler (dsc_Spec sample_stack) (c, ()) = (Ok (), (update_stack_status (\<lambda>st. st\<lparr>dst_TransmissionConnected := True\<rparr>) c, ()))"
proof -
  have spec: "dsc_Spec sample_stack = sample_stack_spec" by (simp add: sample_stack_def)
  show "stack_credentials (dsr_Env sample_stack_reconciler) ns ('''', '''') (glu_provider_CredentialsSecretRef (glu_Provider (dss_Gluetun (dsc_Spec sample_stack)))) () = (Ok ('''', ''''), ())"
    "stack_key (dsr_Env sample_stack_reconciler) ns ''privateKey'' '''' (glu_provider_PrivateKeySecretRef (glu_Provider (dss_Gluetun (dsc_Spec sample_stack)))) () = (Ok '''', ())"
    unfolding spec by (simp_all add: sample_stack_spec_def sample_gluetun_def stack_credentials_def stack_key_def give_def)
  show "write_env sample_stack_reconciler c gluetunEnv () = (Ok (), ())"
    "restartDeployment sample_stack_reconciler c () = (Err ''failed to get deployment: not found'', ())"
    by (simp_all add: write_env_def restartDeployment_def sample_stack_reconciler_def give_def fail_def andThen_def wrap_err_def)
  show "\<not> no_client (dsc_Spec sample_stack)" unfolding spec by (simp add: sample_stack_spec_def no_client_def)
  have "reconcileTransmission sample_stack_reconciler weekend_spec (c, ()) = (Ok (), (update_stack_status (\<lambda>st. st\<lparr>dst_TransmissionConnected := True\<rparr>) c, ()))"
    by (simp add: reconcileTransmission_def with_credentials_def stack_credentials_def weekend_spec_def sample_stack_reconciler_def if_err_def
        on_service_def give_def reconcile_client_def andThen_def use_client_def accepting_transmission_def on_config_def GetTransmissionVersion_def
        fail_def sync_client_def SyncTransmissionSettings_def Let_def comp_def)
  then show "configure_clients sample_stack_reconciler (dsc_Spec sample_stack) (c, ()) = (Ok (), (update_stack_status (\<lambda>st. st\<lparr>dst_TransmissionConnected := True\<rparr>) c, ()))"
    unfolding spec by (simp add: configure_clients_def sample_stack_spec_def if_configured_def give_def)
qed

lemma sample_stack_laws:
  "sets_status_condition (env_SetStatusCondition (dsr_Env sample_stack_reconciler))"
  "\<forall>c w. \<exists>w'. oc_UpdateStatus (dsr_Client sample_stack_reconciler) c w = (Ok c, w')"
  "dss_RestartOnGluetunChange (dsc_Spec sample_stack)"
  "HashGluetunEnv (dsr_sha256_8 sample_stack_reconciler) (GenerateGluetunEnv sample_stack_input) \<noteq> dst_GluetunConfigHash (dsc_Status sample_stack)"
proof -
  show "sets_status_condition (env_SetStatusCondition (dsr_Env sample_stack_reconciler))"
    "\<forall>c w. \<exists>w'. oc_UpdateStatus (dsr_Client sample_stack_reconciler) c w = (Ok c, w')" "dss_RestartOnGluetunChange (dsc_Spec sample_stack)"
    by (simp_all add: sample_stack_reconciler_def upsert_condition_sets give_def sample_stack_def sample_stack_spec_def)
  have "hashed_text (GenerateGluetunEnv sample_stack_input) \<noteq> ''''"
    by (simp add: sample_stack_def sample_stack_spec_def sample_gluetun_def) code_simp
  then show "HashGluetunEnv (dsr_sha256_8 sample_stack_reconciler) (GenerateGluetunEnv sample_stack_input) \<noteq> dst_GluetunConfigHash (dsc_Status sample_stack)"
    by (simp add: HashGluetunEnv_def sample_stack_reconciler_def sample_stack_def)
qed

theorem Stack_failed_restart_forgotten_witness:
  "\<exists>res c' w'. reconcileNormal sample_stack_reconciler (sample_stack, ()) = (Ok (res, None), (c', w')) \<and>
    (\<exists>x. condition_of ConditionTypeReady (dst_Conditions (dsc_Status c')) = Some x \<and> cd_Status x = ConditionTrue) \<and>
    apply_env sample_stack_reconciler sample_stack_input (give (no_requeue, None)) (c', ()) =
      (Ok (no_requeue, None), (env_applied sample_stack_reconciler sample_stack_input c', ()))"
proof -
  have "\<exists>res c' w'. reconcileNormal sample_stack_reconciler (sample_stack, ()) = (Ok (res, None), (c', w')) \<and>
      (\<exists>x. condition_of ConditionTypeReady (dst_Conditions (dsc_Status c')) = Some x \<and> cd_Status x = ConditionTrue) \<and>
      (\<forall>k w w'. write_env sample_stack_reconciler c' (GenerateGluetunEnv sample_stack_input) w = (Ok (), w') \<longrightarrow>
        apply_env sample_stack_reconciler sample_stack_input k (c', w) = k (env_applied sample_stack_reconciler sample_stack_input c', w'))"
    by (rule Stack_failed_restart_forgotten [OF sample_stack_laws(1,2) sample_stack_runs(1,2) refl sample_stack_runs(3,4,5,6) sample_stack_laws(3,4)])
  then show ?thesis using sample_stack_runs(3) by (fastforce simp: give_def)
qed

lemma sample_stack_succeeds:
  "\<exists>res c' w'. reconcileNormal sample_stack_reconciler (sample_stack, ()) = (Ok (res, None), (c', w'))"
proof -
  have "restart_if_changed sample_stack_reconciler b (c, ()) = (Ok (), (c, ()))" for b c
    using sample_stack_runs(4) by (simp add: restart_if_changed_def on_service_def or_else_def give_def)
  then have "reconcileNormal sample_stack_reconciler (sample_stack, ()) =
      configure_download_clients sample_stack_reconciler 0 (env_applied sample_stack_reconciler sample_stack_input sample_stack, ())"
    using configure_gluetun_runs [OF sample_stack_runs(1,2)] apply_env_runs [OF sample_stack_runs(3)]
    by (simp add: reconcileNormal_def read_clock_def sample_stack_reconciler_def [THEN arg_cong, of dsr_Env] plain_env_def)
  also have "\<dots> = stack_done sample_stack_reconciler 0
      (update_stack_status (\<lambda>st. st\<lparr>dst_TransmissionConnected := True\<rparr>) (env_applied sample_stack_reconciler sample_stack_input sample_stack), ())"
    using sample_stack_runs(5,6) by (simp add: configure_download_clients_def env_applied_def if_err_def)
  finally show ?thesis
    using stack_done_runs [OF sample_stack_laws(1,2)] by metis
qed

theorem Stack_success_means_connected_witness:
  "\<exists>res c' w'. reconcileNormal sample_stack_reconciler (sample_stack, ()) = (Ok (res, None), (c', w')) \<and> dst_TransmissionConnected (dsc_Status c')"
proof -
  obtain res c' w' where run: "reconcileNormal sample_stack_reconciler (sample_stack, ()) = (Ok (res, None), (c', w'))"
    using sample_stack_succeeds by blast
  have "stores_status sample_stack_reconciler" by (simp add: stores_status_def sample_stack_reconciler_def give_def)
  from Stack_success_means_connected [OF this run] run show ?thesis
    by (auto simp: clients_connected_def sample_stack_def sample_stack_spec_def)
qed

section \<open>A Deluge without hosts crashes the operator\<close>

text \<open>
  C36. A Deluge server can crash the operator: when it accepts the password and answers the question
  for its hosts with a list whose first entry is empty, the client's test of the connection panics.
\<close>

theorem Deluge_empty_host_panics:
  assumes "\<not> dcl_loggedIn c"
    and "deluge_request ''auth.login'' [DString (dcl_password c)] (c, w) = (Ok login, (c1, w1))"
    and "Unmarshal (dj_bool (dcl_json c1)) (dlr_Result login) = Ok True"
    and "deluge_request ''web.get_hosts'' [] (c1, w1) = (Ok answer, (c2, w2))"
    and "Unmarshal (dj_hosts (dcl_json c2)) (dlr_Result answer) = Ok ([] # hosts)"
  shows "\<exists>p. deluge_TestConnection (c, w) = (Panic p, (c2, w2))"
proof -
  have "deluge_Login (c, w) = (Panic ''index out of range [0] with length 0'', (c2, w2))"
    using assms by (simp add: deluge_Login_def with_client_def wrap_err_def deluge_result_def andThen_def connect_first_def)
  then show ?thesis by (simp add: deluge_TestConnection_def andThen_def)
qed

text \<open>A server that answers a request with its body, and codecs that read the answers.\<close>

definition echo_server :: "int \<Rightarrow> 'w transport" where
  "echo_server timeout req = give \<lparr>rs_StatusCode = 200, rs_Header = [], rs_Body = (case rq_Body req of None \<Rightarrow> '''' | Some b \<Rightarrow> b)\<rparr>"

definition empty_host_json :: DelugeJSON where
  "empty_host_json = \<lparr>dj_request = \<lparr>Marshal = (\<lambda>q. Ok (dlq_Method q)), Unmarshal = (\<lambda>_. Err ''silent'')\<rparr>,
     dj_response = \<lparr>Marshal = (\<lambda>_. Err ''silent''), Unmarshal = (\<lambda>s. Ok \<lparr>dlr_ID = 1, dlr_Result = s, dlr_Error = None\<rparr>)\<rparr>,
     dj_bool = \<lparr>Marshal = (\<lambda>_. Err ''silent''), Unmarshal = (\<lambda>_. Ok True)\<rparr>, dj_string = silent_json, dj_strings = silent_json,
     dj_hosts = \<lparr>Marshal = (\<lambda>_. Err ''silent''), Unmarshal = (\<lambda>_. Ok [[]])\<rparr>, dj_config = silent_json, dj_object = silent_json\<rparr>"

definition sample_deluge :: "unit DelugeClient" where
  "sample_deluge = NewDelugeClient echo_server empty_host_json ''http://deluge:8112/'' ''deluge''"

lemma echo_answers:
  assumes "dcl_baseURL c = ''http://deluge:8112''" and "dcl_Do c = echo_server t" and "dcl_json c = empty_host_json"
  shows "deluge_request method params (c, w) =
    (Ok \<lparr>dlr_ID = 1, dlr_Result = method, dlr_Error = None\<rparr>, (c\<lparr>dcl_requestID := to_int64 (dcl_requestID c + 1)\<rparr>, w))"
proof -
  have "map_option url_Host (Parse ''http://deluge:8112/json'') = Some ''deluge:8112''" by code_simp
  then obtain u where "Parse ''http://deluge:8112/json'' = Some u" by auto
  then show ?thesis
    using assms by (simp add: deluge_request_def deluge_nextID_def with_client_def Let_def empty_host_json_def NewRequest_def set_header_def
        on_service_def echo_server_def give_def wrap_err_def)
qed

theorem Deluge_empty_host_panics_witness:
  "\<exists>p s. deluge_TestConnection (sample_deluge, ()) = (Panic p, s)"
proof -
  have c: "dcl_baseURL (dcl_requestID_update f sample_deluge) = ''http://deluge:8112''" "dcl_Do (dcl_requestID_update f sample_deluge) = echo_server DefaultTimeout"
    "dcl_json (dcl_requestID_update f sample_deluge) = empty_host_json" for f
    by (simp_all add: sample_deluge_def NewDelugeClient_def TrimSuffix_def)
  have c0: "dcl_requestID_update (\<lambda>x. x) sample_deluge = sample_deluge" by simp
  have "\<not> dcl_loggedIn sample_deluge" by (simp add: sample_deluge_def NewDelugeClient_def)
  from Deluge_empty_host_panics [OF this echo_answers [OF c [where f = "\<lambda>x. x", unfolded c0]] _ echo_answers [OF c]]
  show ?thesis using c by (auto simp: empty_host_json_def)
qed

section \<open>qBittorrent's limits\<close>

lemma limits_set_by_speed:
  assumes "k = ''dl_limit'' \<or> k = ''up_limit''"
  shows "map_of (qb_alt_speed a m) k = map_of m k" "map_of (qb_directories d m) k = map_of m k" "map_of (qb_seeding S s m) k = map_of m k"
    "map_of (qb_queue q m) k = map_of m k" "map_of (qb_connections n m) k = map_of m k" "map_of (qb_bittorrent b m) k = map_of m k"
  using assms by (elim disjE; simp add: qb_alt_speed_def qb_directories_def qb_seeding_def qb_queue_def qb_connections_def qb_bittorrent_def
      map_of_set_if map_of_set_opt set_positive_def set_nonempty_def set_ratio_def map_of_gm_set)+

text \<open>
  C37. The units of qBittorrent's limits: the preferences hold the global download limit, or if that
  is not set the download limit, in bytes; for limits below 2^53 KiB the multiplication does not
  overflow, so that the value is exactly 1024 times the one of the resource.
\<close>

theorem qBittorrent_limit_in_bytes:
  assumes "qb_Speed spec = Some speed" and "n = (if qb_speed_GlobalDownloadSpeedLimit speed > 0 then qb_speed_GlobalDownloadSpeedLimit speed
      else qb_speed_DownloadLimit speed)"
    and "0 < n" and "n < 2 ^ 53"
  shows "map_of (qb_preferences Sscanf spec) ''dl_limit'' = Some (VInt (n * 1024))"
proof -
  have "map_of (qb_preferences Sscanf spec) ''dl_limit'' = Some (kib n)"
    using assms(1-3) by (simp add: qb_preferences_def section_keeps limits_set_by_speed)
      (simp add: on_section_def qb_speed_def map_of_set_if split: if_splits)
  moreover have "to_int64 (n * 1024) = n * 1024"
    using assms(3,4) by (intro to_int64_exact) auto
  ultimately show ?thesis by (simp add: kib_def)
qed

definition limited_spec :: QBittorrentSpec where
  "limited_spec = \<lparr>qb_Connection = \<lparr>qb_connection_URL = ''http://q:8080'', qb_connection_CredentialsSecretRef = None\<rparr>,
     qb_Speed = Some \<lparr>qb_speed_DownloadLimit = 100, qb_speed_UploadLimit = 0, qb_speed_GlobalDownloadSpeedLimit = 0, qb_speed_GlobalUploadSpeedLimit = 0\<rparr>,
     qb_AltSpeed = None, qb_Directories = None, qb_Seeding = None, qb_Queue = None, qb_Connections = None, qb_BitTorrent = None\<rparr>"

theorem qBittorrent_limit_in_bytes_witness:
  "map_of (qb_preferences (\<lambda>_. None) limited_spec) ''dl_limit'' = Some (VInt 102400)"
proof -
  have "map_of (qb_preferences (\<lambda>_. None) limited_spec) ''dl_limit'' = Some (VInt (100 * 1024))"
    by (rule qBittorrent_limit_in_bytes [where speed = "the (qb_Speed limited_spec)"]) (simp_all add: limited_spec_def)
  then show ?thesis by simp
qed

end
