(* ===== verification/Spec2Isabelle.thy ===== *)
theory Spec2Isabelle
  imports Shared_Service Convert Sonarr_Converge Sonarr_Reconcile Coordinator Prowlarr_Reconcile Lidarr_Converge Readarr_Converge Bazarr_Safety
    Stack_Safety
begin

text \<open>
  \<^bold>\<open>A verification development for the Nebularr operator.\<close>

  The operator (Go, under \<^verbatim>\<open>src/\<close>) watches custom resources that describe how the
  media applications Radarr, Sonarr, Lidarr, Readarr, Prowlarr and Bazarr and a stack of download
  clients behind a VPN should be configured, and
  drives the applications there over their HTTP APIs. A reconciliation compiles the resource
  to an intermediate representation (IR), lets the adapter of the application compute the
  difference between the service's state and the IR, and applies the resulting change set.

  \<^bold>\<open>Theories and the code they model.\<close>

  \<^item> \<^verbatim>\<open>Prelude\<close>: Go maps as association lists with distinct keys, the order in which
    \<^verbatim>\<open>range\<close> visits a map as an argument \<open>ord\<close>, outcomes (value, error, panic) and actions
    on the state of a service.
  \<^item> \<^verbatim>\<open>Go_Std\<close>, \<^verbatim>\<open>Go_Url\<close>: what the code uses of \<^verbatim>\<open>strings\<close>, \<^verbatim>\<open>strconv\<close> and
    \<^verbatim>\<open>net/url\<close>, from the language's documentation and source.
  \<^item> \<^verbatim>\<open>IR_Types\<close>: \<^verbatim>\<open>internal/ir/v1\<close>, one record per struct.
  \<^item> \<^verbatim>\<open>Presets\<close>: \<^verbatim>\<open>internal/presets\<close>: preset tables, overrides, expansion.
  \<^item> \<^verbatim>\<open>Adapter\<close>: \<^verbatim>\<open>internal/adapters/adapter.go\<close> and \<^verbatim>\<open>registry.go\<close>: change sets,
    apply results, and the adapter registry as a state machine.
  \<^item> \<^verbatim>\<open>Diff\<close>: \<^verbatim>\<open>internal/adapters/diff.go\<close>, with the contract of a keyed diff as the
    locale \<open>diff_contract\<close> and the loop shape as the locale \<open>keyed_diff\<close>, interpreted for
    download clients, indexers and custom formats.
  \<^item> \<^verbatim>\<open>Shared_Apply\<close>, \<^verbatim>\<open>Shared_Diff\<close>, \<^verbatim>\<open>Shared_Service\<close>: \<^verbatim>\<open>internal/adapters/shared\<close>:
    applying change sets, remote path mappings (another interpretation of \<open>keyed_diff\<close>), delay
    profiles, ownership tag, health, host authentication, dynamic fields.
  \<^item> \<^verbatim>\<open>CRD\<close>: the resources of \<^verbatim>\<open>api/v1alpha1\<close>.
  \<^item> \<^verbatim>\<open>Compiler\<close>: \<^verbatim>\<open>internal/compiler\<close> (\<^verbatim>\<open>types.go\<close>, \<^verbatim>\<open>resources.go\<close>,
    \<^verbatim>\<open>features.go\<close>, \<^verbatim>\<open>prune.go\<close>, \<^verbatim>\<open>compiler.go\<close>).
  \<^item> \<^verbatim>\<open>Convert\<close>: \<^verbatim>\<open>internal/compiler/radarr.go\<close>: from the four media resources to the
    compiler's input.
  \<^item> \<^verbatim>\<open>Endpoint\<close>: an endpoint of a service's API, and the combinators on it that several
    adapters share.
  \<^item> \<^verbatim>\<open>Sonarr_Convert\<close>, \<^verbatim>\<open>Sonarr\<close>: \<^verbatim>\<open>internal/adapters/sonarr\<close>: the wire types and the
    conversions, then connect, discover, read, diff, apply and direct apply over a service
    with one endpoint per resource. \<^verbatim>\<open>Sonarr_Safety\<close>: typed change sets, no panics, total
    reads. \<^verbatim>\<open>Sonarr_Converge\<close>: end-to-end convergence, and where a pass does not settle.
  \<^item> \<^verbatim>\<open>Collection\<close>: the REST collection a service offers, the interface of an adapter's
    conversions (the locales \<open>wire_codec\<close> and \<open>resource_codec\<close>) and its composition with a
    keyed diff (the locales \<open>codec_collection\<close> and \<open>adapter_collection\<close>), interpreted for the
    collections of Sonarr, Lidarr and Readarr.
  \<^item> \<^verbatim>\<open>Prowlarr_Convert\<close>, \<^verbatim>\<open>Prowlarr\<close>: \<^verbatim>\<open>internal/adapters/prowlarr\<close>, with the package
    variables that cache IDs as explicit state. \<^verbatim>\<open>Prowlarr_Codec\<close>: the four conversions as
    interpretations of \<open>cached_codec\<close>. \<^verbatim>\<open>Prowlarr_Converge\<close>: a pass over the four kinds of
    resources as one keyed collection. \<^verbatim>\<open>Prowlarr_Compiler\<close>: \<^verbatim>\<open>internal/compiler/prowlarr.go\<close>
    and its composition with the adapter. \<^verbatim>\<open>Prowlarr_Reconcile\<close>:
    \<^verbatim>\<open>internal/controller/prowlarrconfig_controller.go\<close>.
  \<^item> \<^verbatim>\<open>Lidarr_Convert\<close>, \<^verbatim>\<open>Lidarr\<close>: \<^verbatim>\<open>internal/adapters/lidarr\<close>, laid out as Sonarr's.
    \<^verbatim>\<open>Lidarr_Converge\<close>: its clients, indexers and custom formats as interpretations of
    \<open>adapter_collection\<close>, the quality profile against a reference, root folders.
  \<^item> \<^verbatim>\<open>Readarr\<close>: \<^verbatim>\<open>internal/adapters/readarr\<close>; \<^verbatim>\<open>Readarr_Converge\<close>: its metadata
    profiles, clients and indexers as interpretations of \<open>codec_collection\<close>, where deletes look
    a resource up by its name, and the round trip of its quality profiles.
  \<^item> \<^verbatim>\<open>Http\<close>: \<^verbatim>\<open>internal/adapters/httpclient\<close> over a transport, and that on a REST
    server its calls are the REST collection of \<^verbatim>\<open>Collection\<close>.
  \<^item> \<^verbatim>\<open>Bazarr\<close>, \<^verbatim>\<open>Bazarr_Client\<close>: \<^verbatim>\<open>internal/adapters/bazarr\<close>: the generator of the settings
    file and the API client. \<^verbatim>\<open>Bazarr_Reconcile\<close>:
    \<^verbatim>\<open>internal/controller/bazarrconfig_controller.go\<close>; \<^verbatim>\<open>Bazarr_Safety\<close>: what it does to the
    cluster's ConfigMaps and reports. \<^verbatim>\<open>Frame\<close>: rules for what a step leaves alone.
  \<^item> \<^verbatim>\<open>Go_Values\<close>: further functions of the standard library on strings, query strings and maps.
    \<^verbatim>\<open>Stack_Types\<close>: \<^verbatim>\<open>api/v1alpha1/downloadstackconfig_types.go\<close>; \<^verbatim>\<open>Gluetun\<close>, \<^verbatim>\<open>Transmission\<close>,
    \<^verbatim>\<open>QBittorrent\<close>, \<^verbatim>\<open>Deluge\<close>, \<^verbatim>\<open>RTorrent\<close>, \<^verbatim>\<open>SABnzbd\<close>, \<^verbatim>\<open>NZBGet\<close>, with the answers of the services
    in \<^verbatim>\<open>Stack_Answers\<close>: \<^verbatim>\<open>internal/adapters/downloadstack\<close>. A client that keeps a session, a
    login or a request number acts on the pair of itself and the world.
    \<^verbatim>\<open>Stack_Sync\<close>, \<^verbatim>\<open>Stack_Reconcile\<close>: \<^verbatim>\<open>internal/controller/downloadstackconfig_controller.go\<close>.
    \<^verbatim>\<open>Wp_Rules\<close>: weakest preconditions of the combinators; \<^verbatim>\<open>Transmission_Session\<close>: the retry
    loop ends and hides the session protocol; \<^verbatim>\<open>Stack_Safety\<close>: what the controller reports.
  \<^item> \<^verbatim>\<open>Registration\<close>: \<^verbatim>\<open>internal/prowlarr/registration.go\<close>; \<^verbatim>\<open>Metrics\<close>:
    \<^verbatim>\<open>internal/metrics\<close>.
  \<^item> \<^verbatim>\<open>Config_Objects\<close>: the accessors of \<^verbatim>\<open>internal/controller/config_interfaces.go\<close> and
    \<^verbatim>\<open>status_wrappers.go\<close>, with the contract of a status wrapper as the locale
    \<open>config_status\<close>, interpreted for five resources. \<^verbatim>\<open>Reconcile_Helper\<close>:
    \<^verbatim>\<open>reconciler.go\<close> (the pipeline, cleanup, secrets, registration, health).
    \<^verbatim>\<open>Reconcile_Status\<close>: what it leaves in the status; \<^verbatim>\<open>Secrets\<close>: that the secrets reach
    the compiler; \<^verbatim>\<open>Sonarr_Reconcile\<close>: the Sonarr adapter under the reconciler.
  \<^item> \<^verbatim>\<open>Generic_Reconciler\<close>: \<^verbatim>\<open>generic_arr_reconciler.go\<close> and the four controllers built on
    it; \<^verbatim>\<open>Lifecycle\<close>: the finalizer protocol and rescheduling. \<^verbatim>\<open>Coordinator\<close>:
    \<^verbatim>\<open>prowlarr_coordinator_controller.go\<close>.

  \<^bold>\<open>How state and effects correspond.\<close> A struct is a record whose selectors carry a prefix
  per struct; a pointer is an \<open>option\<close>; a slice a list; a map an association list. Change
  sets, which the code fills through a pointer, are passed and returned. A call to a service
  is an action on an abstract state \<open>'s\<close>; the service itself, the clock, and JSON plus
  SHA-256 are parameters, and what a theorem needs of them is a hypothesis with a name.
  A panic is a value of \<open>outcome\<close>, so its absence is a theorem.

  \<^bold>\<open>What the theorems show.\<close> From the resource to the service: a Prowlarr config whose
  resources read back as they are sent (\<open>spec_ok\<close> in \<^verbatim>\<open>Prowlarr_Compiler\<close>, which excludes HTTP and
  SOCKS proxies with a request timeout) compiles, one pass over it succeeds, leaves what others own
  alone, and the next pass finds nothing to do; the same holds of Sonarr's and Lidarr's download
  clients and indexers and of Readarr's metadata profiles. Lidarr's custom formats become those of
  the spec, all others being deleted. The diffs are exact for every map order; the apply loop and
  the direct appliers report exactly what each callback answered, and go on whatever fails; change
  sets are typed, so applying them does not panic. The compiler prunes exactly what the service
  lacks, names the resources of the specification after it (the formats of a preset keep the
  preset's names) and keeps the cutoff inside the allowed tiers; URLs round trip, and so do
  authentication settings but for the password; the secrets of all parts but the notifications
  reach the compiler. The reconciler leaves a consistent status, follows the finalizer protocol and
  asks for the next run after exactly the interval or thirty seconds; registrations are idempotent,
  and the status reports as registered what was registered. The HTTP client is a refinement of
  the collections the adapters rely on. Bazarr's settings file is the one generated from the
  spec and its secrets, and its controller touches no ConfigMap of others on deletion. The
  Transmission client's retry loop ends and is transparent; the download stack's controller
  reports success only when every configured client answered. Other theorems state where the
  code does not do this: which custom formats, delay profiles, proxies and applications are
  updated on every pass, that deleting a Prowlarr config leaves its resources behind, that a
  failing apply panics, that an application is registered twice, that a failed
  synchronisation of Bazarr and a failed restart of the download stack are reported as a
  success, that a Deluge server can crash the operator.

  \<^bold>\<open>Bounds.\<close> No loop needs fuel: all recursion is structural or on a decreasing number.
  Integers are unbounded except where the code's width shows (\<^verbatim>\<open>strconv.Atoi\<close> clamps to 64
  bits, \<^verbatim>\<open>float64\<close> rounds to 53, the limits of download clients and request numbers wrap at
  64). Strings are byte lists; \<^verbatim>\<open>ToLower\<close> is written out for
  ASCII.

  \<^bold>\<open>Not modelled.\<close> The adapter of Radarr and discovery. The transport of \<^verbatim>\<open>net/http\<close>, generated deep copies and API clients and process wiring stay outside: they
  are I/O or generated code.
\<close>

end
